(* ===== verification/Forge_Prelude.thy ===== *)
theory Forge_Prelude
  imports Main "HOL-Library.AList" "HOL-Library.Sublist"
begin

text \<open>
  Shared vocabulary of the development: the parts of the TypeScript language and of its
  standard library that the components use (string trimming and searching, decimal
  rendering and parsing of \<^verbatim>\<open>bigint\<close>, truncating \<^verbatim>\<open>bigint\<close> division, plain objects as
  association lists in insertion order) and the generic facts on maps that the ledger, the
  token mock and the vault mock share.

  A TypeScript string is a \<open>string\<close> (a list of code units, here of those below 256); a
  \<^verbatim>\<open>bigint\<close> is an \<open>int\<close>; a \<^verbatim>\<open>number\<close> that only ever holds ledger sequences, counts or
  HTTP codes is an \<open>int\<close> or \<open>nat\<close>; \<^verbatim>\<open>undefined\<close> and \<^verbatim>\<open>null\<close> are \<open>None\<close>; a thrown error
  is the \<open>Inl\<close> side of a sum.
\<close>

named_theorems forge_defs "definitions that the component proofs unfold"
named_theorems forge_splits "case splits of the component proofs"

subsection \<open>Strings\<close>

text \<open>White space as \<^verbatim>\<open>String.prototype.trim\<close> and \<^verbatim>\<open>BigInt\<close> strip it.\<close>

definition js_ws :: "char \<Rightarrow> bool" where
  "js_ws c \<longleftrightarrow> c \<in> set [CHR 0x09, CHR 0x0A, CHR 0x0B, CHR 0x0C, CHR 0x0D, CHR '' '', CHR 0xA0]"

definition js_trim :: "string \<Rightarrow> string" where
  "js_trim s = rev (dropWhile js_ws (rev (dropWhile js_ws s)))"

text \<open>\<^verbatim>\<open>s.includes(t)\<close> and \<^verbatim>\<open>s.startsWith(t)\<close>.\<close>

definition js_includes :: "string \<Rightarrow> string \<Rightarrow> bool" where
  "js_includes s t \<longleftrightarrow> sublist t s"

definition startsWith :: "string \<Rightarrow> string \<Rightarrow> bool" where
  "startsWith s t \<longleftrightarrow> prefix t s"

text \<open>\<^verbatim>\<open>s.padStart(n, c)\<close> for a one-character pad.\<close>

definition padStart :: "string \<Rightarrow> nat \<Rightarrow> char \<Rightarrow> string" where
  "padStart s n c = replicate (n - length s) c @ s"

text \<open>The lower case of an ASCII letter sets bit 5 of the codes 65 to 90.\<close>

fun isUpper :: "char \<Rightarrow> bool" where
  "isUpper (Char b0 b1 b2 b3 b4 b5 b6 b7) \<longleftrightarrow>
     \<not> b7 \<and> b6 \<and> \<not> b5 \<and> (b0 \<or> b1 \<or> b2 \<or> b3 \<or> b4) \<and> \<not> (b4 \<and> b3 \<and> (b2 \<or> b1 \<and> b0))"

fun lower :: "char \<Rightarrow> char" where
  "lower (Char b0 b1 b2 b3 b4 b5 b6 b7) =
     Char b0 b1 b2 b3 b4 (b5 \<or> isUpper (Char b0 b1 b2 b3 b4 b5 b6 b7)) b6 b7"

text \<open>A string that is neither \<^verbatim>\<open>null\<close> nor empty counts as true.\<close>

definition truthy :: "string option \<Rightarrow> bool" where
  "truthy s \<longleftrightarrow> s \<noteq> None \<and> s \<noteq> Some []"

subsection \<open>Decimal rendering and parsing of bigint\<close>

definition digit_char :: "nat \<Rightarrow> char" where
  "digit_char d = ''0123456789'' ! d"

definition isDigit :: "char \<Rightarrow> bool" where
  "isDigit c \<longleftrightarrow> c \<in> set ''0123456789''"

fun show_nat :: "nat \<Rightarrow> string" where
  "show_nat n = (if n < 10 then [digit_char n] else show_nat (n div 10) @ [digit_char (n mod 10)])"

declare show_nat.simps [simp del]

text \<open>\<^verbatim>\<open>value.toString()\<close> of a bigint.\<close>

definition show_int :: "int \<Rightarrow> string" where
  "show_int i = (if i < 0 then CHR ''-'' # show_nat (nat (- i)) else show_nat (nat i))"

text \<open>The value of a digit in a radix of at most 16; \<open>None\<close> when it is not such a digit.\<close>

definition digit_val :: "char \<Rightarrow> nat option" where
  "digit_val c = (let n = of_char c :: nat in
     if 48 \<le> n \<and> n \<le> 57 then Some (n - 48)
     else if 97 \<le> n \<and> n \<le> 102 then Some (n - 87)
     else if 65 \<le> n \<and> n \<le> 70 then Some (n - 55)
     else None)"

fun radix_acc :: "nat \<Rightarrow> nat \<Rightarrow> string \<Rightarrow> nat option" where
  "radix_acc b acc [] = Some acc"
| "radix_acc b acc (c # cs) =
     (case digit_val c of
        None \<Rightarrow> None
      | Some d \<Rightarrow> if d < b then radix_acc b (acc * b + d) cs else None)"

definition parse_radix :: "nat \<Rightarrow> string \<Rightarrow> nat option" where
  "parse_radix b s = (if s = [] then None else radix_acc b 0 s)"

text \<open>
  \<^verbatim>\<open>BigInt(s)\<close> on a string: white space around the literal is dropped, the empty
  string is zero, a sign is allowed before a decimal literal only, the prefixes
  \<^verbatim>\<open>0x\<close>, \<^verbatim>\<open>0o\<close> and \<^verbatim>\<open>0b\<close> select a radix, and everything else is a
  \<^verbatim>\<open>SyntaxError\<close> (\<open>None\<close>).
\<close>

definition BigInt :: "string \<Rightarrow> int option" where
  "BigInt s0 = (let s = js_trim s0 in
     if s = [] then Some 0
     else if take 2 s = ''0x'' \<or> take 2 s = ''0X'' then map_option int (parse_radix 16 (drop 2 s))
     else if take 2 s = ''0o'' \<or> take 2 s = ''0O'' then map_option int (parse_radix 8 (drop 2 s))
     else if take 2 s = ''0b'' \<or> take 2 s = ''0B'' then map_option int (parse_radix 2 (drop 2 s))
     else if hd s = CHR ''-'' then map_option (\<lambda>n. - int n) (parse_radix 10 (tl s))
     else if hd s = CHR ''+'' then map_option int (parse_radix 10 (tl s))
     else map_option int (parse_radix 10 s))"

text \<open>Division of bigints truncates towards zero.\<close>

definition bigint_div :: "int \<Rightarrow> int \<Rightarrow> int" where
  "bigint_div a b = sgn a * sgn b * (\<bar>a\<bar> div \<bar>b\<bar>)"

subsection \<open>Maps with a default of zero\<close>

text \<open>\<^verbatim>\<open>m[k] ?? 0n\<close>.\<close>

definition orZero :: "('k \<rightharpoonup> int) \<Rightarrow> 'k \<Rightarrow> int" where
  "orZero m k = (case m k of None \<Rightarrow> 0 | Some v \<Rightarrow> v)"

text \<open>The sum of the values of a map with a finite domain.\<close>

definition msum :: "('k \<rightharpoonup> int) \<Rightarrow> int" where
  "msum m = (\<Sum>k \<in> dom m. the (m k))"

subsection \<open>Lemmas on strings\<close>

lemma js_trim_Nil [simp]: "js_trim [] = []"
  by (simp add: js_trim_def)

lemma js_trim_id:
  assumes "s \<noteq> []" and "\<not> js_ws (hd s)" and "\<not> js_ws (last s)"
  shows "js_trim s = s"
proof -
  have "dropWhile js_ws s = s"
    using assms(1,2) by (cases s) auto
  moreover have "dropWhile js_ws (rev s) = rev s"
    using assms(1,3) by (cases s rule: rev_cases) auto
  ultimately show ?thesis by (simp add: js_trim_def)
qed

lemma hd_dropWhile_neg: "dropWhile P xs \<noteq> [] \<Longrightarrow> \<not> P (hd (dropWhile P xs))"
  by (rule hd_dropWhile)

lemma js_trim_hd:
  assumes "js_trim s \<noteq> []"
  shows "\<not> js_ws (hd (js_trim s))"
proof -
  let ?t = "dropWhile js_ws s"
  have "prefix (js_trim s) ?t"
    unfolding js_trim_def
    by (metis rev_rev_ident suffix_dropWhile suffix_to_prefix)
  then obtain u where u: "?t = js_trim s @ u" by (auto simp: prefix_def)
  with assms have "hd ?t = hd (js_trim s)" and "?t \<noteq> []" by auto
  with hd_dropWhile_neg [of js_ws s] show ?thesis by simp
qed

lemma js_trim_last:
  assumes "js_trim s \<noteq> []"
  shows "\<not> js_ws (last (js_trim s))"
  using assms hd_dropWhile_neg [of js_ws "rev (dropWhile js_ws s)"]
  by (simp add: js_trim_def last_rev)

lemma js_trim_idem [simp]: "js_trim (js_trim s) = js_trim s"
proof (cases "js_trim s = []")
  case False
  then show ?thesis by (intro js_trim_id js_trim_hd js_trim_last)
qed simp

lemma js_includes_refl [simp]: "js_includes s s"
  by (simp add: js_includes_def)

lemma js_includes_append [simp]: "js_includes (a @ t @ b) t"
  by (auto simp: js_includes_def sublist_def)

lemma length_padStart [simp]: "length (padStart s n c) = max n (length s)"
  by (simp add: padStart_def)

subsection \<open>Rendering and parsing are inverse\<close>

lemma nat_less_10_cases:
  "(d::nat) < 10 \<Longrightarrow> d = 0 \<or> d = 1 \<or> d = 2 \<or> d = 3 \<or> d = 4 \<or> d = 5 \<or> d = 6 \<or> d = 7 \<or> d = 8 \<or> d = 9"
  by arith

lemma digit_val_digit_char [simp]: "d < 10 \<Longrightarrow> digit_val (digit_char d) = Some d"
  by (drule nat_less_10_cases) (auto simp: digit_val_def digit_char_def)

lemma digit_char_shape:
  "d < 10 \<Longrightarrow> \<not> js_ws (digit_char d) \<and> digit_char d \<in> set ''0123456789''"
  by (drule nat_less_10_cases) (auto simp: js_ws_def digit_char_def)

lemma show_nat_not_Nil [simp]: "show_nat n \<noteq> []"
  by (subst show_nat.simps) simp

lemma set_show_nat: "set (show_nat n) \<subseteq> set ''0123456789''"
proof (induction n rule: show_nat.induct)
  case (1 n)
  show ?case
  proof (cases "n < 10")
    case True
    then show ?thesis using digit_char_shape [of n] by (subst show_nat.simps) simp
  next
    case False
    then have "show_nat n = show_nat (n div 10) @ [digit_char (n mod 10)]"
      by (subst show_nat.simps) simp
    with 1 [OF False] digit_char_shape [of "n mod 10"] show ?thesis by auto
  qed
qed

lemma radix_acc_append:
  "radix_acc b acc (xs @ ys) =
     (case radix_acc b acc xs of None \<Rightarrow> None | Some a \<Rightarrow> radix_acc b a ys)"
  by (induction xs arbitrary: acc) (auto split: option.splits)

lemma radix_acc_show_nat: "radix_acc 10 0 (show_nat n) = Some n"
proof (induction n rule: show_nat.induct)
  case (1 n)
  show ?case
  proof (cases "n < 10")
    case True
    then show ?thesis by (subst show_nat.simps) simp
  next
    case False
    have "show_nat n = show_nat (n div 10) @ [digit_char (n mod 10)]"
      using False by (subst show_nat.simps) simp
    with 1 [OF False] show ?thesis by (simp add: radix_acc_append)
  qed
qed

lemma parse_radix_show_nat [simp]: "parse_radix 10 (show_nat n) = Some n"
  by (simp add: parse_radix_def radix_acc_show_nat)

lemma show_nat_ends:
  "hd (show_nat n) \<in> set ''0123456789''" "last (show_nat n) \<in> set ''0123456789''"
  using set_show_nat [of n] hd_in_set [of "show_nat n"] last_in_set [of "show_nat n"]
  by (auto simp del: list.set)

lemma decimal_not_ws: "c \<in> set ''0123456789'' \<Longrightarrow> \<not> js_ws c"
  by (auto simp: js_ws_def)

lemma js_trim_show_int [simp]: "js_trim (show_int i) = show_int i"
proof (rule js_trim_id)
  show "show_int i \<noteq> []" by (simp add: show_int_def)
  show "\<not> js_ws (hd (show_int i))"
    using decimal_not_ws [OF show_nat_ends(1)] by (simp add: show_int_def js_ws_def)
  show "\<not> js_ws (last (show_int i))"
    using decimal_not_ws [OF show_nat_ends(2)] by (simp add: show_int_def)
qed

lemma take2_show_nat:
  "x \<notin> set ''0123456789'' \<Longrightarrow> take 2 (show_nat n) \<noteq> [a, x]"
proof
  assume "x \<notin> set ''0123456789''" and "take 2 (show_nat n) = [a, x]"
  then have "x \<in> set (show_nat n)"
    by (metis in_set_takeD list.set_intros(1) list.set_intros(2))
  with set_show_nat [of n] \<open>x \<notin> set ''0123456789''\<close> show False by blast
qed

lemma BigInt_show_int [simp]: "BigInt (show_int i) = Some i"
proof (cases "i < 0")
  case True
  then show ?thesis
    by (simp add: BigInt_def Let_def) (simp add: show_int_def)
next
  case False
  have n: "hd (show_nat (nat i)) \<noteq> CHR ''-''" "hd (show_nat (nat i)) \<noteq> CHR ''+''"
    using show_nat_ends(1) [of "nat i"] by auto
  from False n show ?thesis
    by (simp add: BigInt_def Let_def) (simp add: show_int_def take2_show_nat)
qed

lemma show_int_inject [simp]: "show_int i = show_int j \<longleftrightarrow> i = j"
  by (metis BigInt_show_int option.inject)

lemma show_int_not_Nil [simp]: "show_int i \<noteq> []"
  by (simp add: show_int_def)

subsection \<open>Lemmas on maps\<close>

lemma orZero_simps [simp]:
  "orZero Map.empty k = 0"
  "orZero (m(k \<mapsto> v)) k' = (if k' = k then v else orZero m k')"
  "orZero (m(k := None)) k' = (if k' = k then 0 else orZero m k')"
  by (auto simp: orZero_def)

lemma msum_empty [simp]: "msum Map.empty = 0"
  by (simp add: msum_def)

lemma msum_del:
  assumes "finite (dom m)"
  shows "msum (m(k := None)) = msum m - orZero m k"
proof (cases "m k")
  case None
  then have "m(k := None) = m" by (auto simp: fun_eq_iff)
  with None show ?thesis by (simp add: orZero_def)
next
  case (Some v)
  have "(\<Sum>x \<in> dom m - {k}. the ((m(k := None)) x)) = (\<Sum>x \<in> dom m - {k}. the (m x))"
    by (rule sum.cong) auto
  moreover have "k \<in> dom m" using Some by auto
  ultimately show ?thesis
    using Some assms by (simp add: msum_def orZero_def sum_diff1)
qed

lemma msum_upd:
  assumes "finite (dom m)"
  shows "msum (m(k \<mapsto> v)) = msum m - orZero m k + v"
proof -
  have fin: "finite (dom (m(k := None)))"
    using assms by (rule finite_subset [rotated]) (auto split: if_splits)
  have "msum (m(k \<mapsto> v)) = (\<Sum>x \<in> insert k (dom (m(k := None))). the ((m(k \<mapsto> v)) x))"
    unfolding msum_def by (rule sum.cong) auto
  also have "\<dots> = v + (\<Sum>x \<in> dom (m(k := None)). the ((m(k \<mapsto> v)) x))"
    using fin by (subst sum.insert) auto
  also have "(\<Sum>x \<in> dom (m(k := None)). the ((m(k \<mapsto> v)) x)) = msum (m(k := None))"
    unfolding msum_def by (rule sum.cong) (auto split: if_splits)
  also have "v + \<dots> = msum m - orZero m k + v"
    by (simp add: msum_del [OF assms])
  finally show ?thesis .
qed

lemma orZero_le_msum:
  assumes "finite (dom m)" and "\<And>a v. m a = Some v \<Longrightarrow> 0 \<le> v"
  shows "orZero m k \<le> msum m"
proof (cases "m k")
  case None
  have "0 \<le> msum m" unfolding msum_def using assms(2) by (intro sum_nonneg) auto
  with None show ?thesis by (simp add: orZero_def)
next
  case (Some v)
  have "the (m k) \<le> (\<Sum>x \<in> dom m. the (m x))"
    using assms Some by (intro member_le_sum) auto
  with Some show ?thesis by (simp add: orZero_def msum_def)
qed

subsection \<open>Lemmas on bigint division\<close>

lemma bigint_div_nonneg: "0 \<le> a \<Longrightarrow> 0 < b \<Longrightarrow> bigint_div a b = a div b"
  by (cases "a = 0") (auto simp: bigint_div_def)

lemma bigint_div_mult_le: "0 \<le> a \<Longrightarrow> 0 < b \<Longrightarrow> bigint_div a b * b \<le> a"
  by (simp add: bigint_div_nonneg minus_mod_eq_div_mult [symmetric])

end
