(* ===== verification/Ledger.thy ===== *)
theory Ledger
  imports Forge_Prelude "HOL-Library.Multiset"
begin

text \<open>
  The pure ledger arithmetic of the indexer, \<^verbatim>\<open>src/indexer/src/ledger.ts\<close>: the events a
  token contract emits, the signed balance deltas and the supply delta of one event, and
  the fold that derives the holders and the total supply from a stream of events. Amounts
  are decimal strings, so every operation fails when one does not parse as a bigint.

  The lemmas give the fold a closed form (the balance of an address is the sum of its
  deltas, an address is present exactly when that sum is not zero), from which the
  independence of the event order and the conservation of supply follow.
\<close>

subsection \<open>Model\<close>

datatype LedgerEvent =
    EvMint string string             \<comment> \<open>to, amount\<close>
  | EvTransfer string string string  \<comment> \<open>from, to, amount\<close>
  | EvBurn string string             \<comment> \<open>from, amount\<close>

record LedgerState =
  balances :: "string \<rightharpoonup> int"
  supply_of :: int

definition toBigInt :: "string \<Rightarrow> int option" where
  "toBigInt amount = BigInt amount"

definition fromBigInt :: "int \<Rightarrow> string" where
  "fromBigInt value = show_int value"

text \<open>\<open>None\<close> is the \<^verbatim>\<open>SyntaxError\<close> of an amount that is no integer literal.\<close>

fun deltasFor :: "LedgerEvent \<Rightarrow> (string \<times> int) list option" where
  "deltasFor (EvMint to amount) = map_option (\<lambda>n. [(to, n)]) (toBigInt amount)"
| "deltasFor (EvBurn from amount) = map_option (\<lambda>n. [(from, - n)]) (toBigInt amount)"
| "deltasFor (EvTransfer from to amount) =
     map_option (\<lambda>n. [(from, - n), (to, n)]) (toBigInt amount)"

fun supplyDeltaFor :: "LedgerEvent \<Rightarrow> int option" where
  "supplyDeltaFor (EvMint to amount) = toBigInt amount"
| "supplyDeltaFor (EvBurn from amount) = map_option uminus (toBigInt amount)"
| "supplyDeltaFor (EvTransfer from to amount) = Some 0"

definition emptyLedgerState :: LedgerState where
  "emptyLedgerState = \<lparr>balances = Map.empty, supply_of = 0\<rparr>"

text \<open>The body of the loop over the deltas.\<close>

definition applyDelta :: "(string \<rightharpoonup> int) \<Rightarrow> string \<times> int \<Rightarrow> (string \<rightharpoonup> int)" where
  "applyDelta m ad = (let next = orZero m (fst ad) + snd ad in
     if next = 0 then m(fst ad := None) else m(fst ad \<mapsto> next))"

definition applyLedgerEvent :: "LedgerState \<Rightarrow> LedgerEvent \<Rightarrow> LedgerState option" where
  "applyLedgerEvent state event =
     (case deltasFor event of
        None \<Rightarrow> None
      | Some ds \<Rightarrow>
          let state1 = state\<lparr>balances := foldl applyDelta (balances state) ds\<rparr> in
          (case supplyDeltaFor event of
             None \<Rightarrow> None
           | Some d \<Rightarrow> Some (state1\<lparr>supply_of := supply_of state1 + d\<rparr>)))"

fun foldEvents :: "LedgerState \<Rightarrow> LedgerEvent list \<Rightarrow> LedgerState option" where
  "foldEvents state [] = Some state"
| "foldEvents state (event # events) =
     (case applyLedgerEvent state event of
        None \<Rightarrow> None
      | Some state' \<Rightarrow> foldEvents state' events)"

definition foldLedgerEvents :: "LedgerEvent list \<Rightarrow> LedgerState option" where
  "foldLedgerEvents events = foldEvents emptyLedgerState events"

subsection \<open>Specification\<close>

text \<open>
  What the fold is to compute, without any state: an event moves the balance of an
  address by \<open>netDelta\<close> and the supply by \<open>netSupply\<close>.
\<close>

fun amountOf :: "LedgerEvent \<Rightarrow> string" where
  "amountOf (EvMint to amount) = amount"
| "amountOf (EvTransfer from to amount) = amount"
| "amountOf (EvBurn from amount) = amount"

definition parses :: "LedgerEvent \<Rightarrow> bool" where
  "parses e \<longleftrightarrow> toBigInt (amountOf e) \<noteq> None"

definition amountVal :: "LedgerEvent \<Rightarrow> int" where
  "amountVal e = (case toBigInt (amountOf e) of None \<Rightarrow> 0 | Some n \<Rightarrow> n)"

fun netDelta :: "string \<Rightarrow> LedgerEvent \<Rightarrow> int" where
  "netDelta a (EvMint to n) = (if a = to then amountVal (EvMint to n) else 0)"
| "netDelta a (EvBurn from n) = (if a = from then - amountVal (EvBurn from n) else 0)"
| "netDelta a (EvTransfer from to n) =
     (if a = to then amountVal (EvTransfer from to n) else 0)
     - (if a = from then amountVal (EvTransfer from to n) else 0)"

fun netSupply :: "LedgerEvent \<Rightarrow> int" where
  "netSupply (EvMint to n) = amountVal (EvMint to n)"
| "netSupply (EvBurn from n) = - amountVal (EvBurn from n)"
| "netSupply (EvTransfer from to n) = 0"

definition mkmap :: "('k \<Rightarrow> int) \<Rightarrow> ('k \<rightharpoonup> int)" where
  "mkmap f = (\<lambda>a. if f a = 0 then None else Some (f a))"

definition specState :: "LedgerEvent list \<Rightarrow> LedgerState" where
  "specState es =
     \<lparr>balances = mkmap (\<lambda>a. sum_list (map (netDelta a) es)), supply_of = sum_list (map netSupply es)\<rparr>"

text \<open>
  The invariant of a derived state: finitely many holders, none with a zero balance, and a
  supply that is the sum of the balances.
\<close>

definition ledger_inv :: "LedgerState \<Rightarrow> bool" where
  "ledger_inv s \<longleftrightarrow> finite (dom (balances s)) \<and> (\<forall>a. balances s a \<noteq> Some 0)
     \<and> supply_of s = msum (balances s)"

subsection \<open>The fold computes the specification\<close>

lemma orZero_mkmap [simp]: "orZero (mkmap f) a = f a"
  by (simp add: orZero_def mkmap_def)

lemma mkmap_zero [simp]: "mkmap (\<lambda>_. 0) = Map.empty"
  by (simp add: mkmap_def)

lemma mkmap_orZero: "(\<forall>a. m a \<noteq> Some 0) \<Longrightarrow> mkmap (orZero m) = m"
  by (auto simp: mkmap_def orZero_def fun_eq_iff split: option.splits)

lemma mkmap_cong: "(\<And>a. f a = g a) \<Longrightarrow> mkmap f = mkmap g"
  by (rule arg_cong [where f = mkmap]) (rule ext)

lemma applyDelta_mkmap:
  "applyDelta (mkmap f) (a, d) = mkmap (\<lambda>x. f x + (if x = a then d else 0))"
  by (auto simp: applyDelta_def mkmap_def orZero_def Let_def fun_eq_iff)

lemma applyLedgerEvent_mkmap:
  "applyLedgerEvent \<lparr>balances = mkmap f, supply_of = n\<rparr> e =
     (if parses e
      then Some \<lparr>balances = mkmap (\<lambda>a. f a + netDelta a e), supply_of = n + netSupply e\<rparr>
      else None)"
proof (cases "toBigInt (amountOf e)")
  case None
  then show ?thesis by (cases e) (auto simp: applyLedgerEvent_def parses_def)
next
  case (Some v)
  then have v: "amountVal e = v" by (simp add: amountVal_def)
  show ?thesis
    using Some v
    by (cases e) (auto simp: applyLedgerEvent_def parses_def applyDelta_mkmap intro!: mkmap_cong)
qed

lemma foldEvents_mkmap:
  "foldEvents \<lparr>balances = mkmap f, supply_of = n\<rparr> es =
     (if list_all parses es
      then Some \<lparr>balances = mkmap (\<lambda>a. f a + sum_list (map (netDelta a) es)),
                 supply_of = n + sum_list (map netSupply es)\<rparr>
      else None)"
  by (induction es arbitrary: f n) (auto simp: applyLedgerEvent_mkmap add.assoc)

lemma foldLedgerEvents_spec:
  "foldLedgerEvents es = (if list_all parses es then Some (specState es) else None)"
  using foldEvents_mkmap [of "\<lambda>_. 0" 0 es]
  by (simp add: foldLedgerEvents_def emptyLedgerState_def specState_def)

lemma foldLedgerEvents_append:
  "foldLedgerEvents (es @ [e]) =
     (case foldLedgerEvents es of None \<Rightarrow> None | Some s \<Rightarrow> applyLedgerEvent s e)"
  by (auto simp: foldLedgerEvents_spec specState_def applyLedgerEvent_mkmap)

lemma sum_list_map_mset: "mset xs = mset ys \<Longrightarrow> sum_list (map f xs) = sum_list (map (f :: _ \<Rightarrow> int) ys)"
  by (metis mset_map sum_mset_sum_list)

lemma list_all_mset: "mset xs = mset ys \<Longrightarrow> list_all P xs = list_all P ys"
  by (metis list_all_iff set_mset_mset)

subsection \<open>The invariant\<close>

lemma applyDelta_inv:
  assumes "finite (dom m)" and "\<forall>a. m a \<noteq> Some 0"
  shows "finite (dom (applyDelta m ad)) \<and> (\<forall>a. applyDelta m ad a \<noteq> Some 0)
     \<and> msum (applyDelta m ad) = msum m + snd ad"
proof -
  have "finite (dom (m(fst ad := None)))"
    using assms(1) by (rule finite_subset [rotated]) (auto split: if_splits)
  then show ?thesis using assms
    by (auto simp: applyDelta_def Let_def msum_upd msum_del)
qed

lemma foldl_applyDelta_inv:
  "finite (dom m) \<Longrightarrow> \<forall>a. m a \<noteq> Some 0 \<Longrightarrow>
   finite (dom (foldl applyDelta m ds)) \<and> (\<forall>a. foldl applyDelta m ds a \<noteq> Some 0)
     \<and> msum (foldl applyDelta m ds) = msum m + sum_list (map snd ds)"
proof (induction ds arbitrary: m)
  case (Cons d ds)
  from applyDelta_inv [OF Cons.prems, of d] Cons.IH [of "applyDelta m d"] show ?case by simp
qed simp

lemma deltas_sum_supply:
  "deltasFor e = Some ds \<Longrightarrow> supplyDeltaFor e = Some (sum_list (map snd ds))"
  by (cases e) auto

lemma ledger_inv_empty [simp]: "ledger_inv emptyLedgerState"
  by (simp add: ledger_inv_def emptyLedgerState_def)

lemma applyLedgerEvent_inv:
  assumes "ledger_inv s" and "applyLedgerEvent s e = Some s'"
  shows "ledger_inv s'"
proof -
  obtain ds where ds: "deltasFor e = Some ds"
    using assms(2) by (auto simp: applyLedgerEvent_def split: option.splits)
  with assms show ?thesis
    using foldl_applyDelta_inv [of "balances s" ds] deltas_sum_supply [OF ds]
    by (auto simp: applyLedgerEvent_def ledger_inv_def)
qed

lemma foldEvents_inv: "ledger_inv s \<Longrightarrow> foldEvents s es = Some s' \<Longrightarrow> ledger_inv s'"
  by (induction es arbitrary: s) (auto split: option.splits dest: applyLedgerEvent_inv)

subsection \<open>Properties\<close>

text \<open>
  C1: the fold over a stream of events fails exactly when some amount is no integer
  literal, and otherwise returns the state in which every address holds the sum of its
  deltas, addresses that net to zero are absent, and the supply is mints minus burns.
\<close>

theorem foldLedgerEvents_closed_form:
  "foldLedgerEvents es =
     (if list_all (\<lambda>e. toBigInt (amountOf e) \<noteq> None) es
      then Some \<lparr>balances = (\<lambda>a. let n = \<Sum>e\<leftarrow>es. netDelta a e in if n = 0 then None else Some n),
                 supply_of = (\<Sum>e\<leftarrow>es. netSupply e)\<rparr>
      else None)"
  by (simp add: foldLedgerEvents_spec specState_def mkmap_def parses_def [abs_def] Let_def)

text \<open>
  C2: every state the fold reaches conserves supply (it is the sum of the holder balances),
  has finitely many holders and lists no holder with a zero balance.
\<close>

theorem foldLedgerEvents_conserves_supply:
  assumes "foldLedgerEvents es = Some s"
  shows "supply_of s = msum (balances s) \<and> finite (dom (balances s)) \<and> (\<forall>a. balances s a \<noteq> Some 0)"
  using foldEvents_inv [OF ledger_inv_empty, of es s] assms
  by (simp add: foldLedgerEvents_def ledger_inv_def)

theorem foldLedgerEvents_conserves_supply_witness:
  "\<exists>s. foldLedgerEvents [EvMint ''A'' ''10'', EvTransfer ''A'' ''B'' ''4'', EvBurn ''A'' ''6''] = Some s
     \<and> balances s ''B'' = Some 4 \<and> balances s ''A'' = None \<and> supply_of s = msum (balances s)"
proof -
  let ?es = "[EvMint ''A'' ''10'', EvTransfer ''A'' ''B'' ''4'', EvBurn ''A'' ''6'']"
  have n: "toBigInt ''10'' = Some 10" "toBigInt ''4'' = Some 4" "toBigInt ''6'' = Some 6"
    unfolding toBigInt_def by code_simp+
  then have f: "foldLedgerEvents ?es = Some (specState ?es)"
    by (simp add: foldLedgerEvents_spec parses_def)
  show ?thesis
    using foldLedgerEvents_conserves_supply [OF f] f n
    by (auto simp: specState_def mkmap_def amountVal_def)
qed

text \<open>
  The derived holders and supply do not depend on the order in which the events are
  folded; two streams with the same events give the same state, or both fail.
\<close>

theorem foldLedgerEvents_order_independent:
  assumes "mset es = mset es'"
  shows "foldLedgerEvents es = foldLedgerEvents es'"
  using sum_list_map_mset [OF assms] list_all_mset [OF assms]
  by (simp add: foldLedgerEvents_spec specState_def)

theorem foldLedgerEvents_order_independent_witness:
  "foldLedgerEvents [EvTransfer ''A'' ''B'' ''4'', EvMint ''A'' ''4''] =
   foldLedgerEvents [EvMint ''A'' ''4'', EvTransfer ''A'' ''B'' ''4'']"
  by (rule foldLedgerEvents_order_independent) simp

end
