(* ===== verification/Forge_Effects.thy ===== *)
theory Forge_Effects
  imports Forge_Prelude
begin

text \<open>
  Effects: an \<^verbatim>\<open>async\<close> function that reads and writes some state and may throw is a
  function from a state to a result (\<open>Inl\<close> the thrown error, \<open>Inr\<close> the value it resolves
  to) and the state it leaves behind, also when it throws. \<open>ret\<close>, \<open>throw\<close>, \<open>andThen\<close>,
  \<open>tryCatch\<close> and \<open>forEach\<close> are the control flow of the source; \<open>transaction\<close> is Prisma's
  interactive transaction, which restores the state when its body throws.

  \<open>keeps P f\<close> says that \<open>f\<close> leaves every state that satisfies \<open>P\<close> in one that satisfies
  \<open>P\<close>, whether it throws or not; its introduction rules let an invariant proof follow the
  program text.

  The errors the code throws and the native JavaScript values it passes around stand first.
\<close>

subsection \<open>Errors and values\<close>

datatype js_error =
    SyntaxError             \<comment> \<open>\<^verbatim>\<open>BigInt\<close> of a malformed literal\<close>
  | TypeError               \<comment> \<open>a property of \<^verbatim>\<open>undefined\<close> or \<^verbatim>\<open>null\<close>\<close>
  | RangeError              \<comment> \<open>division of a bigint by zero\<close>
  | PrismaError string      \<comment> \<open>an error with this \<^verbatim>\<open>code\<close>\<close>
  | JsError string          \<comment> \<open>\<^verbatim>\<open>new Error(message)\<close>\<close>

text \<open>The native values \<^verbatim>\<open>scValToNative\<close> produces.\<close>

datatype Native =
    NUndef
  | NNull
  | NBool bool
  | NNum int
  | NBig int
  | NStr string
  | NList "Native list"
  | NObj "(string \<times> Native) list"

text \<open>Truth of a native value in a condition.\<close>

fun nativeTruthy :: "Native \<Rightarrow> bool" where
  "nativeTruthy (NBool b) = b"
| "nativeTruthy (NNum i) = (i \<noteq> 0)"
| "nativeTruthy (NBig i) = (i \<noteq> 0)"
| "nativeTruthy (NStr t) = (t \<noteq> [])"
| "nativeTruthy (NList vs) = True"
| "nativeTruthy (NObj fs) = True"
| "nativeTruthy _ = False"

subsection \<open>Effects\<close>

type_synonym ('e, 's, 'a) act = "'s \<Rightarrow> ('e + 'a) \<times> 's"

definition ret :: "'a \<Rightarrow> ('e, 's, 'a) act" where
  "ret x s = (Inr x, s)"

definition throw :: "'e \<Rightarrow> ('e, 's, 'a) act" where
  "throw e s = (Inl e, s)"

definition andThen :: "('e, 's, 'a) act \<Rightarrow> ('a \<Rightarrow> ('e, 's, 'b) act) \<Rightarrow> ('e, 's, 'b) act" where
  "andThen f g s = (case f s of (Inl e, s') \<Rightarrow> (Inl e, s') | (Inr x, s') \<Rightarrow> g x s')"

definition tryCatch :: "('e, 's, 'a) act \<Rightarrow> ('e \<Rightarrow> ('d, 's, 'a) act) \<Rightarrow> ('d, 's, 'a) act" where
  "tryCatch f h s = (case f s of (Inl e, s') \<Rightarrow> h e s' | (Inr x, s') \<Rightarrow> (Inr x, s'))"

fun forEach :: "('a \<Rightarrow> ('e, 's, unit) act) \<Rightarrow> 'a list \<Rightarrow> ('e, 's, unit) act" where
  "forEach f [] = ret ()"
| "forEach f (x # xs) = andThen (f x) (\<lambda>_. forEach f xs)"

definition transaction :: "('e, 's, 'a) act \<Rightarrow> ('e, 's, 'a) act" where
  "transaction f s = (case f s of (Inl e, s') \<Rightarrow> (Inl e, s) | (Inr x, s') \<Rightarrow> (Inr x, s'))"

text \<open>Turning a failed lookup or a parse error into a throw.\<close>

definition orThrow :: "'e \<Rightarrow> 'a option \<Rightarrow> ('e, 's, 'a) act" where
  "orThrow e x = (case x of None \<Rightarrow> throw e | Some v \<Rightarrow> ret v)"

definition fromSum :: "'e + 'a \<Rightarrow> ('e, 's, 'a) act" where
  "fromSum r = (case r of Inl e \<Rightarrow> throw e | Inr x \<Rightarrow> ret x)"

subsection \<open>Computation rules\<close>

lemma ret_apply [simp]: "ret x s = (Inr x, s)"
  by (simp add: ret_def)

lemma throw_apply [simp]: "throw e s = (Inl e, s)"
  by (simp add: throw_def)

lemma andThen_ret [simp]: "andThen (ret x) g = g x"
  by (simp add: andThen_def fun_eq_iff)

lemma andThen_throw [simp]: "andThen (throw e) g = throw e"
  by (simp add: andThen_def fun_eq_iff)

lemma andThen_Pair [simp]:
  "andThen (Pair (Inr x)) g = g x" "andThen (Pair (Inl e)) g = Pair (Inl e)"
  by (simp_all add: andThen_def fun_eq_iff)

lemma andThen_Inr: "f s = (Inr x, s') \<Longrightarrow> andThen f g s = g x s'"
  by (simp add: andThen_def)

lemma andThen_Inl: "f s = (Inl e, s') \<Longrightarrow> andThen f g s = (Inl e, s')"
  by (simp add: andThen_def)

lemma andThen_Inr_iff:
  "andThen f g s = (Inr y, t) \<longleftrightarrow> (\<exists>x s'. f s = (Inr x, s') \<and> g x s' = (Inr y, t))"
  by (auto simp: andThen_def split: prod.splits sum.splits)

lemma andThen_Inl_iff:
  "andThen f g s = (Inl e, t) \<longleftrightarrow>
     f s = (Inl e, t) \<or> (\<exists>x s'. f s = (Inr x, s') \<and> g x s' = (Inl e, t))"
  by (auto simp: andThen_def split: prod.splits sum.splits)

lemma andThen_assoc: "andThen (andThen f g) h = andThen f (\<lambda>x. andThen (g x) h)"
  by (auto simp: andThen_def fun_eq_iff split: prod.splits sum.splits)

lemma orThrow_simps [simp]:
  "orThrow e None = throw e" "orThrow e (Some v) = ret v"
  by (simp_all add: orThrow_def)

lemma orThrow_Inr_iff: "orThrow e x s = (Inr v, s') \<longleftrightarrow> x = Some v \<and> s' = s"
  by (cases x) auto

lemma fromSum_Inr_iff: "fromSum r s = (Inr x, s') \<longleftrightarrow> r = Inr x \<and> s' = s"
  by (auto simp: fromSum_def split: sum.splits)

lemma transaction_Inr_iff: "transaction f s = (Inr x, s') \<longleftrightarrow> f s = (Inr x, s')"
  by (auto simp: transaction_def split: prod.splits sum.splits)

lemma transaction_Inl: "transaction f s = (Inl e, s') \<Longrightarrow> s' = s"
  by (auto simp: transaction_def split: prod.splits sum.splits)

lemma transaction_throws: "f s = (Inl e, s') \<Longrightarrow> transaction f s = (Inl e, s)"
  by (simp add: transaction_def)

lemma forEach_append: "forEach f (xs @ ys) = andThen (forEach f xs) (\<lambda>_. forEach f ys)"
  by (induction xs) (simp_all add: andThen_assoc)

lemmas act_Inr_iffs = andThen_Inr_iff orThrow_Inr_iff fromSum_Inr_iff transaction_Inr_iff

subsection \<open>Invariants of effects\<close>

definition keeps :: "('s \<Rightarrow> bool) \<Rightarrow> ('e, 's, 'a) act \<Rightarrow> bool" where
  "keeps P f \<longleftrightarrow> (\<forall>s. P s \<longrightarrow> P (snd (f s)))"

lemma keepsI: "(\<And>s. P s \<Longrightarrow> P (snd (f s))) \<Longrightarrow> keeps P f"
  by (simp add: keeps_def)

lemma keepsD: "keeps P f \<Longrightarrow> P s \<Longrightarrow> P (snd (f s))"
  by (simp add: keeps_def)

lemma keeps_ret [intro, simp]: "keeps P (ret x)"
  by (simp add: keeps_def)

lemma keeps_Pair [intro, simp]: "keeps P (Pair r)"
  by (simp add: keeps_def)

lemma keeps_throw [intro, simp]: "keeps P (throw e)"
  by (simp add: keeps_def)

lemma keeps_orThrow [intro, simp]: "keeps P (orThrow e x)"
  by (cases x) auto

lemma keeps_fromSum [intro, simp]: "keeps P (fromSum r)"
  by (cases r) (auto simp: fromSum_def)

lemma keeps_andThen [intro]: "keeps P f \<Longrightarrow> (\<And>x. keeps P (g x)) \<Longrightarrow> keeps P (andThen f g)"
  by (fastforce simp: keeps_def andThen_def split: prod.splits sum.splits)

lemma keeps_tryCatch [intro]: "keeps P f \<Longrightarrow> (\<And>e. keeps P (h e)) \<Longrightarrow> keeps P (tryCatch f h)"
  by (fastforce simp: keeps_def tryCatch_def split: prod.splits sum.splits)

lemma keeps_forEach [intro]: "(\<And>x. keeps P (f x)) \<Longrightarrow> keeps P (forEach f xs)"
  by (induction xs) auto

lemma keeps_transaction [intro]: "keeps P f \<Longrightarrow> keeps P (transaction f)"
  by (fastforce simp: keeps_def transaction_def split: prod.splits sum.splits)

lemma keeps_if [intro]: "keeps P f \<Longrightarrow> keeps P g \<Longrightarrow> keeps P (if b then f else g)"
  by simp

lemma keeps_option [intro]:
  "keeps P f \<Longrightarrow> (\<And>x. keeps P (g x)) \<Longrightarrow> keeps P (case v of None \<Rightarrow> f | Some x \<Rightarrow> g x)"
  by (cases v) auto

end
