(* ===== verification/Indexer_Db.thy ===== *)
theory Indexer_Db
  imports Ledger Forge_Effects
begin

text \<open>
  The indexer's database: its tables as \<^verbatim>\<open>src/indexer/prisma/schema.prisma\<close> declares them,
  and the values that flow into them. Prisma itself is not part of the repository. The
  indexer reaches it through the operations of the record \<open>PrismaClient\<close> (an extension of
  \<open>AggregateStore\<close>, the interface \<^verbatim>\<open>src/indexer/src/aggregates.ts\<close> asks for), which every
  operation of the model takes as an argument; what the code relies on is the pair of
  locales \<open>aggregate_store\<close> and \<open>prisma_client\<close>, stated over the function \<open>tables\<close> that
  reads the committed tables off a database state.

  \<open>refClient\<close> is the reference client that keeps the tables themselves; it satisfies the
  laws and is what closed examples run on.
\<close>

subsection \<open>Values\<close>

text \<open>The models with one row per indexed event, each with a unique \<^verbatim>\<open>txHash\<close>.\<close>

datatype Model = Mint | Transfer | Burn | VaultDeposit | WrapperUpdate | VestingClaim | SplitDistribution

text \<open>The \<^verbatim>\<open>data\<close> of a row: its own columns by name, then the two all models share.\<close>

record EventRow =
  row_fields :: "(string \<times> Native) list"
  row_ledger :: int
  row_txHash :: string

record HolderRow =
  holder_balance :: string
  holder_ledger :: int

record SupplyPoint =
  sp_timestamp :: int
  sp_supply :: string
  sp_ledger :: int
  sp_txHash :: string

record LedgerCoordinate =
  lc_ledger :: int
  lc_hash :: string
  lc_parentHash :: string

record LastIndexedLedger =
  li_ledger :: int
  li_hash :: "string option"
  li_parentHash :: "string option"

record IndexerDb =
  event_rows :: "Model \<Rightarrow> EventRow list"
  holders :: "string \<rightharpoonup> HolderRow"
  supply_points :: "SupplyPoint list"
  indexed_ledgers :: "LedgerCoordinate list"
  last_indexed :: "LastIndexedLedger option"

definition emptyDb :: IndexerDb where
  "emptyDb = \<lparr>event_rows = (\<lambda>_. []), holders = Map.empty, supply_points = [],
     indexed_ledgers = [], last_indexed = None\<rparr>"

subsection \<open>Effects on the tables\<close>

definition add_row :: "Model \<Rightarrow> EventRow \<Rightarrow> IndexerDb \<Rightarrow> IndexerDb" where
  "add_row m r d = d\<lparr>event_rows := (event_rows d)(m := event_rows d m @ [r])\<rparr>"

definition txHashes :: "Model \<Rightarrow> IndexerDb \<Rightarrow> string set" where
  "txHashes m d = row_txHash ` set (event_rows d m)"

definition put_holder :: "string \<Rightarrow> string \<Rightarrow> int \<Rightarrow> IndexerDb \<Rightarrow> IndexerDb" where
  "put_holder a b l d = d\<lparr>holders := (holders d)(a \<mapsto> \<lparr>holder_balance = b, holder_ledger = l\<rparr>)\<rparr>"

definition del_holder :: "string \<Rightarrow> IndexerDb \<Rightarrow> IndexerDb" where
  "del_holder a d = d\<lparr>holders := (holders d)(a := None)\<rparr>"

definition add_point :: "SupplyPoint \<Rightarrow> IndexerDb \<Rightarrow> IndexerDb" where
  "add_point p d = d\<lparr>supply_points := supply_points d @ [p]\<rparr>"

definition drop_rows_after :: "Model \<Rightarrow> int \<Rightarrow> IndexerDb \<Rightarrow> IndexerDb" where
  "drop_rows_after m n d =
     d\<lparr>event_rows := (event_rows d)(m := filter (\<lambda>r. row_ledger r \<le> n) (event_rows d m))\<rparr>"

definition drop_ledgers_after :: "int \<Rightarrow> IndexerDb \<Rightarrow> IndexerDb" where
  "drop_ledgers_after n d =
     d\<lparr>indexed_ledgers := filter (\<lambda>c. lc_ledger c \<le> n) (indexed_ledgers d)\<rparr>"

text \<open>\<^verbatim>\<open>createMany\<close> with \<^verbatim>\<open>skipDuplicates\<close>: a row that meets a unique column is skipped.\<close>

definition insert_coord :: "LedgerCoordinate list \<Rightarrow> LedgerCoordinate \<Rightarrow> LedgerCoordinate list" where
  "insert_coord cs c =
     (if lc_ledger c \<in> lc_ledger ` set cs \<or> lc_hash c \<in> lc_hash ` set cs then cs else cs @ [c])"

definition add_ledgers :: "LedgerCoordinate list \<Rightarrow> IndexerDb \<Rightarrow> IndexerDb" where
  "add_ledgers cs d = d\<lparr>indexed_ledgers := foldl insert_coord (indexed_ledgers d) cs\<rparr>"

definition set_last :: "LastIndexedLedger \<Rightarrow> IndexerDb \<Rightarrow> IndexerDb" where
  "set_last l d = d\<lparr>last_indexed := Some l\<rparr>"

text \<open>
  A supply point that \<^verbatim>\<open>orderBy: [ledger desc, id desc]\<close> may put first: its ledger is the
  highest. Ids are random, so among the points of one ledger the order is not that of
  insertion.
\<close>

definition latest_point :: "IndexerDb \<Rightarrow> SupplyPoint \<Rightarrow> bool" where
  "latest_point d p \<longleftrightarrow> p \<in> set (supply_points d) \<and> (\<forall>q \<in> set (supply_points d). sp_ledger q \<le> sp_ledger p)"

subsection \<open>The client\<close>

record 'db AggregateStore =
  holder_findUnique :: "string \<Rightarrow> (js_error, 'db, string option) act"
  holder_upsert :: "string \<Rightarrow> string \<Rightarrow> int \<Rightarrow> (js_error, 'db, unit) act"
  holder_deleteMany :: "string \<Rightarrow> (js_error, 'db, unit) act"
  supplyPoint_findFirst :: "(js_error, 'db, string option) act"
  supplyPoint_create :: "SupplyPoint \<Rightarrow> (js_error, 'db, unit) act"

record 'db PrismaClient = "'db AggregateStore" +
  has_transaction :: bool
  has_holder :: bool
  row_create :: "Model \<Rightarrow> EventRow \<Rightarrow> (js_error, 'db, EventRow) act"
  row_deleteMany_gt :: "Model \<Rightarrow> int \<Rightarrow> (js_error, 'db, unit) act"
  indexedLedger_createMany :: "LedgerCoordinate list \<Rightarrow> (js_error, 'db, unit) act"
  indexedLedger_deleteMany_gt :: "int \<Rightarrow> (js_error, 'db, unit) act"
  indexedLedger_findMany :: "int \<Rightarrow> int \<Rightarrow> (js_error, 'db, LedgerCoordinate list) act"
  lastIndexed_find :: "(js_error, 'db, LastIndexedLedger option) act"
  lastIndexed_upsert :: "LastIndexedLedger \<Rightarrow> (js_error, 'db, unit) act"
  lastIndexed_update :: "string \<Rightarrow> string \<Rightarrow> (js_error, 'db, unit) act"

text \<open>A statement that fails changes nothing; a read changes nothing at all.\<close>

definition fails_clean :: "(js_error, 'db, 'a) act \<Rightarrow> bool" where
  "fails_clean f \<longleftrightarrow> (\<forall>s e s'. f s = (Inl e, s') \<longrightarrow> s' = s)"

definition reads :: "(js_error, 'db, 'a) act \<Rightarrow> bool" where
  "reads f \<longleftrightarrow> (\<forall>s. snd (f s) = s)"

lemma fails_cleanD: "fails_clean f \<Longrightarrow> f s = (Inl e, s') \<Longrightarrow> s' = s"
  by (auto simp: fails_clean_def)

lemma readsD: "reads f \<Longrightarrow> f s = (r, s') \<Longrightarrow> s' = s"
  by (auto simp: reads_def dest: spec [of _ s])

locale aggregate_store =
  fixes store :: "('db, 'more) AggregateStore_scheme"
    and tables :: "'db \<Rightarrow> IndexerDb"
  assumes findUnique_reads: "reads (holder_findUnique store a)"
    and findUnique: "holder_findUnique store a db = (Inr v, db') \<Longrightarrow>
      v = map_option holder_balance (holders (tables db) a)"
    and upsert_clean: "fails_clean (holder_upsert store a b l)"
    and upsert: "holder_upsert store a b l db = (Inr u, db') \<Longrightarrow>
      tables db' = put_holder a b l (tables db)"
    and deleteMany_clean: "fails_clean (holder_deleteMany store a)"
    and deleteMany: "holder_deleteMany store a db = (Inr u, db') \<Longrightarrow>
      tables db' = del_holder a (tables db)"
    and findFirst_reads: "reads (supplyPoint_findFirst store)"
    and findFirst: "supplyPoint_findFirst store db = (Inr v, db') \<Longrightarrow>
      (case v of None \<Rightarrow> supply_points (tables db) = []
       | Some s \<Rightarrow> \<exists>p. latest_point (tables db) p \<and> sp_supply p = s)"
    and create_clean: "fails_clean (supplyPoint_create store p)"
    and create: "supplyPoint_create store p db = (Inr u, db') \<Longrightarrow>
      tables db' = add_point p (tables db)"

locale prisma_client = aggregate_store store tables
  for store :: "('db, 'more) PrismaClient_scheme" and tables :: "'db \<Rightarrow> IndexerDb" +
  assumes row_create_clean: "fails_clean (row_create store m r)"
    and row_create: "row_create store m r db = (Inr r', db') \<Longrightarrow>
      r' = r \<and> row_txHash r \<notin> txHashes m (tables db) \<and> tables db' = add_row m r (tables db)"
    and row_create_string: "row_create store m r db = (Inr r', db') \<Longrightarrow>
      (k, v) \<in> set (row_fields r) \<Longrightarrow> \<exists>s. v = NStr s"
    and row_deleteMany: "row_deleteMany_gt store m n db = (Inr u, db') \<Longrightarrow>
      tables db' = drop_rows_after m n (tables db)"
    and ledger_createMany: "indexedLedger_createMany store cs db = (Inr u, db') \<Longrightarrow>
      tables db' = add_ledgers cs (tables db)"
    and ledger_deleteMany: "indexedLedger_deleteMany_gt store n db = (Inr u, db') \<Longrightarrow>
      tables db' = drop_ledgers_after n (tables db)"
    and ledger_findMany_reads: "reads (indexedLedger_findMany store lo hi)"
    and ledger_findMany: "indexedLedger_findMany store lo hi db = (Inr cs, db') \<Longrightarrow>
      cs = sort_key lc_ledger (filter (\<lambda>c. lo \<le> lc_ledger c \<and> lc_ledger c \<le> hi)
        (indexed_ledgers (tables db)))"
    and last_find_reads: "reads (lastIndexed_find store)"
    and last_find: "lastIndexed_find store db = (Inr cur, db') \<Longrightarrow> cur = last_indexed (tables db)"
    and last_upsert: "lastIndexed_upsert store l db = (Inr u, db') \<Longrightarrow>
      tables db' = set_last l (tables db)"
    and last_update: "lastIndexed_update store h ph db = (Inr u, db') \<Longrightarrow>
      \<exists>l. last_indexed (tables db) = Some l \<and>
        tables db' = set_last (l\<lparr>li_hash := Some h, li_parentHash := Some ph\<rparr>) (tables db)"

subsection \<open>The reference client\<close>

fun is_string :: "Native \<Rightarrow> bool" where
  "is_string (NStr s) = True"
| "is_string _ = False"

fun best_point :: "SupplyPoint option \<Rightarrow> SupplyPoint list \<Rightarrow> SupplyPoint option" where
  "best_point b [] = b"
| "best_point None (p # ps) = best_point (Some p) ps"
| "best_point (Some b) (p # ps) = best_point (Some (if sp_ledger b \<le> sp_ledger p then p else b)) ps"

definition refClient :: "IndexerDb PrismaClient" where
  "refClient = \<lparr>
     holder_findUnique = (\<lambda>a d. (Inr (map_option holder_balance (holders d a)), d)),
     holder_upsert = (\<lambda>a b l d. (Inr (), put_holder a b l d)),
     holder_deleteMany = (\<lambda>a d. (Inr (), del_holder a d)),
     supplyPoint_findFirst = (\<lambda>d. (Inr (map_option sp_supply (best_point None (supply_points d))), d)),
     supplyPoint_create = (\<lambda>p d. (Inr (), add_point p d)),
     has_transaction = True,
     has_holder = True,
     row_create = (\<lambda>m r d.
       if \<not> list_all (\<lambda>kv. is_string (snd kv)) (row_fields r) then (Inl (JsError ''validation''), d)
       else if row_txHash r \<in> set (map row_txHash (event_rows d m)) then (Inl (PrismaError ''P2002''), d)
       else (Inr r, add_row m r d)),
     row_deleteMany_gt = (\<lambda>m n d. (Inr (), drop_rows_after m n d)),
     indexedLedger_createMany = (\<lambda>cs d. (Inr (), add_ledgers cs d)),
     indexedLedger_deleteMany_gt = (\<lambda>n d. (Inr (), drop_ledgers_after n d)),
     indexedLedger_findMany = (\<lambda>lo hi d. (Inr (sort_key lc_ledger
       (filter (\<lambda>c. lo \<le> lc_ledger c \<and> lc_ledger c \<le> hi) (indexed_ledgers d))), d)),
     lastIndexed_find = (\<lambda>d. (Inr (last_indexed d), d)),
     lastIndexed_upsert = (\<lambda>l d. (Inr (), set_last l d)),
     lastIndexed_update = (\<lambda>h ph d. case last_indexed d of
        None \<Rightarrow> (Inl (PrismaError ''P2025''), d)
      | Some l \<Rightarrow> (Inr (), set_last (l\<lparr>li_hash := Some h, li_parentHash := Some ph\<rparr>) d))\<rparr>"

lemma refClient_simps [simp]:
  "holder_findUnique refClient a d = (Inr (map_option holder_balance (holders d a)), d)"
  "holder_upsert refClient a b l d = (Inr (), put_holder a b l d)"
  "holder_deleteMany refClient a d = (Inr (), del_holder a d)"
  "supplyPoint_findFirst refClient d = (Inr (map_option sp_supply (best_point None (supply_points d))), d)"
  "supplyPoint_create refClient p d = (Inr (), add_point p d)"
  "has_transaction refClient" "has_holder refClient"
  "row_deleteMany_gt refClient m n d = (Inr (), drop_rows_after m n d)"
  "indexedLedger_createMany refClient cs d = (Inr (), add_ledgers cs d)"
  "indexedLedger_deleteMany_gt refClient n d = (Inr (), drop_ledgers_after n d)"
  "lastIndexed_find refClient d = (Inr (last_indexed d), d)"
  "lastIndexed_upsert refClient li d = (Inr (), set_last li d)"
  by (simp_all add: refClient_def)

lemma refClient_row_create:
  "list_all (\<lambda>kv. is_string (snd kv)) (row_fields r) \<Longrightarrow> row_txHash r \<notin> row_txHash ` set (event_rows d m) \<Longrightarrow>
   row_create refClient m r d = (Inr r, add_row m r d)"
  by (simp add: refClient_def)

lemma best_point_Some:
  "\<exists>q. best_point (Some b) ps = Some q \<and> q \<in> set (b # ps) \<and> (\<forall>x \<in> set (b # ps). sp_ledger x \<le> sp_ledger q)"
  by (induction ps arbitrary: b) fastforce+

lemma best_point_latest:
  "case best_point None (supply_points d) of
     None \<Rightarrow> supply_points d = []
   | Some p \<Rightarrow> latest_point d p"
proof (cases "supply_points d")
  case (Cons p ps)
  with best_point_Some [of p ps] show ?thesis by (auto simp: latest_point_def)
qed simp

lemma is_string_iff: "is_string v \<longleftrightarrow> (\<exists>s. v = NStr s)"
  by (cases v) auto

interpretation ref_agg: aggregate_store refClient "\<lambda>d. d"
proof unfold_locales
  show "\<And>db v db'. supplyPoint_findFirst refClient db = (Inr v, db') \<Longrightarrow>
      (case v of None \<Rightarrow> supply_points db = [] | Some s \<Rightarrow> \<exists>p. latest_point db p \<and> sp_supply p = s)"
    using best_point_latest by (fastforce simp: refClient_def split: option.splits)
qed (auto simp: refClient_def reads_def fails_clean_def)

interpretation ref_client: prisma_client refClient "\<lambda>d. d"
  by unfold_locales
    (auto simp: refClient_def reads_def fails_clean_def txHashes_def list_all_iff is_string_iff
      split: if_splits option.splits)

subsection \<open>Shared facts on the tables\<close>

lemma emptyDb_simps [simp]:
  "event_rows emptyDb = (\<lambda>_. [])" "holders emptyDb = Map.empty" "supply_points emptyDb = []"
  "indexed_ledgers emptyDb = []" "last_indexed emptyDb = None"
  by (simp_all add: emptyDb_def)

lemma add_row_simps [simp]:
  "event_rows (add_row m r d) = (event_rows d)(m := event_rows d m @ [r])"
  "holders (add_row m r d) = holders d"
  "supply_points (add_row m r d) = supply_points d"
  "indexed_ledgers (add_row m r d) = indexed_ledgers d"
  "last_indexed (add_row m r d) = last_indexed d"
  by (simp_all add: add_row_def)

lemma holder_table_simps [simp]:
  "holders (put_holder a b l d) = (holders d)(a \<mapsto> \<lparr>holder_balance = b, holder_ledger = l\<rparr>)"
  "holders (del_holder a d) = (holders d)(a := None)"
  "holders (add_point p d) = holders d"
  "event_rows (put_holder a b l d) = event_rows d"
  "event_rows (del_holder a d) = event_rows d"
  "event_rows (add_point p d) = event_rows d"
  "supply_points (put_holder a b l d) = supply_points d"
  "supply_points (del_holder a d) = supply_points d"
  "supply_points (add_point p d) = supply_points d @ [p]"
  "indexed_ledgers (put_holder a b l d) = indexed_ledgers d"
  "indexed_ledgers (del_holder a d) = indexed_ledgers d"
  "indexed_ledgers (add_point p d) = indexed_ledgers d"
  "last_indexed (put_holder a b l d) = last_indexed d"
  "last_indexed (del_holder a d) = last_indexed d"
  "last_indexed (add_point p d) = last_indexed d"
  by (simp_all add: put_holder_def del_holder_def add_point_def)

lemma rewind_simps [simp]:
  "event_rows (drop_rows_after m n d) =
     (event_rows d)(m := filter (\<lambda>r. row_ledger r \<le> n) (event_rows d m))"
  "holders (drop_rows_after m n d) = holders d"
  "supply_points (drop_rows_after m n d) = supply_points d"
  "indexed_ledgers (drop_rows_after m n d) = indexed_ledgers d"
  "last_indexed (drop_rows_after m n d) = last_indexed d"
  "event_rows (drop_ledgers_after n d) = event_rows d"
  "holders (drop_ledgers_after n d) = holders d"
  "supply_points (drop_ledgers_after n d) = supply_points d"
  "indexed_ledgers (drop_ledgers_after n d) = filter (\<lambda>c. lc_ledger c \<le> n) (indexed_ledgers d)"
  "last_indexed (drop_ledgers_after n d) = last_indexed d"
  by (simp_all add: drop_rows_after_def drop_ledgers_after_def)

lemma cursor_table_simps [simp]:
  "event_rows (set_last l d) = event_rows d"
  "holders (set_last l d) = holders d"
  "supply_points (set_last l d) = supply_points d"
  "indexed_ledgers (set_last l d) = indexed_ledgers d"
  "last_indexed (set_last l d) = Some l"
  "event_rows (add_ledgers cs d) = event_rows d"
  "holders (add_ledgers cs d) = holders d"
  "supply_points (add_ledgers cs d) = supply_points d"
  "indexed_ledgers (add_ledgers cs d) = foldl insert_coord (indexed_ledgers d) cs"
  "last_indexed (add_ledgers cs d) = last_indexed d"
  by (simp_all add: set_last_def add_ledgers_def)

end
