(* ===== verification/Aggregates.thy ===== *)
theory Aggregates
  imports Indexer_Db
begin

text \<open>
  The persisted aggregates, \<^verbatim>\<open>src/indexer/src/aggregates.ts\<close>: one indexed event moves the
  rows of the \<^verbatim>\<open>Holder\<close> table by the event's deltas and appends a \<^verbatim>\<open>SupplyPoint\<close> when it
  changes the supply. The client lemmas are proved in the locale \<open>aggregate_store\<close>, over
  whatever database satisfies its laws; they say that the table implements the in-memory
  ledger of theory \<open>Ledger\<close>.
\<close>

subsection \<open>Model\<close>

record ApplyAggregatesOptions =
  opt_ledger :: int
  opt_txHash :: string
  opt_timestamp :: int
  opt_newSupply :: "string option"

text \<open>\<^verbatim>\<open>row ? toBigInt(row.value) : 0n\<close>.\<close>

definition parseOrZero :: "string option \<Rightarrow> (js_error, 'db, int) act" where
  "parseOrZero v = (case v of None \<Rightarrow> ret 0 | Some s \<Rightarrow> orThrow SyntaxError (toBigInt s))"

text \<open>The body of the loop over the deltas.\<close>

definition applyHolderDelta ::
  "('db, 'm) AggregateStore_scheme \<Rightarrow> int \<Rightarrow> string \<times> int \<Rightarrow> (js_error, 'db, unit) act" where
  "applyHolderDelta store ledger ad =
     andThen (holder_findUnique store (fst ad)) (\<lambda>current.
     andThen (parseOrZero current) (\<lambda>old.
       let balance = old + snd ad in
       if balance = 0 then holder_deleteMany store (fst ad)
       else holder_upsert store (fst ad) (fromBigInt balance) ledger))"

definition resolveSupply ::
  "('db, 'm) AggregateStore_scheme \<Rightarrow> int \<Rightarrow> string option \<Rightarrow> (js_error, 'db, string) act" where
  "resolveSupply store delta newSupply =
     (case newSupply of
        Some (c # cs) \<Rightarrow> ret (c # cs)
      | _ \<Rightarrow>
          andThen (supplyPoint_findFirst store) (\<lambda>latest.
          andThen (parseOrZero latest) (\<lambda>old.
            ret (fromBigInt (old + delta)))))"

definition applyLedgerEventAggregates ::
  "('db, 'm) AggregateStore_scheme \<Rightarrow> LedgerEvent \<Rightarrow> ApplyAggregatesOptions \<Rightarrow>
   (js_error, 'db, unit) act" where
  "applyLedgerEventAggregates store event options =
     andThen (orThrow SyntaxError (deltasFor event)) (\<lambda>ds.
     andThen (forEach (applyHolderDelta store (opt_ledger options)) ds) (\<lambda>_.
     andThen (orThrow SyntaxError (supplyDeltaFor event)) (\<lambda>supplyDelta.
       if supplyDelta = 0 then ret ()
       else andThen (resolveSupply store supplyDelta (opt_newSupply options)) (\<lambda>s.
         supplyPoint_create store
           \<lparr>sp_timestamp = opt_timestamp options, sp_supply = s,
            sp_ledger = opt_ledger options, sp_txHash = opt_txHash options\<rparr>))))"

subsection \<open>The holder table as a ledger\<close>

text \<open>The balances the holder table stands for.\<close>

definition holderBalances :: "IndexerDb \<Rightarrow> (string \<rightharpoonup> int)" where
  "holderBalances d a = (case holders d a of None \<Rightarrow> None | Some h \<Rightarrow> toBigInt (holder_balance h))"

text \<open>Two databases that differ in the holder table and the supply points at most.\<close>

definition same_events :: "IndexerDb \<Rightarrow> IndexerDb \<Rightarrow> bool" where
  "same_events d d' \<longleftrightarrow> event_rows d' = event_rows d \<and> indexed_ledgers d' = indexed_ledgers d
     \<and> last_indexed d' = last_indexed d"

lemma parseOrZero_Inr_iff:
  "parseOrZero v s = (Inr n, s') \<longleftrightarrow> s' = s \<and> (case v of None \<Rightarrow> n = 0 | Some b \<Rightarrow> toBigInt b = Some n)"
  by (auto simp: parseOrZero_def orThrow_Inr_iff split: option.splits)

lemma holderBalances_put [simp]:
  "holderBalances (put_holder a (fromBigInt n) l d) = (holderBalances d)(a \<mapsto> n)"
  by (auto simp: holderBalances_def fun_eq_iff toBigInt_def fromBigInt_def)

lemma holderBalances_del [simp]:
  "holderBalances (del_holder a d) = (holderBalances d)(a := None)"
  by (auto simp: holderBalances_def fun_eq_iff)

lemma holderBalances_add_point [simp]: "holderBalances (add_point p d) = holderBalances d"
  by (simp add: holderBalances_def fun_eq_iff)

lemma holderBalances_add_row [simp]: "holderBalances (add_row m r d) = holderBalances d"
  by (simp add: holderBalances_def fun_eq_iff)

lemma holderBalances_empty [simp]: "holderBalances emptyDb = Map.empty"
  by (simp add: holderBalances_def fun_eq_iff)

lemma same_events_refl [simp]: "same_events d d"
  by (simp add: same_events_def)

lemma same_events_trans: "same_events a b \<Longrightarrow> same_events b c \<Longrightarrow> same_events a c"
  by (simp add: same_events_def)

lemma same_events_steps [simp]:
  "same_events d (put_holder a b l d)" "same_events d (del_holder a d)"
  "same_events d (add_point p d)"
  by (simp_all add: same_events_def)

context aggregate_store
begin

lemma holder_delta:
  assumes "applyHolderDelta store l ad db = (Inr u, db')"
  shows "holderBalances (tables db') = applyDelta (holderBalances (tables db)) ad
    \<and> supply_points (tables db') = supply_points (tables db) \<and> same_events (tables db) (tables db')"
proof -
  from assms obtain cur db1 old where
    find: "holder_findUnique store (fst ad) db = (Inr cur, db1)"
    and old: "parseOrZero cur db1 = (Inr old, db1)"
    and put: "(if old + snd ad = 0 then holder_deleteMany store (fst ad)
               else holder_upsert store (fst ad) (fromBigInt (old + snd ad)) l) db1 = (Inr u, db')"
    by (auto simp: applyHolderDelta_def andThen_Inr_iff Let_def parseOrZero_Inr_iff)
  have db1: "db1 = db" using find findUnique_reads by (rule readsD [rotated])
  have "orZero (holderBalances (tables db)) (fst ad) = old"
    using findUnique [OF find] old
    by (auto simp: orZero_def holderBalances_def parseOrZero_Inr_iff split: option.splits)
  with put db1 show ?thesis
    by (auto simp: applyDelta_def Let_def dest: upsert deleteMany split: if_splits)
qed

lemma holder_deltas:
  "forEach (applyHolderDelta store l) ds db = (Inr u, db') \<Longrightarrow>
   holderBalances (tables db') = foldl applyDelta (holderBalances (tables db)) ds
    \<and> supply_points (tables db') = supply_points (tables db) \<and> same_events (tables db) (tables db')"
proof (induction ds arbitrary: db)
  case (Cons d ds)
  then obtain v db1 where d1: "applyHolderDelta store l d db = (Inr v, db1)"
    and rest: "forEach (applyHolderDelta store l) ds db1 = (Inr u, db')"
    by (auto simp: andThen_Inr_iff)
  from holder_delta [OF d1] Cons.IH [OF rest] show ?case
    by (auto intro: same_events_trans)
qed simp

lemma resolve_given:
  "newSupply = Some s \<Longrightarrow> s \<noteq> [] \<Longrightarrow> resolveSupply store d newSupply = ret s"
  by (cases s) (simp_all add: resolveSupply_def)

lemma resolve_reads: "resolveSupply store d newSupply db = (Inr s, db') \<Longrightarrow> db' = db"
  using findFirst_reads
  by (auto simp: resolveSupply_def act_Inr_iffs parseOrZero_Inr_iff dest: readsD split: option.splits list.splits)

text \<open>Without a reported supply, the stored value is the latest one moved by the delta.\<close>

lemma resolve_derived:
  assumes "newSupply = None \<or> newSupply = Some []" and "resolveSupply store d newSupply db = (Inr s, db')"
  shows "\<exists>old. s = fromBigInt (old + d) \<and>
    (if supply_points (tables db) = [] then old = 0
     else \<exists>p. latest_point (tables db) p \<and> toBigInt (sp_supply p) = Some old)"
proof -
  from assms obtain v db1 old where f: "supplyPoint_findFirst store db = (Inr v, db1)"
    and o: "parseOrZero v db1 = (Inr old, db')"
    and s: "s = fromBigInt (old + d)"
    by (auto simp: resolveSupply_def andThen_Inr_iff)
  from findFirst [OF f] o s show ?thesis
    by (auto simp: parseOrZero_Inr_iff latest_point_def split: option.splits)
qed

lemma event_aggregates:
  assumes "applyLedgerEventAggregates store event options db = (Inr u, db')"
  shows "\<exists>ds d. deltasFor event = Some ds \<and> supplyDeltaFor event = Some d
    \<and> holderBalances (tables db') = foldl applyDelta (holderBalances (tables db)) ds
    \<and> same_events (tables db) (tables db')
    \<and> (if d = 0 then supply_points (tables db') = supply_points (tables db)
       else \<exists>p dbm. resolveSupply store d (opt_newSupply options) dbm = (Inr (sp_supply p), dbm)
          \<and> supply_points (tables dbm) = supply_points (tables db)
          \<and> supply_points (tables db') = supply_points (tables db) @ [p]
          \<and> sp_ledger p = opt_ledger options \<and> sp_txHash p = opt_txHash options)"
proof -
  from assms obtain ds d db1 where ds: "deltasFor event = Some ds"
    and d: "supplyDeltaFor event = Some d"
    and loop: "forEach (applyHolderDelta store (opt_ledger options)) ds db = (Inr (), db1)"
    and tail: "(if d = 0 then ret () else andThen (resolveSupply store d (opt_newSupply options)) (\<lambda>s.
         supplyPoint_create store \<lparr>sp_timestamp = opt_timestamp options, sp_supply = s,
            sp_ledger = opt_ledger options, sp_txHash = opt_txHash options\<rparr>)) db1 = (Inr u, db')"
    by (auto simp: applyLedgerEventAggregates_def act_Inr_iffs)
  note h = holder_deltas [OF loop]
  show ?thesis
  proof (cases "d = 0")
    case True
    with tail ds d h show ?thesis by auto
  next
    case False
    with tail obtain s dbm where
      r: "resolveSupply store d (opt_newSupply options) db1 = (Inr s, dbm)"
      and c: "supplyPoint_create store \<lparr>sp_timestamp = opt_timestamp options, sp_supply = s,
            sp_ledger = opt_ledger options, sp_txHash = opt_txHash options\<rparr> dbm = (Inr u, db')"
      by (auto simp: andThen_Inr_iff)
    have dbm: "dbm = db1" using r by (rule resolve_reads)
    have t: "tables db' = add_point \<lparr>sp_timestamp = opt_timestamp options, sp_supply = s,
            sp_ledger = opt_ledger options, sp_txHash = opt_txHash options\<rparr> (tables db1)"
      using create [OF c] dbm by simp
    have "same_events (tables db) (tables db')"
      using h t by (auto intro: same_events_trans)
    with False ds d h t r dbm show ?thesis
      by (intro exI [of _ ds] exI [of _ d]) (auto intro!: exI [of _ db1])
  qed
qed

end

subsection \<open>Properties\<close>

text \<open>
  C4: applying an event to the persisted aggregates, when it succeeds, is the in-memory
  ledger step on the balances the holder table stands for, touches neither the event rows
  nor the cursor, and appends exactly one supply point, with the event's ledger and
  transaction, exactly when the event changes the supply.
\<close>

theorem aggregates_refine_ledger:
  assumes "aggregate_store store tables"
    and "applyLedgerEventAggregates store event options db = (Inr u, db')"
  shows "\<exists>s'. applyLedgerEvent \<lparr>balances = holderBalances (tables db), supply_of = n\<rparr> event = Some s'
    \<and> holderBalances (tables db') = balances s'
    \<and> same_events (tables db) (tables db')
    \<and> (if supply_of s' = n then supply_points (tables db') = supply_points (tables db)
       else \<exists>p. supply_points (tables db') = supply_points (tables db) @ [p]
          \<and> sp_ledger p = opt_ledger options \<and> sp_txHash p = opt_txHash options)"
proof -
  from aggregate_store.event_aggregates [OF assms] obtain ds d where
    "deltasFor event = Some ds" "supplyDeltaFor event = Some d"
    "holderBalances (tables db') = foldl applyDelta (holderBalances (tables db)) ds"
    "same_events (tables db) (tables db')"
    and p: "if d = 0 then supply_points (tables db') = supply_points (tables db)
       else \<exists>p. supply_points (tables db') = supply_points (tables db) @ [p]
          \<and> sp_ledger p = opt_ledger options \<and> sp_txHash p = opt_txHash options"
    by (auto split: if_splits)
  then show ?thesis by (simp add: applyLedgerEvent_def)
qed

theorem aggregates_refine_ledger_witness:
  "\<exists>db'. applyLedgerEventAggregates refClient (EvMint ''A'' ''5'')
      \<lparr>opt_ledger = 7, opt_txHash = ''t'', opt_timestamp = 0, opt_newSupply = None\<rparr> emptyDb = (Inr (), db')
    \<and> holderBalances db' ''A'' = Some 5 \<and> length (supply_points db') = 1"
proof -
  let ?o = "\<lparr>opt_ledger = 7, opt_txHash = ''t'', opt_timestamp = 0, opt_newSupply = None\<rparr>"
  have five: "toBigInt ''5'' = Some 5" unfolding toBigInt_def by code_simp
  then obtain db' where r: "applyLedgerEventAggregates refClient (EvMint ''A'' ''5'') ?o emptyDb = (Inr (), db')"
    by (auto simp: applyLedgerEventAggregates_def andThen_def applyHolderDelta_def parseOrZero_def resolveSupply_def
        refClient_def Let_def)
  from aggregates_refine_ledger [OF ref_agg.aggregate_store_axioms r, of 0] five r show ?thesis
    by (auto simp: applyLedgerEvent_def applyDelta_def)
qed

text \<open>
  A supply point carries the supply the event reports when it reports one, and
  otherwise the supply of a point of the highest stored ledger moved by the event's supply
  delta (the delta itself when there is no point yet).
\<close>

theorem supply_point_value:
  assumes "aggregate_store store tables"
    and "applyLedgerEventAggregates store event options db = (Inr u, db')"
    and "supplyDeltaFor event = Some d" and "d \<noteq> 0"
  shows "\<exists>p. supply_points (tables db') = supply_points (tables db) @ [p] \<and>
    (case opt_newSupply options of
       Some (c # cs) \<Rightarrow> sp_supply p = c # cs
     | _ \<Rightarrow> \<exists>old. sp_supply p = fromBigInt (old + d) \<and>
         (if supply_points (tables db) = [] then old = 0
          else \<exists>q. latest_point (tables db) q \<and> toBigInt (sp_supply q) = Some old))"
proof -
  from aggregate_store.event_aggregates [OF assms(1,2)] assms(3,4) obtain p dbm where
    r: "resolveSupply store d (opt_newSupply options) dbm = (Inr (sp_supply p), dbm)"
    and sp: "supply_points (tables dbm) = supply_points (tables db)"
    and p: "supply_points (tables db') = supply_points (tables db) @ [p]"
    by auto
  have lp: "latest_point (tables dbm) = latest_point (tables db)"
    by (simp add: latest_point_def fun_eq_iff sp)
  show ?thesis
  proof (intro exI [of _ p] conjI p, cases "opt_newSupply options = None \<or> opt_newSupply options = Some []")
    case True
    from aggregate_store.resolve_derived [OF assms(1) True r]
    have "\<exists>old. sp_supply p = fromBigInt (old + d) \<and>
         (if supply_points (tables db) = [] then old = 0
          else \<exists>q. latest_point (tables db) q \<and> toBigInt (sp_supply q) = Some old)"
      unfolding sp lp .
    with True show "case opt_newSupply options of Some (c # cs) \<Rightarrow> sp_supply p = c # cs
       | _ \<Rightarrow> \<exists>old. sp_supply p = fromBigInt (old + d) \<and>
         (if supply_points (tables db) = [] then old = 0
          else \<exists>q. latest_point (tables db) q \<and> toBigInt (sp_supply q) = Some old)"
      by (elim disjE) simp_all
  next
    case False
    with r show "case opt_newSupply options of Some (c # cs) \<Rightarrow> sp_supply p = c # cs
       | _ \<Rightarrow> \<exists>old. sp_supply p = fromBigInt (old + d) \<and>
         (if supply_points (tables db) = [] then old = 0
          else \<exists>q. latest_point (tables db) q \<and> toBigInt (sp_supply q) = Some old)"
      by (auto simp: resolveSupply_def split: option.splits list.splits)
  qed
qed

theorem supply_point_value_witness:
  "\<exists>db' p. applyLedgerEventAggregates refClient (EvMint ''A'' ''5'')
      \<lparr>opt_ledger = 7, opt_txHash = ''t'', opt_timestamp = 0, opt_newSupply = None\<rparr>
      (add_point \<lparr>sp_timestamp = 0, sp_supply = ''9'', sp_ledger = 3, sp_txHash = ''s''\<rparr> emptyDb) = (Inr (), db')
    \<and> p \<in> set (supply_points db') \<and> sp_supply p = fromBigInt 14"
proof -
  let ?o = "\<lparr>opt_ledger = 7, opt_txHash = ''t'', opt_timestamp = 0, opt_newSupply = None\<rparr>"
  let ?p = "\<lparr>sp_timestamp = 0, sp_supply = ''9'', sp_ledger = 3, sp_txHash = ''s''\<rparr>"
  let ?d = "add_point ?p emptyDb"
  have n: "toBigInt ''5'' = Some 5" "toBigInt ''9'' = Some 9" unfolding toBigInt_def by code_simp+
  then obtain db' where r: "applyLedgerEventAggregates refClient (EvMint ''A'' ''5'') ?o ?d = (Inr (), db')"
    by (auto simp: applyLedgerEventAggregates_def andThen_def applyHolderDelta_def parseOrZero_def
        resolveSupply_def refClient_def Let_def)
  have "supplyDeltaFor (EvMint ''A'' ''5'') = Some 5" by (simp add: n)
  from supply_point_value [OF ref_agg.aggregate_store_axioms r this] n show ?thesis
    by (auto simp: latest_point_def r)
qed

end
