(* ===== verification/Cursor.thy ===== *)
theory Cursor
  imports Aggregates
begin

text \<open>
  The ledger cursor of the indexer, \<^verbatim>\<open>src/indexer/src/cursor.ts\<close>: ledger coordinates, the
  check that a range of ledgers forms one chain of parent hashes, the seeding of check
  points for a cursor that has no hash, and the reconciliation that finds the last ledger
  the database and the RPC node agree on and rewinds to it. The RPC node is an argument,
  \<open>getLedgers start limit\<close>.
\<close>

subsection \<open>Model\<close>

definition REORG_LOOKBACK_LEDGERS :: int where
  "REORG_LOOKBACK_LEDGERS = 1000"

text \<open>The fields the code reads of a ledger that the RPC node returns.\<close>

record LedgerResponse =
  lr_sequence :: int
  lr_hash :: string
  lr_previousLedgerHash :: string

type_synonym getLedgers = "int \<Rightarrow> int \<Rightarrow> js_error + LedgerResponse list"

definition toLedgerCoordinate :: "LedgerResponse \<Rightarrow> LedgerCoordinate" where
  "toLedgerCoordinate l =
     \<lparr>lc_ledger = lr_sequence l, lc_hash = lr_hash l, lc_parentHash = lr_previousLedgerHash l\<rparr>"

fun hasContinuousParentChain :: "LedgerCoordinate list \<Rightarrow> LedgerCoordinate option \<Rightarrow> bool" where
  "hasContinuousParentChain [] parent = True"
| "hasContinuousParentChain (l # ls) parent =
     (case parent of
        Some p \<Rightarrow>
          if lc_ledger l \<noteq> lc_ledger p + 1 \<or> lc_parentHash l \<noteq> lc_hash p then False
          else hasContinuousParentChain ls (Some l)
      | None \<Rightarrow> hasContinuousParentChain ls (Some l))"

definition scanStart :: "LastIndexedLedger \<Rightarrow> int" where
  "scanStart cursor = max 1 (li_ledger cursor - REORG_LOOKBACK_LEDGERS + 1)"

definition seedLedgerCheckpoints ::
  "('db, 'm) PrismaClient_scheme \<Rightarrow> getLedgers \<Rightarrow> LastIndexedLedger \<Rightarrow> (js_error, 'db, unit) act" where
  "seedLedgerCheckpoints prisma rpc cursor =
     (if li_ledger cursor \<le> 0 \<or> truthy (li_hash cursor) then ret ()
      else andThen (fromSum (rpc (scanStart cursor) REORG_LOOKBACK_LEDGERS)) (\<lambda>ledgers.
        let coordinates = map toLedgerCoordinate (filter (\<lambda>l. lr_sequence l \<le> li_ledger cursor) ledgers) in
        case find (\<lambda>c. lc_ledger c = li_ledger cursor) coordinates of
          None \<Rightarrow> ret ()
        | Some cc \<Rightarrow> transaction (
            andThen (indexedLedger_createMany prisma coordinates) (\<lambda>_.
            lastIndexed_update prisma (lc_hash cc) (lc_parentHash cc)))))"

text \<open>\<^verbatim>\<open>new Map(ledgers.map(l => [l.sequence, l]))\<close>: the last entry of a sequence wins.\<close>

definition remoteBySequence :: "LedgerResponse list \<Rightarrow> int \<rightharpoonup> LedgerCoordinate" where
  "remoteBySequence ls n = map_option toLedgerCoordinate (map_of (rev (map (\<lambda>l. (lr_sequence l, l)) ls)) n)"

text \<open>The loop over the persisted check points: the last one that agrees, and whether it broke.\<close>

fun scanCheckpoints ::
  "(int \<rightharpoonup> LedgerCoordinate) \<Rightarrow> LedgerCoordinate option \<Rightarrow> LedgerCoordinate list \<Rightarrow>
   LedgerCoordinate option \<times> bool" where
  "scanCheckpoints remote common [] = (common, False)"
| "scanCheckpoints remote common (c # cs) =
     (case remote (lc_ledger c) of
        None \<Rightarrow> (common, True)
      | Some r \<Rightarrow>
          if lc_hash r \<noteq> lc_hash c \<or> lc_parentHash r \<noteq> lc_parentHash c then (common, True)
          else scanCheckpoints remote (Some c) cs)"

text \<open>Whether the node's ledger at the cursor differs from what the cursor recorded.\<close>

definition cursorDiffers :: "LastIndexedLedger \<Rightarrow> LedgerCoordinate option \<Rightarrow> bool" where
  "cursorDiffers cursor r =
     (case r of
        None \<Rightarrow> True
      | Some rc \<Rightarrow> Some (lc_hash rc) \<noteq> li_hash cursor
          \<or> (li_parentHash cursor \<noteq> None \<and> Some (lc_parentHash rc) \<noteq> li_parentHash cursor))"

definition rewindTarget ::
  "LastIndexedLedger \<Rightarrow> (int \<rightharpoonup> LedgerCoordinate) \<Rightarrow> LedgerCoordinate list \<Rightarrow>
   LedgerCoordinate option \<times> bool" where
  "rewindTarget cursor remote persisted =
     (let (common0, mismatch0) = scanCheckpoints remote None persisted;
          mismatch1 =
            (if persisted \<noteq> [] \<and> lc_ledger (last persisted) \<noteq> li_ledger cursor
                \<and> truthy (li_hash cursor) \<and> cursorDiffers cursor (remote (li_ledger cursor))
             then True else mismatch0)
      in if persisted = [] \<and> truthy (li_hash cursor) \<and> cursorDiffers cursor (remote (li_ledger cursor))
         then (case remote (li_ledger cursor - 1) of
                 Some previous \<Rightarrow>
                   (if Some (lc_hash previous) = li_parentHash cursor then Some previous else common0, True)
               | None \<Rightarrow> (common0, True))
         else (common0, mismatch1))"

definition rewindUpdate :: "LedgerCoordinate option \<Rightarrow> LastIndexedLedger" where
  "rewindUpdate common =
     (case common of
        Some c \<Rightarrow> \<lparr>li_ledger = lc_ledger c, li_hash = Some (lc_hash c), li_parentHash = Some (lc_parentHash c)\<rparr>
      | None \<Rightarrow> \<lparr>li_ledger = 0, li_hash = None, li_parentHash = None\<rparr>)"

text \<open>The batch of statements that rewinds the database.\<close>

definition rewindTransaction ::
  "('db, 'm) PrismaClient_scheme \<Rightarrow> LastIndexedLedger \<Rightarrow> (js_error, 'db, unit) act" where
  "rewindTransaction prisma update = transaction (
     andThen (row_deleteMany_gt prisma Mint (li_ledger update)) (\<lambda>_.
     andThen (row_deleteMany_gt prisma Burn (li_ledger update)) (\<lambda>_.
     andThen (row_deleteMany_gt prisma Transfer (li_ledger update)) (\<lambda>_.
     andThen (indexedLedger_deleteMany_gt prisma (li_ledger update)) (\<lambda>_.
     lastIndexed_upsert prisma update)))))"

definition reconcileLedgerCursor ::
  "('db, 'm) PrismaClient_scheme \<Rightarrow> getLedgers \<Rightarrow> LastIndexedLedger \<Rightarrow> (js_error, 'db, int) act" where
  "reconcileLedgerCursor prisma rpc cursor =
     (if li_ledger cursor \<le> 0 then ret (li_ledger cursor)
      else
        andThen (indexedLedger_findMany prisma (scanStart cursor) (li_ledger cursor)) (\<lambda>persisted.
        andThen (fromSum (rpc (scanStart cursor) REORG_LOOKBACK_LEDGERS)) (\<lambda>ledgers.
          let target = rewindTarget cursor (remoteBySequence ledgers) persisted in
          if \<not> snd target then ret (li_ledger cursor)
          else andThen (rewindTransaction prisma (rewindUpdate (fst target))) (\<lambda>_.
            ret (li_ledger (rewindUpdate (fst target)))))))"

subsection \<open>The parent chain\<close>

text \<open>Neighbours of a list follow each other in a chain.\<close>

definition follows :: "LedgerCoordinate \<Rightarrow> LedgerCoordinate \<Rightarrow> bool" where
  "follows p l \<longleftrightarrow> lc_ledger l = lc_ledger p + 1 \<and> lc_parentHash l = lc_hash p"

lemma chain_Some: "hasContinuousParentChain ls (Some p) \<longleftrightarrow> successively follows (p # ls)"
  by (induction ls arbitrary: p) (auto simp: follows_def)

lemma chain_None: "hasContinuousParentChain ls None \<longleftrightarrow> successively follows ls"
  by (cases ls) (simp_all add: chain_Some)

lemma successively_ledgers:
  "successively follows (p # ls) \<Longrightarrow> map lc_ledger ls = map (\<lambda>i. lc_ledger p + 1 + int i) [0..<length ls]"
proof (induction ls arbitrary: p)
  case (Cons l ls)
  from Cons.prems have l: "lc_ledger l = lc_ledger p + 1" and c: "successively follows (l # ls)"
    by (auto simp: follows_def)
  have "map lc_ledger (l # ls) = (lc_ledger p + 1 + int 0) # map (\<lambda>i. lc_ledger p + 1 + int (Suc i)) [0..<length ls]"
    using Cons.IH [OF c] l by simp
  also have "\<dots> = map (\<lambda>i. lc_ledger p + 1 + int i) [0..<length (l # ls)]"
    by (simp add: upt_conv_Cons map_Suc_upt [symmetric] del: upt_Suc)
  finally show ?case .
qed simp

subsection \<open>The scan\<close>

definition agrees :: "(int \<rightharpoonup> LedgerCoordinate) \<Rightarrow> LedgerCoordinate \<Rightarrow> bool" where
  "agrees remote c \<longleftrightarrow> (\<exists>r. remote (lc_ledger c) = Some r \<and> lc_hash r = lc_hash c
     \<and> lc_parentHash r = lc_parentHash c)"

lemma scanCheckpoints_closed:
  "scanCheckpoints remote common cs =
     (let ok = takeWhile (agrees remote) cs in
      (if ok = [] then common else Some (last ok), ok \<noteq> cs))"
  by (induction cs arbitrary: common) (auto simp: agrees_def Let_def split: option.splits)

lemma takeWhile_sorted_below:
  assumes "sorted (map f xs)" and "distinct (map f xs)"
    and "takeWhile P xs \<noteq> []" and "x \<in> set xs" and "f x \<le> f (last (takeWhile P xs))"
  shows "P x"
  using assms
proof (induction xs)
  case (Cons y ys)
  show ?case
  proof (cases "x = y")
    case True
    with Cons.prems(3) show ?thesis by (auto split: if_splits)
  next
    case False
    with Cons.prems have x: "x \<in> set ys" and Py: "P y" by (auto split: if_splits)
    show ?thesis
    proof (cases "takeWhile P ys = []")
      case True
      with Cons.prems Py x have "f x \<le> f y" "f y \<le> f x" by auto
      then have "f x = f y" by simp
      with Cons.prems(2) x show ?thesis by (metis distinct.simps(2) image_eqI list.simps(9) set_map)
    next
      case tw: False
      with Cons Py x show ?thesis by auto
    qed
  qed
qed simp

text \<open>What a rewind target is: not past the cursor, and every persisted check point up to it agrees.\<close>

lemma rewindTarget_sound:
  assumes "rewindTarget cursor remote persisted = (common, True)"
    and "sorted (map lc_ledger persisted)" and "distinct (map lc_ledger persisted)"
    and "\<forall>c \<in> set persisted. 1 \<le> lc_ledger c \<and> lc_ledger c \<le> li_ledger cursor"
    and "0 < li_ledger cursor" and "\<And>n r. remote n = Some r \<Longrightarrow> lc_ledger r = n"
  shows "li_ledger (rewindUpdate common) \<le> li_ledger cursor
    \<and> (\<forall>c \<in> set persisted. lc_ledger c \<le> li_ledger (rewindUpdate common) \<longrightarrow> agrees remote c)"
proof (cases "persisted = []")
  case True
  with assms show ?thesis
    by (auto simp: rewindTarget_def rewindUpdate_def Let_def split: option.splits if_splits)
next
  case False
  let ?ok = "takeWhile (agrees remote) persisted"
  from False assms(1) have common: "common = (if ?ok = [] then None else Some (last ?ok))"
    by (auto simp: rewindTarget_def scanCheckpoints_closed Let_def split: if_splits)
  show ?thesis
  proof (cases "?ok = []")
    case True
    with common assms(4,5) show ?thesis by (fastforce simp: rewindUpdate_def)
  next
    case ok: False
    then have "last ?ok \<in> set persisted" using last_in_set set_takeWhileD by metis
    with ok common assms(4) takeWhile_sorted_below [OF assms(2,3) ok] show ?thesis
      by (auto simp: rewindUpdate_def)
  qed
qed

subsection \<open>What a reconciliation leaves\<close>

definition rewound :: "LastIndexedLedger \<Rightarrow> IndexerDb \<Rightarrow> IndexerDb" where
  "rewound l d = set_last l (drop_ledgers_after (li_ledger l)
     (drop_rows_after Transfer (li_ledger l) (drop_rows_after Burn (li_ledger l)
       (drop_rows_after Mint (li_ledger l) d))))"

context prisma_client
begin

lemma rewind_effect:
  "rewindTransaction store l db = (Inr u, db') \<Longrightarrow> tables db' = rewound l (tables db)"
  by (auto simp: rewindTransaction_def act_Inr_iffs rewound_def
      dest!: row_deleteMany ledger_deleteMany last_upsert)

lemma reconcile_effect:
  assumes "reconcileLedgerCursor store rpc cursor db = (Inr n, db')"
  shows "(db' = db \<and> n = li_ledger cursor) \<or>
    (\<exists>ledgers persisted common. 0 < li_ledger cursor
      \<and> rpc (scanStart cursor) REORG_LOOKBACK_LEDGERS = Inr ledgers
      \<and> persisted = sort_key lc_ledger (filter (\<lambda>c. scanStart cursor \<le> lc_ledger c \<and> lc_ledger c \<le> li_ledger cursor)
          (indexed_ledgers (tables db)))
      \<and> rewindTarget cursor (remoteBySequence ledgers) persisted = (common, True)
      \<and> n = li_ledger (rewindUpdate common) \<and> tables db' = rewound (rewindUpdate common) (tables db))"
proof (cases "li_ledger cursor \<le> 0")
  case True
  with assms show ?thesis by (simp add: reconcileLedgerCursor_def)
next
  case False
  let ?t = "\<lambda>ledgers persisted. rewindTarget cursor (remoteBySequence ledgers) persisted"
  from False assms obtain persisted db1 ledgers where
    f: "indexedLedger_findMany store (scanStart cursor) (li_ledger cursor) db = (Inr persisted, db1)"
    and r: "rpc (scanStart cursor) REORG_LOOKBACK_LEDGERS = Inr ledgers"
    and tail: "(if \<not> snd (?t ledgers persisted) then ret (li_ledger cursor)
          else andThen (rewindTransaction store (rewindUpdate (fst (?t ledgers persisted)))) (\<lambda>_.
            ret (li_ledger (rewindUpdate (fst (?t ledgers persisted)))))) db1 = (Inr n, db')"
    by (auto simp: reconcileLedgerCursor_def andThen_Inr_iff fromSum_Inr_iff Let_def)
  have db1: "db1 = db" using f ledger_findMany_reads by (rule readsD [rotated])
  show ?thesis
  proof (cases "snd (?t ledgers persisted)")
    case True
    with tail have "tables db' = rewound (rewindUpdate (fst (?t ledgers persisted))) (tables db)"
      and "n = li_ledger (rewindUpdate (fst (?t ledgers persisted)))"
      by (auto simp: andThen_Inr_iff db1 dest!: rewind_effect)
    moreover have "?t ledgers persisted = (fst (?t ledgers persisted), True)"
      using True by (simp add: prod_eq_iff)
    ultimately show ?thesis using False r ledger_findMany [OF f] by fastforce
  next
    case mm: False
    with tail db1 show ?thesis by simp
  qed
qed

end

lemma remoteBySequence_ledger: "remoteBySequence ls n = Some r \<Longrightarrow> lc_ledger r = n"
  by (auto simp: remoteBySequence_def toLedgerCoordinate_def dest: map_of_SomeD)

subsection \<open>Properties\<close>

text \<open>
  The chain check accepts a list of ledgers exactly when each ledger, the given
  predecessor included, is followed by the ledger with the next sequence number whose
  parent hash is its hash; accepted ledgers after a predecessor are consecutive.
\<close>

theorem hasContinuousParentChain_correct:
  "(hasContinuousParentChain ls parent \<longleftrightarrow>
      successively (\<lambda>p l. lc_ledger l = lc_ledger p + 1 \<and> lc_parentHash l = lc_hash p)
        ((case parent of None \<Rightarrow> [] | Some p \<Rightarrow> [p]) @ ls))
   \<and> (hasContinuousParentChain ls (Some p) \<longrightarrow>
      map lc_ledger ls = map (\<lambda>i. lc_ledger p + 1 + int i) [0..<length ls])"
  using successively_ledgers [of p ls]
  by (auto simp: chain_None chain_Some follows_def [abs_def] split: option.splits)

theorem hasContinuousParentChain_correct_witness:
  "let p = \<lparr>lc_ledger = 4, lc_hash = ''a'', lc_parentHash = ''z''\<rparr>;
       l = \<lparr>lc_ledger = 5, lc_hash = ''b'', lc_parentHash = ''a''\<rparr> in
   hasContinuousParentChain [l] (Some p) \<and> map lc_ledger [l] = [5]
   \<and> \<not> hasContinuousParentChain [p] (Some l)"
  using hasContinuousParentChain_correct
    [of "[\<lparr>lc_ledger = 5, lc_hash = ''b'', lc_parentHash = ''a''\<rparr>]" None
      "\<lparr>lc_ledger = 4, lc_hash = ''a'', lc_parentHash = ''z''\<rparr>"]
  by (simp add: Let_def)

text \<open>
  C7: a reconciliation that succeeds either leaves the database and the cursor as they
  are, or rewinds to a ledger not past the cursor up to which every check point of the
  look-back window agrees with the node; the rewind deletes exactly the mint, burn and
  transfer rows and the check points above it and moves the stored cursor to it.
\<close>

theorem reconcile_rewinds_to_common_ledger:
  assumes "prisma_client prisma tables"
    and "reconcileLedgerCursor prisma rpc cursor db = (Inr n, db')"
    and "distinct (map lc_ledger (indexed_ledgers (tables db)))"
  shows "db' = db \<and> n = li_ledger cursor \<or>
    (\<exists>ledgers l. rpc (scanStart cursor) REORG_LOOKBACK_LEDGERS = Inr ledgers
      \<and> n \<le> li_ledger cursor
      \<and> (\<forall>c \<in> set (indexed_ledgers (tables db)).
           scanStart cursor \<le> lc_ledger c \<and> lc_ledger c \<le> n \<longrightarrow> agrees (remoteBySequence ledgers) c)
      \<and> (\<forall>m \<in> {Mint, Burn, Transfer}.
           event_rows (tables db') m = filter (\<lambda>r. row_ledger r \<le> n) (event_rows (tables db) m))
      \<and> indexed_ledgers (tables db') = filter (\<lambda>c. lc_ledger c \<le> n) (indexed_ledgers (tables db))
      \<and> last_indexed (tables db') = Some l \<and> li_ledger l = n)"
  using prisma_client.reconcile_effect [OF assms(1,2)]
proof (elim disjE exE conjE)
  fix ledgers persisted common
  assume pos: "0 < li_ledger cursor"
    and rpc: "rpc (scanStart cursor) REORG_LOOKBACK_LEDGERS = Inr ledgers"
    and pe: "persisted = sort_key lc_ledger (filter (\<lambda>c. scanStart cursor \<le> lc_ledger c
        \<and> lc_ledger c \<le> li_ledger cursor) (indexed_ledgers (tables db)))"
    and t: "rewindTarget cursor (remoteBySequence ledgers) persisted = (common, True)"
    and n: "n = li_ledger (rewindUpdate common)"
    and tab: "tables db' = rewound (rewindUpdate common) (tables db)"
  have "sorted (map lc_ledger persisted)" "distinct (map lc_ledger persisted)"
    "\<forall>c \<in> set persisted. 1 \<le> lc_ledger c \<and> lc_ledger c \<le> li_ledger cursor"
    using assms(3) unfolding pe by (auto simp: distinct_map scanStart_def inj_on_def)
  note snd = rewindTarget_sound [OF t this pos remoteBySequence_ledger]
  have "\<forall>c \<in> set (indexed_ledgers (tables db)).
      scanStart cursor \<le> lc_ledger c \<and> lc_ledger c \<le> n \<longrightarrow> agrees (remoteBySequence ledgers) c"
    using snd n by (fastforce simp: pe)
  with rpc snd n tab show ?thesis
    by (intro disjI2 exI [of _ ledgers] exI [of _ "rewindUpdate common"]) (auto simp: rewound_def)
qed simp

text \<open>
  A reconciliation never touches the holder balances, the supply history or the rows
  of the vault, wrapper, vesting and split tables, whatever ledger it rewinds to.
\<close>

theorem reconcile_keeps_aggregates:
  assumes "prisma_client prisma tables"
    and "reconcileLedgerCursor prisma rpc cursor db = (Inr n, db')"
  shows "holders (tables db') = holders (tables db)
    \<and> supply_points (tables db') = supply_points (tables db)
    \<and> (\<forall>m. m \<notin> {Mint, Burn, Transfer} \<longrightarrow> event_rows (tables db') m = event_rows (tables db) m)"
  using prisma_client.reconcile_effect [OF assms] by (auto simp: rewound_def)

subsection \<open>A fork, and the witnesses\<close>

text \<open>
  Two check points and a mint in the second ledger; the node still has the first ledger
  but replaced the second.
\<close>

definition fork_coord :: "int \<Rightarrow> string \<Rightarrow> string \<Rightarrow> LedgerCoordinate" where
  "fork_coord n h p = \<lparr>lc_ledger = n, lc_hash = h, lc_parentHash = p\<rparr>"

definition fork_cursor :: LastIndexedLedger where
  "fork_cursor = \<lparr>li_ledger = 6, li_hash = Some ''b'', li_parentHash = Some ''a''\<rparr>"

definition fork_db :: IndexerDb where
  "fork_db = set_last fork_cursor (add_ledgers [fork_coord 5 ''a'' ''z'', fork_coord 6 ''b'' ''a''] emptyDb)"

definition fork_rpc :: getLedgers where
  "fork_rpc start limit = Inr [\<lparr>lr_sequence = 5, lr_hash = ''a'', lr_previousLedgerHash = ''z''\<rparr>,
     \<lparr>lr_sequence = 6, lr_hash = ''c'', lr_previousLedgerHash = ''a''\<rparr>]"

lemma fork_db_ledgers:
  "indexed_ledgers fork_db = [fork_coord 5 ''a'' ''z'', fork_coord 6 ''b'' ''a'']"
  by (simp add: fork_db_def insert_coord_def fork_coord_def)

lemma fork_persisted:
  "sort_key lc_ledger (filter (\<lambda>c. scanStart fork_cursor \<le> lc_ledger c \<and> lc_ledger c \<le> li_ledger fork_cursor)
     [fork_coord 5 ''a'' ''z'', fork_coord 6 ''b'' ''a'']) = [fork_coord 5 ''a'' ''z'', fork_coord 6 ''b'' ''a'']"
  by (simp add: scanStart_def REORG_LOOKBACK_LEDGERS_def fork_cursor_def fork_coord_def)

lemma fork_reconciles:
  assumes "indexed_ledgers d = [fork_coord 5 ''a'' ''z'', fork_coord 6 ''b'' ''a'']"
  shows "reconcileLedgerCursor refClient fork_rpc fork_cursor d =
    (Inr 5, rewound \<lparr>li_ledger = 5, li_hash = Some ''a'', li_parentHash = Some ''z''\<rparr> d)"
proof -
  let ?remote = "remoteBySequence [\<lparr>lr_sequence = 5, lr_hash = ''a'', lr_previousLedgerHash = ''z''\<rparr>,
     \<lparr>lr_sequence = 6, lr_hash = ''c'', lr_previousLedgerHash = ''a''\<rparr>]"
  have t: "rewindTarget fork_cursor ?remote [fork_coord 5 ''a'' ''z'', fork_coord 6 ''b'' ''a''] =
      (Some (fork_coord 5 ''a'' ''z''), True)"
    by (simp add: rewindTarget_def remoteBySequence_def toLedgerCoordinate_def fork_coord_def fork_cursor_def Let_def)
  show ?thesis
    using fork_persisted t assms
    by (simp add: reconcileLedgerCursor_def andThen_def refClient_def rewindTransaction_def
        transaction_def fork_rpc_def fromSum_def rewindUpdate_def rewound_def fork_coord_def
        fork_cursor_def Let_def)
qed

theorem reconcile_rewinds_to_common_ledger_witness:
  "\<exists>db'. reconcileLedgerCursor refClient fork_rpc fork_cursor fork_db = (Inr 5, db')
     \<and> indexed_ledgers db' = [fork_coord 5 ''a'' ''z''] \<and> event_rows db' Mint = []"
proof -
  have r: "reconcileLedgerCursor refClient fork_rpc fork_cursor fork_db =
    (Inr 5, rewound \<lparr>li_ledger = 5, li_hash = Some ''a'', li_parentHash = Some ''z''\<rparr> fork_db)"
    by (rule fork_reconciles [OF fork_db_ledgers])
  have d: "distinct (map lc_ledger (indexed_ledgers fork_db))"
    by (simp add: fork_db_ledgers fork_coord_def)
  have e: "event_rows fork_db Mint = []" by (simp add: fork_db_def)
  from reconcile_rewinds_to_common_ledger [OF ref_client.prisma_client_axioms r d] r e show ?thesis
    by (auto simp: fork_db_ledgers fork_cursor_def) (auto simp: fork_coord_def)
qed

theorem reconcile_keeps_aggregates_witness:
  "let d = put_holder ''A'' ''5'' 6 fork_db in
   \<exists>db'. reconcileLedgerCursor refClient fork_rpc fork_cursor d = (Inr 5, db') \<and> holders db' = holders d"
proof -
  let ?d = "put_holder ''A'' ''5'' 6 fork_db"
  have "indexed_ledgers ?d = [fork_coord 5 ''a'' ''z'', fork_coord 6 ''b'' ''a'']"
    by (simp add: fork_db_ledgers)
  note r = fork_reconciles [OF this]
  from reconcile_keeps_aggregates [OF ref_client.prisma_client_axioms r] r show ?thesis
    by (auto simp: Let_def)
qed

end
