(* ===== verification/Indexer.thy ===== *)
theory Indexer
  imports Cursor
begin

text \<open>
  The indexer proper, \<^verbatim>\<open>src/indexer/src/indexer.ts\<close>: decoding a contract event into a row
  and a ledger event, persisting both in one transaction, and the loop that walks the
  ledgers in ranges. The XDR decoder, the clock and the date parser come in through the
  record \<open>IndexerEnv\<close>; what the RPC node answers during one round of the loop is a value
  of \<open>RpcView\<close>, so a run of the loop is a run over a list of views.

  The main invariant, \<open>agg_consistent\<close>, ties the holder table to the event rows: the
  balances are those the ledger fold derives from the stored mints, transfers and burns.
\<close>

subsection \<open>Decoding native values\<close>

definition comma_join :: "string list \<Rightarrow> string" where
  "comma_join xs = concat (case xs of [] \<Rightarrow> [] | y # ys \<Rightarrow> y # map (\<lambda>z. CHR '','' # z) ys)"

text \<open>\<^verbatim>\<open>String(value)\<close>.\<close>

fun nshow :: "Native \<Rightarrow> string" where
  "nshow NUndef = ''undefined''"
| "nshow NNull = ''null''"
| "nshow (NBool b) = (if b then ''true'' else ''false'')"
| "nshow (NNum i) = show_int i"
| "nshow (NBig i) = show_int i"
| "nshow (NStr s) = s"
| "nshow (NList xs) = comma_join (map (\<lambda>x. if x = NUndef \<or> x = NNull then [] else nshow x) xs)"
| "nshow (NObj fs) = ''[object Object]''"

text \<open>\<^verbatim>\<open>decoded[i]\<close>.\<close>

fun nidx :: "Native \<Rightarrow> nat \<Rightarrow> js_error + Native" where
  "nidx NUndef i = Inl TypeError"
| "nidx NNull i = Inl TypeError"
| "nidx (NList xs) i = Inr (if i < length xs then xs ! i else NUndef)"
| "nidx (NStr s) i = Inr (if i < length s then NStr [s ! i] else NUndef)"
| "nidx (NObj fs) i = Inr (case map_of fs (show_nat i) of Some x \<Rightarrow> x | None \<Rightarrow> NUndef)"
| "nidx _ i = Inr NUndef"

text \<open>\<^verbatim>\<open>decoded[i].toString()\<close> and \<^verbatim>\<open>decoded[i]?.toString()\<close>.\<close>

definition amountField :: "Native \<Rightarrow> nat \<Rightarrow> (js_error, 's, string) act" where
  "amountField decoded i = andThen (fromSum (nidx decoded i)) (\<lambda>v.
     if v = NUndef \<or> v = NNull then throw TypeError else ret (nshow v))"

definition optField :: "Native \<Rightarrow> nat \<Rightarrow> (js_error, 's, string option) act" where
  "optField decoded i = andThen (fromSum (nidx decoded i)) (\<lambda>v.
     ret (if v = NUndef \<or> v = NNull then None else Some (nshow v)))"

definition scValString :: "Native \<Rightarrow> js_error + string" where
  "scValString v =
     (if v = NNull \<or> v = NUndef then Inl (JsError ''missing event field'') else Inr (nshow v))"

definition scField :: "Native \<Rightarrow> nat \<Rightarrow> (js_error, 's, Native) act" where
  "scField decoded i = andThen (fromSum (nidx decoded i)) (\<lambda>v.
     andThen (fromSum (scValString v)) (\<lambda>s. ret (NStr s)))"

text \<open>The string of a field that the row's \<^verbatim>\<open>create\<close> has accepted.\<close>

fun nstr :: "Native \<Rightarrow> string" where
  "nstr (NStr s) = s"
| "nstr _ = []"

subsection \<open>Events\<close>

record 'x EventResponse =
  ev_topic :: "'x list"
  ev_value :: 'x
  ev_ledger :: int
  ev_txHash :: string
  ev_ledgerClosedAt :: "string option"

record 'x IndexerEnv =
  env_scValToNative :: "'x \<Rightarrow> js_error + Native"
  env_parseDate :: "string \<Rightarrow> int option"
  env_now :: int

text \<open>An event as it is published: its type is the name of the model of its row.\<close>

record IndexerEvent =
  ie_type :: Model
  ie_data :: EventRow

definition ledgerCloseTime :: "'x IndexerEnv \<Rightarrow> 'x EventResponse \<Rightarrow> int" where
  "ledgerCloseTime env event =
     (case ev_ledgerClosedAt event of
        Some closedAt \<Rightarrow> (case env_parseDate env closedAt of Some t \<Rightarrow> t | None \<Rightarrow> env_now env)
      | None \<Rightarrow> env_now env)"

definition persistEventRow ::
  "'x IndexerEnv \<Rightarrow> ('db, 'm) PrismaClient_scheme \<Rightarrow> Model \<Rightarrow> EventRow \<Rightarrow> LedgerEvent \<Rightarrow>
   'x EventResponse \<Rightarrow> string option \<Rightarrow> (js_error, 'db, EventRow) act" where
  "persistEventRow env client model data ledgerEvent event newSupply =
     (let run =
        andThen (row_create client model data) (\<lambda>created.
        andThen (if has_holder client
                 then applyLedgerEventAggregates client ledgerEvent
                   \<lparr>opt_ledger = ev_ledger event, opt_txHash = ev_txHash event,
                    opt_timestamp = ledgerCloseTime env event, opt_newSupply = newSupply\<rparr>
                 else ret ()) (\<lambda>_.
        ret created))
      in if has_transaction client then transaction run else run)"

definition persistIndexedRow ::
  "('db, 'm) PrismaClient_scheme \<Rightarrow> Model \<Rightarrow> EventRow \<Rightarrow> (js_error, 'db, EventRow) act" where
  "persistIndexedRow client model data = row_create client model data"

definition mkRow :: "'x EventResponse \<Rightarrow> (string \<times> Native) list \<Rightarrow> EventRow" where
  "mkRow event cols =
     \<lparr>row_fields = cols, row_ledger = ev_ledger event, row_txHash = ev_txHash event\<rparr>"

definition published :: "Model \<Rightarrow> EventRow \<Rightarrow> (js_error, 'db, IndexerEvent option) act" where
  "published m row = ret (Some \<lparr>ie_type = m, ie_data = row\<rparr>)"

subsection \<open>The cases of processEvent\<close>

definition onMint ::
  "'x IndexerEnv \<Rightarrow> ('db, 'm) PrismaClient_scheme \<Rightarrow> 'x EventResponse \<Rightarrow> Native \<Rightarrow>
   (js_error, 'db, IndexerEvent option) act" where
  "onMint env db event decoded =
     andThen (fromSum (nidx decoded 1)) (\<lambda>to.
     andThen (amountField decoded 2) (\<lambda>amount.
     andThen (optField decoded 4) (\<lambda>newSupply.
     andThen (persistEventRow env db Mint (mkRow event [(''to'', to), (''amount'', NStr amount)])
        (EvMint (nstr to) amount) event newSupply) (\<lambda>row.
     published Mint row))))"

definition onBurn ::
  "'x IndexerEnv \<Rightarrow> ('db, 'm) PrismaClient_scheme \<Rightarrow> 'x EventResponse \<Rightarrow> Native \<Rightarrow>
   (js_error, 'db, IndexerEvent option) act" where
  "onBurn env db event decoded =
     andThen (fromSum (nidx decoded 0)) (\<lambda>from.
     andThen (amountField decoded 1) (\<lambda>amount.
     andThen (optField decoded 3) (\<lambda>newSupply.
     andThen (persistEventRow env db Burn (mkRow event [(''from'', from), (''amount'', NStr amount)])
        (EvBurn (nstr from) amount) event newSupply) (\<lambda>row.
     published Burn row))))"

text \<open>\<^verbatim>\<open>xfer\<close> reads its fields from index 0, \<^verbatim>\<open>xfer_frm\<close> from index 1.\<close>

definition onTransfer ::
  "nat \<Rightarrow> 'x IndexerEnv \<Rightarrow> ('db, 'm) PrismaClient_scheme \<Rightarrow> 'x EventResponse \<Rightarrow> Native \<Rightarrow>
   (js_error, 'db, IndexerEvent option) act" where
  "onTransfer k env db event decoded =
     andThen (fromSum (nidx decoded k)) (\<lambda>from.
     andThen (fromSum (nidx decoded (k + 1))) (\<lambda>to.
     andThen (amountField decoded (k + 2)) (\<lambda>amount.
     andThen (persistEventRow env db Transfer
        (mkRow event [(''from'', from), (''to'', to), (''amount'', NStr amount)])
        (EvTransfer (nstr from) (nstr to) amount) event None) (\<lambda>row.
     published Transfer row))))"

definition onDeposit ::
  "('db, 'm) PrismaClient_scheme \<Rightarrow> 'x EventResponse \<Rightarrow> Native \<Rightarrow> (js_error, 'db, IndexerEvent option) act" where
  "onDeposit db event decoded =
     andThen (scField decoded 0) (\<lambda>caller.
     andThen (scField decoded 1) (\<lambda>assets.
     andThen (scField decoded 2) (\<lambda>shares.
     andThen (persistIndexedRow db VaultDeposit
        (mkRow event [(''caller'', caller), (''assets'', assets), (''shares'', shares)])) (\<lambda>row.
     published VaultDeposit row))))"

definition onWrapper ::
  "string \<Rightarrow> ('db, 'm) PrismaClient_scheme \<Rightarrow> 'x EventResponse \<Rightarrow> Native \<Rightarrow>
   (js_error, 'db, IndexerEvent option) act" where
  "onWrapper kind db event decoded =
     andThen (scField decoded 0) (\<lambda>caller.
     andThen (scField decoded 1) (\<lambda>amount.
     andThen (scField decoded 2) (\<lambda>resultAmount.
     andThen (persistIndexedRow db WrapperUpdate
        (mkRow event [(''kind'', NStr kind), (''caller'', caller), (''amount'', amount),
           (''resultAmount'', resultAmount)])) (\<lambda>row.
     published WrapperUpdate row))))"

definition onVestingRelease ::
  "('db, 'm) PrismaClient_scheme \<Rightarrow> 'x EventResponse \<Rightarrow> Native \<Rightarrow> (js_error, 'db, IndexerEvent option) act" where
  "onVestingRelease db event decoded =
     andThen (scField decoded 0) (\<lambda>beneficiary.
     andThen (scField decoded 1) (\<lambda>amount.
     andThen (persistIndexedRow db VestingClaim
        (mkRow event [(''beneficiary'', beneficiary), (''amount'', amount)])) (\<lambda>row.
     published VestingClaim row)))"

definition onPayout ::
  "('db, 'm) PrismaClient_scheme \<Rightarrow> 'x EventResponse \<Rightarrow> Native \<Rightarrow> (js_error, 'db, IndexerEvent option) act" where
  "onPayout db event decoded =
     andThen (scField decoded 0) (\<lambda>invoiceId.
     andThen (scField decoded 1) (\<lambda>recipient.
     andThen (scField decoded 2) (\<lambda>amount.
     andThen (persistIndexedRow db SplitDistribution
        (mkRow event [(''invoiceId'', invoiceId), (''recipient'', recipient), (''amount'', amount)])) (\<lambda>row.
     published SplitDistribution row))))"

text \<open>The \<^verbatim>\<open>switch\<close>; every case decodes the event's value first.\<close>

definition dispatch ::
  "'x IndexerEnv \<Rightarrow> ('db, 'm) PrismaClient_scheme \<Rightarrow> 'x EventResponse \<Rightarrow> Native \<Rightarrow>
   (js_error, 'db, IndexerEvent option) act" where
  "dispatch env db event topic =
     (let with_data = (\<lambda>f. andThen (fromSum (env_scValToNative env (ev_value event))) f) in
      if topic = NStr ''mint'' then with_data (onMint env db event)
      else if topic = NStr ''burn'' then with_data (onBurn env db event)
      else if topic = NStr ''xfer'' then with_data (onTransfer 0 env db event)
      else if topic = NStr ''xfer_frm'' then with_data (onTransfer 1 env db event)
      else if topic = NStr ''deposit'' then with_data (onDeposit db event)
      else if topic = NStr ''wrap'' then with_data (onWrapper ''wrap'' db event)
      else if topic = NStr ''unwrap'' then with_data (onWrapper ''unwrap'' db event)
      else if topic = NStr ''v_rel'' then with_data (onVestingRelease db event)
      else if topic = NStr ''pyo_succ'' then with_data (onPayout db event)
      else ret None)"

text \<open>
  The value is the published event, if any. The topic is decoded outside the \<^verbatim>\<open>try\<close>; the
  handler of the \<^verbatim>\<open>catch\<close> only logs.
\<close>

definition processEvent ::
  "'x IndexerEnv \<Rightarrow> ('db, 'm) PrismaClient_scheme \<Rightarrow> 'x EventResponse \<Rightarrow>
   (js_error, 'db, IndexerEvent option) act" where
  "processEvent env database event =
     (case ev_topic event of
        [] \<Rightarrow> ret None
      | t # ts \<Rightarrow> andThen (fromSum (env_scValToNative env t)) (\<lambda>topic.
          tryCatch (dispatch env database event topic) (\<lambda>err. ret None)))"

subsection \<open>The loop\<close>

record 'x RpcView =
  rpc_getLatestLedger :: "js_error + int"
  rpc_getLedgers :: getLedgers
  rpc_getEvents :: "int \<Rightarrow> int \<Rightarrow> js_error + 'x EventResponse list"

definition previousCoordinate ::
  "LastIndexedLedger option \<Rightarrow> int \<Rightarrow> LedgerResponse list \<Rightarrow> LedgerCoordinate option" where
  "previousCoordinate lastLedger startLedger ledgers =
     (let fromRpc = (case filter (\<lambda>l. lr_sequence l = startLedger - 1) ledgers of
           [] \<Rightarrow> None | l # ls \<Rightarrow> Some (toLedgerCoordinate l))
      in case lastLedger of
           None \<Rightarrow> fromRpc
         | Some l \<Rightarrow>
             if li_ledger l = startLedger - 1 \<and> truthy (li_hash l)
             then Some \<lparr>lc_ledger = li_ledger l, lc_hash = the (li_hash l),
                        lc_parentHash = (case li_parentHash l of None \<Rightarrow> [] | Some p \<Rightarrow> p)\<rparr>
             else fromRpc)"

definition rangeCoordinates :: "int \<Rightarrow> int \<Rightarrow> LedgerResponse list \<Rightarrow> LedgerCoordinate list" where
  "rangeCoordinates startLedger endLedger ledgers =
     map toLedgerCoordinate (filter (\<lambda>l. startLedger \<le> lr_sequence l \<and> lr_sequence l \<le> endLedger) ledgers)"

definition coordCursor :: "LedgerCoordinate \<Rightarrow> LastIndexedLedger" where
  "coordCursor c = \<lparr>li_ledger = lc_ledger c, li_hash = Some (lc_hash c), li_parentHash = Some (lc_parentHash c)\<rparr>"

definition mismatchError :: "int \<Rightarrow> js_error" where
  "mismatchError n = JsError (''Ledger sequence or parent hash mismatch at '' @ show_int n)"

text \<open>The body of the \<^verbatim>\<open>try\<close>, with the next \<^verbatim>\<open>startLedger\<close> as its value.\<close>

definition indexRange ::
  "'x IndexerEnv \<Rightarrow> ('db, 'm) PrismaClient_scheme \<Rightarrow> 'x RpcView \<Rightarrow> LastIndexedLedger option \<Rightarrow> int \<Rightarrow>
   (js_error, 'db, int) act" where
  "indexRange env prisma rpc lastLedger startLedger =
     andThen (fromSum (rpc_getLatestLedger rpc)) (\<lambda>currentLedger.
     if startLedger > currentLedger then ret startLedger
     else
       let endLedger = min (startLedger + 1000) currentLedger;
           ledgerStart = max 1 (startLedger - 1) in
       andThen (fromSum (rpc_getLedgers rpc ledgerStart (endLedger - ledgerStart + 1))) (\<lambda>ledgers.
       let coordinates = rangeCoordinates startLedger endLedger ledgers;
           previous = previousCoordinate lastLedger startLedger ledgers in
       if int (length coordinates) \<noteq> endLedger - startLedger + 1
          \<or> \<not> hasContinuousParentChain coordinates previous
       then andThen (case lastLedger of
                None \<Rightarrow> ret 0
              | Some l \<Rightarrow> reconcileLedgerCursor prisma (rpc_getLedgers rpc) l) (\<lambda>_.
            throw (mismatchError startLedger))
       else andThen (fromSum (rpc_getEvents rpc startLedger endLedger)) (\<lambda>events.
            andThen (forEach (\<lambda>e. andThen (processEvent env prisma e) (\<lambda>_. ret ())) events) (\<lambda>_.
            if coordinates = [] then throw (JsError (''No ledger coordinates returned through '' @ show_int endLedger))
            else andThen (transaction (
                andThen (indexedLedger_createMany prisma coordinates) (\<lambda>_.
                lastIndexed_upsert prisma (coordCursor (last coordinates))))) (\<lambda>_.
              ret (endLedger + 1))))))"

text \<open>One round of the loop: an error is logged and the same range is tried again.\<close>

definition indexerRound ::
  "'x IndexerEnv \<Rightarrow> ('db, 'm) PrismaClient_scheme \<Rightarrow> 'x RpcView \<Rightarrow> LastIndexedLedger option \<Rightarrow>
   int \<times> 'db \<Rightarrow> int \<times> 'db" where
  "indexerRound env prisma rpc lastLedger st =
     (case indexRange env prisma rpc lastLedger (fst st) (snd st) of
        (Inl e, db') \<Rightarrow> (fst st, db')
      | (Inr next, db') \<Rightarrow> (next, db'))"

fun indexerRounds ::
  "'x IndexerEnv \<Rightarrow> ('db, 'm) PrismaClient_scheme \<Rightarrow> 'x RpcView list \<Rightarrow> LastIndexedLedger option \<Rightarrow>
   int \<times> 'db \<Rightarrow> int \<times> 'db" where
  "indexerRounds env prisma [] lastLedger st = st"
| "indexerRounds env prisma (v # vs) lastLedger st =
     indexerRounds env prisma vs lastLedger (indexerRound env prisma v lastLedger st)"

text \<open>
  The whole run, as far as a list of views takes it: the cursor is read once, before the
  loop, and \<^verbatim>\<open>lastLedger\<close> is not assigned again. The seeding asks the node too.
\<close>

definition runIndexer ::
  "'x IndexerEnv \<Rightarrow> ('db, 'm) PrismaClient_scheme \<Rightarrow> getLedgers \<Rightarrow> 'x RpcView list \<Rightarrow>
   (js_error, 'db, int) act" where
  "runIndexer env prisma seedRpc views =
     andThen (lastIndexed_find prisma) (\<lambda>lastLedger.
     andThen (case lastLedger of None \<Rightarrow> ret () | Some l \<Rightarrow> seedLedgerCheckpoints prisma seedRpc l) (\<lambda>_ db.
       let startLedger = (case lastLedger of None \<Rightarrow> 1 | Some l \<Rightarrow> li_ledger l + 1);
           st = indexerRounds env prisma views lastLedger (startLedger, db)
       in (Inr (fst st), snd st)))"

subsection \<open>What indexing one event does\<close>

definition fld :: "EventRow \<Rightarrow> string \<Rightarrow> string" where
  "fld r k = (case map_of (row_fields r) k of None \<Rightarrow> [] | Some v \<Rightarrow> nstr v)"

text \<open>The ledger event a stored row stands for.\<close>

fun rowEvent :: "Model \<Rightarrow> EventRow \<Rightarrow> LedgerEvent option" where
  "rowEvent Mint r = Some (EvMint (fld r ''to'') (fld r ''amount''))"
| "rowEvent Transfer r = Some (EvTransfer (fld r ''from'') (fld r ''to'') (fld r ''amount''))"
| "rowEvent Burn r = Some (EvBurn (fld r ''from'') (fld r ''amount''))"
| "rowEvent _ r = None"

text \<open>The tables after a row of model \<open>m\<close> has been indexed.\<close>

definition persisted :: "Model \<Rightarrow> EventRow \<Rightarrow> IndexerDb \<Rightarrow> IndexerDb \<Rightarrow> bool" where
  "persisted m row d d' \<longleftrightarrow>
     row_txHash row \<notin> txHashes m d
     \<and> event_rows d' = (event_rows d)(m := event_rows d m @ [row])
     \<and> indexed_ledgers d' = indexed_ledgers d \<and> last_indexed d' = last_indexed d
     \<and> (case rowEvent m row of
          None \<Rightarrow> holders d' = holders d \<and> supply_points d' = supply_points d
        | Some e \<Rightarrow> \<exists>ds. deltasFor e = Some ds
            \<and> holderBalances d' = foldl applyDelta (holderBalances d) ds)"

text \<open>
  \<open>outcome\<close>: a result either publishes a row of model \<open>m\<close> for the event that has been
  persisted, or leaves the database as it was and publishes nothing. \<open>indexes\<close> says so of
  every run of an effect.
\<close>

definition outcome ::
  "('db \<Rightarrow> IndexerDb) \<Rightarrow> 'x EventResponse \<Rightarrow> Model \<Rightarrow> 'db \<Rightarrow> (js_error + IndexerEvent option) \<times> 'db \<Rightarrow> bool" where
  "outcome tables event m db res \<longleftrightarrow>
     (\<exists>row. fst res = Inr (Some \<lparr>ie_type = m, ie_data = row\<rparr>) \<and> row_txHash row = ev_txHash event
        \<and> row_ledger row = ev_ledger event \<and> persisted m row (tables db) (tables (snd res)))
     \<or> snd res = db \<and> (\<forall>ie. fst res \<noteq> Inr (Some ie))"

definition indexes ::
  "('db \<Rightarrow> IndexerDb) \<Rightarrow> 'x EventResponse \<Rightarrow> Model \<Rightarrow> (js_error, 'db, IndexerEvent option) act \<Rightarrow> bool" where
  "indexes tables event m f \<longleftrightarrow> (\<forall>db. outcome tables event m db (f db))"

text \<open>The model a topic is indexed under.\<close>

definition topicModel :: "Native \<Rightarrow> Model" where
  "topicModel topic =
     (if topic = NStr ''mint'' then Mint else if topic = NStr ''burn'' then Burn
      else if topic = NStr ''xfer'' \<or> topic = NStr ''xfer_frm'' then Transfer
      else if topic = NStr ''deposit'' then VaultDeposit
      else if topic = NStr ''wrap'' \<or> topic = NStr ''unwrap'' then WrapperUpdate
      else if topic = NStr ''v_rel'' then VestingClaim else SplitDistribution)"

lemma reads_fromSum [intro, simp]: "reads (fromSum r)"
  by (cases r) (auto simp: reads_def fromSum_def)

lemma reads_if [intro]: "reads f \<Longrightarrow> reads g \<Longrightarrow> reads (if b then f else g)"
  by simp

lemma reads_Pair [intro, simp]: "reads (Pair r)" "reads (ret x)" "reads (throw e)"
  by (simp_all add: reads_def)

lemma reads_andThen [intro]:
  assumes "reads f" and "\<And>x. reads (g x)"
  shows "reads (andThen f g)"
  unfolding reads_def
proof
  fix s
  show "snd (andThen f g s) = s"
  proof (cases "f s")
    case (Pair r t)
    with readsD [OF assms(1)] have "t = s" by blast
    with Pair assms(2) show ?thesis by (cases r) (auto simp: andThen_def reads_def)
  qed
qed

lemma reads_fields [intro, simp]:
  "reads (amountField d i)" "reads (optField d i)" "reads (scField d i)"
  by (auto simp: amountField_def optField_def scField_def)

lemma outcome_Inl [simp]: "outcome T ev m db (Inl e, db)"
  by (simp add: outcome_def)

lemma indexes_reads:
  assumes "reads f" and "\<And>x. indexes T ev m (g x)"
  shows "indexes T ev m (andThen f g)"
  unfolding indexes_def
proof
  fix db
  show "outcome T ev m db (andThen f g db)"
  proof (cases "f db")
    case (Pair r t)
    with readsD [OF assms(1)] have "t = db" by blast
    with Pair assms(2) show ?thesis by (cases r) (auto simp: andThen_def indexes_def)
  qed
qed

lemma indexes_ret_None [simp]: "indexes T ev m (ret None)"
  by (simp add: indexes_def outcome_def)

lemma indexes_tryCatch: "indexes T ev m f \<Longrightarrow> indexes T ev m (tryCatch f (\<lambda>e. ret None))"
  unfolding indexes_def
proof
  fix db
  assume *: "\<forall>db. outcome T ev m db (f db)"
  show "outcome T ev m db (tryCatch f (\<lambda>e. ret None) db)"
    using spec [OF *, of db]
    by (cases "f db", cases "fst (f db)") (auto simp: outcome_def tryCatch_def)
qed

lemma mkRow_simps [simp]:
  "row_fields (mkRow ev cols) = cols" "row_txHash (mkRow ev cols) = ev_txHash ev"
  "row_ledger (mkRow ev cols) = ev_ledger ev"
  by (simp_all add: mkRow_def)

context prisma_client
begin

lemma persistIndexedRow_indexes:
  assumes "rowEvent m (mkRow ev cols) = None"
  shows "indexes tables ev m (andThen (persistIndexedRow store m (mkRow ev cols)) (published m))"
  unfolding indexes_def
proof
  fix db
  show "outcome tables ev m db (andThen (persistIndexedRow store m (mkRow ev cols)) (published m) db)"
  proof (cases "row_create store m (mkRow ev cols) db")
    case (Pair x db1)
    show ?thesis
    proof (cases x)
      case (Inl e)
      with Pair fails_cleanD [OF row_create_clean, of m "mkRow ev cols" db e db1] show ?thesis
        by (simp add: persistIndexedRow_def andThen_def)
    next
      case (Inr row)
      with Pair row_create [of m "mkRow ev cols" db row db1] assms show ?thesis
        by (simp add: persistIndexedRow_def andThen_def published_def persisted_def outcome_def)
    qed
  qed
qed

lemma persistEventRow_Inr:
  assumes "has_transaction store" and "has_holder store"
    and "persistEventRow env store m data le ev ns db = (Inr row, db')"
    and "rowEvent m data = Some le"
  shows "row = data \<and> persisted m data (tables db) (tables db')"
proof -
  let ?o = "\<lparr>opt_ledger = ev_ledger ev, opt_txHash = ev_txHash ev,
      opt_timestamp = ledgerCloseTime env ev, opt_newSupply = ns\<rparr>"
  from assms obtain db1 where c: "row_create store m data db = (Inr row, db1)"
    and a: "applyLedgerEventAggregates store le ?o db1 = (Inr (), db')"
    by (auto simp: persistEventRow_def act_Inr_iffs)
  from event_aggregates [OF a] row_create [OF c] assms(4) show ?thesis
    by (auto simp: persisted_def same_events_def)
qed

lemma persistEventRow_Inl:
  assumes "has_transaction store" and "persistEventRow env store m data le ev ns db = (Inl e, db')"
  shows "db' = db"
  using assms by (auto simp: persistEventRow_def Let_def dest: transaction_Inl)

lemma persistEventRow_indexes:
  assumes "has_transaction store" and "has_holder store" and "rowEvent m (mkRow ev cols) = Some le"
  shows "indexes tables ev m (andThen (persistEventRow env store m (mkRow ev cols) le ev ns) (published m))"
  unfolding indexes_def
proof
  fix db
  show "outcome tables ev m db
    (andThen (persistEventRow env store m (mkRow ev cols) le ev ns) (published m) db)"
  proof (cases "persistEventRow env store m (mkRow ev cols) le ev ns db")
    case (Pair x db1)
    show ?thesis
    proof (cases x)
      case (Inl e)
      with Pair persistEventRow_Inl [OF assms(1)] have "db1 = db" by blast
      with Pair Inl show ?thesis by (simp add: andThen_def)
    next
      case (Inr row)
      with Pair have "persistEventRow env store m (mkRow ev cols) le ev ns db = (Inr row, db1)" by simp
      from persistEventRow_Inr [OF assms(1,2) this assms(3)] Pair Inr show ?thesis
        by (simp add: andThen_def published_def outcome_def)
    qed
  qed
qed

lemma case_indexes:
  assumes "has_transaction store" and "has_holder store"
  shows "indexes tables ev Mint (onMint env store ev d)"
    "indexes tables ev Burn (onBurn env store ev d)"
    "indexes tables ev Transfer (onTransfer k env store ev d)"
    "indexes tables ev VaultDeposit (onDeposit store ev d)"
    "indexes tables ev WrapperUpdate (onWrapper kind store ev d)"
    "indexes tables ev VestingClaim (onVestingRelease store ev d)"
    "indexes tables ev SplitDistribution (onPayout store ev d)"
  unfolding onMint_def onBurn_def onTransfer_def onDeposit_def onWrapper_def onVestingRelease_def onPayout_def
  by (intro indexes_reads reads_fromSum reads_fields persistEventRow_indexes [OF assms]
      persistIndexedRow_indexes; simp add: fld_def)+

lemma dispatch_indexes:
  assumes "has_transaction store" and "has_holder store"
  shows "indexes tables ev (topicModel topic) (dispatch env store ev topic)"
  by (simp add: dispatch_def topicModel_def Let_def indexes_reads case_indexes [OF assms])

end

lemma processEvent_indexes:
  assumes "prisma_client store tables" and "has_transaction store" and "has_holder store"
    and "ev_topic ev = t # ts" and "env_scValToNative env t = Inr topic"
  shows "outcome tables ev (topicModel topic) db (processEvent env store ev db)"
  using indexes_tryCatch [OF prisma_client.dispatch_indexes [OF assms(1-3)], of ev topic env] assms(4,5)
  by (simp add: processEvent_def fromSum_def indexes_def)

lemma processEvent_caught:
  assumes "ev_topic ev = t # ts" and "env_scValToNative env t = Inr topic"
  shows "\<exists>v. fst (processEvent env store ev db) = Inr v"
  using assms
  by (simp add: processEvent_def fromSum_def tryCatch_def split: prod.splits sum.splits)

lemma processEvent_undecoded:
  "ev_topic ev = [] \<Longrightarrow> processEvent env store ev db = (Inr None, db)"
  "ev_topic ev = t # ts \<Longrightarrow> env_scValToNative env t = Inl e \<Longrightarrow> processEvent env store ev db = (Inl e, db)"
  by (simp_all add: processEvent_def fromSum_def)

lemma processEvent_outcome:
  assumes "prisma_client store tables" and "has_transaction store" and "has_holder store"
  shows "\<exists>m. outcome tables ev m db (processEvent env store ev db)"
proof (cases "ev_topic ev")
  case Nil
  then show ?thesis by (simp add: processEvent_undecoded outcome_def)
next
  case (Cons t ts)
  show ?thesis
  proof (cases "env_scValToNative env t")
    case (Inl e)
    then show ?thesis by (simp add: processEvent_undecoded(2) [OF Cons Inl])
  next
    case (Inr topic)
    with processEvent_indexes [OF assms Cons] show ?thesis by blast
  qed
qed

subsection \<open>The holder table is the fold of the event rows\<close>

definition rowEvents :: "IndexerDb \<Rightarrow> LedgerEvent list" where
  "rowEvents d = concat (map (\<lambda>m. map (\<lambda>r. the (rowEvent m r)) (event_rows d m)) [Mint, Transfer, Burn])"

definition agg_consistent :: "IndexerDb \<Rightarrow> bool" where
  "agg_consistent d \<longleftrightarrow> list_all parses (rowEvents d) \<and> holderBalances d = balances (specState (rowEvents d))"

lemma holderBalances_cong: "holders d = holders d' \<Longrightarrow> holderBalances d = holderBalances d'"
  by (simp add: holderBalances_def fun_eq_iff)

lemma specState_mset: "mset es = mset es' \<Longrightarrow> specState es = specState es'"
  by (simp add: specState_def sum_list_map_mset [of es es'])

lemma specState_balances_step:
  assumes "deltasFor e = Some ds"
  shows "foldl applyDelta (balances (specState es)) ds = balances (specState (e # es)) \<and> parses e"
proof -
  have p: "parses e" using assms by (cases e) (auto simp: parses_def)
  let ?f = "\<lambda>a. sum_list (map (netDelta a) es)"
  have "balances (the (applyLedgerEvent \<lparr>balances = mkmap ?f, supply_of = 0\<rparr> e)) = foldl applyDelta (mkmap ?f) ds"
    using p assms by (cases "supplyDeltaFor e") (auto simp: applyLedgerEvent_def dest: deltas_sum_supply)
  with p show ?thesis by (simp add: applyLedgerEvent_mkmap specState_def add.commute)
qed

lemma rowEvents_persisted:
  assumes "event_rows d' = (event_rows d)(m := event_rows d m @ [row])"
  shows "mset (rowEvents d') = (case rowEvent m row of None \<Rightarrow> mset (rowEvents d)
     | Some e \<Rightarrow> mset (e # rowEvents d))"
  using assms by (cases m) (simp_all add: rowEvents_def)

lemma persisted_consistent:
  assumes "persisted m row d d'" and "agg_consistent d"
  shows "agg_consistent d'"
proof (cases "rowEvent m row")
  case None
  with assms have h: "holderBalances d' = holderBalances d" and r: "mset (rowEvents d') = mset (rowEvents d)"
    by (auto simp: persisted_def rowEvents_persisted intro: holderBalances_cong)
  with assms(2) show ?thesis by (simp add: agg_consistent_def specState_mset [OF r] list_all_mset [OF r])
next
  case (Some e)
  with assms(1) obtain ds where ds: "deltasFor e = Some ds"
    and h: "holderBalances d' = foldl applyDelta (holderBalances d) ds"
    and r: "mset (rowEvents d') = mset (e # rowEvents d)"
    by (auto simp: persisted_def rowEvents_persisted)
  from specState_balances_step [OF ds, of "rowEvents d"] h assms(2)
  show ?thesis by (simp add: agg_consistent_def specState_mset [OF r] list_all_mset [OF r])
qed

lemma processEvent_keeps_consistent:
  assumes "prisma_client store tables" and "has_transaction store" and "has_holder store"
  shows "keeps (\<lambda>db. agg_consistent (tables db)) (processEvent env store ev)"
proof (rule keepsI)
  fix db
  assume "agg_consistent (tables db)"
  with processEvent_outcome [OF assms, of ev db env] show "agg_consistent (tables (snd (processEvent env store ev db)))"
    by (auto simp: outcome_def dest: persisted_consistent)
qed

lemma agg_consistent_empty [simp]: "agg_consistent emptyDb"
  by (simp add: agg_consistent_def rowEvents_def specState_def)

lemma processEvent_keeps_hash:
  assumes "prisma_client store tables" and "has_transaction store" and "has_holder store"
  shows "keeps (\<lambda>db. h \<in> txHashes m (tables db)) (processEvent env store ev)"
proof (rule keepsI)
  fix db
  assume "h \<in> txHashes m (tables db)"
  with processEvent_outcome [OF assms, of ev db env] show "h \<in> txHashes m (tables (snd (processEvent env store ev db)))"
    by (auto simp: outcome_def persisted_def txHashes_def)
qed

subsection \<open>The rounds of the loop\<close>





text \<open>What a successful round is made of.\<close>

lemma indexRange_Inr:
  assumes "indexRange env prisma rpc lastLedger startLedger db = (Inr next, db')"
  shows "(next = startLedger \<and> db' = db) \<or>
    (\<exists>current ledgers e cs dbm.
      rpc_getLatestLedger rpc = Inr current \<and> startLedger \<le> e \<and> e \<le> startLedger + 1000 \<and> e \<le> current
      \<and> rpc_getLedgers rpc (max 1 (startLedger - 1)) (e - max 1 (startLedger - 1) + 1) = Inr ledgers
      \<and> cs = rangeCoordinates startLedger e ledgers
      \<and> int (length cs) = e - startLedger + 1
      \<and> hasContinuousParentChain cs (previousCoordinate lastLedger startLedger ledgers)
      \<and> transaction (andThen (indexedLedger_createMany prisma cs) (\<lambda>_.
           lastIndexed_upsert prisma (coordCursor (last cs)))) dbm = (Inr (), db')
      \<and> next = e + 1)"
proof -
  from assms obtain current where cur: "rpc_getLatestLedger rpc = Inr current"
    by (auto simp: indexRange_def andThen_Inr_iff fromSum_Inr_iff)
  show ?thesis
  proof (cases "startLedger > current")
    case True
    with assms cur show ?thesis by (simp add: indexRange_def fromSum_def)
  next
    case False
    let ?e = "min (startLedger + 1000) current"
    from False assms cur obtain ledgers where
      l: "rpc_getLedgers rpc (max 1 (startLedger - 1)) (?e - max 1 (startLedger - 1) + 1) = Inr ledgers"
      by (auto simp: indexRange_def andThen_Inr_iff fromSum_Inr_iff Let_def)
    let ?cs = "rangeCoordinates startLedger ?e ledgers"
    have ok: "int (length ?cs) = ?e - startLedger + 1
        \<and> hasContinuousParentChain ?cs (previousCoordinate lastLedger startLedger ledgers)"
      using assms cur l False
      by (auto simp: indexRange_def andThen_Inr_iff fromSum_Inr_iff Let_def split: if_splits)
    then obtain dbm where "transaction (andThen (indexedLedger_createMany prisma ?cs) (\<lambda>_.
           lastIndexed_upsert prisma (coordCursor (last ?cs)))) dbm = (Inr (), db')" and "next = ?e + 1"
      using assms cur l False
      by (auto simp: indexRange_def andThen_Inr_iff fromSum_Inr_iff Let_def split: if_splits)
    with cur l ok False show ?thesis
      by (intro disjI2 exI [of _ current] exI [of _ ledgers] exI [of _ ?e] exI [of _ ?cs] exI [of _ dbm]) auto
  qed
qed

lemma indexRange_stuck:
  assumes "li_ledger l = startLedger - 1" and "li_hash l = Some h" and "h \<noteq> []"
    and "\<And>a b ls x. rpc_getLedgers rpc a b = Inr ls \<Longrightarrow> x \<in> set ls \<Longrightarrow>
      lr_sequence x = startLedger \<Longrightarrow> lr_previousLedgerHash x \<noteq> h"
    and "indexRange env prisma rpc (Some l) startLedger db = (Inr next, db')"
  shows "next = startLedger"
  using indexRange_Inr [OF assms(5)]
proof (elim disjE exE conjE)
  fix current ledgers e cs dbm
  let ?p = "previousCoordinate (Some l) startLedger ledgers"
  assume ls: "rpc_getLedgers rpc (max 1 (startLedger - 1)) (e - max 1 (startLedger - 1) + 1) = Inr ledgers"
    and e: "startLedger \<le> e" and cs: "cs = rangeCoordinates startLedger e ledgers"
    and len: "int (length cs) = e - startLedger + 1" and ch: "hasContinuousParentChain cs ?p"
  obtain c ds where c: "cs = c # ds" using len e by (cases cs) auto
  have "?p = Some \<lparr>lc_ledger = li_ledger l, lc_hash = h,
      lc_parentHash = (case li_parentHash l of None \<Rightarrow> [] | Some p \<Rightarrow> p)\<rparr>"
    using assms(1-3) by (simp add: previousCoordinate_def truthy_def)
  with ch c assms(1) have "lc_ledger c = startLedger" "lc_parentHash c = h" by (auto split: if_splits)
  moreover have "c \<in> set (rangeCoordinates startLedger e ledgers)" using c cs by simp
  ultimately obtain x where "x \<in> set ledgers" "lr_sequence x = startLedger" "lr_previousLedgerHash x = h"
    by (auto simp: rangeCoordinates_def toLedgerCoordinate_def)
  with assms(4) [OF ls] show ?thesis by blast
qed simp

subsection \<open>Properties\<close>

text \<open>
  C9: indexing an event is all or nothing. Either it publishes a row that carries the
  event's transaction hash and ledger, was not in its table before and has been stored
  together with its effect on the holder balances, or it publishes nothing and leaves the
  database exactly as it was; it throws only when the topic does not decode.
\<close>

theorem processEvent_all_or_nothing:
  assumes "prisma_client client tables" and "has_transaction client" and "has_holder client"
    and "processEvent env client ev db = (r, db')"
  shows "((\<exists>m row. r = Inr (Some \<lparr>ie_type = m, ie_data = row\<rparr>) \<and> row_txHash row = ev_txHash ev
        \<and> row_ledger row = ev_ledger ev \<and> persisted m row (tables db) (tables db'))
     \<or> db' = db \<and> (\<forall>ie. r \<noteq> Inr (Some ie)))
    \<and> (\<forall>e. r = Inl e \<longrightarrow> (\<exists>t ts. ev_topic ev = t # ts \<and> env_scValToNative env t = Inl e))"
proof (intro conjI allI impI)
  show "(\<exists>m row. r = Inr (Some \<lparr>ie_type = m, ie_data = row\<rparr>) \<and> row_txHash row = ev_txHash ev
        \<and> row_ledger row = ev_ledger ev \<and> persisted m row (tables db) (tables db'))
     \<or> db' = db \<and> (\<forall>ie. r \<noteq> Inr (Some ie))"
    using processEvent_outcome [OF assms(1-3), of ev db env] assms(4)
    by (auto simp: outcome_def)
next
  fix e
  assume r: "r = Inl e"
  obtain t ts where t: "ev_topic ev = t # ts"
    using assms(4) r by (cases "ev_topic ev") (auto simp: processEvent_undecoded)
  moreover have "env_scValToNative env t = Inl e"
    using processEvent_caught [OF t, of env _ client db] processEvent_undecoded(2) [OF t, of env _ client db]
      assms(4) r
    by (cases "env_scValToNative env t") auto
  ultimately show "\<exists>t ts. ev_topic ev = t # ts \<and> env_scValToNative env t = Inl e" by blast
qed

text \<open>
  C10: once an event has been published, and whatever events are processed after it, every later event of the same
  model with the same transaction hash, the event itself in particular, is ignored: nothing is published and
  the database does not change. Delivering an event again therefore does not apply it twice, as long as
  no rewind after a reorganisation deletes its row.
\<close>

theorem processEvent_once_per_transaction:
  assumes "prisma_client client tables" and "has_transaction client" and "has_holder client"
    and "processEvent env client ev db = (Inr (Some ie), db1)"
    and "forEach (\<lambda>e. andThen (processEvent env client e) (\<lambda>_. ret ())) events db1 = (r, db2)"
    and "ev_topic ev = t # ts" and "env_scValToNative env t = Inr topic"
    and "ev_topic ev2 = t2 # ts2" and "env_scValToNative env t2 = Inr topic2"
    and "topicModel topic2 = topicModel topic" and "ev_txHash ev2 = ev_txHash ev"
  shows "processEvent env client ev2 db2 = (Inr None, db2)"
proof -
  from processEvent_indexes [OF assms(1-3,6,7), of db] assms(4)
  have "ev_txHash ev \<in> txHashes (topicModel topic) (tables db1)"
    by (auto simp: outcome_def persisted_def txHashes_def)
  moreover have "keeps (\<lambda>db. ev_txHash ev \<in> txHashes (topicModel topic) (tables db))
      (forEach (\<lambda>e. andThen (processEvent env client e) (\<lambda>_. ret ())) events)"
    by (intro keeps_forEach keeps_andThen keeps_ret processEvent_keeps_hash [OF assms(1-3)])
  ultimately have "ev_txHash ev \<in> txHashes (topicModel topic) (tables db2)"
    using assms(5) keepsD by (metis (mono_tags, lifting) snd_conv)
  then have "\<not> persisted (topicModel topic) row (tables db2) d'" if "row_txHash row = ev_txHash ev" for row d'
    using that by (simp add: persisted_def)
  with processEvent_indexes [OF assms(1-3,8,9), of db2] assms(10,11)
  have "snd (processEvent env client ev2 db2) = db2" "\<forall>ie. fst (processEvent env client ev2 db2) \<noteq> Inr (Some ie)"
    by (auto simp: outcome_def)
  moreover obtain v where "fst (processEvent env client ev2 db2) = Inr v"
    using processEvent_caught [OF assms(8,9), of client db2] by blast
  ultimately show ?thesis by (cases v) (auto simp: prod_eq_iff)
qed

text \<open>
  C11: while events are indexed, in any number and whatever their content, the holder
  table keeps standing for exactly the balances that the ledger fold derives from the
  stored mint, transfer and burn rows.
\<close>

theorem processEvents_keep_holders_consistent:
  assumes "prisma_client client tables" and "has_transaction client" and "has_holder client"
    and "agg_consistent (tables db)"
  shows "agg_consistent (tables (snd
    (forEach (\<lambda>e. andThen (processEvent env client e) (\<lambda>_. ret ())) events db)))"
proof -
  have "keeps (\<lambda>db. agg_consistent (tables db))
      (forEach (\<lambda>e. andThen (processEvent env client e) (\<lambda>_. ret ())) events)"
    by (intro keeps_forEach keeps_andThen keeps_ret processEvent_keeps_consistent [OF assms(1-3)])
  with assms(4) show ?thesis by (rule keepsD [rotated])
qed



text \<open>
  C13: when the node has left the fork that the cursor recorded, the loop never leaves the
  ledger it starts at, however many rounds it runs and although each round may rewind the
  database: the round after a reconciliation compares with the cursor read before the loop.
\<close>

theorem reorg_stalls_indexer:
  assumes "li_ledger l = startLedger - 1" and "li_hash l = Some h" and "h \<noteq> []"
    and "\<forall>v \<in> set views. \<forall>a b ls. rpc_getLedgers v a b = Inr ls \<longrightarrow>
      (\<forall>x \<in> set ls. lr_sequence x = startLedger \<longrightarrow> lr_previousLedgerHash x \<noteq> h)"
  shows "fst (indexerRounds env prisma views (Some l) (startLedger, db)) = startLedger"
  using assms(4)
proof (induction views arbitrary: db)
  case (Cons v vs)
  have v: "rpc_getLedgers v a b = Inr ls \<Longrightarrow> x \<in> set ls \<Longrightarrow> lr_sequence x = startLedger
      \<Longrightarrow> lr_previousLedgerHash x \<noteq> h" for a b ls x
    using Cons.prems by auto
  have "fst (indexerRound env prisma v (Some l) (startLedger, db)) = startLedger"
    using indexRange_stuck [OF assms(1-3) v] by (auto simp: indexerRound_def split: prod.splits sum.splits)
  then obtain db1 where "indexerRound env prisma v (Some l) (startLedger, db) = (startLedger, db1)"
    by (metis prod.collapse)
  with Cons show ?case by simp
qed simp

subsection \<open>A mint on a fork, and the witnesses\<close>

definition idEnv :: "Native IndexerEnv" where
  "idEnv = \<lparr>env_scValToNative = Inr, env_parseDate = (\<lambda>_. None), env_now = 0\<rparr>"

definition mintEv :: "Native EventResponse" where
  "mintEv = \<lparr>ev_topic = [NStr ''mint''],
     ev_value = NList [NStr ''admin'', NStr ''A'', NBig 5, NBig 5, NBig 5, NNum 1],
     ev_ledger = 6, ev_txHash = ''tx'', ev_ledgerClosedAt = None\<rparr>"

definition mintRow :: EventRow where
  "mintRow = \<lparr>row_fields = [(''to'', NStr ''A''), (''amount'', NStr (show_int 5))],
     row_ledger = 6, row_txHash = ''tx''\<rparr>"

definition mintPoint :: SupplyPoint where
  "mintPoint = \<lparr>sp_timestamp = 0, sp_supply = show_int 5, sp_ledger = 6, sp_txHash = ''tx''\<rparr>"

lemma mintEv_indexed:
  assumes "''tx'' \<notin> set (map row_txHash (event_rows d Mint))"
    and "case holders d ''A'' of None \<Rightarrow> old = 0 | Some h \<Rightarrow> BigInt (holder_balance h) = Some old"
    and "old + 5 \<noteq> 0"
  shows "processEvent idEnv refClient mintEv d = (Inr (Some \<lparr>ie_type = Mint, ie_data = mintRow\<rparr>),
     add_point mintPoint (put_holder ''A'' (show_int (old + 5)) 6 (add_row Mint mintRow d)))"
proof -
  have b: "parseOrZero (map_option holder_balance (holders d ''A'')) s = (Inr old, s)" for s :: IndexerDb
    using assms(2) by (cases "holders d ''A''") (auto simp: parseOrZero_def toBigInt_def)
  have five: "resolveSupply refClient 5 (Some (show_int 5)) s = (Inr (show_int 5), s)" for s :: IndexerDb
    using show_int_not_Nil [of 5] by (auto simp: resolveSupply_def split: list.splits)
  have agg: "applyLedgerEventAggregates refClient (EvMint ''A'' (show_int 5))
      \<lparr>opt_ledger = 6, opt_txHash = ''tx'', opt_timestamp = 0, opt_newSupply = Some (show_int 5)\<rparr>
      (add_row Mint mintRow d) =
     (Inr (), add_point mintPoint (put_holder ''A'' (show_int (old + 5)) 6 (add_row Mint mintRow d)))"
    using assms(3)
    by (simp add: applyLedgerEventAggregates_def andThen_def applyHolderDelta_def toBigInt_def
        fromBigInt_def mintPoint_def b five)
  have cr: "row_create refClient Mint mintRow d = (Inr mintRow, add_row Mint mintRow d)"
    using assms(1) by (intro refClient_row_create) (simp_all add: mintRow_def)
  show ?thesis
    using cr agg
    by (simp add: processEvent_def dispatch_def onMint_def mintEv_def idEnv_def fromSum_def
        amountField_def optField_def persistEventRow_def transaction_def andThen_def tryCatch_def
        published_def ledgerCloseTime_def mkRow_def mintRow_def Let_def)
qed

text \<open>
  A reorganisation makes the indexer count an event twice. A mint of 5 is indexed, the
  node replaces the ledger it was in, the reconciliation deletes its row but not the holder
  balance, and indexing the mint again from the new ledger leaves a holder with 10 tokens
  beside a single stored mint of 5.
\<close>

theorem reorg_double_counts:
  "\<exists>ie db1 db2 db3.
     processEvent idEnv refClient mintEv fork_db = (Inr (Some ie), db1) \<and> agg_consistent db1
     \<and> reconcileLedgerCursor refClient fork_rpc fork_cursor db1 = (Inr 5, db2)
     \<and> processEvent idEnv refClient mintEv db2 = (Inr (Some ie), db3)
     \<and> event_rows db3 Mint = [ie_data ie] \<and> rowEvents db3 = [EvMint ''A'' (show_int 5)]
     \<and> holderBalances db3 ''A'' = Some 10 \<and> \<not> agg_consistent db3"
proof -
  let ?l = "\<lparr>li_ledger = 5, li_hash = Some ''a'', li_parentHash = Some ''z''\<rparr>"
  let ?ie = "\<lparr>ie_type = Mint, ie_data = mintRow\<rparr>"
  let ?d1 = "add_point mintPoint (put_holder ''A'' (show_int 5) 6 (add_row Mint mintRow fork_db))"
  let ?d2 = "rewound ?l ?d1"
  let ?d3 = "add_point mintPoint (put_holder ''A'' (show_int 10) 6 (add_row Mint mintRow ?d2))"
  have fork: "event_rows fork_db = (\<lambda>_. [])" "holders fork_db = Map.empty"
    by (simp_all add: fork_db_def)
  have p1: "processEvent idEnv refClient mintEv fork_db = (Inr (Some ?ie), ?d1)"
    using mintEv_indexed [of fork_db 0] by (simp add: fork)
  have "indexed_ledgers ?d1 = [fork_coord 5 ''a'' ''z'', fork_coord 6 ''b'' ''a'']"
    by (simp add: fork_db_ledgers)
  then have p2: "reconcileLedgerCursor refClient fork_rpc fork_cursor ?d1 = (Inr 5, ?d2)"
    by (rule fork_reconciles)
  have rows2: "event_rows ?d2 Mint = []" "event_rows ?d2 Transfer = []" "event_rows ?d2 Burn = []"
    by (simp_all add: rewound_def fork mintRow_def)
  have h2: "holders ?d2 ''A'' = Some \<lparr>holder_balance = show_int 5, holder_ledger = 6\<rparr>"
    by (simp add: rewound_def)
  have p3: "processEvent idEnv refClient mintEv ?d2 = (Inr (Some ?ie), ?d3)"
    using mintEv_indexed [of ?d2 5] rows2 h2 by simp
  have bal: "holderBalances ?d3 ''A'' = Some 10"
    by (simp add: holderBalances_def toBigInt_def)
  have ev: "rowEvents ?d3 = [EvMint ''A'' (show_int 5)]"
    using rows2 by (simp add: rowEvents_def fld_def mintRow_def)
  have "agg_consistent fork_db"
    using fork by (simp add: agg_consistent_def rowEvents_def specState_def holderBalances_def fun_eq_iff)
  then have c1: "agg_consistent ?d1"
    using keepsD [OF processEvent_keeps_consistent [OF ref_client.prisma_client_axioms], of fork_db idEnv mintEv] p1
    by simp
  have "\<not> agg_consistent ?d3"
    using bal ev by (auto simp: agg_consistent_def specState_def mkmap_def amountVal_def toBigInt_def)
  with p1 c1 p2 p3 bal ev rows2 show ?thesis
    by (intro exI [of _ ?ie] exI [of _ ?d1] exI [of _ ?d2] exI [of _ ?d3]) simp
qed

theorem processEvent_all_or_nothing_witness:
  "\<exists>db'. processEvent idEnv refClient mintEv emptyDb = (Inr (Some \<lparr>ie_type = Mint, ie_data = mintRow\<rparr>), db')
     \<and> persisted Mint mintRow emptyDb db'"
proof -
  have r: "processEvent idEnv refClient mintEv emptyDb = (Inr (Some \<lparr>ie_type = Mint, ie_data = mintRow\<rparr>),
     add_point mintPoint (put_holder ''A'' (show_int 5) 6 (add_row Mint mintRow emptyDb)))"
    using mintEv_indexed [of emptyDb 0] by simp
  from processEvent_all_or_nothing [OF ref_client.prisma_client_axioms _ _ r] r show ?thesis by auto
qed

text \<open>
  The second mint of a batch: same transaction, another recipient. It is not indexed.
\<close>

theorem processEvent_once_per_transaction_witness:
  "\<exists>ie db1 r db2. processEvent idEnv refClient mintEv emptyDb = (Inr (Some ie), db1)
     \<and> forEach (\<lambda>e. andThen (processEvent idEnv refClient e) (\<lambda>_. ret ())) [mintEv\<lparr>ev_txHash := ''other''\<rparr>] db1 = (r, db2)
     \<and> processEvent idEnv refClient (mintEv\<lparr>ev_value := NList [NStr ''admin'', NStr ''B'', NBig 7, NBig 7, NBig 12, NNum 1]\<rparr>) db2
       = (Inr None, db2)"
proof -
  let ?ev2 = "mintEv\<lparr>ev_value := NList [NStr ''admin'', NStr ''B'', NBig 7, NBig 7, NBig 12, NNum 1]\<rparr>"
  obtain ie db1 where r: "processEvent idEnv refClient mintEv emptyDb = (Inr (Some ie), db1)"
    using mintEv_indexed [of emptyDb 0] by simp
  obtain q db2 where q: "forEach (\<lambda>e. andThen (processEvent idEnv refClient e) (\<lambda>_. ret ())) [mintEv\<lparr>ev_txHash := ''other''\<rparr>] db1 = (q, db2)"
    by (rule prod.exhaust)
  have "processEvent idEnv refClient ?ev2 db2 = (Inr None, db2)"
    by (rule processEvent_once_per_transaction [OF ref_client.prisma_client_axioms _ _ r q,
          of "NStr ''mint''" "[]" "NStr ''mint''" _ "NStr ''mint''" "[]" "NStr ''mint''"])
      (simp_all add: mintEv_def idEnv_def)
  with r q show ?thesis by blast
qed

theorem processEvents_keep_holders_consistent_witness:
  "agg_consistent (snd (forEach (\<lambda>e. andThen (processEvent idEnv refClient e) (\<lambda>_. ret ())) [mintEv, mintEv] emptyDb))"
  using processEvents_keep_holders_consistent [OF ref_client.prisma_client_axioms, of emptyDb idEnv "[mintEv, mintEv]"]
  by simp



definition forkView :: "Native RpcView" where
  "forkView = \<lparr>rpc_getLatestLedger = Inr 7,
     rpc_getLedgers = (\<lambda>a b. Inr [\<lparr>lr_sequence = 6, lr_hash = ''c'', lr_previousLedgerHash = ''a''\<rparr>,
        \<lparr>lr_sequence = 7, lr_hash = ''d'', lr_previousLedgerHash = ''c''\<rparr>]),
     rpc_getEvents = (\<lambda>a b. Inr [])\<rparr>"

theorem reorg_stalls_indexer_witness:
  "\<forall>n. fst (indexerRounds idEnv refClient (replicate n forkView) (Some fork_cursor) (7, fork_db)) = 7"
proof
  fix n
  show "fst (indexerRounds idEnv refClient (replicate n forkView) (Some fork_cursor) (7, fork_db)) = 7"
    by (rule reorg_stalls_indexer [where h = "''b''"]) (auto simp: fork_cursor_def forkView_def)
qed

end
