(* ===== verification/Amounts.thy ===== *)
theory Amounts
  imports Forge_Effects
begin

text \<open>
  The rendering of token amounts, \<^verbatim>\<open>formatAtomicAmount\<close> of \<^verbatim>\<open>src/sdk/src/utils.ts\<close>: an amount
  in the smallest unit becomes a decimal string with a fixed number of fraction digits. The
  number of decimals is an integer (a fractional \<^verbatim>\<open>number\<close> takes the branch of a negative
  one).
\<close>

definition formatAtomicAmount :: "int \<Rightarrow> int \<Rightarrow> js_error + string" where
  "formatAtomicAmount amount decimals =
     (if decimals < 0 then Inl (JsError ''Decimals must be a non-negative integer'')
      else let negative = amount < 0;
               absolute = (if negative then - amount else amount);
               raw = show_int absolute
           in if decimals = 0 then Inr (if negative then ''-'' @ raw else raw)
              else let padded = padStart raw (nat (decimals + 1)) (CHR ''0'');
                       whole = take (length padded - nat decimals) padded;
                       fraction = drop (length padded - nat decimals) padded;
                       sgn = (if negative then ''-'' else '''')
                   in Inr (sgn @ whole @ ''.'' @ fraction))"

subsection \<open>Digits with leading zeros\<close>

lemma radix_acc_zeros: "radix_acc 10 0 (replicate k (CHR ''0'') @ s) = radix_acc 10 0 s"
  by (induction k) (simp_all add: digit_val_def)

lemma padStart_digits: "set (padStart (show_nat n) k (CHR ''0'')) \<subseteq> set ''0123456789''"
  using set_show_nat [of n] by (auto simp: padStart_def)

lemma parse_padStart [simp]: "parse_radix 10 (padStart (show_nat n) k (CHR ''0'')) = Some n"
  by (simp add: parse_radix_def padStart_def radix_acc_zeros radix_acc_show_nat)

lemma digits_no_prefix:
  assumes "set s \<subseteq> set ''0123456789''" and "x \<notin> set ''0123456789''"
  shows "take 2 s \<noteq> [a, x]"
proof
  assume "take 2 s = [a, x]"
  then have "x \<in> set s" by (metis in_set_takeD list.set_intros(1) list.set_intros(2))
  with assms show False by blast
qed

lemma BigInt_digits:
  assumes "set s \<subseteq> set ''0123456789''" and "s \<noteq> []" and "parse_radix 10 s = Some n"
  shows "BigInt s = Some (int n)" "BigInt (CHR ''-'' # s) = Some (- int n)"
proof -
  have hd: "hd s \<in> set ''0123456789''" and la: "last s \<in> set ''0123456789''"
    using assms(1,2) hd_in_set last_in_set by blast+
  have t: "js_trim s = s"
    using assms(2) decimal_not_ws [OF hd] decimal_not_ws [OF la] by (rule js_trim_id)
  have t': "js_trim (CHR ''-'' # s) = CHR ''-'' # s"
    using assms(2) decimal_not_ws [OF la] by (intro js_trim_id) (auto simp: js_ws_def)
  have "hd s \<noteq> CHR ''-''" "hd s \<noteq> CHR ''+''" using hd by auto
  then show "BigInt s = Some (int n)"
    using assms by (simp add: BigInt_def t digits_no_prefix)
  show "BigInt (CHR ''-'' # s) = Some (- int n)"
    using assms by (simp add: BigInt_def t')
qed

lemma show_int_nonneg: "0 \<le> i \<Longrightarrow> show_int i = show_nat (nat i)"
  by (simp add: show_int_def)

text \<open>
  Padding to one digit more than before leaves the last digit alone and pads the rest, also
  where the rest is empty and becomes the digit zero.
\<close>

lemma padStart_Suc_digit:
  "padStart (show_nat n) (Suc (Suc d)) (CHR ''0'') =
     padStart (show_nat (n div 10)) (Suc d) (CHR ''0'') @ [digit_char (n mod 10)]"
proof (cases "n < 10")
  case True
  then have "show_nat n = [digit_char n]" "show_nat (n div 10) = ''0''"
    by (simp_all add: show_nat.simps digit_char_def)
  then show ?thesis using True by (simp add: padStart_def replicate_append_same)
next
  case False
  then have "show_nat n = show_nat (n div 10) @ [digit_char (n mod 10)]"
    by (subst show_nat.simps) simp
  then show ?thesis by (simp add: padStart_def)
qed

text \<open>
  The padded digits are the quotient by the power of ten, in its shortest form, followed by
  exactly as many digits as the power has zeros, which read as the remainder.
\<close>

lemma padded_digits:
  "\<exists>f. padStart (show_nat n) (Suc d) (CHR ''0'') = show_nat (n div 10 ^ d) @ f \<and> length f = d \<and>
     set f \<subseteq> set ''0123456789'' \<and> radix_acc 10 0 f = Some (n mod 10 ^ d)"
proof (induction d arbitrary: n)
  case 0
  have "Suc 0 - length (show_nat n) = 0" by (simp add: Suc_le_eq)
  then show ?case by (simp add: padStart_def)
next
  case (Suc d)
  from Suc.IH [of "n div 10"] obtain f where
    f: "padStart (show_nat (n div 10)) (Suc d) (CHR ''0'') = show_nat (n div 10 div 10 ^ d) @ f"
      "length f = d" "set f \<subseteq> set ''0123456789''"
      "radix_acc 10 0 f = Some (n div 10 mod 10 ^ d)" by blast
  have "n mod 10 ^ Suc d = n div 10 mod 10 ^ d * 10 + n mod 10"
    using mod_mult2_eq [of n 10 "10 ^ d"] by simp
  then have "radix_acc 10 0 (f @ [digit_char (n mod 10)]) = Some (n mod 10 ^ Suc d)"
    by (simp add: radix_acc_append f(4))
  moreover have "digit_char (n mod 10) \<in> set ''0123456789''"
    using digit_char_shape [of "n mod 10"] by simp
  ultimately show ?case using f
    by (intro exI [of _ "f @ [digit_char (n mod 10)]"])
      (simp add: padStart_Suc_digit div_mult2_eq)
qed

text \<open>
  C15. Displaying an amount loses no precision and puts the point in the right place. With a
  positive number of decimals the string is the sign (only of a negative amount), the
  shortest decimal form of the whole units, the point, and exactly that many digits, which
  read as the remaining smallest units; with no decimals it is the plain integer, without a
  point, and it reads back as the amount; a negative number of decimals is the error.
\<close>

theorem formatAtomicAmount_exact:
  "(decimals < 0 \<longrightarrow>
      formatAtomicAmount amount decimals = Inl (JsError ''Decimals must be a non-negative integer'')) \<and>
   (decimals = 0 \<longrightarrow>
      formatAtomicAmount amount decimals = Inr (show_int amount) \<and> BigInt (show_int amount) = Some amount) \<and>
   (0 < decimals \<longrightarrow> (\<exists>fraction.
      formatAtomicAmount amount decimals =
        Inr ((if amount < 0 then ''-'' else '''') @
             show_nat (nat \<bar>amount\<bar> div 10 ^ nat decimals) @ ''.'' @ fraction) \<and>
      int (length fraction) = decimals \<and> set fraction \<subseteq> set ''0123456789'' \<and>
      parse_radix 10 fraction = Some (nat \<bar>amount\<bar> mod 10 ^ nat decimals)))"
proof (cases "0 < decimals")
  case True
  let ?n = "nat \<bar>amount\<bar>" and ?unit = "10 ^ nat decimals :: nat"
  have suc: "nat (decimals + 1) = Suc (nat decimals)" using True by simp
  obtain f where f: "padStart (show_nat ?n) (Suc (nat decimals)) (CHR ''0'') = show_nat (?n div ?unit) @ f"
      "length f = nat decimals" "set f \<subseteq> set ''0123456789''" "radix_acc 10 0 f = Some (?n mod ?unit)"
    using padded_digits [of ?n "nat decimals"] by blast
  have "show_int (if amount < 0 then - amount else amount) = show_nat ?n"
    by (simp add: show_int_nonneg abs_if)
  then have "formatAtomicAmount amount decimals =
      Inr ((if amount < 0 then ''-'' else '''') @ show_nat (?n div ?unit) @ ''.'' @ f)"
    using True f(1,2) by (simp add: formatAtomicAmount_def Let_def suc del: length_padStart)
  moreover have "f \<noteq> []" using f(2) True by auto
  ultimately show ?thesis
    using f True by (auto intro!: exI [of _ f] simp: parse_radix_def)
next
  case False
  have "i < 0 \<Longrightarrow> CHR ''-'' # show_int (- i) = show_int i" for i by (simp add: show_int_def)
  with False show ?thesis by (simp add: formatAtomicAmount_def Let_def)
qed

theorem formatAtomicAmount_exact_witness:
  "formatAtomicAmount 5 (- 1) = Inl (JsError ''Decimals must be a non-negative integer'') \<and>
   formatAtomicAmount (- 42) 0 = Inr (show_int (- 42)) \<and>
   (\<exists>fraction. formatAtomicAmount (- 1205) 3 = Inr (''-'' @ show_nat 1 @ ''.'' @ fraction) \<and>
      int (length fraction) = 3 \<and> parse_radix 10 fraction = Some 205)"
  using formatAtomicAmount_exact [of "- 1" 5] formatAtomicAmount_exact [of 0 "- 42"]
    formatAtomicAmount_exact [of 3 "- 1205"] by auto

end
