(* ===== verification/Sdk_Types.thy ===== *)
theory Sdk_Types
  imports Amounts
begin

text \<open>
  The types of \<^verbatim>\<open>src/sdk/src/client.ts\<close> that the SDK components share, and the interface of
  a fungible ledger: a state with balances and a total, driven by calls. The token mock and
  the vault mock both provide it; what follows from it for arbitrary sequences of calls is
  proved once, in the locale.
\<close>

subsection \<open>Types\<close>

text \<open>The members of the enum \<^verbatim>\<open>Role\<close> are strings.\<close>

definition Role_Admin :: string where "Role_Admin = ''Admin''"
definition Role_SuperAdmin :: string where "Role_SuperAdmin = ''SuperAdmin''"
definition Role_Minter :: string where "Role_Minter = ''Minter''"
definition Role_Pauser :: string where "Role_Pauser = ''Pauser''"

lemmas Role_defs = Role_Admin_def Role_SuperAdmin_def Role_Minter_def Role_Pauser_def

record TransactionResult =
  success :: bool
  tx_hash :: string
  returnValue :: Native

record BatchMintRecipient =
  to :: string
  amount :: int

record RbacInitResult =
  migrate :: TransactionResult
  grant :: TransactionResult

text \<open>The literals the mocks return.\<close>

definition okResult :: "Native \<Rightarrow> TransactionResult" where
  "okResult v = \<lparr>success = True, tx_hash = ''mock-hash'', returnValue = v\<rparr>"

definition failResult :: "string \<Rightarrow> TransactionResult" where
  "failResult m = \<lparr>success = False, tx_hash = ''mock-hash'', returnValue = NStr m\<rparr>"

lemma result_simps [simp]:
  "success (okResult v)" "returnValue (okResult v) = v"
  "\<not> success (failResult m)" "returnValue (failResult m) = NStr m"
  "okResult v \<noteq> failResult m" "failResult m \<noteq> okResult v"
  "(okResult v = okResult w) = (v = w)" "(failResult m = failResult k) = (m = k)"
  by (simp_all add: okResult_def failResult_def)

subsection \<open>Interface of a fungible ledger\<close>

locale fungible_ledger =
  fixes balances :: "'s \<Rightarrow> string \<rightharpoonup> int"
    and total :: "'s \<Rightarrow> int"
    and step :: "'op \<Rightarrow> 's \<Rightarrow> 's"
    and allowed :: "'op \<Rightarrow> bool"
    and inv :: "'s \<Rightarrow> bool"
  assumes inv_total: "inv s \<Longrightarrow> finite (dom (balances s)) \<and> total s = msum (balances s)"
    and step_inv: "inv s \<Longrightarrow> allowed op \<Longrightarrow> inv (step op s)"
begin

lemma run_inv: "inv s \<Longrightarrow> \<forall>op \<in> set ops. allowed op \<Longrightarrow> inv (fold step ops s)"
  by (induction ops arbitrary: s) (auto intro: step_inv)

lemma run_conserves:
  assumes "inv s" and "\<forall>op \<in> set ops. allowed op"
  shows "finite (dom (balances (fold step ops s))) \<and>
     total (fold step ops s) = msum (balances (fold step ops s))"
  using inv_total [OF run_inv [OF assms]] .

text \<open>Where balances cannot be negative, nobody holds more than the total.\<close>

lemma run_holding_le_total:
  assumes "inv s" and "\<forall>op \<in> set ops. allowed op"
    and "\<And>a v. balances (fold step ops s) a = Some v \<Longrightarrow> 0 \<le> v"
  shows "orZero (balances (fold step ops s)) a \<le> total (fold step ops s)"
  using run_conserves [OF assms(1,2)] assms(3) orZero_le_msum by metis

end

end
