(* ===== verification/MockToken.thy ===== *)
theory MockToken
  imports Sdk_Types
begin

text \<open>
  \<^verbatim>\<open>MockBcForgeClient\<close> of \<^verbatim>\<open>src/sdk/src/mockClient.ts\<close>, the in-memory token. Its objects are
  maps, its role sets are sets, and every method is an effect on the record: a method that
  rejects a call returns a result with \<open>success = False\<close>, and one that reads a property of
  \<^verbatim>\<open>undefined\<close> throws \<open>TypeError\<close> after the writes before it. Object keys are addresses, so no
  key is a property name of \<^verbatim>\<open>Object.prototype\<close>.
\<close>

subsection \<open>State\<close>

record AccountState =
  balance :: int
  allowances :: "string \<rightharpoonup> int"

record MockBcForgeClient =
  accounts :: "string \<rightharpoonup> AccountState"
  roles :: "string \<rightharpoonup> string set"
  totalSupply :: int
  token_name :: string
  symbol :: string
  decimals :: int
  adminAddress :: string
  linkedContracts :: "string \<rightharpoonup> string"
  contractId :: string

type_synonym 'a token_act = "(js_error, MockBcForgeClient, 'a) act"

definition newMockToken :: "string option \<Rightarrow> MockBcForgeClient" where
  "newMockToken config = \<lparr>
     accounts = Map.empty, roles = Map.empty, totalSupply = 0,
     token_name = ''MockToken'', symbol = ''MOCK'', decimals = 7,
     adminAddress = ''GADMIN0000000000000000000000000000000000000000000000000000'',
     linkedContracts = Map.empty,
     contractId = (case config of
         None \<Rightarrow> ''CMOCK000000000000000000000000000000000000000000000000000''
       | Some c \<Rightarrow> c)\<rparr>"

subsection \<open>Queries\<close>

text \<open>\<^verbatim>\<open>this.accounts[a]?.balance ?? 0n\<close> and \<^verbatim>\<open>this.accounts[o]?.allowances[s] ?? 0n\<close>.\<close>

definition balanceOf :: "MockBcForgeClient \<Rightarrow> string \<Rightarrow> int" where
  "balanceOf s a = (case accounts s a of None \<Rightarrow> 0 | Some acc \<Rightarrow> balance acc)"

definition getAllowance :: "MockBcForgeClient \<Rightarrow> string \<Rightarrow> string \<Rightarrow> int" where
  "getAllowance s owner spender =
     (case accounts s owner of None \<Rightarrow> 0 | Some acc \<Rightarrow> orZero (allowances acc) spender)"

definition getBalance :: "string \<Rightarrow> string token_act" where
  "getBalance a s = (formatAtomicAmount (balanceOf s a) (decimals s), s)"

definition getTotalSupply :: "int token_act" where
  "getTotalSupply s = (Inr (totalSupply s), s)"

definition hasRole :: "string \<Rightarrow> string \<Rightarrow> MockBcForgeClient \<Rightarrow> bool" where
  "hasRole role a s \<longleftrightarrow>
     (if adminAddress s = a then True
      else case roles s a of None \<Rightarrow> False | Some rs \<Rightarrow> role \<in> rs)"

definition verifySuperAdmin :: "string \<Rightarrow> MockBcForgeClient \<Rightarrow> bool" where
  "verifySuperAdmin a s = hasRole Role_SuperAdmin a s"

definition getRoleAdmin :: "string \<Rightarrow> MockBcForgeClient \<Rightarrow> string" where
  "getRoleAdmin role s = adminAddress s"

subsection \<open>Administration\<close>

definition setAdmin :: "string \<Rightarrow> TransactionResult token_act" where
  "setAdmin admin s = (Inr (okResult NNull), s\<lparr>adminAddress := admin\<rparr>)"

definition grantRole :: "string \<Rightarrow> string \<Rightarrow> TransactionResult token_act" where
  "grantRole role a s =
     (let s1 = (if roles s a = None then s\<lparr>roles := (roles s)(a \<mapsto> {})\<rparr> else s)
      in (Inr (okResult NNull),
          s1\<lparr>roles := (roles s1)(a \<mapsto> insert role (the (roles s1 a)))\<rparr>))"

definition revokeRole :: "string \<Rightarrow> string \<Rightarrow> TransactionResult token_act" where
  "revokeRole role a s =
     (Inr (okResult NNull),
      (case roles s a of None \<Rightarrow> s | Some rs \<Rightarrow> s\<lparr>roles := (roles s)(a \<mapsto> rs - {role})\<rparr>))"

definition grantMinter :: "string \<Rightarrow> TransactionResult token_act" where
  "grantMinter a = grantRole Role_Minter a"

definition revokeMinter :: "string \<Rightarrow> TransactionResult token_act" where
  "revokeMinter a = revokeRole Role_Minter a"

definition grantSuperAdmin :: "string \<Rightarrow> TransactionResult token_act" where
  "grantSuperAdmin a = grantRole Role_SuperAdmin a"

definition holdsRole :: "MockBcForgeClient \<Rightarrow> string \<Rightarrow> string \<Rightarrow> bool" where
  "holdsRole s a role \<longleftrightarrow> (case roles s a of None \<Rightarrow> False | Some rs \<Rightarrow> role \<in> rs)"

definition revokeSuperAdmin :: "string \<Rightarrow> TransactionResult token_act" where
  "revokeSuperAdmin a s =
     (if \<not> holdsRole s a Role_SuperAdmin \<and> \<not> holdsRole s a ''SuperAdmin''
      then (Inr (failResult ''SuperAdmin role not held''), s)
      else revokeRole Role_SuperAdmin a s)"

definition initRbac :: "string \<Rightarrow> RbacInitResult token_act" where
  "initRbac superAdmin =
     andThen (grantSuperAdmin superAdmin) (\<lambda>g. ret \<lparr>migrate = okResult NNull, grant = g\<rparr>)"

definition setAdminContract :: "string \<Rightarrow> TransactionResult token_act" where
  "setAdminContract c s =
     (Inr (okResult NNull), s\<lparr>linkedContracts := (linkedContracts s)(''admin'' \<mapsto> c)\<rparr>)"

definition setDependentToken :: "string \<Rightarrow> TransactionResult token_act" where
  "setDependentToken c s =
     (Inr (okResult NNull), s\<lparr>linkedContracts := (linkedContracts s)(''token'' \<mapsto> c)\<rparr>)"

definition updateName :: "string \<Rightarrow> TransactionResult token_act" where
  "updateName n s = (Inr (okResult NNull), s\<lparr>token_name := n\<rparr>)"

definition updateSymbol :: "string \<Rightarrow> TransactionResult token_act" where
  "updateSymbol n s = (Inr (okResult NNull), s\<lparr>symbol := n\<rparr>)"

subsection \<open>Token movements\<close>

text \<open>\<^verbatim>\<open>if (!this.accounts[a]) this.accounts[a] = { balance: 0n, allowances: {} }\<close>.\<close>

definition ensureAccount :: "string \<Rightarrow> unit token_act" where
  "ensureAccount a s =
     (Inr (), if accounts s a = None
              then s\<lparr>accounts := (accounts s)(a \<mapsto> \<lparr>balance = 0, allowances = Map.empty\<rparr>)\<rparr>
              else s)"

text \<open>\<^verbatim>\<open>this.accounts[a].balance += d\<close>, which throws when there is no such account.\<close>

definition addBalance :: "string \<Rightarrow> int \<Rightarrow> unit token_act" where
  "addBalance a d s =
     (case accounts s a of
        None \<Rightarrow> (Inl TypeError, s)
      | Some acc \<Rightarrow>
          (Inr (), s\<lparr>accounts := (accounts s)(a \<mapsto> acc\<lparr>balance := balance acc + d\<rparr>)\<rparr>))"

definition addSupply :: "int \<Rightarrow> unit token_act" where
  "addSupply d s = (Inr (), s\<lparr>totalSupply := totalSupply s + d\<rparr>)"

definition mintTo :: "string \<Rightarrow> int \<Rightarrow> unit token_act" where
  "mintTo a v = andThen (ensureAccount a) (\<lambda>_. andThen (addBalance a v) (\<lambda>_. addSupply v))"

definition mint :: "string \<Rightarrow> string \<Rightarrow> int \<Rightarrow> TransactionResult token_act" where
  "mint from to' v = andThen (mintTo to' v) (\<lambda>_. ret (okResult NNull))"

definition batchMint :: "string \<Rightarrow> BatchMintRecipient list \<Rightarrow> TransactionResult token_act" where
  "batchMint from recipients =
     (if recipients = [] then ret (failResult ''Recipients list cannot be empty'')
      else if \<exists>r \<in> set recipients. amount r \<le> 0
           then ret (failResult ''Mint amount must be positive'')
      else andThen (forEach (\<lambda>r. mintTo (to r) (amount r)) recipients)
             (\<lambda>_. ret (okResult NNull)))"

definition moveTokens :: "string \<Rightarrow> string \<Rightarrow> int \<Rightarrow> unit token_act" where
  "moveTokens from to' v =
     andThen (ensureAccount to') (\<lambda>_. andThen (addBalance from (- v)) (\<lambda>_. addBalance to' v))"

definition transfer :: "string \<Rightarrow> string \<Rightarrow> int \<Rightarrow> TransactionResult token_act" where
  "transfer from to' v s =
     (if balanceOf s from < v then (Inr (failResult ''Insufficient balance''), s)
      else andThen (moveTokens from to' v) (\<lambda>_. ret (okResult NNull)) s)"

definition approve :: "string \<Rightarrow> string \<Rightarrow> int \<Rightarrow> TransactionResult token_act" where
  "approve owner spender v =
     andThen (ensureAccount owner)
       (\<lambda>_ s. (Inr (okResult NNull),
          s\<lparr>accounts := (accounts s)(owner \<mapsto> (the (accounts s owner))
              \<lparr>allowances := (allowances (the (accounts s owner)))(spender \<mapsto> v)\<rparr>)\<rparr>))"

definition batchTransfer :: "string \<Rightarrow> BatchMintRecipient list \<Rightarrow> TransactionResult token_act" where
  "batchTransfer from recipients s =
     (if balanceOf s from < sum_list (map amount recipients)
      then (Inr (failResult ''Insufficient balance''), s)
      else andThen (forEach (\<lambda>r. moveTokens from (to r) (amount r)) recipients)
             (\<lambda>_. ret (okResult NNull)) s)"

text \<open>
  \<^verbatim>\<open>this.accounts[o].allowances[s] -= amount\<close>: without an entry for the spender the
  subtraction mixes \<^verbatim>\<open>undefined\<close> with a bigint, a \<open>TypeError\<close>.
\<close>

definition spendAllowance :: "string \<Rightarrow> string \<Rightarrow> int \<Rightarrow> unit token_act" where
  "spendAllowance owner spender v s =
     (case accounts s owner of
        None \<Rightarrow> (Inl TypeError, s)
      | Some acc \<Rightarrow>
          (case allowances acc spender of
             None \<Rightarrow> (Inl TypeError, s)
           | Some w \<Rightarrow> (Inr (), s\<lparr>accounts := (accounts s)
               (owner \<mapsto> acc\<lparr>allowances := (allowances acc)(spender \<mapsto> w - v)\<rparr>)\<rparr>)))"

definition transferFrom ::
    "string \<Rightarrow> string \<Rightarrow> string \<Rightarrow> int \<Rightarrow> TransactionResult token_act" where
  "transferFrom owner spender to' v s =
     (if getAllowance s owner spender < v then (Inr (failResult ''Insufficient allowance''), s)
      else if balanceOf s owner < v then (Inr (failResult ''Insufficient balance''), s)
      else andThen (moveTokens owner to' v)
             (\<lambda>_. andThen (spendAllowance owner spender v) (\<lambda>_. ret (okResult NNull))) s)"

subsection \<open>Calls\<close>

text \<open>The methods that change state, as data, and the state each call leaves behind.\<close>

datatype TokenCall =
    CMint string string int
  | CBatchMint string "BatchMintRecipient list"
  | CTransfer string string int
  | CApprove string string int
  | CBatchTransfer string "BatchMintRecipient list"
  | CTransferFrom string string string int
  | CSetAdmin string
  | CGrantRole string string
  | CRevokeRole string string
  | CGrantMinter string
  | CRevokeMinter string
  | CGrantSuperAdmin string
  | CRevokeSuperAdmin string
  | CInitRbac string
  | CSetAdminContract string
  | CSetDependentToken string
  | CUpdateName string
  | CUpdateSymbol string

fun tokenCall :: "TokenCall \<Rightarrow> TransactionResult token_act" where
  "tokenCall (CMint f t v) = mint f t v"
| "tokenCall (CBatchMint f rs) = batchMint f rs"
| "tokenCall (CTransfer f t v) = transfer f t v"
| "tokenCall (CApprove q p v) = approve q p v"
| "tokenCall (CBatchTransfer f rs) = batchTransfer f rs"
| "tokenCall (CTransferFrom q p t v) = transferFrom q p t v"
| "tokenCall (CSetAdmin a) = setAdmin a"
| "tokenCall (CGrantRole r a) = grantRole r a"
| "tokenCall (CRevokeRole r a) = revokeRole r a"
| "tokenCall (CGrantMinter a) = grantMinter a"
| "tokenCall (CRevokeMinter a) = revokeMinter a"
| "tokenCall (CGrantSuperAdmin a) = grantSuperAdmin a"
| "tokenCall (CRevokeSuperAdmin a) = revokeSuperAdmin a"
| "tokenCall (CInitRbac a) = andThen (initRbac a) (\<lambda>r. ret (grant r))"
| "tokenCall (CSetAdminContract c) = setAdminContract c"
| "tokenCall (CSetDependentToken c) = setDependentToken c"
| "tokenCall (CUpdateName n) = updateName n"
| "tokenCall (CUpdateSymbol n) = updateSymbol n"

definition tokenStep :: "TokenCall \<Rightarrow> MockBcForgeClient \<Rightarrow> MockBcForgeClient" where
  "tokenStep c s = snd (tokenCall c s)"

subsection \<open>Balances and the supply\<close>

definition balancesOf :: "MockBcForgeClient \<Rightarrow> string \<rightharpoonup> int" where
  "balancesOf s = map_option balance \<circ> accounts s"

definition tokenInv :: "MockBcForgeClient \<Rightarrow> bool" where
  "tokenInv s \<longleftrightarrow> finite (dom (balancesOf s)) \<and> totalSupply s = msum (balancesOf s)"

lemma balanceOf_orZero: "balanceOf s a = orZero (balancesOf s) a"
  by (simp add: balanceOf_def orZero_def balancesOf_def split: option.splits)

lemma balancesOf_None: "balancesOf s a = None \<longleftrightarrow> accounts s a = None"
  by (simp add: balancesOf_def)

lemma balancesOf_upd [simp]:
  "balancesOf (s\<lparr>accounts := (accounts s)(a \<mapsto> acc)\<rparr>) = (balancesOf s)(a \<mapsto> balance acc)"
  by (auto simp: balancesOf_def fun_eq_iff)

lemma balancesOf_other [simp]:
  "balancesOf (s\<lparr>totalSupply := x\<rparr>) = balancesOf s"
  "balancesOf (s\<lparr>roles := rs\<rparr>) = balancesOf s"
  "balancesOf (s\<lparr>adminAddress := n\<rparr>) = balancesOf s"
  "balancesOf (s\<lparr>linkedContracts := l\<rparr>) = balancesOf s"
  "balancesOf (s\<lparr>token_name := n\<rparr>) = balancesOf s"
  "balancesOf (s\<lparr>symbol := n\<rparr>) = balancesOf s"
  by (simp_all add: balancesOf_def)

text \<open>The books are off by \<open>d\<close>: the invariant with a difference between supply and balances.\<close>

definition offBy :: "int \<Rightarrow> MockBcForgeClient \<Rightarrow> bool" where
  "offBy d s \<longleftrightarrow> finite (dom (balancesOf s)) \<and> msum (balancesOf s) = totalSupply s + d"

lemma tokenInv_offBy: "tokenInv s = offBy 0 s"
  by (auto simp: tokenInv_def offBy_def)

lemma offBy_upd:
  "offBy d s \<Longrightarrow> offBy (d - balanceOf s a + balance acc) (s\<lparr>accounts := (accounts s)(a \<mapsto> acc)\<rparr>)"
  by (auto simp: offBy_def msum_upd balanceOf_orZero)

lemma offBy_ensure: "offBy d s \<Longrightarrow> offBy d (snd (ensureAccount a s))"
  using offBy_upd [of d s a "\<lparr>balance = 0, allowances = Map.empty\<rparr>"]
  by (auto simp: ensureAccount_def balanceOf_def)

lemma offBy_addBalance:
  "offBy d s \<Longrightarrow> accounts s a \<noteq> None \<Longrightarrow> offBy (d + v) (snd (addBalance a v s))"
  using offBy_upd [of d s a "(the (accounts s a))\<lparr>balance := balanceOf s a + v\<rparr>"]
  by (auto simp: addBalance_def balanceOf_def split: option.splits)

lemma accounts_addBalance:
  "accounts (snd (addBalance a v s)) b = None \<longleftrightarrow> accounts s b = None"
  "fst (addBalance a v s) = (if accounts s a = None then Inl TypeError else Inr ())"
  by (auto simp: addBalance_def split: option.splits)

lemma accounts_ensure:
  "accounts (snd (ensureAccount a s)) b = None \<longleftrightarrow> accounts s b = None \<and> b \<noteq> a"
  "fst (ensureAccount a s) = Inr ()"
  by (auto simp: ensureAccount_def)

text \<open>An effect's result and state, for stepping through a sequence.\<close>

lemma andThen_fst:
  "andThen f g s = (case fst (f s) of Inl e \<Rightarrow> (Inl e, snd (f s)) | Inr x \<Rightarrow> g x (snd (f s)))"
  by (cases "f s") (auto simp: andThen_def split: sum.splits)

lemma tokenInv_mintTo: "keeps tokenInv (mintTo a v)"
proof (rule keepsI)
  fix s assume "tokenInv s"
  then have "offBy v (snd (addBalance a v (snd (ensureAccount a s))))"
    using offBy_addBalance [of 0 "snd (ensureAccount a s)" a v]
    by (simp add: tokenInv_offBy offBy_ensure accounts_ensure)
  then show "tokenInv (snd (mintTo a v s))"
    by (simp add: mintTo_def andThen_fst accounts_ensure accounts_addBalance addSupply_def
        tokenInv_offBy offBy_def)
qed

lemma tokenInv_moveTokens: "keeps tokenInv (moveTokens f t v)"
proof (rule keepsI)
  fix s assume inv: "tokenInv s"
  let ?s1 = "snd (ensureAccount t s)" and ?s2 = "snd (addBalance f (- v) (snd (ensureAccount t s)))"
  have one: "offBy 0 ?s1" using inv by (simp add: tokenInv_offBy offBy_ensure)
  have two: "offBy 0 (snd (addBalance t v ?s2))" if "accounts ?s1 f \<noteq> None"
    using offBy_addBalance [OF offBy_addBalance [OF one that, of "- v"], of t v]
    by (simp add: accounts_addBalance accounts_ensure)
  show "tokenInv (snd (moveTokens f t v s))"
  proof (cases "accounts ?s1 f")
    case None
    then have "?s2 = ?s1" by (simp add: addBalance_def)
    with None one show ?thesis
      by (simp add: moveTokens_def andThen_fst accounts_ensure(2) accounts_addBalance tokenInv_offBy)
  next
    case (Some acc)
    with two show ?thesis
      by (simp add: moveTokens_def andThen_fst accounts_ensure accounts_addBalance tokenInv_offBy)
  qed
qed

lemma tokenInv_same_books:
  assumes "tokenInv s" and "balancesOf t = balancesOf s" and "totalSupply t = totalSupply s"
  shows "tokenInv t"
  using assms by (simp add: tokenInv_def)

lemma balancesOf_spend [simp]:
  "balancesOf (snd (spendAllowance q p v s)) = balancesOf s"
  "totalSupply (snd (spendAllowance q p v s)) = totalSupply s"
  by (auto simp: spendAllowance_def balancesOf_def fun_eq_iff split: option.splits)

lemma tokenInv_spend: "keeps tokenInv (spendAllowance q p v)"
  by (rule keepsI, erule tokenInv_same_books) simp_all

lemma tokenInv_approve: "keeps tokenInv (approve q p v)"
proof (rule keepsI)
  fix s assume "tokenInv s"
  then have one: "offBy 0 (snd (ensureAccount q s))" by (simp add: tokenInv_offBy offBy_ensure)
  show "tokenInv (snd (approve q p v s))"
    using offBy_upd [OF one, of q "(the (accounts (snd (ensureAccount q s)) q))
        \<lparr>allowances := (allowances (the (accounts (snd (ensureAccount q s)) q)))(p \<mapsto> v)\<rparr>"]
    by (simp add: approve_def andThen_fst accounts_ensure(2) tokenInv_offBy)
       (auto simp: balanceOf_def ensureAccount_def split: if_splits)
qed

lemma tokenInv_transfer: "keeps tokenInv (transfer f t v)"
proof -
  have "keeps tokenInv (andThen (moveTokens f t v) (\<lambda>_. ret (okResult NNull)))"
    by (intro keeps_andThen tokenInv_moveTokens keeps_ret)
  then show ?thesis by (auto simp: transfer_def keeps_def)
qed

lemma tokenInv_batchTransfer: "keeps tokenInv (batchTransfer f rs)"
proof -
  have "keeps tokenInv (andThen (forEach (\<lambda>r. moveTokens f (to r) (amount r)) rs)
      (\<lambda>_. ret (okResult NNull)))"
    by (intro keeps_andThen keeps_forEach tokenInv_moveTokens keeps_ret)
  then show ?thesis by (auto simp: batchTransfer_def keeps_def)
qed

lemma tokenInv_transferFrom: "keeps tokenInv (transferFrom q p t v)"
proof -
  have "keeps tokenInv (andThen (moveTokens q t v)
      (\<lambda>_. andThen (spendAllowance q p v) (\<lambda>_. ret (okResult NNull))))"
    by (intro keeps_andThen tokenInv_moveTokens tokenInv_spend keeps_ret)
  then show ?thesis by (auto simp: transferFrom_def keeps_def)
qed

lemma tokenInv_mint: "keeps tokenInv (mint f t v)"
  unfolding mint_def by (intro keeps_andThen tokenInv_mintTo keeps_ret)

lemma tokenInv_batchMint: "keeps tokenInv (batchMint f rs)"
  unfolding batchMint_def
  by (intro keeps_if keeps_andThen keeps_forEach tokenInv_mintTo keeps_ret)

lemmas admin_defs = setAdmin_def grantRole_def revokeRole_def grantMinter_def revokeMinter_def
  grantSuperAdmin_def revokeSuperAdmin_def initRbac_def setAdminContract_def
  setDependentToken_def updateName_def updateSymbol_def

text \<open>The administrative calls leave accounts and supply alone.\<close>

fun isAdminCall :: "TokenCall \<Rightarrow> bool" where
  "isAdminCall (CMint _ _ _) = False"
| "isAdminCall (CBatchMint _ _) = False"
| "isAdminCall (CTransfer _ _ _) = False"
| "isAdminCall (CApprove _ _ _) = False"
| "isAdminCall (CBatchTransfer _ _) = False"
| "isAdminCall (CTransferFrom _ _ _ _) = False"
| "isAdminCall _ = True"

lemma admin_calls_keep_books:
  "isAdminCall c \<Longrightarrow> accounts (snd (tokenCall c s)) = accounts s"
  "isAdminCall c \<Longrightarrow> totalSupply (snd (tokenCall c s)) = totalSupply s"
  by (cases c; simp add: admin_defs andThen_def Let_def split: option.splits)+

lemma tokenInv_call: "keeps tokenInv (tokenCall c)"
proof (cases "isAdminCall c")
  case True
  then show ?thesis
    by (intro keepsI, elim tokenInv_same_books) (simp_all add: admin_calls_keep_books balancesOf_def)
next
  case False
  then show ?thesis
    by (cases c) (simp_all add: tokenInv_mint tokenInv_batchMint tokenInv_transfer tokenInv_approve
        tokenInv_batchTransfer tokenInv_transferFrom)
qed

interpretation mock_token: fungible_ledger balancesOf totalSupply tokenStep "\<lambda>_. True" tokenInv
  by unfold_locales (simp add: tokenInv_def, simp add: tokenStep_def keepsD [OF tokenInv_call])

lemma tokenInv_new: "tokenInv (newMockToken config)"
  by (simp add: tokenInv_def newMockToken_def balancesOf_def msum_def)

text \<open>
  C16. Whatever sequence of calls is made on a fresh token mock, rejected and throwing calls
  included, the total supply is the sum of the balances of finitely many accounts.
\<close>

theorem mock_supply_is_sum_of_balances:
  "finite (dom (balancesOf (fold tokenStep calls (newMockToken config)))) \<and>
   totalSupply (fold tokenStep calls (newMockToken config)) =
     msum (balancesOf (fold tokenStep calls (newMockToken config)))"
  using mock_token.run_conserves [OF tokenInv_new] by simp

subsection \<open>The effect of the movements on balances and allowances\<close>

lemma balanceOf_ensure [simp]: "balanceOf (snd (ensureAccount b s)) a = balanceOf s a"
  by (auto simp: balanceOf_def ensureAccount_def)

lemma balanceOf_addBalance [simp]:
  "balanceOf (snd (addBalance b v s)) a =
     balanceOf s a + (if a = b \<and> accounts s b \<noteq> None then v else 0)"
  by (auto simp: balanceOf_def addBalance_def split: option.splits)

lemma balanceOf_addSupply [simp]: "balanceOf (snd (addSupply v s)) a = balanceOf s a"
  by (simp add: balanceOf_def addSupply_def)

lemma getAllowance_moves [simp]:
  "getAllowance (snd (ensureAccount b s)) q p = getAllowance s q p"
  "getAllowance (snd (addBalance b v s)) q p = getAllowance s q p"
  "getAllowance (snd (addSupply v s)) q p = getAllowance s q p"
  by (auto simp: getAllowance_def ensureAccount_def addBalance_def addSupply_def split: option.splits)

lemma totalSupply_moves [simp]:
  "totalSupply (snd (ensureAccount b s)) = totalSupply s"
  "totalSupply (snd (addBalance b v s)) = totalSupply s"
  by (auto simp: ensureAccount_def addBalance_def split: option.splits)

lemma moveTokens_spec:
  "fst (moveTokens f t v s) = (if accounts s f = None \<and> f \<noteq> t then Inl TypeError else Inr ())"
  "balanceOf (snd (moveTokens f t v s)) a = balanceOf s a +
     (if accounts s f = None \<and> f \<noteq> t then 0
      else (if a = t then v else 0) - (if a = f then v else 0))"
  "getAllowance (snd (moveTokens f t v s)) q p = getAllowance s q p"
  "totalSupply (snd (moveTokens f t v s)) = totalSupply s"
  by (auto simp: moveTokens_def andThen_fst accounts_ensure accounts_addBalance)

lemma getAllowance_spend:
  "fst (spendAllowance q p v s) = Inr () \<Longrightarrow>
   getAllowance (snd (spendAllowance q p v s)) q' p' =
     getAllowance s q' p' - (if q' = q \<and> p' = p then v else 0)"
  "fst (spendAllowance q p v s) = Inl e \<Longrightarrow> snd (spendAllowance q p v s) = s"
  by (auto simp: spendAllowance_def getAllowance_def orZero_def split: option.splits)

lemma getAllowance_approve:
  "getAllowance (snd (approve q p v s)) q' p' = (if q' = q \<and> p' = p then v else getAllowance s q' p')"
  by (auto simp: approve_def andThen_fst ensureAccount_def getAllowance_def orZero_def
      split: option.splits)

lemma balanceOf_spend [simp]: "balanceOf (snd (spendAllowance q p v s)) a = balanceOf s a"
  by (simp add: balanceOf_orZero)

text \<open>
  A transfer of the token mock does exactly one of three things: it is rejected for lack of
  balance and changes nothing; it throws because the sender has no account, and no balance
  changes; or it succeeds, takes the amount from the sender and gives it to the recipient (a
  transfer to oneself changes nothing), and supply and allowances stay.
\<close>

theorem transfer_behaviour:
  "case transfer from to' v s of (r, s') \<Rightarrow>
     if balanceOf s from < v then r = Inr (failResult ''Insufficient balance'') \<and> s' = s
     else if accounts s from = None \<and> from \<noteq> to'
     then r = Inl TypeError \<and> (\<forall>a. balanceOf s' a = balanceOf s a)
     else r = Inr (okResult NNull) \<and> totalSupply s' = totalSupply s \<and>
       (\<forall>a. balanceOf s' a = balanceOf s a - (if a = from then v else 0) + (if a = to' then v else 0)) \<and>
       (\<forall>q p. getAllowance s' q p = getAllowance s q p)"
  by (auto simp: transfer_def andThen_fst moveTokens_spec split: sum.splits)

subsection \<open>Allowances over a sequence of calls\<close>

text \<open>
  What the calls of spender \<open>p\<close> on behalf of \<open>q\<close> have taken out of the account of \<open>q\<close>: the fall of
  the balance of \<open>q\<close> over each such call, whether it succeeds, is rejected or throws.
\<close>

fun callsFor :: "string \<Rightarrow> string \<Rightarrow> TokenCall \<Rightarrow> bool" where
  "callsFor q p (CTransferFrom q' p' t v) = (q' = q \<and> p' = p)"
| "callsFor q p _ = False"

fun movedBy :: "string \<Rightarrow> string \<Rightarrow> TokenCall list \<Rightarrow> MockBcForgeClient \<Rightarrow> int" where
  "movedBy q p [] s = 0"
| "movedBy q p (c # cs) s =
     (if callsFor q p c then balanceOf s q - balanceOf (tokenStep c s) q else 0) +
     movedBy q p cs (tokenStep c s)"

lemma callsFor_iff: "callsFor q p c \<longleftrightarrow> (\<exists>t v. c = CTransferFrom q p t v)"
  by (cases c) auto

lemma getAllowance_forEach_moves:
  "(\<And>x s. getAllowance (snd (f x s)) q p = getAllowance s q p) \<Longrightarrow>
   getAllowance (snd (forEach f xs s)) q p = getAllowance s q p"
  by (induction xs arbitrary: s) (simp_all add: andThen_fst split: sum.splits)

lemma getAllowance_mintTo [simp]: "getAllowance (snd (mintTo a v s)) q p = getAllowance s q p"
  by (simp add: mintTo_def andThen_fst accounts_ensure accounts_addBalance)

lemma getAllowance_call:
  assumes "\<forall>v. c \<noteq> CApprove q p v" and "\<not> callsFor q p c"
  shows "getAllowance (tokenStep c s) q p = getAllowance s q p"
proof (cases "isAdminCall c")
  case True
  then show ?thesis by (simp add: tokenStep_def getAllowance_def admin_calls_keep_books)
next
  case False
  with assms show ?thesis
    by (cases c) (auto simp: tokenStep_def mint_def batchMint_def transfer_def batchTransfer_def
        andThen_fst moveTokens_spec getAllowance_forEach_moves transferFrom_def
        getAllowance_spend getAllowance_approve split: sum.splits)
qed

text \<open>
  Spending throws only where the spender has no entry, so where its allowance reads as zero; after
  the checks of a transfer on behalf of an owner the amount is then zero, if it is not negative.
\<close>

lemma spendAllowance_throws:
  "fst (spendAllowance q p v s) = Inl e \<Longrightarrow> getAllowance s q p = 0"
  by (auto simp: spendAllowance_def getAllowance_def orZero_def split: option.splits)

lemma transferFrom_state:
  "tokenStep (CTransferFrom q p t v) s =
     (if getAllowance s q p < v \<or> balanceOf s q < v then s
      else if accounts s q = None \<and> q \<noteq> t then snd (moveTokens q t v s)
      else snd (spendAllowance q p v (snd (moveTokens q t v s))))"
  by (simp add: tokenStep_def transferFrom_def andThen_fst moveTokens_spec(1) split: sum.splits)

lemma transferFrom_moves:
  assumes "0 \<le> v" and s'_def: "s' = tokenStep (CTransferFrom q p t v) s"
  shows "balanceOf s q - balanceOf s' q = (if t = q then 0 else getAllowance s q p - getAllowance s' q p)"
    and "getAllowance s' q p \<le> getAllowance s q p"
    and "0 \<le> getAllowance s q p \<Longrightarrow> 0 \<le> getAllowance s' q p"
proof -
  let ?m = "snd (moveTokens q t v s)"
  consider "s' = s" | "s' = ?m" "accounts s q = None" "q \<noteq> t" "v \<le> getAllowance s q p"
    | "s' = snd (spendAllowance q p v ?m)" "\<not> (accounts s q = None \<and> q \<noteq> t)" "v \<le> getAllowance s q p"
    unfolding s'_def transferFrom_state not_less [symmetric] by metis
  then have "balanceOf s q - balanceOf s' q = (if t = q then 0 else getAllowance s q p - getAllowance s' q p) \<and>
      getAllowance s' q p \<le> getAllowance s q p \<and>
      (0 \<le> getAllowance s q p \<longrightarrow> 0 \<le> getAllowance s' q p)"
  proof cases
    case 3
    show ?thesis
    proof (cases "fst (spendAllowance q p v ?m)")
      case (Inl e)
      with 3 assms(1) have "v = 0" using spendAllowance_throws [OF Inl] by (simp add: moveTokens_spec)
      with 3 Inl show ?thesis by (simp add: getAllowance_spend(2) moveTokens_spec)
    next
      case (Inr u)
      with 3 assms(1) show ?thesis by (auto simp: getAllowance_spend(1) moveTokens_spec)
    qed
  qed (simp_all add: moveTokens_spec)
  then show "balanceOf s q - balanceOf s' q = (if t = q then 0 else getAllowance s q p - getAllowance s' q p)"
    and "getAllowance s' q p \<le> getAllowance s q p"
    and "0 \<le> getAllowance s q p \<Longrightarrow> 0 \<le> getAllowance s' q p" by auto
qed

text \<open>One call: what it takes is covered by the fall of the allowance.\<close>

lemma movedBy_step:
  assumes "\<forall>v. c \<noteq> CApprove q p v" and "\<forall>t v. c = CTransferFrom q p t v \<longrightarrow> 0 \<le> v"
  shows "movedBy q p [c] s \<le> getAllowance s q p - getAllowance (tokenStep c s) q p"
    and "(\<forall>v. c \<noteq> CTransferFrom q p q v) \<Longrightarrow>
      movedBy q p [c] s = getAllowance s q p - getAllowance (tokenStep c s) q p"
    and "0 \<le> getAllowance s q p \<Longrightarrow> 0 \<le> getAllowance (tokenStep c s) q p"
proof -
  show "movedBy q p [c] s \<le> getAllowance s q p - getAllowance (tokenStep c s) q p"
    using assms transferFrom_moves(1,2) [OF _ refl, where q = q and p = p and s = s]
    by (cases "callsFor q p c") (auto simp: callsFor_iff getAllowance_call)
  show "movedBy q p [c] s = getAllowance s q p - getAllowance (tokenStep c s) q p"
    if "\<forall>v. c \<noteq> CTransferFrom q p q v"
    using that assms transferFrom_moves(1) [OF _ refl, where q = q and p = p and s = s]
    by (cases "callsFor q p c") (auto simp: callsFor_iff getAllowance_call)
  show "0 \<le> getAllowance (tokenStep c s) q p" if "0 \<le> getAllowance s q p"
    using that assms transferFrom_moves(3) [OF _ refl, where q = q and p = p and s = s]
    by (cases "callsFor q p c") (auto simp: callsFor_iff getAllowance_call)
qed

text \<open>
  C18. Take any sequence of calls without a new approval for the pair of owner and spender, in which
  the spender asks for no negative amount on the owner's behalf. What the spender's calls take out of
  the owner's balance, calls that are rejected or throw included, is never more than the
  allowance has gone down, and exactly that much if no such call sends the tokens back to the owner;
  an allowance that is not negative stays so, and the spender takes no more than it was allowed.
\<close>

theorem spender_stays_within_allowance:
  assumes "\<forall>c \<in> set calls. \<forall>v. c \<noteq> CApprove owner spender v"
    and "\<forall>c \<in> set calls. \<forall>t v. c = CTransferFrom owner spender t v \<longrightarrow> 0 \<le> v"
  shows "movedBy owner spender calls s \<le>
           getAllowance s owner spender - getAllowance (fold tokenStep calls s) owner spender \<and>
         ((\<forall>c \<in> set calls. \<forall>v. c \<noteq> CTransferFrom owner spender owner v) \<longrightarrow>
            movedBy owner spender calls s =
              getAllowance s owner spender - getAllowance (fold tokenStep calls s) owner spender) \<and>
         (0 \<le> getAllowance s owner spender \<longrightarrow>
            0 \<le> getAllowance (fold tokenStep calls s) owner spender \<and>
            movedBy owner spender calls s \<le> getAllowance s owner spender)"
  using assms
proof (induction calls arbitrary: s)
  case (Cons c calls)
  have split: "movedBy owner spender (c # calls) s =
      movedBy owner spender [c] s + movedBy owner spender calls (tokenStep c s)"
    by simp
  from Cons.prems have "\<forall>v. c \<noteq> CApprove owner spender v"
    "\<forall>t v. c = CTransferFrom owner spender t v \<longrightarrow> 0 \<le> v" by simp_all
  note step = movedBy_step [OF this, of s]
  from Cons.IH [of "tokenStep c s"] Cons.prems step show ?case
    unfolding split by (auto simp del: movedBy.simps)
qed simp

theorem spender_stays_within_allowance_witness:
  "movedBy ''A'' ''B'' [CTransferFrom ''A'' ''B'' ''C'' 3, CTransferFrom ''A'' ''B'' ''C'' 3]
     (fold tokenStep [CMint ''X'' ''A'' 9, CApprove ''A'' ''B'' 5] (newMockToken None)) = 3 \<and>
   getAllowance (fold tokenStep [CTransferFrom ''A'' ''B'' ''C'' 3, CTransferFrom ''A'' ''B'' ''C'' 3]
     (fold tokenStep [CMint ''X'' ''A'' 9, CApprove ''A'' ''B'' 5] (newMockToken None))) ''A'' ''B'' = 2"
proof -
  let ?s = "fold tokenStep [CMint ''X'' ''A'' 9, CApprove ''A'' ''B'' 5] (newMockToken None)"
  let ?cs = "[CTransferFrom ''A'' ''B'' ''C'' 3, CTransferFrom ''A'' ''B'' ''C'' 3]"
  have "movedBy ''A'' ''B'' ?cs ?s = 3" "getAllowance ?s ''A'' ''B'' = 5" by code_simp+
  moreover have "\<forall>c \<in> set ?cs. \<forall>v. c \<noteq> CApprove ''A'' ''B'' v"
    "\<forall>c \<in> set ?cs. \<forall>t v. c = CTransferFrom ''A'' ''B'' t v \<longrightarrow> 0 \<le> v"
    "\<forall>c \<in> set ?cs. \<forall>v. c \<noteq> CTransferFrom ''A'' ''B'' ''A'' v" by simp_all
  note spender_stays_within_allowance [OF this(1,2), of ?s] this(3)
  ultimately show ?thesis by simp
qed

text \<open>
  Why amounts must not be negative: a negative amount passes both checks and, sent to the owner
  itself, raises the spender's allowance without moving anything.
\<close>

lemma negative_transferFrom_raises_allowance:
  "let s = fold tokenStep [CMint ''X'' ''A'' 9, CApprove ''A'' ''B'' 5] (newMockToken None);
       s' = tokenStep (CTransferFrom ''A'' ''B'' ''A'' (- 4)) s
   in getAllowance s' ''A'' ''B'' = 9 \<and> balanceOf s' ''A'' = balanceOf s ''A''"
  by code_simp

text \<open>
  A transfer on behalf of an owner with an account but no approval entry, of an amount that is
  not positive, moves the balances and then throws.
\<close>

lemma transferFrom_throws_after_move:
  "case transferFrom ''A'' ''B'' ''C'' (- 5) (fold tokenStep [CMint ''X'' ''A'' 9] (newMockToken None)) of
     (r, s') \<Rightarrow> r = Inl TypeError \<and> balanceOf s' ''A'' = 14 \<and> balanceOf s' ''C'' = - 5"
  by code_simp

subsection \<open>Roles\<close>

text \<open>
  After a role is granted the address has it; after it is revoked the address has it only as the
  administrator, who passes every role check; no other pair of role and address is affected.
\<close>

theorem roles_after_grant_and_revoke:
  "hasRole r' a' (snd (grantRole r a s)) = (hasRole r' a' s \<or> (r' = r \<and> a' = a)) \<and>
   hasRole r' a' (snd (revokeRole r a s)) =
     (if r' = r \<and> a' = a then adminAddress s = a else hasRole r' a' s)"
  by (auto simp: hasRole_def grantRole_def revokeRole_def Let_def split: option.splits)

end
