(* ===== verification/MockVault.thy ===== *)
theory MockVault
  imports Sdk_Types
begin

text \<open>
  \<^verbatim>\<open>MockVaultClient\<close> of \<^verbatim>\<open>src/sdk/src/mockClient.ts\<close>, the in-memory vault: share accounting with
  truncating bigint division, slippage limits, rewards, allowances and the configurable answers
  for sequences, time to live and rate limits. The unused \<^verbatim>\<open>source\<close> arguments are dropped.
\<close>

subsection \<open>State\<close>

record RateLimitConfig =
  limit :: int
  windowSeconds :: int
  currentUsage :: int
  cooldownSeconds :: int

record RateLimitStatus = RateLimitConfig +
  remainingQuota :: int
  isThrottled :: bool

record MockVaultClient =
  shareBalances :: "string \<rightharpoonup> int"
  vault_allowances :: "string \<rightharpoonup> (string \<rightharpoonup> int)"
  totalShares :: int
  totalAssetsAmount :: int
  pendingRewardsAmount :: int
  mockEvents :: "Native list"
  mockAccountSequences :: "string \<rightharpoonup> int"
  mockContractTtlRemaining :: int
  mockRateLimits :: "string \<rightharpoonup> RateLimitConfig"

type_synonym 'a vault_act = "(js_error, MockVaultClient, 'a) act"

definition newMockVault :: MockVaultClient where
  "newMockVault = \<lparr>shareBalances = Map.empty, vault_allowances = Map.empty, totalShares = 0,
     totalAssetsAmount = 0, pendingRewardsAmount = 0, mockEvents = [],
     mockAccountSequences = Map.empty, mockContractTtlRemaining = 500,
     mockRateLimits = Map.empty\<rparr>"

subsection \<open>Queries\<close>

text \<open>A quotient of bigints throws a \<^verbatim>\<open>RangeError\<close> when the divisor is zero.\<close>

definition divBig :: "int \<Rightarrow> int \<Rightarrow> (js_error, 's, int) act" where
  "divBig a b = (if b = 0 then throw RangeError else ret (bigint_div a b))"

definition getShareBalance :: "string \<Rightarrow> MockVaultClient \<Rightarrow> int" where
  "getShareBalance a s = orZero (shareBalances s) a"

definition getVaultAllowance :: "string \<Rightarrow> string \<Rightarrow> MockVaultClient \<Rightarrow> int" where
  "getVaultAllowance owner spender s =
     (case vault_allowances s owner of None \<Rightarrow> 0 | Some m \<Rightarrow> orZero m spender)"

definition calculateSharePrice :: "int vault_act" where
  "calculateSharePrice s =
     (if totalShares s = 0 then throw (JsError ''ZeroShares: No shares outstanding'') s
      else divBig (totalAssetsAmount s) (totalShares s) s)"

definition calculateRewards :: "int \<Rightarrow> int vault_act" where
  "calculateRewards userShares s =
     (if userShares < 0 then throw (JsError ''InvalidAmount: Negative shares'') s
      else if totalShares s = 0 then throw (JsError ''ZeroShares: No shares outstanding'') s
      else divBig (userShares * totalAssetsAmount s) (totalShares s) s)"

subsection \<open>Deposits and withdrawals\<close>

definition deposit :: "string \<Rightarrow> int \<Rightarrow> int \<Rightarrow> TransactionResult vault_act" where
  "deposit caller v minSharesOut s =
     (if v \<le> 0 then ret (failResult ''InvalidAmount: Amount must be positive'') s
      else andThen
        (if totalShares s = 0 then ret v else divBig (v * totalShares s) (totalAssetsAmount s))
        (\<lambda>sharesOut s.
           if sharesOut \<le> 0 then ret (failResult ''InvalidAmount: Calculated shares are zero'') s
           else if sharesOut < minSharesOut
           then ret (failResult ''SlippageExceeded: Minted shares less than minSharesOut'') s
           else ret (okResult (NBig sharesOut))
                  (s\<lparr>shareBalances := (shareBalances s)(caller \<mapsto> orZero (shareBalances s) caller + sharesOut),
                     totalShares := totalShares s + sharesOut,
                     totalAssetsAmount := totalAssetsAmount s + v\<rparr>)) s)"

definition withdraw :: "string \<Rightarrow> int \<Rightarrow> int \<Rightarrow> TransactionResult vault_act" where
  "withdraw caller shares minTokensOut s =
     (if shares \<le> 0 then ret (failResult ''InvalidAmount: Shares must be positive'') s
      else let userBalance = orZero (shareBalances s) caller in
        if userBalance < shares then ret (failResult ''InsufficientBalance: Not enough shares'') s
        else if totalShares s = 0 then ret (failResult ''ZeroShares: No shares in vault'') s
        else andThen (divBig (shares * totalAssetsAmount s) (totalShares s))
          (\<lambda>tokensOut s.
             if tokensOut \<le> 0 then ret (failResult ''InvalidAmount: Payout rounds down to zero'') s
             else if tokensOut < minTokensOut
             then ret (failResult ''SlippageExceeded: Returned tokens less than minTokensOut'') s
             else ret (okResult (NBig tokensOut))
                    (s\<lparr>shareBalances := (shareBalances s)(caller \<mapsto> userBalance - shares),
                       totalShares := totalShares s - shares,
                       totalAssetsAmount := totalAssetsAmount s - tokensOut\<rparr>)) s)"

subsection \<open>Rewards, transfers, approvals\<close>

definition distributeRewards :: "string \<Rightarrow> int \<Rightarrow> TransactionResult vault_act" where
  "distributeRewards caller v s =
     (if v \<le> 0 then ret (failResult ''InvalidAmount: Reward amount must be positive'') s
      else ret (okResult NNull)
             (s\<lparr>totalAssetsAmount := totalAssetsAmount s + v,
                pendingRewardsAmount := pendingRewardsAmount s + v\<rparr>))"

definition compound :: "string \<Rightarrow> TransactionResult vault_act" where
  "compound caller s = ret (okResult NNull) (s\<lparr>pendingRewardsAmount := 0\<rparr>)"

definition compoundFees :: "string \<Rightarrow> TransactionResult vault_act" where
  "compoundFees caller = compound caller"

definition transferShares :: "string \<Rightarrow> string \<Rightarrow> int \<Rightarrow> TransactionResult vault_act" where
  "transferShares from to' v s =
     (let fromBalance = orZero (shareBalances s) from in
      if fromBalance < v then ret (failResult ''InsufficientBalance'') s
      else let s1 = s\<lparr>shareBalances := (shareBalances s)(from \<mapsto> fromBalance - v)\<rparr>
           in ret (okResult NNull)
                (s1\<lparr>shareBalances := (shareBalances s1)(to' \<mapsto> orZero (shareBalances s1) to' + v)\<rparr>))"

definition approveShares :: "string \<Rightarrow> string \<Rightarrow> int \<Rightarrow> TransactionResult vault_act" where
  "approveShares from spender v s =
     (let m = (case vault_allowances s from of None \<Rightarrow> Map.empty | Some m \<Rightarrow> m)
      in ret (okResult NNull)
           (s\<lparr>vault_allowances := (vault_allowances s)(from \<mapsto> m(spender \<mapsto> v))\<rparr>))"

definition extendTtl :: "TransactionResult vault_act" where
  "extendTtl = ret \<lparr>success = True, tx_hash = ''mock-ttl-bump-hash'', returnValue = NNull\<rparr>"

subsection \<open>Configurable answers\<close>

definition setEvents :: "Native list \<Rightarrow> unit vault_act" where
  "setEvents es s = ret () (s\<lparr>mockEvents := es\<rparr>)"

definition getEvents :: "MockVaultClient \<Rightarrow> Native list" where
  "getEvents s = mockEvents s"

definition setAccountSequence :: "string \<Rightarrow> int \<Rightarrow> unit vault_act" where
  "setAccountSequence a n s =
     ret () (s\<lparr>mockAccountSequences := (mockAccountSequences s)(a \<mapsto> n)\<rparr>)"

definition getAccountSequence :: "string \<Rightarrow> MockVaultClient \<Rightarrow> string" where
  "getAccountSequence a s =
     show_int (case mockAccountSequences s a of None \<Rightarrow> 100 | Some n \<Rightarrow> n)"

definition setContractTtlRemaining :: "int \<Rightarrow> unit vault_act" where
  "setContractTtlRemaining n s = ret () (s\<lparr>mockContractTtlRemaining := n\<rparr>)"

text \<open>The current ledger, the ledger the contract lives until, and the ledgers remaining.\<close>

definition getContractTtl :: "MockVaultClient \<Rightarrow> int \<times> int \<times> int" where
  "getContractTtl s = (1000, 1000 + mockContractTtlRemaining s, mockContractTtlRemaining s)"

definition setRateLimitStatus :: "string \<Rightarrow> int \<Rightarrow> int \<Rightarrow> int \<Rightarrow> int option \<Rightarrow> unit vault_act" where
  "setRateLimitStatus a l w u c s =
     ret () (s\<lparr>mockRateLimits := (mockRateLimits s)(a \<mapsto>
       \<lparr>limit = l, windowSeconds = w, currentUsage = u,
        cooldownSeconds = (case c of None \<Rightarrow> 0 | Some d \<Rightarrow> d)\<rparr>)\<rparr>)"

definition getRateLimitStatus :: "string \<Rightarrow> MockVaultClient \<Rightarrow> RateLimitStatus" where
  "getRateLimitStatus a s =
     (let config = (case mockRateLimits s a of
            None \<Rightarrow> \<lparr>limit = 1000, windowSeconds = 3600, currentUsage = 0, cooldownSeconds = 0\<rparr>
          | Some c \<Rightarrow> c)
      in \<lparr>limit = limit config, windowSeconds = windowSeconds config,
          currentUsage = currentUsage config, cooldownSeconds = cooldownSeconds config,
          remainingQuota = (if currentUsage config \<ge> limit config then 0
                            else limit config - currentUsage config),
          isThrottled = (currentUsage config \<ge> limit config)\<rparr>)"

subsection \<open>Calls\<close>

datatype VaultCall =
    VDeposit string int int
  | VWithdraw string int int
  | VDistribute string int
  | VCompound string
  | VCompoundFees string
  | VTransfer string string int
  | VApprove string string int

fun vaultCall :: "VaultCall \<Rightarrow> TransactionResult vault_act" where
  "vaultCall (VDeposit c v m) = deposit c v m"
| "vaultCall (VWithdraw c n m) = withdraw c n m"
| "vaultCall (VDistribute c v) = distributeRewards c v"
| "vaultCall (VCompound c) = compound c"
| "vaultCall (VCompoundFees c) = compoundFees c"
| "vaultCall (VTransfer f t v) = transferShares f t v"
| "vaultCall (VApprove f p v) = approveShares f p v"

definition vaultStep :: "VaultCall \<Rightarrow> MockVaultClient \<Rightarrow> MockVaultClient" where
  "vaultStep c s = snd (vaultCall c s)"

fun nonnegTransfer :: "VaultCall \<Rightarrow> bool" where
  "nonnegTransfer (VTransfer f t v) = (0 \<le> v)"
| "nonnegTransfer _ = True"

subsection \<open>Invariant\<close>

definition vaultInv :: "MockVaultClient \<Rightarrow> bool" where
  "vaultInv s \<longleftrightarrow>
     finite (dom (shareBalances s)) \<and> totalShares s = msum (shareBalances s) \<and>
     (\<forall>a v. shareBalances s a = Some v \<longrightarrow> 0 \<le> v) \<and>
     0 \<le> totalAssetsAmount s \<and> (0 < totalShares s \<longrightarrow> 0 < totalAssetsAmount s)"

lemma vaultInvD:
  assumes "vaultInv s"
  shows "0 \<le> totalShares s" "orZero (shareBalances s) a \<le> totalShares s"
    "0 \<le> orZero (shareBalances s) a"
proof -
  show "orZero (shareBalances s) a \<le> totalShares s"
    using assms orZero_le_msum [of "shareBalances s" a] by (auto simp: vaultInv_def)
  show "0 \<le> totalShares s" unfolding msum_def
    using assms by (auto simp: vaultInv_def msum_def intro!: sum_nonneg)
  show "0 \<le> orZero (shareBalances s) a"
    using assms by (auto simp: vaultInv_def orZero_def split: option.splits)
qed

lemma vaultInv_upd:
  assumes "vaultInv s" and "0 \<le> x"
    and "t = totalShares s - orZero (shareBalances s) a + x"
    and "0 \<le> assets" and "0 < t \<Longrightarrow> 0 < assets"
  shows "vaultInv (s\<lparr>shareBalances := (shareBalances s)(a \<mapsto> x), totalShares := t,
     totalAssetsAmount := assets\<rparr>)"
  using assms by (auto simp: vaultInv_def msum_upd split: if_splits)

text \<open>The two outcomes of a deposit and of a withdrawal on a consistent vault.\<close>

definition sharesFor :: "int \<Rightarrow> MockVaultClient \<Rightarrow> int" where
  "sharesFor v s = (if totalShares s = 0 then v else v * totalShares s div totalAssetsAmount s)"

definition tokensFor :: "int \<Rightarrow> MockVaultClient \<Rightarrow> int" where
  "tokensFor n s = n * totalAssetsAmount s div totalShares s"

lemma deposit_cases:
  assumes "vaultInv s"
  obtains (rejected) m where "deposit c v minOut s = (Inr (failResult m), s)"
    | (accepted) "0 < v" "0 < sharesFor v s" "minOut \<le> sharesFor v s"
        "deposit c v minOut s = (Inr (okResult (NBig (sharesFor v s))),
           s\<lparr>shareBalances := (shareBalances s)(c \<mapsto> orZero (shareBalances s) c + sharesFor v s),
             totalShares := totalShares s + sharesFor v s,
             totalAssetsAmount := totalAssetsAmount s + v\<rparr>)"
proof -
  have "deposit c v minOut s =
      (if v \<le> 0 then (Inr (failResult ''InvalidAmount: Amount must be positive''), s)
       else if sharesFor v s \<le> 0
       then (Inr (failResult ''InvalidAmount: Calculated shares are zero''), s)
       else if sharesFor v s < minOut
       then (Inr (failResult ''SlippageExceeded: Minted shares less than minSharesOut''), s)
       else (Inr (okResult (NBig (sharesFor v s))),
           s\<lparr>shareBalances := (shareBalances s)(c \<mapsto> orZero (shareBalances s) c + sharesFor v s),
             totalShares := totalShares s + sharesFor v s,
             totalAssetsAmount := totalAssetsAmount s + v\<rparr>))"
    using assms vaultInvD(1) [OF assms]
    by (auto simp: deposit_def sharesFor_def divBig_def vaultInv_def bigint_div_nonneg)
  with that show ?thesis by (smt (verit, best))
qed

lemma withdraw_cases:
  assumes "vaultInv s"
  obtains (rejected) m where "withdraw c n minOut s = (Inr (failResult m), s)"
    | (accepted) "0 < n" "n \<le> orZero (shareBalances s) c" "0 < totalShares s"
        "0 < tokensFor n s" "minOut \<le> tokensFor n s"
        "withdraw c n minOut s = (Inr (okResult (NBig (tokensFor n s))),
           s\<lparr>shareBalances := (shareBalances s)(c \<mapsto> orZero (shareBalances s) c - n),
             totalShares := totalShares s - n,
             totalAssetsAmount := totalAssetsAmount s - tokensFor n s\<rparr>)"
proof (cases "n \<le> 0 \<or> orZero (shareBalances s) c < n")
  case True
  then show ?thesis
    by (cases "n \<le> 0") (auto simp: withdraw_def Let_def intro: rejected)
next
  case False
  with vaultInvD(2) [OF assms, of c] have pos: "0 < totalShares s" "0 < n" by auto
  then have "divBig (n * totalAssetsAmount s) (totalShares s) = (ret (tokensFor n s) :: int vault_act)"
    using assms by (simp add: divBig_def tokensFor_def vaultInv_def bigint_div_nonneg)
  with False pos have "withdraw c n minOut s =
      (if tokensFor n s \<le> 0
       then (Inr (failResult ''InvalidAmount: Payout rounds down to zero''), s)
       else if tokensFor n s < minOut
       then (Inr (failResult ''SlippageExceeded: Returned tokens less than minTokensOut''), s)
       else (Inr (okResult (NBig (tokensFor n s))),
           s\<lparr>shareBalances := (shareBalances s)(c \<mapsto> orZero (shareBalances s) c - n),
             totalShares := totalShares s - n,
             totalAssetsAmount := totalAssetsAmount s - tokensFor n s\<rparr>))"
    by (simp add: withdraw_def Let_def)
  with False pos that show ?thesis by (smt (verit, best))
qed

lemma tokensFor_bounds:
  assumes "vaultInv s" and "0 < n" and "n \<le> totalShares s"
  shows "tokensFor n s \<le> totalAssetsAmount s"
    and "n < totalShares s \<Longrightarrow> tokensFor n s < totalAssetsAmount s"
proof -
  have a: "0 < totalAssetsAmount s" and S: "0 < totalShares s"
    using assms by (auto simp: vaultInv_def)
  have "n * totalAssetsAmount s \<le> totalShares s * totalAssetsAmount s"
    using assms a by (intro mult_right_mono) auto
  then have "tokensFor n s \<le> totalShares s * totalAssetsAmount s div totalShares s"
    unfolding tokensFor_def using S by (intro zdiv_mono1) auto
  then show "tokensFor n s \<le> totalAssetsAmount s" using S by simp
  assume "n < totalShares s"
  then have "n * totalAssetsAmount s < totalAssetsAmount s * totalShares s"
    using a by (simp add: mult.commute)
  moreover have "tokensFor n s * totalShares s \<le> n * totalAssetsAmount s"
    unfolding tokensFor_def using S by (simp add: minus_mod_eq_div_mult [symmetric])
  ultimately show "tokensFor n s < totalAssetsAmount s"
    using S by (meson mult_right_less_imp_less order_le_less_trans order_less_imp_le)
qed

lemma vaultInv_deposit:
  assumes inv: "vaultInv s"
  shows "vaultInv (snd (deposit c v m s))"
  using inv
proof (cases rule: deposit_cases [of s c v m])
  case accepted
  from inv have "0 \<le> totalAssetsAmount s" by (simp add: vaultInv_def)
  with accepted vaultInvD(3) [OF inv, of c]
  show ?thesis by (auto intro!: vaultInv_upd inv)
qed (simp add: inv)

lemma vaultInv_withdraw:
  assumes inv: "vaultInv s"
  shows "vaultInv (snd (withdraw c n m s))"
  using inv
proof (cases rule: withdraw_cases [of s c n m])
  case accepted
  have "n \<le> totalShares s" using accepted vaultInvD(2) [OF inv, of c] by simp
  with accepted tokensFor_bounds [OF inv, of n]
  show ?thesis by (auto intro!: vaultInv_upd inv)
qed (simp add: inv)

lemma vaultInv_transfer:
  assumes inv: "vaultInv s" and "0 \<le> v"
  shows "vaultInv (snd (transferShares f t v s))"
proof -
  let ?b = "(shareBalances s)(f \<mapsto> orZero (shareBalances s) f - v)"
  have "vaultInv (s\<lparr>shareBalances := ?b(t \<mapsto> orZero ?b t + v)\<rparr>)"
    if "v \<le> orZero (shareBalances s) f"
    using assms that vaultInvD(3) [OF inv, of t]
    by (auto simp: vaultInv_def msum_upd split: if_splits)
  then show ?thesis using inv by (simp add: transferShares_def Let_def)
qed

lemma vaultInv_step: "vaultInv s \<Longrightarrow> nonnegTransfer c \<Longrightarrow> vaultInv (vaultStep c s)"
  by (cases c) (simp_all add: vaultStep_def vaultInv_deposit vaultInv_withdraw vaultInv_transfer,
    simp_all add: distributeRewards_def compound_def compoundFees_def approveShares_def vaultInv_def Let_def)

interpretation mock_vault: fungible_ledger shareBalances totalShares vaultStep nonnegTransfer vaultInv
  by unfold_locales (simp add: vaultInv_def, rule vaultInv_step)

lemma vaultInv_new: "vaultInv newMockVault"
  by (simp add: vaultInv_def newMockVault_def)

subsection \<open>Properties\<close>

lemma vaultCall_returns: "vaultInv s \<Longrightarrow> \<exists>r. fst (vaultCall c s) = Inr r"
proof (cases c)
  case (VDeposit a v m)
  assume "vaultInv s"
  from this VDeposit show ?thesis by (cases rule: deposit_cases [of s a v m]) simp_all
next
  case (VWithdraw a n m)
  assume "vaultInv s"
  from this VWithdraw show ?thesis by (cases rule: withdraw_cases [of s a n m]) simp_all
qed (simp_all add: distributeRewards_def compound_def compoundFees_def transferShares_def
    approveShares_def Let_def)

text \<open>
  C20. Whatever calls are made on a fresh vault mock, as long as share transfers are not negative:
  the shares outstanding are the sum of the holdings, every holding lies between zero and that
  sum, the vault has assets whenever it has shares, and no further call throws (a deposit never
  divides by zero).
\<close>

theorem mock_vault_consistent:
  assumes "\<forall>c \<in> set calls. nonnegTransfer c"
  shows "let s = fold vaultStep calls newMockVault in
     totalShares s = msum (shareBalances s) \<and>
     (\<forall>a. 0 \<le> getShareBalance a s \<and> getShareBalance a s \<le> totalShares s) \<and>
     0 \<le> totalAssetsAmount s \<and> (0 < totalShares s \<longrightarrow> 0 < totalAssetsAmount s) \<and>
     (\<forall>c. \<exists>r. fst (vaultCall c s) = Inr r)"
proof -
  have inv: "vaultInv (fold vaultStep calls newMockVault)"
    by (rule mock_vault.run_inv [OF vaultInv_new assms])
  from vaultInvD [OF this] vaultCall_returns [OF this] show ?thesis
    using inv by (simp add: Let_def getShareBalance_def vaultInv_def)
qed

definition sampleVaultCalls :: "VaultCall list" where
  "sampleVaultCalls = [VDeposit ''A'' 100 0, VDistribute ''X'' 50, VDeposit ''B'' 100 0,
     VTransfer ''A'' ''B'' 10, VWithdraw ''B'' 7 0]"

theorem mock_vault_consistent_witness:
  "totalShares (fold vaultStep sampleVaultCalls newMockVault) =
     msum (shareBalances (fold vaultStep sampleVaultCalls newMockVault)) \<and>
   totalShares (fold vaultStep sampleVaultCalls newMockVault) = 159"
proof -
  have "\<forall>c \<in> set sampleVaultCalls. nonnegTransfer c" by (simp add: sampleVaultCalls_def)
  note mock_vault_consistent [OF this]
  moreover have "totalShares (fold vaultStep sampleVaultCalls newMockVault) = 159" by code_simp
  ultimately show ?thesis by (simp add: Let_def)
qed

lemma deposit_no_dilution:
  assumes "vaultInv s" and "0 < totalShares s"
  shows "sharesFor v s * totalAssetsAmount s \<le> v * totalShares s"
proof -
  have "0 < totalAssetsAmount s" using assms by (simp add: vaultInv_def)
  then show ?thesis
    using assms by (simp add: sharesFor_def minus_mod_eq_div_mult [symmetric])
qed

lemma tokensFor_mult_le: "0 < totalShares s \<Longrightarrow> tokensFor n s * totalShares s \<le> n * totalAssetsAmount s"
  by (simp add: tokensFor_def minus_mod_eq_div_mult [symmetric])

lemma share_price_step:
  assumes inv: "vaultInv s" and pos: "0 < totalShares s"
  shows "totalAssetsAmount s * totalShares (vaultStep c s) \<le>
     totalAssetsAmount (vaultStep c s) * totalShares s"
proof (cases c)
  case (VDeposit a v m)
  show ?thesis using inv
  proof (cases rule: deposit_cases [of s a v m])
    case accepted
    with deposit_no_dilution [OF inv pos, of v] show ?thesis
      by (simp add: VDeposit vaultStep_def algebra_simps)
  qed (simp add: VDeposit vaultStep_def)
next
  case (VWithdraw a n m)
  show ?thesis using inv
  proof (cases rule: withdraw_cases [of s a n m])
    case accepted
    with tokensFor_mult_le [OF pos, of n] show ?thesis
      by (simp add: VWithdraw vaultStep_def algebra_simps)
  qed (simp add: VWithdraw vaultStep_def)
qed (use pos in \<open>simp_all add: vaultStep_def distributeRewards_def compound_def compoundFees_def
    transferShares_def approveShares_def Let_def\<close>)

text \<open>
  C21. While shares are outstanding, no call lowers the value of a share: the ratio of assets to
  shares after the call is at least the ratio before, cross-multiplied, whatever the rounding of
  deposits and withdrawals.
\<close>

theorem share_price_never_falls:
  assumes "\<forall>c \<in> set calls. nonnegTransfer c"
    and "s = fold vaultStep calls newMockVault" and "0 < totalShares s"
  shows "totalAssetsAmount s * totalShares (vaultStep c s) \<le>
     totalAssetsAmount (vaultStep c s) * totalShares s"
  using share_price_step [OF _ assms(3)] mock_vault.run_inv [OF vaultInv_new assms(1)] assms(2)
  by simp

theorem share_price_never_falls_witness:
  "totalAssetsAmount (fold vaultStep sampleVaultCalls newMockVault) *
     totalShares (vaultStep (VWithdraw ''A'' 3 1) (fold vaultStep sampleVaultCalls newMockVault)) \<le>
   totalAssetsAmount (vaultStep (VWithdraw ''A'' 3 1) (fold vaultStep sampleVaultCalls newMockVault)) *
     totalShares (fold vaultStep sampleVaultCalls newMockVault) \<and>
   totalShares (vaultStep (VWithdraw ''A'' 3 1) (fold vaultStep sampleVaultCalls newMockVault)) = 156"
proof (intro conjI)
  have "\<forall>c \<in> set sampleVaultCalls. nonnegTransfer c" by (simp add: sampleVaultCalls_def)
  moreover have "0 < totalShares (fold vaultStep sampleVaultCalls newMockVault)" by code_simp
  ultimately show "totalAssetsAmount (fold vaultStep sampleVaultCalls newMockVault) *
     totalShares (vaultStep (VWithdraw ''A'' 3 1) (fold vaultStep sampleVaultCalls newMockVault)) \<le>
   totalAssetsAmount (vaultStep (VWithdraw ''A'' 3 1) (fold vaultStep sampleVaultCalls newMockVault)) *
     totalShares (fold vaultStep sampleVaultCalls newMockVault)"
    by (rule share_price_never_falls [OF _ refl])
qed code_simp

text \<open>
  C22. In a vault whose books are consistent and which holds no assets while it has no shares, a
  depositor who withdraws the shares received at once gets back at most the amount paid in, and
  both results respect the limits the caller set: rounding never pays out a profit. The
  condition on the empty vault is needed: rewards distributed before the first deposit go to
  whoever deposits first.
\<close>

theorem deposit_withdraw_no_profit:
  assumes "vaultInv s" and "totalShares s = 0 \<longrightarrow> totalAssetsAmount s = 0"
    and dep: "deposit c v minShares s = (Inr (okResult (NBig sharesOut)), s1)"
    and wd: "withdraw c sharesOut minTokens s1 = (Inr (okResult (NBig tokensOut)), s2)"
  shows "minShares \<le> sharesOut \<and> minTokens \<le> tokensOut \<and> tokensOut \<le> v"
proof -
  have inv1: "vaultInv s1" using vaultInv_deposit [OF assms(1), of c v minShares] dep by simp
  from assms(1) dep have d: "0 < v" "sharesOut = sharesFor v s" "minShares \<le> sharesOut"
      "totalShares s1 = totalShares s + sharesOut" "totalAssetsAmount s1 = totalAssetsAmount s + v"
    by (cases rule: deposit_cases [of s c v minShares]; auto)+
  from inv1 wd have w: "0 < sharesOut" "0 < totalShares s1" "tokensOut = tokensFor sharesOut s1"
      "minTokens \<le> tokensOut"
    by (cases rule: withdraw_cases [of s1 c sharesOut minTokens]; auto)+
  have "sharesOut * totalAssetsAmount s \<le> v * totalShares s"
    using assms(2) d deposit_no_dilution [OF assms(1), of v] vaultInvD(1) [OF assms(1)]
    by (cases "totalShares s = 0") auto
  then have "sharesOut * totalAssetsAmount s1 \<le> v * totalShares s1"
    by (simp add: d(4,5) algebra_simps)
  with tokensFor_mult_le [OF w(2), of sharesOut] have "tokensOut * totalShares s1 \<le> v * totalShares s1"
    by (simp add: w(3))
  with w d show ?thesis by simp
qed

theorem deposit_withdraw_no_profit_witness:
  "\<exists>s1 s2. deposit ''C'' 10 6 (fold vaultStep sampleVaultCalls newMockVault) = (Inr (okResult (NBig 6)), s1) \<and>
     withdraw ''C'' 6 8 s1 = (Inr (okResult (NBig 9)), s2) \<and> (9::int) \<le> 10"
proof -
  let ?s = "fold vaultStep sampleVaultCalls newMockVault"
  have d: "deposit ''C'' 10 6 ?s = (Inr (okResult (NBig 6)), snd (deposit ''C'' 10 6 ?s))"
    by (rule prod_eqI) (code_simp, simp)
  have w: "withdraw ''C'' 6 8 (snd (deposit ''C'' 10 6 ?s)) =
      (Inr (okResult (NBig 9)), snd (withdraw ''C'' 6 8 (snd (deposit ''C'' 10 6 ?s))))"
    by (rule prod_eqI) (code_simp, simp)
  have "vaultInv ?s"
    by (rule mock_vault.run_inv [OF vaultInv_new]) (simp add: sampleVaultCalls_def)
  moreover have "totalShares ?s = 0 \<longrightarrow> totalAssetsAmount ?s = 0" by code_simp
  ultimately have "(9::int) \<le> 10" using deposit_withdraw_no_profit [OF _ _ d w] by blast
  with d w show ?thesis by blast
qed

text \<open>
  Without the condition: rewards of 50 on an empty vault, then a deposit of 10, whose shares
  are worth 60.
\<close>

lemma first_depositor_takes_rewards:
  "let s = vaultStep (VDistribute ''A'' 50) newMockVault; s1 = snd (deposit ''C'' 10 0 s)
   in fst (deposit ''C'' 10 0 s) = Inr (okResult (NBig 10)) \<and>
      fst (withdraw ''C'' 10 0 s1) = Inr (okResult (NBig 60))"
  by code_simp

text \<open>The rate limit answer: the quota is what is left of the limit, and zero exactly when throttled.\<close>

lemma getRateLimitStatus_quota:
  "remainingQuota (getRateLimitStatus a s) =
     max 0 (limit (getRateLimitStatus a s) - currentUsage (getRateLimitStatus a s))"
  "isThrottled (getRateLimitStatus a s) \<longleftrightarrow> remainingQuota (getRateLimitStatus a s) = 0"
  by (auto simp: getRateLimitStatus_def Let_def)

text \<open>
  With a negative amount a holder of nothing raises its own balance, and can then withdraw more
  than the vault ever issued.
\<close>

lemma negative_share_transfer:
  "let s = fold vaultStep [VDeposit ''A'' 10 0, VTransfer ''B'' ''A'' (- 15)] newMockVault in
     getShareBalance ''B'' s = 15 \<and> getShareBalance ''A'' s = - 5 \<and> totalShares s = 10 \<and>
     totalAssetsAmount (vaultStep (VWithdraw ''B'' 15 0) s) = - 5"
  by code_simp

end
