(* ===== verification/JsNumber.thy ===== *)
theory JsNumber
  imports Forge_Effects Complex_Main
begin

text \<open>
  JavaScript's \<^verbatim>\<open>Number(...)\<close> conversion, which the event decoders and the API's query parameters
  use: the grammar of numeric strings, and rounding to the nearest double (ties to even, with
  gradual underflow and overflow to infinity). A finite double is its exact rational value;
  negative zero is zero.
\<close>

datatype js_number = NaN | Infinite bool | Fin rat

subsection \<open>Rounding\<close>

fun bitlen :: "nat \<Rightarrow> nat" where
  "bitlen n = (if n = 0 then 0 else Suc (bitlen (n div 2)))"

declare bitlen.simps [simp del]

definition pow2 :: "int \<Rightarrow> rat" where
  "pow2 k = (if 0 \<le> k then 2 ^ nat k else 1 / 2 ^ nat (- k))"

definition floorLog2 :: "rat \<Rightarrow> int" where
  "floorLog2 a = (let (n, d) = quotient_of a; k = int (bitlen (nat n)) - int (bitlen (nat d))
                  in if pow2 k \<le> a then k else k - 1)"

definition roundHalfEven :: "rat \<Rightarrow> int" where
  "roundHalfEven a = (let f = \<lfloor>a\<rfloor>; r = a - of_int f
     in if r < 1 / 2 then f else if 1 / 2 < r then f + 1 else if even f then f else f + 1)"

definition roundDouble :: "rat \<Rightarrow> js_number" where
  "roundDouble x =
     (if x = 0 then Fin 0
      else let a = \<bar>x\<bar>; e = max (- 1074) (floorLog2 a - 52);
               v = of_int (roundHalfEven (a / pow2 e)) * pow2 e
           in if pow2 1024 \<le> v then Infinite (x < 0) else Fin (sgn x * v))"

subsection \<open>Numeric strings\<close>

fun parseExponent :: "string \<Rightarrow> int option" where
  "parseExponent [] = Some 0"
| "parseExponent (c # s) =
     (if c = CHR ''e'' \<or> c = CHR ''E''
      then (if s \<noteq> [] \<and> hd s = CHR ''-'' then map_option (\<lambda>n. - int n) (parse_radix 10 (tl s))
            else if s \<noteq> [] \<and> hd s = CHR ''+'' then map_option int (parse_radix 10 (tl s))
            else map_option int (parse_radix 10 s))
      else None)"

definition pow10 :: "int \<Rightarrow> rat" where
  "pow10 k = (if 0 \<le> k then 10 ^ nat k else 1 / 10 ^ nat (- k))"

text \<open>A decimal literal without sign: digits, an optional fraction, an optional exponent.\<close>

definition parseDecimal :: "string \<Rightarrow> rat option" where
  "parseDecimal s =
     (let ip = takeWhile isDigit s; r = dropWhile isDigit s;
          dot = (r \<noteq> [] \<and> hd r = CHR ''.'');
          fp = (if dot then takeWhile isDigit (tl r) else []);
          r' = (if dot then dropWhile isDigit (tl r) else r)
      in case (parse_radix 10 (ip @ fp), parseExponent r') of
           (Some n, Some e) \<Rightarrow> Some (of_nat n * pow10 (e - int (length fp)))
         | _ \<Rightarrow> None)"

definition parseUnsigned :: "bool \<Rightarrow> string \<Rightarrow> js_number" where
  "parseUnsigned neg s =
     (if s = ''Infinity'' then Infinite neg
      else case parseDecimal s of
             None \<Rightarrow> NaN
           | Some x \<Rightarrow> roundDouble (if neg then - x else x))"

definition numberOfNat :: "nat option \<Rightarrow> js_number" where
  "numberOfNat x = (case x of None \<Rightarrow> NaN | Some n \<Rightarrow> roundDouble (of_nat n))"

definition Number_string :: "string \<Rightarrow> js_number" where
  "Number_string s0 = (let s = js_trim s0 in
     if s = [] then Fin 0
     else if take 2 s = ''0x'' \<or> take 2 s = ''0X'' then numberOfNat (parse_radix 16 (drop 2 s))
     else if take 2 s = ''0o'' \<or> take 2 s = ''0O'' then numberOfNat (parse_radix 8 (drop 2 s))
     else if take 2 s = ''0b'' \<or> take 2 s = ''0B'' then numberOfNat (parse_radix 2 (drop 2 s))
     else if hd s = CHR ''-'' then parseUnsigned True (tl s)
     else if hd s = CHR ''+'' then parseUnsigned False (tl s)
     else parseUnsigned False s)"

text \<open>\<^verbatim>\<open>Number.isInteger(x)\<close>, with the integer.\<close>

fun integerOf :: "js_number \<Rightarrow> int option" where
  "integerOf (Fin q) = (if of_int \<lfloor>q\<rfloor> = q then Some \<lfloor>q\<rfloor> else None)"
| "integerOf _ = None"

subsection \<open>Native values\<close>

text \<open>\<^verbatim>\<open>String(v)\<close>, as the elements of an array are joined when it is converted.\<close>

fun nativeString :: "Native \<Rightarrow> string" and nativeJoin :: "Native list \<Rightarrow> string" where
  "nativeString NUndef = ''undefined''"
| "nativeString NNull = ''null''"
| "nativeString (NBool b) = (if b then ''true'' else ''false'')"
| "nativeString (NNum i) = show_int i"
| "nativeString (NBig i) = show_int i"
| "nativeString (NStr s) = s"
| "nativeString (NList vs) = nativeJoin vs"
| "nativeString (NObj fs) = ''[object Object]''"
| "nativeJoin [] = []"
| "nativeJoin (v # vs) =
     (if v = NUndef \<or> v = NNull then [] else nativeString v) @
     (if vs = [] then [] else CHR '','' # nativeJoin vs)"

fun Number_native :: "Native \<Rightarrow> js_number" where
  "Number_native NUndef = NaN"
| "Number_native NNull = Fin 0"
| "Number_native (NBool b) = Fin (if b then 1 else 0)"
| "Number_native (NNum i) = Fin (of_int i)"
| "Number_native (NBig i) = roundDouble (of_int i)"
| "Number_native (NStr s) = Number_string s"
| "Number_native (NList vs) = Number_string (nativeJoin vs)"
| "Number_native (NObj fs) = NaN"

subsection \<open>Integers up to 53 bits are exact\<close>

lemma bitlen_bound: "n < 2 ^ bitlen n"
proof (induction n rule: bitlen.induct)
  case (1 n)
  show ?case
  proof (cases "n = 0")
    case False
    with 1 have "n div 2 < 2 ^ bitlen (n div 2)" by simp
    then have "n < 2 * 2 ^ bitlen (n div 2)" by linarith
    with False show ?thesis by (subst bitlen.simps) simp
  qed (simp add: bitlen.simps)
qed

lemma bitlen_le: "n < 2 ^ k \<Longrightarrow> bitlen n \<le> k"
proof (induction k arbitrary: n)
  case (Suc k)
  then have "n div 2 < 2 ^ k" by auto
  from Suc.IH [OF this] show ?case by (subst bitlen.simps) simp
qed (simp add: bitlen.simps)

lemma roundHalfEven_int [simp]: "roundHalfEven (of_int i) = i"
  by (simp add: roundHalfEven_def)

lemma pow2_pos [simp]: "0 < pow2 k"
  by (simp add: pow2_def)

lemma floorLog2_int_le:
  assumes "0 < i" and "i < 2 ^ 53"
  shows "floorLog2 (of_int i) \<le> 52"
proof -
  have "nat i < 2 ^ 53" using assms by (simp add: nat_less_iff)
  then have "bitlen (nat i) \<le> 53" by (rule bitlen_le)
  moreover have "bitlen 1 = 1" by (simp add: bitlen.simps)
  ultimately show ?thesis by (simp add: floorLog2_def Let_def)
qed

lemma roundDouble_int:
  assumes "\<bar>i\<bar> < 2 ^ 53"
  shows "roundDouble (of_int i) = Fin (of_int i)"
proof (cases "i = 0")
  case False
  let ?e = "max (- 1074) (floorLog2 (of_int \<bar>i\<bar>) - 52)"
  have e0: "?e \<le> 0" using floorLog2_int_le [of "\<bar>i\<bar>"] assms False by simp
  have eq: "of_int \<bar>i\<bar> / pow2 ?e = of_int (\<bar>i\<bar> * 2 ^ nat (- ?e))"
    using e0 by (cases "?e = 0") (auto simp: pow2_def)
  have "of_int (roundHalfEven (of_int \<bar>i\<bar> / pow2 ?e)) = of_int \<bar>i\<bar> / pow2 ?e"
    unfolding eq by (simp only: roundHalfEven_int)
  then have v: "of_int (roundHalfEven (of_int \<bar>i\<bar> / pow2 ?e)) * pow2 ?e = of_int \<bar>i\<bar>"
    using pow2_pos [of ?e] by (metis less_irrefl nonzero_eq_divide_eq)
  have "of_int \<bar>i\<bar> < (2 :: rat) ^ 53"
    using assms by (metis of_int_less_iff of_int_numeral of_int_power)
  also have "\<dots> \<le> pow2 1024" by (simp add: pow2_def)
  finally have small: "\<not> pow2 1024 \<le> of_int \<bar>i\<bar>" by simp
  have "sgn (of_int i) * of_int \<bar>i\<bar> = (of_int i :: rat)" by (simp add: sgn_if abs_if)
  with False v small show ?thesis by (simp add: roundDouble_def Let_def del: of_int_abs flip: of_int_abs)
qed (simp add: roundDouble_def)

text \<open>The decimal rendering of such an integer reads back exactly.\<close>

lemma show_nat_isDigit: "\<forall>c \<in> set (show_nat n). isDigit c"
  unfolding isDigit_def using set_show_nat [of n] by blast

lemma takeWhile_isDigit_show_nat [simp]:
  "takeWhile isDigit (show_nat n) = show_nat n" "dropWhile isDigit (show_nat n) = []"
  using show_nat_isDigit [of n] by (auto simp: takeWhile_eq_all_conv dropWhile_eq_Nil_conv)

lemma parseDecimal_show_nat: "parseDecimal (show_nat n) = Some (of_nat n)"
  by (simp add: parseDecimal_def Let_def pow10_def)

lemma show_nat_not_Infinity: "show_nat n \<noteq> ''Infinity''"
proof
  assume "show_nat n = ''Infinity''"
  then have "isDigit CHR ''I''" using show_nat_isDigit [of n] by (metis list.set_intros(1))
  then show False by (simp add: isDigit_def)
qed

lemma parseUnsigned_show_nat:
  assumes "int n < 2 ^ 53"
  shows "parseUnsigned b (show_nat n) = Fin (if b then - of_nat n else of_nat n)"
  using assms roundDouble_int [of "int n"] roundDouble_int [of "- int n"]
  by (auto simp: parseUnsigned_def parseDecimal_show_nat show_nat_not_Infinity)

lemma Number_string_show_int:
  assumes "\<bar>i\<bar> < 2 ^ 53"
  shows "Number_string (show_int i) = Fin (of_int i)"
proof (cases "i < 0")
  case True
  then have "Number_string (show_int i) = parseUnsigned True (show_nat (nat (- i)))"
    by (simp add: Number_string_def Let_def) (simp add: show_int_def)
  with True assms show ?thesis by (simp add: parseUnsigned_show_nat)
next
  case False
  have n: "hd (show_nat (nat i)) \<noteq> CHR ''-''" "hd (show_nat (nat i)) \<noteq> CHR ''+''"
    using show_nat_ends(1) [of "nat i"] by auto
  from False n have "Number_string (show_int i) = parseUnsigned False (show_nat (nat i))"
    by (simp add: Number_string_def Let_def) (simp add: show_int_def take2_show_nat)
  with False assms show ?thesis by (simp add: parseUnsigned_show_nat)
qed

lemma integerOf_Number_show_int: "\<bar>i\<bar> < 2 ^ 53 \<Longrightarrow> integerOf (Number_string (show_int i)) = Some i"
  by (simp add: Number_string_show_int)

end
