(* ===== verification/Api.thy ===== *)
theory Api
  imports JsNumber "HOL-Library.Char_ord" "HOL-Library.List_Lexorder" "HOL-Library.Product_Lexorder"
begin

text \<open>
  The indexer's HTTP API: \<^verbatim>\<open>src/indexer/src/api.ts\<close>, \<^verbatim>\<open>src/indexer/src/lib/rateLimit.ts\<close> and the
  webhook delivery of \<^verbatim>\<open>src/indexer/src/events.ts\<close>.

  Express hands a handler the request's headers, query and body; a handler's outcome is the
  response it sends, or an error that reaches the JSON error handler. Prisma's table delegates
  are operations that the handlers take as arguments: a \<open>find_many\<close> for each paginated table, with
  the documented laws as the locale \<open>prisma_table\<close>, and \<open>WebhookStore\<close> for the webhook targets.
  Counting requests is the work of the package \<^verbatim>\<open>express-rate-limit\<close>, a parameter that says for
  every request whether it is let through.
\<close>

subsection \<open>Requests and responses\<close>

text \<open>A query parameter: a string, a repeated parameter, or a nested object.\<close>

datatype QueryValue = QString string | QArray "QueryValue list" | QObject

type_synonym query = "string \<rightharpoonup> QueryValue"

record ApiRow =
  row_id :: string
  createdAt :: int
  row_ledger :: int
  row_fields :: "string \<rightharpoonup> string"

record Webhook =
  hook_id :: string
  hook_url :: string

datatype Body =
    ErrorBody string
  | Page "ApiRow list" "string option"
  | Stats nat nat nat
  | HookBody Webhook
  | NoBody

record HttpResponse =
  http_status :: nat
  http_body :: Body

definition respond :: "nat \<Rightarrow> Body \<Rightarrow> HttpResponse" where
  "respond c b = \<lparr>http_status = c, http_body = b\<rparr>"

lemma respond_simps [simp]:
  "http_status (respond c b) = c" "http_body (respond c b) = b"
  "respond c b = respond c' b' \<longleftrightarrow> c = c' \<and> b = b'"
  by (simp_all add: respond_def)

subsection \<open>Authentication\<close>

definition BEARER_PREFIX :: string where "BEARER_PREFIX = ''Bearer ''"

text \<open>\<^verbatim>\<open>Buffer.from(s)\<close>: the UTF-8 bytes of a string of code points below 256.\<close>

definition utf8Char :: "char \<Rightarrow> nat list" where
  "utf8Char c = (let n = of_char c in if n < 128 then [n] else [192 + n div 64, 128 + n mod 64])"

definition utf8 :: "string \<Rightarrow> nat list" where
  "utf8 s = concat (map utf8Char s)"

definition tokensMatch :: "string \<Rightarrow> string \<Rightarrow> bool" where
  "tokensMatch presented expected \<longleftrightarrow>
     (if length (utf8 presented) \<noteq> length (utf8 expected) then False
      else utf8 presented = utf8 expected)"

text \<open>The response of \<^verbatim>\<open>requireApiToken\<close>, or \<open>None\<close> when it calls \<^verbatim>\<open>next()\<close>.\<close>

definition requireApiToken :: "string option \<Rightarrow> string option \<Rightarrow> HttpResponse option" where
  "requireApiToken expectedToken authorization =
     (let header = (case authorization of None \<Rightarrow> '''' | Some h \<Rightarrow> h);
          presentedToken = (if startsWith header BEARER_PREFIX then drop (length BEARER_PREFIX) header else '''')
      in if \<not> truthy expectedToken \<or> presentedToken = [] \<or> \<not> tokensMatch presentedToken (the expectedToken)
         then Some (respond 401 (ErrorBody ''Unauthorized''))
         else None)"

subsection \<open>Query parameters\<close>

definition DEFAULT_LIMIT :: int where "DEFAULT_LIMIT = 50"
definition MAX_LIMIT :: int where "MAX_LIMIT = 100"

text \<open>The parameter, or the first of a repeated one, when it is a string.\<close>

fun firstString :: "QueryValue \<Rightarrow> string option" where
  "firstString (QString s) = Some s"
| "firstString (QArray (QString s # vs)) = Some s"
| "firstString _ = None"

definition parseLimit :: "query \<Rightarrow> int option" where
  "parseLimit q =
     (case q ''limit'' of
        None \<Rightarrow> Some DEFAULT_LIMIT
      | Some raw \<Rightarrow>
          (case firstString raw of
             None \<Rightarrow> None
           | Some v \<Rightarrow>
               (case integerOf (Number_string v) of
                  None \<Rightarrow> None
                | Some n \<Rightarrow> if n < 1 then None else Some (min n MAX_LIMIT))))"

definition nonEmptyParam :: "string \<Rightarrow> query \<Rightarrow> string option" where
  "nonEmptyParam name q =
     (case q name of
        None \<Rightarrow> None
      | Some raw \<Rightarrow>
          (case firstString raw of
             None \<Rightarrow> None
           | Some v \<Rightarrow> if length v = 0 then None else Some v))"

definition parseCursor :: "query \<Rightarrow> string option" where
  "parseCursor q = nonEmptyParam ''cursor'' q"

definition parseAddress :: "query \<Rightarrow> string option" where
  "parseAddress q = nonEmptyParam ''address'' q"

text \<open>\<open>None\<close> when the value is invalid, \<open>Some None\<close> when it is absent.\<close>

definition parseFromLedger :: "query \<Rightarrow> int option option" where
  "parseFromLedger q =
     (case q ''from_ledger'' of
        None \<Rightarrow> Some None
      | Some raw \<Rightarrow>
          (case firstString raw of
             None \<Rightarrow> None
           | Some v \<Rightarrow>
               (case integerOf (Number_string v) of
                  None \<Rightarrow> None
                | Some n \<Rightarrow> if n < 0 then None else Some (Some n))))"

subsection \<open>Filters\<close>

datatype Where =
    FieldIs string string
  | LedgerGte int
  | WAnd "Where list"
  | WOr "Where list"

definition combine :: "Where list \<Rightarrow> Where option" where
  "combine conditions =
     (if length conditions = 0 then None
      else if length conditions = 1 then Some (conditions ! 0) else Some (WAnd conditions))"

definition ledgerCondition :: "int option \<Rightarrow> Where list" where
  "ledgerCondition fromLedger = (case fromLedger of None \<Rightarrow> [] | Some n \<Rightarrow> [LedgerGte n])"

definition buildMintWhere :: "string option \<Rightarrow> int option \<Rightarrow> Where option" where
  "buildMintWhere a n =
     combine ((case a of None \<Rightarrow> [] | Some x \<Rightarrow> [FieldIs ''to'' x]) @ ledgerCondition n)"

definition buildTransferWhere :: "string option \<Rightarrow> int option \<Rightarrow> Where option" where
  "buildTransferWhere a n =
     combine ((case a of None \<Rightarrow> [] | Some x \<Rightarrow> [WOr [FieldIs ''from'' x, FieldIs ''to'' x]]) @ ledgerCondition n)"

definition buildAddressFieldWhere :: "string \<Rightarrow> string option \<Rightarrow> int option \<Rightarrow> Where option" where
  "buildAddressFieldWhere field a n =
     combine ((case a of None \<Rightarrow> [] | Some x \<Rightarrow> [FieldIs field x]) @ ledgerCondition n)"

definition buildBurnWhere :: "string option \<Rightarrow> int option \<Rightarrow> Where option" where
  "buildBurnWhere a n =
     combine ((case a of None \<Rightarrow> [] | Some x \<Rightarrow> [FieldIs ''from'' x]) @ ledgerCondition n)"

definition buildHolderWhere :: "string option \<Rightarrow> int option \<Rightarrow> Where option" where
  "buildHolderWhere a n =
     combine ((case a of None \<Rightarrow> [] | Some x \<Rightarrow> [FieldIs ''address'' x]) @ ledgerCondition n)"

definition buildSupplyPointWhere :: "int option \<Rightarrow> Where option" where
  "buildSupplyPointWhere n = (case n of None \<Rightarrow> None | Some k \<Rightarrow> Some (LedgerGte k))"

subsection \<open>Pagination\<close>

text \<open>The arguments of \<^verbatim>\<open>findMany\<close>, the sort keys of \<^verbatim>\<open>orderBy\<close> included.\<close>

datatype SortField = ByCreatedAt | ById

datatype SortDir = Asc | Desc

record FindManyArgs =
  take_rows :: int
  skip_rows :: nat
  cursor_id :: "string option"
  where_filter :: "Where option"
  order_by :: "(SortField \<times> SortDir) list"

type_synonym 's find_many = "FindManyArgs \<Rightarrow> (js_error, 's, ApiRow list) act"

definition handlePaginatedList :: "'s find_many \<Rightarrow> query \<Rightarrow> Where option \<Rightarrow> (js_error, 's, HttpResponse) act" where
  "handlePaginatedList findMany q where' =
     (case parseLimit q of
        None \<Rightarrow> ret (respond 400 (ErrorBody ''Invalid limit: must be an integer >= 1''))
      | Some limit \<Rightarrow>
          let cursor = parseCursor q in
          tryCatch
            (andThen (findMany \<lparr>take_rows = limit + 1, skip_rows = (if truthy cursor then 1 else 0),
                                cursor_id = (if truthy cursor then cursor else None), where_filter = where',
                                order_by = [(ByCreatedAt, Desc), (ById, Desc)]\<rparr>)
              (\<lambda>rows.
                 let hasNextPage = int (length rows) > limit;
                     data = (if hasNextPage then take (nat limit) rows else rows)
                 in ret (respond 200 (Page data
                      (if hasNextPage \<and> length data > 0 then Some (row_id (last data)) else None)))))
            (\<lambda>err. if err = PrismaError ''P2025'' then ret (respond 400 (ErrorBody ''Invalid cursor''))
                   else throw err))"

text \<open>
  \<^verbatim>\<open>asyncHandler\<close> forwards a rejected promise to the error handler, which answers 500 while the
  headers have not been sent.
\<close>

definition jsonErrorHandler :: "js_error \<Rightarrow> HttpResponse" where
  "jsonErrorHandler err = respond 500 (ErrorBody ''internal_error'')"

definition asyncHandler :: "(js_error, 's, HttpResponse) act \<Rightarrow> 's \<Rightarrow> HttpResponse \<times> 's" where
  "asyncHandler f s = (case f s of (Inr r, s') \<Rightarrow> (r, s') | (Inl e, s') \<Rightarrow> (jsonErrorHandler e, s'))"

subsection \<open>List routes\<close>

definition listRoute ::
    "'s find_many \<Rightarrow> (string option \<Rightarrow> int option \<Rightarrow> Where option) \<Rightarrow> query \<Rightarrow> (js_error, 's, HttpResponse) act" where
  "listRoute findMany build q =
     (let address = parseAddress q in
      case parseFromLedger q of
        None \<Rightarrow> ret (respond 400 (ErrorBody ''Invalid from_ledger: must be a non-negative integer''))
      | Some fromLedger \<Rightarrow> handlePaginatedList findMany q (build address fromLedger))"

datatype ListPath =
    Mints | Transfers | Burns | VaultDeposits | WrapperUpdates | VestingClaims | SplitDistributions
  | Holders | SupplyHistory

fun routeFilter :: "ListPath \<Rightarrow> string option \<Rightarrow> int option \<Rightarrow> Where option" where
  "routeFilter Mints = buildMintWhere"
| "routeFilter Transfers = buildTransferWhere"
| "routeFilter Burns = buildBurnWhere"
| "routeFilter VaultDeposits = buildAddressFieldWhere ''caller''"
| "routeFilter WrapperUpdates = buildAddressFieldWhere ''caller''"
| "routeFilter VestingClaims = buildAddressFieldWhere ''beneficiary''"
| "routeFilter SplitDistributions = buildAddressFieldWhere ''recipient''"
| "routeFilter Holders = buildHolderWhere"
| "routeFilter SupplyHistory = (\<lambda>_. buildSupplyPointWhere)"

text \<open>The delegate of each table, as a function of the route.\<close>

definition getList :: "(ListPath \<Rightarrow> 's find_many) \<Rightarrow> ListPath \<Rightarrow> query \<Rightarrow> 's \<Rightarrow> HttpResponse \<times> 's" where
  "getList delegates p q = asyncHandler (listRoute (delegates p) (routeFilter p) q)"

definition getStats ::
    "(ListPath \<Rightarrow> (js_error, 's, nat) act) \<Rightarrow> 's \<Rightarrow> HttpResponse \<times> 's" where
  "getStats count = asyncHandler
     (andThen (count Mints) (\<lambda>mintCount.
      andThen (count Transfers) (\<lambda>transferCount.
      andThen (count Burns) (\<lambda>burnCount.
      ret (respond 200 (Stats mintCount transferCount burnCount))))))"

subsection \<open>Webhook routes\<close>

text \<open>What \<^verbatim>\<open>new URL(text)\<close> yields; the parser is the platform's and a parameter.\<close>

record ParsedUrl =
  protocol :: string
  username :: string
  password :: string
  href :: string

record 's WebhookStore =
  upsertWebhook :: "string \<Rightarrow> (js_error, 's, Webhook) act"
  deleteWebhook :: "string \<Rightarrow> (js_error, 's, unit) act"
  findWebhooks :: "(js_error, 's, Webhook list) act"

text \<open>The \<^verbatim>\<open>url\<close> property of the request body, when it is a string.\<close>

definition postWebhook ::
    "(string \<Rightarrow> ParsedUrl option) \<Rightarrow> 's WebhookStore \<Rightarrow> string option \<Rightarrow> 's \<Rightarrow> HttpResponse \<times> 's" where
  "postWebhook parseUrl store rawUrl = asyncHandler
     (case rawUrl of
        None \<Rightarrow> ret (respond 400 (ErrorBody ''url must be an HTTPS URL''))
      | Some text \<Rightarrow>
          (case parseUrl text of
             None \<Rightarrow> ret (respond 400 (ErrorBody ''url must be an HTTPS URL''))
           | Some parsed \<Rightarrow>
               if protocol parsed \<noteq> ''https:'' \<or> length (username parsed) > 0 \<or> length (password parsed) > 0
               then ret (respond 400 (ErrorBody ''url must be an HTTPS URL without embedded credentials''))
               else andThen (upsertWebhook store (href parsed)) (\<lambda>w. ret (respond 201 (HookBody w)))))"

definition removeWebhook :: "'s WebhookStore \<Rightarrow> string \<Rightarrow> 's \<Rightarrow> HttpResponse \<times> 's" where
  "removeWebhook store i = asyncHandler
     (tryCatch (andThen (deleteWebhook store i) (\<lambda>_. ret (respond 204 NoBody)))
        (\<lambda>err. if err = PrismaError ''P2025'' then ret (respond 404 (ErrorBody ''webhook_not_found''))
               else throw err))"

subsection \<open>Rate limit settings\<close>

definition DEFAULT_RATE_LIMIT_WINDOW_MS :: int where "DEFAULT_RATE_LIMIT_WINDOW_MS = 60000"
definition DEFAULT_RATE_LIMIT_MAX :: int where "DEFAULT_RATE_LIMIT_MAX = 60"

definition parsePositiveInteger :: "string option \<Rightarrow> int \<Rightarrow> int" where
  "parsePositiveInteger raw fallback =
     (case raw of
        None \<Rightarrow> fallback
      | Some t \<Rightarrow>
          if js_trim t = [] then fallback
          else (case integerOf (Number_string t) of
                  None \<Rightarrow> fallback
                | Some n \<Rightarrow> if n \<le> 0 then fallback else n))"

definition getRateLimitWindowMs :: "string option \<Rightarrow> int" where
  "getRateLimitWindowMs v = parsePositiveInteger v DEFAULT_RATE_LIMIT_WINDOW_MS"

definition getRateLimitMax :: "string option \<Rightarrow> int" where
  "getRateLimitMax v = parsePositiveInteger v DEFAULT_RATE_LIMIT_MAX"

text \<open>The options handed to the package: the window, the quota, and the body of a refusal.\<close>

record RateLimitOptions =
  windowMs :: int
  quota :: int
  refusal :: string

definition createApiRateLimiter ::
    "int option \<Rightarrow> int option \<Rightarrow> string option \<Rightarrow> string option \<Rightarrow> RateLimitOptions" where
  "createApiRateLimiter window limit envWindow envMax =
     \<lparr>windowMs = (case window of None \<Rightarrow> getRateLimitWindowMs envWindow | Some w \<Rightarrow> w),
      quota = (case limit of None \<Rightarrow> getRateLimitMax envMax | Some l \<Rightarrow> l),
      refusal = ''Too many requests, please try again later.''\<rparr>"

text \<open>
  The middleware that \<^verbatim>\<open>express-rate-limit\<close> builds from its options: for the address of a client and
  the counters it keeps (the clock included), whether the request is let through, and the new
  counters. A refused request is answered with status 429 and the configured body.
\<close>

type_synonym 'c rate_limit = "RateLimitOptions \<Rightarrow> string \<Rightarrow> 'c \<Rightarrow> bool \<times> 'c"

subsection \<open>The router\<close>

datatype ApiRequest =
    GetList ListPath query
  | GetStats
  | PostWebhook "string option"
  | DeleteWebhook string

record 's ApiDeps =
  dep_find :: "ListPath \<Rightarrow> 's find_many"
  dep_count :: "ListPath \<Rightarrow> (js_error, 's, nat) act"
  dep_hooks :: "'s WebhookStore"
  dep_parseUrl :: "string \<Rightarrow> ParsedUrl option"

fun route :: "'s ApiDeps \<Rightarrow> ApiRequest \<Rightarrow> 's \<Rightarrow> HttpResponse \<times> 's" where
  "route deps (GetList p q) = getList (dep_find deps) p q"
| "route deps GetStats = getStats (dep_count deps)"
| "route deps (PostWebhook u) = postWebhook (dep_parseUrl deps) (dep_hooks deps) u"
| "route deps (DeleteWebhook i) = removeWebhook (dep_hooks deps) i"

text \<open>
  The limiter runs first, for every request on the router; then the token is checked; a request
  that passes both reaches its route.
\<close>

definition apiRouter ::
    "'c rate_limit \<Rightarrow> RateLimitOptions \<Rightarrow> 's ApiDeps \<Rightarrow> string option \<Rightarrow> string \<Rightarrow> string option \<Rightarrow> ApiRequest \<Rightarrow>
     'c \<times> 's \<Rightarrow> HttpResponse \<times> 'c \<times> 's" where
  "apiRouter rateLimit options deps token ip authorization req cs =
     (case cs of (c, s) \<Rightarrow>
        (case rateLimit options ip c of
           (False, c') \<Rightarrow> (respond 429 (ErrorBody (refusal options)), c', s)
         | (True, c') \<Rightarrow>
             (case requireApiToken token authorization of
                Some r \<Rightarrow> (r, c', s)
              | None \<Rightarrow> (case route deps req s of (r, s') \<Rightarrow> (r, c', s')))))"

subsection \<open>Webhook delivery\<close>

text \<open>
  The outcome of one request depends on the target and on the attempt. Deliveries run
  concurrently and share nothing, so their effect is the list of attempts of each.
\<close>

datatype FetchOutcome = HttpOk | HttpStatus nat | FetchThrows

record Delivery =
  del_target :: Webhook
  del_attempts :: nat
  del_ok :: bool

fun deliverAttempts :: "(Webhook \<Rightarrow> nat \<Rightarrow> FetchOutcome) \<Rightarrow> Webhook \<Rightarrow> nat \<Rightarrow> nat \<Rightarrow> Delivery" where
  "deliverAttempts fetch target attempt 0 = \<lparr>del_target = target, del_attempts = attempt - 1, del_ok = False\<rparr>"
| "deliverAttempts fetch target attempt (Suc left) =
     (if fetch target attempt = HttpOk
      then \<lparr>del_target = target, del_attempts = attempt, del_ok = True\<rparr>
      else deliverAttempts fetch target (attempt + 1) left)"

definition deliverWebhook :: "(Webhook \<Rightarrow> nat \<Rightarrow> FetchOutcome) \<Rightarrow> Webhook \<Rightarrow> Delivery" where
  "deliverWebhook fetch target = deliverAttempts fetch target 1 2"

definition deliverIndexerEventToWebhooks ::
    "'s WebhookStore \<Rightarrow> (Webhook \<Rightarrow> nat \<Rightarrow> FetchOutcome) \<Rightarrow> (js_error, 's, Delivery list) act" where
  "deliverIndexerEventToWebhooks store fetch =
     andThen (findWebhooks store) (\<lambda>targets. ret (map (deliverWebhook fetch) targets))"

text \<open>
  The event bus: its listeners in the order they subscribed. Unsubscribing removes the most
  recently added instance of a listener.
\<close>

type_synonym 'l bus = "'l list"

definition subscribeIndexerEvents :: "'l \<Rightarrow> 'l bus \<Rightarrow> 'l bus" where
  "subscribeIndexerEvents l b = b @ [l]"

definition unsubscribeIndexerEvents :: "'l \<Rightarrow> 'l bus \<Rightarrow> 'l bus" where
  "unsubscribeIndexerEvents l b = rev (remove1 l (rev b))"

text \<open>A publication notifies every listener, then starts the webhook deliveries, whose failure is only logged.\<close>

definition publishIndexerEvent ::
    "'s WebhookStore \<Rightarrow> (Webhook \<Rightarrow> nat \<Rightarrow> FetchOutcome) \<Rightarrow> 'l bus \<Rightarrow> 's \<Rightarrow> ('l list \<times> Delivery list) \<times> 's" where
  "publishIndexerEvent store fetch b s =
     (case deliverIndexerEventToWebhooks store fetch s of
        (Inr ds, s') \<Rightarrow> ((b, ds), s')
      | (Inl e, s') \<Rightarrow> ((b, []), s'))"

subsection \<open>The token check\<close>

lemma utf8Char_inj:
  assumes "utf8Char c @ xs = utf8Char d @ ys"
  shows "c = d \<and> xs = ys"
proof -
  let ?m = "of_char c :: nat" and ?n = "of_char d :: nat"
  have lt: "?m < 256" "?n < 256" by simp_all
  from assms lt have "?m = ?n \<and> xs = ys"
    by (auto simp: utf8Char_def Let_def split: if_splits) (metis div_mult_mod_eq of_char_eq_iff)
  then show ?thesis by simp
qed

lemma utf8_inj: "utf8 s = utf8 t \<Longrightarrow> s = t"
proof (induction s arbitrary: t)
  case Nil
  then show ?case by (cases t) (auto simp: utf8_def utf8Char_def Let_def split: if_splits)
next
  case (Cons c s)
  then obtain d u where t: "t = d # u" by (cases t) (auto simp: utf8_def utf8Char_def Let_def split: if_splits)
  with Cons.prems have "utf8Char c @ utf8 s = utf8Char d @ utf8 u" by (simp add: utf8_def)
  with Cons.IH t show ?case by (auto dest: utf8Char_inj)
qed

lemma tokensMatch_iff: "tokensMatch p e \<longleftrightarrow> p = e"
  by (auto simp: tokensMatch_def dest: utf8_inj)

lemma requireApiToken_None_iff:
  "requireApiToken token authorization = None \<longleftrightarrow>
     (\<exists>t. token = Some t \<and> t \<noteq> [] \<and> authorization = Some (BEARER_PREFIX @ t))"
  by (auto simp: requireApiToken_def Let_def tokensMatch_iff truthy_def startsWith_def prefix_def
      split: option.splits if_splits)

lemma requireApiToken_Some: "requireApiToken token authorization = Some r \<Longrightarrow> r = respond 401 (ErrorBody ''Unauthorized'')"
  by (auto simp: requireApiToken_def Let_def split: if_splits)

text \<open>
  C32. A request on the router reaches a route exactly when the rate limiter lets it through, a
  non-empty token is configured and the request carries it as a bearer token. A request over the
  limit is answered with 429, whatever its token; every other request is answered with
  401, in particular when no token is configured. Neither touches anything but the limiter's
  counters, and every request is counted once, an unauthorised one too.
\<close>

theorem api_requires_token:
  "apiRouter rateLimit options deps token ip authorization req (c, s) =
     (let (allowed, c') = rateLimit options ip c in
      if \<not> allowed then (respond 429 (ErrorBody (refusal options)), c', s)
      else if \<exists>t. token = Some t \<and> t \<noteq> [] \<and> authorization = Some (''Bearer '' @ t)
      then (let (r, s') = route deps req s in (r, c', s'))
      else (respond 401 (ErrorBody ''Unauthorized''), c', s))"
proof (cases "rateLimit options ip c")
  case (Pair allowed c')
  then show ?thesis
    using requireApiToken_None_iff [of token authorization] requireApiToken_Some [of token authorization]
    by (cases allowed; cases "requireApiToken token authorization")
       (auto simp: apiRouter_def BEARER_PREFIX_def split: prod.splits)
qed

subsection \<open>Page sizes\<close>

lemma parseLimit_range: "parseLimit q = Some n \<Longrightarrow> 1 \<le> n \<and> n \<le> 100"
  by (auto simp: parseLimit_def DEFAULT_LIMIT_def MAX_LIMIT_def split: option.splits if_splits)

lemma parseLimit_decimal:
  "q ''limit'' = Some (QString (show_int i)) \<Longrightarrow> \<bar>i\<bar> < 2 ^ 53 \<Longrightarrow>
   parseLimit q = (if i < 1 then None else Some (min i 100))"
  by (simp add: parseLimit_def integerOf_Number_show_int MAX_LIMIT_def del: integerOf.simps)

lemma handlePaginatedList_ok:
  assumes "parseLimit q = Some n"
    and "findMany \<lparr>take_rows = n + 1, skip_rows = (if parseCursor q = None then 0 else 1),
       cursor_id = parseCursor q, where_filter = w,
       order_by = [(ByCreatedAt, Desc), (ById, Desc)]\<rparr> s = (Inr fetched, s')"
  shows "handlePaginatedList findMany q w s = (Inr (respond 200 (Page (take (nat n) fetched)
     (if int (length fetched) > n then Some (row_id (last (take (nat n) fetched))) else None))), s')"
proof -
  have n: "1 \<le> n" using parseLimit_range [OF assms(1)] by simp
  have c: "truthy (parseCursor q) \<longleftrightarrow> parseCursor q \<noteq> None"
    by (auto simp: truthy_def parseCursor_def nonEmptyParam_def split: option.splits if_splits)
  have "(if parseCursor q \<noteq> None then parseCursor q else None) = parseCursor q"
    "(if parseCursor q \<noteq> None then 1 else 0) = (if parseCursor q = None then 0 else 1 :: nat)" by simp_all
  then have "andThen (findMany \<lparr>take_rows = n + 1, skip_rows = (if truthy (parseCursor q) then 1 else 0),
      cursor_id = (if truthy (parseCursor q) then parseCursor q else None), where_filter = w,
      order_by = [(ByCreatedAt, Desc), (ById, Desc)]\<rparr>) g s =
      g fetched s'" for g :: "_ \<Rightarrow> (js_error, _, HttpResponse) act"
    using assms(2) by (simp only: c andThen_def) simp
  with assms(1) n show ?thesis by (auto simp: handlePaginatedList_def Let_def tryCatch_def)
qed

lemma handlePaginatedList_page:
  assumes "handlePaginatedList findMany q w s = (Inr r, s')" and "http_body r = Page rows next"
  shows "\<exists>n fetched. parseLimit q = Some n \<and> http_status r = 200 \<and>
     findMany \<lparr>take_rows = n + 1, skip_rows = (if parseCursor q = None then 0 else 1),
       cursor_id = parseCursor q, where_filter = w,
       order_by = [(ByCreatedAt, Desc), (ById, Desc)]\<rparr> s = (Inr fetched, s') \<and>
     rows = take (nat n) fetched \<and>
     next = (if int (length fetched) > n then Some (row_id (last rows)) else None)"
proof -
  obtain n where n: "parseLimit q = Some n"
    using assms by (cases "parseLimit q") (auto simp: handlePaginatedList_def)
  have "1 \<le> n" using parseLimit_range [OF n] by simp
  let ?args = "\<lparr>take_rows = n + 1, skip_rows = (if parseCursor q = None then 0 else 1),
       cursor_id = parseCursor q, where_filter = w, order_by = [(ByCreatedAt, Desc), (ById, Desc)]\<rparr>"
  have c: "truthy (parseCursor q) \<longleftrightarrow> parseCursor q \<noteq> None"
    by (auto simp: truthy_def parseCursor_def nonEmptyParam_def split: option.splits if_splits)
  obtain res t where f: "findMany ?args s = (res, t)" by force
  obtain fetched where fetched: "res = Inr fetched"
  proof (cases res)
    case (Inl e)
    with assms f n c show ?thesis
      by (cases "parseCursor q")
         (auto simp: handlePaginatedList_def Let_def tryCatch_def andThen_def split: if_splits)
  qed
  with f have f': "findMany ?args s = (Inr fetched, t)" by simp
  from handlePaginatedList_ok [where findMany = findMany and w = w and s = s, OF n f'] assms have "s' = t" and
      r: "r = respond 200 (Page (take (nat n) fetched)
        (if int (length fetched) > n then Some (row_id (last (take (nat n) fetched))) else None))"
    by simp_all
  with assms(2) n f' show ?thesis by (intro exI [of _ n] exI [of _ fetched]) auto
qed

text \<open>
  Whatever the query and however the database answers, a page has at most the requested number
  of rows, which is between 1 and 100; a page announces a successor only when it is full, and
  then names its last row. A decimal limit is used as it is up to 100, and rejected below 1.
\<close>

theorem page_size_bounded:
  "(handlePaginatedList findMany q w s = (Inr r, s') \<and> http_body r = Page rows next \<longrightarrow>
      (\<exists>n. parseLimit q = Some n \<and> 1 \<le> n \<and> n \<le> 100 \<and> int (length rows) \<le> n \<and>
         (\<forall>c. next = Some c \<longrightarrow> int (length rows) = n \<and> c = row_id (last rows)))) \<and>
   (q ''limit'' = Some (QString (show_int i)) \<and> \<bar>i\<bar> < 2 ^ 53 \<longrightarrow>
      parseLimit q = (if i < 1 then None else Some (min i 100)))"
proof (intro conjI impI)
  assume a: "handlePaginatedList findMany q w s = (Inr r, s') \<and> http_body r = Page rows next"
  then obtain n fetched where n: "parseLimit q = Some n" and rows: "rows = take (nat n) fetched"
      and nxt: "next = (if int (length fetched) > n then Some (row_id (last rows)) else None)"
    using handlePaginatedList_page [of findMany q w s r s' rows "next"] by metis
  with parseLimit_range [OF n]
  show "\<exists>n. parseLimit q = Some n \<and> 1 \<le> n \<and> n \<le> 100 \<and> int (length rows) \<le> n \<and>
      (\<forall>c. next = Some c \<longrightarrow> int (length rows) = n \<and> c = row_id (last rows))"
    by (auto split: if_splits)
qed (blast intro: parseLimit_decimal)

definition sampleRow :: "string \<Rightarrow> int \<Rightarrow> ApiRow" where
  "sampleRow i n = \<lparr>row_id = i, createdAt = n, row_ledger = n, row_fields = [''to'' \<mapsto> ''GA'']\<rparr>"

theorem page_size_bounded_witness:
  "parseLimit [''limit'' \<mapsto> QString ''2''] = Some 2 \<and>
   handlePaginatedList (\<lambda>a s. (Inr [sampleRow ''c'' 3, sampleRow ''b'' 2, sampleRow ''a'' 1], s))
     [''limit'' \<mapsto> QString ''2''] None () =
     (Inr (respond 200 (Page [sampleRow ''c'' 3, sampleRow ''b'' 2] (Some ''b''))), ()) \<and>
   int (length [sampleRow ''c'' 3, sampleRow ''b'' 2]) \<le> 2"
proof -
  let ?q = "[''limit'' \<mapsto> QString ''2''] :: query"
  let ?f = "\<lambda>a s. (Inr [sampleRow ''c'' 3, sampleRow ''b'' 2, sampleRow ''a'' 1], s :: unit)"
  let ?r = "respond 200 (Page [sampleRow ''c'' 3, sampleRow ''b'' 2] (Some ''b''))"
  have two: "''2'' = show_int 2" by code_simp
  have lim: "parseLimit ?q = Some 2"
    using page_size_bounded [of ?f ?q None "()" ?r "()" "[]" None 2] by (simp add: two)
  have run: "handlePaginatedList ?f ?q None () = (Inr ?r, ())"
    by (simp add: handlePaginatedList_def lim Let_def tryCatch_def andThen_def sampleRow_def)
  with page_size_bounded [of ?f ?q None "()" ?r "()" "[sampleRow ''c'' 3, sampleRow ''b'' 2]" "Some ''b''" 2] lim
  show ?thesis by simp
qed

subsection \<open>Following the pages\<close>

text \<open>Which rows a filter selects.\<close>

fun matches :: "Where \<Rightarrow> ApiRow \<Rightarrow> bool" where
  "matches (FieldIs f v) r \<longleftrightarrow> row_fields r f = Some v"
| "matches (LedgerGte n) r \<longleftrightarrow> n \<le> row_ledger r"
| "matches (WAnd ws) r \<longleftrightarrow> (\<forall>w \<in> set ws. matches w r)"
| "matches (WOr ws) r \<longleftrightarrow> (\<exists>w \<in> set ws. matches w r)"

definition selected :: "Where option \<Rightarrow> ApiRow \<Rightarrow> bool" where
  "selected w r \<longleftrightarrow> (case w of None \<Rightarrow> True | Some v \<Rightarrow> matches v r)"

text \<open>
  Whether \<open>orderBy\<close> allows one row to come before another, for a given order of the ids (the
  database's collation): rows that agree on every sort key may come in either order.
\<close>

fun mayPrecede :: "(string \<Rightarrow> string \<Rightarrow> bool) \<Rightarrow> (SortField \<times> SortDir) list \<Rightarrow> ApiRow \<Rightarrow> ApiRow \<Rightarrow> bool" where
  "mayPrecede idLe [] r r' = True"
| "mayPrecede idLe ((ByCreatedAt, d) # ks) r r' =
     (if createdAt r = createdAt r' then mayPrecede idLe ks r r'
      else case d of Asc \<Rightarrow> createdAt r < createdAt r' | Desc \<Rightarrow> createdAt r' < createdAt r)"
| "mayPrecede idLe ((ById, d) # ks) r r' =
     (if row_id r = row_id r' then mayPrecede idLe ks r r'
      else case d of Asc \<Rightarrow> idLe (row_id r) (row_id r') | Desc \<Rightarrow> idLe (row_id r') (row_id r))"

text \<open>A listing of the rows a query selects, in an order that its sort keys allow.\<close>

definition listingOf :: "(string \<Rightarrow> string \<Rightarrow> bool) \<Rightarrow> FindManyArgs \<Rightarrow> ApiRow list \<Rightarrow> ApiRow list \<Rightarrow> bool" where
  "listingOf idLe args rows l \<longleftrightarrow>
     distinct l \<and> set l = {r \<in> set rows. selected (where_filter args) r} \<and>
     sorted_wrt (mayPrecede idLe (order_by args)) l"

definition pageOf :: "FindManyArgs \<Rightarrow> ApiRow list \<Rightarrow> ApiRow list" where
  "pageOf args l = take (nat (take_rows args)) (drop (skip_rows args) l)"

text \<open>
  What Prisma documents of \<^verbatim>\<open>findMany\<close>. An answer is a page of some listing of the selected rows in an
  allowed order; the order of rows that the sort keys do not tell apart may differ from query to
  query. A cursor that names a selected row starts the page at that row. Ids are primary keys.
\<close>

locale prisma_table =
  fixes idLe :: "string \<Rightarrow> string \<Rightarrow> bool"
    and valid :: "'s \<Rightarrow> bool"
    and rowsOf :: "'s \<Rightarrow> ApiRow list"
    and findMany :: "'s find_many"
  assumes idLe_antisym: "idLe a b \<Longrightarrow> idLe b a \<Longrightarrow> a = b"
    and ids: "valid s \<Longrightarrow> distinct (map row_id (rowsOf s)) \<and> (\<forall>r \<in> set (rowsOf s). row_id r \<noteq> [])"
    and from_start: "valid s \<Longrightarrow> findMany args s = (Inr found, s') \<Longrightarrow> cursor_id args = None \<Longrightarrow>
      0 \<le> take_rows args \<Longrightarrow> s' = s \<and> (\<exists>l. listingOf idLe args (rowsOf s) l \<and> found = pageOf args l)"
    and from_cursor: "valid s \<Longrightarrow> findMany args s = (Inr found, s') \<Longrightarrow> cursor_id args = Some (row_id r) \<Longrightarrow>
      r \<in> set (rowsOf s) \<Longrightarrow> selected (where_filter args) r \<Longrightarrow> 0 \<le> take_rows args \<Longrightarrow>
      s' = s \<and> (\<exists>l. listingOf idLe args (rowsOf s) l \<and>
        found = pageOf args (dropWhile (\<lambda>x. row_id x \<noteq> row_id r) l))"

text \<open>A client that asks for a page and then, while a next cursor is returned, for the next one.\<close>

definition withCursor :: "string option \<Rightarrow> query \<Rightarrow> query" where
  "withCursor c q = q(''cursor'' := map_option QString c)"

fun collectPages :: "'s find_many \<Rightarrow> query \<Rightarrow> Where option \<Rightarrow> nat \<Rightarrow> string option \<Rightarrow> 's \<Rightarrow> ApiRow list" where
  "collectPages findMany q w 0 c s = []"
| "collectPages findMany q w (Suc k) c s =
     (case handlePaginatedList findMany (withCursor c q) w s of
        (Inr r, s') \<Rightarrow>
          (case http_body r of
             Page rows next \<Rightarrow>
               rows @ (case next of None \<Rightarrow> [] | Some c' \<Rightarrow> collectPages findMany q w k (Some c') s')
           | _ \<Rightarrow> [])
      | (Inl e, s') \<Rightarrow> [])"

lemma withCursor_simps [simp]:
  "parseLimit (withCursor c q) = parseLimit q"
  "(\<And>x. c = Some x \<Longrightarrow> x \<noteq> []) \<Longrightarrow> parseCursor (withCursor c q) = c"
  by (auto simp: withCursor_def parseLimit_def parseCursor_def nonEmptyParam_def split: option.splits)

text \<open>A list is determined by its elements and an order that is antisymmetric on them.\<close>

lemma sorted_wrt_unique:
  assumes "sorted_wrt R xs" "sorted_wrt R ys" "distinct xs" "distinct ys" "set xs = set ys"
    and anti: "\<And>x y. x \<in> set xs \<Longrightarrow> y \<in> set xs \<Longrightarrow> R x y \<Longrightarrow> R y x \<Longrightarrow> x = y"
  shows "xs = ys"
  using assms
proof (induction xs arbitrary: ys)
  case (Cons x xs)
  then obtain y zs where ys: "ys = y # zs" by (cases ys) auto
  have xy: "x = y"
  proof (rule ccontr)
    assume "x \<noteq> y"
    with Cons.prems(5) ys have "y \<in> set xs" "x \<in> set zs" by auto
    with Cons.prems(1,2) ys have "R x y" "R y x" by auto
    with Cons.prems(6) [of x y] \<open>y \<in> set xs\<close> \<open>x \<noteq> y\<close> show False by simp
  qed
  have "x \<notin> set xs" "y \<notin> set zs" "insert x (set xs) = insert y (set zs)"
    using Cons.prems(3-5) ys by simp_all
  with xy have "set xs = set zs" by (simp add: insert_ident)
  with Cons.IH [of zs] Cons.prems ys xy show ?case by auto
qed simp

lemma dropWhile_id:
  assumes "distinct (map row_id (xs @ r # ys))"
  shows "dropWhile (\<lambda>x. row_id x \<noteq> row_id r) (xs @ r # ys) = r # ys"
proof -
  have "\<forall>x \<in> set xs. row_id x \<noteq> row_id r" using assms by (auto simp: image_iff)
  then show ?thesis by (simp add: dropWhile_append2)
qed

text \<open>The query that a page with the given limit, cursor and filter asks.\<close>

abbreviation pageArgs :: "int \<Rightarrow> string option \<Rightarrow> Where option \<Rightarrow> FindManyArgs" where
  "pageArgs n c w \<equiv> \<lparr>take_rows = n + 1, skip_rows = (if c = None then 0 else 1), cursor_id = c,
     where_filter = w, order_by = [(ByCreatedAt, Desc), (ById, Desc)]\<rparr>"

context prisma_table
begin

text \<open>With the id as the last sort key there is only one listing, whatever the page.\<close>

lemma listing_unique:
  assumes v: "valid s" and "listingOf idLe (pageArgs n c w) (rowsOf s) l"
    and "listingOf idLe (pageArgs n' c' w) (rowsOf s) l'"
  shows "l = l'"
proof (rule sorted_wrt_unique)
  let ?R = "mayPrecede idLe [(ByCreatedAt, Desc), (ById, Desc)]"
  show "sorted_wrt ?R l" "sorted_wrt ?R l'" "distinct l" "distinct l'" "set l = set l'"
    using assms(2,3) by (auto simp: listingOf_def)
  fix x y
  assume "x \<in> set l" "y \<in> set l" and R: "?R x y" "?R y x"
  then have in_rows: "x \<in> set (rowsOf s)" "y \<in> set (rowsOf s)"
    using assms(2) by (auto simp: listingOf_def)
  have "row_id x = row_id y" using R idLe_antisym by (auto split: if_splits)
  then show "x = y" using ids [OF v] in_rows by (auto simp: distinct_map dest: inj_onD)
qed

lemma listing_ids:
  assumes v: "valid s" and l: "listingOf idLe (pageArgs n c w) (rowsOf s) l"
  shows "distinct (map row_id l)" and "\<forall>r \<in> set l. row_id r \<noteq> [] \<and> r \<in> set (rowsOf s) \<and> selected w r"
  using ids [OF v] l by (auto simp: listingOf_def distinct_map intro: inj_on_subset)

text \<open>One page, read behind the rows \<open>xs\<close> that were delivered before.\<close>

lemma page_after:
  assumes v: "valid s" and answers: "\<And>args. \<exists>found s'. findMany args s = (Inr found, s')"
    and lim: "parseLimit q = Some n" and l: "listingOf idLe (pageArgs n0 c0 w) (rowsOf s) (xs @ ys)"
    and c: "c = (if xs = [] then None else Some (row_id (last xs)))"
  shows "handlePaginatedList findMany (withCursor c q) w s =
    (Inr (respond 200 (Page (take (nat n) ys)
       (if length ys > nat n then Some (row_id (last (take (nat n) ys))) else None))), s)"
proof -
  have n: "1 \<le> n" using parseLimit_range [OF lim] by simp
  have pc: "parseCursor (withCursor c q) = c"
    using c listing_ids(2) [OF v l] by (intro withCursor_simps) (auto split: if_splits)
  obtain found s' where f: "findMany (pageArgs n c w) s = (Inr found, s')" using answers by blast
  have "s' = s \<and> found = take (nat (n + 1)) ys"
  proof (cases "xs = []")
    case True
    then obtain l' where "s' = s" and l': "listingOf idLe (pageArgs n c w) (rowsOf s) l'"
        "found = pageOf (pageArgs n c w) l'"
      using from_start [OF v f] c n by auto
    with listing_unique [OF v l l'(1)] True c show ?thesis by (simp add: pageOf_def)
  next
    case False
    let ?r = "last xs"
    have r: "?r \<in> set (rowsOf s)" "selected w ?r" using listing_ids(2) [OF v l] False by simp_all
    obtain l' where "s' = s" and l': "listingOf idLe (pageArgs n c w) (rowsOf s) l'"
        "found = pageOf (pageArgs n c w) (dropWhile (\<lambda>x. row_id x \<noteq> row_id ?r) l')"
      using from_cursor [OF v f, of ?r] r c n False by auto
    have "xs @ ys = butlast xs @ ?r # ys" using False append_butlast_last_id [of xs] by simp
    then have "l' = butlast xs @ ?r # ys" using listing_unique [OF v l l'(1)] by simp
    with l'(2) dropWhile_id [of "butlast xs" ?r ys] listing_ids(1) [OF v l'(1)] \<open>s' = s\<close> False c
    show ?thesis by (simp add: pageOf_def)
  qed
  with f have "findMany (pageArgs n c w) s = (Inr (take (nat (n + 1)) ys), s)" by simp
  moreover have "take (nat n) (take (nat (n + 1)) ys) = take (nat n) ys" by (simp add: min_def)
  moreover have "int (length (take (nat (n + 1)) ys)) > n \<longleftrightarrow> length ys > nat n" using n by auto
  ultimately show ?thesis
    using handlePaginatedList_ok [of "withCursor c q" n findMany w s "take (nat (n + 1)) ys" s] lim pc
    by simp
qed

lemma collect_rest:
  assumes v: "valid s" and answers: "\<And>args. \<exists>found s'. findMany args s = (Inr found, s')"
    and lim: "parseLimit q = Some n"
  shows "listingOf idLe (pageArgs n0 c0 w) (rowsOf s) (xs @ ys) \<Longrightarrow>
    c = (if xs = [] then None else Some (row_id (last xs))) \<Longrightarrow>
    length ys < k \<Longrightarrow> collectPages findMany q w k c s = ys"
proof (induction k arbitrary: xs ys c)
  case (Suc k)
  have n: "1 \<le> n" using parseLimit_range [OF lim] by simp
  note page = page_after [OF v answers lim Suc.prems(1,2)]
  show ?case
  proof (cases "length ys > nat n")
    case True
    have l: "listingOf idLe (pageArgs n0 c0 w) (rowsOf s) ((xs @ take (nat n) ys) @ drop (nat n) ys)"
      using Suc.prems(1) by simp
    have ne: "take (nat n) ys \<noteq> []" using True n by auto
    have "collectPages findMany q w k (Some (row_id (last (take (nat n) ys)))) s = drop (nat n) ys"
      by (rule Suc.IH [OF l]) (use ne Suc.prems(3) n True in auto)
    with True show ?thesis by (simp add: page)
  qed (simp add: page)
qed simp

lemma collect_all:
  assumes v: "valid s" and answers: "\<And>args. \<exists>found s'. findMany args s = (Inr found, s')"
    and lim: "parseLimit q = Some n" and k: "length (rowsOf s) < k"
  shows "\<exists>l. listingOf idLe (pageArgs n None w) (rowsOf s) l \<and> collectPages findMany q w k None s = l"
proof -
  obtain l where l: "listingOf idLe (pageArgs n None w) (rowsOf s) l"
    using answers [of "pageArgs n None w"] from_start [OF v, of "pageArgs n None w"] parseLimit_range [OF lim]
    by fastforce
  then have "distinct l" by (simp add: listingOf_def)
  then have "length l = card (set l)" by (simp add: distinct_card)
  also have "\<dots> \<le> card (set (rowsOf s))" using l by (intro card_mono) (auto simp: listingOf_def)
  also have "\<dots> \<le> length (rowsOf s)" by (rule card_length)
  finally have "length l < k" using k by simp
  with collect_rest [OF v answers lim, of n None w "[]" l None k] l show ?thesis by auto
qed

end

subsection \<open>A table\<close>

text \<open>
  A table in memory that obeys the laws: insertion sort by the sort keys, with the
  lexicographic order of ids.
\<close>

fun insertRow :: "(SortField \<times> SortDir) list \<Rightarrow> ApiRow \<Rightarrow> ApiRow list \<Rightarrow> ApiRow list" where
  "insertRow ks r [] = [r]"
| "insertRow ks r (x # xs) = (if mayPrecede (\<le>) ks r x then r # x # xs else x # insertRow ks r xs)"

definition tableListing :: "FindManyArgs \<Rightarrow> ApiRow list \<Rightarrow> ApiRow list" where
  "tableListing args rows =
     foldr (insertRow (order_by args)) (filter (selected (where_filter args)) rows) []"

definition tableFindMany :: "ApiRow list find_many" where
  "tableFindMany args rows =
     (let l = tableListing args rows in
      (Inr (pageOf args (case cursor_id args of
          None \<Rightarrow> l
        | Some c \<Rightarrow> dropWhile (\<lambda>r. row_id r \<noteq> c) l)), rows))"

definition validTable :: "ApiRow list \<Rightarrow> bool" where
  "validTable rows \<longleftrightarrow> distinct (map row_id rows) \<and> (\<forall>r \<in> set rows. row_id r \<noteq> [])"

lemma mayPrecede_total: "mayPrecede (\<le>) ks r r' \<or> mayPrecede (\<le>) ks r' r"
  by (induction "(\<le>) :: string \<Rightarrow> string \<Rightarrow> bool" ks r r' rule: mayPrecede.induct)
     (auto split: SortDir.splits)

lemma mayPrecede_trans:
  "mayPrecede (\<le>) ks r r' \<Longrightarrow> mayPrecede (\<le>) ks r' r'' \<Longrightarrow> mayPrecede (\<le>) ks r r''"
proof (induction ks)
  case (Cons k ks)
  obtain f d where k: "k = (f, d)" by force
  from Cons show ?case unfolding k
    by (cases f; cases d) (auto split: if_splits intro: order.trans)
qed simp

lemma set_insertRow [simp]: "set (insertRow ks r xs) = insert r (set xs)"
  by (induction xs) auto

lemma distinct_insertRow [simp]: "distinct (insertRow ks r xs) \<longleftrightarrow> r \<notin> set xs \<and> distinct xs"
  by (induction xs) auto

lemma sorted_insertRow:
  "sorted_wrt (mayPrecede (\<le>) ks) xs \<Longrightarrow> sorted_wrt (mayPrecede (\<le>) ks) (insertRow ks r xs)"
proof (induction xs)
  case (Cons x xs)
  then show ?case
    using mayPrecede_total [of ks r x] mayPrecede_trans [of ks r x]
    by (cases "mayPrecede (\<le>) ks r x") auto
qed simp

lemma foldr_insertRow:
  "set (foldr (insertRow ks) rows []) = set rows"
  "distinct (foldr (insertRow ks) rows []) \<longleftrightarrow> distinct rows"
  "sorted_wrt (mayPrecede (\<le>) ks) (foldr (insertRow ks) rows [])"
  by (induction rows) (auto simp: sorted_insertRow)

lemma tableListing_ok: "validTable rows \<Longrightarrow> listingOf (\<le>) args rows (tableListing args rows)"
  by (auto simp: listingOf_def tableListing_def foldr_insertRow validTable_def distinct_map)

interpretation table: prisma_table "(\<le>)" validTable "\<lambda>rows. rows" tableFindMany
proof
  show "validTable s \<Longrightarrow> distinct (map row_id s) \<and> (\<forall>r \<in> set s. row_id r \<noteq> [])" for s
    by (simp add: validTable_def)
qed (auto simp: tableFindMany_def Let_def intro: tableListing_ok)

text \<open>
  C34. Take any database client with the documented laws of \<^verbatim>\<open>findMany\<close>, on a table that does not
  change and whose queries do not fail. A client of the API that follows the next cursor from page
  to page, with any valid limit and any filter, gets every matching row exactly once, newest first
  and by descending id among rows of the same time, and is done after finitely many pages.
\<close>

theorem pagination_complete:
  assumes "prisma_table idLe valid rowsOf findMany" and "valid s"
    and "\<forall>args. \<exists>found s'. findMany args s = (Inr found, s')"
    and "parseLimit q = Some n" and "length (rowsOf s) < k"
  shows "set (collectPages findMany q w k None s) = {r \<in> set (rowsOf s). selected w r} \<and>
     distinct (map row_id (collectPages findMany q w k None s)) \<and>
     sorted_wrt (\<lambda>r r'. createdAt r' < createdAt r \<or>
         createdAt r' = createdAt r \<and> row_id r' \<noteq> row_id r \<and> idLe (row_id r') (row_id r))
       (collectPages findMany q w k None s)"
proof -
  have "\<exists>found s'. findMany args s = (Inr found, s')" for args using assms(3) by blast
  from prisma_table.collect_all [OF assms(1,2) this assms(4,5)]
  have l: "listingOf idLe (pageArgs n None w) (rowsOf s) (collectPages findMany q w k None s)" by blast
  note ids = prisma_table.listing_ids(1) [OF assms(1,2) l]
  have "sorted_wrt (\<lambda>r r'. createdAt r' < createdAt r \<or>
         createdAt r' = createdAt r \<and> row_id r' \<noteq> row_id r \<and> idLe (row_id r') (row_id r))
       (collectPages findMany q w k None s)"
    unfolding sorted_wrt_iff_nth_less
  proof (intro allI impI)
    fix i j
    assume ij: "i < j" "j < length (collectPages findMany q w k None s)"
    let ?r = "collectPages findMany q w k None s ! i" and ?r' = "collectPages findMany q w k None s ! j"
    have "mayPrecede idLe [(ByCreatedAt, Desc), (ById, Desc)] ?r ?r'"
      using l ij by (intro sorted_wrt_nth_less) (simp_all add: listingOf_def del: mayPrecede.simps)
    moreover have "row_id ?r' \<noteq> row_id ?r"
      using nth_eq_iff_index_eq [OF ids, of i j] ij by auto
    ultimately show "createdAt ?r' < createdAt ?r \<or>
        createdAt ?r' = createdAt ?r \<and> row_id ?r' \<noteq> row_id ?r \<and> idLe (row_id ?r') (row_id ?r)"
      by (cases "createdAt ?r = createdAt ?r'") simp_all
  qed
  with l ids show ?thesis by (simp add: listingOf_def)
qed

theorem pagination_complete_witness:
  "set (collectPages tableFindMany [''limit'' \<mapsto> QString ''1''] None 4 None
       [sampleRow ''a'' 1, sampleRow ''c'' 3, sampleRow ''b'' 3]) =
     set [sampleRow ''a'' 1, sampleRow ''c'' 3, sampleRow ''b'' 3] \<and>
   distinct (map row_id (collectPages tableFindMany [''limit'' \<mapsto> QString ''1''] None 4 None
       [sampleRow ''a'' 1, sampleRow ''c'' 3, sampleRow ''b'' 3]))"
proof -
  let ?rows = "[sampleRow ''a'' 1, sampleRow ''c'' 3, sampleRow ''b'' 3]"
  have "''1'' = show_int 1" by code_simp
  then have lim: "parseLimit [''limit'' \<mapsto> QString ''1''] = Some 1" by (simp add: parseLimit_decimal)
  have v: "validTable ?rows" by (simp add: validTable_def sampleRow_def)
  have a: "\<forall>args. \<exists>found s'. tableFindMany args ?rows = (Inr found, s')"
    by (simp add: tableFindMany_def Let_def)
  have k: "length ?rows < 4" by simp
  have "{r \<in> set ?rows. selected None r} = set ?rows" by (auto simp: selected_def)
  with pagination_complete [OF table.prisma_table_axioms v a lim k, of None] show ?thesis by simp
qed

subsection \<open>What the routes filter by\<close>

text \<open>The columns an address filter of a route applies to.\<close>

fun addressColumns :: "ListPath \<Rightarrow> string list" where
  "addressColumns Mints = [''to'']"
| "addressColumns Transfers = [''from'', ''to'']"
| "addressColumns Burns = [''from'']"
| "addressColumns VaultDeposits = [''caller'']"
| "addressColumns WrapperUpdates = [''caller'']"
| "addressColumns VestingClaims = [''beneficiary'']"
| "addressColumns SplitDistributions = [''recipient'']"
| "addressColumns Holders = [''address'']"
| "addressColumns SupplyHistory = []"

lemma selected_combine: "selected (combine ws) r \<longleftrightarrow> (\<forall>w \<in> set ws. matches w r)"
  by (cases ws rule: list.exhaust; cases "tl ws") (auto simp: combine_def selected_def)

text \<open>
  The filter of every list route selects exactly the rows of which one of the route's address
  columns holds the requested address, if an address is given, and whose ledger is at least
  the requested one, if a ledger is given; the supply history has no address filter.
\<close>

theorem route_filters_select:
  "selected (routeFilter p address fromLedger) r \<longleftrightarrow>
     (p = SupplyHistory \<or> (case address of None \<Rightarrow> True
        | Some a \<Rightarrow> \<exists>col \<in> set (addressColumns p). row_fields r col = Some a)) \<and>
     (case fromLedger of None \<Rightarrow> True | Some n \<Rightarrow> n \<le> row_ledger r)"
proof (cases p)
  case SupplyHistory
  then show ?thesis
    by (cases fromLedger) (simp_all add: buildSupplyPointWhere_def selected_def)
qed (cases address; cases fromLedger; simp add: buildMintWhere_def buildTransferWhere_def buildBurnWhere_def
    buildAddressFieldWhere_def buildHolderWhere_def ledgerCondition_def selected_combine)+

subsection \<open>Webhooks\<close>

text \<open>
  An event is posted to every registered webhook, once when the first request succeeds and
  exactly twice otherwise; a delivery succeeds when one of its two requests does, and depends
  on no other target.
\<close>

theorem webhook_delivery:
  assumes "findWebhooks store s = (Inr targets, s')"
  shows "\<exists>ds. deliverIndexerEventToWebhooks store fetch s = (Inr ds, s') \<and> map del_target ds = targets \<and>
     (\<forall>d \<in> set ds. del_attempts d = (if fetch (del_target d) 1 = HttpOk then 1 else 2) \<and>
        (del_ok d \<longleftrightarrow> fetch (del_target d) 1 = HttpOk \<or> fetch (del_target d) 2 = HttpOk))"
proof -
  have one: "del_target (deliverWebhook fetch t) = t"
    "del_attempts (deliverWebhook fetch t) = (if fetch t 1 = HttpOk then 1 else 2)"
    "del_ok (deliverWebhook fetch t) \<longleftrightarrow> fetch t 1 = HttpOk \<or> fetch t 2 = HttpOk" for t
    by (simp_all add: deliverWebhook_def numeral_2_eq_2)
  have "deliverIndexerEventToWebhooks store fetch s = (Inr (map (deliverWebhook fetch) targets), s')"
    using assms by (simp add: deliverIndexerEventToWebhooks_def andThen_def)
  moreover have "map del_target (map (deliverWebhook fetch) targets) = targets"
    by (induction targets) (simp_all add: one)
  ultimately show ?thesis by (intro exI [of _ "map (deliverWebhook fetch) targets"]) (simp add: one)
qed

theorem webhook_delivery_witness:
  "\<exists>ds. deliverIndexerEventToWebhooks
      \<lparr>upsertWebhook = \<lambda>u. throw TypeError, deleteWebhook = \<lambda>i. throw TypeError,
       findWebhooks = ret [\<lparr>hook_id = ''1'', hook_url = ''u1''\<rparr>, \<lparr>hook_id = ''2'', hook_url = ''u2''\<rparr>]\<rparr>
      (\<lambda>t n. if hook_id t = ''2'' then HttpOk else HttpStatus 500) () = (Inr ds, ()) \<and>
     map del_target ds = [\<lparr>hook_id = ''1'', hook_url = ''u1''\<rparr>, \<lparr>hook_id = ''2'', hook_url = ''u2''\<rparr>]"
  using webhook_delivery [of "\<lparr>upsertWebhook = \<lambda>u. throw TypeError, deleteWebhook = \<lambda>i. throw TypeError,
       findWebhooks = ret [\<lparr>hook_id = ''1'', hook_url = ''u1''\<rparr>, \<lparr>hook_id = ''2'', hook_url = ''u2''\<rparr>]\<rparr>" "()"
      "[\<lparr>hook_id = ''1'', hook_url = ''u1''\<rparr>, \<lparr>hook_id = ''2'', hook_url = ''u2''\<rparr>]" "()"
      "\<lambda>t n. if hook_id t = ''2'' then HttpOk else HttpStatus 500"]
  by auto

end
