(* ===== verification/Multisig.thy ===== *)
theory Multisig
  imports Sdk_Types
begin

text \<open>
  The admin multisig ceremony of the command line, \<^verbatim>\<open>src/cli/src/utils/multisig.ts\<close>: propose,
  approve and execute an upgrade with a pre-signed envelope, offline, or with a secret key. The
  SDK client, the file system and \<^verbatim>\<open>Keypair.fromSecret\<close> are injected: they are the operations of
  the record \<open>MultisigEnv\<close>, effects on a state that stands for the network and the files.
\<close>

datatype MultisigAction = Propose | Approve | Execute

text \<open>A keypair is the secret it was made from.\<close>

record 's MultisigEnv =
  createProposal :: "string \<Rightarrow> string \<Rightarrow> string \<Rightarrow> (js_error, 's, TransactionResult) act"
  approveProposal :: "string \<Rightarrow> int \<Rightarrow> string \<Rightarrow> (js_error, 's, TransactionResult) act"
  executeUpgrade :: "string \<Rightarrow> int \<Rightarrow> string \<Rightarrow> string \<Rightarrow> (js_error, 's, TransactionResult) act"
  buildCreateProposalTx :: "string \<Rightarrow> string \<Rightarrow> string \<Rightarrow> (js_error, 's, string) act"
  buildApproveProposalTx :: "string \<Rightarrow> int \<Rightarrow> string \<Rightarrow> (js_error, 's, string) act"
  buildExecuteUpgradeTx :: "string \<Rightarrow> int \<Rightarrow> string \<Rightarrow> string \<Rightarrow> (js_error, 's, string) act"
  submitSignedTransaction :: "string \<Rightarrow> (js_error, 's, TransactionResult) act"
  executeSigned :: "string \<Rightarrow> (js_error, 's, TransactionResult) act"
  readFile :: "string \<Rightarrow> (js_error, 's, string) act"
  writeFile :: "string \<Rightarrow> string \<Rightarrow> (js_error, 's, unit) act"
  keypairFromSecret :: "string \<Rightarrow> js_error + string"

record MultisigRunOptions =
  action :: MultisigAction
  description :: "string option"
  proposalId :: "string option"
  wasmHash :: "string option"
  offline :: bool
  outFile :: "string option"
  signatureFile :: "string option"
  publicKey :: "string option"
  secretKey :: "string option"

record MultisigRunResult =
  ran :: MultisigAction
  submitted :: bool
  run_proposalId :: "int option"
  run_hash :: "string option"
  run_xdr :: "string option"

subsection \<open>Arguments\<close>

definition trimmed :: "string option \<Rightarrow> string" where
  "trimmed raw = (case raw of None \<Rightarrow> '''' | Some t \<Rightarrow> js_trim t)"

definition requireDescription :: "string option \<Rightarrow> js_error + string" where
  "requireDescription d =
     (let text = trimmed d
      in if text = [] then Inl (JsError ''--description <text> is required to propose'') else Inr text)"

text \<open>\<^verbatim>\<open>/^(0|[1-9]\d*)$/\<close>.\<close>

definition canonicalDecimal :: "string \<Rightarrow> bool" where
  "canonicalDecimal t \<longleftrightarrow> t = ''0'' \<or> (t \<noteq> [] \<and> hd t \<noteq> CHR ''0'' \<and> (\<forall>c \<in> set t. isDigit c))"

definition bigintOf :: "string \<Rightarrow> js_error + int" where
  "bigintOf t = (case BigInt t of None \<Rightarrow> Inl SyntaxError | Some n \<Rightarrow> Inr n)"

definition requireProposalId :: "string option \<Rightarrow> js_error + int" where
  "requireProposalId raw =
     (let text = trimmed raw
      in if \<not> canonicalDecimal text
         then Inl (JsError ''--proposal-id <id> is required and must be a non-negative integer'')
         else bigintOf text)"

definition isHexLower :: "char \<Rightarrow> bool" where
  "isHexLower c \<longleftrightarrow> c \<in> set ''0123456789abcdef''"

definition requireWasmHash :: "string option \<Rightarrow> js_error + string" where
  "requireWasmHash raw =
     (let t = map lower (trimmed raw); hex = (if take 2 t = ''0x'' then drop 2 t else t)
      in if \<not> (length hex = 64 \<and> (\<forall>c \<in> set hex. isHexLower c))
         then Inl (JsError ''--wasm-hash <hex> must be 32 bytes (64 hex characters)'')
         else Inr hex)"

definition readProposalId :: "TransactionResult \<Rightarrow> js_error + int" where
  "readProposalId result =
     (case returnValue result of
        NBig n \<Rightarrow> Inr n
      | NNum n \<Rightarrow> if n \<ge> 0 then Inr n
                  else Inl (JsError ''create_proposal succeeded but did not return a proposal id'')
      | NStr t \<Rightarrow> if canonicalDecimal t then bigintOf t
                  else Inl (JsError ''create_proposal succeeded but did not return a proposal id'')
      | _ \<Rightarrow> Inl (JsError ''create_proposal succeeded but did not return a proposal id''))"

definition assertSuccess :: "TransactionResult \<Rightarrow> string \<Rightarrow> js_error + unit" where
  "assertSuccess result label =
     (if \<not> success result then Inl (JsError (label @ '' failed (tx '' @ tx_hash result @ '')''))
      else Inr ())"

subsection \<open>The command\<close>

definition buildUnsigned :: "'s MultisigEnv \<Rightarrow> MultisigRunOptions \<Rightarrow> string \<Rightarrow> (js_error, 's, string) act" where
  "buildUnsigned env opts pk =
     (case action opts of
        Propose \<Rightarrow> andThen (fromSum (requireDescription (description opts)))
          (\<lambda>d. buildCreateProposalTx env pk d pk)
      | Approve \<Rightarrow> andThen (fromSum (requireProposalId (proposalId opts)))
          (\<lambda>i. buildApproveProposalTx env pk i pk)
      | Execute \<Rightarrow> andThen (fromSum (requireProposalId (proposalId opts))) (\<lambda>i.
          andThen (fromSum (requireWasmHash (wasmHash opts))) (\<lambda>h.
          buildExecuteUpgradeTx env pk i h pk)))"

definition actionLabel :: "MultisigAction \<Rightarrow> string" where
  "actionLabel a = (case a of Propose \<Rightarrow> ''create_proposal'' | Approve \<Rightarrow> ''approve_proposal''
     | Execute \<Rightarrow> ''execute_upgrade'')"

definition submittedResult :: "MultisigAction \<Rightarrow> TransactionResult \<Rightarrow> int option \<Rightarrow> MultisigRunResult" where
  "submittedResult a result i = \<lparr>ran = a, submitted = True, run_proposalId = i,
     run_hash = Some (tx_hash result), run_xdr = None\<rparr>"

definition runSigned :: "'s MultisigEnv \<Rightarrow> MultisigRunOptions \<Rightarrow> string \<Rightarrow> (js_error, 's, MultisigRunResult) act" where
  "runSigned env opts file =
     andThen (readFile env file) (\<lambda>contents.
       let signedXdr = js_trim contents in
       if signedXdr = [] then throw (JsError (''Signature file '' @ file @ '' is empty''))
       else if action opts = Execute then
         andThen (executeSigned env signedXdr) (\<lambda>result.
         andThen (fromSum (assertSuccess result ''execute_upgrade'')) (\<lambda>_.
         ret (submittedResult Execute result None)))
       else
         andThen (submitSignedTransaction env signedXdr) (\<lambda>result.
         andThen (fromSum (assertSuccess result (actionLabel (action opts)))) (\<lambda>_.
         if action opts = Propose
         then andThen (fromSum (readProposalId result)) (\<lambda>i. ret (submittedResult Propose result (Some i)))
         else ret (submittedResult (action opts) result None))))"

definition runOffline :: "'s MultisigEnv \<Rightarrow> MultisigRunOptions \<Rightarrow> (js_error, 's, MultisigRunResult) act" where
  "runOffline env opts =
     (if \<not> truthy (publicKey opts) then throw (JsError ''--public-key is required with --offline'')
      else if \<not> truthy (outFile opts) then throw (JsError ''--out <file> is required with --offline'')
      else andThen (buildUnsigned env opts (the (publicKey opts))) (\<lambda>xdr.
           andThen (writeFile env (the (outFile opts)) xdr) (\<lambda>_.
           ret \<lparr>ran = action opts, submitted = False, run_proposalId = None, run_hash = None,
                run_xdr = Some xdr\<rparr>)))"

definition runHot :: "'s MultisigEnv \<Rightarrow> MultisigRunOptions \<Rightarrow> (js_error, 's, MultisigRunResult) act" where
  "runHot env opts =
     (if \<not> truthy (secretKey opts)
      then throw (JsError ''No signing source: pass --signature-file <signed.xdr>, --offline, or --source <secret>.'')
      else let source = the (secretKey opts) in
        andThen (fromSum (keypairFromSecret env source)) (\<lambda>signer.
        case action opts of
          Propose \<Rightarrow>
            andThen (fromSum (requireDescription (description opts))) (\<lambda>d.
            andThen (createProposal env signer d source) (\<lambda>result.
            andThen (fromSum (assertSuccess result ''create_proposal'')) (\<lambda>_.
            andThen (fromSum (readProposalId result)) (\<lambda>i.
            ret (submittedResult Propose result (Some i))))))
        | Approve \<Rightarrow>
            andThen (fromSum (requireProposalId (proposalId opts))) (\<lambda>i.
            andThen (approveProposal env signer i source) (\<lambda>result.
            andThen (fromSum (assertSuccess result ''approve_proposal'')) (\<lambda>_.
            ret (submittedResult Approve result (Some i)))))
        | Execute \<Rightarrow>
            andThen (fromSum (requireProposalId (proposalId opts))) (\<lambda>i.
            andThen (fromSum (requireWasmHash (wasmHash opts))) (\<lambda>h.
            andThen (executeUpgrade env signer i h source) (\<lambda>result.
            andThen (fromSum (assertSuccess result ''execute_upgrade'')) (\<lambda>_.
            ret (submittedResult Execute result (Some i))))))))"

definition runMultisigCommand :: "'s MultisigEnv \<Rightarrow> MultisigRunOptions \<Rightarrow> (js_error, 's, MultisigRunResult) act" where
  "runMultisigCommand env opts =
     (if offline opts \<and> truthy (signatureFile opts)
      then throw (JsError ''Pass either --offline or --signature-file, not both.'')
      else if truthy (signatureFile opts) then runSigned env opts (the (signatureFile opts))
      else if offline opts then runOffline env opts
      else runHot env opts)"

subsection \<open>Proposal ids\<close>

lemma show_nat_hd: "0 < n \<Longrightarrow> hd (show_nat n) \<noteq> CHR ''0''"
proof (induction n rule: show_nat.induct)
  case (1 n)
  show ?case
  proof (cases "n < 10")
    case True
    with 1(2) show ?thesis
      by (subst show_nat.simps) (use nat_less_10_cases [OF True] in \<open>auto simp: digit_char_def\<close>)
  next
    case False
    then have "show_nat n = show_nat (n div 10) @ [digit_char (n mod 10)]" by (subst show_nat.simps) simp
    moreover have "hd (show_nat (n div 10)) \<noteq> CHR ''0''" using 1(1) [OF False] False by simp
    ultimately show ?thesis by simp
  qed
qed

lemma digit_char_of_isDigit:
  assumes "isDigit c"
  shows "\<exists>d < 10. c = digit_char d \<and> digit_val c = Some d"
proof -
  from assms obtain d where "d < length ''0123456789''" "c = ''0123456789'' ! d"
    unfolding isDigit_def in_set_conv_nth by blast
  then have "d < 10" "c = digit_char d" by (simp_all add: digit_char_def)
  then show ?thesis using digit_val_digit_char by blast
qed

text \<open>A digit string without a leading zero is the rendering of its value.\<close>

lemma canonical_digits:
  assumes "t \<noteq> []" and "hd t \<noteq> CHR ''0''" and "\<forall>c \<in> set t. isDigit c"
  shows "\<exists>n > 0. radix_acc 10 0 t = Some n \<and> show_nat n = t"
  using assms
proof (induction t rule: rev_induct)
  case (snoc c t)
  obtain d where d: "d < 10" "c = digit_char d" "digit_val c = Some d"
    using snoc.prems(3) digit_char_of_isDigit by auto
  show ?case
  proof (cases "t = []")
    case True
    have "d \<noteq> 0"
    proof
      assume "d = 0"
      with d True snoc.prems(2) show False by (simp add: digit_char_def)
    qed
    with True d show ?thesis by (intro exI [of _ d]) (simp add: show_nat.simps)
  next
    case False
    with snoc obtain n where n: "0 < n" "radix_acc 10 0 t = Some n" "show_nat n = t" by auto
    have "show_nat (n * 10 + d) = show_nat ((n * 10 + d) div 10) @ [digit_char ((n * 10 + d) mod 10)]"
      using n(1) by (subst show_nat.simps) simp
    with n d show ?thesis by (intro exI [of _ "n * 10 + d"]) (simp add: radix_acc_append)
  qed
qed simp

lemma canonicalDecimal_iff: "canonicalDecimal t \<longleftrightarrow> (\<exists>n. t = show_nat n)"
proof
  assume c: "canonicalDecimal t"
  show "\<exists>n. t = show_nat n"
  proof (cases "t = ''0''")
    case True
    then have "t = show_nat 0" by (simp add: show_nat.simps digit_char_def)
    then show ?thesis ..
  next
    case False
    with c canonical_digits [of t] show ?thesis by (auto simp: canonicalDecimal_def)
  qed
next
  assume "\<exists>n. t = show_nat n"
  then obtain n where t: "t = show_nat n" ..
  show "canonicalDecimal t"
  proof (cases "n = 0")
    case True
    then show ?thesis by (simp add: t canonicalDecimal_def show_nat.simps digit_char_def)
  next
    case False
    have "\<forall>c \<in> set (show_nat n). isDigit c" unfolding isDigit_def using set_show_nat [of n] by blast
    with False show_nat_hd [of n] show ?thesis by (simp add: t canonicalDecimal_def)
  qed
qed

text \<open>
  A proposal id on the command line is accepted exactly when it is, up to surrounding white
  space, the decimal rendering of a non-negative integer, and then stands for that integer; so an
  approval or execution never concerns another proposal than the one typed, and no other text
  (signs, leading zeros, hexadecimal) is read as an id.
\<close>

theorem requireProposalId_exact:
  "requireProposalId raw = Inr n \<longleftrightarrow> (\<exists>text. raw = Some text \<and> js_trim text = show_int n) \<and> 0 \<le> n"
proof -
  have nn: "show_int n = show_nat (nat n)" if "0 \<le> n" for n using that by (simp add: show_int_def)
  have "requireProposalId raw = Inr n \<longleftrightarrow> (\<exists>k. trimmed raw = show_nat k \<and> n = int k)"
  proof (cases "canonicalDecimal (trimmed raw)")
    case True
    then obtain k where k: "trimmed raw = show_nat k" by (auto simp: canonicalDecimal_iff)
    have "BigInt (show_nat k) = Some (int k)" using BigInt_show_int [of "int k"] nn [of "int k"] by simp
    then have "requireProposalId raw = Inr (int k)"
      using True by (simp add: requireProposalId_def bigintOf_def k)
    then show ?thesis using k by (metis parse_radix_show_nat option.inject sum.inject(2))
  next
    case False
    then show ?thesis by (auto simp: requireProposalId_def canonicalDecimal_iff)
  qed
  also have "\<dots> \<longleftrightarrow> (\<exists>text. raw = Some text \<and> js_trim text = show_int n) \<and> 0 \<le> n"
  proof (cases raw)
    case None
    have "[] \<noteq> show_nat k" for k using show_nat_not_Nil [of k] by metis
    then show ?thesis by (simp add: None trimmed_def)
  next
    case (Some t)
    then show ?thesis by (auto simp: trimmed_def nn intro: exI [of _ "nat n"])
  qed
  finally show ?thesis .
qed

subsection \<open>What a run submits\<close>

text \<open>A counter of submissions: the submitting operations raise it by one, the others leave it.\<close>

definition countsSubmissions :: "('s \<Rightarrow> nat) \<Rightarrow> 's MultisigEnv \<Rightarrow> bool" where
  "countsSubmissions c env \<longleftrightarrow>
     (\<forall>a d k s. c (snd (createProposal env a d k s)) = Suc (c s)) \<and>
     (\<forall>a i k s. c (snd (approveProposal env a i k s)) = Suc (c s)) \<and>
     (\<forall>a i h k s. c (snd (executeUpgrade env a i h k s)) = Suc (c s)) \<and>
     (\<forall>x s. c (snd (submitSignedTransaction env x s)) = Suc (c s)) \<and>
     (\<forall>x s. c (snd (executeSigned env x s)) = Suc (c s)) \<and>
     (\<forall>a d p s. c (snd (buildCreateProposalTx env a d p s)) = c s) \<and>
     (\<forall>a i p s. c (snd (buildApproveProposalTx env a i p s)) = c s) \<and>
     (\<forall>a i h p s. c (snd (buildExecuteUpgradeTx env a i h p s)) = c s) \<and>
     (\<forall>f s. c (snd (readFile env f s)) = c s) \<and> (\<forall>f x s. c (snd (writeFile env f x s)) = c s)"

text \<open>
  An effect that raises the counter by \<open>k\<close> when it returns, and by at most \<open>k\<close> when it throws.
\<close>

definition tally :: "('s \<Rightarrow> nat) \<Rightarrow> nat \<Rightarrow> (js_error, 's, 'a) act \<Rightarrow> bool" where
  "tally c k f \<longleftrightarrow> (\<forall>s. case f s of
     (Inl e, s') \<Rightarrow> c s \<le> c s' \<and> c s' \<le> c s + k
   | (Inr x, s') \<Rightarrow> c s' = c s + k)"

lemma tally_throw [intro]: "tally c k (throw e)"
  by (simp add: tally_def)

lemma tally_ret [intro]: "tally c 0 (ret x)" "tally c 0 (fromSum r)"
  by (auto simp: tally_def fromSum_def split: sum.splits)

lemma tally_exact:
  assumes "\<And>s. c (snd (f s)) = c s + k"
  shows "tally c k f"
proof -
  have "case f s of (Inl e, s') \<Rightarrow> c s \<le> c s' \<and> c s' \<le> c s + k | (Inr x, s') \<Rightarrow> c s' = c s + k" for s
    using assms [of s] by (cases "f s") (simp split: sum.splits)
  then show ?thesis by (simp add: tally_def)
qed

lemma tally_andThen:
  assumes f: "tally c k f" and g: "\<And>x. tally c m (g x)"
  shows "tally c (k + m) (andThen f g)"
  unfolding tally_def
proof
  fix s
  obtain q s' where q: "f s = (q, s')" by force
  have 1: "case q of Inl e \<Rightarrow> c s \<le> c s' \<and> c s' \<le> c s + k | Inr x \<Rightarrow> c s' = c s + k"
    using f [unfolded tally_def, rule_format, of s] by (simp add: q split: sum.splits)
  show "case andThen f g s of (Inl e, s') \<Rightarrow> c s \<le> c s' \<and> c s' \<le> c s + (k + m)
      | (Inr x, s') \<Rightarrow> c s' = c s + (k + m)"
  proof (cases q)
    case (Inr x)
    obtain u s'' where u: "g x s' = (u, s'')" by force
    have "case u of Inl e \<Rightarrow> c s' \<le> c s'' \<and> c s'' \<le> c s' + m | Inr x \<Rightarrow> c s'' = c s' + m"
      using g [of x, unfolded tally_def, rule_format, of s'] by (simp add: u split: sum.splits)
    with 1 Inr q u show ?thesis by (auto simp: andThen_def split: sum.splits)
  qed (use 1 q in \<open>simp add: andThen_def\<close>)
qed

lemma tally_andThen0: "tally c 0 f \<Longrightarrow> (\<And>x. tally c k (g x)) \<Longrightarrow> tally c k (andThen f g)"
  using tally_andThen [of c 0 f k g] by simp

lemma tally_andThen1: "tally c 1 f \<Longrightarrow> (\<And>x. tally c 0 (g x)) \<Longrightarrow> tally c 1 (andThen f g)"
  using tally_andThen [of c 1 f 0 g] by simp

lemma tally_guard: "(\<And>x. tally c k (g x)) \<Longrightarrow> tally c k (andThen (fromSum r) g)"
  by (rule tally_andThen0) (rule tally_ret)

lemma counted:
  assumes "countsSubmissions c env"
  shows "tally c 1 (createProposal env a d k)" "tally c 1 (approveProposal env a i k)"
    "tally c 1 (executeUpgrade env a i h k)" "tally c 1 (submitSignedTransaction env x)"
    "tally c 1 (executeSigned env x)" "tally c 0 (buildCreateProposalTx env a d p)"
    "tally c 0 (buildApproveProposalTx env a i p)" "tally c 0 (buildExecuteUpgradeTx env a i h p)"
    "tally c 0 (readFile env f)" "tally c 0 (writeFile env f x)"
  using assms unfolding countsSubmissions_def by (simp_all add: tally_exact)

lemma runSigned_tally:
  assumes "countsSubmissions c env"
  shows "tally c 1 (runSigned env opts f)"
proof -
  note submit = tally_andThen1 [OF counted(4) [OF assms]] tally_andThen1 [OF counted(5) [OF assms]]
  show ?thesis
    unfolding runSigned_def Let_def
    by (rule tally_andThen0 [OF counted(9) [OF assms]])
       (auto intro!: submit tally_guard tally_ret simp del: One_nat_def)
qed

lemma buildUnsigned_tally:
  assumes "countsSubmissions c env"
  shows "tally c 0 (buildUnsigned env opts pk)"
  unfolding buildUnsigned_def
  by (cases "action opts") (auto intro!: tally_guard counted [OF assms])

lemma runOffline_tally:
  assumes "countsSubmissions c env"
  shows "tally c 0 (runOffline env opts)"
  unfolding runOffline_def
  by (auto intro!: tally_andThen0 buildUnsigned_tally [OF assms] counted(10) [OF assms])

lemma runHot_tally:
  assumes "countsSubmissions c env"
  shows "tally c 1 (runHot env opts)"
proof -
  note submit = tally_andThen1 [OF counted(1) [OF assms]] tally_andThen1 [OF counted(2) [OF assms]]
    tally_andThen1 [OF counted(3) [OF assms]]
  show ?thesis
    unfolding runHot_def Let_def
    by (cases "action opts") (auto intro!: tally_guard submit tally_ret simp del: One_nat_def)
qed

lemma run_submitted:
  "runSigned env opts f s = (Inr r, s') \<Longrightarrow> submitted r"
  "runHot env opts s = (Inr r, s') \<Longrightarrow> submitted r"
  "runOffline env opts s = (Inr r, s') \<Longrightarrow> \<not> submitted r"
  by (cases "action opts"; auto simp: runSigned_def runHot_def runOffline_def Let_def submittedResult_def
      act_Inr_iffs split: if_splits)+

text \<open>
  One step of the ceremony submits at most one transaction, exactly one when it reports that it
  submitted, and none with \<^verbatim>\<open>--offline\<close>, also when it fails half way.
\<close>

theorem multisig_submits_at_most_once:
  assumes "countsSubmissions c env"
  shows "case runMultisigCommand env opts s of
       (Inl e, s') \<Rightarrow> c s' \<le> Suc (c s) \<and> (offline opts \<longrightarrow> c s' = c s)
     | (Inr r, s') \<Rightarrow> c s' = (if submitted r then Suc (c s) else c s) \<and> (submitted r \<longleftrightarrow> \<not> offline opts)"
proof -
  note signed = runSigned_tally [OF assms, of opts "the (signatureFile opts)", unfolded tally_def, rule_format, of s]
  note off = runOffline_tally [OF assms, of opts, unfolded tally_def, rule_format, of s]
  note hot = runHot_tally [OF assms, of opts, unfolded tally_def, rule_format, of s]
  show ?thesis
    using signed off hot
    by (auto simp: runMultisigCommand_def dest: run_submitted split: prod.splits sum.splits if_splits)
qed

text \<open>An environment that counts submissions and accepts everything.\<close>

definition countingEnv :: "nat MultisigEnv" where
  "countingEnv = \<lparr>createProposal = (\<lambda>a d k s. (Inr (okResult (NBig 7)), Suc s)),
     approveProposal = (\<lambda>a i k s. (Inr (okResult NNull), Suc s)),
     executeUpgrade = (\<lambda>a i h k s. (Inr (okResult NNull), Suc s)),
     buildCreateProposalTx = (\<lambda>a d p s. (Inr ''xdr'', s)),
     buildApproveProposalTx = (\<lambda>a i p s. (Inr ''xdr'', s)),
     buildExecuteUpgradeTx = (\<lambda>a i h p s. (Inr ''xdr'', s)),
     submitSignedTransaction = (\<lambda>x s. (Inr (okResult (NBig 7)), Suc s)),
     executeSigned = (\<lambda>x s. (Inr (okResult NNull), Suc s)),
     readFile = (\<lambda>f s. (Inr ''signed'', s)), writeFile = (\<lambda>f x s. (Inr (), s)),
     keypairFromSecret = (\<lambda>k. Inr ''G'')\<rparr>"

definition sampleApproval :: MultisigRunOptions where
  "sampleApproval = \<lparr>action = Approve, description = None, proposalId = Some '' 7 '', wasmHash = None,
     offline = False, outFile = None, signatureFile = None, publicKey = None, secretKey = Some ''S''\<rparr>"

theorem multisig_submits_at_most_once_witness:
  "case runMultisigCommand countingEnv sampleApproval 0 of
     (Inl e, s') \<Rightarrow> False
   | (Inr r, s') \<Rightarrow> s' = (if submitted r then Suc 0 else 0) \<and> submitted r \<and> run_proposalId r = Some 7"
proof -
  have "countsSubmissions id countingEnv" by (simp add: countsSubmissions_def countingEnv_def)
  from multisig_submits_at_most_once [OF this, of 0 sampleApproval]
  have "case runMultisigCommand countingEnv sampleApproval 0 of
       (Inl e, s') \<Rightarrow> True
     | (Inr r, s') \<Rightarrow> s' = (if submitted r then Suc 0 else 0) \<and> submitted r"
    by (auto simp: sampleApproval_def split: prod.splits sum.splits)
  moreover have "case runMultisigCommand countingEnv sampleApproval 0 of
       (Inl e, s') \<Rightarrow> False | (Inr r, s') \<Rightarrow> run_proposalId r = Some 7"
    by code_simp
  ultimately show ?thesis by (auto split: prod.splits sum.splits)
qed

end
