(* ===== verification/SdkErrors.thy ===== *)
theory SdkErrors
  imports Sdk_Types
begin

text \<open>
  \<^verbatim>\<open>src/sdk/src/errors.ts\<close>: the error classes of the SDK and \<^verbatim>\<open>parseContractError\<close>, which turns
  the text of a failed simulation or transaction into a typed contract error. A class whose
  constructor fixes the code, number, message, anchor and module is a constructor of a datatype
  with a function that builds the error object. The two regular expressions of the parser are
  matched as the engine does, at the leftmost position; none of their repetitions can succeed
  after giving back a character, so each is one deterministic pass.
\<close>

subsection \<open>Error objects\<close>

record ContractError =
  err_name :: string
  code :: string
  numericCode :: nat
  message :: string
  docsAnchor :: string
  contractModule :: string
  rawMessage :: "string option"

definition DOCS_BASE_URL :: string where
  "DOCS_BASE_URL = ''https://github.com/Ceejaytech25/bc-forge/blob/main/docs/sdk-errors.md''"

text \<open>The constructor of \<^verbatim>\<open>ContractError\<close>, with the name the subclass sets afterwards.\<close>

definition contractError ::
    "string \<Rightarrow> string \<Rightarrow> nat \<Rightarrow> string \<Rightarrow> string \<Rightarrow> string \<Rightarrow> string option \<Rightarrow> ContractError" where
  "contractError nm c n msg anchor modul raw =
     (let docsUrl = DOCS_BASE_URL @ ''#'' @ anchor
      in \<lparr>err_name = nm, code = c, numericCode = n,
          message = ''['' @ c @ ''] '' @ msg @ ''. See docs: '' @ docsUrl,
          docsAnchor = anchor, contractModule = modul, rawMessage = raw\<rparr>)"

subsection \<open>Contract error classes\<close>

datatype TokenErrorClass =
    TokenAlreadyInitializedError
  | TokenNotInitializedError
  | TokenInvalidAmountError
  | TokenInsufficientBalanceError
  | TokenInsufficientAllowanceError
  | TokenContractPausedError
  | TokenFeeNotConfiguredError
  | TokenInsufficientFeeBalanceError
  | TokenFeeExemptionNotFoundError
  | TokenMaxSupplyExceededError
  | TokenAlreadyPausedError
  | TokenNotPausedError
  | TokenBatchTooLargeError
  | TokenBatchEmptyError
  | TokenPayloadExpiredError
  | TokenPayloadReplayedError
  | TokenUnknownTokenError

datatype AdminErrorClass =
    AdminRoleNotGrantedError
  | AdminRoleNotHeldError
  | AdminUnauthorizedRoleError
  | AdminInvalidAddressError
  | AdminInvalidRoleError
  | AdminAlreadyInitializedError
  | AdminInvalidThresholdError
  | AdminProposalNotFoundError
  | AdminProposalAlreadyExecutedError
  | AdminProposalAlreadyApprovedError
  | AdminThresholdNotMetError
  | AdminQuorumNotMetError
  | AdminTimelockActiveError
  | AdminInvalidWasmHashError
  | AdminNotProposerError
  | AdminProposalNotCancellableError
  | AdminUpgradeProposalNotFoundError
  | AdminProposalNotPendingError
  | AdminDuplicateVoteError
  | AdminUnauthorizedError
  | AdminBatchLengthMismatchError
  | AdminRoleAlreadyGrantedError
  | AdminProposalExpiredError
  | AdminProposalCancelledError

fun newTokenError :: "TokenErrorClass \<Rightarrow> string option \<Rightarrow> ContractError" where
  "newTokenError TokenAlreadyInitializedError raw = contractError ''TokenAlreadyInitializedError''
     ''TOKEN_ALREADY_INITIALIZED'' 1
     ''Contract has already been initialized; cannot re-initialize''
     ''token-already-initialized'' ''token'' raw"
| "newTokenError TokenNotInitializedError raw = contractError ''TokenNotInitializedError''
     ''TOKEN_NOT_INITIALIZED'' 2
     ''Contract has not been initialized yet''
     ''token-not-initialized'' ''token'' raw"
| "newTokenError TokenInvalidAmountError raw = contractError ''TokenInvalidAmountError''
     ''TOKEN_INVALID_AMOUNT'' 3
     ''The amount provided is invalid (e.g. negative or zero)''
     ''token-invalid-amount'' ''token'' raw"
| "newTokenError TokenInsufficientBalanceError raw = contractError ''TokenInsufficientBalanceError''
     ''TOKEN_INSUFFICIENT_BALANCE'' 4
     ''The caller balance is insufficient for the requested operation''
     ''token-insufficient-balance'' ''token'' raw"
| "newTokenError TokenInsufficientAllowanceError raw = contractError ''TokenInsufficientAllowanceError''
     ''TOKEN_INSUFFICIENT_ALLOWANCE'' 5
     ''The spender allowance is insufficient for the requested operation''
     ''token-insufficient-allowance'' ''token'' raw"
| "newTokenError TokenContractPausedError raw = contractError ''TokenContractPausedError''
     ''TOKEN_CONTRACT_PAUSED'' 6
     ''The contract is currently paused and operations are rejected''
     ''token-contract-paused'' ''token'' raw"
| "newTokenError TokenFeeNotConfiguredError raw = contractError ''TokenFeeNotConfiguredError''
     ''TOKEN_FEE_NOT_CONFIGURED'' 7
     ''Fee configuration has not been set''
     ''token-fee-not-configured'' ''token'' raw"
| "newTokenError TokenInsufficientFeeBalanceError raw = contractError ''TokenInsufficientFeeBalanceError''
     ''TOKEN_INSUFFICIENT_FEE_BALANCE'' 8
     ''Treasury balance is insufficient to cover the fee''
     ''token-insufficient-fee-balance'' ''token'' raw"
| "newTokenError TokenFeeExemptionNotFoundError raw = contractError ''TokenFeeExemptionNotFoundError''
     ''TOKEN_FEE_EXEMPTION_NOT_FOUND'' 9
     ''No fee exemption found for the specified address''
     ''token-fee-exemption-not-found'' ''token'' raw"
| "newTokenError TokenMaxSupplyExceededError raw = contractError ''TokenMaxSupplyExceededError''
     ''TOKEN_MAX_SUPPLY_EXCEEDED'' 10
     ''Minting would exceed the configured maximum supply''
     ''token-max-supply-exceeded'' ''token'' raw"
| "newTokenError TokenAlreadyPausedError raw = contractError ''TokenAlreadyPausedError''
     ''TOKEN_ALREADY_PAUSED'' 11
     ''Contract is already paused''
     ''token-already-paused'' ''token'' raw"
| "newTokenError TokenNotPausedError raw = contractError ''TokenNotPausedError''
     ''TOKEN_NOT_PAUSED'' 12
     ''Contract is not paused''
     ''token-not-paused'' ''token'' raw"
| "newTokenError TokenBatchTooLargeError raw = contractError ''TokenBatchTooLargeError''
     ''TOKEN_BATCH_TOO_LARGE'' 13
     ''Batch operations list exceeds maximum allowed cap (8)''
     ''token-batch-too-large'' ''token'' raw"
| "newTokenError TokenBatchEmptyError raw = contractError ''TokenBatchEmptyError''
     ''TOKEN_BATCH_EMPTY'' 14
     ''Batch operations list is empty''
     ''token-batch-empty'' ''token'' raw"
| "newTokenError TokenPayloadExpiredError raw = contractError ''TokenPayloadExpiredError''
     ''TOKEN_PAYLOAD_EXPIRED'' 15
     ''Batch payload execution max ledger sequence has expired''
     ''token-payload-expired'' ''token'' raw"
| "newTokenError TokenPayloadReplayedError raw = contractError ''TokenPayloadReplayedError''
     ''TOKEN_PAYLOAD_REPLAYED'' 16
     ''Batch payload nonce has already been used or is invalid''
     ''token-payload-replayed'' ''token'' raw"
| "newTokenError TokenUnknownTokenError raw = contractError ''TokenUnknownTokenError''
     ''TOKEN_UNKNOWN_TOKEN'' 17
     ''rescue_tokens was called on this contract own token ID''
     ''token-unknown-token'' ''token'' raw"

fun newAdminError :: "AdminErrorClass \<Rightarrow> string option \<Rightarrow> ContractError" where
  "newAdminError AdminRoleNotGrantedError raw = contractError ''AdminRoleNotGrantedError''
     ''ADMIN_ROLE_NOT_GRANTED'' 1
     ''Role not granted''
     ''admin-role-not-granted'' ''admin'' raw"
| "newAdminError AdminRoleNotHeldError raw = contractError ''AdminRoleNotHeldError''
     ''ADMIN_ROLE_NOT_HELD'' 2
     ''An address does not hold the required role''
     ''admin-role-not-held'' ''admin'' raw"
| "newAdminError AdminUnauthorizedRoleError raw = contractError ''AdminUnauthorizedRoleError''
     ''ADMIN_UNAUTHORIZED_ROLE'' 3
     ''require_role_guard failed: caller is not authorized for this role''
     ''admin-unauthorized-role'' ''admin'' raw"
| "newAdminError AdminInvalidAddressError raw = contractError ''AdminInvalidAddressError''
     ''ADMIN_INVALID_ADDRESS'' 4
     ''An operation was attempted with the canonical zero address''
     ''admin-invalid-address'' ''admin'' raw"
| "newAdminError AdminInvalidRoleError raw = contractError ''AdminInvalidRoleError''
     ''ADMIN_INVALID_ROLE'' 5
     ''A role discriminant not recognized by this contract was supplied''
     ''admin-invalid-role'' ''admin'' raw"
| "newAdminError AdminAlreadyInitializedError raw = contractError ''AdminAlreadyInitializedError''
     ''ADMIN_ALREADY_INITIALIZED'' 6
     ''Contract has already been initialized''
     ''admin-already-initialized'' ''admin'' raw"
| "newAdminError AdminInvalidThresholdError raw = contractError ''AdminInvalidThresholdError''
     ''ADMIN_INVALID_THRESHOLD'' 7
     ''The approval threshold is zero or exceeds admin-pool size''
     ''admin-invalid-threshold'' ''admin'' raw"
| "newAdminError AdminProposalNotFoundError raw = contractError ''AdminProposalNotFoundError''
     ''ADMIN_PROPOSAL_NOT_FOUND'' 8
     ''The requested governance proposal does not exist''
     ''admin-proposal-not-found'' ''admin'' raw"
| "newAdminError AdminProposalAlreadyExecutedError raw = contractError ''AdminProposalAlreadyExecutedError''
     ''ADMIN_PROPOSAL_ALREADY_EXECUTED'' 9
     ''The requested governance proposal has already been executed''
     ''admin-proposal-already-executed'' ''admin'' raw"
| "newAdminError AdminProposalAlreadyApprovedError raw = contractError ''AdminProposalAlreadyApprovedError''
     ''ADMIN_PROPOSAL_ALREADY_APPROVED'' 10
     ''Admin has already approved the requested governance proposal''
     ''admin-proposal-already-approved'' ''admin'' raw"
| "newAdminError AdminThresholdNotMetError raw = contractError ''AdminThresholdNotMetError''
     ''ADMIN_THRESHOLD_NOT_MET'' 11
     ''Governance proposal has not reached its approval threshold''
     ''admin-threshold-not-met'' ''admin'' raw"
| "newAdminError AdminQuorumNotMetError raw = contractError ''AdminQuorumNotMetError''
     ''ADMIN_QUORUM_NOT_MET'' 12
     ''Proposal has not gathered enough approvals to meet quorum''
     ''admin-quorum-not-met'' ''admin'' raw"
| "newAdminError AdminTimelockActiveError raw = contractError ''AdminTimelockActiveError''
     ''ADMIN_TIMELOCK_ACTIVE'' 13
     ''Mandatory timelock delay has not elapsed yet''
     ''admin-timelock-active'' ''admin'' raw"
| "newAdminError AdminInvalidWasmHashError raw = contractError ''AdminInvalidWasmHashError''
     ''ADMIN_INVALID_WASM_HASH'' 14
     ''Supplied WASM hash is not registered as installed on ledger''
     ''admin-invalid-wasm-hash'' ''admin'' raw"
| "newAdminError AdminNotProposerError raw = contractError ''AdminNotProposerError''
     ''ADMIN_NOT_PROPOSER'' 15
     ''cancel_proposal called by address other than submitter''
     ''admin-not-proposer'' ''admin'' raw"
| "newAdminError AdminProposalNotCancellableError raw = contractError ''AdminProposalNotCancellableError''
     ''ADMIN_PROPOSAL_NOT_CANCELLABLE'' 16
     ''cancel_proposal called on terminal proposal status''
     ''admin-proposal-not-cancellable'' ''admin'' raw"
| "newAdminError AdminUpgradeProposalNotFoundError raw = contractError ''AdminUpgradeProposalNotFoundError''
     ''ADMIN_UPGRADE_PROPOSAL_NOT_FOUND'' 17
     ''WASM upgrade proposal with ID does not exist''
     ''admin-upgrade-proposal-not-found'' ''admin'' raw"
| "newAdminError AdminProposalNotPendingError raw = contractError ''AdminProposalNotPendingError''
     ''ADMIN_PROPOSAL_NOT_PENDING'' 18
     ''Proposal is not in pending status accepting votes''
     ''admin-proposal-not-pending'' ''admin'' raw"
| "newAdminError AdminDuplicateVoteError raw = contractError ''AdminDuplicateVoteError''
     ''ADMIN_DUPLICATE_VOTE'' 19
     ''Caller already cast a vote on upgrade proposal''
     ''admin-duplicate-vote'' ''admin'' raw"
| "newAdminError AdminUnauthorizedError raw = contractError ''AdminUnauthorizedError''
     ''ADMIN_UNAUTHORIZED'' 20
     ''General authorization failure''
     ''admin-unauthorized'' ''admin'' raw"
| "newAdminError AdminBatchLengthMismatchError raw = contractError ''AdminBatchLengthMismatchError''
     ''ADMIN_BATCH_LENGTH_MISMATCH'' 21
     ''execute_upgrade_batch called with unequal vector lengths''
     ''admin-batch-length-mismatch'' ''admin'' raw"
| "newAdminError AdminRoleAlreadyGrantedError raw = contractError ''AdminRoleAlreadyGrantedError''
     ''ADMIN_ROLE_ALREADY_GRANTED'' 22
     ''Target address already holds the role being granted''
     ''admin-role-already-granted'' ''admin'' raw"
| "newAdminError AdminProposalExpiredError raw = contractError ''AdminProposalExpiredError''
     ''ADMIN_PROPOSAL_EXPIRED'' 23
     ''Governance proposal expiry ledger has passed''
     ''admin-proposal-expired'' ''admin'' raw"
| "newAdminError AdminProposalCancelledError raw = contractError ''AdminProposalCancelledError''
     ''ADMIN_PROPOSAL_CANCELLED'' 24
     ''Proposal was withdrawn by creator via cancel_legacy_proposal''
     ''admin-proposal-cancelled'' ''admin'' raw"

definition TOKEN_ERROR_MAP :: "nat \<rightharpoonup> TokenErrorClass" where
  "TOKEN_ERROR_MAP = map_of [
     (1, TokenAlreadyInitializedError),
     (2, TokenNotInitializedError),
     (3, TokenInvalidAmountError),
     (4, TokenInsufficientBalanceError),
     (5, TokenInsufficientAllowanceError),
     (6, TokenContractPausedError),
     (7, TokenFeeNotConfiguredError),
     (8, TokenInsufficientFeeBalanceError),
     (9, TokenFeeExemptionNotFoundError),
     (10, TokenMaxSupplyExceededError),
     (11, TokenAlreadyPausedError),
     (12, TokenNotPausedError),
     (13, TokenBatchTooLargeError),
     (14, TokenBatchEmptyError),
     (15, TokenPayloadExpiredError),
     (16, TokenPayloadReplayedError),
     (17, TokenUnknownTokenError)]"

definition ADMIN_ERROR_MAP :: "nat \<rightharpoonup> AdminErrorClass" where
  "ADMIN_ERROR_MAP = map_of [
     (1, AdminRoleNotGrantedError),
     (2, AdminRoleNotHeldError),
     (3, AdminUnauthorizedRoleError),
     (4, AdminInvalidAddressError),
     (5, AdminInvalidRoleError),
     (6, AdminAlreadyInitializedError),
     (7, AdminInvalidThresholdError),
     (8, AdminProposalNotFoundError),
     (9, AdminProposalAlreadyExecutedError),
     (10, AdminProposalAlreadyApprovedError),
     (11, AdminThresholdNotMetError),
     (12, AdminQuorumNotMetError),
     (13, AdminTimelockActiveError),
     (14, AdminInvalidWasmHashError),
     (15, AdminNotProposerError),
     (16, AdminProposalNotCancellableError),
     (17, AdminUpgradeProposalNotFoundError),
     (18, AdminProposalNotPendingError),
     (19, AdminDuplicateVoteError),
     (20, AdminUnauthorizedError),
     (21, AdminBatchLengthMismatchError),
     (22, AdminRoleAlreadyGrantedError),
     (23, AdminProposalExpiredError),
     (24, AdminProposalCancelledError)]"

subsection \<open>The other error classes\<close>

text \<open>
  The errors SDK code throws and catches. \<open>OtherError m\<close> is any other object with the message \<open>m\<close>.
\<close>

datatype sdk_error =
    ContractErr ContractError
  | SimulationError string "string option"
  | TransactionSubmissionError string "string option"
  | TransactionTimeoutError string string
  | RPCError string
  | SignerRequiredError string
  | OtherError string

fun errorMessage :: "sdk_error \<Rightarrow> string" where
  "errorMessage (ContractErr e) = message e"
| "errorMessage (SimulationError m d) = m"
| "errorMessage (TransactionSubmissionError m h) = m"
| "errorMessage (TransactionTimeoutError m h) = m"
| "errorMessage (RPCError m) = m"
| "errorMessage (SignerRequiredError m) = m"
| "errorMessage (OtherError m) = m"

subsection \<open>The parser\<close>

text \<open>A literal part of a pattern with the flag \<^verbatim>\<open>i\<close>: the text after it, if it matches.\<close>

definition eatLiteral :: "string \<Rightarrow> string \<Rightarrow> string option" where
  "eatLiteral lit s =
     (if map lower (take (length lit) s) = map lower lit then Some (drop (length lit) s) else None)"

definition eatHash :: "string \<Rightarrow> string" where
  "eatHash s = (if s \<noteq> [] \<and> hd s = CHR ''#'' then tl s else s)"

text \<open>\<^verbatim>\<open>Error\(Contract,\s*#?(\d+)\)\<close> at the start of the text; the captured digits.\<close>

definition matchErrorContract :: "string \<Rightarrow> string option" where
  "matchErrorContract s =
     (case eatLiteral ''Error(Contract,'' s of
        None \<Rightarrow> None
      | Some r \<Rightarrow>
          let d = eatHash (dropWhile js_ws r); ds = takeWhile isDigit d; rest = dropWhile isDigit d
          in if ds \<noteq> [] \<and> rest \<noteq> [] \<and> hd rest = CHR '')'' then Some ds else None)"

text \<open>\<^verbatim>\<open>contract error #?(\d+)\<close> at the start of the text.\<close>

definition matchContractError :: "string \<Rightarrow> string option" where
  "matchContractError s =
     (case eatLiteral ''contract error '' s of
        None \<Rightarrow> None
      | Some r \<Rightarrow> let ds = takeWhile isDigit (eatHash r) in if ds \<noteq> [] then Some ds else None)"

fun firstMatch :: "(string \<Rightarrow> string option) \<Rightarrow> string \<Rightarrow> string option" where
  "firstMatch p [] = p []"
| "firstMatch p (c # s) = (case p (c # s) of None \<Rightarrow> firstMatch p s | Some m \<Rightarrow> Some m)"

definition isMethodAdmin :: "string option \<Rightarrow> bool" where
  "isMethodAdmin method \<longleftrightarrow>
     (case method of
        None \<Rightarrow> False
      | Some me \<Rightarrow> me \<noteq> [] \<and>
          (js_includes me ''role'' \<or> js_includes me ''proposal'' \<or> js_includes me ''admin'' \<or>
           js_includes me ''upgrade'' \<or> js_includes me ''threshold''))"

definition errorForCode :: "string \<Rightarrow> bool \<Rightarrow> nat \<Rightarrow> ContractError option" where
  "errorForCode errorMsg methodAdmin n =
     (if methodAdmin \<and> ADMIN_ERROR_MAP n \<noteq> None
      then map_option (\<lambda>k. newAdminError k (Some errorMsg)) (ADMIN_ERROR_MAP n)
      else if TOKEN_ERROR_MAP n \<noteq> None
      then map_option (\<lambda>k. newTokenError k (Some errorMsg)) (TOKEN_ERROR_MAP n)
      else map_option (\<lambda>k. newAdminError k (Some errorMsg)) (ADMIN_ERROR_MAP n))"

definition parseContractError :: "string \<Rightarrow> string option \<Rightarrow> ContractError option" where
  "parseContractError errorMsg method =
     (if errorMsg = [] then None
      else case (case firstMatch matchErrorContract errorMsg of
                   Some ds \<Rightarrow> Some ds | None \<Rightarrow> firstMatch matchContractError errorMsg) of
             None \<Rightarrow> None
           | Some ds \<Rightarrow>
               (case parse_radix 10 ds of
                  None \<Rightarrow> None
                | Some n \<Rightarrow> errorForCode errorMsg (isMethodAdmin method) n))"

subsection \<open>The catalogue of contract errors\<close>

lemma token_map_inverse: "TOKEN_ERROR_MAP (numericCode (newTokenError k raw)) = Some k"
  by (cases k) (simp_all add: TOKEN_ERROR_MAP_def contractError_def)

lemma admin_map_inverse: "ADMIN_ERROR_MAP (numericCode (newAdminError k raw)) = Some k"
  by (cases k) (simp_all add: ADMIN_ERROR_MAP_def contractError_def)

lemma token_map_sound: "TOKEN_ERROR_MAP n = Some k \<Longrightarrow> numericCode (newTokenError k raw) = n"
  by (simp add: TOKEN_ERROR_MAP_def contractError_def split: if_splits)

lemma admin_map_sound: "ADMIN_ERROR_MAP n = Some k \<Longrightarrow> numericCode (newAdminError k raw) = n"
  by (simp add: ADMIN_ERROR_MAP_def contractError_def split: if_splits)

lemma token_map_dom: "TOKEN_ERROR_MAP n \<noteq> None \<longleftrightarrow> 1 \<le> n \<and> n \<le> 17"
  by (simp add: TOKEN_ERROR_MAP_def) arith

lemma admin_map_dom: "ADMIN_ERROR_MAP n \<noteq> None \<longleftrightarrow> 1 \<le> n \<and> n \<le> 24"
  by (simp add: ADMIN_ERROR_MAP_def) arith

definition anchorOf :: "string \<Rightarrow> string" where
  "anchorOf c = map (\<lambda>x. if x = CHR ''_'' then CHR ''-'' else lower x) c"

lemma token_anchor:
  "docsAnchor (newTokenError k raw) = anchorOf (code (newTokenError k raw))"
  "contractModule (newTokenError k raw) = ''token''" "rawMessage (newTokenError k raw) = raw"
  by (cases k; simp add: contractError_def anchorOf_def)+

lemma admin_anchor:
  "docsAnchor (newAdminError k raw) = anchorOf (code (newAdminError k raw))"
  "contractModule (newAdminError k raw) = ''admin''" "rawMessage (newAdminError k raw) = raw"
  by (cases k; simp add: contractError_def anchorOf_def)+

text \<open>
  C23. The error classes and the tables that look them up agree: the number a class carries is
  the number it is registered under, the token table has exactly the numbers 1 to 17 and the
  admin table 1 to 24, every class names its own module, and its documentation anchor is its
  code in lower case with dashes.
\<close>

theorem contract_error_catalogue:
  "(TOKEN_ERROR_MAP n = Some k \<longleftrightarrow> numericCode (newTokenError k raw) = n) \<and>
   (ADMIN_ERROR_MAP n = Some j \<longleftrightarrow> numericCode (newAdminError j raw) = n) \<and>
   dom TOKEN_ERROR_MAP = {1..17} \<and> dom ADMIN_ERROR_MAP = {1..24} \<and>
   contractModule (newTokenError k raw) = ''token'' \<and> contractModule (newAdminError j raw) = ''admin'' \<and>
   docsAnchor (newTokenError k raw) = anchorOf (code (newTokenError k raw)) \<and>
   docsAnchor (newAdminError j raw) = anchorOf (code (newAdminError j raw))"
  using token_map_inverse admin_map_inverse token_map_sound admin_map_sound token_map_dom
    admin_map_dom token_anchor(1,2) admin_anchor(1,2)
  by (auto simp: dom_def)

subsection \<open>Finding the code in a text\<close>

lemma isUpper_codes: "isUpper c \<longleftrightarrow> 65 \<le> (of_char c :: nat) \<and> (of_char c :: nat) \<le> 90"
  by (cases c) (simp add: of_char_def)

lemma lower_code: "(of_char (lower c) :: nat) = (if isUpper c then of_char c + 32 else of_char c)"
  by (cases c) (simp add: of_char_def)

lemma lower_paren: "lower c = CHR ''('' \<longleftrightarrow> c = CHR ''(''"
  by (cases c) auto

lemma takeWhile_digits_show_nat:
  "takeWhile isDigit (show_nat n @ CHR '')'' # t) = show_nat n"
  "dropWhile isDigit (show_nat n @ CHR '')'' # t) = CHR '')'' # t"
  using set_show_nat [of n]
  by (auto simp: takeWhile_append2 dropWhile_append2 isDigit_def subset_eq)

lemma matchErrorContract_here:
  "matchErrorContract (''Error(Contract, #'' @ show_nat n @ '')'' @ post) = Some (show_nat n)"
  by (simp add: matchErrorContract_def eatLiteral_def js_ws_def eatHash_def
      takeWhile_digits_show_nat Let_def isDigit_def [of "CHR '')''"])

lemma nth_mem_eq: "i < length xs \<Longrightarrow> xs ! i = x \<Longrightarrow> x \<in> set xs"
  by auto

text \<open>No match starts where the next parenthesis is too far away.\<close>

lemma matchErrorContract_paren:
  assumes "matchErrorContract s \<noteq> None"
  shows "5 < length s" "s ! 5 = CHR ''(''"
proof -
  have eq: "map lower (take 15 s) = map lower ''Error(Contract,''"
  proof (rule ccontr)
    assume "map lower (take 15 s) \<noteq> map lower ''Error(Contract,''"
    then have "eatLiteral ''Error(Contract,'' s = None" by (simp add: eatLiteral_def eval_nat_numeral)
    with assms show False by (simp add: matchErrorContract_def)
  qed
  from arg_cong [OF this, of length] show len: "5 < length s" by simp
  have "lower (s ! 5) = map lower (take 15 s) ! 5" using len by simp
  also have "\<dots> = CHR ''(''" unfolding eq by simp
  finally show "s ! 5 = CHR ''(''" by (simp only: lower_paren)
qed

lemma matchErrorContract_early:
  assumes "CHR ''('' \<notin> set pre" and "pre \<noteq> []"
  shows "matchErrorContract (pre @ ''Error(Contract, #'' @ t) = None"
proof (rule ccontr)
  let ?s = "pre @ ''Error(Contract, #'' @ t"
  assume "matchErrorContract ?s \<noteq> None"
  then have "?s ! 5 = CHR ''(''" by (rule matchErrorContract_paren)
  moreover have "length pre \<ge> 1" using assms(2) by (cases pre) auto
  ultimately have "?s ! 5 \<in> set pre \<or> ?s ! 5 \<in> set ''Error''"
    by (auto simp: nth_append nth_Cons' split: if_splits intro: nth_mem_eq)
  with \<open>?s ! 5 = CHR ''(''\<close> assms(1) show False by auto
qed

lemma firstMatch_skip:
  "\<forall>u. u \<noteq> [] \<longrightarrow> suffix u pre \<longrightarrow> p (u @ s) = None \<Longrightarrow> s \<noteq> [] \<Longrightarrow>
   firstMatch p (pre @ s) = firstMatch p s"
proof (induction pre)
  case (Cons c pre)
  then have "p (c # pre @ s) = None" using suffix_order.refl [of "c # pre"]
    by (metis append_Cons list.distinct(1))
  with Cons show ?case by (simp add: suffix_ConsI)
qed simp

lemma firstMatch_here: "p s = Some m \<Longrightarrow> firstMatch p s = Some m"
  by (cases s) simp_all

lemma finds_host_error:
  assumes "CHR ''('' \<notin> set pre"
  shows "firstMatch matchErrorContract (pre @ ''Error(Contract, #'' @ show_nat n @ '')'' @ post) =
     Some (show_nat n)"
proof -
  let ?s = "''Error(Contract, #'' @ show_nat n @ '')'' @ post"
  have "firstMatch matchErrorContract (pre @ ?s) = firstMatch matchErrorContract ?s"
  proof (rule firstMatch_skip)
    show "\<forall>u. u \<noteq> [] \<longrightarrow> suffix u pre \<longrightarrow> matchErrorContract (u @ ?s) = None"
      using assms matchErrorContract_early set_mono_suffix by blast
  qed simp
  also have "\<dots> = Some (show_nat n)" by (rule firstMatch_here) (rule matchErrorContract_here)
  finally show ?thesis .
qed

text \<open>
  A failure text in the form the host prints, with no parenthesis before it, is recognised
  for every contract error number: numbers 1 to 24 give an error that carries the number and
  the whole text, from the admin table for administrative methods and for numbers the token
  table lacks, from the token table otherwise; other numbers give no typed error.
\<close>

theorem parseContractError_host_format:
  assumes "CHR ''('' \<notin> set pre"
    and "msg = pre @ ''Error(Contract, #'' @ show_nat n @ '')'' @ post"
  shows "case parseContractError msg method of
       None \<Rightarrow> n = 0 \<or> 24 < n
     | Some e \<Rightarrow> 1 \<le> n \<and> n \<le> 24 \<and> numericCode e = n \<and> rawMessage e = Some msg \<and>
         contractModule e = (if isMethodAdmin method \<or> 17 < n then ''admin'' else ''token'')"
proof -
  have "msg \<noteq> []" by (simp add: assms(2))
  then have parse: "parseContractError msg method = errorForCode msg (isMethodAdmin method) n"
    using finds_host_error [OF assms(1), of n post] by (simp add: parseContractError_def assms(2))
  show ?thesis
    using token_map_dom [of n] admin_map_dom [of n]
    by (auto simp: parse errorForCode_def token_map_sound admin_map_sound token_anchor admin_anchor
        split: option.splits)
qed

theorem parseContractError_host_format_witness:
  "map_option err_name (parseContractError ''HostError: Error(Contract, #4)'' (Some ''mint'')) =
     Some ''TokenInsufficientBalanceError'' \<and>
   (case parseContractError ''HostError: Error(Contract, #4)'' (Some ''mint'') of
      None \<Rightarrow> (4::nat) = 0 \<or> 24 < (4::nat)
    | Some e \<Rightarrow> 1 \<le> (4::nat) \<and> (4::nat) \<le> 24 \<and> numericCode e = 4 \<and>
        rawMessage e = Some ''HostError: Error(Contract, #4)'' \<and>
        contractModule e = (if isMethodAdmin (Some ''mint'') \<or> 17 < (4::nat) then ''admin'' else ''token''))"
proof (rule conjI)
  show "map_option err_name (parseContractError ''HostError: Error(Contract, #4)'' (Some ''mint'')) =
     Some ''TokenInsufficientBalanceError''" by code_simp
  have "''HostError: Error(Contract, #4)'' =
      ''HostError: '' @ ''Error(Contract, #'' @ show_nat 4 @ '')'' @ []" by code_simp
  from parseContractError_host_format [OF _ this, of "Some ''mint''"]
  show "case parseContractError ''HostError: Error(Contract, #4)'' (Some ''mint'') of
      None \<Rightarrow> (4::nat) = 0 \<or> 24 < (4::nat)
    | Some e \<Rightarrow> 1 \<le> (4::nat) \<and> (4::nat) \<le> 24 \<and> numericCode e = 4 \<and>
        rawMessage e = Some ''HostError: Error(Contract, #4)'' \<and>
        contractModule e = (if isMethodAdmin (Some ''mint'') \<or> 17 < (4::nat) then ''admin'' else ''token'')"
    by simp
qed

end
