(* ===== verification/SdkEvents.thy ===== *)
theory SdkEvents
  imports JsNumber
begin

text \<open>
  \<^verbatim>\<open>src/sdk/src/events.ts\<close>: decoding of contract events and the polling listeners.

  \<^verbatim>\<open>scValToNative\<close> belongs to the Stellar SDK, so every definition that calls it takes it as an
  argument that returns a native value or throws. The RPC node is the list of answers it gives.
  A listener is a state machine: its timer fires, an answer (or a failure) of the request in
  flight arrives, or the unsubscribe closure runs. The user's callback is a predicate that says
  for which events it throws; the calls made so far are recorded in order.
\<close>

subsection \<open>Event types\<close>

datatype bcForgeEventType =
    INITIALIZED | MINT | BURN | TRANSFER | TRANSFER_FROM | APPROVE | OWNERSHIP_TRANSFERRED
  | PAUSED | UNPAUSED | CLAWBACK | LOCKED | WITHDRAW_LOCKED

fun eventSymbol :: "bcForgeEventType \<Rightarrow> string" where
  "eventSymbol INITIALIZED = ''init''"
| "eventSymbol MINT = ''mint''"
| "eventSymbol BURN = ''burn''"
| "eventSymbol TRANSFER = ''xfer''"
| "eventSymbol TRANSFER_FROM = ''xfer_frm''"
| "eventSymbol APPROVE = ''approve''"
| "eventSymbol OWNERSHIP_TRANSFERRED = ''own_xfer''"
| "eventSymbol PAUSED = ''paused''"
| "eventSymbol UNPAUSED = ''unpause''"
| "eventSymbol CLAWBACK = ''clawback''"
| "eventSymbol LOCKED = ''lock''"
| "eventSymbol WITHDRAW_LOCKED = ''unlock''"

text \<open>\<^verbatim>\<open>Object.values(bcForgeEventType)\<close>.\<close>

definition eventTypeValues :: "string list" where
  "eventTypeValues = map eventSymbol [INITIALIZED, MINT, BURN, TRANSFER, TRANSFER_FROM, APPROVE,
     OWNERSHIP_TRANSFERRED, PAUSED, UNPAUSED, CLAWBACK, LOCKED, WITHDRAW_LOCKED]"

definition EVENT_SCHEMA_VERSION :: int where "EVENT_SCHEMA_VERSION = 1"

subsection \<open>Event data\<close>

text \<open>The casts \<^verbatim>\<open>asString\<close> and \<^verbatim>\<open>asNumeric\<close> do nothing, so a field is the native value itself.\<close>

record MintEventData =
  mint_version :: js_number
  mint_admin :: Native
  mint_to :: Native
  mint_amount :: Native
  mint_new_balance :: Native
  mint_new_supply :: Native

record BurnEventData =
  burn_version :: js_number
  burn_from :: Native
  burn_amount :: Native
  burn_new_balance :: Native
  burn_new_supply :: Native

record TransferEventData =
  xfer_version :: js_number
  xfer_from :: Native
  xfer_to :: Native
  xfer_amount :: Native

record TransferFromEventData =
  xfrm_version :: js_number
  xfrm_spender :: Native
  xfrm_from :: Native
  xfrm_to :: Native
  xfrm_amount :: Native
  xfrm_remaining_allowance :: Native

record DepositEventData =
  dep_version :: js_number
  dep_caller :: Native
  dep_assets :: Native
  dep_shares :: Native

record WithdrawEventData =
  wd_version :: js_number
  wd_caller :: Native
  wd_shares :: Native
  wd_underlying_amount :: Native

fun decodeVersionedTuple :: "Native \<Rightarrow> nat \<Rightarrow> (Native list \<times> js_number) option" where
  "decodeVersionedTuple (NList vs) fieldCount =
     (if length vs = fieldCount + 1 then Some (vs, Number_native (vs ! fieldCount))
      else if length vs = fieldCount then Some (vs, Fin 0)
      else None)"
| "decodeVersionedTuple _ fieldCount = None"

definition decodeMintEventData :: "Native \<Rightarrow> MintEventData option" where
  "decodeMintEventData v = map_option
     (\<lambda>(f, n). \<lparr>mint_version = n, mint_admin = f ! 0, mint_to = f ! 1, mint_amount = f ! 2,
                mint_new_balance = f ! 3, mint_new_supply = f ! 4\<rparr>) (decodeVersionedTuple v 5)"

definition decodeBurnEventData :: "Native \<Rightarrow> BurnEventData option" where
  "decodeBurnEventData v = map_option
     (\<lambda>(f, n). \<lparr>burn_version = n, burn_from = f ! 0, burn_amount = f ! 1, burn_new_balance = f ! 2,
                burn_new_supply = f ! 3\<rparr>) (decodeVersionedTuple v 4)"

definition decodeTransferEventData :: "Native \<Rightarrow> TransferEventData option" where
  "decodeTransferEventData v = map_option
     (\<lambda>(f, n). \<lparr>xfer_version = n, xfer_from = f ! 0, xfer_to = f ! 1, xfer_amount = f ! 2\<rparr>)
     (decodeVersionedTuple v 3)"

definition decodeTransferFromEventData :: "Native \<Rightarrow> TransferFromEventData option" where
  "decodeTransferFromEventData v = map_option
     (\<lambda>(f, n). \<lparr>xfrm_version = n, xfrm_spender = f ! 0, xfrm_from = f ! 1, xfrm_to = f ! 2,
                xfrm_amount = f ! 3, xfrm_remaining_allowance = f ! 4\<rparr>) (decodeVersionedTuple v 5)"

definition decodeDepositEventData :: "Native \<Rightarrow> DepositEventData option" where
  "decodeDepositEventData v = map_option
     (\<lambda>(f, n). \<lparr>dep_version = n, dep_caller = f ! 0, dep_assets = f ! 1, dep_shares = f ! 2\<rparr>)
     (decodeVersionedTuple v 3)"

definition decodeWithdrawEventData :: "Native \<Rightarrow> WithdrawEventData option" where
  "decodeWithdrawEventData v = map_option
     (\<lambda>(f, n). \<lparr>wd_version = n, wd_caller = f ! 0, wd_shares = f ! 1, wd_underlying_amount = f ! 2\<rparr>)
     (decodeVersionedTuple v 3)"

subsection \<open>Decoding events\<close>

record bcForgeEvent =
  ev_type :: string
  ev_ledger :: int
  ev_contractId :: string
  ev_data :: Native
  ev_txHash :: "string option"

record 'v EventResponse =
  res_topic :: "'v list option"
  res_ledger :: int
  res_contractId :: "string option"
  res_value :: 'v
  res_txHash :: "string option"
  res_id :: "string option"

type_synonym 'v converter = "'v \<Rightarrow> js_error + Native"

text \<open>\<^verbatim>\<open>a ?? b\<close> on optional values.\<close>

definition nullish :: "'a option \<Rightarrow> 'a option \<Rightarrow> 'a option" where
  "nullish a b = (case a of None \<Rightarrow> b | Some x \<Rightarrow> Some x)"

definition findType :: "Native \<Rightarrow> string option" where
  "findType topicSymbol = find (\<lambda>t. NStr t = topicSymbol) eventTypeValues"

definition decodeEvent :: "'v converter \<Rightarrow> 'v EventResponse \<Rightarrow> bcForgeEvent option" where
  "decodeEvent scValToNative event =
     (case res_topic event of
        Some (t0 # _) \<Rightarrow>
          (case scValToNative t0 of
             Inl _ \<Rightarrow> None
           | Inr topicSymbol \<Rightarrow>
               (case findType topicSymbol of
                  None \<Rightarrow> None
                | Some t \<Rightarrow>
                    (case scValToNative (res_value event) of
                       Inl _ \<Rightarrow> None
                     | Inr d \<Rightarrow> Some \<lparr>ev_type = t, ev_ledger = res_ledger event,
                         ev_contractId = (case res_contractId event of None \<Rightarrow> '''' | Some c \<Rightarrow> c),
                         ev_data = d, ev_txHash = nullish (res_txHash event) (res_id event)\<rparr>)))
      | _ \<Rightarrow> None)"

text \<open>Diagnostic events of a simulation, with the raw bytes of the contract id.\<close>

record 'v DiagnosticEvent =
  diag_type :: string
  diag_topics :: "'v list"
  diag_data :: 'v
  diag_contractId :: "string option"

definition hexDigit :: "nat \<Rightarrow> char" where
  "hexDigit d = ''0123456789abcdef'' ! d"

definition toHex :: "string \<Rightarrow> string" where
  "toHex bytes = concat (map (\<lambda>c. [hexDigit (of_char c div 16), hexDigit (of_char c mod 16)]) bytes)"

definition decodeDiagnosticEvent :: "'v converter \<Rightarrow> 'v DiagnosticEvent \<Rightarrow> bcForgeEvent option" where
  "decodeDiagnosticEvent scValToNative event =
     (if diag_type event \<noteq> ''contract'' then None
      else case diag_topics event of
             [] \<Rightarrow> None
           | t0 # _ \<Rightarrow>
               (case scValToNative t0 of
                  Inl _ \<Rightarrow> None
                | Inr topicSymbol \<Rightarrow>
                    (case findType topicSymbol of
                       None \<Rightarrow> None
                     | Some t \<Rightarrow>
                         (case scValToNative (diag_data event) of
                            Inl _ \<Rightarrow> None
                          | Inr d \<Rightarrow> Some \<lparr>ev_type = t, ev_ledger = 0,
                              ev_contractId = (case diag_contractId event of
                                 None \<Rightarrow> '''' | Some c \<Rightarrow> toHex c),
                              ev_data = d, ev_txHash = None\<rparr>))))"

fun decodeDiagnostics :: "'v converter \<Rightarrow> 'v DiagnosticEvent list \<Rightarrow> bcForgeEvent list" where
  "decodeDiagnostics conv [] = []"
| "decodeDiagnostics conv (e # es) =
     (case decodeDiagnosticEvent conv e of
        None \<Rightarrow> decodeDiagnostics conv es
      | Some d \<Rightarrow> d # decodeDiagnostics conv es)"

definition decodeSimulationEvents ::
    "'v converter \<Rightarrow> 'v DiagnosticEvent list option \<Rightarrow> bcForgeEvent list" where
  "decodeSimulationEvents conv events =
     (case events of None \<Rightarrow> [] | Some es \<Rightarrow> if es = [] then [] else decodeDiagnostics conv es)"

subsection \<open>Listeners\<close>

text \<open>
  The variables a listener closes over, the calls of the callback, and whether a request is in
  flight. \<^verbatim>\<open>subscribeEvents\<close> has no set of seen hashes; its field stays empty.
\<close>

record 'd Listener =
  lastLedger :: int
  seenTxHashes :: "string set"
  active :: bool
  inFlight :: bool
  delivered :: "(bcForgeEvent \<times> 'd) list"

type_synonym 'd listener_act = "(js_error, 'd Listener, unit) act"

text \<open>The first request goes out at once.\<close>

definition newListener :: "int \<Rightarrow> 'd Listener" where
  "newListener start = \<lparr>lastLedger = start, seenTxHashes = {}, active = True, inFlight = True,
     delivered = []\<rparr>"

text \<open>
  The starting ledger: \<^verbatim>\<open>subscribeEvents\<close> asks the node when none (or zero) is given and fails
  when that request does; the listeners ask when none is given and fall back to zero.
\<close>

definition subscribeStart :: "int option \<Rightarrow> js_error + int \<Rightarrow> js_error + int" where
  "subscribeStart startLedger latest =
     (if startLedger = None \<or> startLedger = Some 0 then latest else Inr (the startLedger))"

definition listenerStart :: "int option \<Rightarrow> js_error + int \<Rightarrow> int" where
  "listenerStart startLedger latest =
     (case startLedger of
        Some n \<Rightarrow> n
      | None \<Rightarrow> (case latest of Inl _ \<Rightarrow> 0 | Inr n \<Rightarrow> n))"

text \<open>The callback is called, and throws for the events of \<open>bad\<close>.\<close>

definition callback :: "(bcForgeEvent \<times> 'd \<Rightarrow> bool) \<Rightarrow> bcForgeEvent \<times> 'd \<Rightarrow> 'd listener_act" where
  "callback bad x s =
     (if bad x then Inl (JsError ''callback'') else Inr (), s\<lparr>delivered := delivered s @ [x]\<rparr>)"

definition advance :: "'v EventResponse \<Rightarrow> 'd listener_act" where
  "advance event s =
     (Inr (), if res_ledger event \<ge> lastLedger s then s\<lparr>lastLedger := res_ledger event + 1\<rparr> else s)"

text \<open>\<^verbatim>\<open>a || b\<close> on optional strings.\<close>

definition orElse :: "string option \<Rightarrow> string option \<Rightarrow> string option" where
  "orElse a b = (if truthy a then a else b)"

definition markSeen :: "string option \<Rightarrow> 'd listener_act" where
  "markSeen h s =
     (Inr (), if truthy h then s\<lparr>seenTxHashes := insert (the h) (seenTxHashes s)\<rparr> else s)"

definition alreadySeen :: "string option \<Rightarrow> 'd Listener \<Rightarrow> bool" where
  "alreadySeen h s \<longleftrightarrow> truthy h \<and> the h \<in> seenTxHashes s"

definition handleSubscribed ::
    "'v converter \<Rightarrow> (bcForgeEvent \<times> unit \<Rightarrow> bool) \<Rightarrow> 'v EventResponse \<Rightarrow> unit listener_act" where
  "handleSubscribed conv bad event =
     andThen (case decodeEvent conv event of None \<Rightarrow> ret () | Some d \<Rightarrow> callback bad (d, ()))
       (\<lambda>_. advance event)"

definition handleMint ::
    "'v converter \<Rightarrow> (bcForgeEvent \<times> MintEventData \<Rightarrow> bool) \<Rightarrow> 'v EventResponse \<Rightarrow>
     MintEventData listener_act" where
  "handleMint conv bad event s =
     (case decodeEvent conv event of
        Some decoded \<Rightarrow>
          if ev_type decoded = eventSymbol MINT then
            let txHash = orElse (ev_txHash decoded) (orElse (res_txHash event) (res_id event))
            in if alreadySeen txHash s then ret () s
               else andThen (markSeen txHash) (\<lambda>_.
                    andThen (case decodeMintEventData (ev_data decoded) of
                               None \<Rightarrow> ret () | Some d \<Rightarrow> callback bad (decoded, d))
                      (\<lambda>_. advance event)) s
          else advance event s
      | None \<Rightarrow> advance event s)"

text \<open>Either kind of transfer data reaches the callback of \<^verbatim>\<open>onTransfer\<close>.\<close>

type_synonym transfer_data = "TransferEventData + TransferFromEventData"

definition handleTransfer ::
    "'v converter \<Rightarrow> (bcForgeEvent \<times> transfer_data \<Rightarrow> bool) \<Rightarrow> 'v EventResponse \<Rightarrow>
     transfer_data listener_act" where
  "handleTransfer conv bad event s =
     (case decodeEvent conv event of
        Some decoded \<Rightarrow>
          if ev_type decoded = eventSymbol TRANSFER \<or> ev_type decoded = eventSymbol TRANSFER_FROM then
            let txHash = orElse (ev_txHash decoded) (orElse (res_txHash event) (res_id event))
            in if alreadySeen txHash s then ret () s
               else andThen (markSeen txHash) (\<lambda>_.
                    andThen (if ev_type decoded = eventSymbol TRANSFER
                             then (case decodeTransferEventData (ev_data decoded) of
                                     None \<Rightarrow> ret () | Some d \<Rightarrow> callback bad (decoded, Inl d))
                             else (case decodeTransferFromEventData (ev_data decoded) of
                                     None \<Rightarrow> ret () | Some d \<Rightarrow> callback bad (decoded, Inr d)))
                      (\<lambda>_. advance event)) s
          else advance event s
      | None \<Rightarrow> advance event s)"

definition topicSymbolOf :: "'v converter \<Rightarrow> 'v EventResponse \<Rightarrow> Native" where
  "topicSymbolOf conv event =
     (case res_topic event of
        Some (t0 # _) \<Rightarrow> (case conv t0 of Inl _ \<Rightarrow> NUndef | Inr v \<Rightarrow> v)
      | _ \<Rightarrow> NUndef)"

definition handleDeposit ::
    "'v converter \<Rightarrow> string \<Rightarrow> (bcForgeEvent \<times> DepositEventData \<Rightarrow> bool) \<Rightarrow> 'v EventResponse \<Rightarrow>
     DepositEventData listener_act" where
  "handleDeposit conv contractId bad event s =
     (if topicSymbolOf conv event = NStr ''deposit'' then
        let txHash = orElse (res_txHash event) (res_id event)
        in if alreadySeen txHash s then ret () s
           else andThen (markSeen txHash) (\<lambda>_.
                andThen (fromSum (conv (res_value event))) (\<lambda>v.
                andThen (case decodeDepositEventData v of
                           None \<Rightarrow> ret ()
                         | Some d \<Rightarrow> callback bad
                             (\<lparr>ev_type = ''deposit'', ev_ledger = res_ledger event,
                               ev_contractId = (case res_contractId event of None \<Rightarrow> contractId | Some c \<Rightarrow> c),
                               ev_data = v, ev_txHash = txHash\<rparr>, d))
                  (\<lambda>_. advance event))) s
      else advance event s)"

text \<open>
  What can happen to a listener. A poll handles the events of the answer in order; a failed
  request or an exception ends the poll, and the next timer tries again.
\<close>

datatype 'v Tick =
    TimerFires
  | Answer "'v EventResponse list"
  | RequestFails
  | Unsubscribe

fun listenerStep ::
    "('v EventResponse \<Rightarrow> 'd listener_act) \<Rightarrow> 'v Tick \<Rightarrow> 'd Listener \<Rightarrow> 'd Listener" where
  "listenerStep handle TimerFires s = (if active s then s\<lparr>inFlight := True\<rparr> else s)"
| "listenerStep handle (Answer events) s =
     (if inFlight s
      then (snd (tryCatch (forEach handle events) (\<lambda>_. ret () :: 'd listener_act) s))\<lparr>inFlight := False\<rparr>
      else s)"
| "listenerStep handle RequestFails s = s\<lparr>inFlight := False\<rparr>"
| "listenerStep handle Unsubscribe s = s\<lparr>active := False\<rparr>"

definition runListener ::
    "('v EventResponse \<Rightarrow> 'd listener_act) \<Rightarrow> 'v Tick list \<Rightarrow> 'd Listener \<Rightarrow> 'd Listener" where
  "runListener handle ticks s = fold (listenerStep handle) ticks s"

definition subscribeEvents where
  "subscribeEvents conv bad startLedger latest ticks =
     map_sum id (\<lambda>start. runListener (handleSubscribed conv bad) ticks (newListener start))
       (subscribeStart startLedger latest)"

definition onMint where
  "onMint conv bad startLedger latest ticks =
     runListener (handleMint conv bad) ticks (newListener (listenerStart startLedger latest))"

definition onTransfer where
  "onTransfer conv bad startLedger latest ticks =
     runListener (handleTransfer conv bad) ticks (newListener (listenerStart startLedger latest))"

definition onVaultDeposit where
  "onVaultDeposit conv contractId bad startLedger latest ticks =
     runListener (handleDeposit conv contractId bad) ticks
       (newListener (listenerStart startLedger latest))"

subsection \<open>Event data layouts\<close>

text \<open>The tuples the contracts emit, current and legacy, as the comment in the source lists them.\<close>

definition tuple :: "Native list \<Rightarrow> int option \<Rightarrow> Native" where
  "tuple fs version = NList (fs @ (case version of None \<Rightarrow> [] | Some v \<Rightarrow> [NNum v]))"

lemma decodeVersionedTuple_tuple:
  "length fs = n \<Longrightarrow> \<exists>vs. decodeVersionedTuple (tuple fs version) n =
     Some (vs, Fin (of_int (case version of None \<Rightarrow> 0 | Some v \<Rightarrow> v))) \<and>
     (\<forall>i < n. vs ! i = fs ! i)"
  by (cases version) (auto simp: tuple_def nth_append)

lemma decodeVersionedTuple_None_iff:
  "decodeVersionedTuple v n = None \<longleftrightarrow> (\<forall>vs. v = NList vs \<longrightarrow> length vs \<noteq> n \<and> length vs \<noteq> n + 1)"
  by (cases v) auto

text \<open>
  C25. Every event tuple in the documented layout, with the schema version at the end or in the
  legacy form without it, decodes to its fields in order and its version (0 for the legacy
  form), for all six event kinds; and a mint value of any other shape decodes to nothing.
\<close>

theorem event_data_layouts:
  "decodeMintEventData (tuple [a, b, c, d, e] version) = Some \<lparr>mint_version = Fin (of_int ver),
     mint_admin = a, mint_to = b, mint_amount = c, mint_new_balance = d, mint_new_supply = e\<rparr> \<and>
   decodeBurnEventData (tuple [a, b, c, d] version) = Some \<lparr>burn_version = Fin (of_int ver),
     burn_from = a, burn_amount = b, burn_new_balance = c, burn_new_supply = d\<rparr> \<and>
   decodeTransferEventData (tuple [a, b, c] version) = Some \<lparr>xfer_version = Fin (of_int ver),
     xfer_from = a, xfer_to = b, xfer_amount = c\<rparr> \<and>
   decodeTransferFromEventData (tuple [a, b, c, d, e] version) = Some \<lparr>xfrm_version = Fin (of_int ver),
     xfrm_spender = a, xfrm_from = b, xfrm_to = c, xfrm_amount = d, xfrm_remaining_allowance = e\<rparr> \<and>
   decodeDepositEventData (tuple [a, b, c] version) = Some \<lparr>dep_version = Fin (of_int ver),
     dep_caller = a, dep_assets = b, dep_shares = c\<rparr> \<and>
   decodeWithdrawEventData (tuple [a, b, c] version) = Some \<lparr>wd_version = Fin (of_int ver),
     wd_caller = a, wd_shares = b, wd_underlying_amount = c\<rparr> \<and>
   (decodeMintEventData v = None \<longleftrightarrow> (\<nexists>vs. v = NList vs \<and> length vs \<in> {5, 6}))"
  if "ver = (case version of None \<Rightarrow> 0 | Some n \<Rightarrow> n)"
proof -
  have "decodeMintEventData v = None \<longleftrightarrow> (\<nexists>vs. v = NList vs \<and> length vs \<in> {5, 6})"
    by (auto simp: decodeMintEventData_def decodeVersionedTuple_None_iff)
  with that show ?thesis
    using decodeVersionedTuple_tuple [of "[a, b, c, d, e]" 5 version]
      decodeVersionedTuple_tuple [of "[a, b, c, d]" 4 version]
      decodeVersionedTuple_tuple [of "[a, b, c]" 3 version]
    by (auto simp: decodeMintEventData_def decodeBurnEventData_def decodeTransferEventData_def
        decodeTransferFromEventData_def decodeDepositEventData_def decodeWithdrawEventData_def)
qed

theorem event_data_layouts_witness:
  "decodeBurnEventData (NList [NStr ''G1'', NBig 5, NBig 7, NBig 100, NNum 1]) =
     Some \<lparr>burn_version = Fin 1, burn_from = NStr ''G1'', burn_amount = NBig 5,
       burn_new_balance = NBig 7, burn_new_supply = NBig 100\<rparr>"
  using event_data_layouts [of 1 "Some 1" "NStr ''G1''" "NBig 5" "NBig 7" "NBig 100"]
  by (simp add: tuple_def)

subsection \<open>Laws of the listeners\<close>

text \<open>What every event handler does to the variables of its listener.\<close>

locale listener =
  fixes handle :: "'v EventResponse \<Rightarrow> 'd listener_act"
  assumes handle_flags: "active (snd (handle e s)) = active s" "inFlight (snd (handle e s)) = inFlight s"
    and handle_ledger: "lastLedger s \<le> lastLedger (snd (handle e s))"
begin

lemma forEach_flags:
  "active (snd (forEach handle es s)) = active s"
  "inFlight (snd (forEach handle es s)) = inFlight s"
  "lastLedger s \<le> lastLedger (snd (forEach handle es s))"
proof (induction es arbitrary: s)
  case (Cons e es)
  { case 1 then show ?case using Cons handle_flags [of e s] by (auto simp: andThen_def split: prod.splits sum.splits) }
  { case 2 then show ?case using Cons handle_flags [of e s] by (auto simp: andThen_def split: prod.splits sum.splits) }
  { case 3 then show ?case using Cons(3) [of "snd (handle e s)"] handle_ledger [of s e]
      by (auto simp: andThen_def split: prod.splits sum.splits) }
qed simp_all

lemma step_Answer:
  "listenerStep handle (Answer es) s =
     (if inFlight s then (snd (forEach handle es s))\<lparr>inFlight := False\<rparr> else s)"
  by (auto simp: tryCatch_def split: prod.splits sum.splits)

lemma step_ledger: "lastLedger s \<le> lastLedger (listenerStep handle t s)"
  using forEach_flags(3) by (cases t) (auto simp: step_Answer simp del: listenerStep.simps(2))

lemma run_ledger: "lastLedger s \<le> lastLedger (runListener handle ts s)"
  unfolding runListener_def
  by (induction ts arbitrary: s) (auto intro: order_trans [OF step_ledger])

lemma run_inactive:
  "\<not> active s \<Longrightarrow> \<not> inFlight s \<Longrightarrow> delivered (runListener handle ts s) = delivered s"
  unfolding runListener_def
proof (induction ts arbitrary: s)
  case (Cons t ts)
  then show ?case by (cases t) auto
qed simp

end

text \<open>The handlers that also remember transaction hashes.\<close>

definition hashOf :: "bcForgeEvent \<times> 'd \<Rightarrow> string option" where
  "hashOf x = (if truthy (ev_txHash (fst x)) then ev_txHash (fst x) else None)"

locale once_listener = listener +
  assumes handle_seen: "seenTxHashes s \<subseteq> seenTxHashes (snd (handle e s))"
    and handle_delivers: "delivered (snd (handle e s)) = delivered s \<or>
      (\<exists>x. delivered (snd (handle e s)) = delivered s @ [x] \<and>
        (\<forall>h. hashOf x = Some h \<longrightarrow> h \<notin> seenTxHashes s \<and> h \<in> seenTxHashes (snd (handle e s))))"
begin

definition once :: "'b Listener \<Rightarrow> bool" where
  "once s \<longleftrightarrow> distinct (List.map_filter hashOf (delivered s)) \<and>
     set (List.map_filter hashOf (delivered s)) \<subseteq> seenTxHashes s"

lemma handle_once: "once s \<Longrightarrow> once (snd (handle e s))"
proof -
  assume o: "once s"
  from handle_delivers [of e s] show ?thesis
  proof
    assume "delivered (snd (handle e s)) = delivered s"
    with o handle_seen show ?thesis by (fastforce simp: once_def)
  next
    assume "\<exists>x. delivered (snd (handle e s)) = delivered s @ [x] \<and>
        (\<forall>h. hashOf x = Some h \<longrightarrow> h \<notin> seenTxHashes s \<and> h \<in> seenTxHashes (snd (handle e s)))"
    then obtain x where "delivered (snd (handle e s)) = delivered s @ [x]"
      "\<forall>h. hashOf x = Some h \<longrightarrow> h \<notin> seenTxHashes s \<and> h \<in> seenTxHashes (snd (handle e s))" by blast
    with o handle_seen [of s e] show ?thesis
      by (cases "hashOf x") (auto simp: once_def map_filter_def)
  qed
qed

lemma forEach_once: "once s \<Longrightarrow> once (snd (forEach handle es s))"
proof (induction es arbitrary: s)
  case (Cons e es)
  from Cons.IH [OF handle_once [OF Cons.prems, of e]] handle_once [OF Cons.prems, of e]
  show ?case by (auto simp: andThen_def split: prod.splits sum.splits)
qed simp

lemma run_once: "once s \<Longrightarrow> once (runListener handle ts s)"
  unfolding runListener_def
proof (induction ts arbitrary: s)
  case (Cons t ts)
  have "once (listenerStep handle t s)"
    using Cons.prems forEach_once [OF Cons.prems]
    by (cases t) (auto simp: once_def step_Answer simp del: listenerStep.simps(2))
  with Cons.IH show ?case by simp
qed simp

lemma new_once: "once (newListener n)"
  by (simp add: once_def newListener_def)

end

subsection \<open>The four listeners satisfy the laws\<close>

lemmas listener_effects = callback_def advance_def markSeen_def

lemma effect_flags [simp]:
  "active (snd (callback bad x s)) = active s" "inFlight (snd (callback bad x s)) = inFlight s"
  "lastLedger (snd (callback bad x s)) = lastLedger s"
  "seenTxHashes (snd (callback bad x s)) = seenTxHashes s"
  "delivered (snd (callback bad x s)) = delivered s @ [x]"
  "active (snd (advance e s)) = active s" "inFlight (snd (advance e s)) = inFlight s"
  "seenTxHashes (snd (advance e s)) = seenTxHashes s" "delivered (snd (advance e s)) = delivered s"
  "active (snd (markSeen h s)) = active s" "inFlight (snd (markSeen h s)) = inFlight s"
  "lastLedger (snd (markSeen h s)) = lastLedger s" "delivered (snd (markSeen h s)) = delivered s"
  "seenTxHashes (snd (markSeen h s)) = (if truthy h then insert (the h) (seenTxHashes s) else seenTxHashes s)"
  "fst (advance e s) = Inr ()" "fst (markSeen h s) = Inr ()"
  by (simp_all add: listener_effects)

lemma advance_ledger [simp]: "lastLedger s \<le> lastLedger (snd (advance e s))"
  by (simp add: advance_def)

text \<open>The shape all deduplicating handlers share, once the event is known to be of interest.\<close>

definition deliverOnce ::
    "string option \<Rightarrow> 'd listener_act \<Rightarrow> 'v EventResponse \<Rightarrow> 'd listener_act" where
  "deliverOnce h body event s =
     (if alreadySeen h s then (Inr (), s)
      else andThen (markSeen h) (\<lambda>_. andThen body (\<lambda>_. advance event)) s)"

text \<open>A body that calls the callback at most once, on an event that carries this hash.\<close>

definition callsWith :: "string option \<Rightarrow> 'd listener_act \<Rightarrow> bool" where
  "callsWith h body \<longleftrightarrow> (\<forall>s. active (snd (body s)) = active s \<and> inFlight (snd (body s)) = inFlight s \<and>
     lastLedger (snd (body s)) = lastLedger s \<and> seenTxHashes (snd (body s)) = seenTxHashes s \<and>
     (delivered (snd (body s)) = delivered s \<or>
      (\<exists>x. delivered (snd (body s)) = delivered s @ [x] \<and>
         (truthy (ev_txHash (fst x)) \<longrightarrow> ev_txHash (fst x) = h))))"

lemma callsWith_ret [intro, simp]: "callsWith h (ret ())" "callsWith h (Pair (Inr ()))"
  by (simp_all add: callsWith_def)

lemma callsWith_callback [intro]:
  "(truthy (ev_txHash (fst x)) \<Longrightarrow> ev_txHash (fst x) = h) \<Longrightarrow> callsWith h (callback bad x)"
  by (auto simp: callsWith_def)

lemma callsWith_fromSum:
  "(\<And>v. callsWith h (f v)) \<Longrightarrow> callsWith h (andThen (fromSum r) f)"
  by (cases r) (auto simp: fromSum_def callsWith_def)

lemma callsWith_advance:
  assumes "callsWith h body"
  shows "active (snd (andThen body (\<lambda>_. advance e) s)) = active s"
    "inFlight (snd (andThen body (\<lambda>_. advance e) s)) = inFlight s"
    "lastLedger s \<le> lastLedger (snd (andThen body (\<lambda>_. advance e) s))"
    "seenTxHashes (snd (andThen body (\<lambda>_. advance e) s)) = seenTxHashes s"
    "delivered (snd (andThen body (\<lambda>_. advance e) s)) = delivered (snd (body s))"
proof -
  let ?t = "snd (body s)"
  have t: "active ?t = active s" "inFlight ?t = inFlight s" "lastLedger ?t = lastLedger s"
      "seenTxHashes ?t = seenTxHashes s"
    using assms by (auto simp: callsWith_def)
  have "snd (andThen body (\<lambda>_. advance e) s) = ?t \<or>
      snd (andThen body (\<lambda>_. advance e) s) = snd (advance e ?t)"
    by (cases "body s") (auto simp: andThen_def split: sum.splits)
  then show "active (snd (andThen body (\<lambda>_. advance e) s)) = active s"
    "inFlight (snd (andThen body (\<lambda>_. advance e) s)) = inFlight s"
    "lastLedger s \<le> lastLedger (snd (andThen body (\<lambda>_. advance e) s))"
    "seenTxHashes (snd (andThen body (\<lambda>_. advance e) s)) = seenTxHashes s"
    "delivered (snd (andThen body (\<lambda>_. advance e) s)) = delivered ?t"
    using t advance_ledger [of ?t e] by (elim disjE; simp)+
qed

lemma andThen_markSeen: "andThen (markSeen h) f s = f () (snd (markSeen h s))"
  by (simp add: andThen_def markSeen_def)

lemma deliverOnce_laws:
  assumes body: "callsWith h body"
  shows "active (snd (deliverOnce h body e s)) = active s"
    "inFlight (snd (deliverOnce h body e s)) = inFlight s"
    "lastLedger s \<le> lastLedger (snd (deliverOnce h body e s))"
    "seenTxHashes s \<subseteq> seenTxHashes (snd (deliverOnce h body e s))"
    "delivered (snd (deliverOnce h body e s)) = delivered s \<or>
      (\<exists>x. delivered (snd (deliverOnce h body e s)) = delivered s @ [x] \<and>
        (\<forall>k. hashOf x = Some k \<longrightarrow> k \<notin> seenTxHashes s \<and> k \<in> seenTxHashes (snd (deliverOnce h body e s))))"
proof -
  let ?s1 = "snd (markSeen h s)"
  have unfold: "deliverOnce h body e s =
      (if alreadySeen h s then (Inr (), s) else andThen body (\<lambda>_. advance e) ?s1)"
    by (simp add: deliverOnce_def andThen_markSeen)
  note adv = callsWith_advance [OF body, where s = ?s1 and e = e]
  show "active (snd (deliverOnce h body e s)) = active s"
    "inFlight (snd (deliverOnce h body e s)) = inFlight s"
    "lastLedger s \<le> lastLedger (snd (deliverOnce h body e s))"
    "seenTxHashes s \<subseteq> seenTxHashes (snd (deliverOnce h body e s))"
    using adv by (auto simp: unfold)
  have "delivered (snd (body ?s1)) = delivered s \<or>
      (\<exists>x. delivered (snd (body ?s1)) = delivered s @ [x] \<and>
         (truthy (ev_txHash (fst x)) \<longrightarrow> ev_txHash (fst x) = h))"
    using body unfolding callsWith_def by (metis effect_flags(13))
  then show "delivered (snd (deliverOnce h body e s)) = delivered s \<or>
      (\<exists>x. delivered (snd (deliverOnce h body e s)) = delivered s @ [x] \<and>
        (\<forall>k. hashOf x = Some k \<longrightarrow> k \<notin> seenTxHashes s \<and> k \<in> seenTxHashes (snd (deliverOnce h body e s))))"
  proof (elim disjE exE conjE)
    fix x
    assume d: "delivered (snd (body ?s1)) = delivered s @ [x]"
      and h: "truthy (ev_txHash (fst x)) \<longrightarrow> ev_txHash (fst x) = h"
    show ?thesis
    proof (cases "alreadySeen h s")
      case False
      have "k \<notin> seenTxHashes s \<and> k \<in> seenTxHashes ?s1" if "hashOf x = Some k" for k
        using that h False by (auto simp: hashOf_def alreadySeen_def split: if_splits)
      with False d adv(4,5) show ?thesis by (auto simp: unfold)
    qed (simp add: unfold)
  qed (simp add: unfold adv(5))
qed

text \<open>Each deduplicating handler advances past an event or delivers it in that shape.\<close>

lemma handleMint_cases:
  "(\<exists>h body. callsWith h body \<and> handleMint conv bad e s = deliverOnce h body e s) \<or>
   handleMint conv bad e s = advance e s"
proof (cases "decodeEvent conv e")
  case (Some d)
  let ?h = "orElse (ev_txHash d) (orElse (res_txHash e) (res_id e))"
  let ?body = "case decodeMintEventData (ev_data d) of None \<Rightarrow> ret () | Some x \<Rightarrow> callback bad (d, x)"
  have "callsWith ?h ?body"
    by (cases "decodeMintEventData (ev_data d)") (auto intro!: callsWith_callback simp: orElse_def)
  moreover have "ev_type d = eventSymbol MINT \<Longrightarrow>
      handleMint conv bad e s = deliverOnce ?h ?body e s"
    by (simp add: handleMint_def deliverOnce_def Some Let_def)
  moreover have "ev_type d \<noteq> eventSymbol MINT \<Longrightarrow> handleMint conv bad e s = advance e s"
    by (simp add: handleMint_def Some)
  ultimately show ?thesis by blast
qed (simp add: handleMint_def)

lemma handleTransfer_cases:
  "(\<exists>h body. callsWith h body \<and> handleTransfer conv bad e s = deliverOnce h body e s) \<or>
   handleTransfer conv bad e s = advance e s"
proof (cases "decodeEvent conv e")
  case (Some d)
  let ?h = "orElse (ev_txHash d) (orElse (res_txHash e) (res_id e))"
  let ?body = "if ev_type d = eventSymbol TRANSFER
      then (case decodeTransferEventData (ev_data d) of
              None \<Rightarrow> ret () | Some x \<Rightarrow> callback bad (d, Inl x))
      else (case decodeTransferFromEventData (ev_data d) of
              None \<Rightarrow> ret () | Some x \<Rightarrow> callback bad (d, Inr x))"
  have "callsWith ?h ?body"
    by (cases "decodeTransferEventData (ev_data d)"; cases "decodeTransferFromEventData (ev_data d)")
       (auto intro!: callsWith_callback simp: orElse_def)
  moreover have "ev_type d = eventSymbol TRANSFER \<or> ev_type d = eventSymbol TRANSFER_FROM \<Longrightarrow>
      handleTransfer conv bad e s = deliverOnce ?h ?body e s"
    by (simp only: handleTransfer_def deliverOnce_def Some Let_def option.case if_True ret_apply)
  moreover have "\<not> (ev_type d = eventSymbol TRANSFER \<or> ev_type d = eventSymbol TRANSFER_FROM) \<Longrightarrow>
      handleTransfer conv bad e s = advance e s"
    by (simp only: handleTransfer_def Some option.case if_False)
  ultimately show ?thesis by blast
qed (simp add: handleTransfer_def)

lemma handleDeposit_cases:
  "(\<exists>h body. callsWith h body \<and> handleDeposit conv c bad e s = deliverOnce h body e s) \<or>
   handleDeposit conv c bad e s = advance e s"
proof (cases "topicSymbolOf conv e = NStr ''deposit''")
  case True
  let ?h = "orElse (res_txHash e) (res_id e)"
  let ?ev = "\<lambda>v. \<lparr>ev_type = ''deposit'', ev_ledger = res_ledger e,
    ev_contractId = (case res_contractId e of None \<Rightarrow> c | Some c \<Rightarrow> c), ev_data = v, ev_txHash = ?h\<rparr>"
  let ?body = "andThen (fromSum (conv (res_value e))) (\<lambda>v.
    case decodeDepositEventData v of None \<Rightarrow> ret () | Some d \<Rightarrow> callback bad (?ev v, d))"
  have "callsWith ?h ?body"
    by (rule callsWith_fromSum) (auto split: option.splits)
  moreover have "handleDeposit conv c bad e s = deliverOnce ?h ?body e s"
    by (simp add: handleDeposit_def deliverOnce_def True Let_def andThen_assoc)
  ultimately show ?thesis by blast
qed (simp add: handleDeposit_def)

lemma once_laws:
  assumes "(\<exists>h body. callsWith h body \<and> f e s = deliverOnce h body e s) \<or> f e s = advance e s"
  shows "active (snd (f e s)) = active s" "inFlight (snd (f e s)) = inFlight s"
    "lastLedger s \<le> lastLedger (snd (f e s))" "seenTxHashes s \<subseteq> seenTxHashes (snd (f e s))"
    "delivered (snd (f e s)) = delivered s \<or>
      (\<exists>x. delivered (snd (f e s)) = delivered s @ [x] \<and>
        (\<forall>k. hashOf x = Some k \<longrightarrow> k \<notin> seenTxHashes s \<and> k \<in> seenTxHashes (snd (f e s))))"
proof -
  have "active (snd (f e s)) = active s \<and>
      inFlight (snd (f e s)) = inFlight s \<and> lastLedger s \<le> lastLedger (snd (f e s)) \<and>
      seenTxHashes s \<subseteq> seenTxHashes (snd (f e s)) \<and>
      (delivered (snd (f e s)) = delivered s \<or>
       (\<exists>x. delivered (snd (f e s)) = delivered s @ [x] \<and>
        (\<forall>k. hashOf x = Some k \<longrightarrow> k \<notin> seenTxHashes s \<and> k \<in> seenTxHashes (snd (f e s)))))"
  proof (cases "f e s = advance e s")
    case False
    with assms obtain h body where "callsWith h body" and eq: "f e s = deliverOnce h body e s" by blast
    from deliverOnce_laws [OF this(1), where e = e and s = s] show ?thesis unfolding eq by blast
  qed simp
  then show "active (snd (f e s)) = active s" "inFlight (snd (f e s)) = inFlight s"
    "lastLedger s \<le> lastLedger (snd (f e s))" "seenTxHashes s \<subseteq> seenTxHashes (snd (f e s))"
    "delivered (snd (f e s)) = delivered s \<or>
      (\<exists>x. delivered (snd (f e s)) = delivered s @ [x] \<and>
        (\<forall>k. hashOf x = Some k \<longrightarrow> k \<notin> seenTxHashes s \<and> k \<in> seenTxHashes (snd (f e s))))"
    by blast+
qed

interpretation mint_listener: once_listener "handleMint conv bad" for conv bad
  by unfold_locales (rule once_laws [where f = "handleMint conv bad", OF handleMint_cases])+

interpretation transfer_listener: once_listener "handleTransfer conv bad" for conv bad
  by unfold_locales (rule once_laws [where f = "handleTransfer conv bad", OF handleTransfer_cases])+

interpretation deposit_listener: once_listener "handleDeposit conv c bad" for conv c bad
  by unfold_locales (rule once_laws [where f = "handleDeposit conv c bad", OF handleDeposit_cases])+

lemma handleSubscribed_laws:
  "active (snd (handleSubscribed conv bad e s)) = active s"
  "inFlight (snd (handleSubscribed conv bad e s)) = inFlight s"
  "lastLedger s \<le> lastLedger (snd (handleSubscribed conv bad e s))"
proof -
  let ?body = "case decodeEvent conv e of None \<Rightarrow> ret () | Some d \<Rightarrow> callback bad (d, ())"
  have "\<exists>h. callsWith h ?body" by (cases "decodeEvent conv e") auto
  then obtain h where h: "callsWith h ?body" ..
  note callsWith_advance(1-3) [OF h, where e = e and s = s]
  then show "active (snd (handleSubscribed conv bad e s)) = active s"
    "inFlight (snd (handleSubscribed conv bad e s)) = inFlight s"
    "lastLedger s \<le> lastLedger (snd (handleSubscribed conv bad e s))"
    by (simp_all only: handleSubscribed_def)
qed

interpretation subscription: listener "handleSubscribed conv bad" for conv bad
  by unfold_locales (rule handleSubscribed_laws)+

subsection \<open>Properties of the listeners\<close>

lemma runListener_append: "runListener h (ts @ us) s = runListener h us (runListener h ts s)"
  by (simp add: runListener_def)

text \<open>
  C26. Whatever the node answers, in whatever order timers, answers, failures and the unsubscribe
  call come, and even when the callback throws, the mint, transfer and deposit listeners call
  back at most once for any transaction hash. Their start ledger never moves backwards: it is
  never below where the listener began, and at no later moment of a run is it below what it
  was at an earlier one.
\<close>

theorem listeners_call_back_once:
  "distinct (List.map_filter hashOf (delivered (onMint conv bad start latest ticks))) \<and>
   distinct (List.map_filter hashOf (delivered (onTransfer conv bad' start latest ticks))) \<and>
   distinct (List.map_filter hashOf (delivered (onVaultDeposit conv c bad'' start latest ticks))) \<and>
   listenerStart start latest \<le> lastLedger (onMint conv bad start latest ticks) \<and>
   listenerStart start latest \<le> lastLedger (onTransfer conv bad' start latest ticks) \<and>
   listenerStart start latest \<le> lastLedger (onVaultDeposit conv c bad'' start latest ticks) \<and>
   lastLedger (onMint conv bad start latest ticks) \<le>
     lastLedger (onMint conv bad start latest (ticks @ later)) \<and>
   lastLedger (onTransfer conv bad' start latest ticks) \<le>
     lastLedger (onTransfer conv bad' start latest (ticks @ later)) \<and>
   lastLedger (onVaultDeposit conv c bad'' start latest ticks) \<le>
     lastLedger (onVaultDeposit conv c bad'' start latest (ticks @ later))"
proof -
  have ledger: "lastLedger (newListener n) = n" for n by (simp add: newListener_def)
  show ?thesis
    unfolding onMint_def onTransfer_def onVaultDeposit_def
    using mint_listener.run_once [OF mint_listener.new_once, of conv bad]
      transfer_listener.run_once [OF transfer_listener.new_once, of conv bad']
      deposit_listener.run_once [OF deposit_listener.new_once, of conv c bad'']
      mint_listener.run_ledger [of "newListener (listenerStart start latest)" conv bad ticks]
      transfer_listener.run_ledger [of "newListener (listenerStart start latest)" conv bad' ticks]
      deposit_listener.run_ledger [of "newListener (listenerStart start latest)" conv c bad'' ticks]
    by (simp add: mint_listener.once_def transfer_listener.once_def deposit_listener.once_def ledger
        runListener_append mint_listener.run_ledger transfer_listener.run_ledger deposit_listener.run_ledger)
qed

lemma runListener_unsubscribe:
  "runListener h (Unsubscribe # us) s = runListener h us (s\<lparr>active := False\<rparr>)"
  by (simp add: runListener_def)

text \<open>
  Once the unsubscribe function of a listener or subscription has run and no request is in
  flight, the callback is never called again, whatever timers still fire and whatever arrives.
\<close>

theorem unsubscribe_stops_callbacks:
  assumes "\<not> inFlight (runListener (handleMint conv bad1) ticks s1)"
    and "\<not> inFlight (runListener (handleTransfer conv bad2) ticks s2)"
    and "\<not> inFlight (runListener (handleDeposit conv c bad3) ticks s3)"
    and "\<not> inFlight (runListener (handleSubscribed conv bad4) ticks s4)"
  shows "delivered (runListener (handleMint conv bad1) (ticks @ Unsubscribe # later) s1) =
           delivered (runListener (handleMint conv bad1) ticks s1) \<and>
         delivered (runListener (handleTransfer conv bad2) (ticks @ Unsubscribe # later) s2) =
           delivered (runListener (handleTransfer conv bad2) ticks s2) \<and>
         delivered (runListener (handleDeposit conv c bad3) (ticks @ Unsubscribe # later) s3) =
           delivered (runListener (handleDeposit conv c bad3) ticks s3) \<and>
         delivered (runListener (handleSubscribed conv bad4) (ticks @ Unsubscribe # later) s4) =
           delivered (runListener (handleSubscribed conv bad4) ticks s4)"
  using assms
  by (simp add: runListener_append runListener_unsubscribe mint_listener.run_inactive
      transfer_listener.run_inactive deposit_listener.run_inactive subscription.run_inactive)

definition sampleMint :: "string \<Rightarrow> int \<Rightarrow> Native EventResponse" where
  "sampleMint h n = \<lparr>res_topic = Some [NStr ''mint''], res_ledger = n, res_contractId = Some ''C1'',
     res_value = NList [NStr ''GA'', NStr ''GB'', NBig 5, NBig 5, NBig 5, NNum 1],
     res_txHash = Some h, res_id = None\<rparr>"

theorem unsubscribe_stops_callbacks_witness:
  "delivered (runListener (handleMint Inr (\<lambda>_. False))
     ([Answer [sampleMint ''t1'' 7]] @ Unsubscribe # [TimerFires, Answer [sampleMint ''t2'' 8]]) (newListener 1)) =
   delivered (runListener (handleMint Inr (\<lambda>_. False)) [Answer [sampleMint ''t1'' 7]] (newListener 1)) \<and>
   length (delivered (runListener (handleMint Inr (\<lambda>_. False)) [Answer [sampleMint ''t1'' 7]] (newListener 1))) = 1"
proof (rule conjI)
  have "\<not> inFlight (runListener (handleMint Inr (\<lambda>_. False)) [Answer [sampleMint ''t1'' 7]] (newListener 1))"
    "\<not> inFlight (runListener (handleTransfer Inr (\<lambda>_. False)) [Answer [sampleMint ''t1'' 7]] (newListener 1))"
    "\<not> inFlight (runListener (handleDeposit Inr ''C1'' (\<lambda>_. False)) [Answer [sampleMint ''t1'' 7]] (newListener 1))"
    "\<not> inFlight (runListener (handleSubscribed Inr (\<lambda>_. False)) [Answer [sampleMint ''t1'' 7]] (newListener 1))"
    by (simp_all add: runListener_def newListener_def)
  from unsubscribe_stops_callbacks [OF this]
  show "delivered (runListener (handleMint Inr (\<lambda>_. False))
     ([Answer [sampleMint ''t1'' 7]] @ Unsubscribe # [TimerFires, Answer [sampleMint ''t2'' 8]]) (newListener 1)) =
   delivered (runListener (handleMint Inr (\<lambda>_. False)) [Answer [sampleMint ''t1'' 7]] (newListener 1))"
    by blast
qed code_simp

subsection \<open>What the mint listener delivers\<close>

text \<open>The callback argument an event stands for, and the hash it is remembered under.\<close>

definition mintOf :: "'v converter \<Rightarrow> 'v EventResponse \<Rightarrow> (bcForgeEvent \<times> MintEventData) option" where
  "mintOf conv e =
     (case decodeEvent conv e of
        Some d \<Rightarrow> if ev_type d = eventSymbol MINT
                  then map_option (Pair d) (decodeMintEventData (ev_data d)) else None
      | None \<Rightarrow> None)"

definition mintKey :: "'v converter \<Rightarrow> 'v EventResponse \<Rightarrow> string option" where
  "mintKey conv e =
     (case decodeEvent conv e of
        Some d \<Rightarrow> if ev_type d = eventSymbol MINT
                  then (let h = orElse (ev_txHash d) (orElse (res_txHash e) (res_id e))
                        in if truthy h then h else None)
                  else None
      | None \<Rightarrow> None)"

definition quiet :: "'a \<Rightarrow> bool" where "quiet x = False"

lemma handleMint_fresh:
  assumes "\<forall>k. mintKey conv e = Some k \<longrightarrow> k \<notin> seenTxHashes s"
  shows "fst (handleMint conv quiet e s) = Inr ()"
    and "delivered (snd (handleMint conv quiet e s)) =
       delivered s @ (case mintOf conv e of None \<Rightarrow> [] | Some x \<Rightarrow> [x])"
    and "seenTxHashes (snd (handleMint conv quiet e s)) = seenTxHashes s \<union> set_option (mintKey conv e)"
    and "res_ledger e < lastLedger (snd (handleMint conv quiet e s))"
proof -
  have "\<not> alreadySeen h s" if "decodeEvent conv e = Some d" "ev_type d = eventSymbol MINT"
      "h = orElse (ev_txHash d) (orElse (res_txHash e) (res_id e))" for d h
    using assms that by (auto simp: mintKey_def alreadySeen_def truthy_def)
  then show "fst (handleMint conv quiet e s) = Inr ()"
    "delivered (snd (handleMint conv quiet e s)) =
       delivered s @ (case mintOf conv e of None \<Rightarrow> [] | Some x \<Rightarrow> [x])"
    "seenTxHashes (snd (handleMint conv quiet e s)) = seenTxHashes s \<union> set_option (mintKey conv e)"
    "res_ledger e < lastLedger (snd (handleMint conv quiet e s))"
    by (auto simp: handleMint_def mintOf_def mintKey_def Let_def andThen_def listener_effects quiet_def
        truthy_def split: option.splits)
qed

lemma forEach_handleMint:
  assumes "distinct (List.map_filter (mintKey conv) es)"
    and "set (List.map_filter (mintKey conv) es) \<inter> seenTxHashes s = {}"
  shows "delivered (snd (forEach (handleMint conv quiet) es s)) =
       delivered s @ List.map_filter (mintOf conv) es \<and>
     (\<forall>e \<in> set es. res_ledger e < lastLedger (snd (forEach (handleMint conv quiet) es s)))"
  using assms
proof (induction es arbitrary: s)
  case (Cons e es)
  let ?t = "snd (handleMint conv quiet e s)"
  have fresh: "\<forall>k. mintKey conv e = Some k \<longrightarrow> k \<notin> seenTxHashes s"
    using Cons.prems(2) by (auto simp: map_filter_simps)
  note h = handleMint_fresh [OF fresh]
  have "distinct (List.map_filter (mintKey conv) es)"
    "set (List.map_filter (mintKey conv) es) \<inter> seenTxHashes ?t = {}"
    using Cons.prems by (cases "mintKey conv e"; auto simp: h(3) map_filter_simps)+
  from Cons.IH [OF this] h(1,2,4) mint_listener.forEach_flags(3) [of ?t conv quiet es]
  show ?case
    by (cases "handleMint conv quiet e s") (auto simp: andThen_def map_filter_simps split: option.splits)
qed (simp add: map_filter_simps)

text \<open>
  When the callback does not throw and the mint events of an answer have transaction hashes
  that are new and pairwise different, the mint listener delivers every decodable mint event of
  the answer, in order, and nothing else, and continues behind the last ledger of the answer.
\<close>

theorem onMint_delivers_answer:
  assumes "inFlight s" and "distinct (List.map_filter (mintKey conv) events)"
    and "set (List.map_filter (mintKey conv) events) \<inter> seenTxHashes s = {}"
  shows "delivered (listenerStep (handleMint conv quiet) (Answer events) s) =
       delivered s @ List.map_filter (mintOf conv) events \<and>
     (\<forall>e \<in> set events. res_ledger e < lastLedger (listenerStep (handleMint conv quiet) (Answer events) s))"
  using forEach_handleMint [OF assms(2,3)] assms(1)
  by (simp add: mint_listener.step_Answer del: listenerStep.simps)

theorem onMint_delivers_answer_witness:
  "delivered (listenerStep (handleMint Inr quiet) (Answer [sampleMint ''t1'' 7, sampleMint ''t2'' 7]) (newListener 1)) =
     delivered (newListener 1) @ List.map_filter (mintOf Inr) [sampleMint ''t1'' 7, sampleMint ''t2'' 7] \<and>
   length (List.map_filter (mintOf Inr) [sampleMint ''t1'' 7, sampleMint ''t2'' 7]) = 2"
proof (rule conjI)
  have "inFlight (newListener 1)" "distinct (List.map_filter (mintKey Inr) [sampleMint ''t1'' 7, sampleMint ''t2'' 7])"
    "set (List.map_filter (mintKey Inr) [sampleMint ''t1'' 7, sampleMint ''t2'' 7]) \<inter>
      seenTxHashes (newListener 1) = {}"
    by (simp add: newListener_def) code_simp+
  from onMint_delivers_answer [OF this]
  show "delivered (listenerStep (handleMint Inr quiet) (Answer [sampleMint ''t1'' 7, sampleMint ''t2'' 7]) (newListener 1)) =
     delivered (newListener 1) @ List.map_filter (mintOf Inr) [sampleMint ''t1'' 7, sampleMint ''t2'' 7]"
    by blast
qed code_simp

text \<open>
  Two mint events of one transaction, as a batch mint emits them: only the first is delivered, and
  an event whose callback throws is never delivered again.
\<close>

lemma onMint_drops_second_of_transaction:
  "length (List.map_filter (mintOf Inr) [sampleMint ''t1'' 7, sampleMint ''t1'' 7]) = 2 \<and>
   length (delivered (onMint Inr quiet (Some 1) (Inr 1)
     [Answer [sampleMint ''t1'' 7, sampleMint ''t1'' 7]])) = 1"
  by code_simp

end
