(* ===== verification/SubmitTx.thy ===== *)
theory SubmitTx
  imports SdkErrors SdkEvents
begin

text \<open>
  \<^verbatim>\<open>src/sdk/src/utils.ts\<close>: building, submitting and simulating contract invocations.

  The Stellar SDK and the RPC node are not part of the repository. They are the operations of the
  record \<open>SorobanEnv\<close>, effects on a state \<open>'s\<close> of the node that may throw; the error text they
  throw is arbitrary. Waiting between polls is left out. The loop of \<^verbatim>\<open>submitTransaction\<close> recurses
  on the attempts that are left.
\<close>

subsection \<open>The Stellar SDK and the node\<close>

datatype 'sim Simulation = SimulationFailed string | SimulationOk 'sim | SimulationNone

text \<open>\<^verbatim>\<open>sendTransaction\<close> takes a parsed transaction or an object that only renders its XDR.\<close>

datatype Sendable = ParsedTx string | RawXdr string

record SendResponse =
  send_status :: string
  errorResult :: "string option"
  errorResultXdr :: "string option"
  send_hash :: string

datatype TxStatus = NOT_FOUND | FAILED | SUCCESS

record 'v GetResponse =
  get_status :: TxStatus
  resultXdr :: "string option"
  get_hash :: "string option"
  get_txHash :: string
  get_returnValue :: "'v option"

record ('s, 'acc, 'tx, 'sim, 'v) SorobanEnv =
  getAccount :: "string \<Rightarrow> (sdk_error, 's, 'acc) act"
  dummyAccount :: "string \<Rightarrow> sdk_error + 'acc"
  buildCall :: "'acc \<Rightarrow> string \<Rightarrow> string \<Rightarrow> string \<Rightarrow> string \<Rightarrow> 'v list \<Rightarrow> sdk_error + 'tx"
  simulate :: "'tx \<Rightarrow> (sdk_error, 's, 'sim Simulation) act"
  assemble :: "'tx \<Rightarrow> 'sim Simulation \<Rightarrow> sdk_error + 'tx"
  signTx :: "'tx \<Rightarrow> string \<Rightarrow> 'tx"
  toXDR :: "'tx \<Rightarrow> string"
  fromXDR :: "string \<Rightarrow> string \<Rightarrow> sdk_error + 'tx"
  feeOf :: "'tx \<Rightarrow> string"
  publicKey :: "string \<Rightarrow> string"
  sendTransaction :: "Sendable \<Rightarrow> (sdk_error, 's, SendResponse) act"
  getTransaction :: "string \<Rightarrow> (sdk_error, 's, 'v GetResponse) act"

subsection \<open>Building and simulating\<close>

text \<open>A keypair is named by its secret; \<open>publicKey\<close> gives its address.\<close>

definition buildInvokeTransaction ::
    "('s, 'acc, 'tx, 'sim, 'v) SorobanEnv \<Rightarrow> string \<Rightarrow> string \<Rightarrow> string \<Rightarrow> 'v list \<Rightarrow> string \<Rightarrow>
     int option \<Rightarrow> (sdk_error, 's, string) act" where
  "buildInvokeTransaction env passphrase contractId method args keypair fee =
     andThen (getAccount env (publicKey env keypair)) (\<lambda>account.
     let feeStr = (case fee of Some f \<Rightarrow> if f \<noteq> 0 then show_int f else ''100'' | None \<Rightarrow> ''100'') in
     andThen (fromSum (buildCall env account feeStr passphrase contractId method args)) (\<lambda>tx.
     andThen (simulate env tx) (\<lambda>simulated.
     case simulated of
       SimulationFailed err \<Rightarrow>
         (case parseContractError err (Some method) of
            Some parsed \<Rightarrow> throw (ContractErr parsed)
          | None \<Rightarrow> throw (SimulationError (''Contract simulation failed: '' @ err) (Some err)))
     | _ \<Rightarrow>
         andThen (fromSum (assemble env tx simulated)) (\<lambda>assembled.
         ret (toXDR env (signTx env assembled keypair))))))"

definition buildUnsignedTransaction ::
    "('s, 'acc, 'tx, 'sim, 'v) SorobanEnv \<Rightarrow> string \<Rightarrow> string \<Rightarrow> string \<Rightarrow> 'v list \<Rightarrow> string \<Rightarrow>
     (sdk_error, 's, string) act" where
  "buildUnsignedTransaction env passphrase contractId method args sourcePublicKey =
     andThen (getAccount env sourcePublicKey) (\<lambda>account.
     andThen (fromSum (buildCall env account ''100'' passphrase contractId method args)) (\<lambda>tx.
     andThen (simulate env tx) (\<lambda>simulated.
     case simulated of
       SimulationFailed err \<Rightarrow> throw (OtherError (''Simulation failed: '' @ err))
     | _ \<Rightarrow> andThen (fromSum (assemble env tx simulated)) (\<lambda>assembled.
         ret (toXDR env assembled)))))"

definition signTransaction ::
    "('s, 'acc, 'tx, 'sim, 'v) SorobanEnv \<Rightarrow> string \<Rightarrow> string \<Rightarrow> string \<Rightarrow> sdk_error + string" where
  "signTransaction env txXdr passphrase keypair =
     map_sum id (\<lambda>tx. toXDR env (signTx env tx keypair)) (fromXDR env txXdr passphrase)"

definition simulateTransaction ::
    "('s, 'acc, 'tx, 'sim, 'v) SorobanEnv \<Rightarrow> string \<Rightarrow> string \<Rightarrow> string \<Rightarrow> 'v list \<Rightarrow> string \<Rightarrow>
     (sdk_error, 's, 'sim Simulation) act" where
  "simulateTransaction env passphrase contractId method args sourcePublicKey =
     andThen (fromSum (dummyAccount env sourcePublicKey)) (\<lambda>account.
     andThen (fromSum (buildCall env account ''100'' passphrase contractId method args)) (\<lambda>tx.
     andThen (simulate env tx) (\<lambda>simulated.
     case simulated of
       SimulationFailed err \<Rightarrow> throw (OtherError (''Simulation failed: '' @ err))
     | _ \<Rightarrow> ret simulated)))"

text \<open>A successful simulation: fee, footprint and diagnostic events.\<close>

record ('k, 'v) SimulationSuccess =
  minResourceFee :: string
  readOnly :: "'k list"
  readWrite :: "'k list"
  sim_events :: "'v DiagnosticEvent list option"

record 'k DryRunResult =
  dry_fee :: string
  dry_readOnly :: "'k list"
  dry_readWrite :: "'k list"
  dry_events :: "bcForgeEvent list"

definition simulationToDryRun ::
    "'v converter \<Rightarrow> ('k, 'v) SimulationSuccess Simulation \<Rightarrow> sdk_error + 'k DryRunResult" where
  "simulationToDryRun conv simulated =
     (case simulated of
        SimulationFailed details \<Rightarrow>
          Inl (SimulationError (if details \<noteq> [] then ''Dry-run failed: '' @ details
                 else ''Dry-run returned no simulation result'') (Some details))
      | SimulationNone \<Rightarrow> Inl (SimulationError ''Dry-run returned no simulation result'' None)
      | SimulationOk sim \<Rightarrow>
          Inr \<lparr>dry_fee = minResourceFee sim, dry_readOnly = readOnly sim, dry_readWrite = readWrite sim,
               dry_events = decodeSimulationEvents conv (sim_events sim)\<rparr>)"

text \<open>A hash argument, as hexadecimal text or as bytes. Decoding stops at the first pair that is not hexadecimal.\<close>

datatype HashArg = HexText string | HashBytes string

fun fromHex :: "string \<Rightarrow> string" where
  "fromHex (a # b # s) =
     (case (digit_val a, digit_val b) of
        (Some x, Some y) \<Rightarrow> char_of (x * 16 + y) # fromHex s
      | _ \<Rightarrow> [])"
| "fromHex _ = []"

definition hashToScVal :: "(string \<Rightarrow> 'v) \<Rightarrow> HashArg \<Rightarrow> js_error + 'v" where
  "hashToScVal scvBytes h =
     (let buf = (case h of HexText s \<Rightarrow> fromHex s | HashBytes b \<Rightarrow> b)
      in if length buf \<noteq> 32 then Inl (JsError ''Hash must be exactly 32 bytes'') else Inr (scvBytes buf))"

subsection \<open>Submission options\<close>

datatype FeeCap = CapInteger int | CapText string

record 'v SubmitTransactionOptions =
  maxAttempts :: "int option"
  maxFeeCap :: "FeeCap option"
  sourceKeypair :: "string option"
  networkPassphrase :: "string option"
  opt_contractId :: "string option"
  opt_method :: "string option"
  opt_args :: "'v list option"

definition Networks_TESTNET :: string where
  "Networks_TESTNET = ''Test SDF Network ; September 2015''"

definition feeCap :: "FeeCap option \<Rightarrow> sdk_error + int" where
  "feeCap c =
     (case c of
        None \<Rightarrow> Inr 10000000
      | Some (CapInteger i) \<Rightarrow> Inr i
      | Some (CapText t) \<Rightarrow>
          (case BigInt t of Some i \<Rightarrow> Inr i | None \<Rightarrow> Inl (OtherError ''Cannot convert to a BigInt'')))"

text \<open>Everything a rebuild needs is given; empty strings count as missing.\<close>

definition rebuildArgs :: "'v SubmitTransactionOptions \<Rightarrow> (string \<times> string \<times> 'v list \<times> string) option" where
  "rebuildArgs opts =
     (case (sourceKeypair opts, opt_contractId opts, opt_method opts, opt_args opts) of
        (Some k, Some c, Some me, Some args) \<Rightarrow>
          if c \<noteq> [] \<and> me \<noteq> [] then Some (c, me, args, k) else None
      | _ \<Rightarrow> None)"

definition bumpFee :: "int \<Rightarrow> int \<Rightarrow> int" where
  "bumpFee currentFee cap = (if currentFee * 2 < cap then currentFee * 2 else cap)"

subsection \<open>Classification of failures\<close>

definition includesAny :: "string \<Rightarrow> string list \<Rightarrow> bool" where
  "includesAny s ts \<longleftrightarrow> (\<exists>t \<in> set ts. js_includes s t)"

definition contractFailure :: "string \<Rightarrow> bool" where
  "contractFailure s \<longleftrightarrow> includesAny s [''txFAILED'', ''txfailed'', ''ContractError'', ''Error(Contract'']"

definition sequenceFailure :: "string \<Rightarrow> bool" where
  "sequenceFailure s \<longleftrightarrow> includesAny s [''txBAD_SEQ'', ''txbad_seq'', ''BAD_SEQ'', ''bad_seq'']"

definition feeFailure :: "string \<Rightarrow> bool" where
  "feeFailure s \<longleftrightarrow>
     includesAny s [''txINSUFFICIENT_FEE'', ''txinsufficient_fee'', ''INSUFFICIENT_FEE'', ''insufficient_fee'']"

text \<open>The catch block looks for slightly different texts.\<close>

definition contractFailure' :: "string \<Rightarrow> bool" where
  "contractFailure' s \<longleftrightarrow> includesAny s [''txFAILED'', ''ContractError'', ''Error(Contract'']"

definition sequenceFailure' :: "string \<Rightarrow> bool" where
  "sequenceFailure' s \<longleftrightarrow> includesAny s [''txBAD_SEQ'', ''BAD_SEQ'', ''bad sequence'']"

definition feeFailure' :: "string \<Rightarrow> bool" where
  "feeFailure' s \<longleftrightarrow> includesAny s [''txINSUFFICIENT_FEE'', ''INSUFFICIENT_FEE'', ''insufficient_fee'']"

text \<open>\<^verbatim>\<open>String(error?.message || error || '')\<close>: an error without a message renders as its name.\<close>

fun errorName :: "sdk_error \<Rightarrow> string" where
  "errorName (ContractErr e) = err_name e"
| "errorName (SimulationError m d) = ''SimulationError''"
| "errorName (TransactionSubmissionError m h) = ''TransactionSubmissionError''"
| "errorName (TransactionTimeoutError m h) = ''TransactionTimeoutError''"
| "errorName (RPCError m) = ''RPCError''"
| "errorName (SignerRequiredError m) = ''SignerRequiredError''"
| "errorName (OtherError m) = ''Error''"

definition errorText :: "sdk_error \<Rightarrow> string" where
  "errorText e = (if errorMessage e \<noteq> [] then errorMessage e else errorName e)"

subsection \<open>One attempt\<close>

text \<open>The node's answer, or what to continue with: the transaction and its fee.\<close>

datatype 'v Outcome = Returned "'v GetResponse" | Retry string int

text \<open>
  Errors thrown inside the attempt carry the fee at that moment, which the catch block goes on
  with.
\<close>

type_synonym ('s, 'a) attempt_act = "(sdk_error \<times> int, 's, 'a) act"

definition withFee :: "int \<Rightarrow> (sdk_error, 's, 'a) act \<Rightarrow> ('s, 'a) attempt_act" where
  "withFee fee f s = (case f s of (Inl e, s') \<Rightarrow> (Inl (e, fee), s') | (Inr x, s') \<Rightarrow> (Inr x, s'))"

definition orText :: "string option \<Rightarrow> string \<Rightarrow> string" where
  "orText a b = (if truthy a then the a else b)"

definition errorStr :: "SendResponse \<Rightarrow> string" where
  "errorStr r = orText (errorResult r) '''' @ '' '' @ orText (errorResultXdr r) ''''"

definition sendCurrent ::
    "('s, 'acc, 'tx, 'sim, 'v) SorobanEnv \<Rightarrow> string \<Rightarrow> string \<Rightarrow> (sdk_error, 's, SendResponse) act" where
  "sendCurrent env xdr passphrase =
     tryCatch (andThen (fromSum (fromXDR env xdr passphrase)) (\<lambda>tx. sendTransaction env (ParsedTx xdr)))
       (\<lambda>_. sendTransaction env (RawXdr xdr))"

definition rebuild ::
    "('s, 'acc, 'tx, 'sim, 'v) SorobanEnv \<Rightarrow> string \<Rightarrow> string \<times> string \<times> 'v list \<times> string \<Rightarrow> int \<Rightarrow>
     (sdk_error, 's, string) act" where
  "rebuild env passphrase b fee =
     (case b of (c, me, args, k) \<Rightarrow>
        buildInvokeTransaction env passphrase c me args k (Some fee))"

definition submissionError :: "string \<Rightarrow> SendResponse \<Rightarrow> sdk_error" where
  "submissionError pre r =
     TransactionSubmissionError (pre @ orText (errorResult r) (errorStr r)) (Some (send_hash r))"

definition handleSendError ::
    "('s, 'acc, 'tx, 'sim, 'v) SorobanEnv \<Rightarrow> 'v SubmitTransactionOptions \<Rightarrow> int \<Rightarrow> string \<Rightarrow> bool \<Rightarrow> int \<Rightarrow>
     SendResponse \<Rightarrow> ('s, 'v Outcome) attempt_act" where
  "handleSendError env opts cap passphrase attemptsLeft fee r =
     (if contractFailure (errorStr r) then
        (case parseContractError (errorStr r) (opt_method opts) of
           Some parsed \<Rightarrow> throw (ContractErr parsed, fee)
         | None \<Rightarrow> throw (submissionError ''Transaction submission failed: '' r, fee))
      else if sequenceFailure (errorStr r) then
        (case rebuildArgs opts of
           Some b \<Rightarrow>
             if attemptsLeft
             then andThen (withFee fee (rebuild env passphrase b fee)) (\<lambda>xdr. ret (Retry xdr fee))
             else throw (submissionError ''Transaction submission failed (sequence error): '' r, fee)
         | None \<Rightarrow> throw (submissionError ''Transaction submission failed (sequence error): '' r, fee))
      else if feeFailure (errorStr r) then
        (case rebuildArgs opts of
           Some b \<Rightarrow>
             if attemptsLeft \<and> fee < cap \<and> bumpFee fee cap > fee
             then let fee' = bumpFee fee cap in
                  andThen (withFee fee' (rebuild env passphrase b fee')) (\<lambda>xdr. ret (Retry xdr fee'))
             else throw (submissionError ''Transaction submission failed (fee error): '' r, fee)
         | None \<Rightarrow> throw (submissionError ''Transaction submission failed (fee error): '' r, fee))
      else throw (submissionError ''Transaction submission failed: '' r, fee))"

text \<open>At most 30 polls; the number is what is left after the first.\<close>

fun pollTransaction ::
    "('s, 'acc, 'tx, 'sim, 'v) SorobanEnv \<Rightarrow> string \<Rightarrow> nat \<Rightarrow> (sdk_error, 's, 'v GetResponse) act" where
  "pollTransaction env h 0 = getTransaction env h"
| "pollTransaction env h (Suc n) =
     andThen (getTransaction env h) (\<lambda>g.
       if get_status g = NOT_FOUND then pollTransaction env h n else ret g)"

definition maxPollAttempts :: nat where "maxPollAttempts = 30"

definition awaitTransaction ::
    "('s, 'acc, 'tx, 'sim, 'v) SorobanEnv \<Rightarrow> string option \<Rightarrow> string \<Rightarrow> (sdk_error, 's, 'v GetResponse) act" where
  "awaitTransaction env method h =
     andThen (pollTransaction env h (maxPollAttempts - 1)) (\<lambda>g.
       case get_status g of
         NOT_FOUND \<Rightarrow>
           throw (TransactionTimeoutError ''Transaction not found after maximum polling attempts'' h)
       | FAILED \<Rightarrow>
           (let err = orText (resultXdr g) ''Transaction execution failed on ledger''
            in case parseContractError err method of
                 Some parsed \<Rightarrow> throw (ContractErr parsed)
               | None \<Rightarrow> throw (TransactionSubmissionError (''Transaction failed: '' @ err) (Some h)))
       | SUCCESS \<Rightarrow> ret g)"

definition attemptBody ::
    "('s, 'acc, 'tx, 'sim, 'v) SorobanEnv \<Rightarrow> 'v SubmitTransactionOptions \<Rightarrow> int \<Rightarrow> string \<Rightarrow> bool \<Rightarrow> string \<Rightarrow>
     int \<Rightarrow> ('s, 'v Outcome) attempt_act" where
  "attemptBody env opts cap passphrase attemptsLeft xdr fee =
     andThen (withFee fee (sendCurrent env xdr passphrase)) (\<lambda>r.
       if send_status r = ''ERROR'' then handleSendError env opts cap passphrase attemptsLeft fee r
       else andThen (withFee fee (awaitTransaction env (opt_method opts) (send_hash r)))
              (\<lambda>g. ret (Returned g)))"

subsection \<open>The catch block and the loop\<close>

text \<open>What the catch block decides: continue with a rebuilt transaction, or remember the error and go on.\<close>

datatype CatchOutcome = CatchRetry string int | CatchKeep

definition handleCaught ::
    "('s, 'acc, 'tx, 'sim, 'v) SorobanEnv \<Rightarrow> 'v SubmitTransactionOptions \<Rightarrow> int \<Rightarrow> string \<Rightarrow> bool \<Rightarrow> int \<Rightarrow>
     sdk_error \<Rightarrow> (sdk_error, 's, CatchOutcome) act" where
  "handleCaught env opts cap passphrase attemptsLeft fee e =
     (case e of
        ContractErr _ \<Rightarrow> throw e
      | TransactionTimeoutError _ _ \<Rightarrow> throw e
      | _ \<Rightarrow>
        (let errStr = errorText e in
         if contractFailure' errStr then
           (case parseContractError errStr (opt_method opts) of
              Some parsed \<Rightarrow> throw (ContractErr parsed)
            | None \<Rightarrow> throw e)
         else if sequenceFailure' errStr then
           (case rebuildArgs opts of
              Some b \<Rightarrow>
                if attemptsLeft
                then andThen (rebuild env passphrase b fee) (\<lambda>xdr. ret (CatchRetry xdr fee))
                else throw e
            | None \<Rightarrow> throw e)
         else if feeFailure' errStr then
           (case rebuildArgs opts of
              Some b \<Rightarrow>
                if attemptsLeft \<and> fee < cap \<and> bumpFee fee cap > fee
                then let fee' = bumpFee fee cap in
                     andThen (rebuild env passphrase b fee') (\<lambda>xdr. ret (CatchRetry xdr fee'))
                else throw e
            | None \<Rightarrow> throw e)
         else ret CatchKeep))"

fun submitLoop ::
    "('s, 'acc, 'tx, 'sim, 'v) SorobanEnv \<Rightarrow> 'v SubmitTransactionOptions \<Rightarrow> int \<Rightarrow> string \<Rightarrow> nat \<Rightarrow> string \<Rightarrow>
     int \<Rightarrow> sdk_error option \<Rightarrow> (sdk_error, 's, 'v GetResponse) act" where
  "submitLoop env opts cap passphrase 0 xdr fee lastError =
     (case lastError of
        Some e \<Rightarrow> throw e
      | None \<Rightarrow> throw (TransactionSubmissionError
          ''Transaction submission failed after maximum retry attempts'' None))"
| "submitLoop env opts cap passphrase (Suc n) xdr fee lastError = (\<lambda>s.
     case attemptBody env opts cap passphrase (n > 0) xdr fee s of
       (Inr (Returned g), s') \<Rightarrow> (Inr g, s')
     | (Inr (Retry xdr' fee'), s') \<Rightarrow> submitLoop env opts cap passphrase n xdr' fee' lastError s'
     | (Inl (e, fee'), s') \<Rightarrow>
         (case handleCaught env opts cap passphrase (n > 0) fee' e s' of
            (Inl e', s'') \<Rightarrow> (Inl e', s'')
          | (Inr (CatchRetry xdr' fee''), s'') \<Rightarrow>
              submitLoop env opts cap passphrase n xdr' fee'' lastError s''
          | (Inr CatchKeep, s'') \<Rightarrow>
              submitLoop env opts cap passphrase n xdr fee' (Some e) s''))"

definition initialFee :: "('s, 'acc, 'tx, 'sim, 'v) SorobanEnv \<Rightarrow> string \<Rightarrow> string \<Rightarrow> int" where
  "initialFee env xdr passphrase =
     (case fromXDR env xdr passphrase of
        Inl _ \<Rightarrow> 100
      | Inr tx \<Rightarrow> (case BigInt (feeOf env tx) of None \<Rightarrow> 100 | Some f \<Rightarrow> f))"

definition attemptsOf :: "'v SubmitTransactionOptions \<Rightarrow> nat" where
  "attemptsOf opts = nat (case maxAttempts opts of None \<Rightarrow> 3 | Some n \<Rightarrow> n)"

definition passphraseOf :: "'v SubmitTransactionOptions \<Rightarrow> string" where
  "passphraseOf opts = orText (networkPassphrase opts) Networks_TESTNET"

definition submitTransaction ::
    "('s, 'acc, 'tx, 'sim, 'v) SorobanEnv \<Rightarrow> string \<Rightarrow> 'v SubmitTransactionOptions \<Rightarrow>
     (sdk_error, 's, 'v GetResponse) act" where
  "submitTransaction env txXdr opts =
     andThen (fromSum (feeCap (maxFeeCap opts))) (\<lambda>cap.
       submitLoop env opts cap (passphraseOf opts) (attemptsOf opts) txXdr
         (initialFee env txXdr (passphraseOf opts)) None)"

subsection \<open>Fees stay within the cap\<close>

lemma bumpFee_range:
  "fee < cap \<Longrightarrow> fee < bumpFee fee cap \<Longrightarrow> fee \<le> bumpFee fee cap \<and> bumpFee fee cap \<le> cap"
  by (auto simp: bumpFee_def)

text \<open>
  A property of the node's state that sending, polling and rebuilding with a fee between \<open>lo\<close> and
  \<open>hi\<close> keep.
\<close>

definition nodeKeeps ::
    "('s \<Rightarrow> bool) \<Rightarrow> int \<Rightarrow> int \<Rightarrow> ('s, 'acc, 'tx, 'sim, 'v) SorobanEnv \<Rightarrow> bool" where
  "nodeKeeps P lo hi env \<longleftrightarrow>
     (\<forall>x. keeps P (sendTransaction env x)) \<and> (\<forall>h. keeps P (getTransaction env h)) \<and>
     (\<forall>pp c me args k fee. lo \<le> fee \<longrightarrow> fee \<le> hi \<longrightarrow>
        keeps P (buildInvokeTransaction env pp c me args k (Some fee)))"

lemma nodeKeepsD:
  assumes "nodeKeeps P lo hi env"
  shows "keeps P (sendTransaction env x)" "keeps P (getTransaction env h)"
    "lo \<le> fee \<Longrightarrow> fee \<le> hi \<Longrightarrow> keeps P (rebuild env pp b fee)"
  using assms by (auto simp: nodeKeeps_def rebuild_def split: prod.splits)

lemma keeps_withFee [intro]: "keeps P f \<Longrightarrow> keeps P (withFee fee f)"
  by (fastforce simp: keeps_def withFee_def split: prod.splits sum.splits)

lemma keeps_sendCurrent: "nodeKeeps P lo hi env \<Longrightarrow> keeps P (sendCurrent env xdr pp)"
  unfolding sendCurrent_def by (intro keeps_tryCatch keeps_andThen keeps_fromSum nodeKeepsD(1))

lemma keeps_poll: "nodeKeeps P lo hi env \<Longrightarrow> keeps P (pollTransaction env h n)"
  by (induction n) (auto intro!: keeps_andThen simp: nodeKeepsD)

lemma keeps_await: "nodeKeeps P lo hi env \<Longrightarrow> keeps P (awaitTransaction env me h)"
  unfolding awaitTransaction_def
  by (intro keeps_andThen keeps_poll) (auto simp: Let_def split: TxStatus.splits option.splits)

text \<open>Outcomes of one attempt: the state property, and a fee that stays in range.\<close>

lemma handleSendError_range:
  assumes env: "nodeKeeps P lo hi env" and "P s" and "lo \<le> fee" and "fee \<le> hi" and "cap \<le> hi"
    and run: "handleSendError env opts cap pp al fee r s = (res, s')"
  shows "P s' \<and> (\<forall>e f. res = Inl (e, f) \<longrightarrow> lo \<le> f \<and> f \<le> hi) \<and>
     (\<forall>x f. res = Inr (Retry x f) \<longrightarrow> lo \<le> f \<and> f \<le> hi)"
proof -
  have rb: "P t'" if "rebuild env pp b f s = (q, t')" "lo \<le> f" "f \<le> hi" for b f q t'
    using keepsD [OF nodeKeepsD(3) [OF env that(2,3)] \<open>P s\<close>, of pp b] that(1) by simp
  have range: "fee < cap \<Longrightarrow> fee < bumpFee fee cap \<Longrightarrow> lo \<le> bumpFee fee cap \<and> bumpFee fee cap \<le> hi"
    using bumpFee_range [of fee cap] assms(3,5) by auto
  show ?thesis
    using run assms(2-4) range
    by (auto simp: handleSendError_def andThen_def withFee_def Let_def dest!: rb
        split: if_splits option.splits prod.splits sum.splits)
qed

lemma attemptBody_range:
  assumes env: "nodeKeeps P lo hi env" and P: "P s" and fee: "lo \<le> fee" "fee \<le> hi" and cap: "cap \<le> hi"
    and run: "attemptBody env opts cap pp al xdr fee s = (res, s')"
  shows "P s' \<and> (\<forall>e f. res = Inl (e, f) \<longrightarrow> lo \<le> f \<and> f \<le> hi) \<and>
     (\<forall>x f. res = Inr (Retry x f) \<longrightarrow> lo \<le> f \<and> f \<le> hi)"
proof -
  obtain q t where send: "sendCurrent env xdr pp s = (q, t)" by force
  have t: "P t" using keepsD [OF keeps_sendCurrent [OF env] P, of xdr pp] send by simp
  show ?thesis
  proof (cases q)
    case (Inl e)
    with run send t fee show ?thesis by (auto simp: attemptBody_def andThen_def withFee_def)
  next
    case (Inr r)
    obtain g u where aw: "awaitTransaction env (opt_method opts) (send_hash r) t = (g, u)" by force
    have "P u"
      using keepsD [OF keeps_await [OF env] t, of "opt_method opts" "send_hash r"] aw by simp
    with run send Inr aw fee handleSendError_range [OF env t fee cap]
    show ?thesis
      by (auto simp: attemptBody_def andThen_def withFee_def split: if_splits sum.splits)
  qed
qed

lemma handleCaught_range:
  assumes env: "nodeKeeps P lo hi env" and P: "P s" and fee: "lo \<le> fee" "fee \<le> hi" and cap: "cap \<le> hi"
    and run: "handleCaught env opts cap pp al fee e s = (res, s')"
  shows "P s' \<and> (\<forall>x f. res = Inr (CatchRetry x f) \<longrightarrow> lo \<le> f \<and> f \<le> hi)"
proof -
  have rb: "P t'" if "rebuild env pp b f s = (q, t')" "lo \<le> f" "f \<le> hi" for b f q t'
    using keepsD [OF nodeKeepsD(3) [OF env that(2,3)] P, of pp b] that(1) by simp
  have range: "fee < cap \<Longrightarrow> fee < bumpFee fee cap \<Longrightarrow> lo \<le> bumpFee fee cap \<and> bumpFee fee cap \<le> hi"
    using bumpFee_range [of fee cap] fee(1) cap by auto
  show ?thesis
    using run P fee range
    by (cases e) (auto simp: handleCaught_def andThen_def Let_def dest!: rb
        split: if_splits option.splits prod.splits sum.splits)
qed

lemma submitLoop_keeps:
  assumes env: "nodeKeeps P lo hi env" and cap: "cap \<le> hi"
  shows "P s \<Longrightarrow> lo \<le> fee \<Longrightarrow> fee \<le> hi \<Longrightarrow> P (snd (submitLoop env opts cap pp n xdr fee le s))"
proof (induction n arbitrary: s xdr fee le)
  case (Suc n)
  obtain res s' where run: "attemptBody env opts cap pp (n > 0) xdr fee s = (res, s')" by force
  note r = attemptBody_range [OF env Suc.prems cap run]
  show ?case
  proof (cases res)
    case (Inr x)
    with run r Suc.IH show ?thesis by (auto split: Outcome.splits)
  next
    case (Inl ef)
    then obtain e f where ef: "res = Inl (e, f)" by (cases ef) auto
    obtain res' s'' where h: "handleCaught env opts cap pp (n > 0) f e s' = (res', s'')" by force
    have f: "P s'" "lo \<le> f" "f \<le> hi" using r ef by auto
    from handleCaught_range [OF env f cap h] f Suc.IH run ef h show ?thesis
      by (auto split: CatchOutcome.splits sum.splits)
  qed
qed (auto split: option.splits)

text \<open>
  C29. A submission only ever rebuilds its transaction with a fee that is at least the fee it
  started with and at most the larger of that fee and the cap: every property of the node that
  sending, polling and rebuilding within that range keep, the whole submission keeps, whatever
  the node answers and whichever errors occur.
\<close>

theorem submit_fee_within_cap:
  assumes "feeCap (maxFeeCap opts) = Inr cap"
    and "fee = initialFee env txXdr (passphraseOf opts)"
    and "nodeKeeps P fee (max fee cap) env"
    and "P s"
  shows "P (snd (submitTransaction env txXdr opts s))"
  using submitLoop_keeps [OF assms(3) max.cobounded2 assms(4)] assms(1,2)
  by (simp add: submitTransaction_def fromSum_def)

subsection \<open>A logging node\<close>

text \<open>
  A node that answers every transaction the same way and logs the sends and the fees of the
  simulations; its transactions are their fees.
\<close>

record NodeLog =
  sends :: nat
  fees :: "string list"

definition logNode ::
    "SendResponse \<Rightarrow> unit GetResponse \<Rightarrow> (NodeLog, unit, string, unit, unit) SorobanEnv" where
  "logNode answer final = \<lparr>
     getAccount = (\<lambda>_ s. (Inr (), s)), dummyAccount = (\<lambda>_. Inr ()),
     buildCall = (\<lambda>_ fee _ _ _ _. Inr fee),
     simulate = (\<lambda>tx s. (Inr (SimulationOk ()), s\<lparr>fees := fees s @ [tx]\<rparr>)),
     assemble = (\<lambda>tx _. Inr tx), signTx = (\<lambda>tx _. tx), toXDR = (\<lambda>tx. tx),
     fromXDR = (\<lambda>x _. Inr x), feeOf = (\<lambda>tx. tx), publicKey = (\<lambda>k. k),
     sendTransaction = (\<lambda>_ s. (Inr answer, s\<lparr>sends := sends s + 1\<rparr>)),
     getTransaction = (\<lambda>_ s. (Inr final, s))\<rparr>"

definition feeAnswer :: SendResponse where
  "feeAnswer = \<lparr>send_status = ''ERROR'', errorResult = Some ''txINSUFFICIENT_FEE'',
     errorResultXdr = None, send_hash = ''h''\<rparr>"

definition acceptedAnswer :: SendResponse where
  "acceptedAnswer = \<lparr>send_status = ''PENDING'', errorResult = None, errorResultXdr = None, send_hash = ''h''\<rparr>"

definition failedOnLedger :: "unit GetResponse" where
  "failedOnLedger = \<lparr>get_status = FAILED, resultXdr = Some ''AAAAAAAAAGT'', get_hash = None, get_txHash = ''h'',
     get_returnValue = None\<rparr>"

definition sampleOptions :: "unit SubmitTransactionOptions" where
  "sampleOptions = \<lparr>maxAttempts = Some 4, maxFeeCap = Some (CapInteger 250), sourceKeypair = Some ''S'',
     networkPassphrase = None, opt_contractId = Some ''C'', opt_method = Some ''mint'', opt_args = Some []\<rparr>"

definition feesBetween :: "int \<Rightarrow> int \<Rightarrow> NodeLog \<Rightarrow> bool" where
  "feesBetween lo hi s \<longleftrightarrow>
     (\<forall>t \<in> set (fees s). case BigInt t of None \<Rightarrow> False | Some f \<Rightarrow> lo \<le> f \<and> f \<le> hi)"

lemma logNode_simps:
  "sendTransaction (logNode answer final) x s = (Inr answer, s\<lparr>sends := sends s + 1\<rparr>)"
  "getTransaction (logNode answer final) h s = (Inr final, s)"
  "fee \<noteq> 0 \<Longrightarrow> buildInvokeTransaction (logNode answer final) pp c me args k (Some fee) s =
     (Inr (show_int fee), s\<lparr>fees := fees s @ [show_int fee]\<rparr>)"
  by (simp_all add: logNode_def buildInvokeTransaction_def andThen_def fromSum_def Let_def)

lemma logNode_keeps:
  assumes "0 < lo"
  shows "nodeKeeps (feesBetween lo hi) lo hi (logNode answer final)"
proof -
  have "keeps (feesBetween lo hi) (sendTransaction (logNode answer final) x)"
    "keeps (feesBetween lo hi) (getTransaction (logNode answer final) h)" for x h
    by (simp_all add: keeps_def logNode_simps feesBetween_def)
  moreover have "keeps (feesBetween lo hi) (buildInvokeTransaction (logNode answer final) pp c me args k (Some fee))"
    if "lo \<le> fee" "fee \<le> hi" for pp c me args k fee
  proof -
    have "fee \<noteq> 0" using assms that by simp
    with that show ?thesis by (simp add: keeps_def logNode_simps feesBetween_def)
  qed
  ultimately show ?thesis by (simp add: nodeKeeps_def)
qed

theorem submit_fee_within_cap_witness:
  "feesBetween 100 250 (snd (submitTransaction (logNode feeAnswer failedOnLedger) ''100'' sampleOptions
     \<lparr>sends = 0, fees = []\<rparr>)) \<and>
   fees (snd (submitTransaction (logNode feeAnswer failedOnLedger) ''100'' sampleOptions
     \<lparr>sends = 0, fees = []\<rparr>)) = [''200'', ''250'']"
proof (rule conjI)
  have fee: "100 = initialFee (logNode feeAnswer failedOnLedger) ''100'' (passphraseOf sampleOptions)"
    by code_simp
  have keep: "nodeKeeps (feesBetween 100 250) 100 (max 100 250) (logNode feeAnswer failedOnLedger)"
    using logNode_keeps [of 100 250] by simp
  have cap: "feeCap (maxFeeCap sampleOptions) = Inr 250" by (simp add: feeCap_def sampleOptions_def)
  show "feesBetween 100 250 (snd (submitTransaction (logNode feeAnswer failedOnLedger) ''100''
      sampleOptions \<lparr>sends = 0, fees = []\<rparr>))"
    by (rule submit_fee_within_cap [OF cap fee keep]) (simp add: feesBetween_def)
qed code_simp

subsection \<open>The work of a submission is bounded\<close>

text \<open>\<open>costs c k f\<close>: the effect raises the counter \<open>c\<close> by at most \<open>k\<close>.\<close>

definition costs :: "('s \<Rightarrow> nat) \<Rightarrow> nat \<Rightarrow> ('e, 's, 'a) act \<Rightarrow> bool" where
  "costs c k f \<longleftrightarrow> (\<forall>s. c (snd (f s)) \<le> c s + k)"

lemma costsD: "costs c k f \<Longrightarrow> f s = (r, s') \<Longrightarrow> c s' \<le> c s + k"
  by (metis costs_def snd_conv)

lemma costs_0 [simp]: "costs c k (ret x)" "costs c k (throw e)" "costs c k (fromSum r)" "costs c k (Pair q)"
  by (auto simp: costs_def fromSum_def split: sum.splits)

lemma costs_mono: "costs c k f \<Longrightarrow> k \<le> m \<Longrightarrow> costs c m f"
  unfolding costs_def by (meson add_left_mono order_trans)

lemma costs_andThen:
  assumes "costs c k f" and "\<And>x. costs c m (g x)"
  shows "costs c (k + m) (andThen f g)"
proof -
  have "c s'' \<le> c s + k + m" if "f s = (Inr x, s')" "g x s' = (r, s'')" for s x s' r s''
    using costsD [OF assms(1) that(1)] costsD [OF assms(2) that(2)] by simp
  moreover have "c s' \<le> c s + k + m" if "f s = (Inl e, s')" for s e s'
    using costsD [OF assms(1) that] by simp
  ultimately show ?thesis
    unfolding costs_def andThen_def by (auto split: prod.splits sum.splits simp: add.assoc) (metis prod.collapse)
qed

lemma costs_tryCatch:
  assumes "costs c k f" and "\<And>e. costs c m (h e)"
  shows "costs c (k + m) (tryCatch f h)"
proof -
  have "c s'' \<le> c s + k + m" if "f s = (Inl e, s')" "h e s' = (r, s'')" for s e s' r s''
    using costsD [OF assms(1) that(1)] costsD [OF assms(2) that(2)] by simp
  moreover have "c s' \<le> c s + k + m" if "f s = (Inr x, s')" for s x s'
    using costsD [OF assms(1) that] by simp
  ultimately show ?thesis
    unfolding costs_def tryCatch_def by (auto split: prod.splits sum.splits simp: add.assoc) (metis prod.collapse)
qed

lemma costs_withFee: "costs c k f \<Longrightarrow> costs c k (withFee fee f)"
  unfolding costs_def withFee_def by (auto split: prod.splits sum.splits) (metis snd_conv)+

text \<open>What one send, one poll and one rebuild cost.\<close>

definition nodeCosts ::
    "('s \<Rightarrow> nat) \<Rightarrow> nat \<Rightarrow> nat \<Rightarrow> nat \<Rightarrow> ('s, 'acc, 'tx, 'sim, 'v) SorobanEnv \<Rightarrow> bool" where
  "nodeCosts c a b d env \<longleftrightarrow>
     (\<forall>x. costs c a (sendTransaction env x)) \<and> (\<forall>h. costs c b (getTransaction env h)) \<and>
     (\<forall>pp cid me args k fee. costs c d (buildInvokeTransaction env pp cid me args k fee))"

lemma rebuild_costs: "nodeCosts c a b d env \<Longrightarrow> costs c d (rebuild env pp x fee)"
  by (auto simp: nodeCosts_def rebuild_def split: prod.splits)

lemma sendCurrent_costs:
  assumes "nodeCosts c a b d env"
  shows "costs c (2 * a) (sendCurrent env xdr pp)"
proof -
  have a: "costs c a (sendTransaction env x)" for x using assms by (simp add: nodeCosts_def)
  have "costs c (0 + a + a) (sendCurrent env xdr pp)"
    unfolding sendCurrent_def by (intro costs_tryCatch costs_andThen a costs_0)
  then show ?thesis by (simp add: mult_2)
qed

lemma poll_costs:
  assumes "nodeCosts c a b d env"
  shows "costs c (Suc n * b) (pollTransaction env h n)"
proof (induction n)
  case (Suc n)
  have b: "costs c b (getTransaction env h)" using assms by (simp add: nodeCosts_def)
  have "costs c (b + Suc n * b) (pollTransaction env h (Suc n))"
    unfolding pollTransaction.simps using Suc by (intro costs_andThen b) auto
  then show ?case by simp
qed (use assms in \<open>simp add: nodeCosts_def\<close>)

lemma await_costs:
  assumes "nodeCosts c a b d env"
  shows "costs c (30 * b) (awaitTransaction env me h)"
proof -
  have "costs c (Suc 29 * b + 0) (awaitTransaction env me h)"
    unfolding awaitTransaction_def maxPollAttempts_def
    using poll_costs [OF assms, of 29 h]
    by (intro costs_andThen) (auto simp: Let_def split: TxStatus.splits option.splits)
  then show ?thesis by simp
qed

lemma handleSendError_costs:
  fixes env :: "('s, 'acc, 'tx, 'sim, 'v) SorobanEnv"
  assumes "nodeCosts c a b d env"
  shows "costs c d (handleSendError env opts cap pp al fee r)"
proof -
  have "costs c (d + 0) (andThen (withFee f (rebuild env pp x f)) (\<lambda>xdr. ret (Retry xdr f :: 'v Outcome)))" for x f
    by (intro costs_andThen costs_withFee rebuild_costs [OF assms]) simp
  then show ?thesis
    by (simp add: handleSendError_def Let_def split: option.splits)
qed

lemma handleCaught_costs:
  assumes "nodeCosts c a b d env"
  shows "costs c d (handleCaught env opts cap pp al fee e)"
proof -
  have "costs c (d + 0) (andThen (rebuild env pp x f) (\<lambda>xdr. ret (CatchRetry xdr f)))" for x f
    by (intro costs_andThen rebuild_costs [OF assms]) simp
  then show ?thesis
    by (cases e) (simp_all add: handleCaught_def Let_def split: option.splits)
qed

lemma attemptBody_costs:
  assumes "nodeCosts c a b d env"
  shows "costs c (2 * a + (30 * b + d)) (attemptBody env opts cap pp al xdr fee)"
proof -
  have "costs c (30 * b + 0) (andThen (withFee fee (awaitTransaction env (opt_method opts) h))
      (\<lambda>g. ret (Returned g)))" for h
    by (intro costs_andThen costs_withFee await_costs [OF assms]) simp
  then have "costs c (30 * b + d) (andThen (withFee fee (awaitTransaction env (opt_method opts) h))
      (\<lambda>g. ret (Returned g)))" for h
    by (rule costs_mono) simp
  moreover have "costs c (30 * b + d) (handleSendError env opts cap pp al fee r)" for r
    using handleSendError_costs [OF assms] by (rule costs_mono) simp
  ultimately show ?thesis
    unfolding attemptBody_def
    by (intro costs_andThen costs_withFee sendCurrent_costs [OF assms]) simp
qed

lemma submitLoop_costs:
  assumes env: "nodeCosts c a b d env"
  shows "costs c (n * (2 * a + 30 * b + 2 * d)) (submitLoop env opts cap pp n xdr fee le)"
proof (induction n arbitrary: xdr fee le)
  case (Suc n)
  let ?K = "2 * a + 30 * b + 2 * d"
  show ?case unfolding costs_def
  proof
    fix s
    obtain res s' where run: "attemptBody env opts cap pp (n > 0) xdr fee s = (res, s')" by force
    have body: "c s' \<le> c s + (2 * a + (30 * b + d))" by (rule costsD [OF attemptBody_costs [OF env] run])
    have IH: "c (snd (submitLoop env opts cap pp n x f l t)) \<le> c t + n * ?K" for x f l t
      using Suc by (simp add: costs_def)
    show "c (snd (submitLoop env opts cap pp (Suc n) xdr fee le s)) \<le> c s + Suc n * ?K"
    proof (cases res)
      case (Inr x)
      then show ?thesis using run body IH [where t = s']
        by (auto split: Outcome.splits intro: order_trans [OF IH])
    next
      case (Inl ef)
      then obtain e f where ef: "res = Inl (e, f)" by (cases ef) auto
      obtain q s'' where h: "handleCaught env opts cap pp (n > 0) f e s' = (q, s'')" by force
      have "c s'' \<le> c s + ?K" using costsD [OF handleCaught_costs [OF env] h] body by simp
      then show ?thesis using run ef h
        by (auto split: CatchOutcome.splits sum.splits intro: order_trans [OF IH])
    qed
  qed
qed (auto split: option.splits)

text \<open>
  C30. A submission always ends, after a bounded amount of work: if a send, a poll and a rebuild
  raise a counter by at most \<open>a\<close>, \<open>b\<close> and \<open>d\<close>, the submission raises it by at most
  \<open>2 * a + 30 * b + 2 * d\<close> per attempt. So it sends at most twice, polls at most thirty times and
  rebuilds at most twice for each of its attempts, whatever the node answers.
\<close>

theorem submit_bounded_work:
  assumes "nodeCosts c a b d env"
  shows "c (snd (submitTransaction env txXdr opts s)) \<le> c s + attemptsOf opts * (2 * a + 30 * b + 2 * d)"
proof (cases "feeCap (maxFeeCap opts)")
  case (Inr cap)
  then show ?thesis
    using submitLoop_costs [OF assms, of "attemptsOf opts"]
    by (simp add: submitTransaction_def fromSum_def costs_def)
qed (simp add: submitTransaction_def fromSum_def)

lemma logNode_sends: "nodeCosts sends 1 0 0 (logNode answer final)"
proof -
  have "costs sends 0 (buildInvokeTransaction (logNode answer final) pp c me args k fee)" for pp c me args k fee
    by (simp add: costs_def buildInvokeTransaction_def logNode_def andThen_def fromSum_def Let_def)
  then show ?thesis by (simp add: nodeCosts_def costs_def logNode_simps)
qed

theorem submit_bounded_work_witness:
  "sends (snd (submitTransaction (logNode acceptedAnswer failedOnLedger) ''100'' sampleOptions
     \<lparr>sends = 0, fees = []\<rparr>)) \<le> 0 + attemptsOf sampleOptions * (2 * 1 + 30 * 0 + 2 * 0) \<and>
   attemptsOf sampleOptions = 4"
  using submit_bounded_work [OF logNode_sends, of acceptedAnswer failedOnLedger "''100''" sampleOptions
      "\<lparr>sends = 0, fees = []\<rparr>"]
  by (simp add: attemptsOf_def sampleOptions_def)

text \<open>
  A transaction that failed when it was executed on the ledger, without a contract error code, is
  sent again until the attempts are used up.
\<close>

lemma ledger_failure_is_resubmitted:
  "sends (snd (submitTransaction (logNode acceptedAnswer failedOnLedger) ''100'' sampleOptions
     \<lparr>sends = 0, fees = []\<rparr>)) = 4"
  by code_simp

subsection \<open>Answers that end a submission at once\<close>

text \<open>
  A confirmed transaction, a contract error reported by the node or found on the ledger, and a
  timeout end the submission with the first attempt: the result is returned or thrown and the
  node sees nothing more. In particular contract logic that failed is never retried.
\<close>

theorem submit_final_answers:
  assumes "feeCap (maxFeeCap opts) = Inr cap" and "0 < attemptsOf opts"
    and "sendCurrent env txXdr (passphraseOf opts) s = (Inr r, s1)"
  shows "(send_status r = ''ERROR'' \<and> contractFailure (errorStr r) \<and>
            parseContractError (errorStr r) (opt_method opts) = Some e \<longrightarrow>
          submitTransaction env txXdr opts s = (Inl (ContractErr e), s1)) \<and>
         (send_status r \<noteq> ''ERROR'' \<and>
            awaitTransaction env (opt_method opts) (send_hash r) s1 = (Inr g, s2) \<longrightarrow>
          submitTransaction env txXdr opts s = (Inr g, s2)) \<and>
         (send_status r \<noteq> ''ERROR'' \<and>
            awaitTransaction env (opt_method opts) (send_hash r) s1 = (Inl (ContractErr e), s2) \<longrightarrow>
          submitTransaction env txXdr opts s = (Inl (ContractErr e), s2)) \<and>
         (send_status r \<noteq> ''ERROR'' \<and>
            awaitTransaction env (opt_method opts) (send_hash r) s1 = (Inl (TransactionTimeoutError m h), s2) \<longrightarrow>
          submitTransaction env txXdr opts s = (Inl (TransactionTimeoutError m h), s2))"
proof -
  obtain n where n: "attemptsOf opts = Suc n" using assms(2) gr0_conv_Suc by blast
  have "submitTransaction env txXdr opts s =
      submitLoop env opts cap (passphraseOf opts) (Suc n) txXdr (initialFee env txXdr (passphraseOf opts)) None s"
    using assms(1) by (simp add: submitTransaction_def fromSum_def n del: submitLoop.simps)
  then show ?thesis
    using assms(3)
    by (auto simp: attemptBody_def handleSendError_def handleCaught_def andThen_def withFee_def)
qed

definition balanceAnswer :: SendResponse where
  "balanceAnswer = \<lparr>send_status = ''ERROR'', errorResult = Some ''Error(Contract, #4)'',
     errorResultXdr = None, send_hash = ''h''\<rparr>"

theorem submit_final_answers_witness:
  "\<exists>e. fst (submitTransaction (logNode balanceAnswer failedOnLedger) ''100'' sampleOptions
     \<lparr>sends = 0, fees = []\<rparr>) = Inl (ContractErr e) \<and> numericCode e = 4 \<and>
   sends (snd (submitTransaction (logNode balanceAnswer failedOnLedger) ''100'' sampleOptions
     \<lparr>sends = 0, fees = []\<rparr>)) = 1"
proof -
  let ?env = "logNode balanceAnswer failedOnLedger" and ?s = "\<lparr>sends = 0, fees = []\<rparr>"
  have cap: "feeCap (maxFeeCap sampleOptions) = Inr 250" by (simp add: feeCap_def sampleOptions_def)
  have att: "0 < attemptsOf sampleOptions" by (simp add: attemptsOf_def sampleOptions_def)
  have send: "sendCurrent ?env ''100'' (passphraseOf sampleOptions) ?s =
      (Inr balanceAnswer, \<lparr>sends = 1, fees = []\<rparr>)"
    by (simp add: sendCurrent_def logNode_def tryCatch_def fromSum_def)
  have "map_option numericCode (parseContractError (errorStr balanceAnswer) (opt_method sampleOptions)) = Some 4"
    "contractFailure (errorStr balanceAnswer)" by code_simp+
  then obtain e where "parseContractError (errorStr balanceAnswer) (opt_method sampleOptions) = Some e"
      "numericCode e = 4" "contractFailure (errorStr balanceAnswer)" by auto
  moreover have "send_status balanceAnswer = ''ERROR''" by (simp add: balanceAnswer_def)
  ultimately show ?thesis using submit_final_answers [OF cap att send, of e] by auto
qed

subsection \<open>A submission that resolves has succeeded\<close>

lemma attemptBody_returns_success:
  "attemptBody env opts cap pp al xdr fee s = (Inr (Returned g), s') \<Longrightarrow> get_status g = SUCCESS"
  by (auto simp: attemptBody_def andThen_def withFee_def awaitTransaction_def handleSendError_def Let_def
      split: prod.splits sum.splits if_splits TxStatus.splits option.splits)

lemma submitLoop_success:
  "submitLoop env opts cap pp n xdr fee le s = (Inr g, s') \<Longrightarrow> get_status g = SUCCESS"
proof (induction n arbitrary: s xdr fee le)
  case 0
  then show ?case by (auto split: option.splits)
next
  case (Suc n)
  obtain r t where body: "attemptBody env opts cap pp (n > 0) xdr fee s = (r, t)" by force
  show ?case
  proof (cases r)
    case (Inr x)
    with Suc body attemptBody_returns_success show ?thesis by (cases x) auto
  next
    case (Inl ef)
    then obtain e f where ef: "r = Inl (e, f)" by (cases ef) auto
    obtain q u where h: "handleCaught env opts cap pp (n > 0) f e t = (q, u)" by force
    with Suc body ef show ?thesis by (cases q) (auto split: CatchOutcome.splits)
  qed
qed

lemma submitTransaction_success:
  "submitTransaction env txXdr opts s = (Inr g, s') \<Longrightarrow> get_status g = SUCCESS"
  by (auto simp: submitTransaction_def act_Inr_iffs dest: submitLoop_success)

end
