(* ===== verification/Migration.thy ===== *)
theory Migration
  imports SubmitTx
begin

text \<open>
  The RBAC migration script, \<^verbatim>\<open>src/migrations/rbac-migration.ts\<close>. It runs against the same node and
  SDK operations as the submission of transactions (\<open>SorobanEnv\<close>); what it additionally takes
  from the Stellar SDK is the \<^verbatim>\<open>Contract\<close> constructor, which rejects malformed ids, the value a
  simulation returned, and \<^verbatim>\<open>JSON.stringify\<close> of an error result. Delays and console output are
  left out.
\<close>

subsection \<open>Types and environment\<close>

record MigrationConfig =
  mig_passphrase :: string
  mig_contractId :: string
  mig_adminKeypair :: string

record MigrationResult =
  mig_success :: bool
  mig_hash :: "string option"
  mig_error :: "string option"
  alreadyMigrated :: "bool option"
  mig_adminAddress :: "string option"

record ('sim, 'v) MigrationDeps =
  newContract :: "string \<Rightarrow> sdk_error + unit"
  retval :: "'sim \<Rightarrow> (sdk_error + Native) option"
  symbolArg :: "string \<Rightarrow> 'v"
  addressArg :: "string \<Rightarrow> sdk_error + 'v"
  stringify :: "string option \<Rightarrow> string"

definition ZERO_ADDRESS :: string where
  "ZERO_ADDRESS = ''GAAAAAAAAAAAAAAAAAAAAAAAAAAAAAAAAAAAAAAAAAAAAAAAAAAAAWHF''"

definition MAX_RETRIES :: nat where "MAX_RETRIES = 3"

definition failedWith :: "string option \<Rightarrow> string \<Rightarrow> MigrationResult" where
  "failedWith h e = \<lparr>mig_success = False, mig_hash = h, mig_error = Some e, alreadyMigrated = None,
     mig_adminAddress = None\<rparr>"

definition succeededWith :: "string option \<Rightarrow> bool option \<Rightarrow> string \<Rightarrow> MigrationResult" where
  "succeededWith h already a = \<lparr>mig_success = True, mig_hash = h, mig_error = None,
     alreadyMigrated = already, mig_adminAddress = Some a\<rparr>"

subsection \<open>Helpers\<close>

text \<open>The attempts that are left, and the error of the last one.\<close>

fun withRetry :: "(sdk_error, 's, 'a) act \<Rightarrow> nat \<Rightarrow> sdk_error \<Rightarrow> (sdk_error, 's, 'a) act" where
  "withRetry f 0 lastError = throw lastError"
| "withRetry f (Suc n) lastError = tryCatch f (\<lambda>e. withRetry f n e)"

definition retried :: "(sdk_error, 's, 'a) act \<Rightarrow> (sdk_error, 's, 'a) act" where
  "retried f = withRetry f MAX_RETRIES (OtherError ''undefined'')"

text \<open>A simulated query: its native return value, or an error that names the method.\<close>

definition queryResult ::
    "('s, 'acc, 'tx, 'sim, 'v) SorobanEnv \<Rightarrow> ('sim, 'v) MigrationDeps \<Rightarrow> string \<Rightarrow> 'tx \<Rightarrow>
     (sdk_error, 's, Native) act" where
  "queryResult env deps method tx =
     andThen (simulate env tx) (\<lambda>simulated.
       case simulated of
         SimulationFailed err \<Rightarrow> throw (OtherError (''Simulation failed: '' @ err))
       | SimulationNone \<Rightarrow> throw (OtherError (method @ '' query returned no result''))
       | SimulationOk sim \<Rightarrow>
           (case retval deps sim of
              None \<Rightarrow> throw (OtherError (method @ '' query returned no result''))
            | Some v \<Rightarrow> fromSum v))"

definition hasAdmin ::
    "('s, 'acc, 'tx, 'sim, 'v) SorobanEnv \<Rightarrow> ('sim, 'v) MigrationDeps \<Rightarrow> string \<Rightarrow> string \<Rightarrow>
     (sdk_error, 's, Native) act" where
  "hasAdmin env deps passphrase contractId =
     andThen (fromSum (newContract deps contractId)) (\<lambda>_.
     andThen (fromSum (dummyAccount env ZERO_ADDRESS)) (\<lambda>account.
     andThen (fromSum (buildCall env account ''100'' passphrase contractId ''has_admin'' [])) (\<lambda>tx.
     queryResult env deps ''has_admin'' tx)))"

definition hasRole ::
    "('s, 'acc, 'tx, 'sim, 'v) SorobanEnv \<Rightarrow> ('sim, 'v) MigrationDeps \<Rightarrow> string \<Rightarrow> string \<Rightarrow> string \<Rightarrow> string \<Rightarrow>
     (sdk_error, 's, Native) act" where
  "hasRole env deps passphrase contractId role address =
     andThen (fromSum (newContract deps contractId)) (\<lambda>_.
     andThen (fromSum (addressArg deps address)) (\<lambda>addressScVal.
     andThen (fromSum (dummyAccount env ZERO_ADDRESS)) (\<lambda>account.
     andThen (fromSum (buildCall env account ''100'' passphrase contractId ''has_role''
                         [symbolArg deps role, addressScVal])) (\<lambda>tx.
     queryResult env deps ''has_role'' tx))))"

subsection \<open>The migration\<close>

text \<open>Steps 3 to 5: the assembled and signed transaction, or the result that ends the run.\<close>

definition migrationTx ::
    "('s, 'acc, 'tx, 'sim, 'v) SorobanEnv \<Rightarrow> MigrationConfig \<Rightarrow> string \<Rightarrow>
     (sdk_error, 's, 'tx \<times> 'sim Simulation) act" where
  "migrationTx env cfg adminAddress =
     andThen (getAccount env adminAddress) (\<lambda>account.
     andThen (fromSum (buildCall env account ''100'' (mig_passphrase cfg) (mig_contractId cfg) ''migrate_admin'' []))
       (\<lambda>tx. andThen (simulate env tx) (\<lambda>simulated. ret (tx, simulated))))"

definition verifyMigration ::
    "('s, 'acc, 'tx, 'sim, 'v) SorobanEnv \<Rightarrow> ('sim, 'v) MigrationDeps \<Rightarrow> MigrationConfig \<Rightarrow> string \<Rightarrow> string \<Rightarrow>
     (sdk_error, 's, MigrationResult) act" where
  "verifyMigration env deps cfg adminAddress h =
     andThen (pollTransaction env h 29) (\<lambda>g.
       case get_status g of
         NOT_FOUND \<Rightarrow> ret (failedWith (Some h) ''Transaction not found after maximum polling attempts'')
       | SUCCESS \<Rightarrow>
           andThen (retried (hasRole env deps (mig_passphrase cfg) (mig_contractId cfg) ''SuperAdmin'' adminAddress))
             (\<lambda>v. if \<not> nativeTruthy v
                  then ret (failedWith (Some h) ''Migration transaction succeeded but verification failed: admin does not have SuperAdmin role'')
                  else ret (succeededWith (Some h) None adminAddress))
       | FAILED \<Rightarrow> ret (failedWith (Some h) ''Transaction failed with status: FAILED''))"

definition submitMigration ::
    "('s, 'acc, 'tx, 'sim, 'v) SorobanEnv \<Rightarrow> ('sim, 'v) MigrationDeps \<Rightarrow> MigrationConfig \<Rightarrow> string \<Rightarrow>
     (sdk_error, 's, MigrationResult) act" where
  "submitMigration env deps cfg adminAddress =
     andThen (migrationTx env cfg adminAddress) (\<lambda>(tx, simulated).
       case simulated of
         SimulationFailed err \<Rightarrow> ret (failedWith None (''Simulation failed: '' @ err))
       | _ \<Rightarrow>
           andThen (fromSum (assemble env tx simulated)) (\<lambda>assembled.
           andThen (sendTransaction env (ParsedTx (toXDR env (signTx env assembled (mig_adminKeypair cfg))))) (\<lambda>r.
           if send_status r = ''ERROR''
           then ret (failedWith None (''Transaction submission failed: '' @ stringify deps (errorResult r)))
           else verifyMigration env deps cfg adminAddress (send_hash r))))"

text \<open>Steps 1 and 2, shared by both entry points: an early result, or \<open>None\<close> to go on.\<close>

definition checkMigration ::
    "('s, 'acc, 'tx, 'sim, 'v) SorobanEnv \<Rightarrow> ('sim, 'v) MigrationDeps \<Rightarrow> MigrationConfig \<Rightarrow> string \<Rightarrow>
     (sdk_error, 's, MigrationResult option) act" where
  "checkMigration env deps cfg adminAddress =
     andThen (retried (hasAdmin env deps (mig_passphrase cfg) (mig_contractId cfg))) (\<lambda>v.
       if \<not> nativeTruthy v
       then ret (Some (failedWith None ''Contract has no admin set. Migration requires an initialized contract.''))
       else andThen (retried (hasRole env deps (mig_passphrase cfg) (mig_contractId cfg) ''SuperAdmin'' adminAddress))
         (\<lambda>w. ret (if nativeTruthy w then Some (succeededWith None (Some True) adminAddress) else None)))"

definition catchResult ::
    "(sdk_error, 's, MigrationResult) act \<Rightarrow> (sdk_error, 's, MigrationResult) act" where
  "catchResult f = tryCatch f (\<lambda>e. ret (failedWith None (errorMessage e)))"

definition migrateContract ::
    "('s, 'acc, 'tx, 'sim, 'v) SorobanEnv \<Rightarrow> ('sim, 'v) MigrationDeps \<Rightarrow> MigrationConfig \<Rightarrow>
     (sdk_error, 's, MigrationResult) act" where
  "migrateContract env deps cfg =
     andThen (fromSum (newContract deps (mig_contractId cfg))) (\<lambda>_.
     catchResult
       (let adminAddress = SorobanEnv.publicKey env (mig_adminKeypair cfg) in
        andThen (checkMigration env deps cfg adminAddress) (\<lambda>early.
        case early of Some r \<Rightarrow> ret r | None \<Rightarrow> submitMigration env deps cfg adminAddress)))"

definition dryRunMigration ::
    "('s, 'acc, 'tx, 'sim, 'v) SorobanEnv \<Rightarrow> ('sim, 'v) MigrationDeps \<Rightarrow> MigrationConfig \<Rightarrow>
     (sdk_error, 's, MigrationResult) act" where
  "dryRunMigration env deps cfg =
     (let adminAddress = SorobanEnv.publicKey env (mig_adminKeypair cfg) in
      catchResult
        (andThen (checkMigration env deps cfg adminAddress) (\<lambda>early.
         case early of
           Some r \<Rightarrow> ret r
         | None \<Rightarrow>
             andThen (fromSum (newContract deps (mig_contractId cfg))) (\<lambda>_.
             andThen (migrationTx env cfg adminAddress) (\<lambda>(tx, simulated).
             case simulated of
               SimulationFailed err \<Rightarrow> ret (failedWith None (''Dry-run simulation failed: '' @ err))
             | _ \<Rightarrow> ret (succeededWith None (Some False) adminAddress))))))"

subsection \<open>The command line\<close>

text \<open>The argument behind a flag; a flag at the end has none.\<close>

fun argAfter :: "string \<Rightarrow> string list \<Rightarrow> string option" where
  "argAfter flag [] = None"
| "argAfter flag (a # as) = (if a = flag then (case as of [] \<Rightarrow> None | b # _ \<Rightarrow> Some b) else argAfter flag as)"

definition getArg :: "string \<Rightarrow> string list \<Rightarrow> string" where
  "getArg name args = (case argAfter (''--'' @ name) args of None \<Rightarrow> '''' | Some v \<Rightarrow> v)"

text \<open>
  The exit code of \<^verbatim>\<open>main\<close>: 1 for missing arguments, an unusable secret or a failed result, 0
  otherwise. \<open>keypairOf\<close> is \<^verbatim>\<open>Keypair.fromSecret\<close>.
\<close>

definition migrationMain ::
    "(string \<Rightarrow> ('s, 'acc, 'tx, 'sim, 'v) SorobanEnv) \<Rightarrow> ('sim, 'v) MigrationDeps \<Rightarrow> (string \<Rightarrow> sdk_error + string) \<Rightarrow>
     string list \<Rightarrow> 's \<Rightarrow> nat \<times> 's" where
  "migrationMain envs deps keypairOf args s =
     (let rpcUrl = getArg ''rpc-url'' args; passphrase = getArg ''network-passphrase'' args;
          contractId = getArg ''contract-id'' args; adminSecret = getArg ''admin-secret'' args;
          dryRun = (''--dry-run'' \<in> set args)
      in if rpcUrl = [] \<or> passphrase = [] \<or> contractId = [] \<or> adminSecret = [] then (1, s)
         else case keypairOf adminSecret of
                Inl e \<Rightarrow> (1, s)
              | Inr keypair \<Rightarrow>
                  let cfg = \<lparr>mig_passphrase = passphrase, mig_contractId = contractId, mig_adminKeypair = keypair\<rparr>
                  in case (if dryRun then dryRunMigration (envs rpcUrl) deps cfg
                           else migrateContract (envs rpcUrl) deps cfg) s of
                       (Inl e, s') \<Rightarrow> (1, s')
                     | (Inr r, s') \<Rightarrow> (if mig_success r then 0 else 1, s'))"

subsection \<open>A reported success was verified\<close>

lemma withRetry_Inr: "withRetry f n e s = (Inr x, s') \<Longrightarrow> \<exists>t. f t = (Inr x, s')"
  by (induction n arbitrary: e s) (auto simp: tryCatch_def split: prod.splits sum.splits)

lemma retried_Inr: "retried f s = (Inr x, s') \<Longrightarrow> \<exists>t. f t = (Inr x, s')"
  unfolding retried_def by (rule withRetry_Inr)

lemma result_success [simp]:
  "mig_success (succeededWith h a d)" "\<not> mig_success (failedWith h e)"
  "mig_adminAddress (succeededWith h a d) = Some d"
  by (simp_all add: succeededWith_def failedWith_def)

text \<open>The state is the one a positive role query left behind.\<close>

definition roleConfirmed where
  "roleConfirmed env deps cfg a s' \<longleftrightarrow>
     (\<exists>t v. hasRole env deps (mig_passphrase cfg) (mig_contractId cfg) ''SuperAdmin'' a t = (Inr v, s') \<and>
        nativeTruthy v)"

lemma checkMigration_success:
  "checkMigration env deps cfg a s = (Inr (Some r), s') \<Longrightarrow> mig_success r \<Longrightarrow>
   roleConfirmed env deps cfg a s' \<and> mig_adminAddress r = Some a"
  by (auto simp: checkMigration_def act_Inr_iffs roleConfirmed_def dest!: retried_Inr split: if_splits)

lemma verifyMigration_success:
  "verifyMigration env deps cfg a h s = (Inr r, s') \<Longrightarrow> mig_success r \<Longrightarrow>
   roleConfirmed env deps cfg a s' \<and> mig_adminAddress r = Some a"
proof -
  assume run: "verifyMigration env deps cfg a h s = (Inr r, s')" and ok: "mig_success r"
  then obtain g t where "pollTransaction env h 29 s = (Inr g, t)"
      and k: "(case get_status g of
         NOT_FOUND \<Rightarrow> ret (failedWith (Some h) ''Transaction not found after maximum polling attempts'')
       | SUCCESS \<Rightarrow>
           andThen (retried (hasRole env deps (mig_passphrase cfg) (mig_contractId cfg) ''SuperAdmin'' a))
             (\<lambda>v. if \<not> nativeTruthy v
                  then ret (failedWith (Some h) ''Migration transaction succeeded but verification failed: admin does not have SuperAdmin role'')
                  else ret (succeededWith (Some h) None a))
       | FAILED \<Rightarrow> ret (failedWith (Some h) ''Transaction failed with status: FAILED'')) t = (Inr r, s')"
    by (auto simp: verifyMigration_def andThen_Inr_iff)
  from k ok show ?thesis
    by (cases "get_status g") (auto simp: act_Inr_iffs roleConfirmed_def dest!: retried_Inr split: if_splits)
qed

lemma submitMigration_success:
  assumes "submitMigration env deps cfg a s = (Inr r, s')" and ok: "mig_success r"
  shows "roleConfirmed env deps cfg a s' \<and> mig_adminAddress r = Some a"
proof -
  from assms(1) obtain tx sim t where "migrationTx env cfg a s = (Inr (tx, sim), t)"
      and k: "(case sim of
         SimulationFailed err \<Rightarrow> ret (failedWith None (''Simulation failed: '' @ err))
       | _ \<Rightarrow>
           andThen (fromSum (assemble env tx sim)) (\<lambda>assembled.
           andThen (sendTransaction env (ParsedTx (toXDR env (signTx env assembled (mig_adminKeypair cfg))))) (\<lambda>r.
           if send_status r = ''ERROR''
           then ret (failedWith None (''Transaction submission failed: '' @ stringify deps (errorResult r)))
           else verifyMigration env deps cfg a (send_hash r)))) t = (Inr r, s')"
    by (auto simp: submitMigration_def andThen_Inr_iff)
  have "\<exists>h u. verifyMigration env deps cfg a h u = (Inr r, s')"
    using k ok by (cases sim) (auto simp: act_Inr_iffs split: if_splits)
  then show ?thesis using ok verifyMigration_success [of env deps cfg a _ _ r s'] by blast
qed

text \<open>
  C39. The migration reports success only when the last thing it did was a query that confirmed
  the SuperAdmin role of the signing admin, whether it migrated the contract or found it
  migrated; a confirmed transaction alone is not enough.
\<close>

theorem migration_success_is_verified:
  assumes "migrateContract env deps cfg s = (Inr r, s')" and "mig_success r"
  shows "roleConfirmed env deps cfg (SorobanEnv.publicKey env (mig_adminKeypair cfg)) s' \<and>
     mig_adminAddress r = Some (SorobanEnv.publicKey env (mig_adminKeypair cfg))"
proof -
  let ?a = "SorobanEnv.publicKey env (mig_adminKeypair cfg)"
  from assms have "andThen (checkMigration env deps cfg ?a) (\<lambda>early.
      case early of Some r \<Rightarrow> ret r | None \<Rightarrow> submitMigration env deps cfg ?a) s = (Inr r, s')"
    by (auto simp: migrateContract_def catchResult_def act_Inr_iffs tryCatch_def Let_def
        split: prod.splits sum.splits)
  then obtain early t where c: "checkMigration env deps cfg ?a s = (Inr early, t)"
      and k: "(case early of Some r \<Rightarrow> ret r | None \<Rightarrow> submitMigration env deps cfg ?a) t = (Inr r, s')"
    by (auto simp: andThen_Inr_iff)
  show ?thesis
  proof (cases early)
    case None
    with k submitMigration_success [of env deps cfg ?a t r s'] assms(2) show ?thesis by simp
  next
    case (Some x)
    with c k checkMigration_success [of env deps cfg ?a s r s'] assms(2) show ?thesis by simp
  qed
qed

subsection \<open>What the migration sends\<close>

definition migrationCosts where
  "migrationCosts c env \<longleftrightarrow> (\<forall>x. costs c 1 (sendTransaction env x)) \<and>
     (\<forall>a. costs c 0 (getAccount env a)) \<and> (\<forall>x. costs c 0 (simulate env x)) \<and>
     (\<forall>h. costs c 0 (getTransaction env h))"

lemma costs_andThen0: "costs c 0 f \<Longrightarrow> (\<And>x. costs c k (g x)) \<Longrightarrow> costs c k (andThen f g)"
  using costs_andThen [of c 0 f k g] by simp

lemma costs_guard: "(\<And>x. costs c k (g x)) \<Longrightarrow> costs c k (andThen (fromSum r) g)"
  by (rule costs_andThen0) simp_all

lemma costs_retried: "costs c 0 f \<Longrightarrow> costs c 0 (retried f)"
proof -
  assume f: "costs c 0 f"
  have "costs c 0 (withRetry f n e)" for n e
  proof (induction n arbitrary: e)
    case (Suc n)
    then show ?case using costs_tryCatch [OF f, of 0 "withRetry f n"] by simp
  qed simp
  then show ?thesis by (simp add: retried_def)
qed

lemma query_costs:
  assumes "migrationCosts c env"
  shows "costs c 0 (hasAdmin env deps pp cid)" "costs c 0 (hasRole env deps pp cid role a)"
proof -
  have "costs c 0 (queryResult env deps me tx)" for me tx
    unfolding queryResult_def using assms
    by (intro costs_andThen0) (auto simp: migrationCosts_def split: Simulation.splits option.splits)
  then show "costs c 0 (hasAdmin env deps pp cid)" "costs c 0 (hasRole env deps pp cid role a)"
    unfolding hasAdmin_def hasRole_def by (auto intro!: costs_guard)
qed

lemma check_costs:
  assumes "migrationCosts c env"
  shows "costs c 0 (checkMigration env deps cfg a)"
  unfolding checkMigration_def
  by (auto intro!: costs_andThen0 costs_retried query_costs [OF assms])

lemma migrationTx_costs:
  assumes "migrationCosts c env"
  shows "costs c 0 (migrationTx env cfg a)"
  unfolding migrationTx_def using assms
  by (auto intro!: costs_andThen0 simp: migrationCosts_def)

lemma verify_costs:
  assumes "migrationCosts c env"
  shows "costs c 0 (verifyMigration env deps cfg a h)"
proof -
  have g: "costs c 0 (getTransaction env h)" for h using assms by (simp add: migrationCosts_def)
  have "costs c 0 (pollTransaction env h n)" for h n
    by (induction n) (auto intro!: costs_andThen0 g)
  then show ?thesis
    unfolding verifyMigration_def
    by (auto intro!: costs_andThen0 costs_retried query_costs [OF assms] split: TxStatus.splits)
qed

lemma submit_costs:
  assumes "migrationCosts c env"
  shows "costs c 1 (submitMigration env deps cfg a)"
proof -
  have send: "costs c 1 (andThen (sendTransaction env x) (\<lambda>r. if send_status r = ''ERROR'' then ret (f r)
      else verifyMigration env deps cfg a (send_hash r)))" for x f
  proof -
    have "costs c (1 + 0) (andThen (sendTransaction env x) (\<lambda>r. if send_status r = ''ERROR'' then ret (f r)
        else verifyMigration env deps cfg a (send_hash r)))"
      using assms verify_costs [OF assms] by (intro costs_andThen) (auto simp: migrationCosts_def)
    then show ?thesis by simp
  qed
  show ?thesis
    unfolding submitMigration_def
    by (rule costs_andThen0 [OF migrationTx_costs [OF assms]])
       (auto intro!: costs_guard send [unfolded One_nat_def] split: Simulation.splits prod.splits)
qed

lemma costs_catchResult: "costs c k f \<Longrightarrow> costs c k (catchResult f)"
  using costs_tryCatch [of c k f 0 "\<lambda>e. ret (failedWith None (errorMessage e))"]
  by (simp add: catchResult_def)

text \<open>
  A migration sends at most one transaction, a dry run none; counted by anything that a
  send raises by at most one and that simulations, account lookups and polls leave alone,
  whatever they answer and however often queries are retried.
\<close>

theorem migration_sends_at_most_once:
  assumes "migrationCosts c env"
  shows "c (snd (migrateContract env deps cfg s)) \<le> c s + 1 \<and> c (snd (dryRunMigration env deps cfg s)) \<le> c s"
proof -
  have "costs c 1 (migrateContract env deps cfg)"
    unfolding migrateContract_def Let_def
    by (auto intro!: costs_guard costs_catchResult costs_andThen0 check_costs [OF assms]
        submit_costs [OF assms, unfolded One_nat_def] split: option.splits)
  moreover have "costs c 0 (dryRunMigration env deps cfg)"
    unfolding dryRunMigration_def Let_def
    by (auto intro!: costs_guard costs_catchResult costs_andThen0 check_costs [OF assms]
        migrationTx_costs [OF assms] split: option.splits Simulation.splits prod.splits)
  ultimately show ?thesis by (simp add: costs_def)
qed

subsection \<open>Examples\<close>

text \<open>Queries that answer \<open>b\<close>; the node logs what is sent.\<close>

definition sampleDeps :: "bool \<Rightarrow> (unit, unit) MigrationDeps" where
  "sampleDeps b = \<lparr>newContract = (\<lambda>_. Inr ()), retval = (\<lambda>_. Some (Inr (NBool b))), symbolArg = (\<lambda>_. ()),
     addressArg = (\<lambda>_. Inr ()), stringify = (\<lambda>_. '''')\<rparr>"

definition sampleConfig :: MigrationConfig where
  "sampleConfig = \<lparr>mig_passphrase = ''P'', mig_contractId = ''C'', mig_adminKeypair = ''K''\<rparr>"

theorem migration_success_is_verified_witness:
  "roleConfirmed (logNode acceptedAnswer failedOnLedger) (sampleDeps True) sampleConfig ''K''
     (snd (migrateContract (logNode acceptedAnswer failedOnLedger) (sampleDeps True) sampleConfig
        \<lparr>sends = 0, fees = []\<rparr>))"
proof -
  let ?run = "migrateContract (logNode acceptedAnswer failedOnLedger) (sampleDeps True) sampleConfig
        \<lparr>sends = 0, fees = []\<rparr>"
  have "fst ?run = Inr (succeededWith None (Some True) ''K'')" by code_simp
  then have run: "?run = (Inr (succeededWith None (Some True) ''K''), snd ?run)" by (metis prod.collapse)
  have key: "SorobanEnv.publicKey (logNode acceptedAnswer failedOnLedger) (mig_adminKeypair sampleConfig) = ''K''"
    by (simp add: logNode_def sampleConfig_def)
  show ?thesis using migration_success_is_verified [OF run] unfolding key by simp
qed

theorem migration_sends_at_most_once_witness:
  "sends (snd (migrateContract (logNode acceptedAnswer failedOnLedger) (sampleDeps True) sampleConfig
     \<lparr>sends = 4, fees = []\<rparr>)) \<le> 4 + 1 \<and>
   sends (snd (dryRunMigration (logNode acceptedAnswer failedOnLedger) (sampleDeps True) sampleConfig
     \<lparr>sends = 4, fees = []\<rparr>)) \<le> 4"
proof -
  have "migrationCosts sends (logNode acceptedAnswer failedOnLedger)"
    by (simp add: migrationCosts_def costs_def logNode_def)
  from migration_sends_at_most_once [OF this, of "sampleDeps True" sampleConfig "\<lparr>sends = 4, fees = []\<rparr>"]
  show ?thesis by simp
qed

end
