(* ===== verification/ClientBase.thy ===== *)
theory ClientBase
  imports SubmitTx Sdk_Types
begin

text \<open>
  What the three contract clients of the SDK (\<^verbatim>\<open>src/sdk/src/client.ts\<close>, \<^verbatim>\<open>vaultClient.ts\<close>
  and \<^verbatim>\<open>wrapperClient.ts\<close>) share: the conversions of \<^verbatim>\<open>src/sdk/src/utils.ts\<close>, the wallet adapter
  interface of \<^verbatim>\<open>src/sdk/src/walletAdapter.ts\<close>, a read-only query against the node, the retry loop
  and the reading of a settled transaction.

  The Stellar SDK's value conversions and the calls of the RPC server that only the clients use
  are the fields of \<open>ClientEnv\<close>; the server and the transaction builder are its field \<open>soroban\<close>.
  A wallet lives in the same outside world as the node: its \<^verbatim>\<open>connected\<close> flag and its public key
  are read from that world, and its operations change it. The pauses between two attempts are left
  out. Calls that run concurrently inside \<^verbatim>\<open>Promise.all\<close> are run one after the other.
\<close>

subsection \<open>The Stellar SDK, the server and the wallet\<close>

record LedgerEntry =
  liveUntilLedgerSeq :: "int option"

record 'ev EventsPage =
  page_events :: "'ev list"
  page_cursor :: string

text \<open>The two forms of an event request.\<close>

datatype EventsFrom = FromLedger int | FromCursor string

record ('s, 'acc, 'tx, 'sim, 'v, 'ev) ClientEnv =
  soroban :: "('s, 'acc, 'tx, 'sim, 'v) SorobanEnv"
  newAddress :: "string \<Rightarrow> sdk_error + 'v"
  nativeToScVal :: "Native \<Rightarrow> string \<Rightarrow> sdk_error + 'v"
  scvSymbol :: "string \<Rightarrow> 'v"
  scvVec :: "'v list \<Rightarrow> 'v"
  scvMap :: "('v \<times> 'v) list \<Rightarrow> 'v"
  scvBytes :: "string \<Rightarrow> 'v"
  nativeToScValVariant :: "string \<Rightarrow> 'v list \<Rightarrow> sdk_error + 'v"
  sdkScValToNative :: "'v \<Rightarrow> sdk_error + Native"
  simRetval :: "'sim \<Rightarrow> 'v option"
  getLatestLedger :: "(sdk_error, 's, int) act"
  serverGetEvents :: "EventsFrom \<Rightarrow> string \<Rightarrow> (sdk_error, 's, 'ev EventsPage) act"
  getLedgerEntries :: "string \<Rightarrow> (sdk_error, 's, LedgerEntry list option) act"
  sequenceNumber :: "'acc \<Rightarrow> string"

record 's WalletAdapter =
  connected :: "'s \<Rightarrow> bool"
  walletPublicKey :: "'s \<Rightarrow> string option"
  connect :: "(sdk_error, 's, unit) act"
  disconnect :: "(sdk_error, 's, unit) act"
  walletSign :: "string \<Rightarrow> string option \<Rightarrow> (sdk_error, 's, string) act"

subsection \<open>Conversions\<close>

definition addressToScVal :: "('s, 'acc, 'tx, 'sim, 'v, 'ev) ClientEnv \<Rightarrow> string \<Rightarrow> sdk_error + 'v" where
  "addressToScVal env address = newAddress env address"

definition i128ToScVal :: "('s, 'acc, 'tx, 'sim, 'v, 'ev) ClientEnv \<Rightarrow> int \<Rightarrow> sdk_error + 'v" where
  "i128ToScVal env value = nativeToScVal env (NBig value) ''i128''"

definition stringToScVal :: "('s, 'acc, 'tx, 'sim, 'v, 'ev) ClientEnv \<Rightarrow> string \<Rightarrow> sdk_error + 'v" where
  "stringToScVal env value = nativeToScVal env (NStr value) ''string''"

definition u32ToScVal :: "('s, 'acc, 'tx, 'sim, 'v, 'ev) ClientEnv \<Rightarrow> int \<Rightarrow> sdk_error + 'v" where
  "u32ToScVal env value = nativeToScVal env (NNum value) ''u32''"

definition scValToNative :: "('s, 'acc, 'tx, 'sim, 'v, 'ev) ClientEnv \<Rightarrow> 'v \<Rightarrow> sdk_error + Native" where
  "scValToNative env scVal = sdkScValToNative env scVal"

text \<open>\<^verbatim>\<open>nativeToScVal(value, { type: 'u64' })\<close>.\<close>

definition u64ToScVal :: "('s, 'acc, 'tx, 'sim, 'v, 'ev) ClientEnv \<Rightarrow> int \<Rightarrow> sdk_error + 'v" where
  "u64ToScVal env value = nativeToScVal env (NBig value) ''u64''"

text \<open>\<^verbatim>\<open>BigInt(value)\<close> of a decoded value; what is neither a number nor a numeral throws.\<close>

definition BigInt_native :: "Native \<Rightarrow> sdk_error + int" where
  "BigInt_native v =
     (let bad = Inl (OtherError (''Cannot convert '' @ nativeString v @ '' to a BigInt'')) in
      case v of
        NUndef \<Rightarrow> bad
      | NNull \<Rightarrow> bad
      | NBool b \<Rightarrow> Inr (if b then 1 else 0)
      | NNum i \<Rightarrow> Inr i
      | NBig i \<Rightarrow> Inr i
      | _ \<Rightarrow> (case BigInt (nativeString v) of Some i \<Rightarrow> Inr i | None \<Rightarrow> bad))"

text \<open>\<^verbatim>\<open>value[key]\<close>: a property of \<^verbatim>\<open>undefined\<close> or \<^verbatim>\<open>null\<close> throws, a missing one is \<^verbatim>\<open>undefined\<close>.\<close>

definition nativeProp :: "Native \<Rightarrow> string \<Rightarrow> sdk_error + Native" where
  "nativeProp v key =
     (case v of
        NUndef \<Rightarrow> Inl (OtherError ''Cannot read properties of undefined'')
      | NNull \<Rightarrow> Inl (OtherError ''Cannot read properties of null'')
      | NObj fs \<Rightarrow> Inr (case map_of fs key of Some x \<Rightarrow> x | None \<Rightarrow> NUndef)
      | _ \<Rightarrow> Inr NUndef)"

definition nullish :: "Native \<Rightarrow> bool" where
  "nullish v \<longleftrightarrow> v = NUndef \<or> v = NNull"

text \<open>\<^verbatim>\<open>value[snake] ?? value[camel]\<close>.\<close>

definition pick :: "Native \<Rightarrow> string \<Rightarrow> string \<Rightarrow> sdk_error + Native" where
  "pick v snake camel =
     (case nativeProp v snake of
        Inl e \<Rightarrow> Inl e
      | Inr x \<Rightarrow> if nullish x then nativeProp v camel else Inr x)"

text \<open>An argument list is evaluated from left to right; the first conversion that throws ends it.\<close>

fun sequence :: "('e + 'a) list \<Rightarrow> 'e + 'a list" where
  "sequence [] = Inr []"
| "sequence (x # xs) =
     (case x of
        Inl e \<Rightarrow> Inl e
      | Inr a \<Rightarrow> (case sequence xs of Inl e \<Rightarrow> Inl e | Inr as \<Rightarrow> Inr (a # as)))"

subsection \<open>Retries\<close>

text \<open>
  \<^verbatim>\<open>withRetry\<close>: the attempts that are left and the last error. The clients differ in the errors
  that end the loop at once.
\<close>

fun withRetry :: "(sdk_error \<Rightarrow> bool) \<Rightarrow> (sdk_error, 's, 'a) act \<Rightarrow> nat \<Rightarrow> sdk_error \<Rightarrow> (sdk_error, 's, 'a) act" where
  "withRetry fatal fn 0 lastError = throw lastError"
| "withRetry fatal fn (Suc n) lastError =
     tryCatch fn (\<lambda>e. if fatal e then throw e else withRetry fatal fn n e)"

text \<open>Three attempts; the error before the first one is never thrown.\<close>

definition withRetry3 :: "(sdk_error \<Rightarrow> bool) \<Rightarrow> (sdk_error, 's, 'a) act \<Rightarrow> (sdk_error, 's, 'a) act" where
  "withRetry3 fatal fn = withRetry fatal fn 3 (OtherError ''undefined'')"

text \<open>The default message of \<^verbatim>\<open>SignerRequiredError\<close>.\<close>

definition signerRequired :: string where
  "signerRequired =
     ''A signer (Keypair or connected WalletAdapter) is required to execute write transactions''"

subsection \<open>Queries\<close>

definition ZERO_ADDRESS :: string where
  "ZERO_ADDRESS = ''GAAAAAAAAAAAAAAAAAAAAAAAAAAAAAAAAAAAAAAAAAAAAAAAAAAAAWHF''"

definition isZeroAddress :: "string \<Rightarrow> bool" where
  "isZeroAddress address \<longleftrightarrow> address = ZERO_ADDRESS"

text \<open>The transaction a query simulates: source account zero, sequence 0, fee 100.\<close>

definition simulateCall ::
    "('s, 'acc, 'tx, 'sim, 'v, 'ev) ClientEnv \<Rightarrow> string \<Rightarrow> string \<Rightarrow> string \<Rightarrow> 'v list \<Rightarrow>
     (sdk_error, 's, 'sim Simulation) act" where
  "simulateCall env passphrase contractId method args =
     andThen (fromSum (dummyAccount (soroban env) ZERO_ADDRESS)) (\<lambda>account.
     andThen (fromSum (buildCall (soroban env) account ''100'' passphrase contractId method args))
       (SorobanEnv.simulate (soroban env)))"

text \<open>The value of a successful simulation.\<close>

definition simulatedValue :: "('s, 'acc, 'tx, 'sim, 'v, 'ev) ClientEnv \<Rightarrow> 'sim Simulation \<Rightarrow> 'v option" where
  "simulatedValue env simulated =
     (case simulated of SimulationOk sim \<Rightarrow> simRetval env sim | _ \<Rightarrow> None)"

text \<open>The query of the vault and the wrapper client, which do not parse contract errors.\<close>

definition plainQuery ::
    "('s, 'acc, 'tx, 'sim, 'v, 'ev) ClientEnv \<Rightarrow> string \<Rightarrow> string \<Rightarrow> string \<Rightarrow> 'v list \<Rightarrow>
     (sdk_error, 's, 'v) act" where
  "plainQuery env passphrase contractId method args =
     tryCatch
       (andThen (simulateCall env passphrase contractId method args) (\<lambda>simulated.
          case simulated of
            SimulationFailed err \<Rightarrow> throw (SimulationError (''Query failed: '' @ err) (Some err))
          | _ \<Rightarrow>
              (case simulatedValue env simulated of
                 None \<Rightarrow> throw (SimulationError ''Query returned no result'' None)
               | Some v \<Rightarrow> ret v)))
       (\<lambda>e. case e of SimulationError _ _ \<Rightarrow> throw e | _ \<Rightarrow> throw (RPCError ''RPC call failed''))"

text \<open>\<^verbatim>\<open>submitTransaction(rpcUrl, txXdr)\<close> without options.\<close>

definition noOptions :: "'v SubmitTransactionOptions" where
  "noOptions = \<lparr>maxAttempts = None, maxFeeCap = None, sourceKeypair = None, networkPassphrase = None,
     opt_contractId = None, opt_method = None, opt_args = None\<rparr>"

subsection \<open>Settled transactions\<close>

definition responseHash :: "'v GetResponse \<Rightarrow> string" where
  "responseHash r = (case get_hash r of Some h \<Rightarrow> h | None \<Rightarrow> get_txHash r)"

definition settled ::
    "('s, 'acc, 'tx, 'sim, 'v, 'ev) ClientEnv \<Rightarrow> ('v GetResponse \<Rightarrow> string) \<Rightarrow> 'v GetResponse \<Rightarrow>
     sdk_error + TransactionResult" where
  "settled env getHash response =
     (if get_status response = SUCCESS then
        map_sum id (\<lambda>v. \<lparr>success = True, tx_hash = getHash response, returnValue = v\<rparr>)
          (case get_returnValue response of None \<Rightarrow> Inr NUndef | Some v \<Rightarrow> scValToNative env v)
      else Inr \<lparr>success = False, tx_hash = getHash response, returnValue = NUndef\<rparr>)"

subsection \<open>Lemmas on retries\<close>

lemma sequence_map_Inr [simp]: "sequence (map Inr ys) = Inr ys"
  by (induction ys) auto

lemma sequence_Inr_iff: "sequence xs = Inr ys \<longleftrightarrow> xs = map Inr ys"
proof
  show "sequence xs = Inr ys \<Longrightarrow> xs = map Inr ys"
    by (induction xs arbitrary: ys) (auto split: sum.splits)
qed simp

lemma withRetry_fatal:
  "fn s = (Inl e, s') \<Longrightarrow> fatal e \<Longrightarrow> withRetry3 fatal fn s = (Inl e, s')"
  by (simp add: withRetry3_def tryCatch_def numeral_3_eq_3)

lemma withRetry_first:
  "fn s = (Inr x, s') \<Longrightarrow> withRetry3 fatal fn s = (Inr x, s')"
  by (simp add: withRetry3_def tryCatch_def numeral_3_eq_3)

lemma withRetry_thrice:
  assumes "fn s = (Inl e1, s1)" and "\<not> fatal e1" and "fn s1 = (Inl e2, s2)" and "\<not> fatal e2"
    and "fn s2 = (r, s3)"
  shows "withRetry3 fatal fn s = (r, s3)"
  using assms by (cases r) (auto simp: withRetry3_def tryCatch_def numeral_3_eq_3)

lemma keeps_withRetry [intro]: "keeps P fn \<Longrightarrow> keeps P (withRetry fatal fn n e)"
  by (induction n arbitrary: e) auto

lemma keeps_withRetry3 [intro]: "keeps P fn \<Longrightarrow> keeps P (withRetry3 fatal fn)"
  by (auto simp: withRetry3_def)

text \<open>What the loop returns, one of the attempts has returned.\<close>

lemma withRetry_result:
  assumes "withRetry fatal fn n e s = (Inr x, t)" and "P s"
    and "\<And>s e' s'. P s \<Longrightarrow> fn s = (Inl e', s') \<Longrightarrow> P s'"
  shows "\<exists>s'. P s' \<and> fn s' = (Inr x, t)"
  using assms(1,2)
proof (induction n arbitrary: e s)
  case (Suc n)
  obtain r s1 where fn: "fn s = (r, s1)" by force
  show ?case
  proof (cases r)
    case (Inr y)
    with Suc.prems fn show ?thesis by (auto simp: tryCatch_def)
  next
    case (Inl d)
    with Suc.prems fn have "withRetry fatal fn n d s1 = (Inr x, t)"
      by (auto simp: tryCatch_def split: if_splits)
    moreover have "P s1" using assms(3) Suc.prems(2) fn Inl by blast
    ultimately show ?thesis by (rule Suc.IH)
  qed
qed simp

subsection \<open>A concrete environment\<close>

text \<open>
  The logging node of the submission theory behind a client whose values carry no information; the
  node answers every query with the number \<open>5\<close>.
\<close>

definition logClientEnv :: "SendResponse \<Rightarrow> unit GetResponse \<Rightarrow> (NodeLog, unit, string, unit, unit, unit) ClientEnv" where
  "logClientEnv answer final = \<lparr>soroban = logNode answer final,
     newAddress = (\<lambda>_. Inr ()), nativeToScVal = (\<lambda>_ _. Inr ()), scvSymbol = (\<lambda>_. ()),
     scvVec = (\<lambda>_. ()), scvMap = (\<lambda>_. ()), scvBytes = (\<lambda>_. ()), nativeToScValVariant = (\<lambda>_ _. Inr ()),
     sdkScValToNative = (\<lambda>_. Inr (NBig 5)), simRetval = (\<lambda>_. Some ()),
     getLatestLedger = (\<lambda>s. (Inr 7, s)), serverGetEvents = (\<lambda>_ _ s. (Inr \<lparr>page_events = [], page_cursor = []\<rparr>, s)),
     getLedgerEntries = (\<lambda>_ s. (Inr None, s)), sequenceNumber = (\<lambda>_. ''1'')\<rparr>"

definition stillPending :: "unit GetResponse" where
  "stillPending = \<lparr>get_status = NOT_FOUND, resultXdr = None, get_hash = None, get_txHash = ''h'',
     get_returnValue = None\<rparr>"

definition confirmed :: "unit GetResponse" where
  "confirmed = \<lparr>get_status = SUCCESS, resultXdr = None, get_hash = None, get_txHash = ''h'',
     get_returnValue = None\<rparr>"

definition emptyLog :: NodeLog where
  "emptyLog = \<lparr>sends = 0, fees = []\<rparr>"

definition timeoutMessage :: string where
  "timeoutMessage = ''Transaction not found after maximum polling attempts''"

lemma poll_stillPending: "pollTransaction (logNode acceptedAnswer stillPending) h n s = (Inr stillPending, s)"
  by (induction n) (auto simp: logNode_simps andThen_def stillPending_def)

lemma answer_simps [simp]:
  "send_status acceptedAnswer = ''PENDING''" "send_hash acceptedAnswer = ''h''"
  "get_status stillPending = NOT_FOUND" "get_status confirmed = SUCCESS"
  by (simp_all add: acceptedAnswer_def stillPending_def confirmed_def)

lemma await_stillPending:
  "awaitTransaction (logNode acceptedAnswer stillPending) me h s =
     (Inl (TransactionTimeoutError timeoutMessage h), s)"
  by (simp add: awaitTransaction_def andThen_def poll_stillPending timeoutMessage_def)

lemma sendCurrent_logNode:
  "sendCurrent (logNode answer final) x pp s = (Inr answer, s\<lparr>sends := sends s + 1\<rparr>)"
  by (simp add: sendCurrent_def tryCatch_def andThen_def fromSum_def logNode_def)

text \<open>An error that \<^verbatim>\<open>submitTransaction\<close> does not retry.\<close>

lemma submit_final_error:
  assumes "feeCap (maxFeeCap opts) = Inr cap" and "attemptsOf opts = Suc n"
    and await: "\<And>s. awaitTransaction (logNode acceptedAnswer final) (opt_method opts) ''h'' s = (Inl e, s)"
    and "(\<exists>p. e = ContractErr p) \<or> (\<exists>m h. e = TransactionTimeoutError m h)"
  shows "submitTransaction (logNode acceptedAnswer final) x opts s = (Inl e, s\<lparr>sends := sends s + 1\<rparr>)"
  using assms(1,2,4)
  by (auto simp: submitTransaction_def fromSum_def attemptBody_def andThen_def withFee_def
      sendCurrent_logNode await handleCaught_def)

lemma submit_stillPending:
  assumes "feeCap (maxFeeCap opts) = Inr cap" and "attemptsOf opts = Suc n"
  shows "submitTransaction (logNode acceptedAnswer stillPending) x opts s =
     (Inl (TransactionTimeoutError timeoutMessage ''h''), s\<lparr>sends := sends s + 1\<rparr>)"
  by (rule submit_final_error [OF assms await_stillPending]) simp

lemma build_logNode:
  "buildInvokeTransaction (logNode answer final) pp cid m vs kp None s =
     (Inr ''100'', s\<lparr>fees := fees s @ [''100'']\<rparr>)"
  by (simp add: logNode_def buildInvokeTransaction_def andThen_def fromSum_def Let_def)

text \<open>A transaction that the contract rejected on the ledger.\<close>

definition rejectedOnLedger :: "unit GetResponse" where
  "rejectedOnLedger = \<lparr>get_status = FAILED, resultXdr = Some ''Error(Contract, #10)'', get_hash = None,
     get_txHash = ''h'', get_returnValue = None\<rparr>"

lemma await_rejected:
  "\<exists>p. \<forall>s. awaitTransaction (logNode acceptedAnswer rejectedOnLedger) None h s = (Inl (ContractErr p), s)"
proof -
  have st: "get_status rejectedOnLedger = FAILED" "resultXdr rejectedOnLedger = Some ''Error(Contract, #10)''"
    by (simp_all add: rejectedOnLedger_def)
  have poll: "pollTransaction (logNode acceptedAnswer rejectedOnLedger) h n s = (Inr rejectedOnLedger, s)" for n s
    by (cases n) (auto simp: logNode_simps andThen_def st)
  have "parseContractError ''Error(Contract, #10)'' None \<noteq> None" by code_simp
  then obtain p where "parseContractError ''Error(Contract, #10)'' None = Some p" by blast
  then show ?thesis
    by (auto simp: awaitTransaction_def andThen_def poll st orText_def truthy_def Let_def)
qed

lemma noOptions_simps [simp]:
  "maxFeeCap noOptions = None" "attemptsOf noOptions = Suc 2" "opt_method noOptions = None"
  by (simp_all add: noOptions_def attemptsOf_def)

lemma submit_rejected:
  "\<exists>p. \<forall>x s. submitTransaction (logNode acceptedAnswer rejectedOnLedger) x noOptions s =
     (Inl (ContractErr p), s\<lparr>sends := sends s + 1\<rparr>)"
proof -
  obtain p where p: "\<And>s. awaitTransaction (logNode acceptedAnswer rejectedOnLedger)
      (opt_method (noOptions :: unit SubmitTransactionOptions)) ''h'' s = (Inl (ContractErr p), s)"
    using await_rejected [of "''h''"] by auto
  have "feeCap (maxFeeCap (noOptions :: unit SubmitTransactionOptions)) = Inr 10000000"
    by (simp add: feeCap_def)
  from submit_final_error [OF this noOptions_simps(2) p] show ?thesis by auto
qed

end
