(* ===== verification/TokenClient.thy ===== *)
theory TokenClient
  imports ClientBase
begin

text \<open>
  \<^verbatim>\<open>src/sdk/src/client.ts\<close>: the class \<^verbatim>\<open>bcForgeClient\<close>. The fields that change (wallet adapter, read
  cache, pinned ledger sequence) and the outside world form the state \<open>TokenClient\<close>; the rest of
  the configuration is \<open>bcForgeClientConfig\<close>, and the RPC URL selects the \<open>ClientEnv\<close>. One definition
  models one method. A value the source casts without a check (\<^verbatim>\<open>as string\<close>) stays a \<open>Native\<close>.

  The theorems: \<open>executeBatch\<close> returns for a positive batch size with the results in order and never
  returns for size zero; no write reaches the node without a signer; a write that resolves has
  succeeded; a write whose confirmation times out is signed and sent again.
\<close>

subsection \<open>Types\<close>

record bcForgeClientConfig =
  cfg_networkPassphrase :: string
  cfg_contractId :: string
  cfg_maxRetryAttempts :: "int option"
  cfg_maxFeeCap :: "FeeCap option"

record 's TokenClient =
  walletAdapter :: "'s WalletAdapter option"
  readCache :: "string \<rightharpoonup> int \<times> int"
  cachedLedgerSequence :: int
  world :: 's

record InitVerificationResult =
  iv_valid :: bool
  iv_admin :: "Native option"
  iv_name :: "Native option"
  iv_symbol :: "Native option"
  iv_decimals :: "Native option"
  iv_totalSupply :: "int option"
  iv_pauserGranted :: "bool option"
  iv_errors :: "string list"

record RoleHierarchy =
  rh_address :: Native
  isAdmin :: bool
  isSuperAdmin :: bool
  isMinter :: bool
  isPauser :: bool

record ProposalLists =
  pendingIds :: "int list"
  approvedIds :: "int list"
  nextCursor :: "int option"

record RoleGrantProposalDetails =
  rp_description :: string
  rp_role :: string
  rp_target :: string
  rp_approvals :: js_number
  rp_quorum :: js_number
  rp_executed :: bool

datatype ProposedAction = MintAction string int | PauseAction | UnpauseAction

record FlashLoanLock =
  isLocked :: bool
  depositBlock :: "int option"
  fl_currentLedger :: int

record ContractTtl =
  ttl_currentLedger :: int
  ttl_liveUntilLedgerSeq :: int
  ttl_ledgersRemaining :: int

record RateLimit =
  rl_limit :: int
  rl_windowSeconds :: int
  rl_currentUsage :: int
  rl_remainingQuota :: int
  rl_cooldownSeconds :: int
  rl_isThrottled :: bool

type_synonym ('s, 'a) client_act = "(sdk_error, 's TokenClient, 'a) act"

definition roleToScVal :: "('s, 'acc, 'tx, 'sim, 'v, 'ev) ClientEnv \<Rightarrow> string \<Rightarrow> 'v" where
  "roleToScVal env role = scvSymbol env role"

definition asIds :: "Native \<Rightarrow> sdk_error + int list" where
  "asIds v = (case v of NList vs \<Rightarrow> sequence (map BigInt_native vs) | _ \<Rightarrow> Inr [])"

definition parseProposalLists :: "Native \<Rightarrow> sdk_error + ProposalLists" where
  "parseProposalLists native =
     (case (pick native ''pending_ids'' ''pendingIds'', pick native ''approved_ids'' ''approvedIds'',
            pick native ''next_cursor'' ''nextCursor'') of
        (Inr pending, Inr approved, Inr cursor) \<Rightarrow>
          (case asIds pending of
             Inl e \<Rightarrow> Inl e
           | Inr ps \<Rightarrow>
             (case asIds approved of
                Inl e \<Rightarrow> Inl e
              | Inr as \<Rightarrow>
                (if nullish cursor then Inr \<lparr>pendingIds = ps, approvedIds = as, nextCursor = None\<rparr>
                 else map_sum id (\<lambda>n. \<lparr>pendingIds = ps, approvedIds = as, nextCursor = Some n\<rparr>)
                        (BigInt_native cursor))))
      | (Inl e, _, _) \<Rightarrow> Inl e
      | (_, Inl e, _) \<Rightarrow> Inl e
      | (_, _, Inl e) \<Rightarrow> Inl e)"

subsection \<open>Construction and the wallet\<close>

definition newTokenClient :: "'s WalletAdapter option \<Rightarrow> 's \<Rightarrow> 's TokenClient" where
  "newTokenClient adapter w =
     \<lparr>walletAdapter = adapter, readCache = Map.empty, cachedLedgerSequence = 0, world = w\<rparr>"

text \<open>A step of the outside world.\<close>

definition onWorld :: "(sdk_error, 's, 'a) act \<Rightarrow> ('s, 'a) client_act" where
  "onWorld f c = (case f (world c) of (r, w) \<Rightarrow> (r, c\<lparr>world := w\<rparr>))"

lemma onWorld_iff:
  "onWorld f c = (r, c') \<longleftrightarrow> (\<exists>w. f (world c) = (r, w) \<and> c' = c\<lparr>world := w\<rparr>)"
  by (auto simp: onWorld_def split: prod.splits)

definition setWalletAdapter :: "'s WalletAdapter option \<Rightarrow> ('s, unit) client_act" where
  "setWalletAdapter adapter c = (Inr (), c\<lparr>walletAdapter := adapter\<rparr>)"

definition getWalletAdapter :: "('s, 's WalletAdapter option) client_act" where
  "getWalletAdapter c = (Inr (walletAdapter c), c)"

definition getContractId :: "bcForgeClientConfig \<Rightarrow> string" where
  "getContractId cfg = cfg_contractId cfg"

definition connectWallet :: "('s, string option) client_act" where
  "connectWallet c =
     (case walletAdapter c of
        None \<Rightarrow> throw (OtherError ''No wallet adapter configured'') c
      | Some wa \<Rightarrow> andThen (onWorld (connect wa)) (\<lambda>_ c. (Inr (walletPublicKey wa (world c)), c)) c)"

definition disconnectWallet :: "('s, unit) client_act" where
  "disconnectWallet c =
     (case walletAdapter c of None \<Rightarrow> ret () c | Some wa \<Rightarrow> onWorld (disconnect wa) c)"

subsection \<open>The ledger cache\<close>

definition getLatestLedgerSequence ::
    "('s, 'acc, 'tx, 'sim, 'v, 'ev) ClientEnv \<Rightarrow> ('s, int) client_act" where
  "getLatestLedgerSequence env c =
     (if cachedLedgerSequence c > 0 then (Inr (cachedLedgerSequence c), c)
      else tryCatch (onWorld (getLatestLedger env)) (\<lambda>_ c. (Inr (cachedLedgerSequence c), c)) c)"

definition setLedgerSequence :: "int \<Rightarrow> ('s, unit) client_act" where
  "setLedgerSequence sequenceNo c = (Inr (), c\<lparr>cachedLedgerSequence := sequenceNo\<rparr>)"

definition clearCache :: "('s, unit) client_act" where
  "clearCache c = (Inr (), c\<lparr>readCache := Map.empty\<rparr>)"

text \<open>\<^verbatim>\<open>strArgs.join(':')\<close>.\<close>

fun joinColon :: "string list \<Rightarrow> string" where
  "joinColon [] = []"
| "joinColon [x] = x"
| "joinColon (x # y # ys) = x @ '':'' @ joinColon (y # ys)"

definition cacheKey :: "bcForgeClientConfig \<Rightarrow> string \<Rightarrow> string list \<Rightarrow> int \<Rightarrow> string" where
  "cacheKey cfg method strArgs currentLedger =
     cfg_contractId cfg @ '':'' @ method @ '':'' @ joinColon strArgs @ '':'' @ show_int currentLedger"

text \<open>The loop that deletes the entries of other ledgers.\<close>

definition dropOldLedgers :: "int \<Rightarrow> (string \<rightharpoonup> int \<times> int) \<Rightarrow> (string \<rightharpoonup> int \<times> int)" where
  "dropOldLedgers currentLedger m k =
     (case m k of Some (v, l) \<Rightarrow> if l \<noteq> currentLedger then None else Some (v, l) | None \<Rightarrow> None)"

definition getCachedRead ::
    "('s, 'acc, 'tx, 'sim, 'v, 'ev) ClientEnv \<Rightarrow> bcForgeClientConfig \<Rightarrow> string \<Rightarrow> string list \<Rightarrow>
     ('s, int) client_act \<Rightarrow> ('s, int) client_act" where
  "getCachedRead env cfg method strArgs fetcher =
     andThen (getLatestLedgerSequence env) (\<lambda>currentLedger c.
       let key = cacheKey cfg method strArgs currentLedger;
           miss = andThen fetcher (\<lambda>val c.
                    (Inr val, c\<lparr>readCache := (readCache c)(key \<mapsto> (val, currentLedger))\<rparr>))
                    (c\<lparr>readCache := dropOldLedgers currentLedger (readCache c)\<rparr>)
       in case readCache c key of
            Some (v, l) \<Rightarrow> if l = currentLedger then (Inr v, c) else miss
          | None \<Rightarrow> miss)"

subsection \<open>Internal helpers\<close>

fun fatalError :: "sdk_error \<Rightarrow> bool" where
  "fatalError (ContractErr e) = True"
| "fatalError (SimulationError m d) = True"
| "fatalError (SignerRequiredError m) = True"
| "fatalError _ = False"

definition queryOnce ::
    "('s, 'acc, 'tx, 'sim, 'v, 'ev) ClientEnv \<Rightarrow> bcForgeClientConfig \<Rightarrow> string \<Rightarrow> 'v list \<Rightarrow>
     (sdk_error, 's, 'v) act" where
  "queryOnce env cfg method args =
     tryCatch
       (andThen (simulateCall env (cfg_networkPassphrase cfg) (cfg_contractId cfg) method args) (\<lambda>simulated.
          case simulated of
            SimulationFailed err \<Rightarrow>
              (case parseContractError err (Some method) of
                 Some parsed \<Rightarrow> throw (ContractErr parsed)
               | None \<Rightarrow> throw (SimulationError (''Query failed: '' @ err) (Some err)))
          | _ \<Rightarrow>
              (case simulatedValue env simulated of
                 None \<Rightarrow> throw (SimulationError ''Query returned no result'' None)
               | Some v \<Rightarrow> ret v)))
       (\<lambda>e. case e of
              ContractErr _ \<Rightarrow> throw e
            | SimulationError _ _ \<Rightarrow> throw e
            | _ \<Rightarrow> throw (RPCError ''RPC call failed''))"

definition queryContract ::
    "('s, 'acc, 'tx, 'sim, 'v, 'ev) ClientEnv \<Rightarrow> bcForgeClientConfig \<Rightarrow> string \<Rightarrow> 'v list \<Rightarrow>
     (sdk_error, 's, 'v) act" where
  "queryContract env cfg method args = withRetry3 fatalError (queryOnce env cfg method args)"

text \<open>A response of \<^verbatim>\<open>submitTransaction\<close>: success empties the cache first.\<close>

definition settle ::
    "('s, 'acc, 'tx, 'sim, 'v, 'ev) ClientEnv \<Rightarrow> 'v GetResponse \<Rightarrow> ('s, TransactionResult) client_act" where
  "settle env response =
     (if get_status response = SUCCESS
      then andThen clearCache (\<lambda>_. fromSum (settled env responseHash response))
      else fromSum (settled env responseHash response))"

definition unwrapTransactionResponse ::
    "('s, 'acc, 'tx, 'sim, 'v, 'ev) ClientEnv \<Rightarrow> ('s, 'v GetResponse) client_act \<Rightarrow>
     ('s, TransactionResult) client_act" where
  "unwrapTransactionResponse env responsePromise = andThen responsePromise (settle env)"

definition submitOpts ::
    "bcForgeClientConfig \<Rightarrow> string \<Rightarrow> 'v list \<Rightarrow> string option \<Rightarrow> 'v SubmitTransactionOptions" where
  "submitOpts cfg method args source =
     \<lparr>maxAttempts = cfg_maxRetryAttempts cfg, maxFeeCap = cfg_maxFeeCap cfg, sourceKeypair = source,
      networkPassphrase = Some (cfg_networkPassphrase cfg), opt_contractId = Some (cfg_contractId cfg),
      opt_method = Some method, opt_args = Some args\<rparr>"

definition invokeOnce ::
    "('s, 'acc, 'tx, 'sim, 'v, 'ev) ClientEnv \<Rightarrow> bcForgeClientConfig \<Rightarrow> string \<Rightarrow> 'v list \<Rightarrow> string option \<Rightarrow>
     ('s, TransactionResult) client_act" where
  "invokeOnce env cfg method args source =
     (case source of
        Some kp \<Rightarrow>
          andThen (onWorld (buildInvokeTransaction (soroban env) (cfg_networkPassphrase cfg)
                     (cfg_contractId cfg) method args kp None)) (\<lambda>txXdr.
          andThen (onWorld (submitTransaction (soroban env) txXdr (submitOpts cfg method args source)))
            (settle env))
      | None \<Rightarrow> (\<lambda>c.
          case walletAdapter c of
            None \<Rightarrow> throw (SignerRequiredError signerRequired) c
          | Some wa \<Rightarrow>
              if \<not> connected wa (world c) \<or> \<not> truthy (walletPublicKey wa (world c))
              then throw (SignerRequiredError ''Wallet adapter is not connected'') c
              else andThen (onWorld (buildUnsignedTransaction (soroban env) (cfg_networkPassphrase cfg)
                       (cfg_contractId cfg) method args (the (walletPublicKey wa (world c))))) (\<lambda>unsignedXdr.
                   andThen (onWorld (walletSign wa unsignedXdr (Some (cfg_networkPassphrase cfg)))) (\<lambda>signedXdr.
                   andThen (onWorld (submitTransaction (soroban env) signedXdr (submitOpts cfg method args source)))
                     (settle env))) c))"

definition invokeContract ::
    "('s, 'acc, 'tx, 'sim, 'v, 'ev) ClientEnv \<Rightarrow> bcForgeClientConfig \<Rightarrow> string \<Rightarrow> 'v list \<Rightarrow> string option \<Rightarrow>
     ('s, TransactionResult) client_act" where
  "invokeContract env cfg method args source =
     withRetry3 fatalError (invokeOnce env cfg method args source)"

text \<open>A call whose arguments are converted first.\<close>

definition invokeWith ::
    "('s, 'acc, 'tx, 'sim, 'v, 'ev) ClientEnv \<Rightarrow> bcForgeClientConfig \<Rightarrow> string \<Rightarrow> (sdk_error + 'v) list \<Rightarrow>
     string option \<Rightarrow> ('s, TransactionResult) client_act" where
  "invokeWith env cfg method args source =
     andThen (fromSum (sequence args)) (\<lambda>vs. invokeContract env cfg method vs source)"

definition queryNative ::
    "('s, 'acc, 'tx, 'sim, 'v, 'ev) ClientEnv \<Rightarrow> bcForgeClientConfig \<Rightarrow> string \<Rightarrow> (sdk_error + 'v) list \<Rightarrow>
     ('s, Native) client_act" where
  "queryNative env cfg method args =
     andThen (fromSum (sequence args)) (\<lambda>vs.
     andThen (onWorld (queryContract env cfg method vs)) (\<lambda>result. fromSum (scValToNative env result)))"

definition queryBigInt ::
    "('s, 'acc, 'tx, 'sim, 'v, 'ev) ClientEnv \<Rightarrow> bcForgeClientConfig \<Rightarrow> string \<Rightarrow> (sdk_error + 'v) list \<Rightarrow>
     ('s, int) client_act" where
  "queryBigInt env cfg method args =
     andThen (queryNative env cfg method args) (\<lambda>v. fromSum (BigInt_native v))"

definition getSignerAddress :: "('s, 'acc, 'tx, 'sim, 'v, 'ev) ClientEnv \<Rightarrow> string option \<Rightarrow> ('s, string) client_act" where
  "getSignerAddress env source c =
     (let address = (case source of
                       Some kp \<Rightarrow> Some (publicKey (soroban env) kp)
                     | None \<Rightarrow> (case walletAdapter c of None \<Rightarrow> None | Some wa \<Rightarrow> walletPublicKey wa (world c)))
      in if truthy address then (Inr (the address), c) else (Inl (SignerRequiredError signerRequired), c))"

text \<open>A call that names its signer as the first argument.\<close>

definition invokeSigned ::
    "('s, 'acc, 'tx, 'sim, 'v, 'ev) ClientEnv \<Rightarrow> bcForgeClientConfig \<Rightarrow> string \<Rightarrow> (sdk_error + 'v) list \<Rightarrow>
     string option \<Rightarrow> ('s, TransactionResult) client_act" where
  "invokeSigned env cfg method args source =
     andThen (getSignerAddress env source) (\<lambda>signerAddress.
       invokeWith env cfg method (addressToScVal env signerAddress # args) source)"

definition buildUnsignedWith ::
    "('s, 'acc, 'tx, 'sim, 'v, 'ev) ClientEnv \<Rightarrow> bcForgeClientConfig \<Rightarrow> string \<Rightarrow> (sdk_error + 'v) list \<Rightarrow>
     string \<Rightarrow> ('s, string) client_act" where
  "buildUnsignedWith env cfg method args sourcePublicKey =
     andThen (fromSum (sequence args)) (\<lambda>vs.
       onWorld (buildUnsignedTransaction (soroban env) (cfg_networkPassphrase cfg) (cfg_contractId cfg)
         method vs sourcePublicKey))"

subsection \<open>Read-only queries\<close>

definition getBalance ::
    "('s, 'acc, 'tx, 'sim, 'v, 'ev) ClientEnv \<Rightarrow> bcForgeClientConfig \<Rightarrow> string \<Rightarrow> ('s, int) client_act" where
  "getBalance env cfg address =
     getCachedRead env cfg ''balance'' [address] (queryBigInt env cfg ''balance'' [addressToScVal env address])"

definition getTotalSupply ::
    "('s, 'acc, 'tx, 'sim, 'v, 'ev) ClientEnv \<Rightarrow> bcForgeClientConfig \<Rightarrow> ('s, int) client_act" where
  "getTotalSupply env cfg =
     queryBigInt env cfg ''supply'' []"

definition getName ::
    "('s, 'acc, 'tx, 'sim, 'v, 'ev) ClientEnv \<Rightarrow> bcForgeClientConfig \<Rightarrow> ('s, Native) client_act" where
  "getName env cfg =
     queryNative env cfg ''name'' []"

definition getSymbol ::
    "('s, 'acc, 'tx, 'sim, 'v, 'ev) ClientEnv \<Rightarrow> bcForgeClientConfig \<Rightarrow> ('s, Native) client_act" where
  "getSymbol env cfg =
     queryNative env cfg ''symbol'' []"

definition getDecimals ::
    "('s, 'acc, 'tx, 'sim, 'v, 'ev) ClientEnv \<Rightarrow> bcForgeClientConfig \<Rightarrow> ('s, Native) client_act" where
  "getDecimals env cfg =
     queryNative env cfg ''decimals'' []"

definition getAllowance ::
    "('s, 'acc, 'tx, 'sim, 'v, 'ev) ClientEnv \<Rightarrow> bcForgeClientConfig \<Rightarrow> string \<Rightarrow> string \<Rightarrow> ('s, int) client_act" where
  "getAllowance env cfg owner spender =
     getCachedRead env cfg ''allowance'' [owner, spender]
       (queryBigInt env cfg ''allowance'' [addressToScVal env owner, addressToScVal env spender])"

definition getVersion ::
    "('s, 'acc, 'tx, 'sim, 'v, 'ev) ClientEnv \<Rightarrow> bcForgeClientConfig \<Rightarrow> ('s, Native) client_act" where
  "getVersion env cfg =
     queryNative env cfg ''version'' []"

definition isPaused ::
    "('s, 'acc, 'tx, 'sim, 'v, 'ev) ClientEnv \<Rightarrow> bcForgeClientConfig \<Rightarrow> ('s, Native) client_act" where
  "isPaused env cfg =
     queryNative env cfg ''is_paused'' []"

subsection \<open>Role queries\<close>

text \<open>\<^verbatim>\<open>promise.catch(() => undefined)\<close>.\<close>

definition orUndefined :: "('s, Native) client_act \<Rightarrow> ('s, Native) client_act" where
  "orUndefined f = tryCatch f (\<lambda>_. ret NUndef)"

definition getAdmin ::
    "('s, 'acc, 'tx, 'sim, 'v, 'ev) ClientEnv \<Rightarrow> bcForgeClientConfig \<Rightarrow> ('s, Native) client_act" where
  "getAdmin env cfg =
     tryCatch (queryNative env cfg ''admin'' []) (\<lambda>_. queryNative env cfg ''get_admin'' [])"

definition getAdminPool ::
    "('s, 'acc, 'tx, 'sim, 'v, 'ev) ClientEnv \<Rightarrow> bcForgeClientConfig \<Rightarrow> ('s, string list) client_act" where
  "getAdminPool env cfg =
     andThen (queryNative env cfg ''get_admin_pool'' []) (\<lambda>pool.
       case pool of
         NList vs \<Rightarrow> ret (map nativeString vs)
       | _ \<Rightarrow> throw (OtherError ''Invalid admin pool returned by contract''))"

definition getThreshold ::
    "('s, 'acc, 'tx, 'sim, 'v, 'ev) ClientEnv \<Rightarrow> bcForgeClientConfig \<Rightarrow> ('s, js_number) client_act" where
  "getThreshold env cfg =
     andThen (queryNative env cfg ''get_threshold'' []) (\<lambda>v. ret (Number_native v))"

definition hasRole ::
    "('s, 'acc, 'tx, 'sim, 'v, 'ev) ClientEnv \<Rightarrow> bcForgeClientConfig \<Rightarrow> string \<Rightarrow> string \<Rightarrow> ('s, bool) client_act" where
  "hasRole env cfg role address =
     tryCatch
       (andThen (queryNative env cfg ''has_role'' [Inr (roleToScVal env role), addressToScVal env address]) (\<lambda>v. ret (nativeTruthy v)))
       (\<lambda>_. andThen (orUndefined (getAdmin env cfg)) (\<lambda>admin.
          ret (nativeTruthy admin \<and> admin = NStr address)))"

definition getRoleAdmin ::
    "('s, 'acc, 'tx, 'sim, 'v, 'ev) ClientEnv \<Rightarrow> bcForgeClientConfig \<Rightarrow> string \<Rightarrow> ('s, Native) client_act" where
  "getRoleAdmin env cfg role =
     tryCatch (queryNative env cfg ''get_role_admin'' [Inr (roleToScVal env role)]) (\<lambda>_. getAdmin env cfg)"

definition verifySuperAdmin ::
    "('s, 'acc, 'tx, 'sim, 'v, 'ev) ClientEnv \<Rightarrow> bcForgeClientConfig \<Rightarrow> string \<Rightarrow> ('s, bool) client_act" where
  "verifySuperAdmin env cfg address =
     andThen (tryCatch (hasRole env cfg Role_SuperAdmin address) (\<lambda>_. ret False)) (\<lambda>isSuper.
       if isSuper then ret True
       else andThen (orUndefined (getAdmin env cfg)) (\<lambda>admin. ret (admin = NStr address)))"

definition getRoleProposal ::
    "('s, 'acc, 'tx, 'sim, 'v, 'ev) ClientEnv \<Rightarrow> bcForgeClientConfig \<Rightarrow> int \<Rightarrow> ('s, RoleGrantProposalDetails option) client_act" where
  "getRoleProposal env cfg proposalId =
     andThen (queryNative env cfg ''get_role_proposal'' [u64ToScVal env proposalId]) (\<lambda>native.
       case native of
         NObj fs \<Rightarrow>
           (let field = (\<lambda>k. case map_of fs k of Some v \<Rightarrow> v | None \<Rightarrow> NUndef)
            in ret (Some \<lparr>rp_description =
                            (if nullish (field ''description'') then [] else nativeString (field ''description'')),
                         rp_role = nativeString (field ''role''), rp_target = nativeString (field ''target''),
                         rp_approvals = Number_native (field ''approvals''),
                         rp_quorum = Number_native (field ''quorum''),
                         rp_executed = nativeTruthy (field ''executed'')\<rparr>))
       | NList _ \<Rightarrow>
           ret (Some \<lparr>rp_description = [], rp_role = ''undefined'', rp_target = ''undefined'',
                      rp_approvals = NaN, rp_quorum = NaN, rp_executed = False\<rparr>)
       | _ \<Rightarrow> ret None)"

definition getRoleHierarchy ::
    "('s, 'acc, 'tx, 'sim, 'v, 'ev) ClientEnv \<Rightarrow> bcForgeClientConfig \<Rightarrow> string \<Rightarrow> ('s, RoleHierarchy) client_act" where
  "getRoleHierarchy env cfg address =
     andThen (queryNative env cfg ''get_role_hierarchy'' [addressToScVal env address]) (\<lambda>native.
     andThen (fromSum (pick native ''address'' ''address'')) (\<lambda>a.
     andThen (fromSum (pick native ''is_admin'' ''isAdmin'')) (\<lambda>adm.
     andThen (fromSum (pick native ''is_super_admin'' ''isSuperAdmin'')) (\<lambda>sup.
     andThen (fromSum (pick native ''is_minter'' ''isMinter'')) (\<lambda>mint.
     andThen (fromSum (pick native ''is_pauser'' ''isPauser'')) (\<lambda>pauser.
       ret \<lparr>rh_address = (if nullish a then NStr address else a), isAdmin = nativeTruthy adm,
            isSuperAdmin = nativeTruthy sup, isMinter = nativeTruthy mint, isPauser = nativeTruthy pauser\<rparr>))))))"

definition listLegacyProposals ::
    "('s, 'acc, 'tx, 'sim, 'v, 'ev) ClientEnv \<Rightarrow> bcForgeClientConfig \<Rightarrow> int \<Rightarrow> ('s, ProposalLists) client_act" where
  "listLegacyProposals env cfg startAfter =
     andThen (queryNative env cfg ''list_legacy_proposals'' [u64ToScVal env startAfter]) (\<lambda>native. fromSum (parseProposalLists native))"

definition listUpgradeProposals ::
    "('s, 'acc, 'tx, 'sim, 'v, 'ev) ClientEnv \<Rightarrow> bcForgeClientConfig \<Rightarrow> int \<Rightarrow> ('s, ProposalLists) client_act" where
  "listUpgradeProposals env cfg startAfter =
     andThen (queryNative env cfg ''list_upgrade_proposals'' [u64ToScVal env startAfter]) (\<lambda>native. fromSum (parseProposalLists native))"

subsection \<open>Write transactions\<close>

definition initialize ::
    "('s, 'acc, 'tx, 'sim, 'v, 'ev) ClientEnv \<Rightarrow> bcForgeClientConfig \<Rightarrow> string \<Rightarrow> int \<Rightarrow> string \<Rightarrow> string \<Rightarrow> string option \<Rightarrow> ('s, TransactionResult) client_act" where
  "initialize env cfg admin decimals name symbol source =
     invokeWith env cfg ''initialize''
       [addressToScVal env admin, u32ToScVal env decimals, stringToScVal env name, stringToScVal env symbol] source"

definition mint ::
    "('s, 'acc, 'tx, 'sim, 'v, 'ev) ClientEnv \<Rightarrow> bcForgeClientConfig \<Rightarrow> string \<Rightarrow> int \<Rightarrow> string option \<Rightarrow> ('s, TransactionResult) client_act" where
  "mint env cfg recipient value source =
     invokeSigned env cfg ''mint'' [addressToScVal env recipient, i128ToScVal env value] source"

text \<open>\<^verbatim>\<open>{ to, amount }\<close> as a contract struct, and as a pair.\<close>

definition recipientMap ::
    "('s, 'acc, 'tx, 'sim, 'v, 'ev) ClientEnv \<Rightarrow> BatchMintRecipient \<Rightarrow> sdk_error + 'v" where
  "recipientMap env r =
     (case addressToScVal env (to r) of
        Inl e \<Rightarrow> Inl e
      | Inr a \<Rightarrow> map_sum id (\<lambda>i. scvMap env [(scvSymbol env ''to'', a), (scvSymbol env ''amount'', i)])
                  (i128ToScVal env (amount r)))"

definition recipientPair ::
    "('s, 'acc, 'tx, 'sim, 'v, 'ev) ClientEnv \<Rightarrow> BatchMintRecipient \<Rightarrow> sdk_error + 'v" where
  "recipientPair env r =
     map_sum id (scvVec env) (sequence [addressToScVal env (to r), i128ToScVal env (amount r)])"

definition batchMint ::
    "('s, 'acc, 'tx, 'sim, 'v, 'ev) ClientEnv \<Rightarrow> bcForgeClientConfig \<Rightarrow> BatchMintRecipient list \<Rightarrow> string option \<Rightarrow> ('s, TransactionResult) client_act" where
  "batchMint env cfg recipients source =
     andThen (getSignerAddress env source) (\<lambda>signerAddress.
     andThen (fromSum (sequence (map (recipientMap env) recipients))) (\<lambda>vals.
       invokeWith env cfg ''batch_mint'' [addressToScVal env signerAddress, Inr (scvVec env vals)] source))"

definition batchTransfer ::
    "('s, 'acc, 'tx, 'sim, 'v, 'ev) ClientEnv \<Rightarrow> bcForgeClientConfig \<Rightarrow> string \<Rightarrow> BatchMintRecipient list \<Rightarrow> string option \<Rightarrow> ('s, TransactionResult) client_act" where
  "batchTransfer env cfg sender recipients source =
     andThen (fromSum (sequence (map (recipientPair env) recipients))) (\<lambda>vals.
       invokeWith env cfg ''batch_transfer'' [addressToScVal env sender, Inr (scvVec env vals)] source)"

definition transfer ::
    "('s, 'acc, 'tx, 'sim, 'v, 'ev) ClientEnv \<Rightarrow> bcForgeClientConfig \<Rightarrow> string \<Rightarrow> string \<Rightarrow> int \<Rightarrow> string option \<Rightarrow> ('s, TransactionResult) client_act" where
  "transfer env cfg sender recipient value source =
     invokeWith env cfg ''transfer''
       [addressToScVal env sender, addressToScVal env recipient, i128ToScVal env value] source"

definition transferFrom ::
    "('s, 'acc, 'tx, 'sim, 'v, 'ev) ClientEnv \<Rightarrow> bcForgeClientConfig \<Rightarrow> string \<Rightarrow> string \<Rightarrow> string \<Rightarrow> int \<Rightarrow> string \<Rightarrow> ('s, TransactionResult) client_act" where
  "transferFrom env cfg spender sender recipient value source =
     invokeWith env cfg ''transfer_from''
       [addressToScVal env spender, addressToScVal env sender, addressToScVal env recipient, i128ToScVal env value] (Some source)"

definition approve ::
    "('s, 'acc, 'tx, 'sim, 'v, 'ev) ClientEnv \<Rightarrow> bcForgeClientConfig \<Rightarrow> string \<Rightarrow> string \<Rightarrow> int \<Rightarrow> string option \<Rightarrow> ('s, TransactionResult) client_act" where
  "approve env cfg owner spender value source =
     invokeWith env cfg ''approve''
       [addressToScVal env owner, addressToScVal env spender, i128ToScVal env value, u32ToScVal env 0] source"

definition burn ::
    "('s, 'acc, 'tx, 'sim, 'v, 'ev) ClientEnv \<Rightarrow> bcForgeClientConfig \<Rightarrow> string \<Rightarrow> int \<Rightarrow> string option \<Rightarrow> ('s, TransactionResult) client_act" where
  "burn env cfg holder value source =
     invokeWith env cfg ''burn'' [addressToScVal env holder, i128ToScVal env value] source"

definition burnFrom ::
    "('s, 'acc, 'tx, 'sim, 'v, 'ev) ClientEnv \<Rightarrow> bcForgeClientConfig \<Rightarrow> string \<Rightarrow> string \<Rightarrow> int \<Rightarrow> string \<Rightarrow> ('s, TransactionResult) client_act" where
  "burnFrom env cfg spender holder value source =
     invokeWith env cfg ''burn_from''
       [addressToScVal env spender, addressToScVal env holder, i128ToScVal env value] (Some source)"

definition transferOwnership ::
    "('s, 'acc, 'tx, 'sim, 'v, 'ev) ClientEnv \<Rightarrow> bcForgeClientConfig \<Rightarrow> string \<Rightarrow> string option \<Rightarrow> ('s, TransactionResult) client_act" where
  "transferOwnership env cfg newAdmin source =
     invokeWith env cfg ''transfer_ownership'' [addressToScVal env newAdmin] source"

definition pause ::
    "('s, 'acc, 'tx, 'sim, 'v, 'ev) ClientEnv \<Rightarrow> bcForgeClientConfig \<Rightarrow> string option \<Rightarrow> ('s, TransactionResult) client_act" where
  "pause env cfg source =
     invokeSigned env cfg ''pause'' [] source"

definition unpause ::
    "('s, 'acc, 'tx, 'sim, 'v, 'ev) ClientEnv \<Rightarrow> bcForgeClientConfig \<Rightarrow> string option \<Rightarrow> ('s, TransactionResult) client_act" where
  "unpause env cfg source =
     invokeSigned env cfg ''unpause'' [] source"

definition setAdminPool ::
    "('s, 'acc, 'tx, 'sim, 'v, 'ev) ClientEnv \<Rightarrow> bcForgeClientConfig \<Rightarrow> string list \<Rightarrow> int \<Rightarrow> string \<Rightarrow> ('s, TransactionResult) client_act" where
  "setAdminPool env cfg pool threshold source =
     andThen (fromSum (sequence (map (addressToScVal env) pool))) (\<lambda>vals.
       invokeWith env cfg ''set_admin_pool'' [Inr (scvVec env vals), u32ToScVal env threshold] (Some source))"

definition hashArg :: "('s, 'acc, 'tx, 'sim, 'v, 'ev) ClientEnv \<Rightarrow> HashArg \<Rightarrow> sdk_error + 'v" where
  "hashArg env h = map_sum (\<lambda>_. OtherError ''Hash must be exactly 32 bytes'') id (hashToScVal (scvBytes env) h)"

definition upgrade ::
    "('s, 'acc, 'tx, 'sim, 'v, 'ev) ClientEnv \<Rightarrow> bcForgeClientConfig \<Rightarrow> HashArg \<Rightarrow> string option \<Rightarrow> ('s, TransactionResult) client_act" where
  "upgrade env cfg newWasmHash source =
     invokeWith env cfg ''upgrade'' [hashArg env newWasmHash] source"

definition actionToScVal :: "('s, 'acc, 'tx, 'sim, 'v, 'ev) ClientEnv \<Rightarrow> ProposedAction \<Rightarrow> sdk_error + 'v" where
  "actionToScVal env action =
     (case action of
        MintAction a i \<Rightarrow>
          (case sequence [addressToScVal env a, i128ToScVal env i] of
             Inl e \<Rightarrow> Inl e
           | Inr vs \<Rightarrow> nativeToScValVariant env ''Mint'' vs)
      | PauseAction \<Rightarrow> nativeToScValVariant env ''Pause'' []
      | UnpauseAction \<Rightarrow> nativeToScValVariant env ''Unpause'' [])"

definition proposeAction ::
    "('s, 'acc, 'tx, 'sim, 'v, 'ev) ClientEnv \<Rightarrow> bcForgeClientConfig \<Rightarrow> string \<Rightarrow> ProposedAction \<Rightarrow> string \<Rightarrow> string option \<Rightarrow> ('s, TransactionResult) client_act" where
  "proposeAction env cfg admin action description source =
     andThen (fromSum (actionToScVal env action)) (\<lambda>actionScVal.
       invokeWith env cfg ''propose_action''
         [addressToScVal env admin, Inr actionScVal, stringToScVal env description] source)"

definition approveProposal ::
    "('s, 'acc, 'tx, 'sim, 'v, 'ev) ClientEnv \<Rightarrow> bcForgeClientConfig \<Rightarrow> string \<Rightarrow> int \<Rightarrow> string option \<Rightarrow> ('s, TransactionResult) client_act" where
  "approveProposal env cfg admin proposalId source =
     invokeWith env cfg ''approve_proposal'' [addressToScVal env admin, u64ToScVal env proposalId] source"

definition createRoleProposal ::
    "('s, 'acc, 'tx, 'sim, 'v, 'ev) ClientEnv \<Rightarrow> bcForgeClientConfig \<Rightarrow> string \<Rightarrow> string \<Rightarrow> string \<Rightarrow> string \<Rightarrow> string option \<Rightarrow> ('s, TransactionResult) client_act" where
  "createRoleProposal env cfg creator role target description source =
     invokeWith env cfg ''create_role_proposal''
       [addressToScVal env creator, Inr (roleToScVal env role), addressToScVal env target, stringToScVal env description] source"

definition executeRoleProposal ::
    "('s, 'acc, 'tx, 'sim, 'v, 'ev) ClientEnv \<Rightarrow> bcForgeClientConfig \<Rightarrow> string \<Rightarrow> int \<Rightarrow> string option \<Rightarrow> ('s, TransactionResult) client_act" where
  "executeRoleProposal env cfg executor proposalId source =
     invokeWith env cfg ''execute_role_proposal'' [addressToScVal env executor, u64ToScVal env proposalId] source"

definition executeProposal ::
    "('s, 'acc, 'tx, 'sim, 'v, 'ev) ClientEnv \<Rightarrow> bcForgeClientConfig \<Rightarrow> int \<Rightarrow> string option \<Rightarrow> ('s, TransactionResult) client_act" where
  "executeProposal env cfg proposalId source =
     invokeWith env cfg ''execute_proposal'' [u64ToScVal env proposalId] source"

definition createProposal ::
    "('s, 'acc, 'tx, 'sim, 'v, 'ev) ClientEnv \<Rightarrow> bcForgeClientConfig \<Rightarrow> string \<Rightarrow> string \<Rightarrow> string option \<Rightarrow> ('s, TransactionResult) client_act" where
  "createProposal env cfg creator description source =
     invokeWith env cfg ''create_proposal'' [addressToScVal env creator, stringToScVal env description] source"

definition executeUpgrade ::
    "('s, 'acc, 'tx, 'sim, 'v, 'ev) ClientEnv \<Rightarrow> bcForgeClientConfig \<Rightarrow> string \<Rightarrow> int \<Rightarrow> HashArg \<Rightarrow> string option \<Rightarrow> ('s, TransactionResult) client_act" where
  "executeUpgrade env cfg executor proposalId wasmHash source =
     invokeWith env cfg ''execute_upgrade''
       [addressToScVal env executor, u64ToScVal env proposalId, hashArg env wasmHash] source"

definition grantRole ::
    "('s, 'acc, 'tx, 'sim, 'v, 'ev) ClientEnv \<Rightarrow> bcForgeClientConfig \<Rightarrow> string \<Rightarrow> string \<Rightarrow> string option \<Rightarrow> ('s, TransactionResult) client_act" where
  "grantRole env cfg role address source =
     invokeSigned env cfg ''grant_role'' [Inr (roleToScVal env role), addressToScVal env address] source"

definition revokeRole ::
    "('s, 'acc, 'tx, 'sim, 'v, 'ev) ClientEnv \<Rightarrow> bcForgeClientConfig \<Rightarrow> string \<Rightarrow> string \<Rightarrow> string option \<Rightarrow> ('s, TransactionResult) client_act" where
  "revokeRole env cfg role address source =
     invokeSigned env cfg ''revoke_role'' [Inr (roleToScVal env role), addressToScVal env address] source"

definition renounceRole ::
    "('s, 'acc, 'tx, 'sim, 'v, 'ev) ClientEnv \<Rightarrow> bcForgeClientConfig \<Rightarrow> string \<Rightarrow> string option \<Rightarrow> ('s, TransactionResult) client_act" where
  "renounceRole env cfg role source =
     invokeSigned env cfg ''renounce_role'' [Inr (roleToScVal env role)] source"

definition grantMinter ::
    "('s, 'acc, 'tx, 'sim, 'v, 'ev) ClientEnv \<Rightarrow> bcForgeClientConfig \<Rightarrow> string \<Rightarrow> string option \<Rightarrow> ('s, TransactionResult) client_act" where
  "grantMinter env cfg address source =
     grantRole env cfg Role_Minter address source"

definition revokeMinter ::
    "('s, 'acc, 'tx, 'sim, 'v, 'ev) ClientEnv \<Rightarrow> bcForgeClientConfig \<Rightarrow> string \<Rightarrow> string option \<Rightarrow> ('s, TransactionResult) client_act" where
  "revokeMinter env cfg address source =
     revokeRole env cfg Role_Minter address source"

definition grantPauser ::
    "('s, 'acc, 'tx, 'sim, 'v, 'ev) ClientEnv \<Rightarrow> bcForgeClientConfig \<Rightarrow> string \<Rightarrow> string option \<Rightarrow> ('s, TransactionResult) client_act" where
  "grantPauser env cfg address source =
     grantRole env cfg Role_Pauser address source"

definition revokePauser ::
    "('s, 'acc, 'tx, 'sim, 'v, 'ev) ClientEnv \<Rightarrow> bcForgeClientConfig \<Rightarrow> string \<Rightarrow> string option \<Rightarrow> ('s, TransactionResult) client_act" where
  "revokePauser env cfg address source =
     revokeRole env cfg Role_Pauser address source"

definition setAdminContract ::
    "('s, 'acc, 'tx, 'sim, 'v, 'ev) ClientEnv \<Rightarrow> bcForgeClientConfig \<Rightarrow> string \<Rightarrow> string option \<Rightarrow> ('s, TransactionResult) client_act" where
  "setAdminContract env cfg target source =
     invokeSigned env cfg ''set_admin_contract'' [addressToScVal env target] source"

definition setDependentToken ::
    "('s, 'acc, 'tx, 'sim, 'v, 'ev) ClientEnv \<Rightarrow> bcForgeClientConfig \<Rightarrow> string \<Rightarrow> string option \<Rightarrow> ('s, TransactionResult) client_act" where
  "setDependentToken env cfg target source =
     invokeSigned env cfg ''set_token'' [addressToScVal env target] source"

definition grantSuperAdmin ::
    "('s, 'acc, 'tx, 'sim, 'v, 'ev) ClientEnv \<Rightarrow> bcForgeClientConfig \<Rightarrow> string \<Rightarrow> string option \<Rightarrow> ('s, TransactionResult) client_act" where
  "grantSuperAdmin env cfg address source =
     invokeSigned env cfg ''grant_role'' [Inr (roleToScVal env Role_SuperAdmin), addressToScVal env address] source"

definition revokeSuperAdmin ::
    "('s, 'acc, 'tx, 'sim, 'v, 'ev) ClientEnv \<Rightarrow> bcForgeClientConfig \<Rightarrow> string \<Rightarrow> string option \<Rightarrow> ('s, TransactionResult) client_act" where
  "revokeSuperAdmin env cfg address source =
     invokeSigned env cfg ''revoke_role'' [Inr (roleToScVal env Role_SuperAdmin), addressToScVal env address] source"

definition migrateAdmin ::
    "('s, 'acc, 'tx, 'sim, 'v, 'ev) ClientEnv \<Rightarrow> bcForgeClientConfig \<Rightarrow> string option \<Rightarrow> ('s, TransactionResult) client_act" where
  "migrateAdmin env cfg source =
     invokeWith env cfg ''migrate_admin'' [] source"

definition initRbac ::
    "('s, 'acc, 'tx, 'sim, 'v, 'ev) ClientEnv \<Rightarrow> bcForgeClientConfig \<Rightarrow> string \<Rightarrow> string option \<Rightarrow> ('s, RbacInitResult) client_act" where
  "initRbac env cfg superAdmin source =
     andThen (getSignerAddress env source) (\<lambda>signerAddress.
     andThen (invokeWith env cfg ''migrate_admin'' [] source) (\<lambda>migrated.
     andThen (invokeWith env cfg ''grant_role''
                [addressToScVal env signerAddress, Inr (roleToScVal env Role_SuperAdmin), addressToScVal env superAdmin] source) (\<lambda>granted.
       ret \<lparr>migrate = migrated, grant = granted\<rparr>)))"

definition setClawbackAdmin ::
    "('s, 'acc, 'tx, 'sim, 'v, 'ev) ClientEnv \<Rightarrow> bcForgeClientConfig \<Rightarrow> string \<Rightarrow> string option \<Rightarrow> ('s, TransactionResult) client_act" where
  "setClawbackAdmin env cfg admin source =
     invokeWith env cfg ''set_clawback_admin'' [addressToScVal env admin] source"

definition updateName ::
    "('s, 'acc, 'tx, 'sim, 'v, 'ev) ClientEnv \<Rightarrow> bcForgeClientConfig \<Rightarrow> string \<Rightarrow> string option \<Rightarrow> ('s, TransactionResult) client_act" where
  "updateName env cfg newName source =
     invokeWith env cfg ''update_name'' [stringToScVal env newName] source"

definition updateSymbol ::
    "('s, 'acc, 'tx, 'sim, 'v, 'ev) ClientEnv \<Rightarrow> bcForgeClientConfig \<Rightarrow> string \<Rightarrow> string option \<Rightarrow> ('s, TransactionResult) client_act" where
  "updateSymbol env cfg newSymbol source =
     invokeWith env cfg ''update_symbol'' [stringToScVal env newSymbol] source"

definition clawback ::
    "('s, 'acc, 'tx, 'sim, 'v, 'ev) ClientEnv \<Rightarrow> bcForgeClientConfig \<Rightarrow> string \<Rightarrow> string \<Rightarrow> int \<Rightarrow> string option \<Rightarrow> ('s, TransactionResult) client_act" where
  "clawback env cfg holder recipient value source =
     invokeWith env cfg ''clawback''
       [addressToScVal env holder, addressToScVal env recipient, i128ToScVal env value] source"

definition lockTokens ::
    "('s, 'acc, 'tx, 'sim, 'v, 'ev) ClientEnv \<Rightarrow> bcForgeClientConfig \<Rightarrow> string \<Rightarrow> int \<Rightarrow> int \<Rightarrow> string option \<Rightarrow> ('s, TransactionResult) client_act" where
  "lockTokens env cfg user value unlockTime source =
     invokeWith env cfg ''lock_tokens''
       [addressToScVal env user, i128ToScVal env value, u64ToScVal env unlockTime] source"

definition withdrawLocked ::
    "('s, 'acc, 'tx, 'sim, 'v, 'ev) ClientEnv \<Rightarrow> bcForgeClientConfig \<Rightarrow> string \<Rightarrow> string option \<Rightarrow> ('s, TransactionResult) client_act" where
  "withdrawLocked env cfg user source =
     invokeWith env cfg ''withdraw_locked'' [addressToScVal env user] source"

definition extendTtl ::
    "('s, 'acc, 'tx, 'sim, 'v, 'ev) ClientEnv \<Rightarrow> bcForgeClientConfig \<Rightarrow> int \<Rightarrow> int \<Rightarrow> string option \<Rightarrow> ('s, TransactionResult) client_act" where
  "extendTtl env cfg thresholdLedgers extendToLedgers source =
     invokeWith env cfg ''extend_ttl''
       [u32ToScVal env thresholdLedgers, u32ToScVal env extendToLedgers] source"

definition submitSignedTransaction ::
    "('s, 'acc, 'tx, 'sim, 'v, 'ev) ClientEnv \<Rightarrow> bcForgeClientConfig \<Rightarrow> string \<Rightarrow> ('s, TransactionResult) client_act" where
  "submitSignedTransaction env cfg txXdr =
     andThen (onWorld (submitTransaction (soroban env) txXdr
       \<lparr>maxAttempts = None, maxFeeCap = None, sourceKeypair = None,
        networkPassphrase = Some (cfg_networkPassphrase cfg), opt_contractId = None, opt_method = None,
        opt_args = None\<rparr>)) (\<lambda>response. fromSum (settled env get_txHash response))"

definition execute ::
    "('s, 'acc, 'tx, 'sim, 'v, 'ev) ClientEnv \<Rightarrow> bcForgeClientConfig \<Rightarrow> string \<Rightarrow> ('s, TransactionResult) client_act" where
  "execute env cfg signedXdr =
     submitSignedTransaction env cfg signedXdr"

subsection \<open>Offline transactions and simulation\<close>

definition buildPauseTx ::
    "('s, 'acc, 'tx, 'sim, 'v, 'ev) ClientEnv \<Rightarrow> bcForgeClientConfig \<Rightarrow> string \<Rightarrow> ('s, string) client_act" where
  "buildPauseTx env cfg sourcePublicKey =
     buildUnsignedWith env cfg ''pause''
       [addressToScVal env sourcePublicKey] sourcePublicKey"

definition buildUnpauseTx ::
    "('s, 'acc, 'tx, 'sim, 'v, 'ev) ClientEnv \<Rightarrow> bcForgeClientConfig \<Rightarrow> string \<Rightarrow> ('s, string) client_act" where
  "buildUnpauseTx env cfg sourcePublicKey =
     buildUnsignedWith env cfg ''unpause''
       [addressToScVal env sourcePublicKey] sourcePublicKey"

definition buildMintTx ::
    "('s, 'acc, 'tx, 'sim, 'v, 'ev) ClientEnv \<Rightarrow> bcForgeClientConfig \<Rightarrow> string \<Rightarrow> int \<Rightarrow> string \<Rightarrow> ('s, string) client_act" where
  "buildMintTx env cfg recipient value sourcePublicKey =
     buildUnsignedWith env cfg ''mint''
       [addressToScVal env sourcePublicKey, addressToScVal env recipient, i128ToScVal env value] sourcePublicKey"

definition buildTransferTx ::
    "('s, 'acc, 'tx, 'sim, 'v, 'ev) ClientEnv \<Rightarrow> bcForgeClientConfig \<Rightarrow> string \<Rightarrow> string \<Rightarrow> int \<Rightarrow> string \<Rightarrow> ('s, string) client_act" where
  "buildTransferTx env cfg sender recipient value sourcePublicKey =
     buildUnsignedWith env cfg ''transfer''
       [addressToScVal env sender, addressToScVal env recipient, i128ToScVal env value] sourcePublicKey"

definition buildTransferFromTx ::
    "('s, 'acc, 'tx, 'sim, 'v, 'ev) ClientEnv \<Rightarrow> bcForgeClientConfig \<Rightarrow> string \<Rightarrow> string \<Rightarrow> string \<Rightarrow> int \<Rightarrow> string \<Rightarrow> ('s, string) client_act" where
  "buildTransferFromTx env cfg spender sender recipient value sourcePublicKey =
     buildUnsignedWith env cfg ''transfer_from''
       [addressToScVal env spender, addressToScVal env sender, addressToScVal env recipient, i128ToScVal env value] sourcePublicKey"

definition buildApproveTx ::
    "('s, 'acc, 'tx, 'sim, 'v, 'ev) ClientEnv \<Rightarrow> bcForgeClientConfig \<Rightarrow> string \<Rightarrow> string \<Rightarrow> int \<Rightarrow> int \<Rightarrow> string \<Rightarrow> ('s, string) client_act" where
  "buildApproveTx env cfg owner spender value expiry sourcePublicKey =
     buildUnsignedWith env cfg ''approve''
       [addressToScVal env owner, addressToScVal env spender, i128ToScVal env value, u32ToScVal env expiry] sourcePublicKey"

definition buildBurnTx ::
    "('s, 'acc, 'tx, 'sim, 'v, 'ev) ClientEnv \<Rightarrow> bcForgeClientConfig \<Rightarrow> string \<Rightarrow> int \<Rightarrow> string \<Rightarrow> ('s, string) client_act" where
  "buildBurnTx env cfg holder value sourcePublicKey =
     buildUnsignedWith env cfg ''burn''
       [addressToScVal env holder, i128ToScVal env value] sourcePublicKey"

definition buildBurnFromTx ::
    "('s, 'acc, 'tx, 'sim, 'v, 'ev) ClientEnv \<Rightarrow> bcForgeClientConfig \<Rightarrow> string \<Rightarrow> string \<Rightarrow> int \<Rightarrow> string \<Rightarrow> ('s, string) client_act" where
  "buildBurnFromTx env cfg spender holder value sourcePublicKey =
     buildUnsignedWith env cfg ''burn_from''
       [addressToScVal env spender, addressToScVal env holder, i128ToScVal env value] sourcePublicKey"

definition buildCreateProposalTx ::
    "('s, 'acc, 'tx, 'sim, 'v, 'ev) ClientEnv \<Rightarrow> bcForgeClientConfig \<Rightarrow> string \<Rightarrow> string \<Rightarrow> string \<Rightarrow> ('s, string) client_act" where
  "buildCreateProposalTx env cfg creator description sourcePublicKey =
     buildUnsignedWith env cfg ''create_proposal''
       [addressToScVal env creator, stringToScVal env description] sourcePublicKey"

definition buildApproveProposalTx ::
    "('s, 'acc, 'tx, 'sim, 'v, 'ev) ClientEnv \<Rightarrow> bcForgeClientConfig \<Rightarrow> string \<Rightarrow> int \<Rightarrow> string \<Rightarrow> ('s, string) client_act" where
  "buildApproveProposalTx env cfg admin proposalId sourcePublicKey =
     buildUnsignedWith env cfg ''approve_proposal''
       [addressToScVal env admin, u64ToScVal env proposalId] sourcePublicKey"

definition buildExecuteUpgradeTx ::
    "('s, 'acc, 'tx, 'sim, 'v, 'ev) ClientEnv \<Rightarrow> bcForgeClientConfig \<Rightarrow> string \<Rightarrow> int \<Rightarrow> HashArg \<Rightarrow> string \<Rightarrow> ('s, string) client_act" where
  "buildExecuteUpgradeTx env cfg executor proposalId wasmHash sourcePublicKey =
     buildUnsignedWith env cfg ''execute_upgrade''
       [addressToScVal env executor, u64ToScVal env proposalId, hashArg env wasmHash] sourcePublicKey"

definition signTx ::
    "('s, 'acc, 'tx, 'sim, 'v, 'ev) ClientEnv \<Rightarrow> bcForgeClientConfig \<Rightarrow> string \<Rightarrow> string \<Rightarrow> sdk_error + string" where
  "signTx env cfg txXdr keypair = signTransaction (soroban env) txXdr (cfg_networkPassphrase cfg) keypair"

definition simulate ::
    "('s, 'acc, 'tx, 'sim, 'v, 'ev) ClientEnv \<Rightarrow> bcForgeClientConfig \<Rightarrow> string \<Rightarrow> (sdk_error + 'v) list \<Rightarrow> string \<Rightarrow> ('s, 'sim Simulation) client_act" where
  "simulate env cfg method args sourcePublicKey =
     andThen (fromSum (sequence args)) (\<lambda>vs.
       onWorld (simulateTransaction (soroban env) (cfg_networkPassphrase cfg) (cfg_contractId cfg) method vs
         sourcePublicKey))"

definition simulateMint ::
    "('s, 'acc, 'tx, 'sim, 'v, 'ev) ClientEnv \<Rightarrow> bcForgeClientConfig \<Rightarrow> string \<Rightarrow> int \<Rightarrow> string \<Rightarrow> ('s, 'sim Simulation) client_act" where
  "simulateMint env cfg recipient value sourcePublicKey =
     simulate env cfg ''mint'' [addressToScVal env sourcePublicKey, addressToScVal env recipient, i128ToScVal env value] sourcePublicKey"

definition simulateTransfer ::
    "('s, 'acc, 'tx, 'sim, 'v, 'ev) ClientEnv \<Rightarrow> bcForgeClientConfig \<Rightarrow> string \<Rightarrow> string \<Rightarrow> int \<Rightarrow> string \<Rightarrow> ('s, 'sim Simulation) client_act" where
  "simulateTransfer env cfg sender recipient value sourcePublicKey =
     simulate env cfg ''transfer'' [addressToScVal env sender, addressToScVal env recipient, i128ToScVal env value] sourcePublicKey"

definition simulateTransferFrom ::
    "('s, 'acc, 'tx, 'sim, 'v, 'ev) ClientEnv \<Rightarrow> bcForgeClientConfig \<Rightarrow> string \<Rightarrow> string \<Rightarrow> string \<Rightarrow> int \<Rightarrow> string \<Rightarrow> ('s, 'sim Simulation) client_act" where
  "simulateTransferFrom env cfg spender sender recipient value sourcePublicKey =
     simulate env cfg ''transfer_from'' [addressToScVal env spender, addressToScVal env sender, addressToScVal env recipient, i128ToScVal env value] sourcePublicKey"

definition simulateBurn ::
    "('s, 'acc, 'tx, 'sim, 'v, 'ev) ClientEnv \<Rightarrow> bcForgeClientConfig \<Rightarrow> string \<Rightarrow> int \<Rightarrow> string \<Rightarrow> ('s, 'sim Simulation) client_act" where
  "simulateBurn env cfg holder value sourcePublicKey =
     simulate env cfg ''burn'' [addressToScVal env holder, i128ToScVal env value] sourcePublicKey"

definition simulateBurnFrom ::
    "('s, 'acc, 'tx, 'sim, 'v, 'ev) ClientEnv \<Rightarrow> bcForgeClientConfig \<Rightarrow> string \<Rightarrow> string \<Rightarrow> int \<Rightarrow> string \<Rightarrow> ('s, 'sim Simulation) client_act" where
  "simulateBurnFrom env cfg spender holder value sourcePublicKey =
     simulate env cfg ''burn_from'' [addressToScVal env spender, addressToScVal env holder, i128ToScVal env value] sourcePublicKey"

definition dryRun ::
    "('s, 'acc, 'tx, ('k, 'w) SimulationSuccess, 'v, 'ev) ClientEnv \<Rightarrow> 'w converter \<Rightarrow> bcForgeClientConfig \<Rightarrow>
     string \<Rightarrow> (sdk_error + 'v) list \<Rightarrow> string \<Rightarrow> ('s, 'k DryRunResult) client_act" where
  "dryRun env conv cfg method args sourcePublicKey =
     andThen (simulate env cfg method args sourcePublicKey) (\<lambda>simulated.
       fromSum (simulationToDryRun conv simulated))"

definition estimateTransferFee ::
    "('s, 'acc, 'tx, ('k, 'w) SimulationSuccess, 'v, 'ev) ClientEnv \<Rightarrow> 'w converter \<Rightarrow> bcForgeClientConfig \<Rightarrow>
     string \<Rightarrow> string \<Rightarrow> int \<Rightarrow> ('s, 'k DryRunResult) client_act" where
  "estimateTransferFee env conv cfg sender recipient value =
     dryRun env conv cfg ''transfer''
       [addressToScVal env sender, addressToScVal env recipient, i128ToScVal env value] sender"

definition simulateTx ::
    "('s, 'acc, 'tx, 'sim, 'v, 'ev) ClientEnv \<Rightarrow> bcForgeClientConfig \<Rightarrow> string \<Rightarrow> ('s, 'sim Simulation) client_act" where
  "simulateTx env cfg txXdr =
     onWorld (withRetry3 fatalError (tryCatch
       (andThen (fromSum (fromXDR (soroban env) txXdr (cfg_networkPassphrase cfg))) (\<lambda>tx.
        andThen (SorobanEnv.simulate (soroban env) tx) (\<lambda>simulated.
          case simulated of
            SimulationFailed err \<Rightarrow> throw (SimulationError (''Simulation failed: '' @ err) (Some err))
          | _ \<Rightarrow> ret simulated)))
       (\<lambda>e. case e of SimulationError _ _ \<Rightarrow> throw e | _ \<Rightarrow> throw (RPCError ''RPC simulation failed''))))"

text \<open>\<^verbatim>\<open>/not found|404/i\<close>.\<close>

definition notFoundText :: "string \<Rightarrow> bool" where
  "notFoundText m \<longleftrightarrow> js_includes (map lower m) ''not found'' \<or> js_includes m ''404''"

definition accountExists ::
    "('s, 'acc, 'tx, 'sim, 'v, 'ev) ClientEnv \<Rightarrow> bcForgeClientConfig \<Rightarrow> string \<Rightarrow> ('s, bool) client_act" where
  "accountExists env cfg address =
     (if startsWith address ''C'' then ret True
     else tryCatch (andThen (onWorld (getAccount (soroban env) address)) (\<lambda>_. ret True))
       (\<lambda>e. if notFoundText (errorMessage e) then ret False else throw e))"

subsection \<open>Events and auxiliary queries\<close>

definition getEvents ::
    "('s, 'acc, 'tx, 'sim, 'v, 'ev) ClientEnv \<Rightarrow> bcForgeClientConfig \<Rightarrow> int option \<Rightarrow> ('s, 'ev list) client_act" where
  "getEvents env cfg startLedger =
     andThen (case startLedger of
                Some n \<Rightarrow> if n \<noteq> 0 then ret n else andThen (onWorld (getLatestLedger env)) (\<lambda>l. ret (l - 1000))
              | None \<Rightarrow> andThen (onWorld (getLatestLedger env)) (\<lambda>l. ret (l - 1000))) (\<lambda>start.
     andThen (onWorld (serverGetEvents env (FromLedger start) (cfg_contractId cfg))) (\<lambda>page.
       ret (page_events page)))"

definition pollEvents ::
    "('s, 'acc, 'tx, 'sim, 'v, 'ev) ClientEnv \<Rightarrow> bcForgeClientConfig \<Rightarrow> string option \<Rightarrow> ('s, 'ev EventsPage) client_act" where
  "pollEvents env cfg cursor =
     onWorld (serverGetEvents env (if truthy cursor then FromCursor (the cursor) else FromLedger 0)
       (cfg_contractId cfg))"

definition targetContract :: "bcForgeClientConfig \<Rightarrow> string option \<Rightarrow> string" where
  "targetContract cfg contract = (if truthy contract then the contract else cfg_contractId cfg)"

text \<open>\<^verbatim>\<open>promise.catch(() => null)\<close>.\<close>

definition orNone :: "('s, 'a) client_act \<Rightarrow> ('s, 'a option) client_act" where
  "orNone f = tryCatch (andThen f (\<lambda>x. ret (Some x))) (\<lambda>_. ret None)"

definition getVestingInfo ::
    "('s, 'acc, 'tx, 'sim, 'v, 'ev) ClientEnv \<Rightarrow> bcForgeClientConfig \<Rightarrow> string \<Rightarrow> string option \<Rightarrow> ('s, Native) client_act" where
  "getVestingInfo env cfg beneficiary vestingContractId =
     andThen (fromSum (dummyAccount (soroban env) ZERO_ADDRESS)) (\<lambda>account.
     andThen (fromSum (addressToScVal env beneficiary)) (\<lambda>b.
     andThen (fromSum (buildCall (soroban env) account ''100'' (cfg_networkPassphrase cfg)
                (targetContract cfg vestingContractId) ''get_vesting_info'' [b])) (\<lambda>tx.
     andThen (onWorld (SorobanEnv.simulate (soroban env) tx)) (\<lambda>simulated.
       case simulatedValue env simulated of
         None \<Rightarrow> ret (NList [])
       | Some v \<Rightarrow> fromSum (scValToNative env v)))))"

text \<open>The transaction is built before the ledger is asked for; its failure to build is not caught.\<close>

definition getFlashLoanLockStatus ::
    "('s, 'acc, 'tx, 'sim, 'v, 'ev) ClientEnv \<Rightarrow> bcForgeClientConfig \<Rightarrow> string \<Rightarrow> string option \<Rightarrow> ('s, FlashLoanLock) client_act" where
  "getFlashLoanLockStatus env cfg address guardContractId =
     andThen (fromSum (dummyAccount (soroban env) ZERO_ADDRESS)) (\<lambda>account.
     andThen (fromSum (addressToScVal env address)) (\<lambda>a.
     andThen (fromSum (buildCall (soroban env) account ''100'' (cfg_networkPassphrase cfg)
                (targetContract cfg guardContractId) ''deposit'' [a])) (\<lambda>tx.
     andThen (orNone (onWorld (getLatestLedger env))) (\<lambda>latest.
     let currentLedger = (case latest of Some l \<Rightarrow> l | None \<Rightarrow> 0) in
     andThen (orNone (onWorld (SorobanEnv.simulate (soroban env) tx))) (\<lambda>simulated.
       case simulated of
         None \<Rightarrow> ret \<lparr>isLocked = False, depositBlock = None, fl_currentLedger = currentLedger\<rparr>
       | Some (SimulationFailed _) \<Rightarrow>
           ret \<lparr>isLocked = False, depositBlock = None, fl_currentLedger = currentLedger\<rparr>
       | Some _ \<Rightarrow> ret \<lparr>isLocked = False, depositBlock = None, fl_currentLedger = currentLedger\<rparr>)))))"

definition getSplitInvoice ::
    "('s, 'acc, 'tx, 'sim, 'v, 'ev) ClientEnv \<Rightarrow> bcForgeClientConfig \<Rightarrow> int \<Rightarrow> string option \<Rightarrow> ('s, Native) client_act" where
  "getSplitInvoice env cfg invoiceId splitContractId =
     andThen (fromSum (dummyAccount (soroban env) ZERO_ADDRESS)) (\<lambda>account.
     andThen (fromSum (u64ToScVal env invoiceId)) (\<lambda>i.
     andThen (fromSum (buildCall (soroban env) account ''100'' (cfg_networkPassphrase cfg)
                (targetContract cfg splitContractId) ''get_invoice'' [i])) (\<lambda>tx.
     andThen (orNone (onWorld (SorobanEnv.simulate (soroban env) tx))) (\<lambda>simulated.
       case simulated of
         None \<Rightarrow> ret NNull
       | Some sim \<Rightarrow> (case simulatedValue env sim of
                        None \<Rightarrow> ret NNull
                      | Some v \<Rightarrow> fromSum (scValToNative env v))))))"

definition getAccountSequence ::
    "('s, 'acc, 'tx, 'sim, 'v, 'ev) ClientEnv \<Rightarrow> bcForgeClientConfig \<Rightarrow> string \<Rightarrow> ('s, string) client_act" where
  "getAccountSequence env cfg address =
     andThen (onWorld (getAccount (soroban env) address)) (\<lambda>account. ret (sequenceNumber env account))"

text \<open>A ledger sequence of zero counts as missing.\<close>

definition getContractTtl ::
    "('s, 'acc, 'tx, 'sim, 'v, 'ev) ClientEnv \<Rightarrow> bcForgeClientConfig \<Rightarrow> string option \<Rightarrow> ('s, ContractTtl) client_act" where
  "getContractTtl env cfg contractId =
     andThen (getLatestLedgerSequence env) (\<lambda>currentLedger.
     let fallback = \<lparr>ttl_currentLedger = currentLedger, ttl_liveUntilLedgerSeq = currentLedger + 1000,
                     ttl_ledgersRemaining = 1000\<rparr> in
     tryCatch (andThen (onWorld (getLedgerEntries env (targetContract cfg contractId))) (\<lambda>entries.
         case entries of
           Some (e # _) \<Rightarrow>
             (case liveUntilLedgerSeq e of
                Some l \<Rightarrow>
                  ret (if l \<noteq> 0 then \<lparr>ttl_currentLedger = currentLedger, ttl_liveUntilLedgerSeq = l,
                                       ttl_ledgersRemaining = max 0 (l - currentLedger)\<rparr>
                       else fallback)
              | None \<Rightarrow> ret fallback)
         | _ \<Rightarrow> ret fallback))
       (\<lambda>_. ret fallback))"

definition rateLimitFallback :: RateLimit where
  "rateLimitFallback = \<lparr>rl_limit = 1000, rl_windowSeconds = 3600, rl_currentUsage = 0,
     rl_remainingQuota = 1000, rl_cooldownSeconds = 0, rl_isThrottled = False\<rparr>"

definition nativeBigInt :: "Native \<Rightarrow> string \<Rightarrow> ('s, int) client_act" where
  "nativeBigInt native key =
     andThen (fromSum (nativeProp native key)) (\<lambda>v. fromSum (BigInt_native v))"

definition getRateLimitStatus ::
    "('s, 'acc, 'tx, 'sim, 'v, 'ev) ClientEnv \<Rightarrow> bcForgeClientConfig \<Rightarrow> string \<Rightarrow> string \<Rightarrow> ('s, RateLimit) client_act" where
  "getRateLimitStatus env cfg address operation =
     tryCatch
       (andThen (queryNative env cfg ''get_rate_limit'' [addressToScVal env address, Inr (scvSymbol env operation)]) (\<lambda>native.
        andThen (nativeBigInt native ''limit'') (\<lambda>limit.
        andThen (nativeBigInt native ''window_seconds'') (\<lambda>windowSeconds.
        andThen (nativeBigInt native ''current_usage'') (\<lambda>currentUsage.
        andThen (fromSum (nativeProp native ''cooldown_seconds'')) (\<lambda>cd.
        andThen (fromSum (BigInt_native (if nullish cd then NNum 0 else cd))) (\<lambda>cooldownSeconds.
          ret \<lparr>rl_limit = limit, rl_windowSeconds = windowSeconds, rl_currentUsage = currentUsage,
               rl_remainingQuota = (if currentUsage \<ge> limit then 0 else limit - currentUsage),
               rl_cooldownSeconds = cooldownSeconds, rl_isThrottled = (currentUsage \<ge> limit)\<rparr>)))))))
       (\<lambda>_. ret rateLimitFallback)"

subsection \<open>Verification of an initialised contract\<close>

text \<open>One \<^verbatim>\<open>try\<close> block: a value is recorded and compared, an error is noted.\<close>

definition verifyStep ::
    "('s, 'x) client_act \<Rightarrow> ('x \<Rightarrow> InitVerificationResult \<Rightarrow> InitVerificationResult) \<Rightarrow> string \<Rightarrow>
     InitVerificationResult \<Rightarrow> ('s, InitVerificationResult) client_act" where
  "verifyStep query record failure r =
     tryCatch (andThen query (\<lambda>x. ret (record x r)))
       (\<lambda>e. ret (r\<lparr>iv_errors := iv_errors r @ [failure @ errorMessage e]\<rparr>))"

definition noteError :: "bool \<Rightarrow> string \<Rightarrow> InitVerificationResult \<Rightarrow> InitVerificationResult" where
  "noteError bad msg r = (if bad then r\<lparr>iv_errors := iv_errors r @ [msg]\<rparr> else r)"

definition emptyVerification :: InitVerificationResult where
  "emptyVerification = \<lparr>iv_valid = False, iv_admin = None, iv_name = None, iv_symbol = None,
     iv_decimals = None, iv_totalSupply = None, iv_pauserGranted = None, iv_errors = []\<rparr>"

definition quoted :: "string \<Rightarrow> string" where
  "quoted s = CHR 0x22 # s @ [CHR 0x22]"

definition verifyInitializedState ::
    "('s, 'acc, 'tx, 'sim, 'v, 'ev) ClientEnv \<Rightarrow> bcForgeClientConfig \<Rightarrow> string \<Rightarrow> string \<Rightarrow> string \<Rightarrow> int \<Rightarrow>
     string option \<Rightarrow> ('s, InitVerificationResult) client_act" where
  "verifyInitializedState env cfg expectedAdmin expectedName expectedSymbol expectedDecimals expectedPauser =
     andThen (verifyStep (getAdmin env cfg) (\<lambda>v r.
         noteError (v \<noteq> NStr expectedAdmin)
           (''Admin mismatch: expected '' @ expectedAdmin @ '', got '' @ nativeString v) (r\<lparr>iv_admin := Some v\<rparr>))
         ''Failed to query admin: '' emptyVerification) (\<lambda>r1.
     andThen (verifyStep (getName env cfg) (\<lambda>v r.
         noteError (v \<noteq> NStr expectedName)
           (''Name mismatch: expected '' @ quoted expectedName @ '', got '' @ quoted (nativeString v))
           (r\<lparr>iv_name := Some v\<rparr>))
         ''Failed to query name: '' r1) (\<lambda>r2.
     andThen (verifyStep (getSymbol env cfg) (\<lambda>v r.
         noteError (v \<noteq> NStr expectedSymbol)
           (''Symbol mismatch: expected '' @ quoted expectedSymbol @ '', got '' @ quoted (nativeString v))
           (r\<lparr>iv_symbol := Some v\<rparr>))
         ''Failed to query symbol: '' r2) (\<lambda>r3.
     andThen (verifyStep (getDecimals env cfg) (\<lambda>v r.
         noteError (v \<noteq> NNum expectedDecimals)
           (''Decimals mismatch: expected '' @ show_int expectedDecimals @ '', got '' @ nativeString v)
           (r\<lparr>iv_decimals := Some v\<rparr>))
         ''Failed to query decimals: '' r3) (\<lambda>r4.
     andThen (verifyStep (getTotalSupply env cfg) (\<lambda>v r. r\<lparr>iv_totalSupply := Some v\<rparr>)
         ''Failed to query total supply: '' r4) (\<lambda>r5.
     andThen (if truthy expectedPauser
              then verifyStep (hasRole env cfg Role_Pauser (the expectedPauser)) (\<lambda>v r.
                     noteError (\<not> v) (''Pauser role not granted to '' @ the expectedPauser)
                       (r\<lparr>iv_pauserGranted := Some v\<rparr>))
                     ''Failed to check Pauser role: '' r5
              else ret r5) (\<lambda>r6.
       ret (r6\<lparr>iv_valid := (iv_errors r6 = [])\<rparr>)))))))"

subsection \<open>Batches\<close>

text \<open>
  \<^verbatim>\<open>Promise.all(chunk.map(task))\<close> starts every task of the chunk at once. \<open>ss\<close> lists how their promises
  run, in the order of time, each with its position in the chunk: the whole rejects with the first rejection in
  time, and resolves with the values in the order of the chunk when there is none.
\<close>

fun firstRejection :: "(nat \<times> ('e + 'r)) list \<Rightarrow> 'e option" where
  "firstRejection [] = None"
| "firstRejection ((i, Inl e) # ss) = Some e"
| "firstRejection ((i, Inr v) # ss) = firstRejection ss"

definition promiseAll :: "nat \<Rightarrow> (nat \<times> ('e + 'r)) list \<Rightarrow> 'e + 'r list" where
  "promiseAll n ss =
     (case firstRejection ss of
        Some e \<Rightarrow> Inl e
      | None \<Rightarrow> Inr (List.map_filter (\<lambda>i. case map_of ss i of Some (Inr v) \<Rightarrow> Some v | _ \<Rightarrow> None) [0..<n]))"

text \<open>
  How the tasks of a chunk are interleaved is up to the event loop: \<open>run chunk s\<close> is the list of their
  settlements and the state they leave. \<open>runTasks\<close> is the one for tasks that eq in a given order, each as
  one piece.
\<close>

type_synonym ('x, 'e, 's, 'r) settlement = "'x list \<Rightarrow> 's \<Rightarrow> (nat \<times> ('e + 'r)) list \<times> 's"

fun runTasks :: "('x \<Rightarrow> ('e, 's, 'r) act) \<Rightarrow> 'x list \<Rightarrow> nat list \<Rightarrow> 's \<Rightarrow> (nat \<times> ('e + 'r)) list \<times> 's" where
  "runTasks task chunk [] s = ([], s)"
| "runTasks task chunk (i # is) s =
     (case task (chunk ! i) s of (r, s1) \<Rightarrow> (case runTasks task chunk is s1 of (ss, s2) \<Rightarrow> ((i, r) # ss, s2)))"

text \<open>\<^verbatim>\<open>items.slice(a, b)\<close>: a negative index counts from the end.\<close>

definition sliceIndex :: "int \<Rightarrow> nat \<Rightarrow> nat" where
  "sliceIndex i n = (if i < 0 then nat (max 0 (int n + i)) else min (nat i) n)"

definition js_slice :: "'a list \<Rightarrow> int \<Rightarrow> int \<Rightarrow> 'a list" where
  "js_slice xs a b = take (sliceIndex b (length xs) - sliceIndex a (length xs)) (drop (sliceIndex a (length xs)) xs)"

text \<open>The loop advances by the batch size; not returning is \<open>None\<close>.\<close>

partial_function (option) batchLoop ::
    "('x, 'e, 's, 'r) settlement \<Rightarrow> 'x list \<Rightarrow> int \<Rightarrow> int \<Rightarrow> 'r list \<Rightarrow> 's \<Rightarrow> (('e + 'r list) \<times> 's) option" where
  "batchLoop run items batchSize i results s =
     (if i < int (length items)
      then (case promiseAll (length (js_slice items i (i + batchSize))) (fst (run (js_slice items i (i + batchSize)) s)) of
              Inl e \<Rightarrow> Some (Inl e, snd (run (js_slice items i (i + batchSize)) s))
            | Inr rs \<Rightarrow> batchLoop run items batchSize (i + batchSize) (results @ rs)
                          (snd (run (js_slice items i (i + batchSize)) s)))
      else Some (Inr results, s))"

definition executeBatch ::
    "'x list \<Rightarrow> ('x, 'e, 's, 'r) settlement \<Rightarrow> int \<Rightarrow> 's \<Rightarrow> (('e + 'r list) \<times> 's) option" where
  "executeBatch items run batchSize = batchLoop run items batchSize 0 []"

definition getBalances ::
    "('s, 'acc, 'tx, 'sim, 'v, 'ev) ClientEnv \<Rightarrow> bcForgeClientConfig \<Rightarrow>
     (string list \<Rightarrow> 's TokenClient \<Rightarrow> nat list) \<Rightarrow> string list \<Rightarrow> int \<Rightarrow>
     's TokenClient \<Rightarrow> ((sdk_error + int list) \<times> 's TokenClient) option" where
  "getBalances env cfg sched addresses batchSize =
     executeBatch addresses (\<lambda>chunk c. runTasks (getBalance env cfg) chunk (sched chunk c) c) batchSize"

subsection \<open>Batches end for a positive size\<close>

text \<open>
  Every task settles once, in whatever order, and with the outcome that belongs to its item. Nothing is
  assumed about the state.
\<close>

definition settlesAs :: "('x \<Rightarrow> 'e + 'r) \<Rightarrow> ('x, 'e, 's, 'r) settlement \<Rightarrow> bool" where
  "settlesAs outcome run \<longleftrightarrow>
     (\<forall>chunk s. distinct (map fst (fst (run chunk s))) \<and>
        set (fst (run chunk s)) = {(i, outcome (chunk ! i)) |i. i < length chunk})"

definition fulfilled :: "('x \<Rightarrow> 'e + 'r) \<Rightarrow> 'x list \<Rightarrow> bool" where
  "fulfilled outcome xs \<longleftrightarrow> (\<forall>x \<in> set xs. \<not> isl (outcome x))"

lemma fulfilled_append [simp]: "fulfilled outcome (xs @ ys) \<longleftrightarrow> fulfilled outcome xs \<and> fulfilled outcome ys"
  by (auto simp: fulfilled_def)

lemma js_slice_nonneg:
  "0 \<le> i \<Longrightarrow> 0 \<le> n \<Longrightarrow> js_slice xs i (i + n) = take (nat n) (drop (nat i) xs)"
  by (auto simp: js_slice_def sliceIndex_def nat_add_distrib min_def)

lemma firstRejection_None: "firstRejection ss = None \<longleftrightarrow> (\<forall>(i, r) \<in> set ss. \<not> isl r)"
  by (induction ss rule: firstRejection.induct) auto

lemma map_filter_total: "(\<And>x. x \<in> set xs \<Longrightarrow> f x = Some (g x)) \<Longrightarrow> List.map_filter f xs = map g xs"
  by (induction xs) (simp_all add: List.map_filter_simps)

lemma settled_values:
  assumes "settlesAs outcome run" and "fulfilled outcome chunk"
  shows "promiseAll (length chunk) (fst (run chunk s)) = Inr (map (projr \<circ> outcome) chunk)"
proof -
  let ?ss = "fst (run chunk s)"
  have ss: "distinct (map fst ?ss)" "set ?ss = {(i, outcome (chunk ! i)) |i. i < length chunk}"
    using assms(1) by (simp_all add: settlesAs_def)
  have none: "firstRejection ?ss = None"
    unfolding firstRejection_None ss(2) using assms(2) by (auto simp: fulfilled_def)
  have "(case map_of ?ss i of Some (Inr v) \<Rightarrow> Some v | _ \<Rightarrow> None) = Some (projr (outcome (chunk ! i)))" if "i < length chunk" for i
  proof -
    have "map_of ?ss i = Some (outcome (chunk ! i))"
      using that ss by (intro map_of_is_SomeI) auto
    moreover have "\<not> isl (outcome (chunk ! i))" using assms(2) nth_mem [OF that] by (simp add: fulfilled_def)
    ultimately show ?thesis by (cases "outcome (chunk ! i)") simp_all
  qed
  then have "List.map_filter (\<lambda>i. case map_of ?ss i of Some (Inr v) \<Rightarrow> Some v | _ \<Rightarrow> None) [0..<length chunk] =
      map (\<lambda>i. projr (outcome (chunk ! i))) [0..<length chunk]"
    by (intro map_filter_total) simp
  moreover have "map (\<lambda>i. projr (outcome (chunk ! i))) [0..<length chunk] = map (projr \<circ> outcome) chunk"
    by (auto intro: nth_equalityI)
  ultimately show ?thesis using none by (simp add: promiseAll_def)
qed

lemma settled_rejection:
  assumes "settlesAs outcome run" and "\<not> fulfilled outcome chunk"
  shows "\<exists>e. firstRejection (fst (run chunk s)) = Some e \<and> promiseAll n (fst (run chunk s)) = Inl e"
proof -
  let ?ss = "fst (run chunk s)"
  obtain x where "x \<in> set chunk" "isl (outcome x)" using assms(2) by (auto simp: fulfilled_def)
  moreover from this(1) obtain i where "i < length chunk" "x = chunk ! i" by (auto simp: in_set_conv_nth)
  ultimately have "(i, outcome (chunk ! i)) \<in> set ?ss" "isl (outcome (chunk ! i))"
    using assms(1) by (auto simp: settlesAs_def)
  then have "firstRejection ?ss \<noteq> None" unfolding firstRejection_None by fast
  then show ?thesis by (auto simp: promiseAll_def)
qed

text \<open>The chunk with number \<open>k\<close>.\<close>

abbreviation chunkAt :: "nat \<Rightarrow> 'x list \<Rightarrow> nat \<Rightarrow> 'x list" where
  "chunkAt m items k \<equiv> take m (drop (k * m) items)"

lemma chunk_split: "drop (k * m) items = chunkAt m items k @ drop (Suc k * m) items"
proof -
  have "drop (Suc k * m) items = drop m (drop (k * m) items)" by (simp add: add.commute)
  then show ?thesis by (metis append_take_drop_id)
qed

lemma batchLoop_chunk:
  assumes "0 < n"
  shows "batchLoop run items n (int (k * nat n)) results s =
     (if k * nat n < length items
      then (case promiseAll (length (chunkAt (nat n) items k)) (fst (run (chunkAt (nat n) items k) s)) of
              Inl e \<Rightarrow> Some (Inl e, snd (run (chunkAt (nat n) items k) s))
            | Inr rs \<Rightarrow> batchLoop run items n (int (Suc k * nat n)) (results @ rs) (snd (run (chunkAt (nat n) items k) s)))
      else Some (Inr results, s))"
proof -
  have "js_slice items (int (k * nat n)) (int (k * nat n) + n) = chunkAt (nat n) items k"
    using js_slice_nonneg [of "int (k * nat n)" n items] assms by (simp only: nat_int of_nat_0_le_iff less_imp_le simp_thms)
  moreover have "int (k * nat n) + n = int (Suc k * nat n)" using assms by simp
  ultimately show ?thesis unfolding batchLoop.simps [of run items n "int (k * nat n)"] by (simp only: of_nat_less_iff)
qed

lemma batchLoop_fulfilled:
  assumes "0 < n" and "settlesAs outcome run" and "fulfilled outcome (drop (k * nat n) items)"
  shows "\<exists>s'. batchLoop run items n (int (k * nat n)) results s =
     Some (Inr (results @ map (projr \<circ> outcome) (drop (k * nat n) items)), s')"
  using assms(3)
proof (induction "length items - k * nat n" arbitrary: k results s rule: less_induct)
  case less
  show ?case
  proof (cases "k * nat n < length items")
    case True
    have split: "fulfilled outcome (chunkAt (nat n) items k)" "fulfilled outcome (drop (Suc k * nat n) items)"
      using less.prems chunk_split [of k "nat n" items] by (metis fulfilled_append)+
    have "length items - Suc k * nat n < length items - k * nat n" using True assms(1) by simp
    then obtain s' where "batchLoop run items n (int (Suc k * nat n)) (results @ map (projr \<circ> outcome) (chunkAt (nat n) items k))
        (snd (run (chunkAt (nat n) items k) s)) =
        Some (Inr ((results @ map (projr \<circ> outcome) (chunkAt (nat n) items k)) @ map (projr \<circ> outcome) (drop (Suc k * nat n) items)), s')"
      using less.hyps [OF _ split(2)] by blast
    then have "batchLoop run items n (int (k * nat n)) results s =
        Some (Inr (results @ map (projr \<circ> outcome) (chunkAt (nat n) items k @ drop (Suc k * nat n) items)), s')"
      using True settled_values [OF assms(2) split(1)]
      by (simp only: batchLoop_chunk [OF assms(1), of run items k] if_True sum.case append_assoc map_append)
    then show ?thesis unfolding chunk_split [of k "nat n" items, symmetric] by blast
  next
    case False
    then have "drop (k * nat n) items = []" by simp
    with False show ?thesis by (simp only: batchLoop_chunk [OF assms(1), of run items k]) simp
  qed
qed

lemma batchLoop_rejected:
  assumes "0 < n" and "settlesAs outcome run" and "\<not> fulfilled outcome (drop (k * nat n) items)"
  shows "\<exists>j t e s'. k \<le> j \<and> batchLoop run items n (int (k * nat n)) results s = Some (Inl e, s') \<and>
     fulfilled outcome (take (j * nat n - k * nat n) (drop (k * nat n) items)) \<and>
     firstRejection (fst (run (chunkAt (nat n) items j) t)) = Some e"
  using assms(3)
proof (induction "length items - k * nat n" arbitrary: k results s rule: less_induct)
  case less
  have True: "k * nat n < length items"
    using less.prems by (rule contrapos_np) (simp add: fulfilled_def)
  show ?case
  proof (cases "fulfilled outcome (chunkAt (nat n) items k)")
    case False
    from settled_rejection [OF assms(2) this, of s] obtain e where
      "firstRejection (fst (run (chunkAt (nat n) items k) s)) = Some e"
      "promiseAll (length (chunkAt (nat n) items k)) (fst (run (chunkAt (nat n) items k) s)) = Inl e" by blast
    then have "batchLoop run items n (int (k * nat n)) results s = Some (Inl e, snd (run (chunkAt (nat n) items k) s))"
      using True by (simp only: batchLoop_chunk [OF assms(1), of run items k] if_True sum.case)
    moreover have "fulfilled outcome (take (k * nat n - k * nat n) (drop (k * nat n) items))" by (simp add: fulfilled_def)
    ultimately show ?thesis using \<open>firstRejection _ = Some e\<close> by blast
  next
    case ok: True
    have rest: "\<not> fulfilled outcome (drop (Suc k * nat n) items)"
      using less.prems ok chunk_split [of k "nat n" items] by (metis fulfilled_append)
    have "length items - Suc k * nat n < length items - k * nat n" using True assms(1) by simp
    from less.hyps [OF this rest] obtain j t e s' where
      j: "Suc k \<le> j" "batchLoop run items n (int (Suc k * nat n)) (results @ map (projr \<circ> outcome) (chunkAt (nat n) items k))
          (snd (run (chunkAt (nat n) items k) s)) = Some (Inl e, s')"
        "fulfilled outcome (take (j * nat n - Suc k * nat n) (drop (Suc k * nat n) items))"
        "firstRejection (fst (run (chunkAt (nat n) items j) t)) = Some e" by blast
    have loop: "batchLoop run items n (int (k * nat n)) results s = Some (Inl e, s')"
      using True settled_values [OF assms(2) ok] j(2)
      by (simp only: batchLoop_chunk [OF assms(1), of run items k] if_True sum.case)
    have "Suc k * nat n \<le> j * nat n" using j(1) by (rule mult_le_mono1)
    then have "j * nat n - k * nat n = nat n + (j * nat n - Suc k * nat n)" by simp
    then have "take (j * nat n - k * nat n) (drop (k * nat n) items) =
        chunkAt (nat n) items k @ take (j * nat n - Suc k * nat n) (drop (Suc k * nat n) items)"
      by (simp add: take_add add.commute)
    with ok j(3) have "fulfilled outcome (take (j * nat n - k * nat n) (drop (k * nat n) items))" by simp
    with j(1,4) loop show ?thesis by (meson Suc_leD)
  qed
qed

lemma batchLoop_stuck:
  assumes "batchLoop run items n i results s = Some y"
  shows "n = 0 \<longrightarrow> settlesAs outcome run \<longrightarrow> \<not> i < int (length items)"
proof (rule batchLoop.raw_induct [OF _ assms,
      of "\<lambda>run items n i results s y. n = 0 \<longrightarrow> settlesAs outcome run \<longrightarrow> \<not> i < int (length items)"])
  fix loop run items n i results s y
  assume IH: "\<And>run items n i results s y. loop run items n i results s = Some y \<Longrightarrow>
      n = 0 \<longrightarrow> settlesAs outcome run \<longrightarrow> \<not> i < int (length items)"
    and eq: "(if i < int (length items)
      then case promiseAll (length (js_slice items i (i + n))) (fst (run (js_slice items i (i + n)) s)) of
             Inl e \<Rightarrow> Some (Inl e, snd (run (js_slice items i (i + n)) s))
           | Inr rs \<Rightarrow> loop run items n (i + n) (results @ rs) (snd (run (js_slice items i (i + n)) s))
      else Some (Inr results, s)) = Some y"
  show "n = 0 \<longrightarrow> settlesAs outcome run \<longrightarrow> \<not> i < int (length items)"
  proof (intro impI notI)
    assume n: "n = 0" and st: "settlesAs outcome run" and i: "i < int (length items)"
    have "promiseAll (length (js_slice items i (i + n))) (fst (run (js_slice items i (i + n)) s)) = Inr []"
      using settled_values [OF st, of "[]" s] n by (simp add: js_slice_def fulfilled_def)
    then have "loop run items n (i + n) (results @ []) (snd (run (js_slice items i (i + n)) s)) = Some y"
      using eq i by simp
    from IH [OF this] n st i show False by simp
  qed
qed

text \<open>
  C19. \<^verbatim>\<open>executeBatch\<close>, on which \<^verbatim>\<open>getBalances\<close> rests, for tasks that run in any order of time. With a
  positive batch size it returns: when every task is fulfilled, with the values in the order of the
  items, whatever the size; otherwise with the rejection that comes first in time in the first chunk in
  which a task rejects. For batch size zero and a list that is not empty it never returns.
\<close>

theorem executeBatch_outcome:
  assumes "settlesAs outcome run"
  shows "(0 < batchSize \<longrightarrow> (\<forall>x \<in> set items. \<not> isl (outcome x)) \<longrightarrow>
            (\<exists>s'. executeBatch items run batchSize s = Some (Inr (map (projr \<circ> outcome) items), s'))) \<and>
         (0 < batchSize \<longrightarrow> (\<exists>x \<in> set items. isl (outcome x)) \<longrightarrow>
            (\<exists>k t e s'. executeBatch items run batchSize s = Some (Inl e, s') \<and>
               (\<forall>x \<in> set (take (k * nat batchSize) items). \<not> isl (outcome x)) \<and>
               firstRejection (fst (run (take (nat batchSize) (drop (k * nat batchSize) items)) t)) = Some e)) \<and>
         (batchSize = 0 \<and> items \<noteq> [] \<longrightarrow> executeBatch items run batchSize s = None)"
proof (intro conjI impI)
  assume "0 < batchSize" and "\<forall>x \<in> set items. \<not> isl (outcome x)"
  with batchLoop_fulfilled [OF this(1) assms, of 0 items "[]" s]
  show "\<exists>s'. executeBatch items run batchSize s = Some (Inr (map (projr \<circ> outcome) items), s')"
    by (simp add: executeBatch_def fulfilled_def)
next
  assume "0 < batchSize" and "\<exists>x \<in> set items. isl (outcome x)"
  with batchLoop_rejected [OF this(1) assms, of 0 items "[]" s]
  show "\<exists>k t e s'. executeBatch items run batchSize s = Some (Inl e, s') \<and>
      (\<forall>x \<in> set (take (k * nat batchSize) items). \<not> isl (outcome x)) \<and>
      firstRejection (fst (run (take (nat batchSize) (drop (k * nat batchSize) items)) t)) = Some e"
    by (auto simp: executeBatch_def fulfilled_def)
next
  assume "batchSize = 0 \<and> items \<noteq> []"
  then show "executeBatch items run batchSize s = None"
    using batchLoop_stuck [of run items 0 0 "[]" s _ outcome] assms
    by (cases "executeBatch items run batchSize s") (auto simp: executeBatch_def)
qed

text \<open>Two tasks of a chunk that run in the reverse order: the later item rejects first.\<close>

definition demoOutcome :: "int \<Rightarrow> string + int" where
  "demoOutcome x = (if x < 0 then Inl (show_int x) else Inr (x * 2))"

definition demoSettle :: "(int, string, nat, int) settlement" where
  "demoSettle chunk s = (rev (map (\<lambda>i. (i, demoOutcome (chunk ! i))) [0..<length chunk]), s + length chunk)"

theorem executeBatch_outcome_witness:
  "(\<exists>s'. executeBatch [1, 2, 3] demoSettle 2 0 = Some (Inr [2, 4, 6], s')) \<and>
   (\<exists>k t e s'. executeBatch [1, 2, -3, -4] demoSettle 2 0 = Some (Inl e, s') \<and>
      firstRejection (fst (demoSettle (take 2 (drop (k * 2) [1, 2, -3, -4])) t)) = Some e) \<and>
   executeBatch [1, 2, 3] demoSettle 0 0 = None"
proof -
  have s: "settlesAs demoOutcome demoSettle"
    by (auto simp: settlesAs_def demoSettle_def comp_def rev_map [symmetric])
  show ?thesis
    using executeBatch_outcome [OF s, of 2 "[1, 2, 3]" 0] executeBatch_outcome [OF s, of 2 "[1, 2, -3, -4]" 0]
      executeBatch_outcome [OF s, of 0 "[1, 2, 3]" 0]
    by (auto simp: demoOutcome_def)
qed

subsection \<open>All writes that accept any signer\<close>

text \<open>
  The methods of the client that submit one transaction and take the keypair as an option. Besides them
  \<^verbatim>\<open>initRbac\<close> takes it as an option and submits two transactions.
\<close>

inductive tokenWrite ::
    "('s, 'acc, 'tx, 'sim, 'v, 'ev) ClientEnv \<Rightarrow> bcForgeClientConfig \<Rightarrow> string option \<Rightarrow>
     ('s, TransactionResult) client_act \<Rightarrow> bool" for env cfg source where
  "tokenWrite env cfg source (initialize env cfg x y z u source)"
| "tokenWrite env cfg source (mint env cfg x y source)"
| "tokenWrite env cfg source (batchMint env cfg x source)"
| "tokenWrite env cfg source (batchTransfer env cfg x y source)"
| "tokenWrite env cfg source (transfer env cfg x y z source)"
| "tokenWrite env cfg source (approve env cfg x y z source)"
| "tokenWrite env cfg source (burn env cfg x y source)"
| "tokenWrite env cfg source (transferOwnership env cfg x source)"
| "tokenWrite env cfg source (pause env cfg source)"
| "tokenWrite env cfg source (unpause env cfg source)"
| "tokenWrite env cfg source (upgrade env cfg x source)"
| "tokenWrite env cfg source (proposeAction env cfg x y z source)"
| "tokenWrite env cfg source (approveProposal env cfg x y source)"
| "tokenWrite env cfg source (createRoleProposal env cfg x y z u source)"
| "tokenWrite env cfg source (executeRoleProposal env cfg x y source)"
| "tokenWrite env cfg source (executeProposal env cfg x source)"
| "tokenWrite env cfg source (createProposal env cfg x y source)"
| "tokenWrite env cfg source (executeUpgrade env cfg x y z source)"
| "tokenWrite env cfg source (grantRole env cfg x y source)"
| "tokenWrite env cfg source (revokeRole env cfg x y source)"
| "tokenWrite env cfg source (renounceRole env cfg x source)"
| "tokenWrite env cfg source (grantMinter env cfg x source)"
| "tokenWrite env cfg source (revokeMinter env cfg x source)"
| "tokenWrite env cfg source (grantPauser env cfg x source)"
| "tokenWrite env cfg source (revokePauser env cfg x source)"
| "tokenWrite env cfg source (setAdminContract env cfg x source)"
| "tokenWrite env cfg source (setDependentToken env cfg x source)"
| "tokenWrite env cfg source (grantSuperAdmin env cfg x source)"
| "tokenWrite env cfg source (revokeSuperAdmin env cfg x source)"
| "tokenWrite env cfg source (migrateAdmin env cfg source)"
| "tokenWrite env cfg source (setClawbackAdmin env cfg x source)"
| "tokenWrite env cfg source (updateName env cfg x source)"
| "tokenWrite env cfg source (updateSymbol env cfg x source)"
| "tokenWrite env cfg source (clawback env cfg x y z source)"
| "tokenWrite env cfg source (lockTokens env cfg x y z source)"
| "tokenWrite env cfg source (withdrawLocked env cfg x source)"
| "tokenWrite env cfg source (extendTtl env cfg x y source)"

text \<open>The methods that need a keypair.\<close>

inductive keypairWrite ::
    "('s, 'acc, 'tx, 'sim, 'v, 'ev) ClientEnv \<Rightarrow> bcForgeClientConfig \<Rightarrow> ('s, TransactionResult) client_act \<Rightarrow> bool" for env cfg where
  "keypairWrite env cfg (transferFrom env cfg x y z u keypair)"
| "keypairWrite env cfg (burnFrom env cfg x y z keypair)"
| "keypairWrite env cfg (setAdminPool env cfg xs y keypair)"

lemmas write_defs =
  initialize_def mint_def batchMint_def batchTransfer_def transfer_def approve_def
  burn_def transferOwnership_def pause_def unpause_def upgrade_def proposeAction_def
  approveProposal_def createRoleProposal_def executeRoleProposal_def executeProposal_def createProposal_def executeUpgrade_def
  grantRole_def revokeRole_def renounceRole_def grantMinter_def revokeMinter_def grantPauser_def
  revokePauser_def setAdminContract_def setDependentToken_def grantSuperAdmin_def revokeSuperAdmin_def migrateAdmin_def
  setClawbackAdmin_def updateName_def updateSymbol_def clawback_def lockTokens_def withdrawLocked_def
  extendTtl_def

text \<open>A write converts its arguments without an effect and is then one call of \<open>invokeContract\<close>.\<close>

definition viaInvoke ::
    "('s, 'acc, 'tx, 'sim, 'v, 'ev) ClientEnv \<Rightarrow> bcForgeClientConfig \<Rightarrow> string option \<Rightarrow>
     ('s, TransactionResult) client_act \<Rightarrow> bool" where
  "viaInvoke env cfg source f \<longleftrightarrow>
     (\<forall>c. (\<exists>e. f c = (Inl e, c)) \<or> (\<exists>m vs. f c = invokeContract env cfg m vs source c))"

lemma viaInvoke_fromSum [intro]:
  "(\<And>x. viaInvoke env cfg source (g x)) \<Longrightarrow> viaInvoke env cfg source (andThen (fromSum r) g)"
  by (cases r) (auto simp: viaInvoke_def fromSum_def)

lemma viaInvoke_invokeContract [intro]: "viaInvoke env cfg source (invokeContract env cfg m vs source)"
  by (auto simp: viaInvoke_def)

lemma viaInvoke_invokeWith [intro]: "viaInvoke env cfg source (invokeWith env cfg m args source)"
  by (auto simp: invokeWith_def)

lemma getSignerAddress_cases:
  "getSignerAddress env source c = (Inl (SignerRequiredError signerRequired), c) \<or>
   (\<exists>a. a \<noteq> [] \<and> getSignerAddress env source c = (Inr a, c))"
  by (auto simp: getSignerAddress_def Let_def truthy_def)

lemma viaInvoke_signer [intro]:
  assumes "\<And>a. viaInvoke env cfg source (g a)"
  shows "viaInvoke env cfg source (andThen (getSignerAddress env source) g)"
  unfolding viaInvoke_def
proof
  fix c
  show "(\<exists>e. andThen (getSignerAddress env source) g c = (Inl e, c)) \<or>
      (\<exists>m vs. andThen (getSignerAddress env source) g c = invokeContract env cfg m vs source c)"
    using getSignerAddress_cases [of env source c] assms [unfolded viaInvoke_def]
    by (metis andThen_Inl andThen_Inr)
qed

lemma viaInvoke_invokeSigned [intro]: "viaInvoke env cfg source (invokeSigned env cfg m args source)"
  by (auto simp: invokeSigned_def)

lemma viaInvoke_tokenWrite: "tokenWrite env cfg source f \<Longrightarrow> viaInvoke env cfg source f"
  by (erule tokenWrite.cases) (auto simp: write_defs)

lemma viaInvoke_keypairWrite: "keypairWrite env cfg f \<Longrightarrow> \<exists>source. viaInvoke env cfg source f"
  by (erule keypairWrite.cases) (auto simp: transferFrom_def burnFrom_def setAdminPool_def)

text \<open>Without a keypair and without a connected wallet the call is refused before anything happens.\<close>

definition noSigner :: "'s TokenClient \<Rightarrow> bool" where
  "noSigner c \<longleftrightarrow>
     (case walletAdapter c of
        None \<Rightarrow> True
      | Some wa \<Rightarrow> \<not> connected wa (world c) \<or> \<not> truthy (walletPublicKey wa (world c)))"

lemma invokeOnce_noSigner:
  "noSigner c \<Longrightarrow> \<exists>m. invokeOnce env cfg method args None c = (Inl (SignerRequiredError m), c)"
  by (auto simp: invokeOnce_def noSigner_def split: option.splits)

lemma invokeContract_noSigner:
  assumes "noSigner c"
  shows "\<exists>m. invokeContract env cfg method args None c = (Inl (SignerRequiredError m), c)"
proof -
  obtain m where "invokeOnce env cfg method args None c = (Inl (SignerRequiredError m), c)"
    using invokeOnce_noSigner [OF assms] by blast
  then have "withRetry3 fatalError (invokeOnce env cfg method args None) c = (Inl (SignerRequiredError m), c)"
    by (rule withRetry_fatal) simp
  then show ?thesis by (simp add: invokeContract_def)
qed

lemma initRbac_noSigner:
  assumes "noSigner c"
  shows "\<exists>e. initRbac env cfg superAdmin None c = (Inl e, c)"
proof -
  obtain e where "invokeWith env cfg ''migrate_admin'' [] None c = (Inl e, c)"
    using invokeContract_noSigner [OF assms, of env cfg "''migrate_admin''" "[]"] by (auto simp: invokeWith_def fromSum_def andThen_def)
  then show ?thesis
    using getSignerAddress_cases [of env None c] by (auto simp: initRbac_def andThen_def)
qed

text \<open>
  C8. A write needs a signer. Every write method of the token client that takes an optional
  keypair, \<^verbatim>\<open>initRbac\<close> included, called without one while no wallet adapter is set or the adapter is not
  connected or reports no public key, is rejected, and neither the client nor the node and the wallet are
  touched: no transaction is built, signed or sent.
\<close>

theorem write_needs_signer:
  assumes "noSigner c"
  shows "(tokenWrite env cfg None f \<longrightarrow> (\<exists>e. f c = (Inl e, c))) \<and>
         (\<exists>e. initRbac env cfg superAdmin None c = (Inl e, c))"
  using viaInvoke_tokenWrite [of env cfg None f] invokeContract_noSigner [OF assms, of env cfg] initRbac_noSigner [OF assms]
  unfolding viaInvoke_def by metis

text \<open>A call that resolves went through one successful submission.\<close>

lemma settle_Inr:
  "settle env g c = (Inr r, c') \<Longrightarrow> get_status g = SUCCESS \<Longrightarrow> success r \<and> readCache c' = Map.empty"
  by (cases "get_returnValue g") (auto simp: settle_def settled_def clearCache_def fromSum_def andThen_def
      map_sum_def split: sum.splits)

lemma onWorld_submit_Inr:
  "onWorld (submitTransaction env x opts) c = (Inr g, c') \<Longrightarrow> get_status g = SUCCESS"
  by (auto simp: onWorld_def split: prod.splits dest: submitTransaction_success)

lemma invokeOnce_Inr:
  "invokeOnce env cfg method args source c = (Inr r, c') \<Longrightarrow> success r \<and> readCache c' = Map.empty"
  by (auto simp: invokeOnce_def andThen_Inr_iff split: option.splits if_splits
      dest!: onWorld_submit_Inr dest: settle_Inr)

lemma invokeContract_Inr:
  assumes "invokeContract env cfg method args source c = (Inr r, c')"
  shows "success r \<and> readCache c' = Map.empty"
proof -
  obtain s where "invokeOnce env cfg method args source s = (Inr r, c')"
    using withRetry_result [OF assms [unfolded invokeContract_def withRetry3_def], of "\<lambda>_. True"] by auto
  then show ?thesis by (rule invokeOnce_Inr)
qed

lemma viaInvoke_Inr: "viaInvoke env cfg source f \<Longrightarrow> f c = (Inr r, c') \<Longrightarrow> success r \<and> readCache c' = Map.empty"
  unfolding viaInvoke_def using invokeContract_Inr by (metis Inl_Inr_False prod.inject)

lemma invokeWith_Inr: "invokeWith env cfg m args source c = (Inr r, c') \<Longrightarrow> success r \<and> readCache c' = Map.empty"
  using viaInvoke_Inr [OF viaInvoke_invokeWith] by blast

lemma submitSigned_Inr:
  assumes "submitSignedTransaction env cfg txXdr c = (Inr r, c')"
  shows "success r \<and> readCache c' = readCache c"
proof -
  obtain g w where g: "onWorld (submitTransaction (soroban env) txXdr
       \<lparr>maxAttempts = None, maxFeeCap = None, sourceKeypair = None,
        networkPassphrase = Some (cfg_networkPassphrase cfg), opt_contractId = None, opt_method = None,
        opt_args = None\<rparr>) c = (Inr g, w)" "fromSum (settled env get_txHash g) w = (Inr r, c')"
    using assms by (auto simp: submitSignedTransaction_def andThen_Inr_iff)
  from onWorld_submit_Inr [OF g(1)] g(2) have "success r \<and> c' = w"
    by (cases "get_returnValue g") (auto simp: settled_def fromSum_def map_sum_def split: sum.splits)
  with g(1) show ?thesis by (auto simp: onWorld_iff)
qed

text \<open>
  C35. A write that resolves has succeeded: whatever the node answers, a write method of the token
  client either rejects or resolves with \<^verbatim>\<open>success\<close> true, never with \<^verbatim>\<open>success\<close> false, for \<^verbatim>\<open>initRbac\<close> in both its results. When
  it resolves the read cache is empty, so that the next balance or allowance is fetched again; only
  \<^verbatim>\<open>submitSignedTransaction\<close> and \<^verbatim>\<open>execute\<close>, which send a transaction signed elsewhere, leave the read cache as it was.
\<close>

theorem resolved_write_succeeded:
  "(tokenWrite env cfg source f \<or> keypairWrite env cfg f \<longrightarrow> f c = (Inr r, c') \<longrightarrow>
      success r \<and> readCache c' = Map.empty) \<and>
   (initRbac env cfg superAdmin source c = (Inr both, c') \<longrightarrow>
      success (migrate both) \<and> success (grant both) \<and> readCache c' = Map.empty) \<and>
   (submitSignedTransaction env cfg txXdr c = (Inr r, c') \<or> execute env cfg txXdr c = (Inr r, c') \<longrightarrow>
      success r \<and> readCache c' = readCache c)"
proof (intro conjI impI)
  assume f: "tokenWrite env cfg source f \<or> keypairWrite env cfg f" and "f c = (Inr r, c')"
  then show "success r" "readCache c' = Map.empty"
    using viaInvoke_tokenWrite viaInvoke_keypairWrite viaInvoke_Inr by metis+
next
  assume "initRbac env cfg superAdmin source c = (Inr both, c')"
  then show "success (migrate both)" "success (grant both)" "readCache c' = Map.empty"
    by (auto simp: initRbac_def andThen_Inr_iff dest!: invokeWith_Inr)
next
  assume "submitSignedTransaction env cfg txXdr c = (Inr r, c') \<or> execute env cfg txXdr c = (Inr r, c')"
  then show "success r" "readCache c' = readCache c"
    by (auto simp: execute_def dest!: submitSigned_Inr)
qed

subsection \<open>Witnesses\<close>

definition sampleConfig :: bcForgeClientConfig where
  "sampleConfig = \<lparr>cfg_networkPassphrase = ''net'', cfg_contractId = ''C'', cfg_maxRetryAttempts = None,
     cfg_maxFeeCap = None\<rparr>"

theorem write_needs_signer_witness:
  "\<exists>e. mint (logClientEnv acceptedAnswer confirmed) sampleConfig ''G'' 5 None (newTokenClient None emptyLog) =
     (Inl e, newTokenClient None emptyLog)"
proof -
  have "tokenWrite (logClientEnv acceptedAnswer confirmed) sampleConfig None
      (mint (logClientEnv acceptedAnswer confirmed) sampleConfig ''G'' 5 None)"
    by (rule tokenWrite.intros)
  moreover have "noSigner (newTokenClient None emptyLog)" by (simp add: noSigner_def newTokenClient_def)
  ultimately show ?thesis using write_needs_signer by blast
qed

theorem resolved_write_succeeded_witness:
  "\<exists>r c'. mint (logClientEnv acceptedAnswer confirmed) sampleConfig ''G'' 5 (Some ''S'')
       (newTokenClient None emptyLog) = (Inr r, c') \<and> success r \<and> readCache c' = Map.empty"
proof -
  let ?run = "mint (logClientEnv acceptedAnswer confirmed) sampleConfig ''G'' 5 (Some ''S'')
       (newTokenClient None emptyLog)"
  let ?r = "\<lparr>success = True, tx_hash = ''h'', returnValue = NUndef\<rparr>"
  have "fst ?run = Inr ?r" by code_simp
  then have r: "?run = (Inr ?r, snd ?run)" by (metis prod.collapse)
  have "tokenWrite (logClientEnv acceptedAnswer confirmed) sampleConfig (Some ''S'')
      (mint (logClientEnv acceptedAnswer confirmed) sampleConfig ''G'' 5 (Some ''S''))"
    by (rule tokenWrite.intros)
  with resolved_write_succeeded r show ?thesis by blast
qed

subsection \<open>Writes whose confirmation does not arrive\<close>

lemma invokeOnce_stillPending:
  assumes env: "soroban env = logNode acceptedAnswer stillPending"
    and "feeCap (cfg_maxFeeCap cfg) = Inr cap" and "attemptsOf (submitOpts cfg m vs (Some kp)) = Suc n"
  shows "invokeOnce env cfg m vs (Some kp) c =
     (Inl (TransactionTimeoutError timeoutMessage ''h''),
      c\<lparr>world := (world c)\<lparr>sends := sends (world c) + 1, fees := fees (world c) @ [''100'']\<rparr>\<rparr>)"
proof -
  have "feeCap (maxFeeCap (submitOpts cfg m vs (Some kp))) = Inr cap"
    using assms(2) by (simp add: submitOpts_def)
  then show ?thesis
    using assms(3) by (simp add: invokeOnce_def env andThen_def onWorld_def submit_stillPending build_logNode)
qed

text \<open>
  A write whose confirmation does not arrive in time is signed and sent again. On a node that
  accepts every transaction but does not report it as included within the polling window, one call
  of \<^verbatim>\<open>mint\<close> with a keypair sends three separately built transactions and only then rejects with
  the time-out: \<^verbatim>\<open>submitTransaction\<close> does not retry a time-out, because the transaction may still be
  included, but the \<^verbatim>\<open>withRetry\<close> around it does, so the tokens may be minted three times.
\<close>

theorem unconfirmed_mint_is_sent_again:
  assumes "soroban env = logNode acceptedAnswer stillPending"
    and "feeCap (cfg_maxFeeCap cfg) = Inr cap"
    and "case cfg_maxRetryAttempts cfg of None \<Rightarrow> True | Some n \<Rightarrow> 0 < n"
    and "kp \<noteq> []"
    and "sequence [addressToScVal env kp, addressToScVal env recipient, i128ToScVal env value] = Inr vs"
  shows "fst (mint env cfg recipient value (Some kp) c) = Inl (TransactionTimeoutError timeoutMessage ''h'') \<and>
     sends (world (snd (mint env cfg recipient value (Some kp) c))) = sends (world c) + 3"
proof -
  let ?next = "\<lambda>c. c\<lparr>world := (world c)\<lparr>sends := sends (world c) + 1, fees := fees (world c) @ [''100'']\<rparr>\<rparr>"
  obtain n where n: "attemptsOf (submitOpts cfg ''mint'' vs (Some kp)) = Suc n"
  proof -
    have "0 < attemptsOf (submitOpts cfg ''mint'' vs (Some kp))"
      using assms(3) by (auto simp: attemptsOf_def submitOpts_def split: option.splits)
    then show ?thesis using that gr0_conv_Suc by blast
  qed
  note once = invokeOnce_stillPending [OF assms(1,2) n]
  have "mint env cfg recipient value (Some kp) c = invokeContract env cfg ''mint'' vs (Some kp) c"
    using assms(1,4,5)
    by (simp add: mint_def invokeSigned_def invokeWith_def getSignerAddress_def Let_def truthy_def andThen_def
        fromSum_def logNode_def del: sequence.simps)
  also have "\<dots> = (Inl (TransactionTimeoutError timeoutMessage ''h''), ?next (?next (?next c)))"
    unfolding invokeContract_def
    by (rule withRetry_thrice [OF once _ once _ once]) simp_all
  finally show ?thesis by simp
qed

theorem unconfirmed_mint_is_sent_again_witness:
  "sends (world (snd (mint (logClientEnv acceptedAnswer stillPending) sampleConfig ''G'' 5 (Some ''S'')
     (newTokenClient None emptyLog)))) = 3"
  using unconfirmed_mint_is_sent_again [of "logClientEnv acceptedAnswer stillPending" sampleConfig 10000000
      "''S''" "''G''" 5 "[(), (), ()]" "newTokenClient None emptyLog"]
  by (simp add: logClientEnv_def sampleConfig_def feeCap_def addressToScVal_def i128ToScVal_def newTokenClient_def
      emptyLog_def)

end
