(* ===== verification/TokenReads.thy ===== *)
theory TokenReads
  imports TokenClient
begin

text \<open>
  Reads of the token client: the ledger cache of \<^verbatim>\<open>getBalance\<close> and \<^verbatim>\<open>getAllowance\<close> never serves a
  value that is older than the ledger the client has just been told about; the role checks answer
  true only on an answer of the contract; \<^verbatim>\<open>verifyInitializedState\<close> is valid only if every value was
  read and matched; the flash loan query never reports a lock.
\<close>

subsection \<open>Cache keys\<close>

lemma split_last_colon:
  assumes "x @ CHR '':'' # y = x' @ CHR '':'' # y'" and "CHR '':'' \<notin> set y" and "CHR '':'' \<notin> set y'"
  shows "x = x' \<and> y = y'"
proof -
  have tw: "takeWhile (\<lambda>c. c \<noteq> CHR '':'') (rev z @ CHR '':'' # rev u) = rev z" if "CHR '':'' \<notin> set z" for z u
    using that by (subst takeWhile_append2) auto
  have "rev y @ CHR '':'' # rev x = rev y' @ CHR '':'' # rev x'"
    using arg_cong [OF assms(1), of rev] by simp
  with tw [OF assms(2), of x] tw [OF assms(3), of x'] have "rev y = rev y'" by simp
  with assms(1) show ?thesis by simp
qed

lemma show_int_no_colon: "CHR '':'' \<notin> set (show_int i)"
  using set_show_nat [of "nat i"] set_show_nat [of "nat (- i)"] by (auto simp: show_int_def)

lemma split_first_colon:
  assumes "x @ CHR '':'' # y = x' @ CHR '':'' # y'" and "CHR '':'' \<notin> set x" and "CHR '':'' \<notin> set x'"
  shows "x = x' \<and> y = y'"
proof -
  have "rev y @ CHR '':'' # rev x = rev y' @ CHR '':'' # rev x'"
    using assms(1) [THEN arg_cong [of _ _ rev]] by simp
  from split_last_colon [OF this] assms(2,3) show ?thesis by simp
qed

text \<open>The two kinds of reads that are cached.\<close>

inductive cachedQuery :: "string \<Rightarrow> string list \<Rightarrow> bool" where
  "cachedQuery ''balance'' [a]"
| "cachedQuery ''allowance'' [owner, spender]"

lemma joinColon_inj:
  assumes "joinColon args = joinColon args'" and "length args = length args'" and "length args \<in> {1, 2}"
    and "\<forall>a \<in> set args. CHR '':'' \<notin> set a"
  shows "args = args'"
proof (cases args rule: joinColon.cases)
  case 1
  with assms show ?thesis by simp
next
  case (2 x)
  with assms(1,2) show ?thesis by (cases args' rule: joinColon.cases) auto
next
  case (3 x y ys)
  with assms(2,3) obtain x' y' where a: "args = [x, y]" "args' = [x', y']"
    by (cases args' rule: joinColon.cases) auto
  have eq: "x @ CHR '':'' # y = x' @ CHR '':'' # y'" using assms(1) a by simp
  have "count_list (x @ CHR '':'' # y) CHR '':'' = 1"
    using assms(4) a by (simp add: count_list_append count_notin)
  then have "count_list x' CHR '':'' = 0" using eq by (simp add: count_list_append)
  then have "CHR '':'' \<notin> set x'" by (simp add: count_list_0_iff)
  with split_first_colon [OF eq] assms(4) a show ?thesis by simp
qed

lemma cacheKey_inj:
  assumes "cacheKey cfg m args l = cacheKey cfg m' args' l'"
    and "cachedQuery m args" and "cachedQuery m' args'" and "\<forall>a \<in> set args. CHR '':'' \<notin> set a"
  shows "m = m' \<and> args = args' \<and> l = l'"
proof -
  have "(m @ CHR '':'' # joinColon args) @ CHR '':'' # show_int l =
      (m' @ CHR '':'' # joinColon args') @ CHR '':'' # show_int l'"
    using assms(1) by (simp add: cacheKey_def)
  from split_last_colon [OF this] show_int_no_colon
  have k: "m @ CHR '':'' # joinColon args = m' @ CHR '':'' # joinColon args'" "l = l'" by auto
  have "CHR '':'' \<notin> set m" "CHR '':'' \<notin> set m'"
    using assms(2,3) by (auto elim!: cachedQuery.cases)
  from split_first_colon [OF k(1) this] have j: "m = m'" "joinColon args = joinColon args'" by auto
  then have "length args = length args'" "length args \<in> {1, 2}"
    using assms(2,3) by (auto elim!: cachedQuery.cases)
  with joinColon_inj [OF j(2)] assms(4) j k show ?thesis by simp
qed

subsection \<open>A node that answers from its latest ledger\<close>

text \<open>
  \<open>ask tx l\<close> is what the simulation of \<open>tx\<close> returns at ledger \<open>l\<close>, \<open>clock\<close> the latest closed ledger.
  A simulation is answered from a ledger that was the latest at some moment of the request, and the
  ledger number the node reports is not ahead of it.
\<close>

definition snapshotNode ::
    "('s, 'acc, 'tx, 'sim, 'v, 'ev) ClientEnv \<Rightarrow> ('tx \<Rightarrow> int \<Rightarrow> 'v) \<Rightarrow> ('s \<Rightarrow> int) \<Rightarrow> bool" where
  "snapshotNode env ask clock \<longleftrightarrow>
     (\<forall>w r w'. getLatestLedger env w = (r, w') \<longrightarrow> clock w \<le> clock w' \<and> (\<forall>n. r = Inr n \<longrightarrow> n \<le> clock w')) \<and>
     (\<forall>tx w r w'. SorobanEnv.simulate (soroban env) tx w = (r, w') \<longrightarrow> clock w \<le> clock w' \<and>
        (\<forall>sim v. r = Inr (SimulationOk sim) \<longrightarrow> simRetval env sim = Some v \<longrightarrow>
           (\<exists>l. clock w \<le> l \<and> v = ask tx l)))"

text \<open>The value of a query at a ledger.\<close>

definition valueAt ::
    "('s, 'acc, 'tx, 'sim, 'v, 'ev) ClientEnv \<Rightarrow> bcForgeClientConfig \<Rightarrow> ('tx \<Rightarrow> int \<Rightarrow> 'v) \<Rightarrow> string \<Rightarrow>
     string list \<Rightarrow> int \<Rightarrow> int \<Rightarrow> bool" where
  "valueAt env cfg ask method addresses l v \<longleftrightarrow>
     (\<exists>vs account tx n. sequence (map (addressToScVal env) addresses) = Inr vs \<and>
        dummyAccount (soroban env) ZERO_ADDRESS = Inr account \<and>
        buildCall (soroban env) account ''100'' (cfg_networkPassphrase cfg) (cfg_contractId cfg) method vs = Inr tx \<and>
        scValToNative env (ask tx l) = Inr n \<and> BigInt_native n = Inr v)"

lemma simulateCall_cases:
  "simulateCall env pp cid m vs w =
     (case dummyAccount (soroban env) ZERO_ADDRESS of
        Inl e \<Rightarrow> (Inl e, w)
      | Inr account \<Rightarrow>
          (case buildCall (soroban env) account ''100'' pp cid m vs of
             Inl e \<Rightarrow> (Inl e, w)
           | Inr tx \<Rightarrow> SorobanEnv.simulate (soroban env) tx w))"
  by (auto simp: simulateCall_def andThen_def fromSum_def split: sum.splits)

lemma queryOnce_snapshot:
  assumes node: "snapshotNode env ask clock"
    and run: "queryOnce env cfg m vs w = (r, w')"
  shows "clock w \<le> clock w' \<and>
     (\<forall>v. r = Inr v \<longrightarrow> (\<exists>account tx l. dummyAccount (soroban env) ZERO_ADDRESS = Inr account \<and>
        buildCall (soroban env) account ''100'' (cfg_networkPassphrase cfg) (cfg_contractId cfg) m vs = Inr tx \<and>
        clock w \<le> l \<and> v = ask tx l))"
proof -
  obtain q u where sim: "simulateCall env (cfg_networkPassphrase cfg) (cfg_contractId cfg) m vs w = (q, u)" by force
  have cl: "clock w \<le> clock u \<and> (\<forall>s v. q = Inr (SimulationOk s) \<longrightarrow> simRetval env s = Some v \<longrightarrow>
      (\<exists>account tx l. dummyAccount (soroban env) ZERO_ADDRESS = Inr account \<and>
        buildCall (soroban env) account ''100'' (cfg_networkPassphrase cfg) (cfg_contractId cfg) m vs = Inr tx \<and>
        clock w \<le> l \<and> v = ask tx l))"
    using sim node unfolding snapshotNode_def
    by (auto simp: simulateCall_cases split: sum.splits)
  show ?thesis
    using run sim cl
    by (cases q) (auto simp: queryOnce_def tryCatch_def andThen_def simulatedValue_def
        split: Simulation.splits option.splits sdk_error.splits prod.splits sum.splits)
qed

lemma queryContract_snapshot:
  assumes node: "snapshotNode env ask clock"
    and run: "queryContract env cfg m vs w = (Inr v, w')"
  shows "\<exists>account tx l. dummyAccount (soroban env) ZERO_ADDRESS = Inr account \<and>
     buildCall (soroban env) account ''100'' (cfg_networkPassphrase cfg) (cfg_contractId cfg) m vs = Inr tx \<and>
     clock w \<le> l \<and> v = ask tx l"
proof -
  have step: "clock w \<le> clock u'" if "clock w \<le> clock u" "queryOnce env cfg m vs u = (Inl e, u')" for u e u'
    using queryOnce_snapshot [OF node that(2)] that(1) by simp
  have "\<exists>u. clock w \<le> clock u \<and> queryOnce env cfg m vs u = (Inr v, w')"
    by (rule withRetry_result [where P = "\<lambda>u. clock w \<le> clock u",
          OF run [unfolded queryContract_def withRetry3_def] order_refl step])
  then obtain u where u: "clock w \<le> clock u" "queryOnce env cfg m vs u = (Inr v, w')" by blast
  from queryOnce_snapshot [OF node u(2)] obtain account tx l where
    "dummyAccount (soroban env) ZERO_ADDRESS = Inr account"
    "buildCall (soroban env) account ''100'' (cfg_networkPassphrase cfg) (cfg_contractId cfg) m vs = Inr tx"
    "clock u \<le> l" "v = ask tx l" by blast
  with order_trans [OF u(1)] show ?thesis by blast
qed

lemma queryBigInt_snapshot:
  assumes node: "snapshotNode env ask clock"
    and run: "queryBigInt env cfg m (map (addressToScVal env) addresses) c = (Inr v, c')"
  shows "\<exists>l. clock (world c) \<le> l \<and> valueAt env cfg ask m addresses l v"
proof -
  from run obtain vs x n w' where
    "sequence (map (addressToScVal env) addresses) = Inr vs"
    "queryContract env cfg m vs (world c) = (Inr x, w')" "scValToNative env x = Inr n" "BigInt_native n = Inr v"
    by (auto simp: queryBigInt_def queryNative_def andThen_Inr_iff fromSum_Inr_iff onWorld_iff)
  with queryContract_snapshot [OF node] show ?thesis unfolding valueAt_def by metis
qed

subsection \<open>The cache\<close>

definition fresh ::
    "('s, 'acc, 'tx, 'sim, 'v, 'ev) ClientEnv \<Rightarrow> bcForgeClientConfig \<Rightarrow> ('tx \<Rightarrow> int \<Rightarrow> 'v) \<Rightarrow> ('s \<Rightarrow> int) \<Rightarrow>
     's TokenClient \<Rightarrow> bool" where
  "fresh env cfg ask clock c \<longleftrightarrow>
     cachedLedgerSequence c \<le> clock (world c) \<and>
     (\<forall>k v l. readCache c k = Some (v, l) \<longrightarrow>
        (\<exists>m args l'. cachedQuery m args \<and> k = cacheKey cfg m args l \<and> l \<le> l' \<and> valueAt env cfg ask m args l' v))"

lemma getLatestLedgerSequence_bound:
  assumes "snapshotNode env ask clock" and "cachedLedgerSequence c \<le> clock (world c)"
    and "getLatestLedgerSequence env c = (r, c1)"
  shows "\<exists>n. r = Inr n \<and> n \<le> clock (world c1) \<and> clock (world c) \<le> clock (world c1) \<and>
     readCache c1 = readCache c \<and> cachedLedgerSequence c1 = cachedLedgerSequence c"
  using assms unfolding snapshotNode_def
  by (auto simp: getLatestLedgerSequence_def tryCatch_def onWorld_def split: if_splits prod.splits sum.splits)
     (fastforce)+

lemma valueAt_no_colon:
  assumes "\<And>a v. addressToScVal env a = Inr v \<Longrightarrow> CHR '':'' \<notin> set a" and "valueAt env cfg ask m args l v"
  shows "\<forall>a \<in> set args. CHR '':'' \<notin> set a"
  using assms(1) assms(2) unfolding valueAt_def sequence_Inr_iff
  by (metis (no_types, lifting) in_set_conv_nth length_map nth_map)

text \<open>One cached read: what it returns is fresh, and the cache stays fresh.\<close>

lemma getCachedRead_fresh:
  assumes node: "snapshotNode env ask clock"
    and strkey: "\<And>a v. addressToScVal env a = Inr v \<Longrightarrow> CHR '':'' \<notin> set a"
    and inv: "fresh env cfg ask clock c" and q: "cachedQuery m args"
    and run: "getCachedRead env cfg m args (queryBigInt env cfg m (map (addressToScVal env) args)) c = (r, c')"
    and mono: "clock (world c) \<le> clock (world c')"
    and ledger: "getLatestLedgerSequence env c = (Inr n, c1)"
  shows "fresh env cfg ask clock c' \<and> (\<forall>v. r = Inr v \<longrightarrow> (\<exists>l. n \<le> l \<and> valueAt env cfg ask m args l v))"
proof -
  let ?fetch = "queryBigInt env cfg m (map (addressToScVal env) args)"
  let ?key = "cacheKey cfg m args n" and ?c2 = "c1\<lparr>readCache := dropOldLedgers n (readCache c1)\<rparr>"
  have c1: "n \<le> clock (world c1)" "readCache c1 = readCache c" "cachedLedgerSequence c1 = cachedLedgerSequence c"
    using getLatestLedgerSequence_bound [OF node _ ledger] inv by (auto simp: fresh_def)
  have entry: "\<exists>m args l'. cachedQuery m args \<and> k = cacheKey cfg m args l \<and> l \<le> l' \<and> valueAt env cfg ask m args l' v"
    if "readCache c1 k = Some (v, l)" for k v l
    using inv that c1(2) by (simp add: fresh_def)
  obtain r2 c3 where fetch: "?fetch ?c2 = (r2, c3)" by force
  have c3: "readCache c3 = dropOldLedgers n (readCache c1)" "cachedLedgerSequence c3 = cachedLedgerSequence c"
    using fetch c1(3) by (auto simp: queryBigInt_def queryNative_def andThen_def fromSum_def onWorld_def
        split: prod.splits sum.splits)
  show ?thesis
  proof (cases "\<exists>v. readCache c1 ?key = Some (v, n)")
    case True
    then obtain v where v: "readCache c1 ?key = Some (v, n)" by blast
    then have res: "r = Inr v" "c' = c1" using run ledger by (auto simp: getCachedRead_def andThen_def)
    obtain m' args' l' where e: "cachedQuery m' args'" "?key = cacheKey cfg m' args' n" "n \<le> l'"
        "valueAt env cfg ask m' args' l' v" using entry [OF v] by blast
    have "m' = m \<and> args' = args \<and> n = n"
      using cacheKey_inj [OF e(2) [symmetric] e(1) q valueAt_no_colon [OF strkey e(4)]] by simp
    with e res inv mono c1 show ?thesis by (auto simp: fresh_def)
  next
    case False
    have noold: "readCache c1 ?key = None"
    proof (rule ccontr)
      assume "readCache c1 ?key \<noteq> None"
      then obtain v l where v: "readCache c1 ?key = Some (v, l)" by (cases "readCache c1 ?key") auto
      from entry [OF v] obtain m' args' l' where e: "cachedQuery m' args'" "?key = cacheKey cfg m' args' l"
          "valueAt env cfg ask m' args' l' v" by blast
      have "n = l" using cacheKey_inj [OF e(2) [symmetric] e(1) q valueAt_no_colon [OF strkey e(3)]] by simp
      with v False show False by blast
    qed
    have out: "(r, c') = (case r2 of Inl e \<Rightarrow> (Inl e, c3)
        | Inr v \<Rightarrow> (Inr v, c3\<lparr>readCache := (readCache c3)(?key \<mapsto> (v, n))\<rparr>))"
      using run ledger noold fetch by (auto simp: getCachedRead_def andThen_def Let_def split: sum.splits)
    have val: "\<exists>l. n \<le> l \<and> valueAt env cfg ask m args l v" if "r2 = Inr v" for v
      using queryBigInt_snapshot [OF node, of cfg m args ?c2 v c3] fetch that c1(1) by auto (meson order_trans)
    have old: "\<exists>m args l'. cachedQuery m args \<and> k = cacheKey cfg m args l \<and> l \<le> l' \<and> valueAt env cfg ask m args l' v"
      if "readCache c3 k = Some (v, l)" for k v l
      using entry [of k v l] that by (auto simp: c3 dropOldLedgers_def split: option.splits if_splits prod.splits)
    show ?thesis
    proof (cases r2)
      case (Inl e)
      with out old c3 inv mono show ?thesis by (auto simp: fresh_def)
    next
      case (Inr v)
      with out have r: "r = Inr v" "c' = c3\<lparr>readCache := (readCache c3)(?key \<mapsto> (v, n))\<rparr>" by auto
      have "\<exists>m args l'. cachedQuery m args \<and> k = cacheKey cfg m args l \<and> l \<le> l' \<and> valueAt env cfg ask m args l' x"
        if "readCache c' k = Some (x, l)" for k x l
        using that old [of k x l] val [OF Inr] q r by (auto split: if_splits)
      with r c3 inv mono val [OF Inr] show ?thesis by (auto simp: fresh_def)
    qed
  qed
qed

text \<open>
  The life of a client: cached reads, writes, the two setters and steps of the outside world, which
  also cover the reads that are not cached. The ledger never runs backwards, and a pinned sequence
  is one that has been reached.
\<close>

inductive clientStep ::
    "('s, 'acc, 'tx, 'sim, 'v, 'ev) ClientEnv \<Rightarrow> bcForgeClientConfig \<Rightarrow> ('s \<Rightarrow> int) \<Rightarrow>
     's TokenClient \<Rightarrow> 's TokenClient \<Rightarrow> bool" for env cfg clock where
  balance: "getBalance env cfg a c = (r, c') \<Longrightarrow> clock (world c) \<le> clock (world c') \<Longrightarrow> clientStep env cfg clock c c'"
| allowance: "getAllowance env cfg a b c = (r, c') \<Longrightarrow> clock (world c) \<le> clock (world c') \<Longrightarrow>
    clientStep env cfg clock c c'"
| writes: "tokenWrite env cfg source f \<Longrightarrow> f c = (r', c') \<Longrightarrow> clock (world c) \<le> clock (world c') \<Longrightarrow>
    clientStep env cfg clock c c'"
| clear: "clearCache c = (r'', c') \<Longrightarrow> clientStep env cfg clock c c'"
| pin: "n \<le> clock (world c) \<Longrightarrow> setLedgerSequence n c = (r'', c') \<Longrightarrow> clientStep env cfg clock c c'"
| adapter: "setWalletAdapter wa c = (r'', c') \<Longrightarrow> clientStep env cfg clock c c'"
| outside: "clock (world c) \<le> clock w \<Longrightarrow> clientStep env cfg clock c (c\<lparr>world := w\<rparr>)"

text \<open>A write leaves the cache as it is or empties it.\<close>

definition cacheKeptOrCleared :: "'s TokenClient \<Rightarrow> 's TokenClient \<Rightarrow> bool" where
  "cacheKeptOrCleared c c' \<longleftrightarrow>
     (readCache c' = readCache c \<or> readCache c' = Map.empty) \<and> cachedLedgerSequence c' = cachedLedgerSequence c"

lemma keeps_onWorld: "keeps (cacheKeptOrCleared c) (onWorld f)"
  by (auto simp: keeps_def onWorld_def cacheKeptOrCleared_def split: prod.splits)

lemma keeps_settle: "keeps (cacheKeptOrCleared c) (settle env g)"
  by (auto simp: keeps_def settle_def clearCache_def andThen_def fromSum_def cacheKeptOrCleared_def split: sum.splits)

lemma keeps_invokeContract: "keeps (cacheKeptOrCleared c) (invokeContract env cfg m vs source)"
proof -
  let ?P = "cacheKeptOrCleared c"
  have "keeps ?P (invokeOnce env cfg m vs source)"
  proof (cases source)
    case (Some kp)
    then show ?thesis by (auto simp: invokeOnce_def intro!: keeps_andThen keeps_onWorld keeps_settle)
  next
    case None
    have "keeps ?P (andThen (onWorld f) (\<lambda>x. andThen (onWorld (g x)) (\<lambda>y. andThen (onWorld (h y)) (settle env))))"
      for f :: "(sdk_error, 'a, string) act" and g :: "string \<Rightarrow> (sdk_error, 'a, string) act"
        and h :: "string \<Rightarrow> (sdk_error, 'a, 'e GetResponse) act"
      by (intro keeps_andThen keeps_onWorld keeps_settle)
    with None show ?thesis by (auto simp: keeps_def invokeOnce_def split: option.splits)
  qed
  then show ?thesis unfolding invokeContract_def by (rule keeps_withRetry3)
qed

lemma tokenWrite_cache:
  assumes "tokenWrite env cfg source f" and "f c = (r, c')"
  shows "cacheKeptOrCleared c c'"
proof -
  have "cacheKeptOrCleared c c" by (simp add: cacheKeptOrCleared_def)
  with keeps_invokeContract [of c env cfg] have "cacheKeptOrCleared c (snd (invokeContract env cfg m vs source c))" for m vs
    by (auto dest: keepsD)
  with viaInvoke_tokenWrite [OF assms(1)] assms(2) \<open>cacheKeptOrCleared c c\<close> show ?thesis
    unfolding viaInvoke_def by (metis prod.inject snd_conv)
qed

lemma clientStep_fresh:
  assumes node: "snapshotNode env ask clock"
    and strkey: "\<And>a v. addressToScVal env a = Inr v \<Longrightarrow> CHR '':'' \<notin> set a"
    and "clientStep env cfg clock c c'" and inv: "fresh env cfg ask clock c"
  shows "fresh env cfg ask clock c'"
  using assms(3)
proof cases
  case (balance a r)
  obtain n c1 where n: "getLatestLedgerSequence env c = (Inr n, c1)"
    using getLatestLedgerSequence_bound [OF node, of c] inv
    by (metis fresh_def prod.exhaust)
  show ?thesis
    using getCachedRead_fresh [OF node strkey inv cachedQuery.intros(1) _ balance(2) n, where r = r] balance(1)
    by (simp add: getBalance_def)
next
  case (allowance a b r)
  obtain n c1 where n: "getLatestLedgerSequence env c = (Inr n, c1)"
    using getLatestLedgerSequence_bound [OF node, of c] inv
    by (metis fresh_def prod.exhaust)
  show ?thesis
    using getCachedRead_fresh [OF node strkey inv cachedQuery.intros(2) _ allowance(2) n, where r = r] allowance(1)
    by (simp add: getAllowance_def)
next
  case (writes source f r')
  from tokenWrite_cache [OF writes(1,2)] writes(3) inv show ?thesis
    by (auto simp: fresh_def cacheKeptOrCleared_def)
next
  case (outside w)
  with inv show ?thesis by (auto simp: fresh_def)
qed (use inv in \<open>auto simp: fresh_def clearCache_def setLedgerSequence_def setWalletAdapter_def\<close>)

lemma reachable_fresh:
  assumes "snapshotNode env ask clock"
    and "\<And>a v. addressToScVal env a = Inr v \<Longrightarrow> CHR '':'' \<notin> set a"
    and "(clientStep env cfg clock)\<^sup>*\<^sup>* c0 c" and "fresh env cfg ask clock c0"
  shows "fresh env cfg ask clock c"
  using assms(3,4) by (induction rule: rtranclp_induct) (auto intro: clientStep_fresh [OF assms(1,2)])

text \<open>
  C6. Cached balances are never stale. Take a node that answers simulations from its latest ledger
  and does not report ledgers that are not closed yet, addresses without colons (as StrKey encoding
  guarantees), and a client that has lived through any sequence of cached reads, writes, cache
  resets, pinning of reached ledgers and other activity. If the client now learns that the ledger
  is \<open>n\<close> and \<^verbatim>\<open>getBalance\<close> resolves with \<open>v\<close>, then \<open>v\<close> is the balance of that very address at some
  ledger not older than \<open>n\<close>, whether it came from the cache or from the node; entries of other
  addresses, of allowances or of earlier ledgers are never confused with it.
\<close>

theorem cached_balance_is_fresh:
  assumes "snapshotNode env ask clock"
    and "\<And>a v. addressToScVal env a = Inr v \<Longrightarrow> CHR '':'' \<notin> set a"
    and "(clientStep env cfg clock)\<^sup>*\<^sup>* (newTokenClient wa w0) c" and "0 \<le> clock w0"
    and "getLatestLedgerSequence env c = (Inr n, c1)"
    and "getBalance env cfg address c = (Inr v, c')" and "clock (world c) \<le> clock (world c')"
  shows "\<exists>l. n \<le> l \<and> valueAt env cfg ask ''balance'' [address] l v"
proof -
  have "fresh env cfg ask clock (newTokenClient wa w0)"
    using assms(4) by (simp add: fresh_def newTokenClient_def)
  from reachable_fresh [OF assms(1,2,3) this]
    getCachedRead_fresh [OF assms(1,2) _ cachedQuery.intros(1) _ assms(7,5), where r = "Inr v" and cfg = cfg]
    assms(6)
  show ?thesis by (auto simp: getBalance_def)
qed

text \<open>A node whose ledger is its state and whose balances are ten times the ledger.\<close>

definition snapEnv :: "(int, unit, string, int, int, unit) ClientEnv" where
  "snapEnv = \<lparr>soroban = \<lparr>getAccount = (\<lambda>_ s. (Inr (), s)), dummyAccount = (\<lambda>_. Inr ()),
       buildCall = (\<lambda>_ _ _ _ method _. Inr method),
       simulate = (\<lambda>tx w. (Inr (SimulationOk (10 * w)), w)),
       assemble = (\<lambda>tx _. Inr tx), signTx = (\<lambda>tx _. tx), toXDR = (\<lambda>tx. tx),
       fromXDR = (\<lambda>x _. Inr x), feeOf = (\<lambda>tx. tx), publicKey = (\<lambda>k. k),
       sendTransaction = (\<lambda>_ s. (Inr acceptedAnswer, s)),
       getTransaction = (\<lambda>_ s. (Inl (OtherError []), s))\<rparr>,
     newAddress = (\<lambda>a. if CHR '':'' \<in> set a then Inl (OtherError ''Unsupported address type'') else Inr 0),
     nativeToScVal = (\<lambda>_ _. Inr 0), scvSymbol = (\<lambda>_. 0),
     scvVec = (\<lambda>_. 0), scvMap = (\<lambda>_. 0), scvBytes = (\<lambda>_. 0), nativeToScValVariant = (\<lambda>_ _. Inr 0),
     sdkScValToNative = (\<lambda>v. Inr (NBig v)), simRetval = (\<lambda>v. Some v),
     getLatestLedger = (\<lambda>w. (Inr w, w)), serverGetEvents = (\<lambda>_ _ s. (Inr \<lparr>page_events = [], page_cursor = []\<rparr>, s)),
     getLedgerEntries = (\<lambda>_ s. (Inr None, s)), sequenceNumber = (\<lambda>_. ''1'')\<rparr>"

lemma snapEnv_node: "snapshotNode snapEnv (\<lambda>_ l. 10 * l) id"
  by (auto simp: snapshotNode_def snapEnv_def)

lemma snapEnv_strkey: "addressToScVal snapEnv a = Inr v \<Longrightarrow> CHR '':'' \<notin> set a"
  by (auto simp: addressToScVal_def snapEnv_def split: if_splits)

theorem cached_balance_is_fresh_witness:
  "\<exists>c c'. (clientStep snapEnv sampleConfig id)\<^sup>*\<^sup>* (newTokenClient None 4) c \<and>
     readCache c \<noteq> Map.empty \<and> getBalance snapEnv sampleConfig ''G'' c = (Inr 50, c') \<and>
     (\<exists>l \<ge> 5. valueAt snapEnv sampleConfig (\<lambda>_ l. 10 * l) ''balance'' [''G''] l 50)"
proof -
  let ?start = "newTokenClient None 4 :: int TokenClient"
  let ?c = "(snd (getBalance snapEnv sampleConfig ''G'' ?start))\<lparr>world := 5\<rparr>"
  let ?c' = "snd (getBalance snapEnv sampleConfig ''G'' ?c)"
  have w: "world (snd (getBalance snapEnv sampleConfig ''G'' ?start)) = 4" by code_simp
  have "clientStep snapEnv sampleConfig id ?start (snd (getBalance snapEnv sampleConfig ''G'' ?start))"
    by (rule clientStep.balance [of _ _ "''G''" _ "fst (getBalance snapEnv sampleConfig ''G'' ?start)"])
       (use w in \<open>simp_all add: newTokenClient_def\<close>)
  moreover have "clientStep snapEnv sampleConfig id (snd (getBalance snapEnv sampleConfig ''G'' ?start)) ?c"
    by (rule clientStep.outside) (use w in simp)
  ultimately have reach: "(clientStep snapEnv sampleConfig id)\<^sup>*\<^sup>* ?start ?c" by auto
  have "readCache ?c ''C:balance:G:4'' = Some (40, 4)" by code_simp
  then have ne: "readCache ?c \<noteq> Map.empty" by (metis option.distinct(1))
  have run: "fst (getBalance snapEnv sampleConfig ''G'' ?c) = Inr 50" by code_simp
  then have run': "getBalance snapEnv sampleConfig ''G'' ?c = (Inr 50, ?c')" by (metis prod.collapse)
  have "fst (getLatestLedgerSequence snapEnv ?c) = Inr 5" by code_simp
  then have led: "getLatestLedgerSequence snapEnv ?c = (Inr 5, snd (getLatestLedgerSequence snapEnv ?c))"
    by (metis prod.collapse)
  have "world ?c' = 5" by code_simp
  then have "id (world ?c) \<le> id (world ?c')" by simp
  from cached_balance_is_fresh [OF snapEnv_node snapEnv_strkey reach _ led run' this]
  have "\<exists>l \<ge> 5. valueAt snapEnv sampleConfig (\<lambda>_ l. 10 * l) ''balance'' [''G''] l 50" by auto
  with reach ne run' show ?thesis by blast
qed

subsection \<open>Role checks\<close>

text \<open>What the contract returns for a call, in state \<open>w\<close> of the node.\<close>

definition contractSays ::
    "('s, 'acc, 'tx, 'sim, 'v, 'ev) ClientEnv \<Rightarrow> bcForgeClientConfig \<Rightarrow> string \<Rightarrow> 'v list \<Rightarrow> 's \<Rightarrow> Native \<Rightarrow> bool" where
  "contractSays env cfg method args w v \<longleftrightarrow>
     (\<exists>simulated w' result. simulateCall env (cfg_networkPassphrase cfg) (cfg_contractId cfg) method args w = (Inr simulated, w') \<and>
        simulatedValue env simulated = Some result \<and> scValToNative env result = Inr v)"

text \<open>
  In every state of \<open>J\<close> the contract denies: \<^verbatim>\<open>has_role\<close> does not answer with a true value for the address, and neither \<^verbatim>\<open>admin\<close>
  nor \<^verbatim>\<open>get_admin\<close> names it.
\<close>

definition contractDenies ::
    "('s, 'acc, 'tx, 'sim, 'v, 'ev) ClientEnv \<Rightarrow> bcForgeClientConfig \<Rightarrow> string \<Rightarrow> ('s \<Rightarrow> bool) \<Rightarrow> bool" where
  "contractDenies env cfg address J \<longleftrightarrow>
     (\<forall>w v. J w \<longrightarrow>
        (\<forall>a. addressToScVal env address = Inr a \<longrightarrow>
           contractSays env cfg ''has_role'' [roleToScVal env Role_SuperAdmin, a] w v \<longrightarrow> \<not> nativeTruthy v) \<and>
        (contractSays env cfg ''admin'' [] w v \<longrightarrow> v \<noteq> NStr address) \<and>
        (contractSays env cfg ''get_admin'' [] w v \<longrightarrow> v \<noteq> NStr address))"

lemma queryOnce_says:
  assumes "queryOnce env cfg method args w = (Inr x, w')"
  shows "\<exists>simulated. simulateCall env (cfg_networkPassphrase cfg) (cfg_contractId cfg) method args w = (Inr simulated, w') \<and>
     simulatedValue env simulated = Some x"
proof -
  obtain r w1 where sim: "simulateCall env (cfg_networkPassphrase cfg) (cfg_contractId cfg) method args w = (r, w1)" by force
  show ?thesis
    using assms sim unfolding queryOnce_def tryCatch_def andThen_def
    by (auto simp: throw_def ret_def split: sum.splits prod.splits Simulation.splits option.splits sdk_error.splits)
qed

lemma keeps_queryOnce:
  assumes "keeps J (simulateCall env (cfg_networkPassphrase cfg) (cfg_contractId cfg) method args)"
  shows "keeps J (queryOnce env cfg method args)"
  unfolding queryOnce_def using assms
  by (auto intro!: keeps_tryCatch keeps_andThen split: Simulation.splits option.splits sdk_error.splits)

lemma keeps_world: "keeps J f \<Longrightarrow> keeps (\<lambda>c. J (world c)) (onWorld f)"
  by (fastforce simp: keeps_def onWorld_def split: prod.splits)

text \<open>A query asks the contract in the states that the call goes through.\<close>

lemma queryNative_says:
  assumes J: "\<And>method args. keeps J (simulateCall env (cfg_networkPassphrase cfg) (cfg_contractId cfg) method args)"
    and "J (world c)" and "queryNative env cfg method args c = (Inr v, c')" and "sequence args = Inr vs"
  shows "\<exists>w. J w \<and> contractSays env cfg method vs w v"
proof -
  obtain x c1 where x: "onWorld (queryContract env cfg method vs) c = (Inr x, c1)" "scValToNative env x = Inr v"
    using assms(3,4) by (auto simp: queryNative_def andThen_Inr_iff fromSum_Inr_iff)
  then obtain w'' where "queryContract env cfg method vs (world c) = (Inr x, w'')" by (auto simp: onWorld_iff)
  from withRetry_result [OF this [unfolded queryContract_def withRetry3_def], of J] assms(2) keepsD [OF keeps_queryOnce [OF J]]
  obtain w where "J w" "queryOnce env cfg method vs w = (Inr x, w'')" by (metis snd_conv)
  from queryOnce_says [OF this(2)] this(1) x(2) show ?thesis by (auto simp: contractSays_def)
qed

lemma keeps_queryNative:
  assumes "\<And>method args. keeps J (simulateCall env (cfg_networkPassphrase cfg) (cfg_contractId cfg) method args)"
  shows "keeps (\<lambda>c. J (world c)) (queryNative env cfg method args)"
  unfolding queryNative_def queryContract_def
  by (intro keeps_andThen keeps_fromSum keeps_world keeps_withRetry3 keeps_queryOnce assms)

lemma getAdmin_denied:
  assumes J: "\<And>method args. keeps J (simulateCall env (cfg_networkPassphrase cfg) (cfg_contractId cfg) method args)"
    and "contractDenies env cfg address J" and "J (world c)" and "getAdmin env cfg c = (r, c')"
  shows "r \<noteq> Inr (NStr address) \<and> J (world c')"
proof -
  obtain q c1 where q: "queryNative env cfg ''admin'' [] c = (q, c1)" by force
  have c1: "J (world c1)" using keepsD [OF keeps_queryNative [OF J], of c "''admin''" "[]"] assms(3) q by simp
  have says: "\<exists>w. J w \<and> contractSays env cfg m [] w v" if "J (world d)" "queryNative env cfg m [] d = (Inr v, d')" for m v d d'
    using queryNative_says [OF J that] by simp
  show ?thesis
  proof (cases q)
    case (Inr v)
    with says [OF assms(3)] q assms(2) have "v \<noteq> NStr address" unfolding contractDenies_def by blast
    with q Inr c1 assms(4) show ?thesis by (auto simp: getAdmin_def tryCatch_def)
  next
    case (Inl e)
    obtain p c2 where p: "queryNative env cfg ''get_admin'' [] c1 = (p, c2)" by force
    have "J (world c2)" using keepsD [OF keeps_queryNative [OF J], of c1 "''get_admin''" "[]"] c1 p by simp
    moreover have "p \<noteq> Inr (NStr address)"
      using says [OF c1] p assms(2) unfolding contractDenies_def by blast
    ultimately show ?thesis using q Inl p assms(4) by (auto simp: getAdmin_def tryCatch_def)
  qed
qed

lemma hasRole_denied:
  assumes J: "\<And>method args. keeps J (simulateCall env (cfg_networkPassphrase cfg) (cfg_contractId cfg) method args)"
    and "contractDenies env cfg address J" and "J (world c)" and "hasRole env cfg Role_SuperAdmin address c = (r, c')"
  shows "r = Inr False \<and> J (world c')"
proof -
  let ?args = "[Inr (roleToScVal env Role_SuperAdmin), addressToScVal env address]"
  obtain q c1 where q: "queryNative env cfg ''has_role'' ?args c = (q, c1)" by force
  have c1: "J (world c1)" using keepsD [OF keeps_queryNative [OF J], of c "''has_role''" ?args] assms(3) q by simp
  show ?thesis
  proof (cases q)
    case (Inr v)
    obtain a where a: "addressToScVal env address = Inr a"
      using q Inr by (cases "addressToScVal env address") (auto simp: queryNative_def fromSum_def andThen_def)
    then have "sequence ?args = Inr [roleToScVal env Role_SuperAdmin, a]" by simp
    from queryNative_says [OF J assms(3) _ this] q Inr obtain w where
      "J w" "contractSays env cfg ''has_role'' [roleToScVal env Role_SuperAdmin, a] w v" by blast
    with assms(2) a have "\<not> nativeTruthy v" unfolding contractDenies_def by blast
    with q Inr c1 assms(4) show ?thesis by (auto simp: hasRole_def tryCatch_def andThen_def)
  next
    case (Inl e)
    obtain p c2 where p: "getAdmin env cfg c1 = (p, c2)" by force
    from getAdmin_denied [OF J assms(2) c1 p] p q Inl assms(4) show ?thesis
      by (cases p) (auto simp: hasRole_def orUndefined_def tryCatch_def andThen_def)
  qed
qed

lemma hasRole_resolves: "\<exists>b c'. hasRole env cfg role address c = (Inr b, c')"
  by (auto simp: hasRole_def orUndefined_def tryCatch_def andThen_def split: prod.splits sum.splits)

lemma hasRole_granted:
  assumes "addressToScVal env address = Inr a"
    and "contractSays env cfg ''has_role'' [roleToScVal env role, a] (world c) v" and "nativeTruthy v"
  shows "\<exists>c'. hasRole env cfg role address c = (Inr True, c')"
proof -
  obtain simulated w' x where s: "simulateCall env (cfg_networkPassphrase cfg) (cfg_contractId cfg) ''has_role'' [roleToScVal env role, a] (world c) =
      (Inr simulated, w')" "simulatedValue env simulated = Some x" "scValToNative env x = Inr v"
    using assms(2) by (auto simp: contractSays_def)
  then have "queryOnce env cfg ''has_role'' [roleToScVal env role, a] (world c) = (Inr x, w')"
    by (auto simp: queryOnce_def tryCatch_def andThen_def simulatedValue_def ret_def split: Simulation.splits)
  then have "queryContract env cfg ''has_role'' [roleToScVal env role, a] (world c) = (Inr x, w')"
    unfolding queryContract_def by (rule withRetry_first)
  then have "queryNative env cfg ''has_role'' [Inr (roleToScVal env role), addressToScVal env address] c = (Inr v, c\<lparr>world := w'\<rparr>)"
    using assms(1) s(3) by (simp add: queryNative_def andThen_def fromSum_def onWorld_def)
  with assms(3) show ?thesis by (simp add: hasRole_def tryCatch_def andThen_def)
qed

text \<open>
  C36. \<^verbatim>\<open>verifySuperAdmin\<close> follows the contract and fails closed. It always resolves. When \<^verbatim>\<open>has_role\<close> answers with a true
  value in the state the call starts in, it resolves with true. When the contract denies in every state that the node
  can be in during the call (\<open>J\<close> holds at the start and every simulation keeps it), whatever requests fail and however often they
  are retried, it resolves with false.
\<close>

theorem verifySuperAdmin_fails_closed:
  "(\<exists>b. fst (verifySuperAdmin env cfg address c) = Inr b) \<and>
   (addressToScVal env address = Inr a \<longrightarrow>
      contractSays env cfg ''has_role'' [roleToScVal env Role_SuperAdmin, a] (world c) v \<longrightarrow> nativeTruthy v \<longrightarrow>
      fst (verifySuperAdmin env cfg address c) = Inr True) \<and>
   (J (world c) \<longrightarrow>
      (\<forall>method args. keeps J (simulateCall env (cfg_networkPassphrase cfg) (cfg_contractId cfg) method args)) \<longrightarrow>
      contractDenies env cfg address J \<longrightarrow>
      fst (verifySuperAdmin env cfg address c) = Inr False)"
proof (intro conjI impI)
  obtain b c1 where "hasRole env cfg Role_SuperAdmin address c = (Inr b, c1)" using hasRole_resolves by blast
  then show "\<exists>b. fst (verifySuperAdmin env cfg address c) = Inr b"
    by (auto simp: verifySuperAdmin_def orUndefined_def tryCatch_def andThen_def split: prod.splits sum.splits)
next
  assume "addressToScVal env address = Inr a"
    and "contractSays env cfg ''has_role'' [roleToScVal env Role_SuperAdmin, a] (world c) v" and "nativeTruthy v"
  from hasRole_granted [OF this] show "fst (verifySuperAdmin env cfg address c) = Inr True"
    by (auto simp: verifySuperAdmin_def tryCatch_def andThen_def)
next
  assume "J (world c)" and "\<forall>method args. keeps J (simulateCall env (cfg_networkPassphrase cfg) (cfg_contractId cfg) method args)"
    and d: "contractDenies env cfg address J"
  then have J: "\<And>method args. keeps J (simulateCall env (cfg_networkPassphrase cfg) (cfg_contractId cfg) method args)" by blast
  obtain r c1 where h: "hasRole env cfg Role_SuperAdmin address c = (r, c1)" by force
  obtain q c2 where q: "getAdmin env cfg c1 = (q, c2)" by force
  from hasRole_denied [OF J d \<open>J (world c)\<close> h] getAdmin_denied [OF J d _ q] h q
  show "fst (verifySuperAdmin env cfg address c) = Inr False"
    by (cases q) (auto simp: verifySuperAdmin_def orUndefined_def tryCatch_def andThen_def)
qed

text \<open>
  The node of the examples answers every simulation with 5, a true value that is no address: the role is granted. On
  a node without a return value nothing is.
\<close>

theorem verifySuperAdmin_fails_closed_witness:
  "fst (verifySuperAdmin (logClientEnv acceptedAnswer confirmed) sampleConfig ''G'' (newTokenClient None emptyLog)) = Inr True \<and>
   fst (verifySuperAdmin ((logClientEnv acceptedAnswer confirmed)\<lparr>simRetval := \<lambda>_. None\<rparr>) sampleConfig ''G''
     (newTokenClient None emptyLog)) = Inr False"
proof
  let ?env = "logClientEnv acceptedAnswer confirmed"
  have "contractSays ?env sampleConfig ''has_role'' [roleToScVal ?env Role_SuperAdmin, ()] (world (newTokenClient None emptyLog)) (NBig 5)"
    by (auto simp: contractSays_def simulateCall_def logClientEnv_def logNode_def simulatedValue_def scValToNative_def andThen_def fromSum_def)
  moreover have "addressToScVal ?env ''G'' = Inr ()" by (simp add: addressToScVal_def logClientEnv_def)
  ultimately show "fst (verifySuperAdmin ?env sampleConfig ''G'' (newTokenClient None emptyLog)) = Inr True"
    using verifySuperAdmin_fails_closed by fastforce
next
  let ?env = "(logClientEnv acceptedAnswer confirmed)\<lparr>simRetval := \<lambda>_. None\<rparr>"
  have none: "simulatedValue ?env simulated = None" for simulated by (cases simulated) (simp_all add: simulatedValue_def)
  have "contractDenies ?env sampleConfig ''G'' (\<lambda>_. True)"
    by (simp add: contractDenies_def contractSays_def none)
  moreover have "\<forall>method args. keeps (\<lambda>_. True) (simulateCall ?env (cfg_networkPassphrase sampleConfig) (cfg_contractId sampleConfig) method args)"
    by (simp add: keeps_def)
  ultimately show "fst (verifySuperAdmin ?env sampleConfig ''G'' (newTokenClient None emptyLog)) = Inr False"
    using verifySuperAdmin_fails_closed [of ?env sampleConfig "''G''" "newTokenClient None emptyLog" "()" NNull "\<lambda>_. True"] by simp
qed

subsection \<open>Flash loan locks\<close>

text \<open>The flash loan query reports an unlocked account whatever the node answers.\<close>

definition yields :: "('a \<Rightarrow> bool) \<Rightarrow> ('e, 's, 'a) act \<Rightarrow> bool" where
  "yields Q f \<longleftrightarrow> (\<forall>s x s'. f s = (Inr x, s') \<longrightarrow> Q x)"

lemma yields_ret: "Q x \<Longrightarrow> yields Q (ret x)"
  by (simp add: yields_def)

lemma yields_andThen: "(\<And>x. yields Q (g x)) \<Longrightarrow> yields Q (andThen f g)"
  by (auto simp: yields_def andThen_Inr_iff)

lemma flash_loan_never_locked:
  "yields (\<lambda>st. \<not> isLocked st \<and> depositBlock st = None) (getFlashLoanLockStatus env cfg address guard)"
  unfolding getFlashLoanLockStatus_def Let_def
  by (intro yields_andThen) (auto split: option.splits Simulation.splits intro!: yields_ret)

subsection \<open>Verification after initialisation\<close>

text \<open>An effect that always resolves, with a value that satisfies \<open>Q\<close>.\<close>

definition resolves :: "('a \<Rightarrow> bool) \<Rightarrow> ('e, 's, 'a) act \<Rightarrow> bool" where
  "resolves Q f \<longleftrightarrow> (\<forall>s. \<exists>x s'. f s = (Inr x, s') \<and> Q x)"

lemma resolves_ret: "Q x \<Longrightarrow> resolves Q (ret x)"
  by (simp add: resolves_def)

lemma resolves_andThen:
  "resolves Q f \<Longrightarrow> (\<And>x. Q x \<Longrightarrow> resolves R (g x)) \<Longrightarrow> resolves R (andThen f g)"
  unfolding resolves_def by (metis andThen_Inr)

lemma verifyStep_ok:
  "resolves (\<lambda>r'. iv_errors r' = [] \<longrightarrow> (\<exists>x. r' = record x r)) (verifyStep query record failure r)"
  by (auto simp: resolves_def verifyStep_def tryCatch_def andThen_def split: prod.splits sum.splits)

lemma verifyStep_if_ok:
  "resolves (\<lambda>r'. iv_errors r' = [] \<longrightarrow> (if b then \<exists>x. r' = record x r else r' = r))
     (if b then verifyStep query record failure r else ret r)"
  by (cases b) (simp_all add: resolves_ret verifyStep_ok)

lemma noteError_simps:
  "iv_errors (noteError b m r) = [] \<longleftrightarrow> \<not> b \<and> iv_errors r = []"
  "iv_admin (noteError b m r) = iv_admin r" "iv_name (noteError b m r) = iv_name r"
  "iv_symbol (noteError b m r) = iv_symbol r" "iv_decimals (noteError b m r) = iv_decimals r"
  "iv_totalSupply (noteError b m r) = iv_totalSupply r"
  "iv_pauserGranted (noteError b m r) = iv_pauserGranted r"
  by (simp_all add: noteError_def)

text \<open>
  \<^verbatim>\<open>verifyInitializedState\<close> always resolves, it reports \<^verbatim>\<open>valid\<close> exactly when its error list is
  empty, and then every value was read from the contract and is the expected one: the admin, the
  name, the symbol and the decimals, a total supply was read, and the pauser role was confirmed
  when a pauser was expected. A query that fails makes the state invalid.
\<close>

theorem verified_state_matches:
  "resolves (\<lambda>r. (iv_valid r \<longleftrightarrow> iv_errors r = []) \<and>
      (iv_valid r \<longrightarrow> iv_admin r = Some (NStr a) \<and> iv_name r = Some (NStr n) \<and> iv_symbol r = Some (NStr s) \<and>
         iv_decimals r = Some (NNum d) \<and> iv_totalSupply r \<noteq> None \<and>
         (truthy p \<longrightarrow> iv_pauserGranted r = Some True)))
     (verifyInitializedState env cfg a n s d p)"
  unfolding verifyInitializedState_def
  by (rule resolves_andThen [OF verifyStep_ok] resolves_andThen [OF verifyStep_if_ok] resolves_ret)+
     (clarsimp simp: noteError_simps split: if_split_asm)+

text \<open>A contract that answers each function with a fixed value.\<close>

definition namedEnv :: "(unit, unit, string, string, string, unit) ClientEnv" where
  "namedEnv = \<lparr>soroban = \<lparr>getAccount = (\<lambda>_ s. (Inr (), s)), dummyAccount = (\<lambda>_. Inr ()),
       buildCall = (\<lambda>_ _ _ _ method _. Inr method),
       simulate = (\<lambda>tx w. (Inr (SimulationOk tx), w)),
       assemble = (\<lambda>tx _. Inr tx), signTx = (\<lambda>tx _. tx), toXDR = (\<lambda>tx. tx),
       fromXDR = (\<lambda>x _. Inr x), feeOf = (\<lambda>tx. tx), publicKey = (\<lambda>k. k),
       sendTransaction = (\<lambda>_ s. (Inr acceptedAnswer, s)),
       getTransaction = (\<lambda>_ s. (Inl (OtherError []), s))\<rparr>,
     newAddress = Inr, nativeToScVal = (\<lambda>_ t. Inr t), scvSymbol = id,
     scvVec = concat, scvMap = (\<lambda>_. []), scvBytes = id, nativeToScValVariant = (\<lambda>t _. Inr t),
     sdkScValToNative = (\<lambda>v. Inr (if v = ''decimals'' then NNum 7 else if v = ''supply'' then NBig 0
       else if v = ''has_role'' then NBool True else NStr v)),
     simRetval = Some, getLatestLedger = (\<lambda>w. (Inr 1, w)),
     serverGetEvents = (\<lambda>_ _ s. (Inr \<lparr>page_events = [], page_cursor = []\<rparr>, s)),
     getLedgerEntries = (\<lambda>_ s. (Inr None, s)), sequenceNumber = (\<lambda>_. ''1'')\<rparr>"

theorem verified_state_matches_witness:
  "\<exists>r c'. verifyInitializedState namedEnv sampleConfig ''admin'' ''name'' ''symbol'' 7 (Some ''GP'')
       (newTokenClient None ()) = (Inr r, c') \<and> iv_errors r = [] \<and> iv_name r = Some (NStr ''name'') \<and>
     iv_pauserGranted r = Some True"
proof -
  let ?run = "verifyInitializedState namedEnv sampleConfig ''admin'' ''name'' ''symbol'' 7 (Some ''GP'')
       (newTokenClient None ())"
  obtain r c' where r: "?run = (Inr r, c')" "iv_valid r = (iv_errors r = [])"
      "iv_valid r \<Longrightarrow> iv_name r = Some (NStr ''name'') \<and> (truthy (Some ''GP'') \<longrightarrow> iv_pauserGranted r = Some True)"
    using verified_state_matches [of "''admin''" "''name''" "''symbol''" 7 "Some ''GP''" namedEnv sampleConfig]
    unfolding resolves_def by blast
  have "map_sum errorMessage iv_errors (fst ?run) = Inr []" by code_simp
  with r show ?thesis by (auto simp: truthy_def)
qed

end
