(* ===== verification/VaultClient.thy ===== *)
theory VaultClient
  imports ClientBase
begin

text \<open>
  \<^verbatim>\<open>src/sdk/src/vaultClient.ts\<close>: the class \<^verbatim>\<open>VaultClient\<close>. Its mutable field is the wallet adapter;
  \<open>VaultClient\<close> pairs it with the outside world. A \<^verbatim>\<open>source\<close> may be a keypair or, as the code detects
  at run time, a wallet adapter. Unlike the token client it has no cache, retries every error, and
  submits without options, so a submission is never rebuilt.
\<close>

subsection \<open>State and helpers\<close>

record VaultClientConfig =
  vcfg_networkPassphrase :: string
  vcfg_contractId :: string

record 's VaultClient =
  vaultAdapter :: "'s WalletAdapter option"
  vaultWorld :: 's

type_synonym ('s, 'a) vault_act = "(sdk_error, 's VaultClient, 'a) act"

datatype 's Signer = KeypairSigner string | AdapterSigner "'s WalletAdapter"

definition newVaultClient :: "'s WalletAdapter option \<Rightarrow> 's \<Rightarrow> 's VaultClient" where
  "newVaultClient adapter w = \<lparr>vaultAdapter = adapter, vaultWorld = w\<rparr>"

definition inWorld :: "(sdk_error, 's, 'a) act \<Rightarrow> ('s, 'a) vault_act" where
  "inWorld f c = (case f (vaultWorld c) of (r, w) \<Rightarrow> (r, c\<lparr>vaultWorld := w\<rparr>))"

definition setWalletAdapter :: "'s WalletAdapter option \<Rightarrow> ('s, unit) vault_act" where
  "setWalletAdapter adapter c = (Inr (), c\<lparr>vaultAdapter := adapter\<rparr>)"

definition getWalletAdapter :: "('s, 's WalletAdapter option) vault_act" where
  "getWalletAdapter c = (Inr (vaultAdapter c), c)"

definition queryContract ::
    "('s, 'acc, 'tx, 'sim, 'v, 'ev) ClientEnv \<Rightarrow> VaultClientConfig \<Rightarrow> string \<Rightarrow> 'v list \<Rightarrow> string option \<Rightarrow>
     (sdk_error, 's, 'v) act" where
  "queryContract env cfg method args contract =
     withRetry3 (\<lambda>_. False) (plainQuery env (vcfg_networkPassphrase cfg)
       (case contract of Some cid \<Rightarrow> cid | None \<Rightarrow> vcfg_contractId cfg) method args)"

text \<open>The adapter and the keypair a \<^verbatim>\<open>source\<close> stands for.\<close>

definition signerAdapter :: "'s Signer option \<Rightarrow> 's VaultClient \<Rightarrow> 's WalletAdapter option" where
  "signerAdapter source c =
     (case source of
        Some (AdapterSigner wa) \<Rightarrow> Some wa
      | Some (KeypairSigner _) \<Rightarrow> None
      | None \<Rightarrow> vaultAdapter c)"

definition signerKeypair :: "'s Signer option \<Rightarrow> string option" where
  "signerKeypair source = (case source of Some (KeypairSigner kp) \<Rightarrow> Some kp | _ \<Rightarrow> None)"

text \<open>One attempt. The public key is read again in every attempt.\<close>

definition invokeOnce ::
    "('s, 'acc, 'tx, 'sim, 'v, 'ev) ClientEnv \<Rightarrow> VaultClientConfig \<Rightarrow> string \<Rightarrow> 'v list \<Rightarrow> string option \<Rightarrow>
     's WalletAdapter option \<Rightarrow> ('s, TransactionResult) vault_act" where
  "invokeOnce env cfg method args keypair adapter =
     andThen
       (case keypair of
          Some kp \<Rightarrow> inWorld (buildInvokeTransaction (soroban env) (vcfg_networkPassphrase cfg)
                       (vcfg_contractId cfg) method args kp None)
        | None \<Rightarrow>
            (case adapter of
               None \<Rightarrow> throw (OtherError ''Cannot read properties of undefined'')
             | Some wa \<Rightarrow> (\<lambda>c.
                 andThen (inWorld (buildUnsignedTransaction (soroban env) (vcfg_networkPassphrase cfg)
                   (vcfg_contractId cfg) method args
                   (case walletPublicKey wa (vaultWorld c) of Some pk \<Rightarrow> pk | None \<Rightarrow> ''undefined'')))
                   (\<lambda>unsignedXdr. inWorld (walletSign wa unsignedXdr None)) c)))
       (\<lambda>txXdr.
     andThen (inWorld (submitTransaction (soroban env) txXdr noOptions)) (\<lambda>response.
       fromSum (settled env responseHash response)))"

definition invokeContract ::
    "('s, 'acc, 'tx, 'sim, 'v, 'ev) ClientEnv \<Rightarrow> VaultClientConfig \<Rightarrow> string \<Rightarrow> 'v list \<Rightarrow> 's Signer option \<Rightarrow>
     ('s, TransactionResult) vault_act" where
  "invokeContract env cfg method args source c =
     (let adapter = signerAdapter source c; keypair = signerKeypair source in
      if keypair = None \<and> adapter = None
      then throw (SignerRequiredError signerRequired) c
      else if keypair = None \<and> (\<not> connected (the adapter) (vaultWorld c) \<or>
                               \<not> truthy (walletPublicKey (the adapter) (vaultWorld c)))
      then throw (SignerRequiredError ''Wallet adapter is not connected'') c
      else withRetry3 (\<lambda>_. False) (invokeOnce env cfg method args keypair adapter) c)"

definition invokeWith ::
    "('s, 'acc, 'tx, 'sim, 'v, 'ev) ClientEnv \<Rightarrow> VaultClientConfig \<Rightarrow> string \<Rightarrow> (sdk_error + 'v) list \<Rightarrow>
     's Signer option \<Rightarrow> ('s, TransactionResult) vault_act" where
  "invokeWith env cfg method args source =
     andThen (fromSum (sequence args)) (\<lambda>vs. invokeContract env cfg method vs source)"

definition queryNative ::
    "('s, 'acc, 'tx, 'sim, 'v, 'ev) ClientEnv \<Rightarrow> VaultClientConfig \<Rightarrow> string \<Rightarrow> (sdk_error + 'v) list \<Rightarrow>
     string option \<Rightarrow> ('s, Native) vault_act" where
  "queryNative env cfg method args contract =
     andThen (fromSum (sequence args)) (\<lambda>vs.
     andThen (inWorld (queryContract env cfg method vs contract)) (\<lambda>result. fromSum (scValToNative env result)))"

definition queryBigInt ::
    "('s, 'acc, 'tx, 'sim, 'v, 'ev) ClientEnv \<Rightarrow> VaultClientConfig \<Rightarrow> string \<Rightarrow> (sdk_error + 'v) list \<Rightarrow>
     string option \<Rightarrow> ('s, int) vault_act" where
  "queryBigInt env cfg method args contract =
     andThen (queryNative env cfg method args contract) (\<lambda>v. fromSum (BigInt_native v))"

definition buildUnsignedWith ::
    "('s, 'acc, 'tx, 'sim, 'v, 'ev) ClientEnv \<Rightarrow> VaultClientConfig \<Rightarrow> string \<Rightarrow> (sdk_error + 'v) list \<Rightarrow>
     string \<Rightarrow> ('s, string) vault_act" where
  "buildUnsignedWith env cfg method args sourcePublicKey =
     andThen (fromSum (sequence args)) (\<lambda>vs.
       inWorld (buildUnsignedTransaction (soroban env) (vcfg_networkPassphrase cfg) (vcfg_contractId cfg)
         method vs sourcePublicKey))"

text \<open>The optional third argument: the slippage limit.\<close>

definition withLimit ::
    "('s, 'acc, 'tx, 'sim, 'v, 'ev) ClientEnv \<Rightarrow> string \<Rightarrow> int \<Rightarrow> int option \<Rightarrow> (sdk_error + 'v) list" where
  "withLimit env caller value limit =
     (case limit of
        Some m \<Rightarrow> [addressToScVal env caller, i128ToScVal env value, i128ToScVal env m]
      | None \<Rightarrow> [addressToScVal env caller, i128ToScVal env value])"

subsection \<open>Read-only queries\<close>

definition getBalance ::
    "('s, 'acc, 'tx, 'sim, 'v, 'ev) ClientEnv \<Rightarrow> VaultClientConfig \<Rightarrow> string \<Rightarrow> ('s, int) vault_act" where
  "getBalance env cfg address =
     queryBigInt env cfg ''balance'' [addressToScVal env address] None"

definition getShareBalance ::
    "('s, 'acc, 'tx, 'sim, 'v, 'ev) ClientEnv \<Rightarrow> VaultClientConfig \<Rightarrow> string \<Rightarrow> ('s, int) vault_act" where
  "getShareBalance env cfg address =
     queryBigInt env cfg ''share_balance'' [addressToScVal env address] None"

definition getTotalSupply ::
    "('s, 'acc, 'tx, 'sim, 'v, 'ev) ClientEnv \<Rightarrow> VaultClientConfig \<Rightarrow> ('s, int) vault_act" where
  "getTotalSupply env cfg =
     queryBigInt env cfg ''supply'' [] None"

definition getTotalAssets ::
    "('s, 'acc, 'tx, 'sim, 'v, 'ev) ClientEnv \<Rightarrow> VaultClientConfig \<Rightarrow> ('s, int) vault_act" where
  "getTotalAssets env cfg =
     queryBigInt env cfg ''total_assets'' [] None"

definition getPendingRewards ::
    "('s, 'acc, 'tx, 'sim, 'v, 'ev) ClientEnv \<Rightarrow> VaultClientConfig \<Rightarrow> ('s, int) vault_act" where
  "getPendingRewards env cfg =
     queryBigInt env cfg ''pending_rewards'' [] None"

definition calculateSharePrice ::
    "('s, 'acc, 'tx, 'sim, 'v, 'ev) ClientEnv \<Rightarrow> VaultClientConfig \<Rightarrow> ('s, int) vault_act" where
  "calculateSharePrice env cfg =
     queryBigInt env cfg ''calculate_share_price'' [] None"

definition calculateRewards ::
    "('s, 'acc, 'tx, 'sim, 'v, 'ev) ClientEnv \<Rightarrow> VaultClientConfig \<Rightarrow> int \<Rightarrow> ('s, int) vault_act" where
  "calculateRewards env cfg userShares =
     queryBigInt env cfg ''calculate_rewards'' [i128ToScVal env userShares] None"

definition getUnderlyingToken ::
    "('s, 'acc, 'tx, 'sim, 'v, 'ev) ClientEnv \<Rightarrow> VaultClientConfig \<Rightarrow> ('s, Native) vault_act" where
  "getUnderlyingToken env cfg =
     queryNative env cfg ''underlying_token'' [] None"

definition getUnderlyingBalance ::
    "('s, 'acc, 'tx, 'sim, 'v, 'ev) ClientEnv \<Rightarrow> VaultClientConfig \<Rightarrow> string \<Rightarrow> ('s, int) vault_act" where
  "getUnderlyingBalance env cfg address =
     andThen (getUnderlyingToken env cfg) (\<lambda>token.
       queryBigInt env cfg ''balance'' [addressToScVal env address] (Some (nativeString token)))"

definition getName ::
    "('s, 'acc, 'tx, 'sim, 'v, 'ev) ClientEnv \<Rightarrow> VaultClientConfig \<Rightarrow> ('s, Native) vault_act" where
  "getName env cfg =
     queryNative env cfg ''name'' [] None"

definition getSymbol ::
    "('s, 'acc, 'tx, 'sim, 'v, 'ev) ClientEnv \<Rightarrow> VaultClientConfig \<Rightarrow> ('s, Native) vault_act" where
  "getSymbol env cfg =
     queryNative env cfg ''symbol'' [] None"

definition getDecimals ::
    "('s, 'acc, 'tx, 'sim, 'v, 'ev) ClientEnv \<Rightarrow> VaultClientConfig \<Rightarrow> ('s, Native) vault_act" where
  "getDecimals env cfg =
     queryNative env cfg ''decimals'' [] None"

definition getAllowance ::
    "('s, 'acc, 'tx, 'sim, 'v, 'ev) ClientEnv \<Rightarrow> VaultClientConfig \<Rightarrow> string \<Rightarrow> string \<Rightarrow> ('s, int) vault_act" where
  "getAllowance env cfg owner spender =
     queryBigInt env cfg ''allowance'' [addressToScVal env owner, addressToScVal env spender] None"

definition getUnlockTime ::
    "('s, 'acc, 'tx, 'sim, 'v, 'ev) ClientEnv \<Rightarrow> VaultClientConfig \<Rightarrow> string \<Rightarrow> ('s, Native) vault_act" where
  "getUnlockTime env cfg user =
     queryNative env cfg ''get_unlock_time'' [addressToScVal env user] None"

subsection \<open>Write transactions\<close>

definition deposit ::
    "('s, 'acc, 'tx, 'sim, 'v, 'ev) ClientEnv \<Rightarrow> VaultClientConfig \<Rightarrow> string \<Rightarrow> int \<Rightarrow> 's Signer option \<Rightarrow> int option \<Rightarrow> ('s, TransactionResult) vault_act" where
  "deposit env cfg caller value source minSharesOut =
     invokeWith env cfg ''deposit'' (withLimit env caller value minSharesOut) source"

definition withdraw ::
    "('s, 'acc, 'tx, 'sim, 'v, 'ev) ClientEnv \<Rightarrow> VaultClientConfig \<Rightarrow> string \<Rightarrow> int \<Rightarrow> 's Signer \<Rightarrow> int option \<Rightarrow> ('s, TransactionResult) vault_act" where
  "withdraw env cfg caller shares source minTokensOut =
     invokeWith env cfg ''withdraw'' (withLimit env caller shares minTokensOut) (Some source)"

definition compound ::
    "('s, 'acc, 'tx, 'sim, 'v, 'ev) ClientEnv \<Rightarrow> VaultClientConfig \<Rightarrow> string \<Rightarrow> 's Signer \<Rightarrow> ('s, TransactionResult) vault_act" where
  "compound env cfg caller source =
     invokeWith env cfg ''compound_fees'' [addressToScVal env caller] (Some source)"

definition compoundFees ::
    "('s, 'acc, 'tx, 'sim, 'v, 'ev) ClientEnv \<Rightarrow> VaultClientConfig \<Rightarrow> string \<Rightarrow> 's Signer \<Rightarrow> ('s, TransactionResult) vault_act" where
  "compoundFees env cfg caller source =
     compound env cfg caller source"

definition distributeRewards ::
    "('s, 'acc, 'tx, 'sim, 'v, 'ev) ClientEnv \<Rightarrow> VaultClientConfig \<Rightarrow> string \<Rightarrow> int \<Rightarrow> 's Signer \<Rightarrow> ('s, TransactionResult) vault_act" where
  "distributeRewards env cfg caller value source =
     invokeWith env cfg ''distribute_rewards'' [addressToScVal env caller, i128ToScVal env value] (Some source)"

definition wrap ::
    "('s, 'acc, 'tx, 'sim, 'v, 'ev) ClientEnv \<Rightarrow> VaultClientConfig \<Rightarrow> string \<Rightarrow> int \<Rightarrow> 's Signer \<Rightarrow> ('s, TransactionResult) vault_act" where
  "wrap env cfg caller value source =
     invokeWith env cfg ''wrap'' [addressToScVal env caller, i128ToScVal env value] (Some source)"

definition unwrap ::
    "('s, 'acc, 'tx, 'sim, 'v, 'ev) ClientEnv \<Rightarrow> VaultClientConfig \<Rightarrow> string \<Rightarrow> int \<Rightarrow> 's Signer \<Rightarrow> ('s, TransactionResult) vault_act" where
  "unwrap env cfg caller value source =
     invokeWith env cfg ''unwrap'' [addressToScVal env caller, i128ToScVal env value] (Some source)"

definition setUnlockTime ::
    "('s, 'acc, 'tx, 'sim, 'v, 'ev) ClientEnv \<Rightarrow> VaultClientConfig \<Rightarrow> string \<Rightarrow> string \<Rightarrow> int \<Rightarrow> 's Signer \<Rightarrow> ('s, TransactionResult) vault_act" where
  "setUnlockTime env cfg caller user unlockTimestamp source =
     invokeWith env cfg ''set_unlock_time'' [addressToScVal env caller, addressToScVal env user, u64ToScVal env unlockTimestamp] (Some source)"

definition clearUnlockTime ::
    "('s, 'acc, 'tx, 'sim, 'v, 'ev) ClientEnv \<Rightarrow> VaultClientConfig \<Rightarrow> string \<Rightarrow> string \<Rightarrow> 's Signer \<Rightarrow> ('s, TransactionResult) vault_act" where
  "clearUnlockTime env cfg caller user source =
     invokeWith env cfg ''clear_unlock_time'' [addressToScVal env caller, addressToScVal env user] (Some source)"

definition transfer ::
    "('s, 'acc, 'tx, 'sim, 'v, 'ev) ClientEnv \<Rightarrow> VaultClientConfig \<Rightarrow> string \<Rightarrow> string \<Rightarrow> int \<Rightarrow> 's Signer \<Rightarrow> ('s, TransactionResult) vault_act" where
  "transfer env cfg sender recipient value source =
     invokeWith env cfg ''transfer'' [addressToScVal env sender, addressToScVal env recipient, i128ToScVal env value] (Some source)"

definition approve ::
    "('s, 'acc, 'tx, 'sim, 'v, 'ev) ClientEnv \<Rightarrow> VaultClientConfig \<Rightarrow> string \<Rightarrow> string \<Rightarrow> int \<Rightarrow> int \<Rightarrow> 's Signer \<Rightarrow> ('s, TransactionResult) vault_act" where
  "approve env cfg owner spender value expiry source =
     invokeWith env cfg ''approve'' [addressToScVal env owner, addressToScVal env spender, i128ToScVal env value, u32ToScVal env expiry] (Some source)"

definition transferFrom ::
    "('s, 'acc, 'tx, 'sim, 'v, 'ev) ClientEnv \<Rightarrow> VaultClientConfig \<Rightarrow> string \<Rightarrow> string \<Rightarrow> string \<Rightarrow> int \<Rightarrow> 's Signer \<Rightarrow> ('s, TransactionResult) vault_act" where
  "transferFrom env cfg spender sender recipient value source =
     invokeWith env cfg ''transfer_from'' [addressToScVal env spender, addressToScVal env sender, addressToScVal env recipient, i128ToScVal env value] (Some source)"

subsection \<open>Offline transactions and simulation\<close>

definition buildDepositTx ::
    "('s, 'acc, 'tx, 'sim, 'v, 'ev) ClientEnv \<Rightarrow> VaultClientConfig \<Rightarrow> string \<Rightarrow> int \<Rightarrow> string \<Rightarrow> int option \<Rightarrow> ('s, string) vault_act" where
  "buildDepositTx env cfg caller value sourcePublicKey minSharesOut =
     buildUnsignedWith env cfg ''deposit'' (withLimit env caller value minSharesOut) sourcePublicKey"

definition buildWithdrawTx ::
    "('s, 'acc, 'tx, 'sim, 'v, 'ev) ClientEnv \<Rightarrow> VaultClientConfig \<Rightarrow> string \<Rightarrow> int \<Rightarrow> string \<Rightarrow> int option \<Rightarrow> ('s, string) vault_act" where
  "buildWithdrawTx env cfg caller shares sourcePublicKey minTokensOut =
     buildUnsignedWith env cfg ''withdraw'' (withLimit env caller shares minTokensOut) sourcePublicKey"

definition buildCompoundTx ::
    "('s, 'acc, 'tx, 'sim, 'v, 'ev) ClientEnv \<Rightarrow> VaultClientConfig \<Rightarrow> string \<Rightarrow> string \<Rightarrow> ('s, string) vault_act" where
  "buildCompoundTx env cfg caller sourcePublicKey =
     buildUnsignedWith env cfg ''compound_fees'' [addressToScVal env caller] sourcePublicKey"

definition buildDistributeRewardsTx ::
    "('s, 'acc, 'tx, 'sim, 'v, 'ev) ClientEnv \<Rightarrow> VaultClientConfig \<Rightarrow> string \<Rightarrow> int \<Rightarrow> string \<Rightarrow> ('s, string) vault_act" where
  "buildDistributeRewardsTx env cfg caller value sourcePublicKey =
     buildUnsignedWith env cfg ''distribute_rewards'' [addressToScVal env caller, i128ToScVal env value] sourcePublicKey"

definition signTx ::
    "('s, 'acc, 'tx, 'sim, 'v, 'ev) ClientEnv \<Rightarrow> VaultClientConfig \<Rightarrow> string \<Rightarrow> string \<Rightarrow> sdk_error + string" where
  "signTx env cfg xdrString signer = signTransaction (soroban env) xdrString (vcfg_networkPassphrase cfg) signer"

definition simulate ::
    "('s, 'acc, 'tx, 'sim, 'v, 'ev) ClientEnv \<Rightarrow> VaultClientConfig \<Rightarrow> string \<Rightarrow> (sdk_error + 'v) list \<Rightarrow> string \<Rightarrow> ('s, 'sim Simulation) vault_act" where
  "simulate env cfg method args sourcePublicKey =
     andThen (fromSum (sequence args)) (\<lambda>vs.
       inWorld (simulateTransaction (soroban env) (vcfg_networkPassphrase cfg) (vcfg_contractId cfg) method vs
         sourcePublicKey))"

definition simulateDeposit ::
    "('s, 'acc, 'tx, 'sim, 'v, 'ev) ClientEnv \<Rightarrow> VaultClientConfig \<Rightarrow> string \<Rightarrow> int \<Rightarrow> string \<Rightarrow> int option \<Rightarrow> ('s, 'sim Simulation) vault_act" where
  "simulateDeposit env cfg caller value sourcePublicKey minSharesOut =
     simulate env cfg ''deposit'' (withLimit env caller value minSharesOut) sourcePublicKey"

definition simulateWithdraw ::
    "('s, 'acc, 'tx, 'sim, 'v, 'ev) ClientEnv \<Rightarrow> VaultClientConfig \<Rightarrow> string \<Rightarrow> int \<Rightarrow> string \<Rightarrow> int option \<Rightarrow> ('s, 'sim Simulation) vault_act" where
  "simulateWithdraw env cfg caller shares sourcePublicKey minTokensOut =
     simulate env cfg ''withdraw'' (withLimit env caller shares minTokensOut) sourcePublicKey"

definition simulateCompound ::
    "('s, 'acc, 'tx, 'sim, 'v, 'ev) ClientEnv \<Rightarrow> VaultClientConfig \<Rightarrow> string \<Rightarrow> string \<Rightarrow> ('s, 'sim Simulation) vault_act" where
  "simulateCompound env cfg caller sourcePublicKey =
     simulate env cfg ''compound_fees'' [addressToScVal env caller] sourcePublicKey"

definition getEvents ::
    "('s, 'acc, 'tx, 'sim, 'v, 'ev) ClientEnv \<Rightarrow> VaultClientConfig \<Rightarrow> int option \<Rightarrow> ('s, 'ev list) vault_act" where
  "getEvents env cfg startLedger =
     andThen (case startLedger of
                Some n \<Rightarrow> if n \<noteq> 0 then ret n else andThen (inWorld (getLatestLedger env)) (\<lambda>l. ret (l - 1000))
              | None \<Rightarrow> andThen (inWorld (getLatestLedger env)) (\<lambda>l. ret (l - 1000))) (\<lambda>start.
     andThen (inWorld (serverGetEvents env (FromLedger start) (vcfg_contractId cfg))) (\<lambda>page.
       ret (page_events page)))"

subsection \<open>Failed transactions are sent again\<close>

lemma invokeOnce_rejected:
  assumes env: "soroban env = logNode acceptedAnswer rejectedOnLedger"
  shows "\<exists>p. \<forall>c. invokeOnce env cfg m vs (Some kp) wa c =
     (Inl (ContractErr p),
      c\<lparr>vaultWorld := (vaultWorld c)\<lparr>sends := sends (vaultWorld c) + 1, fees := fees (vaultWorld c) @ [''100'']\<rparr>\<rparr>)"
  using submit_rejected by (auto simp: invokeOnce_def env andThen_def inWorld_def build_logNode)

text \<open>
  The vault client sends a transaction again that the contract has rejected. On a node that
  includes every transaction and reports the contract error of its execution, one call of
  \<^verbatim>\<open>deposit\<close> with a keypair sends three separately built transactions, each of which is included
  and charged, before it rejects with the contract error: the retry loop of the vault client,
  unlike that of the token client, does not stop at contract errors.
\<close>

theorem rejected_deposit_is_sent_again:
  assumes "soroban env = logNode acceptedAnswer rejectedOnLedger"
    and "sequence (withLimit env caller value limit) = Inr vs"
  shows "(\<exists>p. fst (deposit env cfg caller value (Some (KeypairSigner kp)) limit c) = Inl (ContractErr p)) \<and>
     sends (vaultWorld (snd (deposit env cfg caller value (Some (KeypairSigner kp)) limit c))) =
       sends (vaultWorld c) + 3"
proof -
  let ?next = "\<lambda>c. c\<lparr>vaultWorld := (vaultWorld c)\<lparr>sends := sends (vaultWorld c) + 1,
    fees := fees (vaultWorld c) @ [''100'']\<rparr>\<rparr>"
  obtain p where once: "\<And>c. invokeOnce env cfg ''deposit'' vs (Some kp) None c = (Inl (ContractErr p), ?next c)"
    using invokeOnce_rejected [OF assms(1), of cfg "''deposit''" vs kp None] by blast
  have "deposit env cfg caller value (Some (KeypairSigner kp)) limit c =
      withRetry3 (\<lambda>_. False) (invokeOnce env cfg ''deposit'' vs (Some kp) None) c"
    using assms(2) by (simp add: deposit_def invokeWith_def invokeContract_def signerKeypair_def signerAdapter_def
        fromSum_def Let_def)
  also have "\<dots> = (Inl (ContractErr p), ?next (?next (?next c)))"
    by (rule withRetry_thrice [OF once _ once _ once]) simp_all
  finally show ?thesis by simp
qed

definition sampleVaultConfig :: VaultClientConfig where
  "sampleVaultConfig = \<lparr>vcfg_networkPassphrase = ''net'', vcfg_contractId = ''C''\<rparr>"

theorem rejected_deposit_is_sent_again_witness:
  "sends (vaultWorld (snd (deposit (logClientEnv acceptedAnswer rejectedOnLedger) sampleVaultConfig ''G'' 5
     (Some (KeypairSigner ''S'')) (Some 4) (newVaultClient None emptyLog)))) = 3"
  using rejected_deposit_is_sent_again [of "logClientEnv acceptedAnswer rejectedOnLedger" "''G''" 5 "Some 4"
      "[(), (), ()]" sampleVaultConfig "''S''" "newVaultClient None emptyLog"]
  by (simp add: logClientEnv_def withLimit_def addressToScVal_def i128ToScVal_def newVaultClient_def emptyLog_def)

text \<open>The slippage limit reaches the contract exactly when the caller gave one.\<close>

lemma deposit_arguments:
  "deposit env cfg caller value source limit =
     andThen (fromSum (sequence ([addressToScVal env caller, i128ToScVal env value] @
       (case limit of None \<Rightarrow> [] | Some m \<Rightarrow> [i128ToScVal env m]))))
       (\<lambda>vs. invokeContract env cfg ''deposit'' vs source)"
  by (cases limit) (simp_all add: deposit_def invokeWith_def withLimit_def)

end
