(* ===== verification/WrapperClient.thy ===== *)
theory WrapperClient
  imports ClientBase
begin

text \<open>
  \<^verbatim>\<open>src/sdk/src/wrapperClient.ts\<close>: the class \<^verbatim>\<open>WrapperClient\<close>. It has no mutable field, so its methods
  are effects on the outside world; every write takes a keypair.
\<close>

subsection \<open>Types and helpers\<close>

record WrapperClientConfig =
  wcfg_networkPassphrase :: string
  wcfg_contractId :: string

text \<open>A state that is read carries what the node sent, one that is written an integer and an address.\<close>

record ('n, 'r) VaultState =
  feeRateBps :: 'n
  feeReceiver :: 'r
  minDeposit :: int
  maxDeposit :: int
  exchangeRate :: int
  accumulatedFees :: int
  lastUpdateTimestamp :: int

type_synonym ('s, 'a) wrapper_act = "(sdk_error, 's, 'a) act"

definition queryContract ::
    "('s, 'acc, 'tx, 'sim, 'v, 'ev) ClientEnv \<Rightarrow> WrapperClientConfig \<Rightarrow> string \<Rightarrow> 'v list \<Rightarrow> ('s, 'v) wrapper_act" where
  "queryContract env cfg method args =
     withRetry3 (\<lambda>_. False) (plainQuery env (wcfg_networkPassphrase cfg) (wcfg_contractId cfg) method args)"

definition invokeContract ::
    "('s, 'acc, 'tx, 'sim, 'v, 'ev) ClientEnv \<Rightarrow> WrapperClientConfig \<Rightarrow> string \<Rightarrow> 'v list \<Rightarrow> string \<Rightarrow>
     ('s, TransactionResult) wrapper_act" where
  "invokeContract env cfg method args source =
     withRetry3 (\<lambda>_. False)
       (andThen (buildInvokeTransaction (soroban env) (wcfg_networkPassphrase cfg) (wcfg_contractId cfg)
                   method args source None) (\<lambda>txXdr.
        andThen (submitTransaction (soroban env) txXdr noOptions) (\<lambda>response.
          fromSum (settled env get_txHash response))))"

definition invokeWith ::
    "('s, 'acc, 'tx, 'sim, 'v, 'ev) ClientEnv \<Rightarrow> WrapperClientConfig \<Rightarrow> string \<Rightarrow> (sdk_error + 'v) list \<Rightarrow>
     string \<Rightarrow> ('s, TransactionResult) wrapper_act" where
  "invokeWith env cfg method args source =
     andThen (fromSum (sequence args)) (\<lambda>vs. invokeContract env cfg method vs source)"

definition queryNative ::
    "('s, 'acc, 'tx, 'sim, 'v, 'ev) ClientEnv \<Rightarrow> WrapperClientConfig \<Rightarrow> string \<Rightarrow> (sdk_error + 'v) list \<Rightarrow>
     ('s, Native) wrapper_act" where
  "queryNative env cfg method args =
     andThen (fromSum (sequence args)) (\<lambda>vs.
     andThen (queryContract env cfg method vs) (\<lambda>result. fromSum (scValToNative env result)))"

definition queryBigInt ::
    "('s, 'acc, 'tx, 'sim, 'v, 'ev) ClientEnv \<Rightarrow> WrapperClientConfig \<Rightarrow> string \<Rightarrow> (sdk_error + 'v) list \<Rightarrow>
     ('s, int) wrapper_act" where
  "queryBigInt env cfg method args =
     andThen (queryNative env cfg method args) (\<lambda>v. fromSum (BigInt_native v))"

definition buildUnsignedWith ::
    "('s, 'acc, 'tx, 'sim, 'v, 'ev) ClientEnv \<Rightarrow> WrapperClientConfig \<Rightarrow> string \<Rightarrow> (sdk_error + 'v) list \<Rightarrow>
     string \<Rightarrow> ('s, string) wrapper_act" where
  "buildUnsignedWith env cfg method args sourcePublicKey =
     andThen (fromSum (sequence args)) (\<lambda>vs.
       buildUnsignedTransaction (soroban env) (wcfg_networkPassphrase cfg) (wcfg_contractId cfg)
         method vs sourcePublicKey)"

definition bigField :: "Native \<Rightarrow> string \<Rightarrow> ('s, int) wrapper_act" where
  "bigField native key = andThen (fromSum (nativeProp native key)) (\<lambda>v. fromSum (BigInt_native v))"

subsection \<open>Read-only queries\<close>

definition getBalance ::
    "('s, 'acc, 'tx, 'sim, 'v, 'ev) ClientEnv \<Rightarrow> WrapperClientConfig \<Rightarrow> string \<Rightarrow> ('s, int) wrapper_act" where
  "getBalance env cfg address =
     queryBigInt env cfg ''balance'' [addressToScVal env address]"

definition getTotalSupply ::
    "('s, 'acc, 'tx, 'sim, 'v, 'ev) ClientEnv \<Rightarrow> WrapperClientConfig \<Rightarrow> ('s, int) wrapper_act" where
  "getTotalSupply env cfg =
     queryBigInt env cfg ''supply'' []"

definition getTotalAssets ::
    "('s, 'acc, 'tx, 'sim, 'v, 'ev) ClientEnv \<Rightarrow> WrapperClientConfig \<Rightarrow> ('s, int) wrapper_act" where
  "getTotalAssets env cfg =
     queryBigInt env cfg ''total_assets'' []"

definition getVaultState ::
    "('s, 'acc, 'tx, 'sim, 'v, 'ev) ClientEnv \<Rightarrow> WrapperClientConfig \<Rightarrow> ('s, (js_number, Native) VaultState) wrapper_act" where
  "getVaultState env cfg =
     andThen (queryNative env cfg ''get_vault_state'' []) (\<lambda>native.
     andThen (fromSum (nativeProp native ''fee_rate_bps'')) (\<lambda>bps.
     andThen (fromSum (nativeProp native ''fee_receiver'')) (\<lambda>receiver.
     andThen (bigField native ''min_deposit'') (\<lambda>mn.
     andThen (bigField native ''max_deposit'') (\<lambda>mx.
     andThen (bigField native ''exchange_rate'') (\<lambda>rate.
     andThen (bigField native ''accumulated_fees'') (\<lambda>acc.
     andThen (bigField native ''last_update_timestamp'') (\<lambda>ts.
       ret \<lparr>feeRateBps = Number_native bps, feeReceiver = receiver, minDeposit = mn, maxDeposit = mx,
            exchangeRate = rate, accumulatedFees = acc, lastUpdateTimestamp = ts\<rparr>))))))))"

definition convertToShares ::
    "('s, 'acc, 'tx, 'sim, 'v, 'ev) ClientEnv \<Rightarrow> WrapperClientConfig \<Rightarrow> int \<Rightarrow> ('s, int) wrapper_act" where
  "convertToShares env cfg assets =
     queryBigInt env cfg ''convert_to_shares'' [i128ToScVal env assets]"

definition convertToAssets ::
    "('s, 'acc, 'tx, 'sim, 'v, 'ev) ClientEnv \<Rightarrow> WrapperClientConfig \<Rightarrow> int \<Rightarrow> ('s, int) wrapper_act" where
  "convertToAssets env cfg shares =
     queryBigInt env cfg ''convert_to_assets'' [i128ToScVal env shares]"

definition previewDeposit ::
    "('s, 'acc, 'tx, 'sim, 'v, 'ev) ClientEnv \<Rightarrow> WrapperClientConfig \<Rightarrow> int \<Rightarrow> ('s, int) wrapper_act" where
  "previewDeposit env cfg assets =
     queryBigInt env cfg ''preview_deposit'' [i128ToScVal env assets]"

definition previewWithdraw ::
    "('s, 'acc, 'tx, 'sim, 'v, 'ev) ClientEnv \<Rightarrow> WrapperClientConfig \<Rightarrow> int \<Rightarrow> ('s, int) wrapper_act" where
  "previewWithdraw env cfg shares =
     queryBigInt env cfg ''preview_withdraw'' [i128ToScVal env shares]"

definition getUnderlyingToken ::
    "('s, 'acc, 'tx, 'sim, 'v, 'ev) ClientEnv \<Rightarrow> WrapperClientConfig \<Rightarrow> ('s, Native) wrapper_act" where
  "getUnderlyingToken env cfg =
     queryNative env cfg ''underlying_token'' []"

definition getName ::
    "('s, 'acc, 'tx, 'sim, 'v, 'ev) ClientEnv \<Rightarrow> WrapperClientConfig \<Rightarrow> ('s, Native) wrapper_act" where
  "getName env cfg =
     queryNative env cfg ''name'' []"

definition getSymbol ::
    "('s, 'acc, 'tx, 'sim, 'v, 'ev) ClientEnv \<Rightarrow> WrapperClientConfig \<Rightarrow> ('s, Native) wrapper_act" where
  "getSymbol env cfg =
     queryNative env cfg ''symbol'' []"

definition getDecimals ::
    "('s, 'acc, 'tx, 'sim, 'v, 'ev) ClientEnv \<Rightarrow> WrapperClientConfig \<Rightarrow> ('s, Native) wrapper_act" where
  "getDecimals env cfg =
     queryNative env cfg ''decimals'' []"

definition getVersion ::
    "('s, 'acc, 'tx, 'sim, 'v, 'ev) ClientEnv \<Rightarrow> WrapperClientConfig \<Rightarrow> ('s, Native) wrapper_act" where
  "getVersion env cfg =
     queryNative env cfg ''version'' []"

definition isPaused ::
    "('s, 'acc, 'tx, 'sim, 'v, 'ev) ClientEnv \<Rightarrow> WrapperClientConfig \<Rightarrow> ('s, Native) wrapper_act" where
  "isPaused env cfg =
     queryNative env cfg ''is_paused'' []"

definition getAllowance ::
    "('s, 'acc, 'tx, 'sim, 'v, 'ev) ClientEnv \<Rightarrow> WrapperClientConfig \<Rightarrow> string \<Rightarrow> string \<Rightarrow> ('s, int) wrapper_act" where
  "getAllowance env cfg owner spender =
     queryBigInt env cfg ''allowance'' [addressToScVal env owner, addressToScVal env spender]"

definition getShareBalance ::
    "('s, 'acc, 'tx, 'sim, 'v, 'ev) ClientEnv \<Rightarrow> WrapperClientConfig \<Rightarrow> string \<Rightarrow> ('s, int) wrapper_act" where
  "getShareBalance env cfg address =
     queryBigInt env cfg ''share_balance'' [addressToScVal env address]"

definition getPendingRewards ::
    "('s, 'acc, 'tx, 'sim, 'v, 'ev) ClientEnv \<Rightarrow> WrapperClientConfig \<Rightarrow> ('s, int) wrapper_act" where
  "getPendingRewards env cfg =
     queryBigInt env cfg ''pending_rewards'' []"

definition calculateSharePrice ::
    "('s, 'acc, 'tx, 'sim, 'v, 'ev) ClientEnv \<Rightarrow> WrapperClientConfig \<Rightarrow> ('s, int) wrapper_act" where
  "calculateSharePrice env cfg =
     queryBigInt env cfg ''calculate_share_price'' []"

definition calculateRewards ::
    "('s, 'acc, 'tx, 'sim, 'v, 'ev) ClientEnv \<Rightarrow> WrapperClientConfig \<Rightarrow> int \<Rightarrow> ('s, int) wrapper_act" where
  "calculateRewards env cfg userShares =
     queryBigInt env cfg ''calculate_rewards'' [i128ToScVal env userShares]"

definition getUnlockTime ::
    "('s, 'acc, 'tx, 'sim, 'v, 'ev) ClientEnv \<Rightarrow> WrapperClientConfig \<Rightarrow> string \<Rightarrow> ('s, Native) wrapper_act" where
  "getUnlockTime env cfg user =
     queryNative env cfg ''get_unlock_time'' [addressToScVal env user]"

subsection \<open>Write transactions\<close>

definition initialize ::
    "('s, 'acc, 'tx, 'sim, 'v, 'ev) ClientEnv \<Rightarrow> WrapperClientConfig \<Rightarrow> string \<Rightarrow> string \<Rightarrow> int \<Rightarrow> string \<Rightarrow> string \<Rightarrow> string \<Rightarrow> ('s, TransactionResult) wrapper_act" where
  "initialize env cfg admin tokenContractId decimal name symbol source =
     invokeWith env cfg ''initialize''
       [addressToScVal env admin, addressToScVal env tokenContractId, u32ToScVal env decimal, stringToScVal env name, stringToScVal env symbol] source"

definition wrap ::
    "('s, 'acc, 'tx, 'sim, 'v, 'ev) ClientEnv \<Rightarrow> WrapperClientConfig \<Rightarrow> string \<Rightarrow> int \<Rightarrow> string \<Rightarrow> ('s, TransactionResult) wrapper_act" where
  "wrap env cfg caller value source =
     invokeWith env cfg ''wrap''
       [addressToScVal env caller, i128ToScVal env value] source"

definition unwrap ::
    "('s, 'acc, 'tx, 'sim, 'v, 'ev) ClientEnv \<Rightarrow> WrapperClientConfig \<Rightarrow> string \<Rightarrow> int \<Rightarrow> string \<Rightarrow> ('s, TransactionResult) wrapper_act" where
  "unwrap env cfg caller value source =
     invokeWith env cfg ''unwrap''
       [addressToScVal env caller, i128ToScVal env value] source"

definition distributeRewards ::
    "('s, 'acc, 'tx, 'sim, 'v, 'ev) ClientEnv \<Rightarrow> WrapperClientConfig \<Rightarrow> string \<Rightarrow> int \<Rightarrow> string \<Rightarrow> ('s, TransactionResult) wrapper_act" where
  "distributeRewards env cfg caller value source =
     invokeWith env cfg ''distribute_rewards''
       [addressToScVal env caller, i128ToScVal env value] source"

text \<open>The struct \<^verbatim>\<open>VaultState\<close> with its keys in alphabetical order, as the contract expects them.\<close>

definition stateToScVal ::
    "('s, 'acc, 'tx, 'sim, 'v, 'ev) ClientEnv \<Rightarrow> (int, string) VaultState \<Rightarrow> sdk_error + 'v" where
  "stateToScVal env state =
     map_sum id (\<lambda>vs. scvMap env (zip (map (scvSymbol env)
         [''accumulated_fees'', ''exchange_rate'', ''fee_rate_bps'', ''fee_receiver'', ''last_update_timestamp'',
          ''max_deposit'', ''min_deposit'']) vs))
       (sequence [i128ToScVal env (accumulatedFees state), i128ToScVal env (exchangeRate state), u32ToScVal env (feeRateBps state),
          addressToScVal env (feeReceiver state), u64ToScVal env (lastUpdateTimestamp state),
          i128ToScVal env (maxDeposit state), i128ToScVal env (minDeposit state)])"

definition setVaultState ::
    "('s, 'acc, 'tx, 'sim, 'v, 'ev) ClientEnv \<Rightarrow> WrapperClientConfig \<Rightarrow> string \<Rightarrow> (int, string) VaultState \<Rightarrow> string \<Rightarrow> ('s, TransactionResult) wrapper_act" where
  "setVaultState env cfg caller state source =
     andThen (fromSum (stateToScVal env state)) (\<lambda>stateScVal.
       invokeWith env cfg ''set_vault_state'' [addressToScVal env caller, Inr stateScVal] source)"

definition withdraw ::
    "('s, 'acc, 'tx, 'sim, 'v, 'ev) ClientEnv \<Rightarrow> WrapperClientConfig \<Rightarrow> string \<Rightarrow> int \<Rightarrow> string \<Rightarrow> ('s, TransactionResult) wrapper_act" where
  "withdraw env cfg caller shares source =
     invokeWith env cfg ''withdraw''
       [addressToScVal env caller, i128ToScVal env shares] source"

definition setUnlockTime ::
    "('s, 'acc, 'tx, 'sim, 'v, 'ev) ClientEnv \<Rightarrow> WrapperClientConfig \<Rightarrow> string \<Rightarrow> string \<Rightarrow> int \<Rightarrow> string \<Rightarrow> ('s, TransactionResult) wrapper_act" where
  "setUnlockTime env cfg caller user unlockTimestamp source =
     invokeWith env cfg ''set_unlock_time''
       [addressToScVal env caller, addressToScVal env user, u64ToScVal env unlockTimestamp] source"

definition clearUnlockTime ::
    "('s, 'acc, 'tx, 'sim, 'v, 'ev) ClientEnv \<Rightarrow> WrapperClientConfig \<Rightarrow> string \<Rightarrow> string \<Rightarrow> string \<Rightarrow> ('s, TransactionResult) wrapper_act" where
  "clearUnlockTime env cfg caller user source =
     invokeWith env cfg ''clear_unlock_time''
       [addressToScVal env caller, addressToScVal env user] source"

definition transfer ::
    "('s, 'acc, 'tx, 'sim, 'v, 'ev) ClientEnv \<Rightarrow> WrapperClientConfig \<Rightarrow> string \<Rightarrow> string \<Rightarrow> int \<Rightarrow> string \<Rightarrow> ('s, TransactionResult) wrapper_act" where
  "transfer env cfg sender recipient value source =
     invokeWith env cfg ''transfer''
       [addressToScVal env sender, addressToScVal env recipient, i128ToScVal env value] source"

definition approve ::
    "('s, 'acc, 'tx, 'sim, 'v, 'ev) ClientEnv \<Rightarrow> WrapperClientConfig \<Rightarrow> string \<Rightarrow> string \<Rightarrow> int \<Rightarrow> int \<Rightarrow> string \<Rightarrow> ('s, TransactionResult) wrapper_act" where
  "approve env cfg owner spender value expiry source =
     invokeWith env cfg ''approve''
       [addressToScVal env owner, addressToScVal env spender, i128ToScVal env value, u32ToScVal env expiry] source"

definition burn ::
    "('s, 'acc, 'tx, 'sim, 'v, 'ev) ClientEnv \<Rightarrow> WrapperClientConfig \<Rightarrow> string \<Rightarrow> int \<Rightarrow> string \<Rightarrow> ('s, TransactionResult) wrapper_act" where
  "burn env cfg holder value source =
     invokeWith env cfg ''burn''
       [addressToScVal env holder, i128ToScVal env value] source"

definition pause ::
    "('s, 'acc, 'tx, 'sim, 'v, 'ev) ClientEnv \<Rightarrow> WrapperClientConfig \<Rightarrow> string \<Rightarrow> ('s, TransactionResult) wrapper_act" where
  "pause env cfg source =
     invokeWith env cfg ''pause''
       [] source"

definition unpause ::
    "('s, 'acc, 'tx, 'sim, 'v, 'ev) ClientEnv \<Rightarrow> WrapperClientConfig \<Rightarrow> string \<Rightarrow> ('s, TransactionResult) wrapper_act" where
  "unpause env cfg source =
     invokeWith env cfg ''unpause''
       [] source"

subsection \<open>Offline transactions and simulation\<close>

definition buildWrapTx ::
    "('s, 'acc, 'tx, 'sim, 'v, 'ev) ClientEnv \<Rightarrow> WrapperClientConfig \<Rightarrow> string \<Rightarrow> int \<Rightarrow> string \<Rightarrow> ('s, string) wrapper_act" where
  "buildWrapTx env cfg caller value sourcePublicKey =
     buildUnsignedWith env cfg ''wrap'' [addressToScVal env caller, i128ToScVal env value] sourcePublicKey"

definition buildUnwrapTx ::
    "('s, 'acc, 'tx, 'sim, 'v, 'ev) ClientEnv \<Rightarrow> WrapperClientConfig \<Rightarrow> string \<Rightarrow> int \<Rightarrow> string \<Rightarrow> ('s, string) wrapper_act" where
  "buildUnwrapTx env cfg caller value sourcePublicKey =
     buildUnsignedWith env cfg ''unwrap'' [addressToScVal env caller, i128ToScVal env value] sourcePublicKey"

definition signTx ::
    "('s, 'acc, 'tx, 'sim, 'v, 'ev) ClientEnv \<Rightarrow> WrapperClientConfig \<Rightarrow> string \<Rightarrow> string \<Rightarrow> sdk_error + string" where
  "signTx env cfg txXdr keypair = signTransaction (soroban env) txXdr (wcfg_networkPassphrase cfg) keypair"

definition simulate ::
    "('s, 'acc, 'tx, 'sim, 'v, 'ev) ClientEnv \<Rightarrow> WrapperClientConfig \<Rightarrow> string \<Rightarrow> (sdk_error + 'v) list \<Rightarrow> string \<Rightarrow> ('s, 'sim Simulation) wrapper_act" where
  "simulate env cfg method args sourcePublicKey =
     andThen (fromSum (sequence args)) (\<lambda>vs.
       simulateTransaction (soroban env) (wcfg_networkPassphrase cfg) (wcfg_contractId cfg) method vs
         sourcePublicKey)"

definition simulateWrap ::
    "('s, 'acc, 'tx, 'sim, 'v, 'ev) ClientEnv \<Rightarrow> WrapperClientConfig \<Rightarrow> string \<Rightarrow> int \<Rightarrow> string \<Rightarrow> ('s, 'sim Simulation) wrapper_act" where
  "simulateWrap env cfg caller value sourcePublicKey =
     simulate env cfg ''wrap'' [addressToScVal env caller, i128ToScVal env value] sourcePublicKey"

definition simulateUnwrap ::
    "('s, 'acc, 'tx, 'sim, 'v, 'ev) ClientEnv \<Rightarrow> WrapperClientConfig \<Rightarrow> string \<Rightarrow> int \<Rightarrow> string \<Rightarrow> ('s, 'sim Simulation) wrapper_act" where
  "simulateUnwrap env cfg caller value sourcePublicKey =
     simulate env cfg ''unwrap'' [addressToScVal env caller, i128ToScVal env value] sourcePublicKey"

definition getEvents ::
    "('s, 'acc, 'tx, 'sim, 'v, 'ev) ClientEnv \<Rightarrow> WrapperClientConfig \<Rightarrow> int option \<Rightarrow> ('s, 'ev list) wrapper_act" where
  "getEvents env cfg startLedger =
     andThen (case startLedger of
                Some n \<Rightarrow> if n \<noteq> 0 then ret n else andThen ( (getLatestLedger env)) (\<lambda>l. ret (l - 1000))
              | None \<Rightarrow> andThen ( (getLatestLedger env)) (\<lambda>l. ret (l - 1000))) (\<lambda>start.
     andThen ( (serverGetEvents env (FromLedger start) (wcfg_contractId cfg))) (\<lambda>page.
       ret (page_events page)))"

end
