(* ===== verification/Apy.thy ===== *)
theory Apy
  imports JsNumber
begin

unbundle bit_operations_syntax

text \<open>
  \<^verbatim>\<open>src/sdk/src/apy.ts\<close>: share prices of a vault at two ledgers, their growth as a yearly rate, conversions
  between nominal and effective rates, and the yield over a window of snapshots.

  Numbers are the doubles of \<open>JsNumber\<close>: every operation rounds its exact result. \<^verbatim>\<open>Math.pow\<close>, whose result the language does not
  fix, is an argument, as is the node, whose answers depend on a state \<open>'w\<close> of the world. The two reads of a snapshot and the
  two snapshots run one after the other.
\<close>

subsection \<open>Arithmetic on doubles\<close>

fun numNeg :: "js_number \<Rightarrow> js_number" where
  "numNeg NaN = NaN"
| "numNeg (Infinite n) = Infinite (\<not> n)"
| "numNeg (Fin q) = Fin (- q)"

fun numAdd :: "js_number \<Rightarrow> js_number \<Rightarrow> js_number" where
  "numAdd (Fin a) (Fin b) = roundDouble (a + b)"
| "numAdd (Infinite m) (Infinite n) = (if m = n then Infinite m else NaN)"
| "numAdd (Infinite m) (Fin b) = Infinite m"
| "numAdd (Fin a) (Infinite n) = Infinite n"
| "numAdd _ _ = NaN"

definition numSub :: "js_number \<Rightarrow> js_number \<Rightarrow> js_number" where
  "numSub a b = numAdd a (numNeg b)"

fun numMul :: "js_number \<Rightarrow> js_number \<Rightarrow> js_number" where
  "numMul (Fin a) (Fin b) = roundDouble (a * b)"
| "numMul (Infinite m) (Infinite n) = Infinite (m \<noteq> n)"
| "numMul (Infinite m) (Fin b) = (if b = 0 then NaN else Infinite (m \<noteq> (b < 0)))"
| "numMul (Fin a) (Infinite n) = (if a = 0 then NaN else Infinite ((a < 0) \<noteq> n))"
| "numMul _ _ = NaN"

text \<open>The zero of a divisor is positive.\<close>

fun numDiv :: "js_number \<Rightarrow> js_number \<Rightarrow> js_number" where
  "numDiv (Fin a) (Fin b) =
     (if b = 0 then (if a = 0 then NaN else Infinite (a < 0)) else roundDouble (a / b))"
| "numDiv (Infinite m) (Infinite n) = NaN"
| "numDiv (Infinite m) (Fin b) = Infinite (m \<noteq> (b < 0))"
| "numDiv (Fin a) (Infinite n) = Fin 0"
| "numDiv _ _ = NaN"

fun isFinite :: "js_number \<Rightarrow> bool" where
  "isFinite (Fin _) = True"
| "isFinite _ = False"

text \<open>\<^verbatim>\<open>a < b\<close>; a comparison with \<^verbatim>\<open>NaN\<close> is false.\<close>

fun numLess :: "js_number \<Rightarrow> js_number \<Rightarrow> bool" where
  "numLess (Fin a) (Fin b) = (a < b)"
| "numLess (Infinite m) (Infinite n) = (m \<and> \<not> n)"
| "numLess (Infinite m) (Fin b) = m"
| "numLess (Fin a) (Infinite n) = (\<not> n)"
| "numLess _ _ = False"

subsection \<open>Reading a share price\<close>

definition LEDGER_CLOSE_TIME_S :: rat where "LEDGER_CLOSE_TIME_S = 5"

definition LEDGERS_PER_YEAR :: rat where "LEDGERS_PER_YEAR = (365 + 1 / 4) * 24 * 3600 / LEDGER_CLOSE_TIME_S"

definition DEFAULT_LOOKBACK_LEDGERS :: int where "DEFAULT_LOOKBACK_LEDGERS = 17280"

text \<open>A return value: each accessor is missing, throws, yields nothing, or yields the parts.\<close>

record Retval =
  rv_i128 :: "(string + (int \<times> int) option) option"
  rv_i64 :: "(string + int option) option"

record SimAnswer =
  sa_error :: bool
  sa_retval :: "Retval option"

record 'w ApyServer =
  simulateCall :: "string \<Rightarrow> int option \<Rightarrow> 'w \<Rightarrow> (string + SimAnswer) \<times> 'w"
  latestLedgerSequence :: "'w \<Rightarrow> (string + int) \<times> 'w"

text \<open>\<^verbatim>\<open>(hi << 64n) | lo\<close>.\<close>

definition i128Value :: "int \<Rightarrow> int \<Rightarrow> int" where
  "i128Value hi lo = push_bit 64 hi OR lo"

definition retvalI128 :: "Retval \<Rightarrow> int option" where
  "retvalI128 r =
     (case rv_i128 r of
        Some (Inl _) \<Rightarrow> None
      | Some (Inr (Some (hi, lo))) \<Rightarrow> Some (i128Value hi lo)
      | _ \<Rightarrow>
          (case rv_i64 r of
             Some (Inr (Some n)) \<Rightarrow> Some n
           | _ \<Rightarrow> None))"

definition simulateI128 :: "'w ApyServer \<Rightarrow> string \<Rightarrow> int \<Rightarrow> 'w \<Rightarrow> int option \<times> 'w" where
  "simulateI128 S method ledger w =
     (case simulateCall S method (if ledger \<noteq> 0 then Some ledger else None) w of
        (Inl _, w1) \<Rightarrow> (None, w1)
      | (Inr a, w1) \<Rightarrow>
          (if sa_error a then (None, w1)
           else case sa_retval a of None \<Rightarrow> (None, w1) | Some r \<Rightarrow> (retvalI128 r, w1)))"

record ApySnapshot =
  snap_ledger :: int
  snap_totalAssets :: int
  snap_totalShares :: int
  snap_sharePrice :: "js_number option"

definition snapshotOf :: "int \<Rightarrow> int option \<Rightarrow> int option \<Rightarrow> ApySnapshot" where
  "snapshotOf ledger totalAssets totalShares =
     (let assets = (case totalAssets of Some a \<Rightarrow> a | None \<Rightarrow> 0);
          shares = (case totalShares of Some s \<Rightarrow> s | None \<Rightarrow> 0)
      in \<lparr>snap_ledger = ledger, snap_totalAssets = assets, snap_totalShares = shares,
          snap_sharePrice = (if shares > 0 then Some (numDiv (roundDouble (of_int assets)) (roundDouble (of_int shares)))
                             else None)\<rparr>)"

definition readSnapshot :: "'w ApyServer \<Rightarrow> int \<Rightarrow> 'w \<Rightarrow> ApySnapshot \<times> 'w" where
  "readSnapshot S ledger w =
     (case simulateI128 S ''total_assets'' ledger w of (totalAssets, w1) \<Rightarrow>
        (case simulateI128 S ''supply'' ledger w1 of (totalShares, w2) \<Rightarrow>
           (snapshotOf ledger totalAssets totalShares, w2)))"

subsection \<open>Rates\<close>

datatype CompoundingFrequency = Day | PerLedger | OtherFrequency string

definition compoundingPeriodsPerYear :: "CompoundingFrequency \<Rightarrow> js_error + rat" where
  "compoundingPeriodsPerYear f =
     (case f of Day \<Rightarrow> Inr 365 | PerLedger \<Rightarrow> Inr LEDGERS_PER_YEAR | OtherFrequency _ \<Rightarrow> Inl RangeError)"

definition aprToApy :: "(js_number \<Rightarrow> js_number \<Rightarrow> js_number) \<Rightarrow> js_number \<Rightarrow> CompoundingFrequency \<Rightarrow> js_error + js_number" where
  "aprToApy pow apr f =
     (if \<not> isFinite apr then Inl RangeError
      else case compoundingPeriodsPerYear f of
        Inl e \<Rightarrow> Inl e
      | Inr n \<Rightarrow>
          (let base = numAdd (Fin 1) (numDiv apr (Fin n)) in
           if numLess base (Fin 0) then Inl RangeError else Inr (numSub (pow base (Fin n)) (Fin 1))))"

definition apyToApr :: "(js_number \<Rightarrow> js_number \<Rightarrow> js_number) \<Rightarrow> js_number \<Rightarrow> CompoundingFrequency \<Rightarrow> js_error + js_number" where
  "apyToApr pow apy f =
     (if \<not> isFinite apy then Inl RangeError
      else if numLess apy (Fin (- 1)) then Inl RangeError
      else case compoundingPeriodsPerYear f of
        Inl e \<Rightarrow> Inl e
      | Inr n \<Rightarrow>
          Inr (numMul (Fin n) (numSub (pow (numAdd (Fin 1) apy) (numDiv (Fin 1) (Fin n))) (Fin 1))))"

record YieldWindow =
  startLedger :: js_number
  endLedger :: js_number

definition positivePrice :: "js_number option \<Rightarrow> bool" where
  "positivePrice p = (case p of Some (Fin q) \<Rightarrow> 0 < q | _ \<Rightarrow> False)"

definition pricedSnapshots :: "ApySnapshot list \<Rightarrow> YieldWindow \<Rightarrow> ApySnapshot list" where
  "pricedSnapshots snapshots window =
     sort_key snap_ledger
       (filter (\<lambda>s. \<not> numLess (Fin (of_int (snap_ledger s))) (startLedger window) \<and>
                    \<not> numLess (endLedger window) (Fin (of_int (snap_ledger s))) \<and> positivePrice (snap_sharePrice s)) snapshots)"

definition timeWeightedYield :: "ApySnapshot list \<Rightarrow> YieldWindow \<Rightarrow> js_error + js_number option" where
  "timeWeightedYield snapshots window =
     (if \<not> isFinite (startLedger window) \<or> \<not> isFinite (endLedger window) then Inl RangeError
      else if numLess (endLedger window) (startLedger window) then Inl RangeError
      else let priced = pricedSnapshots snapshots window in
           if length priced < 2 then Inr None
           else Inr (Some (numSub (numDiv (the (snap_sharePrice (last priced))) (the (snap_sharePrice (hd priced)))) (Fin 1))))"

record ApyResult =
  ar_apy :: js_number
  ar_historical :: ApySnapshot
  ar_current :: ApySnapshot
  ar_windowLedgers :: int
  ar_windowDays :: js_number

definition annualise :: "(js_number \<Rightarrow> js_number \<Rightarrow> js_number) \<Rightarrow> js_number \<Rightarrow> js_number \<Rightarrow> int \<Rightarrow> js_number" where
  "annualise pow historical current window =
     (let growth = numDiv (numSub current historical) historical;
          periods = numDiv (Fin LEDGERS_PER_YEAR) (Fin (of_int window))
      in numSub (pow (numAdd (Fin 1) growth) periods) (Fin 1))"

definition calculateApy ::
    "(js_number \<Rightarrow> js_number \<Rightarrow> js_number) \<Rightarrow> 'w ApyServer \<Rightarrow> int option \<Rightarrow> 'w \<Rightarrow> ((js_error + ApyResult option) \<times> 'w)" where
  "calculateApy pow S lookback w =
     (let lookbackLedgers = (case lookback of Some n \<Rightarrow> n | None \<Rightarrow> DEFAULT_LOOKBACK_LEDGERS) in
      if lookbackLedgers \<le> 0 then (Inl RangeError, w)
      else case latestLedgerSequence S w of
        (Inl e, w1) \<Rightarrow> (Inl (JsError e), w1)
      | (Inr latestLedger, w1) \<Rightarrow>
          (let historicalLedger = max 1 (latestLedger - lookbackLedgers); actualWindow = latestLedger - historicalLedger in
           case readSnapshot S historicalLedger w1 of (historical, w2) \<Rightarrow>
          (case readSnapshot S latestLedger w2 of (current, w3) \<Rightarrow>
             (case (snap_sharePrice historical, snap_sharePrice current) of
                (Some p0, Some p1) \<Rightarrow>
                  (Inr (Some \<lparr>ar_apy = annualise pow p0 p1 actualWindow, ar_historical = historical, ar_current = current,
                              ar_windowLedgers = actualWindow,
                              ar_windowDays = numDiv (numDiv (Fin (of_int actualWindow * LEDGER_CLOSE_TIME_S)) (Fin 3600)) (Fin 24)\<rparr>), w3)
              | _ \<Rightarrow> (Inr None, w3)))))"

subsection \<open>128-bit values\<close>

lemma i128Value_sum:
  assumes "0 \<le> lo" and "lo < 2 ^ 64"
  shows "i128Value hi lo = hi * 2 ^ 64 + lo"
proof -
  have lo: "take_bit 64 lo = lo" using assms by (simp add: take_bit_int_eq_self)
  have "push_bit 64 hi AND lo = 0"
    by (subst lo [symmetric]) (rule bit_eqI, auto simp: bit_simps)
  then have "push_bit 64 hi OR lo = push_bit 64 hi + lo"
    by (simp add: disjunctive_add_eq_or)
  then show ?thesis by (simp add: i128Value_def push_bit_eq_mult)
qed

text \<open>Every 128-bit value is rebuilt from its halves, and halves in range give a 128-bit value.\<close>

lemma i128_roundtrip: "i128Value (v div 2 ^ 64) (v mod 2 ^ 64) = v"
  by (subst i128Value_sum) (simp_all add: div_mult_mod_eq)

lemma i128_range:
  assumes "- (2 ^ 63) \<le> hi" "hi < 2 ^ 63" "0 \<le> lo" "lo < 2 ^ 64"
  shows "- (2 ^ 127) \<le> i128Value hi lo \<and> i128Value hi lo < 2 ^ 127"
  using assms by (simp add: i128Value_sum)

subsection \<open>The yield of a window\<close>

text \<open>The reference: the product of the price ratios of successive snapshots.\<close>

fun geometricLink :: "rat list \<Rightarrow> rat" where
  "geometricLink (p # q # ps) = (q / p) * geometricLink (q # ps)"
| "geometricLink _ = 1"

lemma geometricLink_telescopes:
  "ps \<noteq> [] \<Longrightarrow> (\<forall>p \<in> set ps. 0 < p) \<Longrightarrow> geometricLink ps = last ps / hd ps"
  by (induction ps rule: geometricLink.induct) auto

definition priceOf :: "ApySnapshot \<Rightarrow> rat" where
  "priceOf s = (case snap_sharePrice s of Some (Fin q) \<Rightarrow> q | _ \<Rightarrow> 0)"

lemma positivePrice_iff: "positivePrice p \<longleftrightarrow> (\<exists>q. p = Some (Fin q) \<and> 0 < q)"
  by (auto simp: positivePrice_def split: option.split_asm js_number.split_asm)

text \<open>
  The snapshots that count, in the order of the ledgers, are determined by which they are: there is one
  strictly ascending list of them.
\<close>

lemma pricedSnapshots_unique:
  assumes "distinct (map snap_ledger snaps)"
    and "sorted_wrt (\<lambda>s t. snap_ledger s < snap_ledger t) ps"
    and "set ps = set (pricedSnapshots snaps window)"
  shows "pricedSnapshots snaps window = ps"
proof -
  let ?qs = "pricedSnapshots snaps window"
  have sub: "set ?qs \<subseteq> set snaps" by (auto simp: pricedSnapshots_def)
  have inj: "inj_on snap_ledger (set snaps)" using assms(1) by (simp add: distinct_map)
  have "distinct ?qs" using assms(1) by (simp add: pricedSnapshots_def distinct_map)
  then have "distinct (map snap_ledger ?qs)" using inj sub by (auto simp: distinct_map intro: inj_on_subset)
  moreover have "sorted (map snap_ledger ?qs)" by (simp add: pricedSnapshots_def)
  moreover have "sorted_wrt (<) (map snap_ledger ps)" using assms(2) by (simp add: sorted_wrt_map)
  then have "sorted (map snap_ledger ps)" "distinct (map snap_ledger ps)" by (simp_all add: strict_sorted_iff)
  ultimately have "map snap_ledger ?qs = map snap_ledger ps"
    using assms(3) by (intro sorted_distinct_set_unique) simp_all
  then show ?thesis using inj sub assms(3) by (auto intro: map_inj_on inj_on_subset)
qed

text \<open>
  C38. Let the ledgers of the snapshots differ, and let \<open>ps\<close> be the snapshots whose ledger lies in the window, both ends
  included, and whose price is a positive finite number, listed by ascending ledger; in which order the snapshots
  were given does not matter. The yield is the geometric link of the price ratios of successive snapshots of
  \<open>ps\<close>, rounded, less one, and it is absent exactly when \<open>ps\<close> has fewer than two. A window
  that ends before it begins or has an end that is not finite is the error.
\<close>

theorem timeWeightedYield_links_geometrically:
  assumes "distinct (map snap_ledger snaps)"
    and "sorted_wrt (\<lambda>s t. snap_ledger s < snap_ledger t) ps"
    and "set ps = {s \<in> set snaps. a \<le> of_int (snap_ledger s) \<and> of_int (snap_ledger s) \<le> b \<and>
      (\<exists>q. snap_sharePrice s = Some (Fin q) \<and> 0 < q)}"
  shows "timeWeightedYield snaps \<lparr>startLedger = Fin a, endLedger = Fin b\<rparr> =
       (if b < a then Inl RangeError
        else Inr (if length ps < 2 then None
                  else Some (numSub (roundDouble (geometricLink (map priceOf ps))) (Fin 1)))) \<and>
     (\<not> isFinite x \<or> \<not> isFinite y \<longrightarrow>
        timeWeightedYield snaps \<lparr>startLedger = x, endLedger = y\<rparr> = Inl RangeError)"
proof -
  let ?w = "\<lparr>startLedger = Fin a, endLedger = Fin b\<rparr>"
  have "set ps = set (pricedSnapshots snaps ?w)"
    unfolding assms(3) by (auto simp: pricedSnapshots_def positivePrice_iff not_less)
  note priced = pricedSnapshots_unique [OF assms(1,2) this]
  have "numDiv (the (snap_sharePrice (last ps))) (the (snap_sharePrice (hd ps))) =
      roundDouble (geometricLink (map priceOf ps))" if "\<not> length ps < 2"
  proof -
    from that have ne: "ps \<noteq> []" by auto
    have pos: "snap_sharePrice s = Some (Fin (priceOf s)) \<and> 0 < priceOf s" if "s \<in> set ps" for s
      using that unfolding assms(3) by (auto simp: priceOf_def)
    have "geometricLink (map priceOf ps) = priceOf (last ps) / priceOf (hd ps)"
      using ne pos by (subst geometricLink_telescopes) (auto simp: last_map hd_map)
    with pos [OF last_in_set [OF ne]] pos [OF hd_in_set [OF ne]] show ?thesis by simp
  qed
  then show ?thesis by (auto simp: timeWeightedYield_def priced Let_def)
qed

definition demoSnapshot :: "int \<Rightarrow> rat \<Rightarrow> ApySnapshot" where
  "demoSnapshot l p = \<lparr>snap_ledger = l, snap_totalAssets = 0, snap_totalShares = 1, snap_sharePrice = Some (Fin p)\<rparr>"

lemma timeWeightedYield_links_geometrically_witness:
  "timeWeightedYield [demoSnapshot 30 3, demoSnapshot 10 1, demoSnapshot 40 9, demoSnapshot 20 2]
     \<lparr>startLedger = Fin 10, endLedger = Fin 30\<rparr> = Inr (Some (Fin 2))"
proof -
  let ?s = "[demoSnapshot 30 3, demoSnapshot 10 1, demoSnapshot 40 9, demoSnapshot 20 2]"
  let ?p = "[demoSnapshot 10 1, demoSnapshot 20 2, demoSnapshot 30 3]"
  have r: "roundDouble 3 = Fin 3" "roundDouble 2 = Fin 2" using roundDouble_int [of 3] roundDouble_int [of 2] by simp_all
  have d: "distinct (map snap_ledger ?s)" "sorted_wrt (\<lambda>s t. snap_ledger s < snap_ledger t) ?p"
    by (simp_all add: demoSnapshot_def)
  have s: "set ?p = {s \<in> set ?s. 10 \<le> (of_int (snap_ledger s) :: rat) \<and> of_int (snap_ledger s) \<le> (30 :: rat) \<and>
      (\<exists>q. snap_sharePrice s = Some (Fin q) \<and> 0 < q)}"
    by (auto simp: demoSnapshot_def)
  from timeWeightedYield_links_geometrically [OF d s, of NaN NaN]
  have "timeWeightedYield ?s \<lparr>startLedger = Fin 10, endLedger = Fin 30\<rparr> =
     Inr (Some (numSub (roundDouble (geometricLink (map priceOf ?p))) (Fin 1)))" by simp
  then show ?thesis by (simp add: priceOf_def demoSnapshot_def r numSub_def)
qed

subsection \<open>A failed read\<close>

text \<open>
  A read of \<^verbatim>\<open>total_assets\<close> that fails counts as no assets, although the supply is known to be positive: the price is zero. At
  the latest ledger the vault then seems to have lost everything, at the earlier one to have grown without bound; neither
  gives the \<^verbatim>\<open>null\<close> that the documentation promises for missing data.
\<close>

lemma failed_read_price:
  assumes "0 < s" and "roundDouble (of_int s) = Fin q" and "q \<noteq> 0"
  shows "snap_sharePrice (snapshotOf l None (Some s)) = Some (Fin 0)"
  using assms by (simp add: snapshotOf_def roundDouble_def)

lemma failed_current_read:
  assumes "0 < p" and "roundDouble (- p) = Fin (- p)"
  shows "annualise pow (Fin p) (Fin 0) window =
     numSub (pow (Fin 0) (numDiv (Fin LEDGERS_PER_YEAR) (Fin (of_int window)))) (Fin 1)"
proof -
  have "roundDouble (- 1) = Fin (- 1)" "roundDouble 0 = Fin 0" using roundDouble_int [of "- 1"] roundDouble_int [of 0] by simp_all
  with assms show ?thesis by (simp add: annualise_def numSub_def Let_def)
qed

lemma failed_historical_read:
  assumes "0 < p" and "roundDouble p = Fin p"
  shows "annualise pow (Fin 0) (Fin p) window =
     numSub (pow (Infinite False) (numDiv (Fin LEDGERS_PER_YEAR) (Fin (of_int window)))) (Fin 1)"
  using assms by (simp add: annualise_def numSub_def Let_def)

text \<open>Every reported window is positive, or the chain has a single ledger.\<close>

lemma apy_window:
  assumes "calculateApy pow S lookback w = (Inr (Some r), w')" and "latestLedgerSequence S w = (Inr L, w1)" and "1 \<le> L"
  shows "0 \<le> ar_windowLedgers r \<and> (ar_windowLedgers r = 0 \<longleftrightarrow> L = 1)"
  using assms
  by (auto simp: calculateApy_def Let_def split: if_split_asm prod.split_asm option.split_asm)

end
