(* ===== verification/CliNetwork.thy ===== *)
theory CliNetwork
  imports Forge_Effects
begin

text \<open>
  \<^verbatim>\<open>src/cli/src/network.ts\<close>: names of networks, their presets, and the resolution of the network
  options of a command and its ancestors.

  A network name is a string. The table of aliases is a plain object, so that a lookup also finds
  the inherited members of \<^verbatim>\<open>Object.prototype\<close>; the two whose names survive \<^verbatim>\<open>toLowerCase\<close> are listed
  in \<open>inheritedName\<close> with the text they turn into as a property key. A command of the commander library is the list of its options
  with value and source; the action command comes first in a chain, then its ancestors.
\<close>

subsection \<open>Names and presets\<close>

definition NETWORK_CHOICES :: "string list" where
  "NETWORK_CHOICES = [''testnet'', ''futurenet'', ''mainnet'', ''public'', ''local'']"

record NetworkPreset =
  preset_name :: string
  preset_rpcUrl :: string
  preset_passphrase :: string

record NetworkOverrides =
  ov_network :: "string option"
  ov_rpcUrl :: "string option"
  ov_networkPassphrase :: "string option"

record ResolvedNetworkConfig =
  net_name :: string
  net_rpcUrl :: string
  net_passphrase :: string

definition NETWORK_PRESETS :: "(string \<times> NetworkPreset) list" where
  "NETWORK_PRESETS =
     [(''testnet'', \<lparr>preset_name = ''testnet'', preset_rpcUrl = ''https://soroban-testnet.stellar.org'',
         preset_passphrase = ''Test SDF Network ; September 2015''\<rparr>),
      (''mainnet'', \<lparr>preset_name = ''mainnet'', preset_rpcUrl = ''https://mainnet.sorobanrpc.com'',
         preset_passphrase = ''Public Global Stellar Network ; September 2015''\<rparr>),
      (''futurenet'', \<lparr>preset_name = ''futurenet'', preset_rpcUrl = ''https://rpc-futurenet.stellar.org'',
         preset_passphrase = ''Test SDF Future Network ; October 2022''\<rparr>),
      (''local'', \<lparr>preset_name = ''local'', preset_rpcUrl = ''http://localhost:8000/soroban/rpc'',
         preset_passphrase = ''Standalone Network ; February 2017''\<rparr>)]"

definition NETWORK_ALIASES :: "(string \<times> string) list" where
  "NETWORK_ALIASES =
     [(''testnet'', ''testnet''), (''futurenet'', ''futurenet''), (''mainnet'', ''mainnet''),
      (''pubnet'', ''mainnet''), (''public'', ''mainnet''), (''local'', ''local''), (''standalone'', ''local'')]"

definition inheritedName :: "(string \<times> string) list" where
  "inheritedName = [(''constructor'', ''function Object() { [native code] }''), (''__proto__'', ''[object Object]'')]"

definition BLOCK_EXPLORER_BASE_URLS :: "(string \<times> string option) list" where
  "BLOCK_EXPLORER_BASE_URLS =
     [(''testnet'', Some ''https://stellar.expert/explorer/testnet''),
      (''futurenet'', Some ''https://stellar.expert/explorer/futurenet''),
      (''mainnet'', Some ''https://stellar.expert/explorer/public''),
      (''local'', None)]"

datatype network_error = UnknownNetworkError string | InvalidRpcUrlError string | NetworkTypeError

definition isNetworkName :: "string \<Rightarrow> bool" where
  "isNetworkName value \<longleftrightarrow> value \<in> set NETWORK_CHOICES"

definition parseNetworkName :: "string \<Rightarrow> network_error + string" where
  "parseNetworkName value =
     (if js_trim value = [] then Inl (UnknownNetworkError value)
      else let key = map lower (js_trim value) in
           case map_of NETWORK_ALIASES key of
             Some mapped \<Rightarrow> Inr mapped
           | None \<Rightarrow> (case map_of inheritedName key of
                       Some member \<Rightarrow> Inr member
                     | None \<Rightarrow> Inl (UnknownNetworkError value)))"

definition getBlockExplorerBaseUrl :: "string \<Rightarrow> network_error + string option" where
  "getBlockExplorerBaseUrl network =
     map_sum id (\<lambda>n. case map_of BLOCK_EXPLORER_BASE_URLS n of Some u \<Rightarrow> u | None \<Rightarrow> None)
       (parseNetworkName network)"

text \<open>\<^verbatim>\<open>replace(/\/+$/, "")\<close>.\<close>

definition stripSlashes :: "string \<Rightarrow> string" where
  "stripSlashes s = rev (dropWhile (\<lambda>c. c = CHR ''/'') (rev s))"

text \<open>The third argument is optional; when it is absent or undefined the network decides.\<close>

definition formatContractIdWithExplorer ::
    "(string \<Rightarrow> string) \<Rightarrow> string \<Rightarrow> string \<Rightarrow> string option \<Rightarrow> network_error + string" where
  "formatContractIdWithExplorer encodeURIComponent contractId network explorerBaseUrl =
     map_sum id (\<lambda>base.
         if \<not> truthy base then contractId
         else contractId @ '' ('' @ stripSlashes (the base) @ ''/contract/'' @ encodeURIComponent contractId @ '')'')
       (case explorerBaseUrl of Some u \<Rightarrow> Inr (Some u) | None \<Rightarrow> getBlockExplorerBaseUrl network)"

subsection \<open>Resolution\<close>

text \<open>\<^verbatim>\<open>/^https?:\/\/.+/i\<close>: the dot matches every character but line terminators.\<close>

definition lineTerminator :: "char \<Rightarrow> bool" where
  "lineTerminator c \<longleftrightarrow> c = CHR 0x0A \<or> c = CHR 0x0D"

definition isHttpUrl :: "string \<Rightarrow> bool" where
  "isHttpUrl url \<longleftrightarrow>
     (map lower (take 7 url) = ''http://'' \<and> drop 7 url \<noteq> [] \<and> \<not> lineTerminator (hd (drop 7 url))) \<or>
     (map lower (take 8 url) = ''https://'' \<and> drop 8 url \<noteq> [] \<and> \<not> lineTerminator (hd (drop 8 url)))"

definition assertHttpUrl :: "string \<Rightarrow> network_error + unit" where
  "assertHttpUrl url = (if isHttpUrl url then Inr () else Inl (InvalidRpcUrlError url))"

text \<open>\<^verbatim>\<open>value?.trim() || fallback\<close>.\<close>

definition trimmedOr :: "string option \<Rightarrow> string \<Rightarrow> string" where
  "trimmedOr v fallback =
     (case v of None \<Rightarrow> fallback | Some t \<Rightarrow> if js_trim t = [] then fallback else js_trim t)"

definition resolveNetworkConfig :: "NetworkOverrides \<Rightarrow> network_error + ResolvedNetworkConfig" where
  "resolveNetworkConfig overrides =
     (case parseNetworkName (case ov_network overrides of Some n \<Rightarrow> n | None \<Rightarrow> ''testnet'') of
        Inl e \<Rightarrow> Inl e
      | Inr name \<Rightarrow>
          (case map_of NETWORK_PRESETS name of
             None \<Rightarrow> Inl NetworkTypeError
           | Some preset \<Rightarrow>
               (let rpcUrl = trimmedOr (ov_rpcUrl overrides) (preset_rpcUrl preset);
                    passphrase = trimmedOr (ov_networkPassphrase overrides) (preset_passphrase preset)
                in map_sum id (\<lambda>_. \<lparr>net_name = name, net_rpcUrl = rpcUrl, net_passphrase = passphrase\<rparr>)
                     (assertHttpUrl rpcUrl))))"

subsection \<open>Options of a command chain\<close>

text \<open>An option a command declares: its value, if it has one, and where it came from.\<close>

record CommandOption =
  opt_value :: "string option"
  opt_source :: "string option"

type_synonym command = "(string \<times> CommandOption) list"

definition hasOption :: "command \<Rightarrow> string \<Rightarrow> bool" where
  "hasOption cmd key \<longleftrightarrow> map_of cmd key \<noteq> None"

definition optionSource :: "command \<Rightarrow> string \<Rightarrow> string option" where
  "optionSource cmd key = (case map_of cmd key of None \<Rightarrow> None | Some opt \<Rightarrow> opt_source opt)"

definition optionString :: "command \<Rightarrow> string \<Rightarrow> string option" where
  "optionString cmd key =
     (case map_of cmd key of
        None \<Rightarrow> None
      | Some opt \<Rightarrow>
          (case opt_value opt of Some v \<Rightarrow> if js_trim v \<noteq> [] then Some v else None | None \<Rightarrow> None))"

fun pickFirst :: "(command \<Rightarrow> string option) \<Rightarrow> command list \<Rightarrow> string option" where
  "pickFirst f [] = None"
| "pickFirst f (c # cs) = (case f c of Some v \<Rightarrow> Some v | None \<Rightarrow> pickFirst f cs)"

definition mergeNetworkOptions :: "command list \<Rightarrow> NetworkOverrides" where
  "mergeNetworkOptions chain =
     \<lparr>ov_network = pickFirst (\<lambda>c. optionString c ''network'') chain,
      ov_rpcUrl = pickFirst (\<lambda>c. optionString c ''rpcUrl'') chain,
      ov_networkPassphrase = pickFirst (\<lambda>c. optionString c ''networkPassphrase'') chain\<rparr>"

text \<open>Only what the user typed counts; the first such command decides, even without a value.\<close>

fun pickExplicit :: "string \<Rightarrow> command list \<Rightarrow> string option" where
  "pickExplicit key [] = None"
| "pickExplicit key (c # cs) =
     (if optionSource c key = Some ''cli''
      then (case map_of c key of Some opt \<Rightarrow> opt_value opt | None \<Rightarrow> None)
      else pickExplicit key cs)"

definition explicitNetworkOverrides :: "command list \<Rightarrow> NetworkOverrides" where
  "explicitNetworkOverrides chain =
     \<lparr>ov_network = pickExplicit ''network'' chain, ov_rpcUrl = pickExplicit ''rpcUrl'' chain,
      ov_networkPassphrase = pickExplicit ''networkPassphrase'' chain\<rparr>"

definition assignOption :: "string \<Rightarrow> string \<Rightarrow> command \<Rightarrow> command" where
  "assignOption key value cmd =
     (if \<not> hasOption cmd key then cmd
      else if optionSource cmd key = Some ''cli'' then cmd
      else AList.update key \<lparr>opt_value = Some value, opt_source = Some ''default''\<rparr> cmd)"

text \<open>The hook that runs before an action: the action command is the head of the chain.\<close>

definition attachNetworkResolution :: "command \<Rightarrow> command list \<Rightarrow> network_error + command" where
  "attachNetworkResolution actionCommand ancestors =
     map_sum id (\<lambda>resolved.
         assignOption ''networkPassphrase'' (net_passphrase resolved)
           (assignOption ''rpcUrl'' (net_rpcUrl resolved)
             (assignOption ''network'' (net_name resolved) actionCommand)))
       (resolveNetworkConfig (mergeNetworkOptions (actionCommand # ancestors)))"

subsection \<open>Facts on resolution\<close>

lemma alias_targets:
  "map_of NETWORK_ALIASES k = Some n \<Longrightarrow> \<exists>p. map_of NETWORK_PRESETS n = Some p \<and> preset_name p = n"
  by (auto simp: NETWORK_ALIASES_def NETWORK_PRESETS_def split: if_splits)

lemma parseNetworkName_cases:
  "parseNetworkName v = Inr n \<Longrightarrow>
     map_of NETWORK_ALIASES (map lower (js_trim v)) = Some n \<or> map_of inheritedName (map lower (js_trim v)) = Some n"
  by (auto simp: parseNetworkName_def Let_def split: if_splits option.splits)

lemma presets_not_inherited:
  "map_of inheritedName k = Some n \<Longrightarrow> map_of NETWORK_PRESETS n = None"
  by (auto simp: inheritedName_def NETWORK_PRESETS_def split: if_splits)

text \<open>A resolved configuration names a preset and carries an http URL and the explicit values.\<close>

lemma resolveNetworkConfig_Inr:
  assumes "resolveNetworkConfig ov = Inr r"
  shows "(\<exists>p. map_of NETWORK_PRESETS (net_name r) = Some p \<and>
     net_rpcUrl r = trimmedOr (ov_rpcUrl ov) (preset_rpcUrl p) \<and>
     net_passphrase r = trimmedOr (ov_networkPassphrase ov) (preset_passphrase p)) \<and> isHttpUrl (net_rpcUrl r)"
  using assms
  by (auto simp: resolveNetworkConfig_def assertHttpUrl_def Let_def split: sum.splits option.splits if_splits)

lemma preset_names: "fst ` set NETWORK_PRESETS = {''testnet'', ''mainnet'', ''futurenet'', ''local''}"
  by (simp add: NETWORK_PRESETS_def)

lemma parse_names:
  "parseNetworkName ''testnet'' = Inr ''testnet''" "parseNetworkName ''mainnet'' = Inr ''mainnet''"
  "parseNetworkName ''futurenet'' = Inr ''futurenet''" "parseNetworkName ''local'' = Inr ''local''"
  by code_simp+

lemma parseNetworkName_preset [simp]:
  "n \<in> fst ` set NETWORK_PRESETS \<Longrightarrow> parseNetworkName n = Inr n"
  unfolding preset_names using parse_names by blast

text \<open>The name a parse returns parses again to itself, unless it is an inherited member.\<close>

lemma parse_again:
  assumes "parseNetworkName v = Inr n" and "parseNetworkName n = Inr m"
  shows "m = n"
proof -
  consider "map_of NETWORK_ALIASES (map lower (js_trim v)) = Some n" | "map_of inheritedName (map lower (js_trim v)) = Some n"
    using parseNetworkName_cases [OF assms(1)] by blast
  then show ?thesis
  proof cases
    case 1
    then have "n \<in> fst ` set NETWORK_PRESETS" using alias_targets [OF 1] by (force dest: map_of_SomeD)
    with assms(2) show ?thesis by simp
  next
    case 2
    then have "n = ''function Object() { [native code] }'' \<or> n = ''[object Object]''"
      by (auto simp: inheritedName_def split: if_splits)
    moreover have "parseNetworkName ''function Object() { [native code] }'' = Inl (UnknownNetworkError ''function Object() { [native code] }'')"
      "parseNetworkName ''[object Object]'' = Inl (UnknownNetworkError ''[object Object]'')"
      by code_simp+
    ultimately show ?thesis using assms(2) by auto
  qed
qed

text \<open>Flags the user typed on the action command survive the hook.\<close>

lemma assignOption_cli:
  "optionSource cmd key = Some ''cli'' \<Longrightarrow> map_of (assignOption k v cmd) key = map_of cmd key"
  by (auto simp: assignOption_def update_conv')

lemma attach_keeps_cli_flags:
  assumes "attachNetworkResolution cmd ancestors = Inr cmd'" and "optionSource cmd key = Some ''cli''"
  shows "map_of cmd' key = map_of cmd key"
proof -
  have keep: "optionSource (assignOption k v c) key = Some ''cli''" if "optionSource c key = Some ''cli''" for k v c
    using assignOption_cli [OF that] that by (simp add: optionSource_def)
  show ?thesis
    using assms keep
    by (auto simp: attachNetworkResolution_def map_sum_def assignOption_cli split: sum.splits)
qed

end
