(* ===== verification/CliRegistry.thy ===== *)
theory CliRegistry
  imports CliNetwork
begin

text \<open>
  The files of the command line tool: \<^verbatim>\<open>src/cli/src/utils/deployments.ts\<close> (artifacts and the atomic
  write), \<^verbatim>\<open>src/cli/src/utils/registry.ts\<close> (aliases of contract ids per network) and
  \<^verbatim>\<open>src/cli/src/commands/deploy.ts\<close> (the vault deployment that exports artifacts).

  A file holds the document that \<^verbatim>\<open>JSON.parse\<close> reads from it, or text it rejects; writing a document
  stores what \<^verbatim>\<open>JSON.stringify\<close> renders. JavaScript objects are association lists in insertion
  order. A system call fails when \<open>Faults\<close> gives an error text for it, and \<open>writeJsonAtomic\<close>
  also returns every state of the file system on the way, so that a crash between two calls can be
  talked about. Documents with a key \<^verbatim>\<open>__proto__\<close> are not considered. Messages leave out the
  quotation marks and hints of the source.
\<close>

subsection \<open>Documents and files\<close>

datatype json =
    JNull | JBool bool | JNum int | JStr string | JArr "json list" | JObj "(string \<times> json) list"

text \<open>A file holds a document, text that does not parse, or cannot be read; with the message of the error.\<close>

datatype content = Document json | Garbled string | Unreadable string

type_synonym filesystem = "string \<rightharpoonup> content"

datatype syscall = Mkdir | Open | Write | Fsync | Close | Rename | Unlink

text \<open>The outcome of every system call, and the text that is on disk when a write stops half way.\<close>

record Faults =
  fault :: "syscall \<Rightarrow> string option"
  partialText :: string

datatype cli_error =
    NetworkErr network_error
  | UnknownAliasError string string
  | CliError string

record ExportDeploymentsResult =
  export_success :: bool
  export_filePath :: string
  export_error :: "string option"

subsection \<open>Atomic writes\<close>

text \<open>The clean-up of the catch block: the temporary file is removed if it is there and that works.\<close>

definition cleanup :: "Faults \<Rightarrow> string \<Rightarrow> filesystem \<Rightarrow> filesystem" where
  "cleanup faults tmp fs = (if fs tmp \<noteq> None \<and> fault faults Unlink = None then fs(tmp := None) else fs)"

definition failedWrite :: "Faults \<Rightarrow> string \<Rightarrow> string \<Rightarrow> string \<Rightarrow> filesystem list \<Rightarrow> filesystem \<Rightarrow>
    ExportDeploymentsResult \<times> filesystem list" where
  "failedWrite faults target tmp msg trace fs =
     (\<lparr>export_success = False, export_filePath = target,
       export_error = Some (''Failed to write deployment file atomically: '' @ msg)\<rparr>,
      trace @ [cleanup faults tmp fs])"

text \<open>
  The file is opened empty, then holds an unknown part of the text while it is written. \<^verbatim>\<open>closeSync\<close>
  runs in a \<^verbatim>\<open>finally\<close> block, so that its error takes the place of an earlier one. The trace lists
  the file system after every step.
\<close>

definition writeJsonAtomic ::
    "Faults \<Rightarrow> string \<Rightarrow> string \<Rightarrow> json \<Rightarrow> filesystem \<Rightarrow> ExportDeploymentsResult \<times> filesystem list" where
  "writeJsonAtomic faults target tmp doc fs =
     (case fault faults Mkdir of
        Some msg \<Rightarrow>
          (\<lparr>export_success = False, export_filePath = target,
            export_error = Some (''Failed to create destination directory: '' @ msg)\<rparr>, [fs])
      | None \<Rightarrow>
     (case fault faults Open of
        Some msg \<Rightarrow> failedWrite faults target tmp msg [fs] fs
      | None \<Rightarrow>
     (let opened = fs(tmp \<mapsto> Garbled []); partial = fs(tmp \<mapsto> Garbled (partialText faults)); full = fs(tmp \<mapsto> Document doc) in
      case (case fault faults Write of
              Some msg \<Rightarrow> (Some msg, [fs, opened, partial], partial)
            | None \<Rightarrow> (fault faults Fsync, [fs, opened, partial, full], full)) of
        (bodyError, trace, fs1) \<Rightarrow>
          (case (case fault faults Close of Some msg \<Rightarrow> Some msg | None \<Rightarrow> bodyError) of
             Some msg \<Rightarrow> failedWrite faults target tmp msg trace fs1
           | None \<Rightarrow>
               (case fault faults Rename of
                  Some msg \<Rightarrow> failedWrite faults target tmp msg trace fs1
                | None \<Rightarrow>
                    (\<lparr>export_success = True, export_filePath = target, export_error = None\<rparr>,
                     trace @ [fs1(tmp := None, target \<mapsto> Document doc)]))))))"

subsection \<open>Artifacts\<close>

record BuildDeploymentArtifactsInput =
  in_network :: "string option"
  in_rpcUrl :: "string option"
  in_vaultContractId :: "string option"
  in_vaultWasmHash :: "string option"
  in_feeContractId :: "string option"
  in_feeWasmHash :: "string option"
  in_linkTxHash :: "string option"
  in_contracts :: "(string \<times> json) list"
  in_txHashes :: "(string \<times> json) list"

text \<open>\<^verbatim>\<open>...(value ? { key: value } : {})\<close>.\<close>

definition optionalField :: "string \<Rightarrow> string option \<Rightarrow> (string \<times> json) list" where
  "optionalField key v = (if truthy v then [(key, JStr (the v))] else [])"

definition contractArtifact :: "string \<Rightarrow> string option \<Rightarrow> string \<Rightarrow> json" where
  "contractArtifact contractId wasmHash timestamp =
     JObj ([(''contractId'', JStr contractId)] @ optionalField ''wasmHash'' wasmHash @
           [(''deployedAt'', JStr timestamp)])"

definition buildDeploymentArtifacts :: "string \<Rightarrow> BuildDeploymentArtifactsInput \<Rightarrow> (string \<times> json) list" where
  "buildDeploymentArtifacts timestamp input =
     (let contracts = in_contracts input;
          contracts = (if truthy (in_vaultContractId input)
             then AList.update ''vault'' (contractArtifact (the (in_vaultContractId input)) (in_vaultWasmHash input) timestamp) contracts
             else contracts);
          contracts = (if truthy (in_feeContractId input)
             then AList.update ''fee'' (contractArtifact (the (in_feeContractId input)) (in_feeWasmHash input) timestamp) contracts
             else contracts);
          txHashes = (if truthy (in_linkTxHash input)
             then AList.update ''linkTxHash'' (JStr (the (in_linkTxHash input))) (in_txHashes input)
             else in_txHashes input)
      in [(''version'', JStr ''1.0.0'')] @ optionalField ''network'' (in_network input) @
         optionalField ''rpcUrl'' (in_rpcUrl input) @
         [(''timestamp'', JStr timestamp), (''contracts'', JObj contracts)] @
         (if txHashes \<noteq> [] then [(''txHashes'', JObj txHashes)] else []))"

definition exportDeploymentsToFile ::
    "Faults \<Rightarrow> string \<Rightarrow> string \<Rightarrow> (string \<times> json) list \<Rightarrow> filesystem \<Rightarrow> ExportDeploymentsResult \<times> filesystem list" where
  "exportDeploymentsToFile faults targetPath tmp artifacts fs =
     writeJsonAtomic faults targetPath tmp (JObj artifacts) fs"

definition jsonTruthy :: "json \<Rightarrow> bool" where
  "jsonTruthy v =
     (case v of
        JNull \<Rightarrow> False
      | JBool b \<Rightarrow> b
      | JNum i \<Rightarrow> i \<noteq> 0
      | JStr s \<Rightarrow> s \<noteq> []
      | _ \<Rightarrow> True)"

definition loadDeploymentsFromFile :: "string \<Rightarrow> filesystem \<Rightarrow> cli_error + (string \<times> json) list" where
  "loadDeploymentsFromFile path fs =
     (case fs path of
        None \<Rightarrow> Inl (CliError (''Deployment file not found at '' @ path))
      | Some (Garbled m) \<Rightarrow> Inl (CliError (''Failed to read or parse deployment file: '' @ m))
      | Some (Unreadable m) \<Rightarrow> Inl (CliError (''Failed to read or parse deployment file: '' @ m))
      | Some (Document (JObj o1)) \<Rightarrow>
          (if (case map_of o1 ''contracts'' of Some v \<Rightarrow> jsonTruthy v | None \<Rightarrow> False) then Inr o1
           else Inl (CliError (''Invalid deployment JSON schema at '' @ path)))
      | Some (Document _) \<Rightarrow> Inl (CliError (''Invalid deployment JSON schema at '' @ path)))"

subsection \<open>Contract ids, secrets and aliases\<close>

definition inRange :: "char \<Rightarrow> char \<Rightarrow> char \<Rightarrow> bool" where
  "inRange a b c \<longleftrightarrow> (of_char a :: nat) \<le> of_char c \<and> (of_char c :: nat) \<le> of_char b"

text \<open>The base 32 alphabet \<^verbatim>\<open>[A-Z2-7]\<close>.\<close>

definition base32 :: "char \<Rightarrow> bool" where
  "base32 c \<longleftrightarrow> inRange CHR ''A'' CHR ''Z'' c \<or> inRange CHR ''2'' CHR ''7'' c"

definition strKeyShape :: "char \<Rightarrow> string \<Rightarrow> bool" where
  "strKeyShape k value \<longleftrightarrow> length value = 56 \<and> hd value = k \<and> (\<forall>c \<in> set (tl value). base32 c)"

definition isContractId :: "string \<Rightarrow> bool" where
  "isContractId value \<longleftrightarrow> strKeyShape CHR ''C'' value"

definition isSecretKey :: "string \<Rightarrow> bool" where
  "isSecretKey value \<longleftrightarrow> strKeyShape CHR ''S'' value"

definition letter :: "char \<Rightarrow> bool" where
  "letter c \<longleftrightarrow> inRange CHR ''A'' CHR ''Z'' c \<or> inRange CHR ''a'' CHR ''z'' c"

text \<open>\<^verbatim>\<open>/^[A-Za-z][A-Za-z0-9_-]{0,63}$/\<close>.\<close>

definition aliasShape :: "string \<Rightarrow> bool" where
  "aliasShape s \<longleftrightarrow> s \<noteq> [] \<and> length s \<le> 64 \<and> letter (hd s) \<and>
     (\<forall>c \<in> set (tl s). letter c \<or> isDigit c \<or> c = CHR ''_'' \<or> c = CHR ''-'')"

subsection \<open>Reading the registry\<close>

definition readDeploymentsDocument ::
    "string \<Rightarrow> bool \<Rightarrow> filesystem \<Rightarrow> cli_error + (string \<times> json) list option" where
  "readDeploymentsDocument path strict fs =
     (case fs path of
        None \<Rightarrow> Inr None
      | Some (Garbled m) \<Rightarrow>
          (if strict then Inl (CliError (''Deployments registry at '' @ path @ '' is not valid JSON: '' @ m))
           else Inr None)
      | Some (Unreadable m) \<Rightarrow>
          (if strict then Inl (CliError (''Deployments registry at '' @ path @ '' is not valid JSON: '' @ m))
           else Inr None)
      | Some (Document (JObj o1)) \<Rightarrow> Inr (Some o1)
      | Some (Document _) \<Rightarrow>
          (if strict then Inl (CliError (''Deployments registry at '' @ path @ '' must be a JSON object.''))
           else Inr None))"

definition contractIdFromAliasValue :: "json \<Rightarrow> string option" where
  "contractIdFromAliasValue value =
     (case value of
        JStr s \<Rightarrow> if js_trim s \<noteq> [] then Some (js_trim s) else None
      | JObj o1 \<Rightarrow> (case map_of o1 ''contractId'' of
                     Some (JStr s) \<Rightarrow> if js_trim s \<noteq> [] then Some (js_trim s) else None
                   | _ \<Rightarrow> None)
      | _ \<Rightarrow> None)"

type_synonym alias_bucket = "(string \<times> string) list"
type_synonym NetworkAliasMap = "(string \<times> alias_bucket) list"

fun aliasBucket :: "(string \<times> json) list \<Rightarrow> alias_bucket" where
  "aliasBucket [] = []"
| "aliasBucket ((a, v) # rest) =
     (case contractIdFromAliasValue v of
        Some contractId \<Rightarrow>
          if isSecretKey contractId then aliasBucket rest else (a, contractId) # aliasBucket rest
      | None \<Rightarrow> aliasBucket rest)"

fun networkBuckets :: "(string \<times> json) list \<Rightarrow> NetworkAliasMap" where
  "networkBuckets [] = []"
| "networkBuckets ((n, v) # rest) =
     (case v of JObj aliases \<Rightarrow> (n, aliasBucket aliases) # networkBuckets rest | _ \<Rightarrow> networkBuckets rest)"

definition networksFromDocument :: "(string \<times> json) list option \<Rightarrow> NetworkAliasMap" where
  "networksFromDocument doc =
     (case doc of
        None \<Rightarrow> []
      | Some o1 \<Rightarrow> (case map_of o1 ''networks'' of Some (JObj ns) \<Rightarrow> networkBuckets ns | _ \<Rightarrow> []))"

subsection \<open>Registering and resolving\<close>

fun addAliases :: "(string \<times> string option) list \<Rightarrow> alias_bucket \<Rightarrow> alias_bucket" where
  "addAliases [] bucket = bucket"
| "addAliases ((a, v) # rest) bucket =
     addAliases rest
       (case v of
          None \<Rightarrow> bucket
        | Some contractId \<Rightarrow>
            if js_trim contractId = [] \<or> isSecretKey (js_trim contractId) \<or> \<not> aliasShape a then bucket
            else AList.update a (js_trim contractId) bucket)"

definition mergeNetworkAliases ::
    "NetworkAliasMap \<Rightarrow> string \<Rightarrow> (string \<times> string option) list \<Rightarrow> network_error + NetworkAliasMap" where
  "mergeNetworkAliases networks network aliases =
     (case parseNetworkName network of
        Inl e \<Rightarrow> Inl e
      | Inr canonical \<Rightarrow>
          (let bucket = addAliases aliases (case map_of networks canonical of Some b \<Rightarrow> b | None \<Rightarrow> []) in
           Inr (if bucket = [] then AList.delete canonical networks
                else AList.update canonical bucket networks)))"

definition assertRegisterInput :: "string \<Rightarrow> string \<Rightarrow> cli_error + (string \<times> string)" where
  "assertRegisterInput alias contractId =
     (let a = js_trim alias; i = js_trim contractId in
      if \<not> aliasShape a then Inl (CliError (''Invalid alias '' @ a))
      else if isContractId a then Inl (CliError (''Alias looks like a contract id: '' @ a))
      else if isSecretKey i then Inl (CliError ''Refusing to store a secret key in the deployments registry.'')
      else if \<not> isContractId i then Inl (CliError (''Invalid contract id '' @ i))
      else Inr (a, i))"

definition networksJson :: "NetworkAliasMap \<Rightarrow> json" where
  "networksJson networks = JObj (map (\<lambda>(n, b). (n, JObj (map (\<lambda>(a, i). (a, JStr i)) b))) networks)"

record RegisterAliasResult =
  reg_filePath :: string
  reg_network :: string
  reg_alias :: string
  reg_contractId :: string

text \<open>The result and the final state of the file system.\<close>

definition registerDeploymentAlias ::
    "Faults \<Rightarrow> string \<Rightarrow> string \<Rightarrow> string \<Rightarrow> string \<Rightarrow> string \<Rightarrow> filesystem \<Rightarrow>
     (cli_error + RegisterAliasResult) \<times> filesystem" where
  "registerDeploymentAlias faults filePath tmp alias contractId network fs =
     (case parseNetworkName network of
        Inl e \<Rightarrow> (Inl (NetworkErr e), fs)
      | Inr net \<Rightarrow>
     (case assertRegisterInput alias contractId of
        Inl e \<Rightarrow> (Inl e, fs)
      | Inr (a, i) \<Rightarrow>
     (case readDeploymentsDocument filePath True fs of
        Inl e \<Rightarrow> (Inl e, fs)
      | Inr doc \<Rightarrow>
     (let existing = (case doc of Some o1 \<Rightarrow> o1 | None \<Rightarrow> []) in
      case mergeNetworkAliases (networksFromDocument (Some existing)) net [(a, Some i)] of
        Inl e \<Rightarrow> (Inl (NetworkErr e), fs)
      | Inr networks \<Rightarrow>
          (let version = (case map_of existing ''version'' of Some (JStr v) \<Rightarrow> JStr v | _ \<Rightarrow> JStr ''1.0.0'');
               nextDoc = AList.update ''networks'' (networksJson networks) (AList.update ''version'' version existing);
               written = writeJsonAtomic faults filePath tmp (JObj nextDoc) fs
           in (if export_success (fst written)
               then Inr \<lparr>reg_filePath = export_filePath (fst written), reg_network = net, reg_alias = a,
                         reg_contractId = i\<rparr>
               else Inl (CliError (case export_error (fst written) of Some m \<Rightarrow> m
                                   | None \<Rightarrow> ''Failed to write deployments registry to '' @ filePath)),
               last (snd written)))))))"

text \<open>
  What a lookup in a plain object finds: an own property, or a member of \<^verbatim>\<open>Object.prototype\<close>, which
  is a function and counts as true.
\<close>

datatype resolved = ContractRef string | InheritedMember string

definition objectPrototype :: "string list" where
  "objectPrototype = [''constructor'', ''__defineGetter__'', ''__defineSetter__'', ''hasOwnProperty'',
     ''__lookupGetter__'', ''__lookupSetter__'', ''isPrototypeOf'', ''propertyIsEnumerable'', ''toString'',
     ''valueOf'', ''__proto__'', ''toLocaleString'']"

definition resolveContractReference ::
    "string \<Rightarrow> string \<Rightarrow> string \<Rightarrow> filesystem \<Rightarrow> cli_error + resolved" where
  "resolveContractReference value network filePath fs =
     (let trimmed = js_trim value in
      if isContractId trimmed then Inr (ContractRef trimmed)
      else case parseNetworkName network of
             Inl e \<Rightarrow> Inl (NetworkErr e)
           | Inr net \<Rightarrow>
               (case readDeploymentsDocument filePath True fs of
                  Inl e \<Rightarrow> Inl e
                | Inr doc \<Rightarrow>
                    (case map_of (networksFromDocument doc) net of
                       None \<Rightarrow> Inl (UnknownAliasError trimmed net)
                     | Some bucket \<Rightarrow>
                         (case map_of bucket trimmed of
                            Some i \<Rightarrow> if i \<noteq> [] then Inr (ContractRef i) else Inl (UnknownAliasError trimmed net)
                          | None \<Rightarrow> if trimmed \<in> set objectPrototype then Inr (InheritedMember trimmed)
                                    else Inl (UnknownAliasError trimmed net)))))"

definition resolveContractIdOption ::
    "command list \<Rightarrow> string option \<Rightarrow> string \<Rightarrow> filesystem \<Rightarrow> cli_error + resolved option" where
  "resolveContractIdOption chain value filePath fs =
     (if (case value of None \<Rightarrow> True | Some v \<Rightarrow> js_trim v = []) then Inr None
      else case resolveNetworkConfig (mergeNetworkOptions chain) of
             Inl e \<Rightarrow> Inl (NetworkErr e)
           | Inr cfg \<Rightarrow> map_sum id Some (resolveContractReference (the value) (net_name cfg) filePath fs))"

subsection \<open>Atomicity\<close>

lemma writeJsonAtomic_trace:
  assumes "tmp \<noteq> target"
  shows "s \<in> set (snd (writeJsonAtomic faults target tmp doc fs)) \<Longrightarrow>
     (s target = fs target \<or> s target = Some (Document doc)) \<and> (\<forall>p. p \<noteq> target \<and> p \<noteq> tmp \<longrightarrow> s p = fs p)"
  using assms
  by (auto simp: writeJsonAtomic_def failedWrite_def cleanup_def Let_def split: option.split_asm if_split_asm)

lemma atomic_final:
  assumes "tmp \<noteq> target"
  shows "last (snd (writeJsonAtomic faults target tmp doc fs)) target =
     (if export_success (fst (writeJsonAtomic faults target tmp doc fs)) then Some (Document doc) else fs target)"
  using assms
  by (auto simp: writeJsonAtomic_def failedWrite_def cleanup_def Let_def split: option.split)

text \<open>
  C40. Whatever fails, the target of \<^verbatim>\<open>writeJsonAtomic\<close> holds its old content or the complete new document
  at every moment, so that a crash between two system calls never leaves a half written file; the call reports
  success exactly when the new document is in place, and touches no file but the target and its temporary one.
\<close>

theorem writeJsonAtomic_all_or_nothing:
  assumes "tmp \<noteq> target" and "writeJsonAtomic faults target tmp doc fs = (r, trace)"
  shows "(\<forall>s \<in> set trace. s target = fs target \<or> s target = Some (Document doc)) \<and>
     last trace target = (if export_success r then Some (Document doc) else fs target) \<and>
     (\<forall>s \<in> set trace. \<forall>p. p \<noteq> target \<and> p \<noteq> tmp \<longrightarrow> s p = fs p)"
  using writeJsonAtomic_trace [OF assms(1), of _ faults doc fs] atomic_final [OF assms(1), of faults doc fs] assms(2)
  by auto

definition noFaults :: Faults where
  "noFaults = \<lparr>fault = (\<lambda>_. None), partialText = []\<rparr>"

definition diskFull :: Faults where
  "diskFull = \<lparr>fault = (\<lambda>c. if c = Write then Some ''ENOSPC'' else None), partialText = ''{''\<rparr>"

lemma writeJsonAtomic_all_or_nothing_witness:
  "let fs = [''d.json'' \<mapsto> Document JNull] in
   last (snd (writeJsonAtomic diskFull ''d.json'' ''t'' (JNum 1) fs)) ''d.json'' = Some (Document JNull)"
proof -
  let ?fs = "[''d.json'' \<mapsto> Document JNull]"
  obtain r trace where w: "writeJsonAtomic diskFull ''d.json'' ''t'' (JNum 1) ?fs = (r, trace)" by fastforce
  have "\<not> export_success (fst (writeJsonAtomic diskFull ''d.json'' ''t'' (JNum 1) ?fs))"
    by (simp add: writeJsonAtomic_def diskFull_def failedWrite_def Let_def)
  with writeJsonAtomic_all_or_nothing [OF _ w] w show ?thesis by simp
qed

subsection \<open>Round trip of the alias map\<close>

text \<open>What reading a document yields: ids are trimmed, not empty and never secret.\<close>

definition plainId :: "string \<Rightarrow> bool" where
  "plainId i \<longleftrightarrow> i \<noteq> [] \<and> js_trim i = i \<and> \<not> isSecretKey i"

definition plainBucket :: "alias_bucket \<Rightarrow> bool" where
  "plainBucket b \<longleftrightarrow> (\<forall>(a, i) \<in> set b. plainId i)"

definition plainMap :: "NetworkAliasMap \<Rightarrow> bool" where
  "plainMap ns \<longleftrightarrow> (\<forall>(n, b) \<in> set ns. plainBucket b)"

lemmas plain_defs = plainId_def plainBucket_def plainMap_def

lemma contractIdFromAliasValue_trimmed:
  "contractIdFromAliasValue v = Some i \<Longrightarrow> i \<noteq> [] \<and> js_trim i = i"
  by (auto simp: contractIdFromAliasValue_def split: json.split_asm option.split_asm if_split_asm)

lemma aliasBucket_plain: "plainBucket (aliasBucket l)"
  by (induction l rule: aliasBucket.induct)
    (auto simp: plain_defs dest: contractIdFromAliasValue_trimmed split: option.splits)

lemma networkBuckets_plain: "plainMap (networkBuckets l)"
  by (induction l rule: networkBuckets.induct)
    (auto simp: plainMap_def aliasBucket_plain split: json.splits)

lemma networksFromDocument_plain: "plainMap (networksFromDocument doc)"
  by (auto simp: networksFromDocument_def networkBuckets_plain plainMap_def [of "[]"]
      split: option.split json.split)

lemma aliasBucket_roundtrip:
  "plainBucket b \<Longrightarrow> aliasBucket (map (\<lambda>(a, i). (a, JStr i)) b) = b"
  by (induction b) (auto simp: plain_defs contractIdFromAliasValue_def)

lemma networkBuckets_roundtrip:
  "plainMap ns \<Longrightarrow> networkBuckets (map (\<lambda>(n, b). (n, JObj (map (\<lambda>(a, i). (a, JStr i)) b))) ns) = ns"
  by (induction ns) (auto simp: plainMap_def aliasBucket_roundtrip)

lemma networks_roundtrip:
  "plainMap ns \<Longrightarrow> networksFromDocument (Some (AList.update ''networks'' (networksJson ns) doc)) = ns"
  by (simp add: networksFromDocument_def networksJson_def update_conv' networkBuckets_roundtrip)

lemma plainBucket_update:
  "plainBucket b \<Longrightarrow> plainId i \<Longrightarrow> plainBucket (AList.update a i b)"
  by (induction b) (auto simp: plainBucket_def split: if_splits)

lemma addAliases_plain: "plainBucket b \<Longrightarrow> plainBucket (addAliases l b)"
  by (induction l b rule: addAliases.induct)
    (auto simp: plainId_def plainBucket_update split: option.splits)

lemma plainMap_lookup: "plainMap ns \<Longrightarrow> map_of ns n = Some b \<Longrightarrow> plainBucket b"
  by (auto simp: plainMap_def dest: map_of_SomeD)

lemma plainMap_update: "plainMap ns \<Longrightarrow> plainBucket b \<Longrightarrow> plainMap (AList.update n b ns)"
  by (induction ns) (auto simp: plainMap_def split: if_splits)

lemma plainMap_delete: "plainMap ns \<Longrightarrow> plainMap (AList.delete n ns)"
  by (induction ns) (auto simp: plainMap_def)

lemma mergeNetworkAliases_plain:
  assumes "plainMap ns" and "mergeNetworkAliases ns net al = Inr ns'"
  shows "plainMap ns'"
  using assms
  by (auto simp: mergeNetworkAliases_def Let_def plainBucket_def [of "[]"]
      intro!: plainMap_update plainMap_delete addAliases_plain
      intro: plainMap_lookup split: sum.split_asm option.split_asm if_split_asm)

subsection \<open>Registering and resolving\<close>

lemma not_ws_base32: "base32 c \<Longrightarrow> \<not> js_ws c"
  by (auto simp: base32_def inRange_def js_ws_def)

lemma strKeyShape_trim:
  assumes "strKeyShape k i" and "base32 k"
  shows "js_trim i = i"
proof (rule js_trim_id)
  from assms(1) have l: "length i = 56" and h: "hd i = k" and t: "\<forall>c \<in> set (tl i). base32 c"
    by (auto simp: strKeyShape_def)
  show ne: "i \<noteq> []" using l by auto
  show "\<not> js_ws (hd i)" using h assms(2) by (simp add: not_ws_base32)
  have "last i \<in> set i" using ne by simp
  then have "base32 (last i)" using h t assms(2) ne by (cases i) auto
  then show "\<not> js_ws (last i)" by (rule not_ws_base32)
qed

lemma isContractId_plain: "isContractId i \<Longrightarrow> plainId i"
  using strKeyShape_trim [of "CHR ''C''" i]
  by (auto simp: plainId_def isContractId_def isSecretKey_def strKeyShape_def base32_def inRange_def)

lemma assertRegisterInput_Inr:
  "assertRegisterInput a0 i0 = Inr (a, i) \<Longrightarrow>
     a = js_trim a0 \<and> i = js_trim i0 \<and> aliasShape a \<and> \<not> isContractId a \<and> isContractId i"
  by (auto simp: assertRegisterInput_def Let_def split: if_split_asm)

text \<open>The new alias map: one entry changed, every other one as it was.\<close>

definition aliasLookup :: "NetworkAliasMap \<Rightarrow> string \<Rightarrow> string \<Rightarrow> string option" where
  "aliasLookup ns n a = (case map_of ns n of None \<Rightarrow> None | Some b \<Rightarrow> map_of b a)"

lemma merge_one:
  assumes "parseNetworkName net = Inr c" and "isContractId i" and "aliasShape a"
  shows "\<exists>ns'. mergeNetworkAliases ns net [(a, Some i)] = Inr ns' \<and>
     aliasLookup ns' = (\<lambda>n b. if n = c \<and> b = a then Some i else aliasLookup ns n b)"
proof -
  let ?old = "case map_of ns c of Some b \<Rightarrow> b | None \<Rightarrow> []"
  have p: "js_trim i = i" "i \<noteq> []" "\<not> isSecretKey i"
    using isContractId_plain [OF assms(2)] by (auto simp: plainId_def)
  have ne: "AList.update a i b \<noteq> []" for b :: alias_bucket by (cases b) auto
  show ?thesis
    by (auto simp: mergeNetworkAliases_def assms(1,3) p ne aliasLookup_def update_conv' fun_eq_iff Let_def
        split: option.split)
qed

text \<open>What a successful registration leaves in the file.\<close>

lemma register_document:
  assumes ok: "registerDeploymentAlias faults path tmp al cid network fs = (Inr r, fs')"
    and t: "tmp \<noteq> path"
  shows "\<exists>doc old. readDeploymentsDocument path True fs = Inr old \<and> fs' path = Some (Document (JObj doc)) \<and>
     parseNetworkName network = Inr (reg_network r) \<and> plainMap (networksFromDocument (Some doc)) \<and>
     aliasShape (reg_alias r) \<and> isContractId (reg_contractId r) \<and> \<not> isContractId (reg_alias r) \<and>
     reg_alias r = js_trim al \<and> reg_contractId r = js_trim cid \<and>
     aliasLookup (networksFromDocument (Some doc)) =
       (\<lambda>n b. if n = reg_network r \<and> b = reg_alias r then Some (reg_contractId r)
               else aliasLookup (networksFromDocument old) n b) \<and>
     (\<forall>k. k \<noteq> ''networks'' \<longrightarrow> k \<noteq> ''version'' \<longrightarrow>
        map_of doc k = map_of (case old of Some d \<Rightarrow> d | None \<Rightarrow> []) k)"
proof -
  from ok obtain net a i old where
    n: "parseNetworkName network = Inr net" and ai: "assertRegisterInput al cid = Inr (a, i)" and
    old: "readDeploymentsDocument path True fs = Inr old"
    by (auto simp: registerDeploymentAlias_def split: sum.split_asm)
  let ?ex = "case old of Some o1 \<Rightarrow> o1 | None \<Rightarrow> []"
  let ?v = "case map_of ?ex ''version'' of Some (JStr v) \<Rightarrow> JStr v | _ \<Rightarrow> JStr ''1.0.0''"
  note ain = assertRegisterInput_Inr [OF ai]
  have net2: "parseNetworkName net = Inr net"
    using ok n ai old by (auto simp: registerDeploymentAlias_def mergeNetworkAliases_def Let_def
        split: sum.split_asm dest: parse_again)
  from merge_one [OF net2, of i a "networksFromDocument (Some ?ex)"] ain
  obtain ns where ns: "mergeNetworkAliases (networksFromDocument (Some ?ex)) net [(a, Some i)] = Inr ns"
    and look: "aliasLookup ns = (\<lambda>n b. if n = net \<and> b = a then Some i
                 else aliasLookup (networksFromDocument (Some ?ex)) n b)" by blast
  have e: "networksFromDocument (Some ?ex) = networksFromDocument old"
    by (cases old) (auto simp: networksFromDocument_def)
  have pl: "plainMap ns" using mergeNetworkAliases_plain [OF networksFromDocument_plain ns] .
  let ?doc = "AList.update ''networks'' (networksJson ns) (AList.update ''version'' ?v ?ex)"
  let ?w = "writeJsonAtomic faults path tmp (JObj ?doc) fs"
  have red: "registerDeploymentAlias faults path tmp al cid network fs =
     (if export_success (fst ?w)
      then Inr \<lparr>reg_filePath = export_filePath (fst ?w), reg_network = net, reg_alias = a, reg_contractId = i\<rparr>
      else Inl (CliError (case export_error (fst ?w) of Some m \<Rightarrow> m
                 | None \<Rightarrow> ''Failed to write deployments registry to '' @ path)), last (snd ?w))"
    using n ai old ns by (simp add: registerDeploymentAlias_def Let_def)
  have succ: "export_success (fst ?w)" and r: "r = \<lparr>reg_filePath = export_filePath (fst ?w), reg_network = net,
      reg_alias = a, reg_contractId = i\<rparr>" and f: "fs' = last (snd ?w)"
    using ok unfolding red by (auto split: if_split_asm)
  have rs: "reg_network r = net" "reg_alias r = a" "reg_contractId r = i" using r by simp_all
  have stored: "fs' path = Some (Document (JObj ?doc))"
    using atomic_final [OF t, of faults "JObj ?doc" fs] succ f by simp
  have rest: "map_of ?doc k = map_of ?ex k" if "k \<noteq> ''networks''" "k \<noteq> ''version''" for k
    using that by (simp add: update_conv')
  define doc where "doc = ?doc"
  have nd: "networksFromDocument (Some doc) = ns" unfolding doc_def by (rule networks_roundtrip [OF pl])
  have look': "aliasLookup (networksFromDocument (Some doc)) =
      (\<lambda>n b. if n = net \<and> b = a then Some i else aliasLookup (networksFromDocument old) n b)"
    unfolding nd look e ..
  show ?thesis
    unfolding rs using old n pl [folded nd] look' ain stored [folded doc_def] rest [folded doc_def] by blast
qed

lemma register_failure:
  assumes "registerDeploymentAlias faults path tmp al cid network fs = (Inl e, fs')" and "tmp \<noteq> path"
  shows "fs' path = fs path"
  using assms atomic_final [OF assms(2)]
  by (auto simp: registerDeploymentAlias_def Let_def split: sum.split_asm if_split_asm)

text \<open>A reference that resolves to an id is an id itself or an alias of the map.\<close>

lemma resolve_ContractRef:
  "resolveContractReference v net path fs = Inr (ContractRef i) \<longleftrightarrow>
     (if isContractId (js_trim v) then i = js_trim v
      else \<exists>n doc. parseNetworkName net = Inr n \<and> readDeploymentsDocument path True fs = Inr doc \<and>
             aliasLookup (networksFromDocument doc) n (js_trim v) = Some i \<and> i \<noteq> [])"
  by (auto simp: resolveContractReference_def aliasLookup_def Let_def split: sum.split option.split)

lemma lookup_plain: "plainMap ns \<Longrightarrow> aliasLookup ns n a = Some i \<Longrightarrow> plainId i"
  by (fastforce simp: aliasLookup_def plainBucket_def plainMap_def split: option.split_asm dest: map_of_SomeD)

lemma isContractId_not_secret: "isContractId i \<Longrightarrow> \<not> isSecretKey i"
  using isContractId_plain by (simp add: plainId_def)

lemma resolved_not_secret:
  assumes "resolveContractReference v net path fs = Inr (ContractRef i)"
  shows "\<not> isSecretKey i"
  using assms lookup_plain [OF networksFromDocument_plain] isContractId_not_secret
  by (auto simp: resolve_ContractRef plainId_def split: if_split_asm)

text \<open>
  C3. After a registration that succeeds, the alias resolves on its network to the contract id that was given,
  every reference that resolved before and is not that alias on that network still resolves to the same id, and
  nothing resolves to a secret key. A registration that fails leaves the registry file as it was, a corrupt one
  included.
\<close>

theorem register_resolve_roundtrip:
  assumes "tmp \<noteq> path" and "registerDeploymentAlias faults path tmp al cid network fs = (res, fs')"
  shows "case res of
       Inl e \<Rightarrow> fs' path = fs path
     | Inr r \<Rightarrow>
         resolveContractReference al network path fs' = Inr (ContractRef (js_trim cid)) \<and>
         (\<forall>v net i. resolveContractReference v net path fs = Inr (ContractRef i) \<longrightarrow>
            js_trim v \<noteq> js_trim al \<or> parseNetworkName net \<noteq> parseNetworkName network \<longrightarrow>
            resolveContractReference v net path fs' = Inr (ContractRef i)) \<and>
         (\<forall>v net i. resolveContractReference v net path fs' = Inr (ContractRef i) \<longrightarrow> \<not> isSecretKey i)"
proof (cases res)
  case (Inl e)
  with assms show ?thesis by (auto dest: register_failure)
next
  case (Inr r)
  note reg = register_document [OF assms(2) [unfolded Inr] assms(1)]
  obtain doc old where d: "readDeploymentsDocument path True fs = Inr old" "fs' path = Some (Document (JObj doc))"
      "parseNetworkName network = Inr (reg_network r)" "isContractId (reg_contractId r)" "\<not> isContractId (js_trim al)"
      "reg_alias r = js_trim al" "reg_contractId r = js_trim cid"
    and look: "aliasLookup (networksFromDocument (Some doc)) =
       (\<lambda>n b. if n = reg_network r \<and> b = reg_alias r then Some (reg_contractId r)
               else aliasLookup (networksFromDocument old) n b)"
    using reg by auto
  have rd: "readDeploymentsDocument path True fs' = Inr (Some doc)" using d(2) by (simp add: readDeploymentsDocument_def)
  have ne: "js_trim cid \<noteq> []" using d(4,7) by (auto simp: isContractId_def strKeyShape_def)
  show ?thesis
    unfolding Inr using d ne resolved_not_secret
    by (auto simp: resolve_ContractRef rd look split: if_split_asm)
qed

definition demoId :: "char \<Rightarrow> string" where
  "demoId c = CHR ''C'' # replicate 55 c"

lemma demoId_valid: "base32 c \<Longrightarrow> isContractId (demoId c)"
  by (simp add: isContractId_def strKeyShape_def demoId_def)

lemma register_resolve_roundtrip_witness:
  "let fs' = snd (registerDeploymentAlias noFaults ''deployments.json'' ''tmp'' ''token'' (demoId CHR ''A'') ''testnet''
       (\<lambda>_. None)) in
   resolveContractReference ''token'' ''testnet'' ''deployments.json'' fs' = Inr (ContractRef (demoId CHR ''A''))"
proof -
  let ?reg = "registerDeploymentAlias noFaults ''deployments.json'' ''tmp'' ''token'' (demoId CHR ''A'') ''testnet'' (\<lambda>_. None)"
  have v: "isContractId (demoId CHR ''A'')" by (rule demoId_valid) (simp add: base32_def inRange_def)
  have tr: "js_trim (demoId CHR ''A'') = demoId CHR ''A''" using isContractId_plain [OF v] by (simp add: plainId_def)
  have al: "js_trim ''token'' = ''token''" "aliasShape ''token''" "\<not> isContractId ''token''" by code_simp+
  have ass: "assertRegisterInput ''token'' (demoId CHR ''A'') = Inr (''token'', demoId CHR ''A'')"
    using v isContractId_not_secret [OF v] by (simp add: assertRegisterInput_def tr al Let_def)
  obtain ns where ns: "mergeNetworkAliases (networksFromDocument (Some [])) ''testnet'' [(''token'', Some (demoId CHR ''A''))] = Inr ns"
    using merge_one [OF parse_names(1) v al(2)] by blast
  obtain r fs' where "?reg = (Inr r, fs')"
    using ns by (auto simp: registerDeploymentAlias_def ass parse_names readDeploymentsDocument_def Let_def
        writeJsonAtomic_def noFaults_def)
  with register_resolve_roundtrip [of "''tmp''" "''deployments.json''" noFaults "''token''"
      "demoId CHR ''A''" "''testnet''" "\<lambda>_. None" "Inr r" fs'] tr
  show ?thesis by simp
qed

end
