(* ===== verification/CliConfig.thy ===== *)
theory CliConfig
  imports CliRegistry
begin

text \<open>
  The configuration of the command line tool: \<^verbatim>\<open>src/cli/src/utils/config-parser.ts\<close> (the project file
  \<^verbatim>\<open>.bc-forge.json\<close>), \<^verbatim>\<open>src/cli/src/utils/config.ts\<close> (the settings of a command, from flags, environment, project file
  and the user's stored file) and \<^verbatim>\<open>src/cli/src/utils/address-book.ts\<close> (named accounts).

  The AJV validator, compiled from the JSON schema of the project file, and the StrKey check of the
  Stellar SDK are fields of \<open>CliEnv\<close>, as are the environment variables and \<^verbatim>\<open>path.resolve\<close>. The fields that
  the schema types as text are read with \<open>textField\<close>, which skips values of other types; a stored
  \<^verbatim>\<open>config.json\<close> that is not an object counts as empty. Messages leave out the
  quotation marks and hints of the source.
\<close>

type_synonym fields = "(string \<times> json) list"

subsection \<open>Objects\<close>

text \<open>\<^verbatim>\<open>{ ...base, ...over }\<close>, in the order of the properties.\<close>

definition spread :: "(string \<times> 'v) list \<Rightarrow> (string \<times> 'v) list \<Rightarrow> (string \<times> 'v) list" where
  "spread base over =
     map (\<lambda>(k, v). (k, case map_of over k of Some w \<Rightarrow> w | None \<Rightarrow> v)) base @
     filter (\<lambda>(k, v). map_of base k = None) over"

definition textField :: "fields \<Rightarrow> string \<Rightarrow> string option" where
  "textField o1 key = (case map_of o1 key of Some (JStr s) \<Rightarrow> Some s | _ \<Rightarrow> None)"

definition objectField :: "fields \<Rightarrow> string \<Rightarrow> fields option" where
  "objectField o1 key = (case map_of o1 key of Some (JObj v) \<Rightarrow> Some v | _ \<Rightarrow> None)"

text \<open>\<^verbatim>\<open>a || b || ...\<close> on optional texts: the first one that is neither absent nor empty, or else the last.\<close>

fun firstTruthy :: "string option list \<Rightarrow> string option" where
  "firstTruthy [] = None"
| "firstTruthy [v] = v"
| "firstTruthy (v # w # rest) = (if truthy v then v else firstTruthy (w # rest))"

subsection \<open>Validation\<close>

record AjvError =
  ajv_instancePath :: string
  ajv_keyword :: string
  ajv_params :: "string \<Rightarrow> string"
  ajv_data :: string
  ajv_typeof :: string
  ajv_message :: string

record CliEnv =
  env_var :: "string \<Rightarrow> string option"
  resolvePath :: "string \<Rightarrow> string"
  schemaValidate :: "fields \<Rightarrow> AjvError list + fields"
  isValidEd25519PublicKey :: "string \<Rightarrow> bool"
  cliConfigFile :: string

definition DEFAULT_CONFIG_FILENAME :: string where
  "DEFAULT_CONFIG_FILENAME = ''.bc-forge.json''"

definition defaultConfigPath :: "CliEnv \<Rightarrow> string" where
  "defaultConfigPath E = resolvePath E DEFAULT_CONFIG_FILENAME"

text \<open>\<^verbatim>\<open>String(value)\<close>: an array is joined with commas, \<^verbatim>\<open>null\<close> elements rendering as nothing.\<close>

fun joinComma :: "string list \<Rightarrow> string" where
  "joinComma [] = []"
| "joinComma [s] = s"
| "joinComma (s # t # rest) = s @ '','' @ joinComma (t # rest)"

fun jsonString :: "json \<Rightarrow> string" where
  "jsonString JNull = ''null''"
| "jsonString (JBool b) = (if b then ''true'' else ''false'')"
| "jsonString (JNum i) = show_int i"
| "jsonString (JStr s) = s"
| "jsonString (JArr vs) = joinComma (map (\<lambda>v. case v of JNull \<Rightarrow> [] | _ \<Rightarrow> jsonString v) vs)"
| "jsonString (JObj _) = ''[object Object]''"

fun accountErrors :: "CliEnv \<Rightarrow> fields \<Rightarrow> string list" where
  "accountErrors E [] = []"
| "accountErrors E ((name, key) # rest) =
     (if aliasShape name then [] else [''accounts/'' @ name @ '': invalid account name.'']) @
     (if (case key of JStr k \<Rightarrow> isValidEd25519PublicKey E k | _ \<Rightarrow> False) then []
      else [''accounts/'' @ name @ '': invalid public key '' @ jsonString key]) @
     accountErrors E rest"

definition validateAccountBook :: "CliEnv \<Rightarrow> json option \<Rightarrow> string list" where
  "validateAccountBook E accounts =
     (case accounts of
        None \<Rightarrow> []
      | Some (JObj entries) \<Rightarrow> accountErrors E entries
      | Some _ \<Rightarrow> [''accounts: must be an object mapping names to public keys''])"

definition formatValidationError :: "AjvError \<Rightarrow> string" where
  "formatValidationError e =
     (let path = (if ajv_instancePath e = [] then ''/'' else ajv_instancePath e); kw = ajv_keyword e; p = ajv_params e in
      if kw = ''type'' then path @ '': expected '' @ p ''type'' @ '', got '' @ ajv_typeof e
      else if kw = ''required'' then ''Missing required field: '' @ p ''missingProperty''
      else if kw = ''enum'' then path @ '': must be one of ['' @ p ''allowedValues'' @ ''], got '' @ ajv_data e
      else if kw = ''pattern'' then path @ '': invalid format. Expected pattern: '' @ p ''pattern''
      else if kw = ''minimum'' then path @ '': must be >= '' @ p ''limit'' @ '', got '' @ ajv_data e
      else if kw = ''maximum'' then path @ '': must be <= '' @ p ''limit'' @ '', got '' @ ajv_data e
      else if kw = ''additionalProperties'' then path @ '': unexpected additional property '' @ p ''additionalProperty''
      else path @ '': '' @ ajv_message e)"

definition formatValidationErrors :: "AjvError list \<Rightarrow> string list" where
  "formatValidationErrors errors =
     (if errors = [] then [''Configuration validation failed.''] else map formatValidationError errors)"

definition configDefaults :: fields where
  "configDefaults = [(''version'', JStr ''1.0.0''), (''decimals'', JNum 7), (''network'', JStr ''testnet'')]"

text \<open>The errors, or the configuration with its defaults.\<close>

definition validateConfig :: "CliEnv \<Rightarrow> json \<Rightarrow> string list + fields" where
  "validateConfig E data =
     (case data of
        JObj o1 \<Rightarrow>
          (case schemaValidate E o1 of
             Inl errors \<Rightarrow> Inl (formatValidationErrors errors)
           | Inr o2 \<Rightarrow>
               (let errs = validateAccountBook E (map_of o2 ''accounts'') in
                if errs \<noteq> [] then Inl errs else Inr (spread configDefaults o2)))
      | JArr _ \<Rightarrow> Inl [''Configuration must be a JSON object, not an array'']
      | JNull \<Rightarrow> Inl [''Configuration must be a valid JSON object, got object'']
      | JBool _ \<Rightarrow> Inl [''Configuration must be a valid JSON object, got boolean'']
      | JNum _ \<Rightarrow> Inl [''Configuration must be a valid JSON object, got number'']
      | JStr _ \<Rightarrow> Inl [''Configuration must be a valid JSON object, got string''])"

subsection \<open>The project file\<close>

definition configTarget :: "CliEnv \<Rightarrow> string option \<Rightarrow> string" where
  "configTarget E customPath =
     (if truthy customPath then resolvePath E (the customPath) else defaultConfigPath E)"

definition loadConfigFile :: "CliEnv \<Rightarrow> string option \<Rightarrow> filesystem \<Rightarrow> string list + fields" where
  "loadConfigFile E customPath fs =
     (let targetPath = configTarget E customPath in
      case fs targetPath of
        None \<Rightarrow>
          (if truthy customPath then Inl [''Configuration file not found at path: '' @ targetPath]
           else Inl [''Configuration file '' @ DEFAULT_CONFIG_FILENAME @ '' not found.''])
      | Some (Unreadable m) \<Rightarrow> Inl [''Failed to read configuration file: '' @ m]
      | Some (Garbled m) \<Rightarrow> Inl [''Invalid JSON syntax: '' @ m]
      | Some (Document d) \<Rightarrow> validateConfig E d)"

text \<open>A write that fails half way leaves a part of the text; \<^verbatim>\<open>writeFileSync\<close> truncates the file first.\<close>

definition plainWrite :: "Faults \<Rightarrow> string \<Rightarrow> json \<Rightarrow> filesystem \<Rightarrow> (string + unit) \<times> filesystem" where
  "plainWrite faults path doc fs =
     (case fault faults Open of
        Some m \<Rightarrow> (Inl m, fs)
      | None \<Rightarrow>
          (case fault faults Write of
             Some m \<Rightarrow> (Inl m, fs(path \<mapsto> Garbled (partialText faults)))
           | None \<Rightarrow> (Inr (), fs(path \<mapsto> Document doc))))"

definition saveConfigFile ::
    "CliEnv \<Rightarrow> Faults \<Rightarrow> fields \<Rightarrow> string option \<Rightarrow> filesystem \<Rightarrow> (string list + unit) \<times> filesystem" where
  "saveConfigFile E faults config customPath fs =
     (case validateConfig E (JObj config) of
        Inl errors \<Rightarrow> (Inl errors, fs)
      | Inr cfg \<Rightarrow>
          (case plainWrite faults (configTarget E customPath) (JObj cfg) fs of
             (Inl m, fs') \<Rightarrow> (Inl [''Failed to write configuration file: '' @ m], fs')
           | (Inr _, fs') \<Rightarrow> (Inr (), fs')))"

subsection \<open>Settings\<close>

definition getCliConfigPath :: "CliEnv \<Rightarrow> string" where
  "getCliConfigPath E =
     (case env_var E ''BC_FORGE_CLI_CONFIG'' of
        Some p \<Rightarrow> if js_trim p \<noteq> [] then resolvePath E (js_trim p) else cliConfigFile E
      | None \<Rightarrow> cliConfigFile E)"

definition readStoredConfig :: "CliEnv \<Rightarrow> filesystem \<Rightarrow> fields" where
  "readStoredConfig E fs =
     (case fs (getCliConfigPath E) of Some (Document (JObj o1)) \<Rightarrow> o1 | _ \<Rightarrow> [])"

definition writeStoredConfig :: "CliEnv \<Rightarrow> Faults \<Rightarrow> fields \<Rightarrow> filesystem \<Rightarrow> filesystem" where
  "writeStoredConfig E faults config fs =
     (case fault faults Mkdir of
        Some _ \<Rightarrow> fs
      | None \<Rightarrow> snd (plainWrite faults (getCliConfigPath E) (JObj config) fs))"

text \<open>The object the module exports: \<^verbatim>\<open>get\<close>, \<^verbatim>\<open>set\<close>, \<^verbatim>\<open>has\<close> and \<^verbatim>\<open>delete\<close>.\<close>

definition config_get :: "CliEnv \<Rightarrow> string \<Rightarrow> filesystem \<Rightarrow> json option" where
  "config_get E key fs = map_of (readStoredConfig E fs) key"

definition config_set :: "CliEnv \<Rightarrow> Faults \<Rightarrow> string \<Rightarrow> string \<Rightarrow> filesystem \<Rightarrow> filesystem" where
  "config_set E faults key value fs =
     writeStoredConfig E faults (AList.update key (JStr value) (readStoredConfig E fs)) fs"

definition config_has :: "CliEnv \<Rightarrow> string \<Rightarrow> filesystem \<Rightarrow> bool" where
  "config_has E key fs \<longleftrightarrow> config_get E key fs \<noteq> None"

definition config_delete :: "CliEnv \<Rightarrow> Faults \<Rightarrow> string \<Rightarrow> filesystem \<Rightarrow> filesystem" where
  "config_delete E faults key fs =
     writeStoredConfig E faults (AList.delete key (readStoredConfig E fs)) fs"

definition getFileConfig :: "CliEnv \<Rightarrow> filesystem \<Rightarrow> fields option" where
  "getFileConfig E fs = (case loadConfigFile E None fs of Inr cfg \<Rightarrow> Some cfg | Inl _ \<Rightarrow> None)"

text \<open>\<^verbatim>\<open>fileCfg?.contracts?.<name>?.<key>\<close>.\<close>

definition contractField :: "fields option \<Rightarrow> string \<Rightarrow> string \<Rightarrow> string option" where
  "contractField cfg name key =
     Option.bind cfg (\<lambda>c. Option.bind (objectField c ''contracts'') (\<lambda>cs.
       Option.bind (objectField cs name) (\<lambda>d. textField d key)))"

definition fileText :: "fields option \<Rightarrow> string \<Rightarrow> string option" where
  "fileText cfg key = Option.bind cfg (\<lambda>c. textField c key)"

record CliClientConfig =
  cc_network :: string
  cc_rpcUrl :: string
  cc_networkPassphrase :: string
  cc_contractId :: string

text \<open>The stored configuration is the one read when the module was loaded.\<close>

definition clientConfigInputs :: "CliEnv \<Rightarrow> fields \<Rightarrow> NetworkOverrides \<Rightarrow> fields option \<Rightarrow> NetworkOverrides" where
  "clientConfigInputs E stored overrides fileCfg =
     (let explicitNetwork = (case ov_network overrides of Some n \<Rightarrow> js_trim n \<noteq> [] | None \<Rightarrow> False);
          rpcFromEnvFile = firstTruthy [env_var E ''RPC_URL'', fileText fileCfg ''rpcUrl'', textField stored ''rpcUrl''];
          passphraseFromEnvFile = firstTruthy [env_var E ''NETWORK_PASSPHRASE'', fileText fileCfg ''networkPassphrase'',
             textField stored ''networkPassphrase'']
      in \<lparr>ov_network = firstTruthy [ov_network overrides, env_var E ''NETWORK'', fileText fileCfg ''network'',
            textField stored ''network'', Some ''testnet''],
          ov_rpcUrl = firstTruthy [ov_rpcUrl overrides, if explicitNetwork then None else rpcFromEnvFile],
          ov_networkPassphrase =
            firstTruthy [ov_networkPassphrase overrides, if explicitNetwork then None else passphraseFromEnvFile]\<rparr>)"

definition getClientConfig ::
    "CliEnv \<Rightarrow> fields \<Rightarrow> NetworkOverrides \<Rightarrow> filesystem \<Rightarrow> network_error + CliClientConfig" where
  "getClientConfig E stored overrides fs =
     (let fileCfg = getFileConfig E fs in
      map_sum id (\<lambda>resolved.
          \<lparr>cc_network = net_name resolved, cc_rpcUrl = net_rpcUrl resolved,
           cc_networkPassphrase = net_passphrase resolved,
           cc_contractId = the (firstTruthy [env_var E ''CONTRACT_ID'', contractField fileCfg ''token'' ''contractId'',
              textField stored ''contractId'', Some []])\<rparr>)
        (resolveNetworkConfig (clientConfigInputs E stored overrides fileCfg)))"

definition getSecretKey :: "CliEnv \<Rightarrow> fields \<Rightarrow> filesystem \<Rightarrow> string" where
  "getSecretKey E stored fs =
     the (firstTruthy [env_var E ''SECRET_KEY'', fileText (getFileConfig E fs) ''secretKey'',
       textField stored ''secretKey'', Some []])"

subsection \<open>The address book\<close>

definition assertEd25519PublicKey :: "CliEnv \<Rightarrow> string \<Rightarrow> cli_error + unit" where
  "assertEd25519PublicKey E k =
     (if isValidEd25519PublicKey E k then Inr ()
      else Inl (CliError (''Invalid public key '' @ k @ ''. Stellar StrKey checksum check failed.'')))"

definition readConfigObject :: "string \<Rightarrow> filesystem \<Rightarrow> cli_error + fields" where
  "readConfigObject path fs =
     (case fs path of
        None \<Rightarrow> Inr []
      | Some (Garbled m) \<Rightarrow> Inl (CliError (''CLI config at '' @ path @ '' is not valid JSON: '' @ m))
      | Some (Unreadable m) \<Rightarrow> Inl (CliError (''CLI config at '' @ path @ '' is not valid JSON: '' @ m))
      | Some (Document (JObj o1)) \<Rightarrow> Inr o1
      | Some (Document _) \<Rightarrow> Inl (CliError (''CLI config at '' @ path @ '' must be a JSON object.'')))"

definition writeConfigObject :: "Faults \<Rightarrow> string \<Rightarrow> fields \<Rightarrow> filesystem \<Rightarrow> (cli_error + unit) \<times> filesystem" where
  "writeConfigObject faults path config fs =
     (case fault faults Mkdir of
        Some m \<Rightarrow> (Inl (CliError m), fs)
      | None \<Rightarrow> (case plainWrite faults path (JObj config) fs of (r, fs') \<Rightarrow> (map_sum CliError id r, fs')))"

fun textEntries :: "fields \<Rightarrow> (string \<times> string) list" where
  "textEntries [] = []"
| "textEntries ((k, v) # rest) = (case v of JStr s \<Rightarrow> (k, s) # textEntries rest | _ \<Rightarrow> textEntries rest)"

definition accountsFromUnknown :: "json option \<Rightarrow> (string \<times> string) list" where
  "accountsFromUnknown value = (case value of Some (JObj entries) \<Rightarrow> textEntries entries | _ \<Rightarrow> [])"

definition readStoredAccounts :: "string \<Rightarrow> filesystem \<Rightarrow> (string \<times> string) list" where
  "readStoredAccounts path fs =
     (case readConfigObject path fs of Inl _ \<Rightarrow> [] | Inr config \<Rightarrow> accountsFromUnknown (map_of config ''accounts''))"

definition loadAccounts :: "CliEnv \<Rightarrow> string \<Rightarrow> filesystem \<Rightarrow> (string \<times> string) list" where
  "loadAccounts E path fs =
     spread (readStoredAccounts path fs)
       (accountsFromUnknown (Option.bind (getFileConfig E fs) (\<lambda>c. map_of c ''accounts'')))"

definition storeAccounts :: "fields \<Rightarrow> (string \<times> string) list \<Rightarrow> fields" where
  "storeAccounts config accounts = AList.update ''accounts'' (JObj (map (\<lambda>(n, k). (n, JStr k)) accounts)) config"

definition saveAccount ::
    "CliEnv \<Rightarrow> Faults \<Rightarrow> string \<Rightarrow> string \<Rightarrow> string \<Rightarrow> filesystem \<Rightarrow>
     (cli_error + (string \<times> string) list) \<times> filesystem" where
  "saveAccount E faults name publicKey path fs =
     (let accountName = js_trim name; key = js_trim publicKey in
      if \<not> aliasShape accountName then (Inl (CliError (''Invalid account name '' @ accountName)), fs)
      else case assertEd25519PublicKey E key of
        Inl e \<Rightarrow> (Inl e, fs)
      | Inr _ \<Rightarrow>
          (case readConfigObject path fs of
             Inl e \<Rightarrow> (Inl e, fs)
           | Inr config \<Rightarrow>
               (let accounts = AList.update accountName key (accountsFromUnknown (map_of config ''accounts'')) in
                case writeConfigObject faults path (storeAccounts config accounts) fs of
                  (Inl e, fs') \<Rightarrow> (Inl e, fs')
                | (Inr _, fs') \<Rightarrow> (Inr accounts, fs'))))"

definition removeAccount ::
    "Faults \<Rightarrow> string \<Rightarrow> string \<Rightarrow> filesystem \<Rightarrow> (cli_error + unit) \<times> filesystem" where
  "removeAccount faults name path fs =
     (let accountName = js_trim name in
      case readConfigObject path fs of
        Inl e \<Rightarrow> (Inl e, fs)
      | Inr config \<Rightarrow>
          (let accounts = accountsFromUnknown (map_of config ''accounts'') in
           if map_of accounts accountName = None then (Inl (CliError (''Unknown account '' @ accountName)), fs)
           else writeConfigObject faults path (storeAccounts config (AList.delete accountName accounts)) fs))"

definition resolveAccountReference :: "CliEnv \<Rightarrow> string \<Rightarrow> (string \<times> string) list \<Rightarrow> cli_error + string" where
  "resolveAccountReference E ref accounts =
     (let value = js_trim ref in
      case map_of accounts value of
        Some key \<Rightarrow> map_sum id (\<lambda>_. key) (assertEd25519PublicKey E key)
      | None \<Rightarrow> Inr value)"

definition resolveAccount :: "CliEnv \<Rightarrow> string \<Rightarrow> (string \<times> string) list \<Rightarrow> cli_error + string" where
  "resolveAccount E ref accounts =
     (let value = js_trim ref in
      case map_of accounts value of
        Some key \<Rightarrow> map_sum id (\<lambda>_. key) (assertEd25519PublicKey E key)
      | None \<Rightarrow>
          if isValidEd25519PublicKey E value then Inr value
          else if strKeyShape CHR ''G'' value
          then Inl (CliError (''Invalid public key '' @ value @ ''. Stellar StrKey checksum check failed.''))
          else Inl (CliError (''Unknown account '' @ value)))"

text \<open>\<^verbatim>\<open>configPath\<close> of \<^verbatim>\<open>commands/account.ts\<close>.\<close>

definition accountConfigPath :: "CliEnv \<Rightarrow> string option \<Rightarrow> string" where
  "accountConfigPath E path =
     (case path of Some p \<Rightarrow> if js_trim p \<noteq> [] then p else getCliConfigPath E | None \<Rightarrow> getCliConfigPath E)"

subsection \<open>Facts on objects\<close>

lemma map_of_map_snd: "map_of (map (\<lambda>(k, v). (k, f k v)) l) k = map_option (f k) (map_of l k)"
  by (induction l) auto

lemma map_of_spread [simp]: "map_of (spread base over) k = (case map_of over k of Some v \<Rightarrow> Some v | None \<Rightarrow> map_of base k)"
proof -
  have f: "map_of (filter (\<lambda>(k, v). P k) l) k = (if P k then map_of l k else None)" for P and l :: "(string \<times> 'a) list"
    by (induction l) auto
  show ?thesis
    by (auto simp: spread_def map_add_def map_of_map_snd f split: option.split)
qed

lemma textEntries_roundtrip [simp]: "textEntries (map (\<lambda>(n, k). (n, JStr k)) l) = l"
  by (induction l) auto

lemma accounts_stored [simp]:
  "accountsFromUnknown (map_of (storeAccounts config accounts) ''accounts'') = accounts"
  by (simp add: storeAccounts_def accountsFromUnknown_def update_conv')

subsection \<open>The address book is a faithful store\<close>

lemma resolveAccount_Inr:
  "resolveAccount E ref accounts = Inr k \<longleftrightarrow>
     isValidEd25519PublicKey E k \<and>
     (case map_of accounts (js_trim ref) of Some k' \<Rightarrow> k = k' | None \<Rightarrow> k = js_trim ref)"
  by (auto simp: resolveAccount_def assertEd25519PublicKey_def Let_def split: option.split)

lemma saveAccount_Inr:
  assumes "saveAccount E faults name publicKey path fs = (Inr accounts, fs')"
  shows "isValidEd25519PublicKey E (js_trim publicKey) \<and> aliasShape (js_trim name) \<and>
     (\<exists>config. readConfigObject path fs = Inr config \<and>
        accounts = AList.update (js_trim name) (js_trim publicKey) (accountsFromUnknown (map_of config ''accounts'')) \<and>
        fs' = fs(path \<mapsto> Document (JObj (storeAccounts config accounts))))"
  using assms
  by (auto simp: saveAccount_def writeConfigObject_def plainWrite_def assertEd25519PublicKey_def Let_def
      split: sum.split_asm option.split_asm if_split_asm)

lemma saveAccount_rejected:
  assumes "\<not> isValidEd25519PublicKey E (js_trim publicKey) \<or> \<not> aliasShape (js_trim name) \<or>
     (\<exists>e. readConfigObject path fs = Inl e)"
  shows "\<exists>e. saveAccount E faults name publicKey path fs = (Inl e, fs)"
  using assms by (auto simp: saveAccount_def assertEd25519PublicKey_def Let_def split: sum.split)

lemma stored_accounts_after_save:
  assumes "saveAccount E faults name publicKey path fs = (Inr accounts, fs')"
  shows "map_of (readStoredAccounts path fs') = (map_of (readStoredAccounts path fs))(js_trim name \<mapsto> js_trim publicKey)"
  using saveAccount_Inr [OF assms]
  by (auto simp: readStoredAccounts_def readConfigObject_def update_conv' split: option.splits content.splits json.splits)

text \<open>
  C27. A name saved in the address book resolves to the key it was saved with, unless the project file defines
  the name, and every other reference resolves as before; a key that fails the StrKey check, a malformed name or
  a damaged file is refused and leaves the file as it is. Whatever the book and the project file hold, a resolved account is a
  valid public key.
\<close>

theorem address_book_roundtrip:
  assumes "path \<noteq> defaultConfigPath E" and "saveAccount E faults name publicKey path fs = (res, fs')"
  shows "(case res of
       Inr accounts \<Rightarrow>
         \<forall>ref. resolveAccount E ref (loadAccounts E path fs') =
           (if js_trim ref = js_trim name \<and>
               map_of (accountsFromUnknown (Option.bind (getFileConfig E fs) (\<lambda>c. map_of c ''accounts''))) (js_trim name) = None
            then Inr (js_trim publicKey)
            else resolveAccount E ref (loadAccounts E path fs))
     | Inl e \<Rightarrow>
         \<not> isValidEd25519PublicKey E (js_trim publicKey) \<or> \<not> aliasShape (js_trim name) \<or>
           (\<exists>d. readConfigObject path fs = Inl d) \<longrightarrow> fs' = fs) \<and>
     (\<forall>ref accounts k. resolveAccount E ref accounts = Inr k \<longrightarrow> isValidEd25519PublicKey E k)"
proof -
  have "resolveAccount E ref (loadAccounts E path fs') =
           (if js_trim ref = js_trim name \<and>
               map_of (accountsFromUnknown (Option.bind (getFileConfig E fs) (\<lambda>c. map_of c ''accounts''))) (js_trim name) = None
            then Inr (js_trim publicKey) else resolveAccount E ref (loadAccounts E path fs))"
    if ok: "res = Inr accounts" for accounts ref
  proof -
    note saved = assms(2) [unfolded ok]
    have "getFileConfig E fs' = getFileConfig E fs"
      using saveAccount_Inr [OF saved] assms(1)
      by (auto simp: getFileConfig_def loadConfigFile_def configTarget_def truthy_def Let_def)
    then show ?thesis
      using stored_accounts_after_save [OF saved] saveAccount_Inr [OF saved]
      by (auto simp: resolveAccount_def loadAccounts_def assertEd25519PublicKey_def Let_def split: option.split)
  qed
  moreover have "fs' = fs" if "res = Inl e" "\<not> isValidEd25519PublicKey E (js_trim publicKey) \<or> \<not> aliasShape (js_trim name) \<or>
           (\<exists>d. readConfigObject path fs = Inl d)" for e
    using saveAccount_rejected [OF that(2), of faults] assms(2) by auto
  ultimately show ?thesis
    by (auto simp: resolveAccount_Inr split: sum.split)
qed

definition demoEnv :: CliEnv where
  "demoEnv = \<lparr>env_var = (\<lambda>_. None), resolvePath = (\<lambda>p. CHR ''/'' # p), schemaValidate = Inr,
     isValidEd25519PublicKey = (\<lambda>k. k = ''GKEY''), cliConfigFile = ''/home/config.json''\<rparr>"

lemma address_book_roundtrip_witness:
  "let fs' = snd (saveAccount demoEnv noFaults ''treasury'' ''GKEY'' ''c'' (\<lambda>_. None)) in
   resolveAccount demoEnv '' treasury '' (loadAccounts demoEnv ''c'' fs') = Inr ''GKEY''"
proof -
  let ?s = "saveAccount demoEnv noFaults ''treasury'' ''GKEY'' ''c'' (\<lambda>_. None)"
  have tr: "js_trim ''treasury'' = ''treasury''" "js_trim '' treasury '' = ''treasury''" "js_trim ''GKEY'' = ''GKEY''"
      "aliasShape ''treasury''" by code_simp+
  have v: "isValidEd25519PublicKey demoEnv ''GKEY''" and p: "''c'' \<noteq> defaultConfigPath demoEnv"
    and g: "getFileConfig demoEnv (\<lambda>_. None) = None"
    by (simp_all add: demoEnv_def defaultConfigPath_def DEFAULT_CONFIG_FILENAME_def getFileConfig_def loadConfigFile_def
        configTarget_def truthy_def)
  obtain accounts fs' where s: "?s = (Inr accounts, fs')"
    using v tr by (auto simp: saveAccount_def assertEd25519PublicKey_def readConfigObject_def writeConfigObject_def
        plainWrite_def noFaults_def Let_def)
  show ?thesis
    using address_book_roundtrip [OF p s] by (auto simp: s tr g accountsFromUnknown_def)
qed

subsection \<open>Settings\<close>

lemma firstTruthy_head: "truthy v \<Longrightarrow> firstTruthy (v # rest) = v"
  by (cases rest) auto

text \<open>A network flag takes the node of its preset, whatever the environment, project file and stored file say.\<close>

lemma explicit_network_uses_preset:
  assumes "getClientConfig E stored \<lparr>ov_network = Some n, ov_rpcUrl = None, ov_networkPassphrase = None\<rparr> fs = Inr c"
    and "js_trim n \<noteq> []"
  shows "\<exists>p. map_of NETWORK_PRESETS (cc_network c) = Some p \<and> parseNetworkName n = Inr (cc_network c) \<and>
     cc_rpcUrl c = preset_rpcUrl p \<and> cc_networkPassphrase c = preset_passphrase p"
proof -
  have t: "truthy (Some n)" using assms(2) by (auto simp: truthy_def)
  show ?thesis
    using assms
    by (auto simp: getClientConfig_def clientConfigInputs_def firstTruthy_head [OF t] resolveNetworkConfig_def
        assertHttpUrl_def trimmedOr_def Let_def truthy_def split: sum.split_asm option.split_asm if_split_asm)
qed

text \<open>
  The schema of the project file allows the network \<^verbatim>\<open>custom\<close>, which no command that reads its settings accepts,
  an explicit node URL notwithstanding.
\<close>

lemma custom_network_rejected:
  assumes "getFileConfig E fs = Some cfg" and "textField cfg ''network'' = Some ''custom''"
    and "env_var E ''NETWORK'' = None"
  shows "getClientConfig E stored \<lparr>ov_network = None, ov_rpcUrl = url, ov_networkPassphrase = phrase\<rparr> fs =
     Inl (UnknownNetworkError ''custom'')"
proof -
  have "parseNetworkName ''custom'' = Inl (UnknownNetworkError ''custom'')" by code_simp
  then show ?thesis
    using assms by (simp add: getClientConfig_def clientConfigInputs_def fileText_def truthy_def resolveNetworkConfig_def Let_def)
qed

text \<open>Setting a value over a damaged \<^verbatim>\<open>config.json\<close> drops everything else it held.\<close>

lemma config_set_over_damaged:
  assumes "fs (getCliConfigPath E) = Some (Garbled m)"
  shows "config_set E noFaults k v fs (getCliConfigPath E) = Some (Document (JObj [(k, JStr v)]))"
  using assms by (simp add: config_set_def readStoredConfig_def writeStoredConfig_def plainWrite_def noFaults_def)

lemma config_get_set:
  "fault faults Mkdir = None \<Longrightarrow> fault faults Open = None \<Longrightarrow> fault faults Write = None \<Longrightarrow>
   config_get E k' (config_set E faults k v fs) = (if k' = k then Some (JStr v) else config_get E k' fs)"
  by (simp add: config_get_def config_set_def writeStoredConfig_def plainWrite_def readStoredConfig_def update_conv'
      split: option.split)

end
