(* ===== verification/CliDeploy.thy ===== *)
theory CliDeploy
  imports CliConfig
begin

text \<open>
  Commands that deploy and record: \<^verbatim>\<open>src/cli/src/commands/deploy.ts\<close> (the vault and its fee contract),
  \<^verbatim>\<open>src/cli/src/commands/export-deployments.ts\<close> and \<^verbatim>\<open>src/cli/src/commands/deployments.ts\<close>.

  The external \<^verbatim>\<open>stellar\<close> program is a function of its arguments and a state \<open>'w\<close> of the world that answers with
  its trimmed output or an error text. Commands thread that state and the file system. Step texts end in three
  dots where the source has an ellipsis character; log lines are not kept.
\<close>

subsection \<open>The stellar program\<close>

record 'w Tool =
  stellar :: "string list \<Rightarrow> 'w \<Rightarrow> (string + string) \<times> 'w"
  wasmExists :: "string \<Rightarrow> bool"
  nowIso :: string
  tmpName :: string
  encodeURI :: "string \<Rightarrow> string"

definition runStellar :: "'w Tool \<Rightarrow> string list \<Rightarrow> bool \<Rightarrow> 'w \<Rightarrow> (string + string) \<times> 'w" where
  "runStellar T args dryRun w = (if dryRun then (Inr [], w) else stellar T (''contract'' # args) w)"

text \<open>\<^verbatim>\<open>value || undefined\<close>.\<close>

definition orUndefined :: "string \<Rightarrow> string option" where
  "orUndefined s = (if s = [] then None else Some s)"

definition uploadWasm ::
    "'w Tool \<Rightarrow> string \<Rightarrow> string \<Rightarrow> string \<Rightarrow> string \<Rightarrow> bool \<Rightarrow> 'w \<Rightarrow> (string + string option) \<times> 'w" where
  "uploadWasm T wasmPath rpcUrl networkPassphrase source dryRun w =
     apfst (map_sum id orUndefined)
       (runStellar T [''upload'', ''--wasm'', wasmPath, ''--rpc-url'', rpcUrl, ''--network-passphrase'',
          networkPassphrase, ''--source-account'', source] dryRun w)"

definition deployFromHash ::
    "'w Tool \<Rightarrow> string \<Rightarrow> string \<Rightarrow> string \<Rightarrow> string \<Rightarrow> bool \<Rightarrow> 'w \<Rightarrow> (string + string option) \<times> 'w" where
  "deployFromHash T wasmHash rpcUrl networkPassphrase source dryRun w =
     apfst (map_sum id orUndefined)
       (runStellar T [''deploy'', ''--wasm-hash'', wasmHash, ''--rpc-url'', rpcUrl, ''--network-passphrase'',
          networkPassphrase, ''--source-account'', source] dryRun w)"

definition invokeStellar ::
    "'w Tool \<Rightarrow> string \<Rightarrow> string \<Rightarrow> string list \<Rightarrow> string \<Rightarrow> string \<Rightarrow> string \<Rightarrow> bool \<Rightarrow> 'w \<Rightarrow> (string + string) \<times> 'w" where
  "invokeStellar T contractId fn fnArgs rpcUrl networkPassphrase source dryRun w =
     runStellar T ([''invoke'', ''--id'', contractId, ''--fn'', fn, ''--rpc-url'', rpcUrl, ''--network-passphrase'',
        networkPassphrase, ''--source-account'', source, ''--''] @ fnArgs) dryRun w"

subsection \<open>Deploying the vault\<close>

record DeployVaultOptions =
  dv_vaultWasm :: string
  dv_feeWasm :: "string option"
  dv_admin :: string
  dv_source :: string
  dv_underlyingToken :: string
  dv_name :: string
  dv_symbol :: string
  dv_decimals :: "int option"
  dv_rpcUrl :: string
  dv_networkPassphrase :: string
  dv_network :: "string option"
  dv_dryRun :: bool
  dv_out :: "string option"

record DeployVaultResult =
  dr_success :: bool
  dr_vaultContractId :: "string option"
  dr_feeContractId :: "string option"
  dr_vaultWasmHash :: "string option"
  dr_feeWasmHash :: "string option"
  dr_linkTxHash :: "string option"
  dr_outPath :: "string option"
  dr_message :: string
  dr_steps :: "string list"

definition failedDeploy :: "string \<Rightarrow> string list \<Rightarrow> DeployVaultResult" where
  "failedDeploy msg steps =
     \<lparr>dr_success = False, dr_vaultContractId = None, dr_feeContractId = None, dr_vaultWasmHash = None,
      dr_feeWasmHash = None, dr_linkTxHash = None, dr_outPath = None, dr_message = msg, dr_steps = steps\<rparr>"

text \<open>A failing step ends the deployment with the steps so far.\<close>

definition step ::
    "string list \<Rightarrow> (string + 'a) \<times> 'w \<Rightarrow> ('a \<Rightarrow> 'w \<Rightarrow> DeployVaultResult \<times> 'w \<times> filesystem) \<Rightarrow> filesystem \<Rightarrow>
     DeployVaultResult \<times> 'w \<times> filesystem" where
  "step steps r k fs =
     (case r of (Inl e, w) \<Rightarrow> (failedDeploy (''Deployment failed: '' @ e) steps, w, fs) | (Inr v, w) \<Rightarrow> k v w)"

text \<open>The steps of the vault: upload, deploy, initialize. Without a hash or an id the rest is skipped.\<close>

definition initializeArgs :: "DeployVaultOptions \<Rightarrow> string list" where
  "initializeArgs opts =
     [''--admin'', dv_admin opts, ''--token-contract-id'', dv_underlyingToken opts, ''--decimal'',
      show_int (case dv_decimals opts of Some d \<Rightarrow> d | None \<Rightarrow> 7), ''--name'', dv_name opts,
      ''--symbol'', dv_symbol opts]"

definition deployIfHash :: "'w Tool \<Rightarrow> DeployVaultOptions \<Rightarrow> string option \<Rightarrow> 'w \<Rightarrow> (string + string option) \<times> 'w" where
  "deployIfHash T opts wasmHash w =
     (case wasmHash of
        Some h \<Rightarrow> deployFromHash T h (dv_rpcUrl opts) (dv_networkPassphrase opts) (dv_source opts) (dv_dryRun opts) w
      | None \<Rightarrow> (Inr None, w))"

definition finishDeploy ::
    "'w Tool \<Rightarrow> Faults \<Rightarrow> DeployVaultOptions \<Rightarrow> string option \<Rightarrow> string option \<Rightarrow> string option \<Rightarrow> string option \<Rightarrow>
     string option \<Rightarrow> string list \<Rightarrow> 'w \<Rightarrow> filesystem \<Rightarrow> DeployVaultResult \<times> 'w \<times> filesystem" where
  "finishDeploy T faults opts vaultHash vaultId feeHash feeId linkTx steps w fs =
     (let input = \<lparr>in_network = dv_network opts, in_rpcUrl = Some (dv_rpcUrl opts), in_vaultContractId = vaultId,
            in_vaultWasmHash = vaultHash, in_feeContractId = feeId, in_feeWasmHash = feeHash, in_linkTxHash = linkTx,
            in_contracts = [], in_txHashes = []\<rparr>;
          exported = (if truthy (dv_out opts)
            then Some (exportDeploymentsToFile faults (the (dv_out opts)) (tmpName T)
                         (buildDeploymentArtifacts (nowIso T) input) fs)
            else None);
          outPath = (case exported of
              Some (r, _) \<Rightarrow> if export_success r then Some (export_filePath r) else None
            | None \<Rightarrow> None);
          fs' = (case exported of Some (_, trace) \<Rightarrow> last trace | None \<Rightarrow> fs);
          printed = (if truthy vaultId \<and> truthy (dv_network opts)
            then formatContractIdWithExplorer (encodeURI T) (the vaultId) (the (dv_network opts)) None
            else Inr (case vaultId of Some i \<Rightarrow> i | None \<Rightarrow> ''(dry-run)''))
      in case printed of
           Inl _ \<Rightarrow> (failedDeploy ''Deployment failed: Unknown network'' steps, w, fs')
         | Inr p \<Rightarrow>
             (\<lparr>dr_success = True, dr_vaultContractId = vaultId, dr_feeContractId = feeId, dr_vaultWasmHash = vaultHash,
               dr_feeWasmHash = feeHash, dr_linkTxHash = linkTx, dr_outPath = outPath,
               dr_message = (if dv_dryRun opts then ''Dry-run completed - no contracts were actually deployed.''
                             else ''Vault deployment complete. Contract ID: '' @ p),
               dr_steps = steps\<rparr>, w, fs'))"

text \<open>The fee contract: upload, deploy, and link when both contracts have an id.\<close>

definition deployFee ::
    "'w Tool \<Rightarrow> Faults \<Rightarrow> DeployVaultOptions \<Rightarrow> string option \<Rightarrow> string option \<Rightarrow> string list \<Rightarrow> 'w \<Rightarrow> filesystem \<Rightarrow>
     DeployVaultResult \<times> 'w \<times> filesystem" where
  "deployFee T faults opts vaultHash vaultId steps w fs =
     (if \<not> truthy (dv_feeWasm opts) then finishDeploy T faults opts vaultHash vaultId None None None steps w fs
      else let steps1 = steps @ [''Uploading fee contract WASM...'']; steps2 = steps1 @ [''Deploying fee contract...''] in
        step steps1 (uploadWasm T (the (dv_feeWasm opts)) (dv_rpcUrl opts) (dv_networkPassphrase opts) (dv_source opts)
                       (dv_dryRun opts) w) (\<lambda>feeHash w1.
        step steps2 (deployIfHash T opts feeHash w1) (\<lambda>feeId w2.
          if vaultId \<noteq> None \<and> feeId \<noteq> None
          then let steps3 = steps2 @ [''Linking fee contract to vault...''] in
               step steps3 (invokeStellar T (the vaultId) ''set_fee_contract'' [''--fee-contract'', the feeId] (dv_rpcUrl opts)
                              (dv_networkPassphrase opts) (dv_source opts) (dv_dryRun opts) w2) (\<lambda>linkTx w3.
                 finishDeploy T faults opts vaultHash vaultId feeHash feeId (Some linkTx) steps3 w3 fs) fs
          else finishDeploy T faults opts vaultHash vaultId feeHash feeId None steps2 w2 fs) fs) fs)"

definition deployVault ::
    "'w Tool \<Rightarrow> Faults \<Rightarrow> DeployVaultOptions \<Rightarrow> 'w \<Rightarrow> filesystem \<Rightarrow> DeployVaultResult \<times> 'w \<times> filesystem" where
  "deployVault T faults opts w fs =
     (if \<not> wasmExists T (dv_vaultWasm opts)
      then (failedDeploy (''Vault WASM not found: '' @ dv_vaultWasm opts) [], w, fs)
      else if truthy (dv_feeWasm opts) \<and> \<not> wasmExists T (the (dv_feeWasm opts))
      then (failedDeploy (''Fee contract WASM not found: '' @ the (dv_feeWasm opts)) [], w, fs)
      else let steps1 = [''Uploading vault WASM...'']; steps2 = steps1 @ [''Deploying vault contract...''] in
        step steps1 (uploadWasm T (dv_vaultWasm opts) (dv_rpcUrl opts) (dv_networkPassphrase opts) (dv_source opts)
                       (dv_dryRun opts) w) (\<lambda>vaultHash w1.
        step steps2 (deployIfHash T opts vaultHash w1) (\<lambda>vaultId w2.
          case vaultId of
            None \<Rightarrow> deployFee T faults opts vaultHash None steps2 w2 fs
          | Some i \<Rightarrow>
              (let steps3 = steps2 @ [''Initializing vault...''] in
               step steps3 (invokeStellar T i ''initialize'' (initializeArgs opts) (dv_rpcUrl opts) (dv_networkPassphrase opts)
                              (dv_source opts) (dv_dryRun opts) w2) (\<lambda>out w3.
                 deployFee T faults opts vaultHash (Some i) steps3 w3 fs) fs)) fs) fs)"

subsection \<open>Exporting\<close>

record ExportOptions =
  eo_out :: string
  eo_config :: "string option"
  eo_vaultId :: "string option"
  eo_feeId :: "string option"
  eo_txHash :: "string option"

text \<open>\<^verbatim>\<open>{ contractId: data.contractId || "", wasmHash: data.wasmHash, deployedAt }\<close>; an undefined hash is not rendered.\<close>

fun exportedContracts :: "string \<Rightarrow> fields \<Rightarrow> (string \<times> fields) list" where
  "exportedContracts ts [] = []"
| "exportedContracts ts ((name, v) # rest) =
     (case v of
        JObj d \<Rightarrow>
          (name, [(''contractId'', JStr (case textField d ''contractId'' of Some i \<Rightarrow> i | None \<Rightarrow> []))] @
                 (case map_of d ''wasmHash'' of Some h \<Rightarrow> [(''wasmHash'', h)] | None \<Rightarrow> []) @
                 [(''deployedAt'', JStr ts)]) # exportedContracts ts rest
      | JArr _ \<Rightarrow> (name, [(''contractId'', JStr []), (''deployedAt'', JStr ts)]) # exportedContracts ts rest
      | _ \<Rightarrow> exportedContracts ts rest)"

definition overrideContract :: "string \<Rightarrow> string \<Rightarrow> string option \<Rightarrow> (string \<times> fields) list \<Rightarrow> (string \<times> fields) list" where
  "overrideContract ts name i contracts =
     (if truthy i
      then AList.update name
             (spread (case map_of contracts name of Some d \<Rightarrow> d | None \<Rightarrow> [])
                [(''contractId'', JStr (the i)), (''deployedAt'', JStr ts)]) contracts
      else contracts)"

definition aliasEntries :: "(string \<times> fields) list \<Rightarrow> (string \<times> string option) list" where
  "aliasEntries contracts =
     filter (\<lambda>(n, v). truthy v) (map (\<lambda>(n, d). (n, textField d ''contractId'')) contracts)"

definition runExportDeployments ::
    "CliEnv \<Rightarrow> 'w Tool \<Rightarrow> Faults \<Rightarrow> fields \<Rightarrow> NetworkOverrides \<Rightarrow> ExportOptions \<Rightarrow> filesystem \<Rightarrow>
     (cli_error + ExportDeploymentsResult) \<times> filesystem" where
  "runExportDeployments E T faults stored overrides opts fs =
     (case getClientConfig E stored overrides fs of
        Inl e \<Rightarrow> (Inl (NetworkErr e), fs)
      | Inr netCfg \<Rightarrow>
          (let declared = (case loadConfigFile E (eo_config opts) fs of
                 Inr cfg \<Rightarrow> (case objectField cfg ''contracts'' of Some cs \<Rightarrow> exportedContracts (nowIso T) cs | None \<Rightarrow> [])
               | Inl _ \<Rightarrow> []);
               contracts = overrideContract (nowIso T) ''fee'' (eo_feeId opts)
                             (overrideContract (nowIso T) ''vault'' (eo_vaultId opts) declared);
               txHashes = optionalField ''exportTxHash'' (eo_txHash opts);
               artifacts = buildDeploymentArtifacts (nowIso T)
                 \<lparr>in_network = Some (cc_network netCfg), in_rpcUrl = Some (cc_rpcUrl netCfg), in_vaultContractId = None,
                  in_vaultWasmHash = None, in_feeContractId = None, in_feeWasmHash = None, in_linkTxHash = None,
                  in_contracts = map (\<lambda>(n, d). (n, JObj d)) contracts, in_txHashes = txHashes\<rparr>
           in case readDeploymentsDocument (eo_out opts) False fs of
                Inl e \<Rightarrow> (Inl e, fs)
              | Inr doc \<Rightarrow>
                  (case mergeNetworkAliases (networksFromDocument doc) (cc_network netCfg) (aliasEntries contracts) of
                     Inl e \<Rightarrow> (Inl (NetworkErr e), fs)
                   | Inr networks \<Rightarrow>
                       (case exportDeploymentsToFile faults (eo_out opts) (tmpName T)
                               (artifacts @ (if networks \<noteq> [] then [(''networks'', networksJson networks)] else [])) fs of
                          (r, trace) \<Rightarrow> (Inr r, last trace)))))"

subsection \<open>The deployments command\<close>

definition selectedNetwork :: "command list \<Rightarrow> network_error + string" where
  "selectedNetwork chain = map_sum id net_name (resolveNetworkConfig (mergeNetworkOptions chain))"

definition runRegister ::
    "Faults \<Rightarrow> string \<Rightarrow> command list \<Rightarrow> string \<Rightarrow> string \<Rightarrow> string \<Rightarrow> filesystem \<Rightarrow>
     (cli_error + RegisterAliasResult) \<times> filesystem" where
  "runRegister faults tmp chain alias i path fs =
     (case selectedNetwork chain of
        Inl e \<Rightarrow> (Inl (NetworkErr e), fs)
      | Inr network \<Rightarrow> registerDeploymentAlias faults path tmp alias i network fs)"

definition runResolve :: "command list \<Rightarrow> string \<Rightarrow> string \<Rightarrow> filesystem \<Rightarrow> cli_error + resolved" where
  "runResolve chain alias path fs =
     (case selectedNetwork chain of
        Inl e \<Rightarrow> Inl (NetworkErr e)
      | Inr network \<Rightarrow> resolveContractReference alias network path fs)"

subsection \<open>What a deployment leaves in the file it exports to\<close>

lemma artifacts_without_networks: "map_of (buildDeploymentArtifacts ts input) ''networks'' = None"
  by (simp add: buildDeploymentArtifacts_def optionalField_def Let_def)

lemma export_filePath_target: "export_filePath (fst (writeJsonAtomic faults target tmp doc fs)) = target"
  by (auto simp: writeJsonAtomic_def failedWrite_def Let_def split: option.split)

text \<open>The exported file holds a document without an alias map.\<close>

definition aliasFree :: "'w Tool \<Rightarrow> DeployVaultResult \<times> 'w \<times> filesystem \<Rightarrow> bool" where
  "aliasFree T res =
     (case res of (r, w, fs') \<Rightarrow>
        case dr_outPath r of
          None \<Rightarrow> True
        | Some p \<Rightarrow> tmpName T = p \<or>
            (case fs' p of Some (Document (JObj d)) \<Rightarrow> map_of d ''networks'' = None | _ \<Rightarrow> False))"

lemma aliasFree_failed [simp]: "aliasFree T (failedDeploy m s, w, fs)"
  by (simp add: aliasFree_def failedDeploy_def)

lemma aliasFree_step: "(\<And>v w. aliasFree T (k v w)) \<Longrightarrow> aliasFree T (step s r k fs)"
  by (auto simp: step_def split: sum.split prod.split)

lemma exported_file:
  "exportDeploymentsToFile faults p tmp a fs = (r, tr) \<Longrightarrow> export_success r \<Longrightarrow> tmp \<noteq> p \<Longrightarrow>
     last tr p = Some (Document (JObj a)) \<and> export_filePath r = p"
  using atomic_final [of tmp p faults "JObj a" fs] export_filePath_target [of faults p tmp "JObj a" fs]
  by (simp add: exportDeploymentsToFile_def)

lemma exported_path: "exportDeploymentsToFile faults p tmp a fs = (r, tr) \<Longrightarrow> export_filePath r = p"
  using export_filePath_target [of faults p tmp "JObj a" fs] by (simp add: exportDeploymentsToFile_def)

lemma aliasFree_finish: "aliasFree T (finishDeploy T faults opts vh vi fh fi lt s w fs)"
proof (cases "truthy (dv_out opts)")
  case True
  define a where "a = buildDeploymentArtifacts (nowIso T) \<lparr>in_network = dv_network opts, in_rpcUrl = Some (dv_rpcUrl opts),
     in_vaultContractId = vi, in_vaultWasmHash = vh, in_feeContractId = fi, in_feeWasmHash = fh, in_linkTxHash = lt,
     in_contracts = [], in_txHashes = []\<rparr>"
  obtain r tr where e: "exportDeploymentsToFile faults (the (dv_out opts)) (tmpName T) a fs = (r, tr)" by fastforce
  have n: "map_of a ''networks'' = None" unfolding a_def by (rule artifacts_without_networks)
  have "export_success r \<Longrightarrow> tmpName T = the (dv_out opts) \<or>
      (case last tr (the (dv_out opts)) of Some (Document (JObj d)) \<Rightarrow> map_of d ''networks'' = None | _ \<Rightarrow> False)"
    using exported_file [OF e] n by (cases "tmpName T = the (dv_out opts)") simp_all
  then show ?thesis
    using True exported_path [OF e]
    by (auto simp: aliasFree_def finishDeploy_def e [unfolded a_def] failedDeploy_def Let_def split: sum.split)
qed (auto simp: aliasFree_def finishDeploy_def failedDeploy_def Let_def split: sum.split)

lemma aliasFree_deploy: "aliasFree T (deployVault T faults opts w fs)"
  by (auto simp: deployVault_def deployFee_def Let_def intro!: aliasFree_step aliasFree_finish split: option.split)

lemma dry_run_pure: "dv_dryRun opts \<Longrightarrow> fst (snd (deployVault T faults opts w fs)) = w"
  by (auto simp: deployVault_def deployFee_def finishDeploy_def uploadWasm_def runStellar_def deployIfHash_def step_def
      deployFromHash_def invokeStellar_def orUndefined_def Let_def split: sum.split option.split)

text \<open>
  A vault deployment that exports its artifacts to a file leaves a document without the alias map: whatever was
  registered there, no alias resolves through the file afterwards and only literal contract ids do. A dry run, which
  starts no program, does this as well.
\<close>

theorem deploy_export_erases_aliases:
  assumes "deployVault T faults opts w fs = (r, w', fs')" and "dr_outPath r = Some p" and "tmpName T \<noteq> p"
  shows "(\<forall>v net i. resolveContractReference v net p fs' = Inr (ContractRef i) \<longrightarrow> i = js_trim v \<and> isContractId i) \<and>
     (dv_dryRun opts \<longrightarrow> w' = w)"
proof -
  have "aliasFree T (r, w', fs')" using aliasFree_deploy [of T faults opts w fs] assms(1) by simp
  then obtain d where "fs' p = Some (Document (JObj d))" "map_of d ''networks'' = None"
    using assms(2,3) by (auto simp: aliasFree_def split: option.split_asm content.split_asm json.split_asm)
  then have "resolveContractReference v net p fs' = Inr (ContractRef i) \<longrightarrow> i = js_trim v \<and> isContractId i" for v net i
    by (auto simp: resolve_ContractRef readDeploymentsDocument_def networksFromDocument_def aliasLookup_def
        split: if_split_asm)
  moreover have "dv_dryRun opts \<longrightarrow> w' = w" using dry_run_pure [of opts T faults w fs] assms(1) by auto
  ultimately show ?thesis by blast
qed

definition demoTool :: "unit Tool" where
  "demoTool = \<lparr>stellar = (\<lambda>args w. (Inr ''C'', w)), wasmExists = (\<lambda>_. True), nowIso = ''2026'', tmpName = ''tmp'',
     encodeURI = id\<rparr>"

definition demoDeploy :: DeployVaultOptions where
  "demoDeploy = \<lparr>dv_vaultWasm = ''v.wasm'', dv_feeWasm = None, dv_admin = ''G'', dv_source = ''S'', dv_underlyingToken = ''C'',
     dv_name = ''n'', dv_symbol = ''s'', dv_decimals = None, dv_rpcUrl = ''u'', dv_networkPassphrase = ''p'',
     dv_network = None, dv_dryRun = True, dv_out = Some ''deployments.json''\<rparr>"

definition demoRegistry :: filesystem where
  "demoRegistry = [''deployments.json'' \<mapsto>
     Document (JObj [(''networks'', JObj [(''testnet'', JObj [(''token'', JStr ''CTOKEN'')])])])]"

lemma deploy_export_erases_aliases_witness:
  "resolveContractReference ''token'' ''testnet'' ''deployments.json'' demoRegistry = Inr (ContractRef ''CTOKEN'') \<and>
   resolveContractReference ''token'' ''testnet'' ''deployments.json''
     (snd (snd (deployVault demoTool noFaults demoDeploy () demoRegistry))) \<noteq> Inr (ContractRef ''CTOKEN'')"
proof -
  let ?d = "deployVault demoTool noFaults demoDeploy () demoRegistry"
  have out: "dr_outPath (fst ?d) = Some ''deployments.json''"
    by (simp add: demoTool_def demoDeploy_def deployVault_def deployFee_def finishDeploy_def uploadWasm_def runStellar_def
        deployIfHash_def step_def truthy_def exportDeploymentsToFile_def writeJsonAtomic_def noFaults_def orUndefined_def Let_def)
  have v: "js_trim ''token'' = ''token''" "\<not> isContractId ''token''" "js_trim ''CTOKEN'' = ''CTOKEN''"
    "\<not> isSecretKey ''CTOKEN''" by code_simp+
  have before: "resolveContractReference ''token'' ''testnet'' ''deployments.json'' demoRegistry = Inr (ContractRef ''CTOKEN'')"
    by (simp add: resolveContractReference_def v parse_names readDeploymentsDocument_def demoRegistry_def
        networksFromDocument_def contractIdFromAliasValue_def)
  have "tmpName demoTool \<noteq> ''deployments.json''" by (simp add: demoTool_def)
  note erased = deploy_export_erases_aliases [of demoTool noFaults demoDeploy "()" demoRegistry "fst ?d" "fst (snd ?d)"
      "snd (snd ?d)", OF _ out this]
  have ne: "''CTOKEN'' \<noteq> js_trim ''token''" using v(1) by simp
  have "resolveContractReference ''token'' ''testnet'' ''deployments.json'' (snd (snd ?d)) \<noteq> Inr (ContractRef ''CTOKEN'')"
    using erased ne by (simp only: prod.collapse) blast
  with before show ?thesis by blast
qed

subsection \<open>The export command keeps the aliases of the other networks\<close>

lemma merge_other_network:
  assumes "mergeNetworkAliases ns net al = Inr ns'" and "parseNetworkName net = Inr c" and "n \<noteq> c"
  shows "aliasLookup ns' n = aliasLookup ns n"
  using assms by (auto simp: mergeNetworkAliases_def aliasLookup_def Let_def update_conv' delete_conv' fun_eq_iff split: if_split_asm)

lemma networks_appended:
  assumes "plainMap ns" and "map_of a ''networks'' = None"
  shows "networksFromDocument (Some (a @ (if ns \<noteq> [] then [(''networks'', networksJson ns)] else []))) = ns"
  using assms networkBuckets_roundtrip [OF assms(1)]
  by (auto simp: networksFromDocument_def networksJson_def map_add_def)

lemma getClientConfig_name:
  assumes "getClientConfig E stored ov fs = Inr c"
  shows "parseNetworkName (cc_network c) = Inr (cc_network c)"
proof -
  from assms obtain r where r: "resolveNetworkConfig (clientConfigInputs E stored ov (getFileConfig E fs)) = Inr r"
      and c: "cc_network c = net_name r"
    by (auto simp: getClientConfig_def Let_def map_sum_def split: sum.split_asm)
  from resolveNetworkConfig_Inr [OF r] show ?thesis unfolding c by (auto dest!: map_of_SomeD intro!: parseNetworkName_preset) force
qed

lemma export_keeps_other_networks:
  assumes run: "runExportDeployments E T faults stored ov opts fs = (Inr r, fs')" and ok: "export_success r"
    and t: "tmpName T \<noteq> eo_out opts" and c: "getClientConfig E stored ov fs = Inr cfg"
    and other: "parseNetworkName net = Inr n" "n \<noteq> cc_network cfg"
    and before: "resolveContractReference v net (eo_out opts) fs = Inr (ContractRef i)"
  shows "resolveContractReference v net (eo_out opts) fs' = Inr (ContractRef i)"
proof (cases "isContractId (js_trim v)")
  case False
  then obtain doc where d: "readDeploymentsDocument (eo_out opts) True fs = Inr doc"
      "aliasLookup (networksFromDocument doc) n (js_trim v) = Some i" "i \<noteq> []"
    using before other by (auto simp: resolve_ContractRef)
  have d': "readDeploymentsDocument (eo_out opts) False fs = Inr doc"
    using d(1) by (auto simp: readDeploymentsDocument_def split: option.splits content.splits json.splits)
  from run obtain a al ns tr where m: "mergeNetworkAliases (networksFromDocument doc) (cc_network cfg) al = Inr ns"
      and x: "exportDeploymentsToFile faults (eo_out opts) (tmpName T)
           (a @ (if ns \<noteq> [] then [(''networks'', networksJson ns)] else [])) fs = (r, tr)"
      and a: "map_of a ''networks'' = None" and f: "fs' = last tr"
    by (auto simp: runExportDeployments_def c d' Let_def artifacts_without_networks split: sum.split_asm prod.split_asm)
  have "networksFromDocument (Some (a @ (if ns \<noteq> [] then [(''networks'', networksJson ns)] else []))) = ns"
    by (rule networks_appended [OF mergeNetworkAliases_plain [OF networksFromDocument_plain m] a])
  moreover have "aliasLookup ns n = aliasLookup (networksFromDocument doc) n"
    by (rule merge_other_network [OF m getClientConfig_name [OF c] other(2)])
  ultimately show ?thesis
    using exported_file [OF x ok t] d False other f
    by (auto simp: resolve_ContractRef readDeploymentsDocument_def)
qed (use before in \<open>simp add: resolve_ContractRef\<close>)

end
