(* ===== verification/CliUpgrade.thy ===== *)
theory CliUpgrade
  imports CliConfig
begin

text \<open>
  Upgrading a deployed contract: \<^verbatim>\<open>src/cli/src/utils/upgrade-history.ts\<close> (the local record of upgrades),
  \<^verbatim>\<open>src/cli/src/utils/soroban-tx.ts\<close> (prepare, sign, submit and poll until a deadline) and \<^verbatim>\<open>src/cli/src/commands/upgrade.ts\<close>.

  The node, the clock and the Stellar SDK are fields of \<open>UpgradeEnv\<close> over a state \<open>'w\<close> of the world; a field that can throw
  returns \<open>Inl\<close> with the message. The poll loop has no bound of its own and is a partial function, so that not
  returning is \<open>None\<close>. Resource fees are whole numbers below $2^{53}$; an entry of the history that is not an array of
  objects counts as absent.
\<close>

subsection \<open>History\<close>

definition resolveHistoryPath :: "CliEnv \<Rightarrow> string \<Rightarrow> string option \<Rightarrow> string" where
  "resolveHistoryPath E homeFile historyPath =
     (if truthy historyPath then the historyPath
      else if truthy (env_var E ''BC_FORGE_UPGRADE_HISTORY'') then the (env_var E ''BC_FORGE_UPGRADE_HISTORY'')
      else homeFile)"

definition readHistoryFile :: "string \<Rightarrow> filesystem \<Rightarrow> fields" where
  "readHistoryFile path fs = (case fs path of Some (Document (JObj o1)) \<Rightarrow> o1 | _ \<Rightarrow> [])"

definition writeHistoryFile :: "Faults \<Rightarrow> string \<Rightarrow> fields \<Rightarrow> filesystem \<Rightarrow> (string + unit) \<times> filesystem" where
  "writeHistoryFile faults path data fs =
     (case fault faults Mkdir of Some m \<Rightarrow> (Inl m, fs) | None \<Rightarrow> plainWrite faults path (JObj data) fs)"

definition historyEntries :: "fields \<Rightarrow> string \<Rightarrow> json list" where
  "historyEntries data contractId = (case map_of data contractId of Some (JArr es) \<Rightarrow> es | _ \<Rightarrow> [])"

definition historyEntry :: "string \<Rightarrow> string \<Rightarrow> string \<Rightarrow> string option \<Rightarrow> json" where
  "historyEntry previousHash newHash now txHash =
     JObj ([(''newHash'', JStr newHash), (''previousHash'', JStr previousHash), (''recordedAt'', JStr now)] @
           optionalField ''txHash'' txHash)"

definition appendUpgradeHistory ::
    "Faults \<Rightarrow> string \<Rightarrow> string \<Rightarrow> string \<Rightarrow> string \<Rightarrow> string option \<Rightarrow> string \<Rightarrow> filesystem \<Rightarrow> (string + unit) \<times> filesystem" where
  "appendUpgradeHistory faults now contractId previousHash newHash txHash path fs =
     (let data = readHistoryFile path fs in
      writeHistoryFile faults path
        (AList.update contractId (JArr (historyEntries data contractId @ [historyEntry previousHash newHash now txHash])) data) fs)"

definition getLastGoodHash :: "string \<Rightarrow> string \<Rightarrow> filesystem \<Rightarrow> string option" where
  "getLastGoodHash contractId path fs =
     (let entries = historyEntries (readHistoryFile path fs) contractId in
      if entries = [] then None
      else case last entries of JObj e \<Rightarrow> textField e ''previousHash'' | _ \<Rightarrow> None)"

subsection \<open>Submission\<close>

record SendResult =
  sr_status :: string
  sr_hash :: string
  sr_errorResult :: string

record ('t, 'w) SubmitServer =
  prepareTransaction :: "'t \<Rightarrow> 'w \<Rightarrow> (string + 't) \<times> 'w"
  signWith :: "string \<Rightarrow> 't \<Rightarrow> 't"
  sendTransaction :: "'t \<Rightarrow> 'w \<Rightarrow> (string + SendResult) \<times> 'w"
  getTransaction :: "string \<Rightarrow> 'w \<Rightarrow> (string + string) \<times> 'w"
  clockNow :: "'w \<Rightarrow> int"
  sleepFor :: "int \<Rightarrow> 'w \<Rightarrow> 'w"

datatype PrepareSignSubmitResult =
    SimulationFailed string
  | SubmissionFailed string string
  | ConfirmedTx string
  | FailedOnLedger string
  | TimedOut string string

text \<open>Poll until the status is final or the deadline has passed.\<close>

partial_function (option) pollForConfirmation ::
    "('t, 'w) SubmitServer \<Rightarrow> string \<Rightarrow> int \<Rightarrow> int \<Rightarrow> 'w \<Rightarrow> ((string + PrepareSignSubmitResult) \<times> 'w) option" where
  "pollForConfirmation S h interval deadline w =
     (case getTransaction S h w of
        (Inl e, w1) \<Rightarrow> Some (Inl e, w1)
      | (Inr status, w1) \<Rightarrow>
          if status = ''SUCCESS'' then Some (Inr (ConfirmedTx h), w1)
          else if status = ''FAILED'' then Some (Inr (FailedOnLedger h), w1)
          else if deadline \<le> clockNow S w1 then Some (Inr (TimedOut h status), w1)
          else pollForConfirmation S h interval deadline (sleepFor S interval w1))"

definition prepareSignAndSubmit ::
    "('t, 'w) SubmitServer \<Rightarrow> 't \<Rightarrow> string \<Rightarrow> int option \<Rightarrow> int \<Rightarrow> 'w \<Rightarrow> ((string + PrepareSignSubmitResult) \<times> 'w) option" where
  "prepareSignAndSubmit S tx signer pollIntervalMs deadline w =
     (case prepareTransaction S tx w of
        (Inl e, w1) \<Rightarrow> Some (Inr (SimulationFailed e), w1)
      | (Inr prepared, w1) \<Rightarrow>
          (case sendTransaction S (signWith S signer prepared) w1 of
             (Inl e, w2) \<Rightarrow> Some (Inl e, w2)
           | (Inr r, w2) \<Rightarrow>
               if sr_status r = ''ERROR'' then Some (Inr (SubmissionFailed (sr_hash r) (sr_errorResult r)), w2)
               else pollForConfirmation S (sr_hash r) (case pollIntervalMs of Some ms \<Rightarrow> ms | None \<Rightarrow> 1000) deadline w2))"

subsection \<open>The upgrade\<close>

type_synonym bytes = "nat list"

record ('t, 'w) UpgradeEnv = "('t, 'w) SubmitServer" +
  keypairFromSecret :: "string \<Rightarrow> string + string"
  getAccount :: "string \<Rightarrow> 'w \<Rightarrow> (string + string) \<times> 'w"
  buildUpgradeTx :: "string \<Rightarrow> string \<Rightarrow> string \<Rightarrow> bytes \<Rightarrow> string + 't"
  simulateTransaction :: "'t \<Rightarrow> 'w \<Rightarrow> (string + (string + int option)) \<times> 'w"
  readWasm :: "string \<Rightarrow> bytes option"
  hashHex :: "bytes \<Rightarrow> string"
  fromHex :: "string \<Rightarrow> bytes"
  isoNow :: "'w \<Rightarrow> string"

record FeeEstimate =
  baseFee :: string
  resourceFee :: string
  totalFee :: string

record UpgradeResult =
  ur_success :: bool
  ur_txHash :: "string option"
  ur_wasmHash :: "string option"
  ur_message :: string
  ur_estimate :: "FeeEstimate option"

record UpgradeOptions =
  uo_wasmPath :: string
  uo_contractId :: string
  uo_networkPassphrase :: string
  uo_source :: string
  uo_dryRun :: bool
  uo_estimate :: bool
  uo_timeout :: "int option"
  uo_toLastGood :: bool
  uo_historyPath :: string

definition upgradeFailure :: "string \<Rightarrow> UpgradeResult" where
  "upgradeFailure msg =
     \<lparr>ur_success = False, ur_txHash = None, ur_wasmHash = None, ur_message = msg, ur_estimate = None\<rparr>"

definition rollbackNote :: "bool \<Rightarrow> string" where
  "rollbackNote isRollback = (if isRollback then '' (rollback to previous hash)'' else [])"

text \<open>\<^verbatim>\<open>Number(opts.timeout) || 30000\<close>.\<close>

definition upgradeTimeout :: "int option \<Rightarrow> int" where
  "upgradeTimeout t = (case t of Some ms \<Rightarrow> if ms = 0 then 30000 else ms | None \<Rightarrow> 30000)"

definition upgradeOutcome :: "string \<Rightarrow> bool \<Rightarrow> int \<Rightarrow> PrepareSignSubmitResult \<Rightarrow> UpgradeResult" where
  "upgradeOutcome wasmHash isRollback timeout r =
     (case r of
        SimulationFailed e \<Rightarrow>
          \<lparr>ur_success = False, ur_txHash = None, ur_wasmHash = Some wasmHash,
           ur_message = ''Simulation failed: '' @ e, ur_estimate = None\<rparr>
      | SubmissionFailed h e \<Rightarrow>
          \<lparr>ur_success = False, ur_txHash = Some h, ur_wasmHash = Some wasmHash,
           ur_message = ''Transaction submission failed: '' @ e, ur_estimate = None\<rparr>
      | FailedOnLedger h \<Rightarrow>
          \<lparr>ur_success = False, ur_txHash = Some h, ur_wasmHash = Some wasmHash,
           ur_message = ''Upgrade transaction failed on-ledger. Hash: '' @ h, ur_estimate = None\<rparr>
      | TimedOut h status \<Rightarrow>
          \<lparr>ur_success = False, ur_txHash = Some h, ur_wasmHash = Some wasmHash,
           ur_message = ''Timed out after '' @ show_int timeout @ ''ms waiting for confirmation. Hash: '' @ h @
             '' (last status: '' @ status @ '')'', ur_estimate = None\<rparr>
      | ConfirmedTx h \<Rightarrow>
          \<lparr>ur_success = True, ur_txHash = Some h, ur_wasmHash = Some wasmHash,
           ur_message = ''Upgrade transaction submitted'' @ rollbackNote isRollback @ ''. Hash: '' @ h, ur_estimate = None\<rparr>)"

text \<open>An exception of the submission ends in the catch clause.\<close>

definition upgradeSettled :: "string \<Rightarrow> bool \<Rightarrow> int \<Rightarrow> string + PrepareSignSubmitResult \<Rightarrow> UpgradeResult" where
  "upgradeSettled wasmHash isRollback timeout r =
     (case r of
        Inl e \<Rightarrow> upgradeFailure (''Upgrade error: '' @ e)
      | Inr out \<Rightarrow> upgradeOutcome wasmHash isRollback timeout out)"

definition estimateResult :: "string \<Rightarrow> bool \<Rightarrow> int option \<Rightarrow> UpgradeResult" where
  "estimateResult wasmHash isRollback minResourceFee =
     (let fee = (case minResourceFee of Some f \<Rightarrow> f | None \<Rightarrow> 0); total = show_int (100 + fee) in
      \<lparr>ur_success = True, ur_txHash = None, ur_wasmHash = Some wasmHash,
       ur_message = ''Fee estimate for upgrade'' @ rollbackNote isRollback @ '': base=100 resource='' @ show_int fee @
         '' total='' @ total @ '' stroops (hash '' @ wasmHash @ '')'',
       ur_estimate = Some \<lparr>baseFee = ''100'', resourceFee = show_int fee, totalFee = total\<rparr>\<rparr>)"

definition runUpgradeWithHash ::
    "('t, 'w) UpgradeEnv \<Rightarrow> UpgradeOptions \<Rightarrow> string \<Rightarrow> bytes option \<Rightarrow> bool \<Rightarrow> 'w \<Rightarrow> (UpgradeResult \<times> 'w) option" where
  "runUpgradeWithHash V opts wasmHash wasmBytes isRollback w =
     (let payloadBytes = (case wasmBytes of Some b \<Rightarrow> b | None \<Rightarrow> fromHex V wasmHash);
          thrown = (\<lambda>e. upgradeFailure (''Upgrade error: '' @ e))
      in case keypairFromSecret V (uo_source opts) of
           Inl e \<Rightarrow> Some (thrown e, w)
         | Inr publicKey \<Rightarrow>
      (case getAccount V publicKey w of
           (Inl e, w1) \<Rightarrow> Some (thrown e, w1)
         | (Inr account, w1) \<Rightarrow>
      (case buildUpgradeTx V account (uo_networkPassphrase opts) (uo_contractId opts) payloadBytes of
           Inl e \<Rightarrow> Some (thrown e, w1)
         | Inr tx \<Rightarrow>
             if uo_estimate opts
             then (case simulateTransaction V tx w1 of
                     (Inl e, w2) \<Rightarrow> Some (thrown e, w2)
                   | (Inr (Inl err), w2) \<Rightarrow> Some (upgradeFailure (''Simulation failed: '' @ err), w2)
                   | (Inr (Inr fee), w2) \<Rightarrow> Some (estimateResult wasmHash isRollback fee, w2))
             else if uo_dryRun opts
             then (case simulateTransaction V tx w1 of
                     (Inl e, w2) \<Rightarrow> Some (thrown e, w2)
                   | (Inr (Inl err), w2) \<Rightarrow> Some (upgradeFailure (''Dry-run simulation failed: '' @ err), w2)
                   | (Inr (Inr _), w2) \<Rightarrow>
                       Some (\<lparr>ur_success = True, ur_txHash = None, ur_wasmHash = Some wasmHash,
                              ur_message = ''Dry-run simulation succeeded'' @ rollbackNote isRollback @ ''. WASM hash: '' @
                                wasmHash @ ''.'', ur_estimate = None\<rparr>, w2))
             else let timeout = upgradeTimeout (uo_timeout opts) in
                  map_option (\<lambda>(r, w2). (upgradeSettled wasmHash isRollback timeout r, w2))
                    (prepareSignAndSubmit (SubmitServer.truncate V) tx (uo_source opts) None (clockNow V w1 + timeout) w1))))"

definition recorded :: "UpgradeOptions \<Rightarrow> UpgradeResult \<Rightarrow> bool" where
  "recorded opts r \<longleftrightarrow> ur_success r \<and> \<not> uo_dryRun opts \<and> \<not> uo_estimate opts \<and> truthy (ur_txHash r)"

definition runUpgrade ::
    "('t, 'w) UpgradeEnv \<Rightarrow> Faults \<Rightarrow> UpgradeOptions \<Rightarrow> 'w \<Rightarrow> filesystem \<Rightarrow> (UpgradeResult \<times> 'w \<times> filesystem) option" where
  "runUpgrade V faults opts w fs =
     (if uo_toLastGood opts
      then (case getLastGoodHash (uo_contractId opts) (uo_historyPath opts) fs of
              Some h \<Rightarrow>
                if h = [] then Some (upgradeFailure (''No upgrade history found for contract '' @ uo_contractId opts), w, fs)
                else map_option (\<lambda>(r, w1). (r, w1, fs)) (runUpgradeWithHash V opts h None True w)
            | None \<Rightarrow> Some (upgradeFailure (''No upgrade history found for contract '' @ uo_contractId opts), w, fs))
      else if uo_wasmPath opts = [] then Some (upgradeFailure ''Either --wasm <path> or --to-last-good is required.'', w, fs)
      else case readWasm V (uo_wasmPath opts) of
             None \<Rightarrow> Some (upgradeFailure (''WASM file not found: '' @ uo_wasmPath opts), w, fs)
           | Some wasmBytes \<Rightarrow>
               if wasmBytes = [] then Some (upgradeFailure (''WASM file is empty: '' @ uo_wasmPath opts), w, fs)
               else let wasmHash = hashHex V wasmBytes in
                 map_option (\<lambda>(result, w1).
                     if recorded opts result
                     then let previousHash = (case getLastGoodHash (uo_contractId opts) (uo_historyPath opts) fs of
                                                Some h \<Rightarrow> h | None \<Rightarrow> wasmHash)
                          in (result, w1, snd (appendUpgradeHistory faults (isoNow V w1) (uo_contractId opts) previousHash wasmHash
                                             (ur_txHash result) (uo_historyPath opts) fs))
                     else (result, w1, fs))
                   (runUpgradeWithHash V opts wasmHash (Some wasmBytes) False w))"

subsection \<open>The loop returns\<close>

text \<open>
  The clock reads at least a millisecond more after every sleep and never goes back over a request. Then a poll
  returns, and so does an upgrade, whatever the node answers.
\<close>

definition clockAdvances :: "('t, 'w) SubmitServer \<Rightarrow> bool" where
  "clockAdvances S \<longleftrightarrow>
     (\<forall>w ms. 0 < ms \<longrightarrow> clockNow S w < clockNow S (sleepFor S ms w)) \<and>
     (\<forall>h w. clockNow S w \<le> clockNow S (snd (getTransaction S h w)))"

lemma pollForConfirmation_returns:
  assumes "clockAdvances S" and "0 < interval"
  shows "\<exists>r. pollForConfirmation S h interval deadline w = Some r"
proof (induction "nat (deadline - clockNow S w)" arbitrary: w rule: less_induct)
  case less
  obtain a w1 where g: "getTransaction S h w = (a, w1)" by fastforce
  have "clockNow S w \<le> clockNow S w1" using assms(1) g unfolding clockAdvances_def by (metis snd_conv)
  moreover have "clockNow S w1 < clockNow S (sleepFor S interval w1)" using assms unfolding clockAdvances_def by blast
  ultimately have "\<not> deadline \<le> clockNow S w1 \<Longrightarrow> \<exists>r. pollForConfirmation S h interval deadline (sleepFor S interval w1) = Some r"
    by (intro less) simp
  then show ?case
    by (subst pollForConfirmation.simps) (auto simp: g split: sum.split)
qed

lemma prepareSignAndSubmit_returns:
  assumes "clockAdvances S"
  shows "prepareSignAndSubmit S tx signer None deadline w \<noteq> None"
proof -
  have "pollForConfirmation S h 1000 d v \<noteq> None" for h d v
    using pollForConfirmation_returns [OF assms, of 1000 h d v] by auto
  then show ?thesis by (auto simp: prepareSignAndSubmit_def split: sum.split prod.split)
qed

lemma runUpgradeWithHash_returns:
  assumes "clockAdvances (SubmitServer.truncate V)"
  shows "runUpgradeWithHash V opts h b rb w \<noteq> None"
  using prepareSignAndSubmit_returns [OF assms]
  by (simp add: runUpgradeWithHash_def Let_def option.map_disc_iff split: sum.split prod.split del: not_None_eq)

subsection \<open>The rollback target\<close>

lemma result_hashes [simp]:
  "\<not> ur_success (upgradeFailure m)"
  "ur_wasmHash (upgradeOutcome h rb t out) = Some h"
  "ur_wasmHash (estimateResult h rb fee) = Some h"
  "ur_success (upgradeSettled h rb t res) \<Longrightarrow> ur_wasmHash (upgradeSettled h rb t res) = Some h"
  by (auto simp: upgradeFailure_def upgradeOutcome_def estimateResult_def upgradeSettled_def Let_def
      split: PrepareSignSubmitResult.split sum.split)

lemma applied_hash:
  assumes "runUpgradeWithHash V opts h b rb w = Some (r, w')" and "ur_success r"
  shows "ur_wasmHash r = Some h"
  using assms
  by (auto simp: runUpgradeWithHash_def Let_def split: sum.split_asm prod.split_asm if_split_asm)

definition applies :: "string \<Rightarrow> string \<Rightarrow> UpgradeOptions \<Rightarrow> UpgradeResult \<Rightarrow> bool" where
  "applies cid path opts r \<longleftrightarrow>
     uo_contractId opts = cid \<and> uo_historyPath opts = path \<and> \<not> uo_toLastGood opts \<and> recorded opts r"

lemma last_good_after_append:
  "getLastGoodHash cid path (snd (appendUpgradeHistory noFaults now c prev new tx p fs)) =
     (if c = cid \<and> p = path then Some prev else getLastGoodHash cid path fs)"
  by (auto simp: getLastGoodHash_def appendUpgradeHistory_def writeHistoryFile_def plainWrite_def noFaults_def
      readHistoryFile_def historyEntries_def historyEntry_def textField_def update_conv' Let_def)

lemma last_good_step:
  assumes "runUpgrade V noFaults opts w fs = Some (r, w', fs')"
  shows "getLastGoodHash cid path fs' =
     (if applies cid path opts r
      then Some (case getLastGoodHash cid path fs of Some h \<Rightarrow> h | None \<Rightarrow> the (ur_wasmHash r))
      else getLastGoodHash cid path fs)"
proof (cases "uo_toLastGood opts \<or> uo_wasmPath opts = [] \<or> fs' = fs \<and> \<not> recorded opts r")
  case True
  then show ?thesis
    using assms by (auto simp: runUpgrade_def applies_def recorded_def split: option.split_asm if_split_asm)
next
  case False
  then obtain b where b: "readWasm V (uo_wasmPath opts) = Some b" "b \<noteq> []"
      and run: "runUpgradeWithHash V opts (hashHex V b) (Some b) False w = Some (r, w')" and rec: "recorded opts r"
      and fs': "fs' = snd (appendUpgradeHistory noFaults (isoNow V w') (uo_contractId opts)
        (case getLastGoodHash (uo_contractId opts) (uo_historyPath opts) fs of Some h \<Rightarrow> h | None \<Rightarrow> hashHex V b)
        (hashHex V b) (ur_txHash r) (uo_historyPath opts) fs)"
    using assms
    by (auto simp: runUpgrade_def recorded_def Let_def split: option.split_asm if_split_asm)
  have "ur_wasmHash r = Some (hashHex V b)" using applied_hash [OF run] rec by (simp add: recorded_def)
  then show ?thesis using False rec unfolding fs' last_good_after_append
    by (auto simp: applies_def split: option.split)
qed

text \<open>A history of upgrades, one after another, and the code hashes that were put on chain and recorded.\<close>

fun runUpgrades ::
    "('t, 'w) UpgradeEnv \<Rightarrow> UpgradeOptions list \<Rightarrow> 'w \<Rightarrow> filesystem \<Rightarrow> (UpgradeResult list \<times> 'w \<times> filesystem) option" where
  "runUpgrades V [] w fs = Some ([], w, fs)"
| "runUpgrades V (o1 # os) w fs =
     (case runUpgrade V noFaults o1 w fs of
        None \<Rightarrow> None
      | Some (r, w1, fs1) \<Rightarrow> map_option (\<lambda>(rs, w2, fs2). (r # rs, w2, fs2)) (runUpgrades V os w1 fs1))"

fun appliedHashes :: "string \<Rightarrow> string \<Rightarrow> UpgradeOptions list \<Rightarrow> UpgradeResult list \<Rightarrow> string list" where
  "appliedHashes cid path (o1 # os) (r # rs) =
     (if applies cid path o1 r then [the (ur_wasmHash r)] else []) @ appliedHashes cid path os rs"
| "appliedHashes cid path _ _ = []"

lemma last_good_run:
  "runUpgrades V os w fs = Some (rs, w', fs') \<Longrightarrow>
   getLastGoodHash cid path fs' =
     (case getLastGoodHash cid path fs of
        Some h \<Rightarrow> Some h
      | None \<Rightarrow> (case appliedHashes cid path os rs of [] \<Rightarrow> None | h # _ \<Rightarrow> Some h))"
proof (induction V os w fs arbitrary: rs rule: runUpgrades.induct)
  case (2 V o1 os w fs)
  then obtain r w1 fs1 rs' where s: "runUpgrade V noFaults o1 w fs = Some (r, w1, fs1)"
      and t: "runUpgrades V os w1 fs1 = Some (rs', w', fs')" and rs: "rs = r # rs'"
    by (auto split: option.split_asm)
  show ?case
    using "2.IH" [OF s _ _ t] last_good_step [OF s, of cid path] by (auto simp: rs split: option.split)
qed (simp split: option.split)

text \<open>
  The hash that \<^verbatim>\<open>upgrade --to-last-good\<close> rolls back to never moves: after any run of upgrades of a contract without
  earlier history, successful or not, it is the hash of the first recorded upgrade, not the code that
  ran before the latest one. After a single upgrade it is the code that is running.
\<close>

theorem rollback_target_is_first_upgrade:
  assumes "runUpgrades V os w fs = Some (rs, w', fs')" and "getLastGoodHash cid path fs = None"
  shows "getLastGoodHash cid path fs' =
     (case appliedHashes cid path os rs of [] \<Rightarrow> None | h # _ \<Rightarrow> Some h)"
  using last_good_run [OF assms(1), of cid path] assms(2) by simp

definition demoUpgradeEnv :: "(bytes, unit) UpgradeEnv" where
  "demoUpgradeEnv = \<lparr>prepareTransaction = (\<lambda>t w. (Inr t, w)), signWith = (\<lambda>s t. t),
     sendTransaction = (\<lambda>t w. (Inr \<lparr>sr_status = ''PENDING'', sr_hash = ''tx'', sr_errorResult = []\<rparr>, w)),
     getTransaction = (\<lambda>h w. (Inr ''SUCCESS'', w)), clockNow = (\<lambda>w. 0), sleepFor = (\<lambda>ms w. w),
     keypairFromSecret = Inr, getAccount = (\<lambda>a w. (Inr a, w)), buildUpgradeTx = (\<lambda>a p c b. Inr b),
     simulateTransaction = (\<lambda>t w. (Inr (Inr None), w)),
     readWasm = (\<lambda>p. if p = ''v1'' then Some [1] else if p = ''v2'' then Some [2] else Some [3]),
     hashHex = (\<lambda>b. if b = [1] then ''h1'' else if b = [2] then ''h2'' else ''h3''),
     fromHex = (\<lambda>h. []), isoNow = (\<lambda>w. ''2026'')\<rparr>"

definition demoUpgrade :: "string \<Rightarrow> UpgradeOptions" where
  "demoUpgrade p = \<lparr>uo_wasmPath = p, uo_contractId = ''C'', uo_networkPassphrase = ''n'', uo_source = ''S'', uo_dryRun = False,
     uo_estimate = False, uo_timeout = None, uo_toLastGood = False, uo_historyPath = ''history.json''\<rparr>"

lemma demoUpgrade_runs:
  assumes "p \<in> {''v1'', ''v2'', ''v3''}"
  shows "\<exists>r fs'. runUpgrade demoUpgradeEnv noFaults (demoUpgrade p) () fs = Some (r, (), fs') \<and>
     applies ''C'' ''history.json'' (demoUpgrade p) r \<and>
     ur_wasmHash r = Some (if p = ''v1'' then ''h1'' else if p = ''v2'' then ''h2'' else ''h3'')"
  using assms
  by (auto simp: runUpgrade_def demoUpgrade_def demoUpgradeEnv_def runUpgradeWithHash_def prepareSignAndSubmit_def
      pollForConfirmation.simps SubmitServer.truncate_def upgradeSettled_def upgradeOutcome_def recorded_def applies_def truthy_def Let_def)

lemma rollback_target_is_first_upgrade_witness:
  "\<exists>rs fs'. runUpgrades demoUpgradeEnv (map demoUpgrade [''v1'', ''v2'', ''v3'']) () (\<lambda>_. None) = Some (rs, (), fs') \<and>
     appliedHashes ''C'' ''history.json'' (map demoUpgrade [''v1'', ''v2'', ''v3'']) rs = [''h1'', ''h2'', ''h3''] \<and>
     getLastGoodHash ''C'' ''history.json'' fs' = Some ''h1''"
proof -
  obtain r1 f1 where 1: "runUpgrade demoUpgradeEnv noFaults (demoUpgrade ''v1'') () (\<lambda>_. None) = Some (r1, (), f1)"
      "applies ''C'' ''history.json'' (demoUpgrade ''v1'') r1" "ur_wasmHash r1 = Some ''h1''"
    using demoUpgrade_runs [of "''v1''" "\<lambda>_. None"] by auto
  obtain r2 f2 where 2: "runUpgrade demoUpgradeEnv noFaults (demoUpgrade ''v2'') () f1 = Some (r2, (), f2)"
      "applies ''C'' ''history.json'' (demoUpgrade ''v2'') r2" "ur_wasmHash r2 = Some ''h2''"
    using demoUpgrade_runs [of "''v2''" f1] by auto
  obtain r3 f3 where 3: "runUpgrade demoUpgradeEnv noFaults (demoUpgrade ''v3'') () f2 = Some (r3, (), f3)"
      "applies ''C'' ''history.json'' (demoUpgrade ''v3'') r3" "ur_wasmHash r3 = Some ''h3''"
    using demoUpgrade_runs [of "''v3''" f2] by auto
  have run: "runUpgrades demoUpgradeEnv (map demoUpgrade [''v1'', ''v2'', ''v3'']) () (\<lambda>_. None) = Some ([r1, r2, r3], (), f3)"
    using 1 2 3 by simp
  have none: "getLastGoodHash ''C'' ''history.json'' (\<lambda>_. None) = None"
    by (simp add: getLastGoodHash_def historyEntries_def readHistoryFile_def)
  show ?thesis
    using rollback_target_is_first_upgrade [OF run none] run 1 2 3 by auto
qed

end
