(* ===== verification/CliOps.thy ===== *)
theory CliOps
  imports CliUpgrade
begin

text \<open>
  The operational commands of the tool: \<^verbatim>\<open>commands/doctor.ts\<close>, \<^verbatim>\<open>commands/check-status.ts\<close>, \<^verbatim>\<open>commands/verify-hash.ts\<close>,
  \<^verbatim>\<open>commands/smoke-test.ts\<close>, \<^verbatim>\<open>commands/generate-bindings.ts\<close>, \<^verbatim>\<open>commands/init.ts\<close>, \<^verbatim>\<open>commands/batch-mint.ts\<close>,
  \<^verbatim>\<open>utils/pause.ts\<close> and \<^verbatim>\<open>rpc/soroban.ts\<close>.

  Node, clock, sub-processes and prompts are arguments over a state \<open>'w\<close> of the world and return \<open>Inl\<close> with a message when they
  throw. Checks that run together in \<^verbatim>\<open>Promise.all\<close> run one after the other. Version numbers stay below $2^{53}$.
\<close>

subsection \<open>Toolchain versions\<close>

fun splitDots :: "string \<Rightarrow> string list" where
  "splitDots [] = [[]]"
| "splitDots (c # cs) =
     (if c = CHR ''.'' then [] # splitDots cs
      else case splitDots cs of [] \<Rightarrow> [[c]] | p # ps \<Rightarrow> (c # p) # ps)"

definition versionParts :: "string \<Rightarrow> int list" where
  "versionParts v = map (\<lambda>p. case parse_radix 10 p of Some n \<Rightarrow> int n | None \<Rightarrow> 0) (splitDots v)"

text \<open>A missing part counts as zero.\<close>

fun compareParts :: "int list \<Rightarrow> int list \<Rightarrow> int" where
  "compareParts [] [] = 0"
| "compareParts (a # as) [] = (if a \<noteq> 0 then a - 0 else compareParts as [])"
| "compareParts [] (b # bs) = (if 0 \<noteq> b then 0 - b else compareParts [] bs)"
| "compareParts (a # as) (b # bs) = (if a \<noteq> b then a - b else compareParts as bs)"

definition compareVersions :: "string \<Rightarrow> string \<Rightarrow> int" where
  "compareVersions a b = compareParts (versionParts a) (versionParts b)"

text \<open>\<^verbatim>\<open>/(\d+\.\d+(?:\.\d+)?)/\<close> at the start of a text.\<close>

definition dotDigits :: "string \<Rightarrow> string option" where
  "dotDigits s =
     (case s of
        c # d # _ \<Rightarrow> if c = CHR ''.'' \<and> isDigit d then Some (c # takeWhile isDigit (tl s)) else None
      | _ \<Rightarrow> None)"

definition versionAt :: "string \<Rightarrow> string option" where
  "versionAt s =
     (let a = takeWhile isDigit s; r = dropWhile isDigit s in
      if a = [] then None
      else case dotDigits r of
             None \<Rightarrow> None
           | Some b \<Rightarrow>
               Some (a @ b @ (case dotDigits (drop (length b) r) of Some c \<Rightarrow> c | None \<Rightarrow> [])))"

fun parseToolchainVersion :: "string \<Rightarrow> string option" where
  "parseToolchainVersion [] = None"
| "parseToolchainVersion (c # cs) = (case versionAt (c # cs) of Some v \<Rightarrow> Some v | None \<Rightarrow> parseToolchainVersion cs)"

subsection \<open>The doctor\<close>

datatype DoctorCheckStatus = Ok | Warn | Fail

record DoctorCheck =
  dc_name :: string
  dc_status :: DoctorCheckStatus
  dc_detail :: string

record 'w DoctorRpc =
  getHealth :: "'w \<Rightarrow> (string + string option) \<times> 'w"
  footprintOf :: "string \<Rightarrow> string + string"
  ledgerEntries :: "string \<Rightarrow> 'w \<Rightarrow> (string + int option list option) \<times> 'w"

definition MINIMUM_RUSTC :: string where "MINIMUM_RUSTC = ''1.74.0''"

definition MINIMUM_STELLAR :: string where "MINIMUM_STELLAR = ''22.0.0''"

definition DEFAULT_TTL_WARNING_LEDGERS :: int where "DEFAULT_TTL_WARNING_LEDGERS = 100000"

definition checkToolchain ::
    "string \<Rightarrow> string \<Rightarrow> (string \<Rightarrow> 'w \<Rightarrow> (string + string) \<times> 'w) \<Rightarrow> 'w \<Rightarrow> DoctorCheck \<times> 'w" where
  "checkToolchain command minimum versionRunner w =
     (case versionRunner command w of
        (Inl e, w1) \<Rightarrow> (\<lparr>dc_name = command, dc_status = Fail, dc_detail = command @ '' could not be run: '' @ e\<rparr>, w1)
      | (Inr output, w1) \<Rightarrow>
          (case parseToolchainVersion output of
             None \<Rightarrow> (\<lparr>dc_name = command, dc_status = Fail,
                       dc_detail = ''Could not parse a version from '' @ takeWhile (\<lambda>c. c \<noteq> CHR 0x0A) (js_trim output)\<rparr>, w1)
           | Some version \<Rightarrow>
               if compareVersions version minimum < 0
               then (\<lparr>dc_name = command, dc_status = Fail,
                      dc_detail = command @ '' '' @ version @ '' is below the required '' @ minimum @ '' (see CONTRIBUTING.md)''\<rparr>, w1)
               else (\<lparr>dc_name = command, dc_status = Ok,
                      dc_detail = command @ '' '' @ version @ '' (minimum '' @ minimum @ '')''\<rparr>, w1)))"

definition checkRpcHealth :: "'w DoctorRpc \<Rightarrow> 'w \<Rightarrow> DoctorCheck \<times> 'w" where
  "checkRpcHealth rpc w =
     (case getHealth rpc w of
        (Inl e, w1) \<Rightarrow> (\<lparr>dc_name = ''rpc'', dc_status = Fail, dc_detail = ''RPC health check failed: '' @ e\<rparr>, w1)
      | (Inr h, w1) \<Rightarrow>
          (let status = (case h of Some s \<Rightarrow> s | None \<Rightarrow> ''unknown'') in
           if status = ''healthy''
           then (\<lparr>dc_name = ''rpc'', dc_status = Ok, dc_detail = ''RPC is healthy ('' @ status @ '')''\<rparr>, w1)
           else (\<lparr>dc_name = ''rpc'', dc_status = Fail, dc_detail = ''RPC health reports '' @ status\<rparr>, w1)))"

text \<open>An entry is the ledger up to which it lives, when the node reports one.\<close>

definition checkContractTtl :: "'w DoctorRpc \<Rightarrow> string \<Rightarrow> string option \<Rightarrow> int \<Rightarrow> 'w \<Rightarrow> DoctorCheck \<times> 'w" where
  "checkContractTtl rpc name contractId warningLedgers w =
     (let check = (\<lambda>status detail. \<lparr>dc_name = ''ttl:'' @ name, dc_status = status, dc_detail = detail\<rparr>) in
      if \<not> truthy contractId then (check Warn ''No contractId configured'', w)
      else case footprintOf rpc (the contractId) of
        Inl e \<Rightarrow> (check Warn (''Invalid contract ID: '' @ e), w)
      | Inr footprint \<Rightarrow>
          (case ledgerEntries rpc footprint w of
             (Inl e, w1) \<Rightarrow> (check Warn (''TTL check failed: '' @ e), w1)
           | (Inr entries, w1) \<Rightarrow>
               (case entries of
                  None \<Rightarrow> (check Warn ''Contract is not deployed on this network'', w1)
                | Some [] \<Rightarrow> (check Warn ''Contract is not deployed on this network'', w1)
                | Some (None # _) \<Rightarrow> (check Warn ''TTL getter absent: the instance entry exposes no liveUntilLedgerSeq'', w1)
                | Some (Some liveUntil # _) \<Rightarrow>
                    if liveUntil \<le> 0
                    then (check Warn ''TTL getter absent: the instance entry exposes no liveUntilLedgerSeq'', w1)
                    else if liveUntil < warningLedgers
                    then (check Warn (''Instance TTL ends at ledger '' @ show_int liveUntil @ '', below the warning threshold of '' @
                            show_int warningLedgers), w1)
                    else (check Ok (''Instance TTL ends at ledger '' @ show_int liveUntil @ '' (threshold '' @
                            show_int warningLedgers @ '')''), w1))))"

fun checkTtls :: "'w DoctorRpc \<Rightarrow> int \<Rightarrow> (string \<times> string option) list \<Rightarrow> 'w \<Rightarrow> DoctorCheck list \<times> 'w" where
  "checkTtls rpc warningLedgers [] w = ([], w)"
| "checkTtls rpc warningLedgers ((name, cid) # rest) w =
     (case checkContractTtl rpc name cid warningLedgers w of (c, w1) \<Rightarrow>
        (case checkTtls rpc warningLedgers rest w1 of (cs, w2) \<Rightarrow> (c # cs, w2)))"

definition runDoctor ::
    "(string \<Rightarrow> 'w \<Rightarrow> (string + string) \<times> 'w) \<Rightarrow> 'w DoctorRpc option \<Rightarrow> (string \<times> string option) list \<Rightarrow> int option \<Rightarrow>
     'w \<Rightarrow> (DoctorCheck list \<times> bool) \<times> 'w" where
  "runDoctor versionRunner rpc contracts ttlWarningLedgers w =
     (let warningLedgers = (case ttlWarningLedgers of Some n \<Rightarrow> n | None \<Rightarrow> DEFAULT_TTL_WARNING_LEDGERS) in
      case checkToolchain ''rustc'' MINIMUM_RUSTC versionRunner w of (c1, w1) \<Rightarrow>
     (case checkToolchain ''stellar'' MINIMUM_STELLAR versionRunner w1 of (c2, w2) \<Rightarrow>
     (case (case rpc of
              None \<Rightarrow> ([], w2)
            | Some r \<Rightarrow>
                (case checkRpcHealth r w2 of (c3, w3) \<Rightarrow>
                   (case checkTtls r warningLedgers contracts w3 of (cs, w4) \<Rightarrow> (c3 # cs, w4)))) of
        (cs, w5) \<Rightarrow>
          (let checks = c1 # c2 # cs in ((checks, \<forall>c \<in> set checks. dc_status c \<noteq> Fail), w5)))))"

subsection \<open>Pinging contracts\<close>

datatype ContractStatus = Responsive | Unreachable | NotDeployed | InvalidContract

record ContractStatusReport =
  rep_name :: string
  rep_contractId :: "string option"
  rep_status :: ContractStatus
  rep_latencyMs :: "int option"
  rep_error :: "string option"

definition collectContracts :: "fields \<Rightarrow> (string \<times> fields) list" where
  "collectContracts config =
     (case objectField config ''contracts'' of
        None \<Rightarrow> []
      | Some cs \<Rightarrow> map (\<lambda>(n, v). (n, case v of JObj d \<Rightarrow> d | _ \<Rightarrow> [])) cs)"

definition pingContract ::
    "'w DoctorRpc \<Rightarrow> ('w \<Rightarrow> int) \<Rightarrow> string \<Rightarrow> fields \<Rightarrow> 'w \<Rightarrow> ContractStatusReport \<times> 'w" where
  "pingContract server now name deployment w =
     (case textField deployment ''contractId'' of
        None \<Rightarrow> (\<lparr>rep_name = name, rep_contractId = None, rep_status = InvalidContract, rep_latencyMs = None,
                  rep_error = Some ''No contractId configured''\<rparr>, w)
      | Some cid \<Rightarrow>
          if cid = []
          then (\<lparr>rep_name = name, rep_contractId = None, rep_status = InvalidContract, rep_latencyMs = None,
                 rep_error = Some ''No contractId configured''\<rparr>, w)
          else (case footprintOf server cid of
                  Inl e \<Rightarrow> (\<lparr>rep_name = name, rep_contractId = Some cid, rep_status = InvalidContract, rep_latencyMs = None,
                            rep_error = Some e\<rparr>, w)
                | Inr footprint \<Rightarrow>
                    (case ledgerEntries server footprint w of
                       (Inl e, w1) \<Rightarrow>
                         (\<lparr>rep_name = name, rep_contractId = Some cid, rep_status = Unreachable,
                           rep_latencyMs = Some (now w1 - now w), rep_error = Some e\<rparr>, w1)
                     | (Inr entries, w1) \<Rightarrow>
                         if entries = None \<or> entries = Some []
                         then (\<lparr>rep_name = name, rep_contractId = Some cid, rep_status = NotDeployed,
                                rep_latencyMs = Some (now w1 - now w),
                                rep_error = Some ''No contract instance found on this network''\<rparr>, w1)
                         else (\<lparr>rep_name = name, rep_contractId = Some cid, rep_status = Responsive,
                                rep_latencyMs = Some (now w1 - now w), rep_error = None\<rparr>, w1))))"

fun pingAll :: "'w DoctorRpc \<Rightarrow> ('w \<Rightarrow> int) \<Rightarrow> (string \<times> fields) list \<Rightarrow> 'w \<Rightarrow> ContractStatusReport list \<times> 'w" where
  "pingAll server now [] w = ([], w)"
| "pingAll server now ((name, d) # rest) w =
     (case pingContract server now name d w of (r, w1) \<Rightarrow>
        (case pingAll server now rest w1 of (rs, w2) \<Rightarrow> (r # rs, w2)))"

record CheckStatusResult =
  st_network :: "string option"
  st_rpcUrl :: string
  st_reports :: "ContractStatusReport list"
  st_allResponsive :: bool

definition checkStatus ::
    "'w DoctorRpc \<Rightarrow> ('w \<Rightarrow> int) \<Rightarrow> fields \<Rightarrow> string \<Rightarrow> 'w \<Rightarrow> CheckStatusResult \<times> 'w" where
  "checkStatus server now config rpcUrl w =
     (case pingAll server now (collectContracts config) w of
        (reports, w1) \<Rightarrow>
          (\<lparr>st_network = textField config ''network'', st_rpcUrl = rpcUrl, st_reports = reports,
            st_allResponsive = (reports \<noteq> [] \<and> (\<forall>r \<in> set reports. rep_status r = Responsive))\<rparr>, w1))"

subsection \<open>Comparing code hashes\<close>

datatype HashVerdict = Match | Mismatch | MissingLocal | MissingOnchain | InvalidHash

record HashComparison =
  hc_name :: string
  hc_contractId :: "string option"
  hc_wasmPath :: "string option"
  hc_localHash :: "string option"
  hc_onChainHash :: "string option"
  hc_verdict :: HashVerdict
  hc_error :: "string option"

text \<open>The parts of a ledger entry that lead to the code hash.\<close>

datatype Executable = WasmExecutable string | StellarAsset
datatype InstanceVal = ContractInstance Executable | OtherVal
datatype LedgerEntryData = ContractData InstanceVal | OtherEntry

definition extractOnChainHash :: "LedgerEntryData \<Rightarrow> string option" where
  "extractOnChainHash d =
     (case d of ContractData (ContractInstance (WasmExecutable h)) \<Rightarrow> Some h | _ \<Rightarrow> None)"

record 'w HashFetcher =
  hashFootprint :: "string \<Rightarrow> string + string"
  hashEntries :: "string \<Rightarrow> 'w \<Rightarrow> (string + LedgerEntryData list option) \<times> 'w"
  hashLocalWasm :: "string \<Rightarrow> string + string"

definition fetchOnChainHash :: "'w HashFetcher \<Rightarrow> string \<Rightarrow> 'w \<Rightarrow> (string + string option) \<times> 'w" where
  "fetchOnChainHash server contractId w =
     (case hashFootprint server contractId of
        Inl e \<Rightarrow> (Inl e, w)
      | Inr footprint \<Rightarrow>
          (case hashEntries server footprint w of
             (Inl e, w1) \<Rightarrow> (Inl e, w1)
           | (Inr (Some (entry # _)), w1) \<Rightarrow> (Inr (extractOnChainHash entry), w1)
           | (Inr _, w1) \<Rightarrow> (Inr None, w1)))"

definition verifyHash ::
    "'w HashFetcher \<Rightarrow> string \<Rightarrow> string option \<Rightarrow> string option \<Rightarrow> 'w \<Rightarrow> HashComparison \<times> 'w" where
  "verifyHash server name contractId wasmPath w =
     (let result = (\<lambda>loc onChain verdict err. \<lparr>hc_name = name, hc_contractId = contractId, hc_wasmPath = wasmPath,
            hc_localHash = loc, hc_onChainHash = onChain, hc_verdict = verdict, hc_error = err\<rparr>) in
      if \<not> truthy contractId then ((result None None InvalidHash (Some ''No contractId configured''))\<lparr>hc_contractId := None\<rparr>, w)
      else if \<not> truthy wasmPath then ((result None None InvalidHash (Some ''No local WASM path provided''))\<lparr>hc_wasmPath := None\<rparr>, w)
      else case hashLocalWasm server (the wasmPath) of
        Inl e \<Rightarrow> (result None None MissingLocal (Some (''Could not read local WASM: '' @ e)), w)
      | Inr localHash \<Rightarrow>
          (case fetchOnChainHash server (the contractId) w of
             (Inl e, w1) \<Rightarrow> (result (Some localHash) None InvalidHash (Some e), w1)
           | (Inr onChainHash, w1) \<Rightarrow>
               if \<not> truthy onChainHash
               then (result (Some localHash) None MissingOnchain (Some ''No WASM hash found on-chain for this contract''), w1)
               else (result (Some localHash) onChainHash (if Some localHash = onChainHash then Match else Mismatch) None, w1)))"

subsection \<open>Pausing\<close>

text \<open>The client methods the command calls, and its files. A result is the hash of a transaction.\<close>

record 'w PauseCapableClient =
  pc_pause :: "bool \<Rightarrow> string \<Rightarrow> 'w \<Rightarrow> (string + string) \<times> 'w"
  pc_build :: "bool \<Rightarrow> string \<Rightarrow> 'w \<Rightarrow> (string + string) \<times> 'w"
  pc_submitSigned :: "string \<Rightarrow> 'w \<Rightarrow> (string + string) \<times> 'w"
  pc_readFile :: "string \<Rightarrow> 'w \<Rightarrow> (string + string) \<times> 'w"
  pc_writeFile :: "string \<Rightarrow> string \<Rightarrow> 'w \<Rightarrow> (string + unit) \<times> 'w"
  pc_log :: "string \<Rightarrow> 'w \<Rightarrow> 'w"
  pc_fromSecret :: "string \<Rightarrow> string + string"

record PauseRunOptions =
  pr_isPause :: bool
  pr_signatureFile :: "string option"
  pr_buildOnly :: bool
  pr_outFile :: "string option"
  pr_publicKey :: "string option"
  pr_secretKey :: "string option"

record PauseRunResult =
  pres_submitted :: bool
  pres_hash :: "string option"
  pres_xdr :: "string option"

definition runPauseCommand :: "'w PauseCapableClient \<Rightarrow> PauseRunOptions \<Rightarrow> (string, 'w, PauseRunResult) act" where
  "runPauseCommand client opts =
     (if truthy (pr_signatureFile opts)
      then andThen (pc_readFile client (the (pr_signatureFile opts))) (\<lambda>text.
             if js_trim text = [] then throw (''Signature file '' @ the (pr_signatureFile opts) @ '' is empty'')
             else andThen (pc_submitSigned client (js_trim text)) (\<lambda>h.
                    ret \<lparr>pres_submitted = True, pres_hash = Some h, pres_xdr = None\<rparr>))
      else if pr_buildOnly opts
      then if \<not> truthy (pr_publicKey opts) then throw ''--public-key is required with --build-only''
           else andThen (pc_build client (pr_isPause opts) (the (pr_publicKey opts))) (\<lambda>xdr.
                  andThen (if truthy (pr_outFile opts) then pc_writeFile client (the (pr_outFile opts)) xdr
                           else (\<lambda>w. (Inr (), pc_log client xdr w))) (\<lambda>_.
                    ret \<lparr>pres_submitted = False, pres_hash = None, pres_xdr = Some xdr\<rparr>))
      else if \<not> truthy (pr_secretKey opts)
      then throw ''No signing source: pass --signature <signed.xdr>, --build-only, or --source <secret>.''
      else andThen (fromSum (pc_fromSecret client (the (pr_secretKey opts)))) (\<lambda>source.
             andThen (pc_pause client (pr_isPause opts) source) (\<lambda>h.
               ret \<lparr>pres_submitted = True, pres_hash = Some h, pres_xdr = None\<rparr>)))"

subsection \<open>Recipients of a batch mint\<close>

text \<open>\<^verbatim>\<open>spec.lastIndexOf(":")\<close> splits the text; \<open>None\<close> when there is no colon.\<close>

definition splitLastColon :: "string \<Rightarrow> (string \<times> string) option" where
  "splitLastColon spec =
     (if CHR '':'' \<in> set spec
      then Some (rev (tl (dropWhile (\<lambda>c. c \<noteq> CHR '':'') (rev spec))), rev (takeWhile (\<lambda>c. c \<noteq> CHR '':'') (rev spec)))
      else None)"

text \<open>\<^verbatim>\<open>/^[1-9]\d*$/\<close>.\<close>

definition positiveDecimal :: "string \<Rightarrow> bool" where
  "positiveDecimal s \<longleftrightarrow> s \<noteq> [] \<and> hd s \<noteq> CHR ''0'' \<and> (\<forall>c \<in> set s. isDigit c)"

definition parseRecipientSpec :: "string \<Rightarrow> string + (string \<times> string)" where
  "parseRecipientSpec spec =
     (case splitLastColon spec of
        None \<Rightarrow> Inl (''Invalid recipient '' @ spec @ ''. Expected <address>:<amount>.'')
      | Some (address, amt) \<Rightarrow>
          if address = [] \<or> amt = [] then Inl (''Invalid recipient '' @ spec @ ''. Expected <address>:<amount>.'')
          else let to1 = js_trim address; amount = js_trim amt in
            if \<not> positiveDecimal amount
            then Inl (''Invalid amount '' @ amount @ '' for recipient '' @ to1 @ ''. Expected a positive integer.'')
            else if to1 = [] then Inl (''Invalid recipient '' @ spec @ ''. Address is empty.'')
            else Inr (to1, amount))"

fun resolveRecipients :: "CliEnv \<Rightarrow> (string \<times> string) list \<Rightarrow> (string \<times> string) list \<Rightarrow> cli_error + (string \<times> string) list" where
  "resolveRecipients E accounts [] = Inr []"
| "resolveRecipients E accounts ((to1, amount) # rest) =
     (case resolveAccount E to1 accounts of
        Inl e \<Rightarrow> Inl e
      | Inr k \<Rightarrow> map_sum id (\<lambda>rs. (k, amount) # rs) (resolveRecipients E accounts rest))"

definition runBatchMint ::
    "CliEnv \<Rightarrow> string \<Rightarrow> (string \<times> string) list \<Rightarrow> filesystem \<Rightarrow> cli_error + (string \<times> string) list" where
  "runBatchMint E configFile recipients fs =
     (if recipients = [] then Inl (CliError ''batch-mint requires at least one --recipient <address>:<amount>.'')
      else resolveRecipients E (loadAccounts E configFile fs) recipients)"

subsection \<open>Bindings\<close>

definition SUPPORTED_LANGUAGES :: "string list" where
  "SUPPORTED_LANGUAGES = [''typescript'', ''rust'', ''python'', ''java'', ''flutter'', ''swift'', ''php'']"

record GenerateBindingsOptions =
  gb_language :: string
  gb_wasm :: "string option"
  gb_wasmHash :: "string option"
  gb_contractId :: "string option"
  gb_outputDir :: "string option"
  gb_overwrite :: bool
  gb_rpcUrl :: "string option"
  gb_networkPassphrase :: "string option"
  gb_network :: "string option"

definition flagArg :: "string \<Rightarrow> string option \<Rightarrow> string list" where
  "flagArg name v = (if truthy v then [name, the v] else [])"

definition buildBindingsArgs :: "GenerateBindingsOptions \<Rightarrow> string + string list" where
  "buildBindingsArgs opts =
     (let sources = filter truthy [gb_wasm opts, gb_wasmHash opts, gb_contractId opts] in
      if gb_language opts \<notin> set SUPPORTED_LANGUAGES then Inl (''Unsupported bindings language: '' @ gb_language opts)
      else if sources = []
      then Inl ''A contract source is required: provide exactly one of --wasm, --wasm-hash or --contract-id''
      else if length sources > 1
      then Inl ''Provide exactly one contract source: --wasm, --wasm-hash and --contract-id are mutually exclusive''
      else if gb_language opts = ''rust''
      then (if \<not> truthy (gb_wasm opts) then Inl ''The rust generator reads a local build only: use --wasm''
            else Inr [''contract'', ''bindings'', ''rust'', ''--wasm'', the (gb_wasm opts)])
      else if \<not> truthy (gb_outputDir opts) then Inl (''--output-dir is required for '' @ gb_language opts @ '' bindings'')
      else Inr ([''contract'', ''bindings'', gb_language opts] @ flagArg ''--wasm'' (gb_wasm opts) @
                flagArg ''--wasm-hash'' (gb_wasmHash opts) @ flagArg ''--contract-id'' (gb_contractId opts) @
                [''--output-dir'', the (gb_outputDir opts)] @ (if gb_overwrite opts then [''--overwrite''] else []) @
                (if truthy (gb_wasm opts) then []
                 else flagArg ''--network'' (gb_network opts) @ flagArg ''--rpc-url'' (gb_rpcUrl opts) @
                      flagArg ''--network-passphrase'' (gb_networkPassphrase opts))))"

record RunOutput =
  exitCode :: "int option"
  out_stdout :: string
  out_stderr :: string

record BindingsResult =
  br_success :: bool
  br_args :: "string list"
  br_output :: RunOutput
  br_error :: "string option"

text \<open>The runner throws an error with a code; \<^verbatim>\<open>ENOENT\<close> means that the program is missing.\<close>

definition generateBindings ::
    "GenerateBindingsOptions \<Rightarrow> (string list \<Rightarrow> 'w \<Rightarrow> ((string \<times> string) + RunOutput) \<times> 'w) \<Rightarrow> string \<Rightarrow> 'w \<Rightarrow> BindingsResult \<times> 'w" where
  "generateBindings opts runner binary w =
     (let nothing = \<lparr>exitCode = None, out_stdout = [], out_stderr = []\<rparr> in
      case buildBindingsArgs opts of
        Inl e \<Rightarrow> (\<lparr>br_success = False, br_args = [], br_output = nothing, br_error = Some e\<rparr>, w)
      | Inr args \<Rightarrow>
          (case runner args w of
             (Inr r, w1) \<Rightarrow>
               (\<lparr>br_success = (exitCode r = Some 0), br_args = args, br_output = r,
                 br_error = (if exitCode r = Some 0 then None
                   else Some (binary @ '' exited with code '' @ (case exitCode r of Some c \<Rightarrow> show_int c | None \<Rightarrow> ''null'') @
                              (if out_stderr r = [] then [] else '': '' @ js_trim (out_stderr r))))\<rparr>, w1)
           | (Inl (code, msg), w1) \<Rightarrow>
               (\<lparr>br_success = False, br_args = args, br_output = nothing,
                 br_error = Some (if code = ''ENOENT'' then ''Could not run '' @ binary @ ''. Install the Stellar CLI.'' else msg)\<rparr>, w1)))"

subsection \<open>The project scaffold\<close>

record InitFlagValues =
  fl_network :: "string option"
  fl_rpcUrl :: "string option"
  fl_admin :: "string option"
  fl_name :: "string option"
  fl_symbol :: "string option"
  fl_decimals :: "string option"
  fl_initialSupply :: "string option"
  fl_force :: bool

record InitConfig =
  ic_network :: string
  ic_rpcUrl :: string
  ic_admin :: string
  ic_name :: string
  ic_symbol :: string
  ic_decimals :: int
  ic_initialSupply :: string

text \<open>The first command of the chain with a typed, non-blank value decides.\<close>

definition typedFlag :: "string \<Rightarrow> command \<Rightarrow> string option" where
  "typedFlag key c =
     (if optionSource c key = Some ''cli''
      then (case optionString c key of Some v \<Rightarrow> Some (js_trim v) | None \<Rightarrow> None)
      else None)"

definition explicitFlag :: "command list \<Rightarrow> string \<Rightarrow> string option" where
  "explicitFlag chain key = pickFirst (typedFlag key) chain"

definition parseDecimals :: "string \<Rightarrow> cli_error + int" where
  "parseDecimals raw =
     (let e = Inl (CliError (''Decimals must be an integer from 0 to 18, got '' @ raw)) in
      if js_trim raw = [] \<or> \<not> (\<forall>c \<in> set (js_trim raw). isDigit c) then e
      else case parse_radix 10 (js_trim raw) of
             Some n \<Rightarrow> if n > 18 then e else Inr (int n)
           | None \<Rightarrow> e)"

definition symbolShape :: "string \<Rightarrow> bool" where
  "symbolShape s \<longleftrightarrow> s \<noteq> [] \<and> length s \<le> 12 \<and> (\<forall>c \<in> set s. letter c \<or> isDigit c)"

definition supplyShape :: "string \<Rightarrow> bool" where
  "supplyShape s \<longleftrightarrow> s = ''0'' \<or> positiveDecimal s"

definition validateInitConfig ::
    "CliEnv \<Rightarrow> (string \<times> string) list \<Rightarrow> string \<Rightarrow> string \<Rightarrow> string \<Rightarrow> string \<Rightarrow> string \<Rightarrow> string \<Rightarrow> string \<Rightarrow> cli_error + InitConfig" where
  "validateInitConfig E accounts network rpcUrl adminRef nameText symbolText decimals supplyText =
     (case parseNetworkName network of
        Inl e \<Rightarrow> Inl (NetworkErr e)
      | Inr net \<Rightarrow>
     (case resolveNetworkConfig \<lparr>ov_network = Some net, ov_rpcUrl = Some rpcUrl, ov_networkPassphrase = None\<rparr> of
        Inl e \<Rightarrow> Inl (NetworkErr e)
      | Inr resolved \<Rightarrow>
     (case resolveAccountReference E (js_trim adminRef) accounts of
        Inl e \<Rightarrow> Inl e
      | Inr admin \<Rightarrow>
     (let name = js_trim nameText; symbol = js_trim symbolText; initialSupply = js_trim supplyText in
      if \<not> strKeyShape CHR ''G'' admin then Inl (CliError (''Invalid admin public key '' @ admin))
      else if name = [] then Inl (CliError ''Token name is required.'')
      else if \<not> symbolShape symbol then Inl (CliError (''Token symbol must be 1-12 letters or digits, got '' @ symbol))
      else if \<not> supplyShape initialSupply
      then Inl (CliError (''Initial supply must be a non-negative integer, got '' @ initialSupply))
      else map_sum id (\<lambda>d. \<lparr>ic_network = net_name resolved, ic_rpcUrl = net_rpcUrl resolved, ic_admin = admin, ic_name = name,
             ic_symbol = symbol, ic_decimals = d, ic_initialSupply = initialSupply\<rparr>) (parseDecimals decimals)))))"

definition missingRequiredFlags :: "InitFlagValues \<Rightarrow> string list" where
  "missingRequiredFlags flags =
     (let blank = (\<lambda>v. case v of Some t \<Rightarrow> js_trim t = [] | None \<Rightarrow> True) in
      (if blank (fl_admin flags) then [''--admin''] else []) @ (if blank (fl_name flags) then [''--name''] else []) @
      (if blank (fl_symbol flags) then [''--symbol''] else []) @
      (if blank (fl_initialSupply flags) then [''--initial-supply''] else []))"

definition textOr :: "string option \<Rightarrow> string" where
  "textOr v = (case v of Some t \<Rightarrow> t | None \<Rightarrow> [])"

definition collectNonInteractive :: "CliEnv \<Rightarrow> (string \<times> string) list \<Rightarrow> InitFlagValues \<Rightarrow> cli_error + InitConfig" where
  "collectNonInteractive E accounts flags =
     (if missingRequiredFlags flags \<noteq> []
      then Inl (CliError (''Non-interactive init requires '' @ joinComma (missingRequiredFlags flags)))
      else case parseNetworkName (trimmedOr (fl_network flags) ''testnet'') of
        Inl e \<Rightarrow> Inl (NetworkErr e)
      | Inr net \<Rightarrow>
          (case (if truthy (map_option js_trim (fl_rpcUrl flags)) then Inr (js_trim (the (fl_rpcUrl flags)))
                 else case map_of NETWORK_PRESETS net of Some p \<Rightarrow> Inr (preset_rpcUrl p) | None \<Rightarrow> Inl (NetworkErr NetworkTypeError)) of
             Inl e \<Rightarrow> Inl e
           | Inr rpcUrl \<Rightarrow>
               validateInitConfig E accounts net rpcUrl (textOr (fl_admin flags)) (textOr (fl_name flags)) (textOr (fl_symbol flags))
                 (trimmedOr (fl_decimals flags) ''7'') (textOr (fl_initialSupply flags))))"

text \<open>Prompts: \<open>ask label default\<close> reads an answer.\<close>

definition collectInteractive ::
    "CliEnv \<Rightarrow> (string \<times> string) list \<Rightarrow> InitFlagValues \<Rightarrow> (string \<Rightarrow> string option \<Rightarrow> 'w \<Rightarrow> string \<times> 'w) \<Rightarrow> 'w \<Rightarrow>
     (cli_error + InitConfig) \<times> 'w" where
  "collectInteractive E accounts flags ask w =
     (let answer = (\<lambda>flag label dflt w. if truthy (map_option js_trim flag) then (js_trim (the flag), w) else ask label dflt w);
          orText = (\<lambda>t d. if t = [] then d else t)
      in case answer (fl_network flags) ''Network'' (Some ''testnet'') w of (net0, w1) \<Rightarrow>
         (case parseNetworkName (orText net0 ''testnet'') of
            Inl e \<Rightarrow> (Inl (NetworkErr e), w1)
          | Inr net \<Rightarrow>
         (case map_of NETWORK_PRESETS net of
            None \<Rightarrow> (Inl (NetworkErr NetworkTypeError), w1)
          | Some preset \<Rightarrow>
         (case answer (fl_rpcUrl flags) ''RPC URL'' (Some (preset_rpcUrl preset)) w1 of (rpc0, w2) \<Rightarrow>
         (case answer (fl_admin flags) ''Admin public key'' None w2 of (admin, w3) \<Rightarrow>
         (case answer (fl_name flags) ''Token name'' None w3 of (name, w4) \<Rightarrow>
         (case answer (fl_symbol flags) ''Token symbol'' None w4 of (symbol, w5) \<Rightarrow>
         (case answer (fl_decimals flags) ''Decimals'' (Some ''7'') w5 of (dec0, w6) \<Rightarrow>
         (case answer (fl_initialSupply flags) ''Initial supply'' None w6 of (supply, w7) \<Rightarrow>
            (validateInitConfig E accounts net (orText rpc0 (preset_rpcUrl preset)) admin name symbol (orText dec0 ''7'') supply,
             w7))))))))))"

definition initBody :: "InitConfig \<Rightarrow> json" where
  "initBody c = JObj [(''network'', JStr (ic_network c)), (''rpcUrl'', JStr (ic_rpcUrl c)), (''admin'', JStr (ic_admin c)),
     (''name'', JStr (ic_name c)), (''symbol'', JStr (ic_symbol c)), (''decimals'', JNum (ic_decimals c)),
     (''initialSupply'', JStr (ic_initialSupply c))]"

definition runInit ::
    "CliEnv \<Rightarrow> Faults \<Rightarrow> (string \<times> string) list \<Rightarrow> InitFlagValues \<Rightarrow> bool \<Rightarrow> (string \<Rightarrow> string option \<Rightarrow> 'w \<Rightarrow> string \<times> 'w) \<Rightarrow>
     string \<Rightarrow> 'w \<Rightarrow> filesystem \<Rightarrow> (cli_error + InitConfig) \<times> 'w \<times> filesystem" where
  "runInit E faults accounts flags interactive ask path w fs =
     (if fs path \<noteq> None \<and> \<not> fl_force flags
      then (Inl (CliError (''Refusing to overwrite '' @ path @ ''. Re-run with --force to replace it.'')), w, fs)
      else case (if interactive then collectInteractive E accounts flags ask w
                 else (collectNonInteractive E accounts flags, w)) of
        (Inl e, w1) \<Rightarrow> (Inl e, w1, fs)
      | (Inr config, w1) \<Rightarrow>
          (case fault faults Mkdir of
             Some m \<Rightarrow> (Inl (CliError m), w1, fs)
           | None \<Rightarrow>
               (case plainWrite faults path (initBody config) fs of
                  (Inl m, fs') \<Rightarrow> (Inl (CliError m), w1, fs')
                | (Inr _, fs') \<Rightarrow> (Inr config, w1, fs'))))"

subsection \<open>The smoke test\<close>

datatype SmokeArg = AddressArg string | I128Arg int

record ('t, 'w) SmokeEnv = "('t, 'w) UpgradeEnv" +
  newContract :: "string \<Rightarrow> string + unit"
  fromAddress :: "string \<Rightarrow> string + unit"
  buildCall :: "string \<Rightarrow> string \<Rightarrow> string \<Rightarrow> string \<Rightarrow> SmokeArg list \<Rightarrow> string + 't"
  randomPublicKey :: "'w \<Rightarrow> string \<times> 'w"

record SmokeTestOptions =
  so_contractId :: string
  so_networkPassphrase :: string
  so_source :: string
  so_recipient :: "string option"
  so_amount :: "string option"
  so_timeout :: "int option"

record SmokeTestResult =
  sm_success :: bool
  sm_sequence :: "string list"
  sm_message :: string
  sm_mintHash :: "string option"
  sm_transferHash :: "string option"

text \<open>A pass keeps the list of its steps; it stops with a thrown error or an early return. \<open>None\<close> is a pass that never ends.\<close>

datatype smoke_stop = Thrown string | Returned string

type_synonym ('w, 'a) smoke = "'w \<times> string list \<Rightarrow> ((smoke_stop + 'a) \<times> 'w \<times> string list) option"

definition smThen :: "('w, 'a) smoke \<Rightarrow> ('a \<Rightarrow> ('w, 'b) smoke) \<Rightarrow> ('w, 'b) smoke" where
  "smThen f g s =
     (case f s of
        None \<Rightarrow> None
      | Some (Inl e, s') \<Rightarrow> Some (Inl e, s')
      | Some (Inr x, s') \<Rightarrow> g x s')"

definition smLift :: "(string, 'w, 'a) act \<Rightarrow> ('w, 'a) smoke" where
  "smLift f s = (case f (fst s) of (r, w) \<Rightarrow> Some (map_sum Thrown id r, w, snd s))"

definition smPush :: "string \<Rightarrow> ('w, unit) smoke" where
  "smPush label s = Some (Inr (), fst s, snd s @ [label])"

definition checkDeadline :: "('t, 'w) SmokeEnv \<Rightarrow> int \<Rightarrow> int \<Rightarrow> ('w, unit) smoke" where
  "checkDeadline V startTime timeout s =
     (if clockNow V (fst s) - startTime > timeout
      then Some (Inl (Thrown (''Smoke test timed out after '' @ show_int timeout @ ''ms'')), s)
      else Some (Inr (), s))"

definition describeSubmitOutcome :: "PrepareSignSubmitResult \<Rightarrow> string" where
  "describeSubmitOutcome r =
     (case r of
        SimulationFailed e \<Rightarrow> ''simulation failed: '' @ e
      | SubmissionFailed h e \<Rightarrow> ''submission failed: '' @ e
      | FailedOnLedger h \<Rightarrow> ''transaction '' @ h @ '' failed on-ledger''
      | TimedOut h st \<Rightarrow> ''timed out waiting for confirmation of '' @ h @ '' (last status: '' @ st @ '')''
      | ConfirmedTx h \<Rightarrow> ''confirmed ('' @ h @ '')'')"

text \<open>Fetch the account, build a call, and simulate it; the answer of the simulation is dropped.\<close>

definition smokeQuery :: "('t, 'w) SmokeEnv \<Rightarrow> SmokeTestOptions \<Rightarrow> string \<Rightarrow> ('w, unit) smoke" where
  "smokeQuery V opts pk =
     smLift (andThen (getAccount V pk) (\<lambda>account.
       andThen (fromSum (buildCall V account (so_networkPassphrase opts) (so_contractId opts) ''balance'' [AddressArg pk])) (\<lambda>tx.
         andThen (simulateTransaction V tx) (\<lambda>_. ret ()))))"

definition smokeSubmit ::
    "('t, 'w) SmokeEnv \<Rightarrow> SmokeTestOptions \<Rightarrow> string \<Rightarrow> int \<Rightarrow> string \<Rightarrow> string \<Rightarrow> SmokeArg list \<Rightarrow> ('w, string) smoke" where
  "smokeSubmit V opts pk deadline label method args =
     smThen (smLift (andThen (getAccount V pk) (\<lambda>account.
         fromSum (buildCall V account (so_networkPassphrase opts) (so_contractId opts) method args)))) (\<lambda>tx s.
       case prepareSignAndSubmit (SubmitServer.truncate V) tx (so_source opts) None deadline (fst s) of
         None \<Rightarrow> None
       | Some (Inl e, w) \<Rightarrow> Some (Inl (Thrown e), w, snd s)
       | Some (Inr (ConfirmedTx h), w) \<Rightarrow> Some (Inr h, w, snd s)
       | Some (Inr out, w) \<Rightarrow> Some (Inl (Returned (label @ '' failed: '' @ describeSubmitOutcome out)), w, snd s))"

definition smokePass :: "('t, 'w) SmokeEnv \<Rightarrow> SmokeTestOptions \<Rightarrow> int \<Rightarrow> int \<Rightarrow> int \<Rightarrow> ('w, string \<times> string \<times> string) smoke" where
  "smokePass V opts startTime timeout amount =
     smThen (smLift (fromSum (keypairFromSecret V (so_source opts)))) (\<lambda>pk.
     smThen (smLift (fromSum (newContract V (so_contractId opts)))) (\<lambda>_.
     smThen (checkDeadline V startTime timeout) (\<lambda>_.
     smThen (smPush ''balance_check'') (\<lambda>_.
     smThen (smLift (fromSum (fromAddress V pk))) (\<lambda>_.
     smThen (smokeQuery V opts pk) (\<lambda>_.
     smThen (smPush ''balance_ok'') (\<lambda>_.
     smThen (checkDeadline V startTime timeout) (\<lambda>_.
     smThen (smPush ''mint_start'') (\<lambda>_.
     smThen (smokeSubmit V opts pk (startTime + timeout) ''Mint'' ''mint'' [AddressArg pk, AddressArg pk, I128Arg amount]) (\<lambda>mintHash.
     smThen (smPush ''mint_ok'') (\<lambda>_.
     smThen (checkDeadline V startTime timeout) (\<lambda>_.
     smThen (smokeQuery V opts pk) (\<lambda>_.
     smThen (smPush ''balance_after_mint_ok'') (\<lambda>_.
     smThen (if truthy (so_recipient opts) then smLift (ret (the (so_recipient opts)))
             else smLift (\<lambda>w. (case randomPublicKey V w of (k, w') \<Rightarrow> (Inr k, w')))) (\<lambda>recipient.
     smThen (checkDeadline V startTime timeout) (\<lambda>_.
     smThen (smPush ''transfer_start'') (\<lambda>_.
     smThen (smLift (fromSum (fromAddress V recipient))) (\<lambda>_.
     smThen (smokeSubmit V opts pk (startTime + timeout) ''Transfer'' ''transfer''
               [AddressArg pk, AddressArg recipient, I128Arg amount]) (\<lambda>transferHash.
     smThen (smPush ''transfer_ok'') (\<lambda>_.
     smThen (checkDeadline V startTime timeout) (\<lambda>_.
     smThen (smokeQuery V opts pk) (\<lambda>_.
     smThen (smPush ''final_balance_ok'') (\<lambda>_.
       smLift (ret (recipient, mintHash, transferHash)))))))))))))))))))))))))"

definition smokeReport :: "int \<Rightarrow> string list \<Rightarrow> smoke_stop + (string \<times> string \<times> string) \<Rightarrow> SmokeTestResult" where
  "smokeReport amount sq r =
     (case r of
        Inr (recipient, mintHash, transferHash) \<Rightarrow>
          \<lparr>sm_success = True, sm_sequence = sq,
           sm_message = ''Smoke test passed: minted '' @ show_int amount @ '', transferred to '' @ take 8 recipient,
           sm_mintHash = Some mintHash, sm_transferHash = Some transferHash\<rparr>
      | Inl (Returned m) \<Rightarrow>
          \<lparr>sm_success = False, sm_sequence = sq, sm_message = m, sm_mintHash = None, sm_transferHash = None\<rparr>
      | Inl (Thrown e) \<Rightarrow>
          \<lparr>sm_success = False, sm_sequence = sq, sm_message = ''Smoke test error: '' @ e, sm_mintHash = None,
           sm_transferHash = None\<rparr>)"

definition runSmokeTest :: "('t, 'w) SmokeEnv \<Rightarrow> SmokeTestOptions \<Rightarrow> 'w \<Rightarrow> ((js_error + SmokeTestResult) \<times> 'w) option" where
  "runSmokeTest V opts w =
     (let timeout = upgradeTimeout (so_timeout opts) in
      case BigInt (the (firstTruthy [so_amount opts, Some ''1''])) of
        None \<Rightarrow> Some (Inl SyntaxError, w)
      | Some amount \<Rightarrow>
          map_option (\<lambda>(r, w', sq). (Inr (smokeReport amount sq r), w'))
            (smokePass V opts (clockNow V w) timeout amount (w, [])))"

subsection \<open>The RPC wrapper\<close>

text \<open>\<^verbatim>\<open>SorobanRpc.invoke\<close> sends the transaction as it was built: it is neither prepared nor signed.\<close>

record TxResult =
  txr_hash :: string
  txr_success :: bool
  txr_resultXdr :: "string option"
  txr_error :: "string option"

record ('t, 'w) RpcEnv =
  rpc_fromSecret :: "string \<Rightarrow> string + string"
  rpc_getAccount :: "string \<Rightarrow> (string, 'w, string) act"
  rpc_buildCall :: "string \<Rightarrow> string \<Rightarrow> SmokeArg list \<Rightarrow> string + 't"
  rpc_send :: "'t \<Rightarrow> (string, 'w, SendResult) act"
  rpc_get :: "string \<Rightarrow> (string, 'w, string \<times> string) act"
  rpc_sleep :: "int \<Rightarrow> 'w \<Rightarrow> 'w"
  rpc_simulate :: "'t \<Rightarrow> (string, 'w, string) act"

fun pollTx :: "('t, 'w) RpcEnv \<Rightarrow> string \<Rightarrow> nat \<Rightarrow> (string, 'w, string) act" where
  "pollTx R h 0 = throw (''Transaction '' @ h @ '' did not confirm within 60000ms'')"
| "pollTx R h (Suc n) =
     andThen (rpc_get R h) (\<lambda>(status, result).
       if status = ''SUCCESS'' then ret result
       else if status = ''FAILED'' then throw (''Transaction '' @ h @ '' failed: '' @ result)
       else (\<lambda>w. pollTx R h n (rpc_sleep R 2000 w)))"

definition rpcInvoke :: "('t, 'w) RpcEnv \<Rightarrow> string \<Rightarrow> SmokeArg list \<Rightarrow> string \<Rightarrow> (string, 'w, TxResult) act" where
  "rpcInvoke R method args sourceSecret =
     andThen (fromSum (rpc_fromSecret R sourceSecret)) (\<lambda>pk.
     andThen (rpc_getAccount R pk) (\<lambda>account.
     andThen (fromSum (rpc_buildCall R account method args)) (\<lambda>tx.
     andThen (rpc_send R tx) (\<lambda>r.
       if sr_status r = ''ERROR''
       then ret \<lparr>txr_hash = sr_hash r, txr_success = False, txr_resultXdr = None, txr_error = Some (sr_errorResult r)\<rparr>
       else andThen (pollTx R (sr_hash r) 30) (\<lambda>x.
              ret \<lparr>txr_hash = sr_hash r, txr_success = True, txr_resultXdr = Some x, txr_error = None\<rparr>)))))"

definition rpcSimulate :: "('t, 'w) RpcEnv \<Rightarrow> string \<Rightarrow> string \<Rightarrow> SmokeArg list \<Rightarrow> string option \<Rightarrow> (string, 'w, string) act" where
  "rpcSimulate R placeholder method args sourcePublicKey =
     andThen (if truthy sourcePublicKey then rpc_getAccount R (the sourcePublicKey) else ret placeholder) (\<lambda>account.
     andThen (fromSum (rpc_buildCall R account method args)) (rpc_simulate R))"

subsection \<open>Facts on the checks\<close>

text \<open>The comparison of versions is an antisymmetric order on padded lists.\<close>

lemma compareParts_refl [simp]: "compareParts xs xs = 0"
  by (induction xs) auto

lemma compareParts_swap: "compareParts ys xs = - compareParts xs ys"
  by (induction xs ys rule: compareParts.induct) auto

lemma compareVersions_antisym: "compareVersions a b < 0 \<longleftrightarrow> compareVersions b a > 0"
  using compareParts_swap [of "versionParts b" "versionParts a"] by (simp add: compareVersions_def)

lemma checkToolchain_ok:
  "dc_status (fst (checkToolchain cmd minimum run w)) = Ok \<longleftrightarrow>
     (\<exists>out v. fst (run cmd w) = Inr out \<and> parseToolchainVersion out = Some v \<and> compareVersions v minimum \<ge> 0)"
  by (auto simp: checkToolchain_def split: sum.splits prod.splits option.split)

text \<open>
  The doctor compares the ledger at which an instance expires with a number of remaining ledgers, and does not ask for the
  current ledger: an entry that ends at the threshold or later is reported as fine, even when it has expired.
\<close>

lemma ttl_ok_without_current_ledger:
  assumes "footprintOf rpc cid = Inr f" and "ledgerEntries rpc f w = (Inr (Some (Some liveUntil # es)), w')"
    and "cid \<noteq> []" and "threshold \<le> liveUntil" and "0 < liveUntil"
  shows "dc_status (fst (checkContractTtl rpc name (Some cid) threshold w)) = Ok"
  using assms by (simp add: checkContractTtl_def truthy_def Let_def)

lemma checkTtls_never_fail: "c \<in> set (fst (checkTtls rpc n cs w)) \<Longrightarrow> dc_status c \<noteq> Fail"
  by (induction rpc n cs w rule: checkTtls.induct)
    (auto simp: checkContractTtl_def Let_def split: prod.splits sum.splits option.splits list.splits if_split_asm)

text \<open>A report is all responsive exactly when the file names contracts and every one of them has an instance entry.\<close>

lemma pingContract_responsive:
  "rep_status (fst (pingContract S now name d w)) = Responsive \<longleftrightarrow>
     (\<exists>cid f e es. textField d ''contractId'' = Some cid \<and> cid \<noteq> [] \<and> footprintOf S cid = Inr f \<and>
        fst (ledgerEntries S f w) = Inr (Some (e # es)))"
  by (auto simp: pingContract_def split: option.split sum.splits prod.splits) (metis list.exhaust)

lemma verifyHash_match:
  "hc_verdict (fst (verifyHash S name cid path w)) = Match \<longleftrightarrow>
     truthy cid \<and> truthy path \<and>
     (\<exists>h. hashLocalWasm S (the path) = Inr h \<and> h \<noteq> [] \<and> fst (fetchOnChainHash S (the cid) w) = Inr (Some h))"
  by (auto simp: verifyHash_def truthy_def Let_def split: sum.splits prod.splits option.splits)

subsection \<open>Facts on inputs\<close>

text \<open>The amount is the field after the last colon, so that an address may hold colons.\<close>

lemma splitLastColon_append:
  assumes "CHR '':'' \<notin> set n"
  shows "splitLastColon (a @ CHR '':'' # n) = Some (a, n)"
  using assms by (simp add: splitLastColon_def dropWhile_append takeWhile_append dropWhile_append3)

lemma parseRecipientSpec_roundtrip:
  assumes "a \<noteq> []" and "js_trim a = a" and "positiveDecimal n"
  shows "parseRecipientSpec (a @ CHR '':'' # n) = Inr (a, n)"
proof -
  have d: "\<forall>c \<in> set n. isDigit c" "n \<noteq> []" using assms(3) by (auto simp: positiveDecimal_def)
  have nw: "isDigit c \<Longrightarrow> c \<noteq> CHR '':'' \<and> \<not> js_ws c" for c by (auto simp: isDigit_def js_ws_def)
  have colon: "CHR '':'' \<notin> set n" using d(1) nw by blast
  have "\<not> js_ws (hd n)" "\<not> js_ws (last n)" using d nw by (metis hd_in_set, metis last_in_set)
  then have "js_trim n = n" using d(2) by (intro js_trim_id)
  then show ?thesis using assms d(2) by (simp add: parseRecipientSpec_def splitLastColon_append [OF colon] Let_def)
qed

lemma bindings_one_source:
  assumes "buildBindingsArgs opts = Inr args"
  shows "length (filter truthy [gb_wasm opts, gb_wasmHash opts, gb_contractId opts]) = 1 \<and>
     take 3 args = [''contract'', ''bindings'', gb_language opts]"
  using assms by (auto simp: buildBindingsArgs_def Let_def split: if_split_asm)

text \<open>The scaffold keeps an existing file unless told otherwise, and writes exactly the validated settings.\<close>

lemma runInit_refuses:
  "fs path = Some c \<Longrightarrow> \<not> fl_force flags \<Longrightarrow>
     \<exists>e. runInit E faults accounts flags i ask path w fs = (Inl e, w, fs)"
  by (simp add: runInit_def)


lemma runInit_writes:
  assumes "runInit E noFaults accounts flags i ask path w fs = (Inr config, w', fs')"
  shows "fs' = fs(path \<mapsto> Document (initBody config))"
  using assms by (auto simp: runInit_def plainWrite_def noFaults_def split: sum.split_asm prod.split_asm if_split_asm)

subsection \<open>What a passed smoke test has done\<close>

text \<open>\<open>adds f ls\<close>: a part that completes has pushed exactly the labels \<open>ls\<close>.\<close>

definition adds :: "('w, 'a) smoke \<Rightarrow> string list \<Rightarrow> bool" where
  "adds f ls \<longleftrightarrow> (\<forall>s x w q. f s = Some (Inr x, w, q) \<longrightarrow> q = snd s @ ls)"

lemma adds_smThen: "adds f ls \<Longrightarrow> (\<And>x. adds (g x) ms) \<Longrightarrow> adds (smThen f g) (ls @ ms)"
  by (fastforce simp: adds_def smThen_def split: option.split_asm sum.split_asm prod.split_asm)

lemma adds_basic:
  "adds (smLift f) []" "adds (smPush l) [l]" "adds (checkDeadline V a b) []" "adds (smokeQuery V opts pk) []"
  by (auto simp: adds_def smLift_def smPush_def checkDeadline_def smokeQuery_def split: prod.split_asm if_split_asm)

lemma adds_submit: "adds (smokeSubmit V opts pk d l m as) []"
proof -
  have "adds (smokeSubmit V opts pk d l m as) ([] @ [])"
    unfolding smokeSubmit_def
    by (rule adds_smThen, rule adds_basic)
      (auto simp: adds_def split: option.split_asm sum.split_asm prod.split_asm PrepareSignSubmitResult.split_asm)
  then show ?thesis by simp
qed

lemma adds_cond: "adds f ls \<Longrightarrow> adds g ls \<Longrightarrow> adds (if b then f else g) ls"
  by simp

lemma smokePass_steps:
  "adds (smokePass V opts st tmo amount)
     [''balance_check'', ''balance_ok'', ''mint_start'', ''mint_ok'', ''balance_after_mint_ok'', ''transfer_start'',
      ''transfer_ok'', ''final_balance_ok'']"
proof -
  have "adds (smokePass V opts st tmo amount)
     ([] @ [] @ [] @ [''balance_check''] @ [] @ [] @ [''balance_ok''] @ [] @ [''mint_start''] @ [] @ [''mint_ok''] @ [] @ [] @
      [''balance_after_mint_ok''] @ [] @ [] @ [''transfer_start''] @ [] @ [] @ [''transfer_ok''] @ [] @ [] @ [''final_balance_ok''] @ [])"
    unfolding smokePass_def by (intro adds_smThen adds_cond adds_basic adds_submit)
  then show ?thesis by simp
qed

text \<open>A test that passes has run every step; the balances it reads take no part in the verdict.\<close>

lemma smoke_success_steps:
  assumes "runSmokeTest V opts w = Some (Inr r, w')" and "sm_success r"
  shows "sm_sequence r =
     [''balance_check'', ''balance_ok'', ''mint_start'', ''mint_ok'', ''balance_after_mint_ok'', ''transfer_start'',
      ''transfer_ok'', ''final_balance_ok'']"
proof -
  have rep: "sm_sequence (smokeReport amount sq x) = sq" "sm_success (smokeReport amount sq x) = (\<exists>y. x = Inr y)" for amount sq x
    by (auto simp: smokeReport_def split: sum.split smoke_stop.split)
  from assms obtain amount x q where "smokePass V opts (clockNow V w) (upgradeTimeout (so_timeout opts)) amount (w, []) = Some (Inr x, w', q)"
      and "sm_sequence r = q"
    by (auto simp: runSmokeTest_def rep Let_def split: option.split_asm)
  then show ?thesis using smokePass_steps unfolding adds_def by fastforce
qed

end
