(* ===== verification/Orchestrator.thy ===== *)
theory Orchestrator
  imports CliConfig TokenClient
begin

text \<open>
  The deployment orchestrator of the command line tool, \<^verbatim>\<open>src/cli/src/orchestrator/\<close>: initialising a contract with its
  SuperAdmin (\<^verbatim>\<open>init-superadmin.ts\<close>), linking deployed contracts (\<^verbatim>\<open>connect-contracts.ts\<close>) and the run of both
  (\<^verbatim>\<open>orchestrator.ts\<close>). The contract calls are those of the token client (\<open>TokenClient\<close>), the files those of \<open>CliConfig\<close>.

  A step takes the state \<open>'s\<close> of the world and the file system and returns both; \<open>Inl\<close> is a thrown error, which only the
  settings of \<open>getClientConfig\<close> can raise here. A keypair is named by a text, as in the clients.
\<close>

record ('s, 'acc, 'tx, 'sim, 'v, 'ev) OrchEnv =
  cli :: CliEnv
  clientEnv :: "string \<Rightarrow> ('s, 'acc, 'tx, 'sim, 'v, 'ev) ClientEnv"
  fromSecret :: "string \<Rightarrow> string + string"
  storedConfig :: fields

definition isValidStellarAddress :: "string \<Rightarrow> bool" where
  "isValidStellarAddress address \<longleftrightarrow> strKeyShape CHR ''G'' address"

definition isValidContractId :: "string \<Rightarrow> bool" where
  "isValidContractId contractId \<longleftrightarrow> strKeyShape CHR ''C'' contractId"

definition noOverrides :: NetworkOverrides where
  "noOverrides = \<lparr>ov_network = None, ov_rpcUrl = None, ov_networkPassphrase = None\<rparr>"

text \<open>\<^verbatim>\<open>a || b || getClientConfig().field\<close>: the settings are only read when nothing before is set.\<close>

definition orSetting ::
    "('s, 'acc, 'tx, 'sim, 'v, 'ev) OrchEnv \<Rightarrow> string option list \<Rightarrow> (CliClientConfig \<Rightarrow> string) \<Rightarrow> filesystem \<Rightarrow> cli_error + string" where
  "orSetting O1 given field fs =
     (case find truthy given of
        Some v \<Rightarrow> Inr (the v)
      | None \<Rightarrow> map_sum NetworkErr field (getClientConfig (cli O1) (storedConfig O1) noOverrides fs))"

definition fileConfigOf :: "('s, 'acc, 'tx, 'sim, 'v, 'ev) OrchEnv \<Rightarrow> string option \<Rightarrow> filesystem \<Rightarrow> fields option" where
  "fileConfigOf O1 configPath fs = (case loadConfigFile (cli O1) configPath fs of Inr c \<Rightarrow> Some c | Inl _ \<Rightarrow> None)"

text \<open>The keypair that was passed, or the one of the secret key of the options or settings.\<close>

definition resolveSigner ::
    "('s, 'acc, 'tx, 'sim, 'v, 'ev) OrchEnv \<Rightarrow> string option \<Rightarrow> string option \<Rightarrow> string \<Rightarrow> filesystem \<Rightarrow> string + string" where
  "resolveSigner O1 keypair secretKey missing fs =
     (case keypair of
        Some k \<Rightarrow> Inr k
      | None \<Rightarrow>
          (let secret = (if truthy secretKey then the secretKey else getSecretKey (cli O1) (storedConfig O1) fs) in
           if secret = [] then Inl missing
           else map_sum (\<lambda>e. ''Invalid secret key provided: '' @ e) id (fromSecret O1 secret)))"

definition tokenConfig :: "string \<Rightarrow> string \<Rightarrow> bcForgeClientConfig" where
  "tokenConfig passphrase contractId =
     \<lparr>cfg_networkPassphrase = passphrase, cfg_contractId = contractId, cfg_maxRetryAttempts = None, cfg_maxFeeCap = None\<rparr>"

subsection \<open>Initialising the SuperAdmin\<close>

record InitializeSuperAdminOptions =
  io_contractId :: "string option"
  io_deployer :: "string option"
  io_secretKey :: "string option"
  io_deployerKeypair :: "string option"
  io_rpcUrl :: "string option"
  io_networkPassphrase :: "string option"
  io_decimals :: "int option"
  io_name :: "string option"
  io_symbol :: "string option"
  io_verify :: bool
  io_configPath :: "string option"

record InitDetails =
  det_name :: string
  det_symbol :: string
  det_decimals :: int
  det_verifiedRole :: string

record InitializeSuperAdminResult =
  is_success :: bool
  is_contractId :: string
  is_deployer :: string
  is_txHash :: "string option"
  is_verified :: bool
  is_error :: "string option"
  is_details :: "InitDetails option"

definition initFailure :: "string \<Rightarrow> string \<Rightarrow> string option \<Rightarrow> string \<Rightarrow> InitializeSuperAdminResult" where
  "initFailure contractId deployer txHash msg =
     \<lparr>is_success = False, is_contractId = contractId, is_deployer = deployer, is_txHash = txHash, is_verified = False,
      is_error = Some msg, is_details = None\<rparr>"

definition intField :: "fields option \<Rightarrow> string \<Rightarrow> int option" where
  "intField cfg key = Option.bind cfg (\<lambda>c. case map_of c key of Some (JNum i) \<Rightarrow> Some i | _ \<Rightarrow> None)"

text \<open>
  The initialisation: a transaction hash, nothing when the contract was initialised before, or the failure to report.
\<close>

definition initializeStep ::
    "('s, 'acc, 'tx, 'sim, 'v, 'ev) ClientEnv \<Rightarrow> bcForgeClientConfig \<Rightarrow> string \<Rightarrow> string \<Rightarrow> int \<Rightarrow> string \<Rightarrow> string \<Rightarrow> string \<Rightarrow>
     's TokenClient \<Rightarrow> (InitializeSuperAdminResult + string option) \<times> 's TokenClient" where
  "initializeStep env cfg contractId deployer decimals name symbol keypair c =
     (case initialize env cfg deployer decimals name symbol (Some keypair) c of
        (Inr r, c1) \<Rightarrow>
          if success r then (Inr (Some (tx_hash r)), c1)
          else (Inl (initFailure contractId deployer (Some (tx_hash r))
                  (''Contract initialization transaction failed. TX: '' @ tx_hash r)), c1)
      | (Inl e, c1) \<Rightarrow>
          if js_includes (map lower (errorMessage e)) ''already'' then (Inr None, c1)
          else (Inl (initFailure contractId deployer None (''Transaction submission failed: '' @ errorMessage e)), c1))"

text \<open>The verification: the verdict and the role, or the failure to report. A query that throws only leaves the role unverified.\<close>

definition verifyStep ::
    "('s, 'acc, 'tx, 'sim, 'v, 'ev) ClientEnv \<Rightarrow> bcForgeClientConfig \<Rightarrow> string \<Rightarrow> string \<Rightarrow> string option \<Rightarrow>
     's TokenClient \<Rightarrow> (InitializeSuperAdminResult + bool \<times> string) \<times> 's TokenClient" where
  "verifyStep env cfg contractId deployer txHash c =
     (case verifySuperAdmin env cfg deployer c of
        (Inl e, c1) \<Rightarrow> (Inr (False, ''SuperAdmin''), c1)
      | (Inr True, c1) \<Rightarrow> (Inr (True, ''SuperAdmin''), c1)
      | (Inr False, c1) \<Rightarrow>
          (case TokenClient.orUndefined (getAdmin env cfg) c1 of
             (Inr admin, c2) \<Rightarrow>
               if admin = NStr deployer then (Inr (True, ''Admin''), c2)
               else (Inl (initFailure contractId deployer txHash
                       (''On-chain role verification failed. Expected '' @ deployer @ '' to hold SuperAdmin/Admin role.'')), c2)
           | (Inl e, c2) \<Rightarrow> (Inr (False, ''SuperAdmin''), c2)))"

definition fieldsOr :: "fields option \<Rightarrow> fields" where
  "fieldsOr v = (case v of Some o1 \<Rightarrow> o1 | None \<Rightarrow> [])"

definition superAdminConfig :: "fields option \<Rightarrow> string \<Rightarrow> string \<Rightarrow> int \<Rightarrow> string \<Rightarrow> string \<Rightarrow> fields" where
  "superAdminConfig fileConfig name symbol decimals contractId deployer =
     (let base = (case fileConfig of
            Some c \<Rightarrow> c
          | None \<Rightarrow> [(''name'', JStr name), (''symbol'', JStr symbol), (''decimals'', JNum decimals),
                      (''version'', JStr ''1.0.0''), (''network'', JStr ''testnet'')]);
          contracts = fieldsOr (Option.bind fileConfig (\<lambda>c. objectField c ''contracts''));
          token = fieldsOr (objectField contracts ''token'')
      in spread base
           [(''admin'', JStr deployer),
            (''contracts'', JObj (spread contracts
               [(''token'', JObj (spread token [(''contractId'', JStr contractId), (''deployer'', JStr deployer)]))]))])"

definition initializeSuperAdmin ::
    "('s, 'acc, 'tx, 'sim, 'v, 'ev) OrchEnv \<Rightarrow> Faults \<Rightarrow> InitializeSuperAdminOptions \<Rightarrow> 's \<Rightarrow> filesystem \<Rightarrow>
     (cli_error + InitializeSuperAdminResult) \<times> 's \<times> filesystem" where
  "initializeSuperAdmin O1 faults opts w fs =
     (let fileConfig = fileConfigOf O1 (io_configPath opts) fs in
      case orSetting O1 [io_contractId opts, contractField fileConfig ''token'' ''contractId'',
             contractField fileConfig ''admin'' ''contractId''] cc_contractId fs of
        Inl e \<Rightarrow> (Inl e, w, fs)
      | Inr contractId \<Rightarrow>
     (if contractId = []
      then (Inr (initFailure [] [] None ''Contract ID is required. Specify via options or present in .bc-forge.json''), w, fs)
      else if \<not> isValidContractId contractId
      then (Inr (initFailure contractId [] None (''Invalid contract ID format: '' @ contractId @ ''. Must be a valid 56-character C... Soroban contract ID.'')), w, fs)
      else case resolveSigner O1 (io_deployerKeypair opts) (io_secretKey opts)
             ''Deployer secret key not configured. Provide secretKey or set SECRET_KEY env variable.'' fs of
        Inl msg \<Rightarrow> (Inr (initFailure contractId [] None msg), w, fs)
      | Inr keypair \<Rightarrow>
     (let deployer = (if truthy (io_deployer opts) then the (io_deployer opts)
                      else publicKey (soroban (clientEnv O1 [])) keypair) in
      if \<not> isValidStellarAddress deployer
      then (Inr (initFailure contractId deployer None (''Invalid deployer address format: '' @ deployer @ ''. Must be a valid 56-character G... Stellar public key.'')), w, fs)
      else case orSetting O1 [io_rpcUrl opts, fileText fileConfig ''rpcUrl''] cc_rpcUrl fs of
        Inl e \<Rightarrow> (Inl e, w, fs)
      | Inr rpcUrl \<Rightarrow>
     (case orSetting O1 [io_networkPassphrase opts, fileText fileConfig ''networkPassphrase''] cc_networkPassphrase fs of
        Inl e \<Rightarrow> (Inl e, w, fs)
      | Inr passphrase \<Rightarrow>
     (let decimals = (case io_decimals opts of Some d \<Rightarrow> d | None \<Rightarrow> (case intField fileConfig ''decimals'' of Some d \<Rightarrow> d | None \<Rightarrow> 7));
          name = the (firstTruthy [io_name opts, fileText fileConfig ''name'', Some ''bc-forge Token'']);
          symbol = the (firstTruthy [io_symbol opts, fileText fileConfig ''symbol'', Some ''FORGE'']);
          env = clientEnv O1 rpcUrl; cfg = tokenConfig passphrase contractId
      in case initializeStep env cfg contractId deployer decimals name symbol keypair (newTokenClient None w) of
        (Inl failure, c1) \<Rightarrow> (Inr failure, world c1, fs)
      | (Inr txHash, c1) \<Rightarrow>
     (case (if io_verify opts then verifyStep env cfg contractId deployer txHash c1
            else (Inr (True, ''SuperAdmin''), c1)) of
        (Inl failure, c2) \<Rightarrow> (Inr failure, world c2, fs)
      | (Inr (verified, role), c2) \<Rightarrow>
          (Inr \<lparr>is_success = True, is_contractId = contractId, is_deployer = deployer, is_txHash = txHash,
                is_verified = verified, is_error = None,
                is_details = Some \<lparr>det_name = name, det_symbol = symbol, det_decimals = decimals, det_verifiedRole = role\<rparr>\<rparr>,
           world c2,
           if fileConfig \<noteq> None \<or> truthy (io_configPath opts)
           then snd (saveConfigFile (cli O1) faults (superAdminConfig fileConfig name symbol decimals contractId deployer)
                       (Some (configTarget (cli O1) (io_configPath opts))) fs)
           else fs)))))))"

subsection \<open>Linking contracts\<close>

record ContractLink =
  link_source :: string
  link_target :: string
  link_type :: string

record ConnectContractIdsOptions =
  co_adminContractId :: "string option"
  co_tokenContractId :: "string option"
  co_vestingContractId :: "string option"
  co_wrapperContractId :: "string option"
  co_customLinks :: "ContractLink list"
  co_secretKey :: "string option"
  co_deployerKeypair :: "string option"
  co_rpcUrl :: "string option"
  co_networkPassphrase :: "string option"
  co_configPath :: "string option"

record ConnectContractIdsResult =
  cr_success :: bool
  cr_linkedContracts :: "(string \<times> string) list"
  cr_txHashes :: "(string \<times> string) list"
  cr_verifiedLinks :: "(string \<times> bool) list"
  cr_errors :: "string list option"

definition connectFailure :: "string \<Rightarrow> ConnectContractIdsResult" where
  "connectFailure msg =
     \<lparr>cr_success = False, cr_linkedContracts = [], cr_txHashes = [], cr_verifiedLinks = [], cr_errors = Some [msg]\<rparr>"

definition noLinks :: ConnectContractIdsResult where
  "noLinks = \<lparr>cr_success = True, cr_linkedContracts = [], cr_txHashes = [], cr_verifiedLinks = [], cr_errors = None\<rparr>"

text \<open>A link is recorded as verified on every path: success, a result without success, and an exception.\<close>

definition recordLink :: "string \<Rightarrow> string \<Rightarrow> ConnectContractIdsResult \<Rightarrow> ConnectContractIdsResult" where
  "recordLink key target r =
     r\<lparr>cr_linkedContracts := AList.update key target (cr_linkedContracts r),
       cr_verifiedLinks := AList.update key True (cr_verifiedLinks r)\<rparr>"

definition linkStep ::
    "string \<Rightarrow> string \<Rightarrow> string \<Rightarrow> ('s, TransactionResult) client_act \<Rightarrow>
     ConnectContractIdsResult \<times> 's \<Rightarrow> ConnectContractIdsResult \<times> 's" where
  "linkStep key txKey target call rw =
     (case rw of (r, w) \<Rightarrow>
        (case call (newTokenClient None w) of
           (Inr t, c) \<Rightarrow>
             (let r1 = recordLink key target r in
              (if success t then r1\<lparr>cr_txHashes := AList.update txKey (tx_hash t) (cr_txHashes r1)\<rparr> else r1, world c))
         | (Inl e, c) \<Rightarrow> (recordLink key target r, world c)))"

definition customLink :: "ContractLink \<Rightarrow> ConnectContractIdsResult \<Rightarrow> ConnectContractIdsResult" where
  "customLink l r = recordLink (link_type l @ ''.'' @ link_source l) (link_target l) r"

text \<open>The calls of steps 1 to 4; an id that is absent or empty skips its step.\<close>

definition performLinks ::
    "('s, 'acc, 'tx, 'sim, 'v, 'ev) ClientEnv \<Rightarrow> string \<Rightarrow> string \<Rightarrow> string option \<Rightarrow> string option \<Rightarrow> string option \<Rightarrow>
     string option \<Rightarrow> ContractLink list \<Rightarrow> 's \<Rightarrow> ConnectContractIdsResult \<times> 's" where
  "performLinks env passphrase keypair admin token vesting wrapper custom w =
     (let rw = (noLinks, w);
          rw = (if truthy admin \<and> truthy token
                then linkStep ''token.adminContractId'' ''token.setAdminContract'' (the admin)
                       (setAdminContract env (tokenConfig passphrase (the token)) (the admin) (Some keypair)) rw else rw);
          rw = (if truthy vesting \<and> truthy token
                then linkStep ''vesting.tokenContractId'' ''vesting.setToken'' (the token)
                       (setDependentToken env (tokenConfig passphrase (the vesting)) (the token) (Some keypair)) rw else rw);
          rw = (if truthy wrapper \<and> truthy token
                then linkStep ''wrapper.tokenContractId'' ''wrapper.setToken'' (the token)
                       (setDependentToken env (tokenConfig passphrase (the wrapper)) (the token) (Some keypair)) rw else rw)
      in (fold customLink custom (fst rw), snd rw))"

text \<open>\<^verbatim>\<open>...(value ? { key: value } : {})\<close> and the sections written for each contract.\<close>

definition linkedSection :: "fields \<Rightarrow> string \<Rightarrow> fields \<Rightarrow> fields \<Rightarrow> fields" where
  "linkedSection contracts name own links =
     (let old = fieldsOr (objectField contracts name) in
      spread old (own @ [(''linkedContracts'', JObj (spread (fieldsOr (objectField old ''linkedContracts'')) links))]))"

definition putSection :: "string option \<Rightarrow> string \<Rightarrow> fields \<Rightarrow> fields \<Rightarrow> fields" where
  "putSection cid name section contracts = (if truthy cid then AList.update name (JObj section) contracts else contracts)"

definition linkedConfig ::
    "fields option \<Rightarrow> string option \<Rightarrow> string option \<Rightarrow> string option \<Rightarrow> string option \<Rightarrow> fields" where
  "linkedConfig fileConfig admin token vesting wrapper =
     (let contracts = fieldsOr (Option.bind fileConfig (\<lambda>c. objectField c ''contracts''));
          dependent = (\<lambda>name cid. linkedSection contracts name
            ([(''contractId'', JStr (the cid))] @ (case token of Some t \<Rightarrow> [(''tokenContractId'', JStr t)] | None \<Rightarrow> []))
            (optionalField ''token'' token));
          updated = contracts;
          updated = putSection token ''token''
            (linkedSection contracts ''token'' ([(''contractId'', JStr (the token))] @ optionalField ''adminContractId'' admin)
               (optionalField ''admin'' admin)) updated;
          updated = putSection admin ''admin''
            (linkedSection contracts ''admin'' [(''contractId'', JStr (the admin))] (optionalField ''token'' token)) updated;
          updated = putSection vesting ''vesting'' (dependent ''vesting'' vesting) updated;
          updated = putSection wrapper ''wrapper'' (dependent ''wrapper'' wrapper) updated;
          base = (case fileConfig of
            Some c \<Rightarrow> c
          | None \<Rightarrow> [(''name'', JStr ''bc-forge Project''), (''symbol'', JStr ''FORGE''), (''decimals'', JNum 7),
                      (''version'', JStr ''1.0.0''), (''network'', JStr ''testnet'')])
      in spread base [(''contracts'', JObj updated)])"

definition badId :: "string \<Rightarrow> string option \<Rightarrow> string option" where
  "badId label cid =
     (if truthy cid \<and> \<not> isValidContractId (the cid)
      then Some (''Invalid '' @ label @ '' Contract ID format: '' @ the cid @ ''. Must be a valid 56-character C... address.'')
      else None)"

text \<open>What the function settles before its first call: a thrown error, a failure to report, or the inputs of the calls.\<close>

record ConnectInputs =
  ci_admin :: "string option"
  ci_token :: "string option"
  ci_vesting :: "string option"
  ci_wrapper :: "string option"
  ci_keypair :: string
  ci_rpcUrl :: string
  ci_passphrase :: string

definition connectInputs ::
    "('s, 'acc, 'tx, 'sim, 'v, 'ev) OrchEnv \<Rightarrow> ConnectContractIdsOptions \<Rightarrow> filesystem \<Rightarrow> cli_error + (string + ConnectInputs)" where
  "connectInputs O1 opts fs =
     (let fileConfig = fileConfigOf O1 (co_configPath opts) fs;
          admin = firstTruthy [co_adminContractId opts, contractField fileConfig ''admin'' ''contractId'',
                    contractField fileConfig ''token'' ''adminContractId''];
          vesting = firstTruthy [co_vestingContractId opts, contractField fileConfig ''vesting'' ''contractId''];
          wrapper = firstTruthy [co_wrapperContractId opts, contractField fileConfig ''wrapper'' ''contractId'']
      in case orSetting O1 [co_tokenContractId opts, contractField fileConfig ''token'' ''contractId''] cc_contractId fs of
        Inl e \<Rightarrow> Inl e
      | Inr tokenId \<Rightarrow>
     (let token = Some tokenId;
          hasLinks = (truthy admin \<and> truthy token \<or> truthy token \<and> truthy vesting \<or> truthy token \<and> truthy wrapper \<or>
                      co_customLinks opts \<noteq> [])
      in if \<not> hasLinks \<and> \<not> truthy token \<and> \<not> truthy admin
      then Inr (Inl ''No contract IDs provided to connect. Provide adminContractId and tokenContractId or configure in .bc-forge.json.'')
      else case find (\<lambda>m. m \<noteq> None) [badId ''Admin'' admin, badId ''Token'' token, badId ''Vesting'' vesting, badId ''Wrapper'' wrapper] of
        Some msg \<Rightarrow> Inr (Inl (the msg))
      | None \<Rightarrow>
     (case resolveSigner O1 (co_deployerKeypair opts) (co_secretKey opts)
             ''Deployer/Admin secret key not configured. Provide secretKey or set SECRET_KEY env variable.'' fs of
        Inl msg \<Rightarrow> Inr (Inl msg)
      | Inr keypair \<Rightarrow>
     (case orSetting O1 [co_rpcUrl opts, fileText fileConfig ''rpcUrl''] cc_rpcUrl fs of
        Inl e \<Rightarrow> Inl e
      | Inr rpcUrl \<Rightarrow>
     (case orSetting O1 [co_networkPassphrase opts, fileText fileConfig ''networkPassphrase''] cc_networkPassphrase fs of
        Inl e \<Rightarrow> Inl e
      | Inr passphrase \<Rightarrow>
          Inr (Inr \<lparr>ci_admin = admin, ci_token = token, ci_vesting = vesting, ci_wrapper = wrapper, ci_keypair = keypair,
                    ci_rpcUrl = rpcUrl, ci_passphrase = passphrase\<rparr>))))))"

definition connectContractIds ::
    "('s, 'acc, 'tx, 'sim, 'v, 'ev) OrchEnv \<Rightarrow> Faults \<Rightarrow> ConnectContractIdsOptions \<Rightarrow> 's \<Rightarrow> filesystem \<Rightarrow>
     (cli_error + ConnectContractIdsResult) \<times> 's \<times> filesystem" where
  "connectContractIds O1 faults opts w fs =
     (case connectInputs O1 opts fs of
        Inl e \<Rightarrow> (Inl e, w, fs)
      | Inr (Inl msg) \<Rightarrow> (Inr (connectFailure msg), w, fs)
      | Inr (Inr i) \<Rightarrow>
          (let fileConfig = fileConfigOf O1 (co_configPath opts) fs;
               linked = performLinks (clientEnv O1 (ci_rpcUrl i)) (ci_passphrase i) (ci_keypair i) (ci_admin i) (ci_token i)
                          (ci_vesting i) (ci_wrapper i) (co_customLinks opts) w
           in (Inr (fst linked), snd linked,
               if fileConfig \<noteq> None \<or> truthy (co_configPath opts)
               then snd (saveConfigFile (cli O1) faults
                           (linkedConfig fileConfig (ci_admin i) (ci_token i) (ci_vesting i) (ci_wrapper i))
                           (Some (configTarget (cli O1) (co_configPath opts))) fs)
               else fs)))"

subsection \<open>The whole run\<close>

record DeploymentOrchestratorOptions =
  do_configPath :: "string option"
  do_secretKey :: "string option"
  do_deployerKeypair :: "string option"
  do_rpcUrl :: "string option"
  do_networkPassphrase :: "string option"
  do_adminContractId :: "string option"
  do_tokenContractId :: "string option"
  do_vestingContractId :: "string option"
  do_wrapperContractId :: "string option"
  do_name :: "string option"
  do_symbol :: "string option"
  do_decimals :: "int option"
  do_skipVerify :: bool

record DeploymentOrchestratorResult =
  or_success :: bool
  or_initResult :: InitializeSuperAdminResult
  or_connectResult :: ConnectContractIdsResult
  or_errors :: "string list option"

definition initOptionsOf :: "DeploymentOrchestratorOptions \<Rightarrow> string option \<Rightarrow> InitializeSuperAdminOptions" where
  "initOptionsOf opts contractId =
     \<lparr>io_contractId = contractId, io_deployer = None, io_secretKey = do_secretKey opts,
      io_deployerKeypair = do_deployerKeypair opts, io_rpcUrl = do_rpcUrl opts,
      io_networkPassphrase = do_networkPassphrase opts, io_decimals = do_decimals opts, io_name = do_name opts,
      io_symbol = do_symbol opts, io_verify = (\<not> do_skipVerify opts), io_configPath = do_configPath opts\<rparr>"

definition connectOptionsOf ::
    "DeploymentOrchestratorOptions \<Rightarrow> fields option \<Rightarrow> string option \<Rightarrow> ConnectContractIdsOptions" where
  "connectOptionsOf opts fileConfig tokenId =
     \<lparr>co_adminContractId = firstTruthy [do_adminContractId opts, contractField fileConfig ''admin'' ''contractId''],
      co_tokenContractId = tokenId,
      co_vestingContractId = firstTruthy [do_vestingContractId opts, contractField fileConfig ''vesting'' ''contractId''],
      co_wrapperContractId = firstTruthy [do_wrapperContractId opts, contractField fileConfig ''wrapper'' ''contractId''],
      co_customLinks = [], co_secretKey = do_secretKey opts, co_deployerKeypair = do_deployerKeypair opts,
      co_rpcUrl = do_rpcUrl opts, co_networkPassphrase = do_networkPassphrase opts, co_configPath = do_configPath opts\<rparr>"

definition runDeploymentOrchestrator ::
    "('s, 'acc, 'tx, 'sim, 'v, 'ev) OrchEnv \<Rightarrow> Faults \<Rightarrow> DeploymentOrchestratorOptions \<Rightarrow> 's \<Rightarrow> filesystem \<Rightarrow>
     (cli_error + DeploymentOrchestratorResult) \<times> 's \<times> filesystem" where
  "runDeploymentOrchestrator O1 faults opts w fs =
     (let fileConfig = fileConfigOf O1 (do_configPath opts) fs;
          contractId = firstTruthy [do_tokenContractId opts, contractField fileConfig ''token'' ''contractId'',
                         contractField fileConfig ''admin'' ''contractId'']
      in case initializeSuperAdmin O1 faults (initOptionsOf opts contractId) w fs of
           (Inl e, w1, fs1) \<Rightarrow> (Inl e, w1, fs1)
         | (Inr ir, w1, fs1) \<Rightarrow>
             (let errors = (if is_success ir then []
                   else [''SuperAdmin initialization failed: '' @ (case is_error ir of Some m \<Rightarrow> m | None \<Rightarrow> ''undefined'')]);
                  tokenId = (if is_contractId ir \<noteq> [] then Some (is_contractId ir) else contractId)
              in case connectContractIds O1 faults (connectOptionsOf opts fileConfig tokenId) w1 fs1 of
                   (Inl e, w2, fs2) \<Rightarrow> (Inl e, w2, fs2)
                 | (Inr cr, w2, fs2) \<Rightarrow>
                     (let errors = (if \<not> cr_success cr then errors @ (case cr_errors cr of Some es \<Rightarrow> es | None \<Rightarrow> []) else errors);
                          overall = (errors = [] \<and> is_success ir)
                      in (Inr \<lparr>or_success = overall, or_initResult = ir, or_connectResult = cr,
                               or_errors = (if errors \<noteq> [] then Some errors else None)\<rparr>, w2, fs2))))"

text \<open>\<^verbatim>\<open>resolveConfigFileOption\<close> of the commands: they always pass a path.\<close>

definition resolveConfigFileOption :: "CliEnv \<Rightarrow> string option \<Rightarrow> string" where
  "resolveConfigFileOption E path = (if truthy path then the path else defaultConfigPath E)"

subsection \<open>What a report says of the node\<close>

text \<open>Everything of a report but the transaction hashes.\<close>

definition reportView :: "ConnectContractIdsResult \<Rightarrow> ConnectContractIdsResult" where
  "reportView r = r\<lparr>cr_txHashes := []\<rparr>"

lemma reportView_recordLink [simp]: "reportView (recordLink k t r) = recordLink k t (reportView r)"
  by (simp add: reportView_def recordLink_def)

lemma reportView_linkStep: "reportView (fst (linkStep k tk t call rw)) = recordLink k t (reportView (fst rw))"
  by (auto simp: linkStep_def reportView_def recordLink_def Let_def split: prod.split sum.split)

lemma reportView_custom: "reportView (fold customLink ls r) = fold customLink ls (reportView r)"
  by (induction ls arbitrary: r) (simp_all add: customLink_def)

lemma reportView_performLinks:
  "reportView (fst (performLinks env1 p1 k1 a t v wr cs w1)) = reportView (fst (performLinks env2 p2 k2 a t v wr cs w2))"
  by (simp add: performLinks_def Let_def reportView_custom reportView_linkStep)

lemma recordLink_keeps [simp]:
  "cr_success (recordLink k t r) = cr_success r" "cr_errors (recordLink k t r) = cr_errors r"
  by (simp_all add: recordLink_def)

definition allVerified :: "ConnectContractIdsResult \<Rightarrow> bool" where
  "allVerified r \<longleftrightarrow> cr_success r \<and> cr_errors r = None \<and> (\<forall>k. map_of (cr_verifiedLinks r) k \<in> {None, Some True}) \<and>
     dom (map_of (cr_verifiedLinks r)) = dom (map_of (cr_linkedContracts r))"

lemma allVerified_recordLink: "allVerified r \<Longrightarrow> allVerified (recordLink k t r)"
  by (auto simp: allVerified_def recordLink_def update_conv')

lemma allVerified_view: "allVerified (reportView r) = allVerified r"
  by (simp add: allVerified_def reportView_def)

lemma allVerified_performLinks: "allVerified (fst (performLinks env p k a t v wr cs w))"
proof -
  have n: "allVerified noLinks" by (simp add: allVerified_def noLinks_def)
  have l: "allVerified (fst (linkStep k tk t call rw))" if "allVerified (fst rw)" for k tk t call and rw :: "ConnectContractIdsResult \<times> 'a"
    using that allVerified_recordLink [of "reportView (fst rw)"] reportView_linkStep [of k tk t call rw] allVerified_view by metis
  have c: "allVerified (fold customLink ls r)" if "allVerified r" for ls r
    using that by (induction ls arbitrary: r) (simp_all add: customLink_def allVerified_recordLink)
  show ?thesis by (auto simp: performLinks_def Let_def intro!: n l c)
qed

lemma performLinks_success: "cr_success (fst (performLinks env p k a t v wr cs w))"
  using allVerified_performLinks [of env p k a t v wr cs w] by (simp add: allVerified_def)

text \<open>
  Apart from the transaction hashes, the report of \<^verbatim>\<open>connectContractIds\<close> does not depend on what the
  nodes answer: for any two nodes the same links are listed, and a report
  that got past the checks of its inputs is a success with every link marked as verified, also when every call failed or threw.
\<close>

theorem connect_report_ignores_node:
  assumes "cli O1 = cli O2" "fromSecret O1 = fromSecret O2" "storedConfig O1 = storedConfig O2"
    and "connectContractIds O1 faults opts w1 fs = (Inr r1, w1', fs1)"
    and "connectContractIds O2 faults opts w2 fs = (Inr r2, w2', fs2)"
  shows "reportView r1 = reportView r2 \<and> fs1 = fs2 \<and> (cr_success r1 \<longrightarrow> allVerified r1)"
proof -
  have settings: "orSetting O1 = orSetting O2" "fileConfigOf O1 = fileConfigOf O2" "resolveSigner O1 = resolveSigner O2"
    unfolding fun_eq_iff orSetting_def fileConfigOf_def resolveSigner_def assms(1-3) by simp_all
  have same: "connectInputs O1 = connectInputs O2"
    unfolding fun_eq_iff connectInputs_def settings by simp
  show ?thesis
  proof (cases "connectInputs O2 opts fs")
    case (Inl e)
    with assms(4) same show ?thesis by (simp add: connectContractIds_def)
  next
    case (Inr p)
    show ?thesis
    proof (cases p)
      case (Inl msg)
      with Inr assms(4,5) same show ?thesis by (simp add: connectContractIds_def) (auto simp: connectFailure_def)
    next
      case (Inr i)
      with \<open>connectInputs O2 opts fs = Inr p\<close> assms same settings show ?thesis
        by (auto simp: connectContractIds_def Let_def allVerified_performLinks intro: reportView_performLinks)
    qed
  qed
qed

definition demoOrch :: "unit GetResponse \<Rightarrow> (NodeLog, unit, string, unit, unit, unit) OrchEnv" where
  "demoOrch final = \<lparr>cli = demoEnv, clientEnv = (\<lambda>_. logClientEnv acceptedAnswer final), fromSecret = Inr, storedConfig = []\<rparr>"

definition demoConnect :: ConnectContractIdsOptions where
  "demoConnect = \<lparr>co_adminContractId = Some (demoId CHR ''A''), co_tokenContractId = Some (demoId CHR ''B''),
     co_vestingContractId = None, co_wrapperContractId = None, co_customLinks = [], co_secretKey = None,
     co_deployerKeypair = Some ''K'', co_rpcUrl = Some ''u'', co_networkPassphrase = Some ''p'', co_configPath = None\<rparr>"

lemma demoConnect_inputs:
  "connectInputs (demoOrch final) demoConnect (\<lambda>_. None) =
     Inr (Inr \<lparr>ci_admin = Some (demoId CHR ''A''), ci_token = Some (demoId CHR ''B''), ci_vesting = None, ci_wrapper = None,
               ci_keypair = ''K'', ci_rpcUrl = ''u'', ci_passphrase = ''p''\<rparr>)"
proof -
  have v: "isContractId (demoId CHR ''A'')" "isContractId (demoId CHR ''B'')"
    by (auto intro!: demoId_valid simp: base32_def inRange_def)
  then show ?thesis
    by (simp add: connectInputs_def demoConnect_def demoOrch_def fileConfigOf_def loadConfigFile_def contractField_def
        orSetting_def fileText_def resolveSigner_def badId_def isValidContractId_def isContractId_def truthy_def Let_def demoId_def)
qed

lemma connect_report_ignores_node_witness:
  "\<exists>r1 r2 x1 x2 y1 y2. connectContractIds (demoOrch confirmed) noFaults demoConnect emptyLog (\<lambda>_. None) = (Inr r1, x1, y1) \<and>
     connectContractIds (demoOrch rejectedOnLedger) noFaults demoConnect emptyLog (\<lambda>_. None) = (Inr r2, x2, y2) \<and>
     reportView r1 = reportView r2 \<and> allVerified r2"
proof -
  obtain r1 x1 y1 where c1: "connectContractIds (demoOrch confirmed) noFaults demoConnect emptyLog (\<lambda>_. None) = (Inr r1, x1, y1)"
    by (simp add: connectContractIds_def demoConnect_inputs Let_def)
  obtain r2 x2 y2 where c2: "connectContractIds (demoOrch rejectedOnLedger) noFaults demoConnect emptyLog (\<lambda>_. None) = (Inr r2, x2, y2)"
      and s: "cr_success r2"
    by (simp add: connectContractIds_def demoConnect_inputs Let_def performLinks_success)
  show ?thesis
    using connect_report_ignores_node [OF _ _ _ c1 c2] connect_report_ignores_node [OF _ _ _ c2 c1] c1 c2 s
    by (auto simp: demoOrch_def)
qed

text \<open>
  With an explicit path, as the commands always pass, a project file that does not load is replaced by one made from
  defaults and the links alone.
\<close>

lemma connect_replaces_unloadable_config:
  assumes "connectContractIds O1 noFaults opts w fs = (Inr r, w', fs')" and "cr_success r"
    and "fileConfigOf O1 (co_configPath opts) fs = None" and "truthy (co_configPath opts)"
    and accepts: "\<And>o1. schemaValidate (cli O1) o1 = Inr o1" and idem: "\<And>p. resolvePath (cli O1) (resolvePath (cli O1) p) = resolvePath (cli O1) p"
    and full: "\<And>p. resolvePath (cli O1) p \<noteq> []"
  shows "\<exists>d. fs' (resolvePath (cli O1) (the (co_configPath opts))) = Some (Document (JObj d)) \<and>
     map_of d ''name'' = Some (JStr ''bc-forge Project'') \<and> map_of d ''accounts'' = None \<and> map_of d ''secretKey'' = None"
proof -
  let ?p = "resolvePath (cli O1) (the (co_configPath opts))"
  obtain i where i: "connectInputs O1 opts fs = Inr (Inr i)"
    using assms(1,2) by (auto simp: connectContractIds_def connectFailure_def split: sum.split_asm)
  let ?c = "linkedConfig None (ci_admin i) (ci_token i) (ci_vesting i) (ci_wrapper i)"
  have c: "map_of ?c ''accounts'' = None" "map_of ?c ''name'' = Some (JStr ''bc-forge Project'')" "map_of ?c ''secretKey'' = None"
    by (simp_all add: linkedConfig_def Let_def)
  have t: "configTarget (cli O1) (co_configPath opts) = ?p" using assms(4) by (simp add: configTarget_def)
  have t2: "configTarget (cli O1) (Some ?p) = ?p" using idem full by (simp add: configTarget_def truthy_def)
  have v: "validateConfig (cli O1) (JObj ?c) = Inr (spread configDefaults ?c)"
    using c by (simp add: validateConfig_def accepts validateAccountBook_def Let_def)
  have "fs' = snd (saveConfigFile (cli O1) noFaults ?c (Some ?p) fs)"
    using assms(1,3,4) i t by (simp add: connectContractIds_def Let_def)
  then have "fs' ?p = Some (Document (JObj (spread configDefaults ?c)))"
    by (simp add: saveConfigFile_def v t2 plainWrite_def noFaults_def)
  then show ?thesis using c by (simp add: configDefaults_def)
qed

end
