(* ===== verification/ReactAsync.thy ===== *)
theory ReactAsync
  imports SdkErrors
begin

text \<open>
  Asynchronous functions of the React package (\<^verbatim>\<open>src/react/src\<close>). JavaScript runs one task at a
  time: the code of an \<^verbatim>\<open>async\<close> function up to its next \<^verbatim>\<open>await\<close> is atomic, and between two such
  pieces anything else may run on the same state. An async function is therefore a program that
  changes the state and then either returns or waits for the answer to a query, with the rest of
  the function as its continuation. A component instance is a state together with the calls
  that wait; it moves when a function is called or when one of the waiting calls is answered, in
  any order and with any answer: \<open>instance_step\<close>.

  \<open>hook\<close> is the state that the hooks share: the props of the last render, the value, \<^verbatim>\<open>loading\<close>,
  \<^verbatim>\<open>error\<close>, \<^verbatim>\<open>alertMessage\<close> and the refs \<^verbatim>\<open>mountedRef\<close> and \<^verbatim>\<open>requestIdRef\<close>. The locale
  \<open>guarded_hook\<close> is the contract of the hooks that number their requests and drop the answer to
  any but the last; what follows from it for all interleavings is proved once.
\<close>

named_theorems async_simps

subsection \<open>Programs\<close>

datatype ('q, 'a, 's, 'r) task =
    Return 'r
  | Await 'q "'a \<Rightarrow> 's \<Rightarrow> 's \<times> ('q, 'a, 's, 'r) task"

type_synonym ('q, 'a, 's, 'r) prog = "'s \<Rightarrow> 's \<times> ('q, 'a, 's, 'r) task"

definition finish :: "'r \<Rightarrow> ('q, 'a, 's, 'r) prog" where
  "finish r s = (s, Return r)"

definition await :: "'q \<Rightarrow> ('a \<Rightarrow> ('q, 'a, 's, 'r) prog) \<Rightarrow> ('q, 'a, 's, 'r) prog" where
  "await q k s = (s, Await q k)"

definition modify :: "('s \<Rightarrow> 's) \<Rightarrow> ('q, 'a, 's, 'r) prog \<Rightarrow> ('q, 'a, 's, 'r) prog" where
  "modify f p s = p (f s)"

primrec resume :: "('q, 'a, 's, 'r) task \<Rightarrow> ('r \<Rightarrow> ('q, 'a, 's, 't) prog) \<Rightarrow> ('q, 'a, 's, 't) prog" where
  "resume (Return r) f = f r"
| "resume (Await q k) f =
     await q (\<lambda>a s. case map_prod id (\<lambda>t. resume t f) (k a s) of (s', g) \<Rightarrow> g s')"

text \<open>Calling an async function and going on with its result when it has returned.\<close>

definition asyncThen :: "('q, 'a, 's, 'r) prog \<Rightarrow> ('r \<Rightarrow> ('q, 'a, 's, 't) prog) \<Rightarrow> ('q, 'a, 's, 't) prog" where
  "asyncThen p f s = (case p s of (s', t) \<Rightarrow> resume t f s')"

lemma finish_apply [simp, async_simps]: "finish r s = (s, Return r)"
  by (simp add: finish_def)

lemma await_apply [simp, async_simps]: "await q k s = (s, Await q k)"
  by (simp add: await_def)

lemma modify_apply [simp, async_simps]: "modify f p s = p (f s)"
  by (simp add: modify_def)

lemma resume_Await [simp, async_simps]: "resume (Await q k) f s = (s, Await q (\<lambda>a. asyncThen (k a) f))"
proof -
  have "(case map_prod id (\<lambda>t. resume t f) (k a s) of (s', g) \<Rightarrow> g s') = asyncThen (k a) f s" for a s
    by (cases "k a s") (simp add: asyncThen_def)
  then show ?thesis by simp
qed

declare resume.simps(2) [simp del]

lemma asyncThen_finish [simp, async_simps]: "asyncThen (finish r) f = f r"
  by (simp add: asyncThen_def fun_eq_iff)

lemma asyncThen_await [simp, async_simps]: "asyncThen (await q k) f = await q (\<lambda>a. asyncThen (k a) f)"
  by (simp add: asyncThen_def fun_eq_iff)

lemma asyncThen_modify [simp, async_simps]: "asyncThen (modify g p) f = modify g (asyncThen p f)"
  by (simp add: asyncThen_def fun_eq_iff)

subsection \<open>Instances\<close>

type_synonym ('q, 'a, 's, 'r) waiting_call = "'q \<times> ('a \<Rightarrow> ('q, 'a, 's, 'r) prog)"

fun waiting :: "('q, 'a, 's, 'r) task \<Rightarrow> ('q, 'a, 's, 'r) waiting_call list" where
  "waiting (Return r) = []"
| "waiting (Await q k) = [(q, k)]"

type_synonym ('q, 'a, 's, 'r) instance_state = "'s \<times> ('q, 'a, 's, 'r) waiting_call list"

text \<open>Running a function up to its first \<^verbatim>\<open>await\<close>; what it returns is not looked at.\<close>

definition launch :: "('q, 'a, 's, 'r) prog \<Rightarrow> 's \<Rightarrow> ('q, 'a, 's, 'r) instance_state" where
  "launch p s = (case p s of (s', t) \<Rightarrow> (s', waiting t))"

inductive instance_step ::
    "(('s \<Rightarrow> ('q, 'a, 's, 'r) instance_state) \<Rightarrow> bool) \<Rightarrow>
     ('q, 'a, 's, 'r) instance_state \<Rightarrow> ('q, 'a, 's, 'r) instance_state \<Rightarrow> bool"
  for entry where
  call: "entry e \<Longrightarrow> e s = (s', new) \<Longrightarrow> instance_step entry (s, ts) (s', ts @ new)"
| answer: "i < length ts \<Longrightarrow> ts ! i = (q, k) \<Longrightarrow> launch (k a) s = (s', new) \<Longrightarrow>
     instance_step entry (s, ts) (s', take i ts @ drop (Suc i) ts @ new)"

abbreviation instance_steps where
  "instance_steps entry \<equiv> (instance_step entry)\<^sup>*\<^sup>*"

text \<open>An invariant of the state and the waiting calls, checked for each function and each answer.\<close>

lemma instance_invariant:
  assumes "instance_steps entry (s, ts) (s', ts')" and "I s ts"
    and "\<And>e s ts s' new. entry e \<Longrightarrow> I s ts \<Longrightarrow> e s = (s', new) \<Longrightarrow> I s' (ts @ new)"
    and "\<And>us q k vs a s s' new. I s (us @ (q, k) # vs) \<Longrightarrow> launch (k a) s = (s', new) \<Longrightarrow> I s' (us @ vs @ new)"
  shows "I s' ts'"
  using assms(1,2)
proof (induction rule: rtranclp_induct2)
  case refl
  then show ?case .
next
  case (step s1 ts1 s2 ts2)
  then have I: "I s1 ts1" by blast
  from step.hyps(2) show ?case
  proof cases
    case (call e new)
    then show ?thesis using assms(3) I by blast
  next
    case (answer i q k a new)
    have "ts1 = take i ts1 @ (q, k) # drop (Suc i) ts1"
      using answer by (metis id_take_nth_drop)
    with assms(4) [of s1 "take i ts1" q k "drop (Suc i) ts1" a s2 new] I answer show ?thesis by simp
  qed
qed

subsection \<open>Programs that preserve a property of the state\<close>

inductive preservesTask :: "('s \<Rightarrow> bool) \<Rightarrow> ('q, 'a, 's, 'r) task \<Rightarrow> bool" for J where
  returns: "preservesTask J (Return r)"
| awaits: "(\<And>a s. J s \<Longrightarrow> J (fst (k a s)) \<and> preservesTask J (snd (k a s))) \<Longrightarrow> preservesTask J (Await q k)"

inductive_cases preservesTask_AwaitE: "preservesTask J (Await q k)"

definition preserves :: "('s \<Rightarrow> bool) \<Rightarrow> ('q, 'a, 's, 'r) prog \<Rightarrow> bool" where
  "preserves J p \<longleftrightarrow> (\<forall>s. J s \<longrightarrow> J (fst (p s)) \<and> preservesTask J (snd (p s)))"

lemma preservesI: "(\<And>s. J s \<Longrightarrow> J (fst (p s)) \<and> preservesTask J (snd (p s))) \<Longrightarrow> preserves J p"
  by (simp add: preserves_def)

lemma preservesD: "preserves J p \<Longrightarrow> J s \<Longrightarrow> J (fst (p s)) \<and> preservesTask J (snd (p s))"
  by (simp add: preserves_def)

lemma preserves_finish [simp, intro]: "preserves J (finish r)"
  by (simp add: preserves_def preservesTask.returns)

lemma preserves_await [intro]: "(\<And>a. preserves J (k a)) \<Longrightarrow> preserves J (await q k)"
  by (auto simp: preserves_def intro!: preservesTask.awaits)

lemma preserves_modify [intro]: "(\<And>s. J s \<Longrightarrow> J (f s)) \<Longrightarrow> preserves J p \<Longrightarrow> preserves J (modify f p)"
  by (simp add: preserves_def)

lemma preservesTask_resume:
  assumes "preservesTask J t" and "\<And>r. preserves J (f r)"
  shows "preserves J (resume t f)"
  using assms(1)
proof induction
  case (returns r)
  then show ?case using assms(2) by simp
next
  case (awaits k q)
  have "preserves J (asyncThen (k a) f)" for a
  proof (rule preservesI)
    fix s
    assume J: "J s"
    obtain s' t' where st: "k a s = (s', t')" by (cases "k a s")
    have "J s'" "preserves J (resume t' f)" using awaits [OF J, of a] st by simp_all
    then show "J (fst (asyncThen (k a) f s)) \<and> preservesTask J (snd (asyncThen (k a) f s))"
      using preservesD [of J "resume t' f" s'] by (simp add: asyncThen_def st)
  qed
  then show ?case by (auto simp: preserves_def intro!: preservesTask.awaits)
qed

lemma preserves_asyncThen [intro]:
  assumes "preserves J p" and "\<And>r. preserves J (f r)"
  shows "preserves J (asyncThen p f)"
proof (rule preservesI)
  fix s
  assume "J s"
  obtain s' t where st: "p s = (s', t)" by (cases "p s")
  have "J s'" "preservesTask J t" using preservesD [OF assms(1) \<open>J s\<close>] st by simp_all
  then show "J (fst (asyncThen p f s)) \<and> preservesTask J (snd (asyncThen p f s))"
    using preservesD [OF preservesTask_resume [OF _ assms(2)], of t s'] by (simp add: asyncThen_def st)
qed

text \<open>A waiting call keeps the property whatever it is answered.\<close>

definition quietCall :: "('s \<Rightarrow> bool) \<Rightarrow> ('q, 'a, 's, 'r) waiting_call \<Rightarrow> bool" where
  "quietCall J c \<longleftrightarrow> (\<forall>a. preserves J (snd c a))"

lemma preservesTask_waiting: "preservesTask J t \<Longrightarrow> c \<in> set (waiting t) \<Longrightarrow> quietCall J c"
  by (cases t) (auto simp: quietCall_def preserves_def elim!: preservesTask_AwaitE)

lemma preserves_launch:
  assumes "preserves J p" and "J s" and "launch p s = (s', new)"
  shows "J s' \<and> (\<forall>c \<in> set new. quietCall J c)"
  using assms preservesD [OF assms(1,2)] preservesTask_waiting by (fastforce simp: launch_def split: prod.splits)

text \<open>When every function keeps the property, it holds in every state that the instance reaches.\<close>

theorem instance_preserves:
  fixes entry :: "('s \<Rightarrow> ('q, 'a, 's, 'r) instance_state) \<Rightarrow> bool"
  assumes "instance_steps entry (s, ts) (s', ts')" and "J s" and "\<And>c. c \<in> set ts \<Longrightarrow> quietCall J c"
    and "\<And>e s s' new. entry e \<Longrightarrow> J s \<Longrightarrow> e s = (s', new) \<Longrightarrow> J s' \<and> (\<forall>c \<in> set new. quietCall J c)"
  shows "J s' \<and> (\<forall>c \<in> set ts'. quietCall J c)"
  using assms(1)
proof (rule instance_invariant [where I = "\<lambda>s ts. J s \<and> (\<forall>c \<in> set ts. quietCall J c)"])
  show "J s \<and> (\<forall>c \<in> set ts. quietCall J c)" using assms(2,3) by blast
next
  fix e s s' and ts new :: "('q, 'a, 's, 'r) waiting_call list"
  assume "entry e" "J s \<and> (\<forall>c \<in> set ts. quietCall J c)" "e s = (s', new)"
  with assms(4) [of e s s' new] show "J s' \<and> (\<forall>c \<in> set (ts @ new). quietCall J c)" by auto
next
  fix q k a s s' and us vs new :: "('q, 'a, 's, 'r) waiting_call list"
  assume I: "J s \<and> (\<forall>c \<in> set (us @ (q, k) # vs). quietCall J c)" and l: "launch (k a) s = (s', new)"
  then have "preserves J (k a)" by (auto simp: quietCall_def)
  from preserves_launch [OF this _ l] I show "J s' \<and> (\<forall>c \<in> set (us @ vs @ new). quietCall J c)" by auto
qed

subsection \<open>Thrown values\<close>

text \<open>A rejection carries an \<^verbatim>\<open>Error\<close> object or any other value, of which only its text is used.\<close>

datatype thrown = ThrownError sdk_error | ThrownValue string

text \<open>\<^verbatim>\<open>err instanceof Error ? err : new Error(String(err))\<close>.\<close>

fun asError :: "thrown \<Rightarrow> sdk_error" where
  "asError (ThrownError e) = e"
| "asError (ThrownValue t) = OtherError t"

subsection \<open>The state of a hook\<close>

record ('p, 'd) hook =
  props :: 'p
  hdata :: 'd
  loading :: bool
  hookError :: "sdk_error option"
  alertMessage :: "string option"
  mountedRef :: bool
  requestIdRef :: nat

definition whenMounted :: "(('p, 'd) hook \<Rightarrow> ('p, 'd) hook) \<Rightarrow> ('p, 'd) hook \<Rightarrow> ('p, 'd) hook" where
  "whenMounted f s = (if mountedRef s then f s else s)"

text \<open>\<^verbatim>\<open>mountedRef.current && currentRequestId === requestIdRef.current\<close>.\<close>

definition whenCurrent :: "nat \<Rightarrow> (('p, 'd) hook \<Rightarrow> ('p, 'd) hook) \<Rightarrow> ('p, 'd) hook \<Rightarrow> ('p, 'd) hook" where
  "whenCurrent n f s = (if mountedRef s \<and> n = requestIdRef s then f s else s)"

text \<open>
  What happens to an instance: a render with new props runs the effect that depends on them, the
  timer and the returned \<^verbatim>\<open>refetch\<close> call the function of the last render, a \<^verbatim>\<open>refetch\<close> that was kept
  from an earlier render calls the function with the props of that render (those for which
  \<open>old\<close> holds), and the component is removed.
\<close>

inductive hookEntry ::
    "('p \<Rightarrow> bool) \<Rightarrow> ('p \<Rightarrow> ('q, 'a, ('p, 'd) hook, 'r) prog) \<Rightarrow> ('p \<Rightarrow> ('q, 'a, ('p, 'd) hook, 'r) prog) \<Rightarrow>
     (('p, 'd) hook \<Rightarrow> ('q, 'a, ('p, 'd) hook, 'r) instance_state) \<Rightarrow> bool"
  for old fetch effect where
  render: "hookEntry old fetch effect
     (\<lambda>s. if mountedRef s \<and> p \<noteq> props s then launch (effect p) (s\<lparr>props := p\<rparr>) else (s, []))"
| refetch: "hookEntry old fetch effect (\<lambda>s. launch (fetch (props s)) s)"
| kept: "old p \<Longrightarrow> hookEntry old fetch effect (\<lambda>s. launch (fetch p) s)"
| unmount: "hookEntry old fetch effect (\<lambda>s. (s\<lparr>mountedRef := False\<rparr>, []))"

text \<open>The first render: the initial state, on which the effect runs.\<close>

definition mount :: "('p \<Rightarrow> ('q, 'a, ('p, 'd) hook, 'r) prog) \<Rightarrow> 'd \<Rightarrow> 'p \<Rightarrow> ('q, 'a, ('p, 'd) hook, 'r) instance_state" where
  "mount effect d p = launch (effect p) \<lparr>props = p, hdata = d, loading = False, hookError = None,
     alertMessage = None, mountedRef = True, requestIdRef = 0\<rparr>"

subsection \<open>Hooks that number their requests\<close>

text \<open>What is fixed besides the value that is shown.\<close>

definition sameRefs :: "('p, 'd) hook \<Rightarrow> ('p, 'd) hook \<Rightarrow> bool" where
  "sameRefs s s' \<longleftrightarrow> props s' = props s \<and> mountedRef s' = mountedRef s"

locale guarded_hook =
  fixes fetch :: "'p \<Rightarrow> ('q, 'a, ('p, 'd) hook, 'r) prog"
    and effect :: "'p \<Rightarrow> ('q, 'a, ('p, 'd) hook, 'r) prog"
    and fetchable :: "'p \<Rightarrow> bool"
    and query :: "'p \<Rightarrow> 'q"
    and settle :: "'p \<Rightarrow> nat \<Rightarrow> 'a \<Rightarrow> ('q, 'a, ('p, 'd) hook, 'r) prog"
  assumes fetch_issues: "fetchable p \<Longrightarrow> fetch p s = (s', t) \<Longrightarrow>
        sameRefs s s' \<and> requestIdRef s' = Suc (requestIdRef s) \<and> t = Await (query p) (settle p (Suc (requestIdRef s)))"
    and fetch_refuses: "\<not> fetchable p \<Longrightarrow> launch (fetch p) s = (s', new) \<Longrightarrow>
        new = [] \<and> sameRefs s s' \<and> requestIdRef s' = requestIdRef s \<and> (loading s' \<longrightarrow> loading s)"
    and effect_fetches: "fetchable p \<Longrightarrow> effect p s = fetch p s"
    and effect_refuses: "\<not> fetchable p \<Longrightarrow> mountedRef s \<Longrightarrow> launch (effect p) s = (s', new) \<Longrightarrow>
        new = [] \<and> sameRefs s s' \<and> requestIdRef s \<le> requestIdRef s' \<and>
        (requestIdRef s' = requestIdRef s \<or> \<not> loading s') \<and> (loading s' \<longrightarrow> loading s)"
    and fetch_unmounted: "\<not> mountedRef s \<Longrightarrow> launch (fetch p) s = (s', new) \<Longrightarrow>
        s' = s\<lparr>requestIdRef := requestIdRef s'\<rparr>"
    and settle_current: "launch (settle p n a) s = (s', new) \<Longrightarrow> mountedRef s \<and> n = requestIdRef s \<Longrightarrow>
        new = [] \<and> sameRefs s s' \<and> requestIdRef s' = requestIdRef s \<and> \<not> loading s'"
    and settle_other: "launch (settle p n a) s = (s', new) \<Longrightarrow> \<not> (mountedRef s \<and> n = requestIdRef s) \<Longrightarrow>
        new = [] \<and> s' = s"
begin

definition calls_ok where
  "calls_ok old s ts \<longleftrightarrow>
     (\<forall>q k. (q, k) \<in> set ts \<longrightarrow> (\<exists>p n. q = query p \<and> k = settle p n \<and> n \<le> requestIdRef s \<and>
        (n = requestIdRef s \<and> fetchable (props s) \<longrightarrow> p = props s \<or> old p))) \<and>
     (mountedRef s \<and> loading s \<longrightarrow> (\<exists>p. (query p, settle p (requestIdRef s)) \<in> set ts))"

lemma calls_okD:
  "calls_ok old s ts \<Longrightarrow> (q, k) \<in> set ts \<Longrightarrow> \<exists>p n. q = query p \<and> k = settle p n \<and> n \<le> requestIdRef s \<and>
     (n = requestIdRef s \<and> fetchable (props s) \<longrightarrow> p = props s \<or> old p)"
  unfolding calls_ok_def by blast

lemma calls_ok_fetch:
  assumes "calls_ok old s ts" and "p = props s \<or> old p" and "launch (fetch p) s = (s', new)"
  shows "calls_ok old s' (ts @ new)"
proof (cases "fetchable p")
  case True
  obtain t where t: "fetch p s = (s', t)" "new = waiting t"
    using assms(3) by (auto simp: launch_def split: prod.splits)
  from fetch_issues [OF True t(1)] assms(1,2) t(2) show ?thesis
    by (fastforce simp: calls_ok_def sameRefs_def)
next
  case False
  from fetch_refuses [OF this assms(3)] assms(1) show ?thesis
    by (auto simp: calls_ok_def sameRefs_def)
qed

lemma calls_ok_effect:
  assumes "\<And>q k. (q, k) \<in> set ts \<Longrightarrow> \<exists>p n. q = query p \<and> k = settle p n \<and> n \<le> requestIdRef s"
    and "mountedRef s \<and> loading s \<longrightarrow> (\<exists>p. (query p, settle p (requestIdRef s)) \<in> set ts)"
    and "mountedRef s" and "launch (effect (props s)) s = (s', new)"
  shows "calls_ok old s' (ts @ new)"
proof (cases "fetchable (props s)")
  case True
  obtain t where t: "fetch (props s) s = (s', t)" "new = waiting t"
    using assms(4) True by (auto simp: launch_def effect_fetches split: prod.splits)
  from fetch_issues [OF True t(1)] assms(1) t(2) show ?thesis
    by (fastforce simp: calls_ok_def sameRefs_def)
next
  case False
  from effect_refuses [OF this assms(3,4)] assms(1,2) False show ?thesis
    by (fastforce simp: calls_ok_def sameRefs_def)
qed

lemma calls_ok_answer:
  assumes ok: "calls_ok old s (us @ (q, k) # vs)" and step: "launch (k a) s = (s', new)"
  shows "calls_ok old s' (us @ vs @ new)"
proof -
  obtain p n where pn: "q = query p" "k = settle p n" "n \<le> requestIdRef s"
    using calls_okD [OF ok, of q k] by auto
  show ?thesis
  proof (cases "mountedRef s \<and> n = requestIdRef s")
    case True
    from settle_current [OF step [unfolded pn(2)] True] ok show ?thesis
      by (auto simp: calls_ok_def sameRefs_def)
  next
    case False
    from settle_other [OF step [unfolded pn(2)] False] have s': "s' = s" "new = []" by auto
    have "(query p', settle p' (requestIdRef s)) \<noteq> (q, k)" if "mountedRef s" "loading s" for p'
    proof
      assume "(query p', settle p' (requestIdRef s)) = (q, k)"
      with step s' have "launch (settle p' (requestIdRef s) a) s = (s, [])" by simp
      from settle_current [OF this] that show False by simp
    qed
    with ok s' show ?thesis by (fastforce simp: calls_ok_def)
  qed
qed

lemma calls_ok_mount: "mount effect d p = (s, ts) \<Longrightarrow> calls_ok old s ts"
  using calls_ok_effect [of "[]" "\<lparr>props = p, hdata = d, loading = False, hookError = None, alertMessage = None,
      mountedRef = True, requestIdRef = 0\<rparr>" s ts] by (simp add: mount_def)

lemma reachable_calls_ok:
  assumes "mount effect d p = (s0, ts0)" and "instance_steps (hookEntry old fetch effect) (s0, ts0) (s, ts)"
  shows "calls_ok old s ts"
  using assms(2) calls_ok_mount [OF assms(1)]
proof (rule instance_invariant)
  fix e s ts s' new
  assume "hookEntry old fetch effect e" "calls_ok old s ts" "e s = (s', new)"
  then show "calls_ok old s' (ts @ new)"
  proof cases
    case (render p)
    show ?thesis
    proof (cases "mountedRef s \<and> p \<noteq> props s")
      case True
      show ?thesis
      proof (rule calls_ok_effect [of ts "s\<lparr>props := p\<rparr>"])
        show "\<exists>p' n. q = query p' \<and> k = settle p' n \<and> n \<le> requestIdRef (s\<lparr>props := p\<rparr>)"
          if "(q, k) \<in> set ts" for q k
          using calls_okD [OF \<open>calls_ok old s ts\<close> that] by auto
      qed (use True render \<open>e s = (s', new)\<close> \<open>calls_ok old s ts\<close> in \<open>auto simp: calls_ok_def\<close>)
    next
      case False
      with render \<open>e s = (s', new)\<close> \<open>calls_ok old s ts\<close> show ?thesis by auto
    qed
  next
    case refetch
    then show ?thesis using calls_ok_fetch [of old s ts "props s"] \<open>calls_ok old s ts\<close> \<open>e s = (s', new)\<close> by simp
  next
    case (kept p)
    then show ?thesis using calls_ok_fetch [of old s ts p] \<open>calls_ok old s ts\<close> \<open>e s = (s', new)\<close> by simp
  next
    case unmount
    then show ?thesis using \<open>calls_ok old s ts\<close> \<open>e s = (s', new)\<close> by (auto simp: calls_ok_def)
  qed
qed (rule calls_ok_answer)

text \<open>No endless spinner: a mounted instance with no call in flight is not loading.\<close>

lemma idle_not_loading:
  assumes "mount effect d p = (s0, ts0)" and "instance_steps (hookEntry old fetch effect) (s0, ts0) (s, [])"
    and "mountedRef s"
  shows "\<not> loading s"
  using reachable_calls_ok [OF assms(1,2)] assms(3) by (simp add: calls_ok_def)

text \<open>
  No stale value: an answer that changes the state is one to the last request, and that was for the
  current props or made by a kept function.
\<close>

lemma answer_is_current:
  assumes "mount effect d p = (s0, ts0)" and "instance_steps (hookEntry old fetch effect) (s0, ts0) (s, ts)"
    and "(q, k) \<in> set ts" and "launch (k a) s = (s', new)" and "s' \<noteq> s" and "fetchable (props s)"
  shows "\<exists>p'. q = query p' \<and> k = settle p' (requestIdRef s) \<and> (p' = props s \<or> old p')"
proof -
  obtain p' n where pn: "q = query p'" "k = settle p' n" "n = requestIdRef s \<longrightarrow> p' = props s \<or> old p'"
    using calls_okD [OF reachable_calls_ok [OF assms(1,2)] assms(3)] assms(6) by blast
  with settle_other [OF assms(4) [unfolded pn(2)]] assms(5) show ?thesis by blast
qed

text \<open>After the component is removed nothing it shows changes any more.\<close>

lemma unmounted_frozen:
  assumes "mount effect d p = (s0, ts0)" and "instance_steps (hookEntry old fetch effect) (s0, ts0) (s, ts)"
    and "\<not> mountedRef s" and "instance_steps (hookEntry old fetch effect) (s, ts) (s', ts')"
  shows "s' = s\<lparr>requestIdRef := requestIdRef s'\<rparr>"
proof -
  let ?I = "\<lambda>s1 ts1. calls_ok old s1 ts1 \<and> s1 = s\<lparr>requestIdRef := requestIdRef s1\<rparr>"
  have "?I s' ts'"
    using assms(4)
  proof (rule instance_invariant [where I = ?I])
    show "?I s ts" using reachable_calls_ok [OF assms(1,2)] by simp
  next
    fix e s1 ts1 s2 new
    assume e: "hookEntry old fetch effect e" and I: "?I s1 ts1" and es: "e s1 = (s2, new)"
    have m: "\<not> mountedRef s1" using I assms(3) by (metis hook.select_convs(6) hook.surjective hook.update_convs(7))
    from e show "?I s2 (ts1 @ new)"
    proof cases
      case (render p)
      with es m I show ?thesis by auto
    next
      case refetch
      with es have l: "launch (fetch (props s1)) s1 = (s2, new)" by simp
      from fetch_unmounted [OF m l] calls_ok_fetch [OF _ _ l, of old ts1] I show ?thesis
        by (metis hook.surjective hook.update_convs(7))
    next
      case (kept p)
      with es have l: "launch (fetch p) s1 = (s2, new)" by simp
      from fetch_unmounted [OF m l] calls_ok_fetch [OF _ _ l, of old ts1] I kept show ?thesis
        by (metis hook.surjective hook.update_convs(7))
    next
      case unmount
      with es m I show ?thesis by (auto simp: calls_ok_def)
    qed
  next
    fix us q k vs a s1 s2 new
    assume I: "?I s1 (us @ (q, k) # vs)" and l: "launch (k a) s1 = (s2, new)"
    have m: "\<not> mountedRef s1" using I assms(3) by (metis hook.select_convs(6) hook.surjective hook.update_convs(7))
    obtain p' n where "k = settle p' n" using calls_okD [of old s1 "us @ (q, k) # vs" q k] I by auto
    with settle_other [of p' n a s1 s2 new] l m have "s2 = s1" by simp
    with calls_ok_answer [of old s1 us q k vs, OF _ l] I show "?I s2 (us @ vs @ new)" by blast
  qed
  then show ?thesis by blast
qed

end

end
