(* ===== verification/JsRegex.thy ===== *)
theory JsRegex
  imports Forge_Prelude
begin

text \<open>
  The regular expressions that the React package tests texts against (\<^verbatim>\<open>re.test(text)\<close>): characters
  and classes, alternatives, sequences and repetition, unanchored. The matcher takes derivatives;
  \<open>rxTest_iff\<close> relates it to the language of the expression.
\<close>

datatype rx =
    Empty
  | Eps
  | Sym "char \<Rightarrow> bool"
  | Alt rx rx
  | Cat rx rx
  | Rep rx

fun nullable :: "rx \<Rightarrow> bool" where
  "nullable Empty = False"
| "nullable Eps = True"
| "nullable (Sym p) = False"
| "nullable (Alt r s) = (nullable r \<or> nullable s)"
| "nullable (Cat r s) = (nullable r \<and> nullable s)"
| "nullable (Rep r) = True"

fun deriv :: "char \<Rightarrow> rx \<Rightarrow> rx" where
  "deriv c Empty = Empty"
| "deriv c Eps = Empty"
| "deriv c (Sym p) = (if p c then Eps else Empty)"
| "deriv c (Alt r s) = Alt (deriv c r) (deriv c s)"
| "deriv c (Cat r s) = (if nullable r then Alt (Cat (deriv c r) s) (deriv c s) else Cat (deriv c r) s)"
| "deriv c (Rep r) = Cat (deriv c r) (Rep r)"

text \<open>A match that starts at the first character and ends anywhere.\<close>

fun rxPrefix :: "rx \<Rightarrow> string \<Rightarrow> bool" where
  "rxPrefix r [] = nullable r"
| "rxPrefix r (c # s) = (nullable r \<or> rxPrefix (deriv c r) s)"

fun rxTest :: "rx \<Rightarrow> string \<Rightarrow> bool" where
  "rxTest r [] = rxPrefix r []"
| "rxTest r (c # s) = (rxPrefix r (c # s) \<or> rxTest r s)"

subsection \<open>Building expressions\<close>

text \<open>A literal with the flag \<^verbatim>\<open>i\<close>, \<^verbatim>\<open>\s*\<close> and a list of alternatives.\<close>

fun rxLit :: "string \<Rightarrow> rx" where
  "rxLit [] = Eps"
| "rxLit (c # s) = Cat (Sym (\<lambda>x. lower x = lower c)) (rxLit s)"

definition rxSpace :: rx where
  "rxSpace = Rep (Sym js_ws)"

fun rxAny :: "rx list \<Rightarrow> rx" where
  "rxAny [] = Empty"
| "rxAny [r] = r"
| "rxAny (r # rs) = Alt r (rxAny rs)"

fun rxSeq :: "rx list \<Rightarrow> rx" where
  "rxSeq [] = Eps"
| "rxSeq [r] = r"
| "rxSeq (r # rs) = Cat r (rxSeq rs)"

definition rxOpt :: "rx \<Rightarrow> rx" where
  "rxOpt r = Alt r Eps"

subsection \<open>Languages\<close>

inductive_set repeats :: "string set \<Rightarrow> string set" for L where
  none: "[] \<in> repeats L"
| more: "u \<in> L \<Longrightarrow> v \<in> repeats L \<Longrightarrow> u @ v \<in> repeats L"

fun lang :: "rx \<Rightarrow> string set" where
  "lang Empty = {}"
| "lang Eps = {[]}"
| "lang (Sym p) = {[c] | c. p c}"
| "lang (Alt r s) = lang r \<union> lang s"
| "lang (Cat r s) = {u @ v | u v. u \<in> lang r \<and> v \<in> lang s}"
| "lang (Rep r) = repeats (lang r)"

lemma nullable_iff: "nullable r \<longleftrightarrow> [] \<in> lang r"
  by (induction r) (auto intro: repeats.none)

lemma repeats_Cons:
  "c # w \<in> repeats L \<longleftrightarrow> (\<exists>u v. c # u \<in> L \<and> v \<in> repeats L \<and> w = u @ v)"
proof
  have "z = c # w \<longrightarrow> (\<exists>u v. c # u \<in> L \<and> v \<in> repeats L \<and> w = u @ v)" if "z \<in> repeats L" for z
    using that
  proof induction
    case (more u v)
    then show ?case by (cases u) auto
  qed simp
  then show "c # w \<in> repeats L \<Longrightarrow> \<exists>u v. c # u \<in> L \<and> v \<in> repeats L \<and> w = u @ v" by blast
next
  assume "\<exists>u v. c # u \<in> L \<and> v \<in> repeats L \<and> w = u @ v"
  then show "c # w \<in> repeats L" by (metis append_Cons repeats.more)
qed

lemma deriv_iff: "w \<in> lang (deriv c r) \<longleftrightarrow> c # w \<in> lang r"
proof (induction r arbitrary: w)
  case (Cat r s)
  have "(\<exists>u v. c # w = u @ v \<and> u \<in> lang r \<and> v \<in> lang s) \<longleftrightarrow>
      (\<exists>u v. w = u @ v \<and> c # u \<in> lang r \<and> v \<in> lang s) \<or> [] \<in> lang r \<and> c # w \<in> lang s"
    by (auto simp: Cons_eq_append_conv)
  with Cat show ?case by (auto simp: nullable_iff)
next
  case (Rep r)
  then show ?case by (auto simp: repeats_Cons)
qed auto

lemma rxPrefix_iff: "rxPrefix r s \<longleftrightarrow> (\<exists>u v. s = u @ v \<and> u \<in> lang r)"
proof (induction s arbitrary: r)
  case (Cons c s)
  have "(\<exists>u v. c # s = u @ v \<and> u \<in> lang r) \<longleftrightarrow> [] \<in> lang r \<or> (\<exists>u v. s = u @ v \<and> c # u \<in> lang r)"
    by (metis append_Cons append_Nil neq_Nil_conv list.inject)
  with Cons show ?case by (simp add: nullable_iff deriv_iff)
qed (simp add: nullable_iff)

lemma rxTest_iff: "rxTest r s \<longleftrightarrow> (\<exists>u v w. s = u @ v @ w \<and> v \<in> lang r)"
proof (induction s)
  case (Cons c s)
  have "(\<exists>u v w. c # s = u @ v @ w \<and> v \<in> lang r) \<longleftrightarrow>
      (\<exists>v w. c # s = v @ w \<and> v \<in> lang r) \<or> (\<exists>u v w. s = u @ v @ w \<and> v \<in> lang r)" (is "?l = ?r")
  proof
    assume ?l
    then obtain u v w where "c # s = u @ v @ w" "v \<in> lang r" by blast
    then show ?r by (cases u) auto
  next
    assume ?r
    then show ?l by (metis append_Cons append_Nil)
  qed
  with Cons show ?case by (simp add: rxPrefix_iff)
qed (simp add: nullable_iff)

text \<open>A text around a match matches.\<close>

lemma rxTest_context: "rxTest r t \<Longrightarrow> rxTest r (u @ t @ v)"
proof -
  assume "rxTest r t"
  then obtain a b c where "t = a @ b @ c" "b \<in> lang r" unfolding rxTest_iff by blast
  then have "u @ t @ v = (u @ a) @ b @ (c @ v)" "b \<in> lang r" by simp_all
  then show ?thesis unfolding rxTest_iff by blast
qed

lemma lang_rxLit: "w \<in> lang (rxLit t) \<longleftrightarrow> map lower w = map lower t"
proof (induction t arbitrary: w)
  case (Cons c t)
  have "w \<in> lang (rxLit (c # t)) \<longleftrightarrow> (\<exists>x v. w = x # v \<and> lower x = lower c \<and> v \<in> lang (rxLit t))"
    by (simp add: exI [of _ "[_]"] del: lower.simps) (metis append_Cons append_Nil)
  then show ?case using Cons by (simp add: Cons_eq_map_conv map_eq_Cons_conv del: lower.simps)
qed simp

end
