(* ===== verification/ReactUtils.thy ===== *)
theory ReactUtils
  imports ReactAsync JsRegex
begin

text \<open>
  The helper functions of the React package: \<^verbatim>\<open>src/react/src/utils.ts\<close> and the functions of
  \<^verbatim>\<open>src/react/src/hooks.ts\<close> that are not hooks. Parsing and rendering of amounts, vesting
  arithmetic, decoding of contract errors and wallet rejections, the report of role assignments.
\<close>

subsection \<open>Amounts\<close>

definition unsignedInteger :: "string \<Rightarrow> bool" where
  "unsignedInteger s \<longleftrightarrow> s \<noteq> [] \<and> list_all isDigit s"

definition parsePositiveInteger :: "string \<Rightarrow> int option" where
  "parsePositiveInteger value =
     (let t = js_trim value in
      if \<not> unsignedInteger t then None
      else case BigInt t of
             None \<Rightarrow> None
           | Some parsed \<Rightarrow> if parsed > 0 then Some parsed else None)"

definition isPositiveInteger :: "string \<Rightarrow> bool" where
  "isPositiveInteger value \<longleftrightarrow> parsePositiveInteger value \<noteq> None"

text \<open>\<^verbatim>\<open>fraction.replace(/0+$/, "")\<close>.\<close>

definition trimZeros :: "string \<Rightarrow> string" where
  "trimZeros s = rev (dropWhile (\<lambda>c. c = CHR ''0'') (rev s))"

definition formatTokenAmount :: "int option \<Rightarrow> int option \<Rightarrow> bool \<Rightarrow> string \<Rightarrow> string" where
  "formatTokenAmount amt decimals trim placeholder =
     (case amt of
        None \<Rightarrow> placeholder
      | Some a \<Rightarrow>
          (case decimals of
             None \<Rightarrow> show_int a
           | Some d \<Rightarrow>
               if d \<le> 0 then show_int a
               else let sgn = (if a < 0 then ''-'' else '''');
                        digits = show_int (if a < 0 then - a else a);
                        padded = padStart digits (nat (d + 1)) (CHR ''0'');
                        whole = take (length padded - nat d) padded;
                        fraction = drop (length padded - nat d) padded;
                        trimmedFraction = trimZeros fraction
                    in if \<not> trim then sgn @ whole @ ''.'' @ fraction
                       else if trimmedFraction \<noteq> [] then sgn @ whole @ ''.'' @ trimmedFraction
                       else sgn @ whole))"

text \<open>\<^verbatim>\<open>value.slice(-tail)\<close>, which is the whole string for \<^verbatim>\<open>tail = 0\<close>.\<close>

definition sliceEnd :: "nat \<Rightarrow> string \<Rightarrow> string" where
  "sliceEnd tail value = (if tail = 0 then value else drop (length value - tail) value)"

definition truncateMiddle :: "string \<Rightarrow> nat \<Rightarrow> nat \<Rightarrow> string \<Rightarrow> string" where
  "truncateMiddle value lead tail separator =
     (if length value \<le> lead + tail then value
      else take lead value @ separator @ sliceEnd tail value)"

text \<open>\<^verbatim>\<open>stroops / 10_000_000n\<close> and \<^verbatim>\<open>stroops % 10_000_000n\<close>: both truncate.\<close>

definition stroopsToXlm :: "int \<Rightarrow> string" where
  "stroopsToXlm stroops =
     (let whole = bigint_div stroops 10000000;
          rest = stroops - whole * 10000000
      in show_int whole @ ''.'' @ padStart (show_int rest) 7 (CHR ''0''))"

subsection \<open>Vesting\<close>

definition calculateVestedAmount :: "int \<Rightarrow> int \<Rightarrow> int \<Rightarrow> int \<Rightarrow> int \<Rightarrow> int" where
  "calculateVestedAmount totalAmount start cliff endLedger current =
     (if current < cliff then 0
      else if current \<ge> endLedger then totalAmount
      else if endLedger \<le> start then totalAmount
      else let elapsed = current - start; duration = endLedger - start
           in bigint_div (totalAmount * elapsed) duration)"

subsection \<open>Addresses\<close>

definition ZERO_ADDRESS :: string where
  "ZERO_ADDRESS = ''GAAAAAAAAAAAAAAAAAAAAAAAAAAAAAAAAAAAAAAAAAAAAAAAAAAAAWHF''"

text \<open>\<^verbatim>\<open>/^[GC][A-Z2-7]{55}$/\<close>.\<close>

definition stellarStrkey :: "string \<Rightarrow> bool" where
  "stellarStrkey s \<longleftrightarrow> length s = 56 \<and> hd s \<in> {CHR ''G'', CHR ''C''} \<and>
     list_all (\<lambda>c. isUpper c \<or> c \<in> set ''234567'') (tl s)"

definition isValidStellarAddress :: "string \<Rightarrow> bool" where
  "isValidStellarAddress address \<longleftrightarrow>
     (let t = js_trim address in t \<noteq> [] \<and> t \<noteq> ZERO_ADDRESS \<and> stellarStrkey t)"

subsection \<open>Errors\<close>

definition SOROBAN_TOKEN_ERROR_MESSAGES :: "nat \<rightharpoonup> string \<times> string" where
  "SOROBAN_TOKEN_ERROR_MESSAGES = map_of [
     (1, ''TOKEN_ALREADY_INITIALIZED'', ''Contract has already been initialized''),
     (2, ''TOKEN_NOT_INITIALIZED'', ''Contract has not been initialized yet''),
     (3, ''TOKEN_INVALID_AMOUNT'', ''The amount provided is invalid''),
     (4, ''TOKEN_INSUFFICIENT_BALANCE'', ''The caller balance is insufficient''),
     (5, ''TOKEN_INSUFFICIENT_ALLOWANCE'', ''The spender allowance is insufficient''),
     (6, ''TOKEN_CONTRACT_PAUSED'', ''The contract is currently paused''),
     (7, ''TOKEN_FEE_NOT_CONFIGURED'', ''Fee configuration has not been set''),
     (8, ''TOKEN_INSUFFICIENT_FEE_BALANCE'', ''Treasury balance is insufficient to cover the fee''),
     (9, ''TOKEN_FEE_EXEMPTION_NOT_FOUND'', ''No fee exemption found for the specified address''),
     (10, ''TOKEN_MAX_SUPPLY_EXCEEDED'', ''Minting would exceed the configured maximum supply''),
     (11, ''TOKEN_ALREADY_PAUSED'', ''Contract is already paused''),
     (12, ''TOKEN_NOT_PAUSED'', ''Contract is not paused''),
     (13, ''TOKEN_BATCH_TOO_LARGE'', ''Batch operations list exceeds maximum allowed cap''),
     (14, ''TOKEN_BATCH_EMPTY'', ''Batch operations list is empty''),
     (15, ''TOKEN_PAYLOAD_EXPIRED'', ''Batch payload execution max ledger sequence has expired''),
     (16, ''TOKEN_PAYLOAD_REPLAYED'', ''Batch payload nonce has already been used or is invalid''),
     (17, ''TOKEN_UNKNOWN_TOKEN'', ''rescue_tokens was called on this contract own token ID'')]"

definition SOROBAN_ADMIN_ERROR_MESSAGES :: "nat \<rightharpoonup> string \<times> string" where
  "SOROBAN_ADMIN_ERROR_MESSAGES = map_of [
     (1, ''ADMIN_ROLE_NOT_GRANTED'', ''Role not granted''),
     (2, ''ADMIN_ROLE_NOT_HELD'', ''An address does not hold the required role''),
     (3, ''ADMIN_UNAUTHORIZED_ROLE'', ''Caller is not authorized for this role''),
     (4, ''ADMIN_INVALID_ADDRESS'', ''An operation was attempted with the canonical zero address''),
     (5, ''ADMIN_INVALID_ROLE'', ''A role discriminant not recognized by this contract was supplied''),
     (6, ''ADMIN_ALREADY_INITIALIZED'', ''Contract has already been initialized''),
     (7, ''ADMIN_INVALID_THRESHOLD'', ''The approval threshold is zero or exceeds admin-pool size''),
     (8, ''ADMIN_PROPOSAL_NOT_FOUND'', ''The requested governance proposal does not exist''),
     (9, ''ADMIN_PROPOSAL_ALREADY_EXECUTED'', ''The requested governance proposal has already been executed''),
     (10, ''ADMIN_PROPOSAL_ALREADY_APPROVED'', ''Admin has already approved the requested governance proposal''),
     (11, ''ADMIN_THRESHOLD_NOT_MET'', ''Governance proposal has not reached its approval threshold''),
     (12, ''ADMIN_QUORUM_NOT_MET'', ''Proposal has not gathered enough approvals to meet quorum''),
     (13, ''ADMIN_TIMELOCK_ACTIVE'', ''Mandatory timelock delay has not elapsed yet''),
     (14, ''ADMIN_INVALID_WASM_HASH'', ''Supplied WASM hash is not registered as installed on ledger''),
     (15, ''ADMIN_NOT_PROPOSER'', ''cancel_proposal called by address other than submitter''),
     (16, ''ADMIN_PROPOSAL_NOT_CANCELLABLE'', ''cancel_proposal called on terminal proposal status''),
     (17, ''ADMIN_UPGRADE_PROPOSAL_NOT_FOUND'', ''WASM upgrade proposal with ID does not exist''),
     (18, ''ADMIN_PROPOSAL_NOT_PENDING'', ''Proposal is not in pending status accepting votes''),
     (19, ''ADMIN_DUPLICATE_VOTE'', ''Caller already cast a vote on upgrade proposal''),
     (20, ''ADMIN_UNAUTHORIZED'', ''General authorization failure''),
     (21, ''ADMIN_BATCH_LENGTH_MISMATCH'', ''execute_upgrade_batch called with unequal vector lengths''),
     (22, ''ADMIN_ROLE_ALREADY_GRANTED'', ''Target address already holds the role being granted''),
     (23, ''ADMIN_PROPOSAL_EXPIRED'', ''Governance proposal expiry ledger has passed''),
     (24, ''ADMIN_PROPOSAL_CANCELLED'', ''Proposal was withdrawn by creator'')]"

text \<open>A contract error becomes its typed class.\<close>

definition normalizeHookError :: "thrown \<Rightarrow> string option \<Rightarrow> sdk_error" where
  "normalizeHookError err method =
     (case parseContractError (errorMessage (asError err)) method of
        Some parsed \<Rightarrow> ContractErr parsed
      | None \<Rightarrow> asError err)"

text \<open>\<^verbatim>\<open>/Error\(Contract,\s*#(\d+)\)/\<close> at the start of the text, case sensitive and with the number sign.\<close>

definition matchHostCode :: "string \<Rightarrow> string option" where
  "matchHostCode s =
     (if \<not> startsWith s ''Error(Contract,'' then None
      else let d = dropWhile js_ws (drop 15 s) in
           if d = [] \<or> hd d \<noteq> CHR ''#'' then None
           else let ds = takeWhile isDigit (tl d); rest = dropWhile isDigit (tl d)
                in if ds \<noteq> [] \<and> rest \<noteq> [] \<and> hd rest = CHR '')'' then Some ds else None)"

definition friendly :: "string \<times> string \<Rightarrow> string \<Rightarrow> sdk_error" where
  "friendly entry raw = OtherError (''['' @ fst entry @ ''] '' @ snd entry @ '' ('' @ raw @ '')'')"

definition normalizeMetadataError :: "thrown \<Rightarrow> sdk_error" where
  "normalizeMetadataError err =
     (let baseError = asError err in
      case firstMatch matchHostCode (errorMessage baseError) of
        None \<Rightarrow> baseError
      | Some ds \<Rightarrow>
          (case Option.bind (parse_radix 10 ds) SOROBAN_TOKEN_ERROR_MESSAGES of
             None \<Rightarrow> baseError
           | Some entry \<Rightarrow> friendly entry (errorMessage baseError)))"

text \<open>\<^verbatim>\<open>String(err)\<close> of an error with an empty message is its name.\<close>

fun errorName :: "sdk_error \<Rightarrow> string" where
  "errorName (ContractErr e) = err_name e"
| "errorName (SimulationError m d) = ''SimulationError''"
| "errorName (TransactionSubmissionError m h) = ''TransactionSubmissionError''"
| "errorName (TransactionTimeoutError m h) = ''TransactionTimeoutError''"
| "errorName (RPCError m) = ''RPCError''"
| "errorName (SignerRequiredError m) = ''SignerRequiredError''"
| "errorName (OtherError m) = ''Error''"

definition rawMsg :: "thrown \<Rightarrow> string" where
  "rawMsg err =
     (let m = errorMessage (asError err) in
      if m \<noteq> [] then m else case err of ThrownError e \<Rightarrow> errorName e | ThrownValue t \<Rightarrow> t)"

text \<open>\<^verbatim>\<open>/^\[[A-Z0-9_]+\]/\<close>.\<close>

definition alreadyDecoded :: "string \<Rightarrow> bool" where
  "alreadyDecoded s \<longleftrightarrow>
     (case s of
        [] \<Rightarrow> False
      | c # r \<Rightarrow>
          let w = takeWhile (\<lambda>x. isUpper x \<or> isDigit x \<or> x = CHR ''_'') r
          in c = CHR ''['' \<and> w \<noteq> [] \<and> startsWith (drop (length w) r) '']'')"

text \<open>The six patterns of a rejected signature.\<close>

definition rxUser :: rx where
  "rxUser = rxSeq [rxLit ''user'', rxSpace,
     rxAny (map rxLit [''declined'', ''rejected'', ''cancelled'', ''canceled'', ''denied''])]"

definition rxTransaction :: rx where
  "rxTransaction = rxSeq [rxLit ''transaction'', rxSpace, rxOpt (rxSeq [rxLit ''was'', rxSpace]),
     rxAny (map rxLit [''declined'', ''rejected'', ''cancelled'', ''canceled''])]"

definition userRejected :: "string \<Rightarrow> bool" where
  "userRejected msg \<longleftrightarrow>
     rxTest rxUser msg \<or> rxTest rxTransaction msg \<or>
     rxTest (rxSeq [rxLit ''rejected'', rxSpace, rxLit ''by'', rxSpace, rxLit ''user'']) msg \<or>
     rxTest (rxSeq [rxLit ''declined'', rxSpace, rxLit ''by'', rxSpace, rxLit ''user'']) msg \<or>
     rxTest (rxSeq [rxLit ''signature'', rxSpace, rxLit ''rejected'']) msg \<or>
     rxTest (rxSeq [rxLit ''request'', rxSpace, rxLit ''rejected'']) msg"

definition isAdminMethod :: "string option \<Rightarrow> bool" where
  "isAdminMethod method \<longleftrightarrow>
     (case method of
        None \<Rightarrow> False
      | Some me \<Rightarrow>
          js_includes me ''role'' \<or> js_includes me ''proposal'' \<or> js_includes me ''admin'' \<or>
          js_includes me ''upgrade'' \<or> js_includes me ''threshold'')"

definition errorEntry :: "bool \<Rightarrow> nat \<Rightarrow> (string \<times> string) option" where
  "errorEntry admin n =
     (if admin
      then (case SOROBAN_ADMIN_ERROR_MESSAGES n of Some e \<Rightarrow> Some e | None \<Rightarrow> SOROBAN_TOKEN_ERROR_MESSAGES n)
      else (case SOROBAN_TOKEN_ERROR_MESSAGES n of Some e \<Rightarrow> Some e | None \<Rightarrow> SOROBAN_ADMIN_ERROR_MESSAGES n))"

text \<open>The code in the text, by the two patterns of the SDK's parser.\<close>

definition contractMatch :: "string \<Rightarrow> nat option" where
  "contractMatch msg =
     Option.bind (case firstMatch matchErrorContract msg of
                    Some ds \<Rightarrow> Some ds | None \<Rightarrow> firstMatch matchContractError msg) (parse_radix 10)"

definition decodeTransactionError :: "thrown \<Rightarrow> string option \<Rightarrow> sdk_error" where
  "decodeTransactionError err method =
     (let raw = rawMsg err in
      if alreadyDecoded raw then asError err
      else case Option.bind (contractMatch raw) (errorEntry (isAdminMethod method)) of
             Some entry \<Rightarrow> friendly entry raw
           | None \<Rightarrow>
               if userRejected raw then OtherError (''Transaction cancelled by user ('' @ raw @ '')'')
               else asError err)"

definition isTerminalTransactionError :: "thrown \<Rightarrow> bool" where
  "isTerminalTransactionError err \<longleftrightarrow>
     (let msg = errorMessage (asError err) in
      rxTest (rxAny (map rxLit [''[TOKEN_'', ''[ADMIN_'', ''ContractError'', ''Error(Contract''])) msg \<or>
      rxTest (rxAny (map rxLit [''SimulationError'', ''simulation failed''])) msg \<or>
      rxTest (rxAny (map rxLit [''SignerRequiredError'', ''not connected'', ''disconnected'', ''wrong-network''])) msg \<or>
      rxTest (Alt (rxLit ''cancelled by user'') rxUser) msg \<or>
      rxTest (rxAny (map rxLit [''invalid address'', ''zero address''])) msg)"

subsection \<open>Messages for the user\<close>

definition WALLET_ERROR_PATTERNS :: "((string \<Rightarrow> bool) \<times> string) list" where
  "WALLET_ERROR_PATTERNS =
     [(userRejected, ''Transaction cancelled by user''),
      (rxTest (rxAny [rxSeq [rxLit ''not'', rxSpace, rxLit ''connected''], rxLit ''disconnected'',
         rxSeq [rxLit ''no'', rxSpace, rxLit ''wallet'', rxSpace, rxLit ''connected''], rxLit ''unauthenticated'']),
       ''Wallet is not connected. Please connect your wallet first.''),
      (rxTest (rxAny [rxSeq [rxLit ''wrong'', rxSpace, rxLit ''network''],
         rxSeq [rxLit ''different'', rxSpace, rxLit ''stellar'', rxSpace, rxLit ''network''],
         rxSeq [rxLit ''network'', rxSpace, rxLit ''mismatch'']]),
       ''Wallet is connected to a different Stellar network than expected.''),
      (rxTest (rxAny [rxLit ''timeout'', rxSeq [rxLit ''timed'', rxSpace, rxLit ''out''],
         rxSeq [rxLit ''network'', rxSpace, rxLit ''error''], rxLit ''econnrefused'',
         rxSeq [rxLit ''failed'', rxSpace, rxLit ''to'', rxSpace, rxLit ''fetch'']]),
       ''Network request timed out or failed. Please check your connection and try again.''),
      (rxTest (rxAny [rxSeq [rxLit ''hardware'', rxSpace, rxLit ''wallet''],
         rxSeq [rxLit ''ledger'', Rep (Sym (\<lambda>c. c \<noteq> CHR 0x0A \<and> c \<noteq> CHR 0x0D)),
                rxAny [rxSeq [rxLit ''time'', rxOpt (rxLit ''d''), rxSpace, rxLit ''out''], rxLit ''disconnected'']]]),
       ''Hardware wallet confirmation timed out or device was disconnected.'')]"

definition parseWalletError :: "thrown option \<Rightarrow> string" where
  "parseWalletError err =
     (case err of
        None \<Rightarrow> ''An unexpected error occurred.''
      | Some e \<Rightarrow>
          let t = js_trim (errorMessage (asError e)) in
          if t = [] then ''An unexpected error occurred.''
          else case find (\<lambda>(test, _). test t) WALLET_ERROR_PATTERNS of
                 Some (_, m) \<Rightarrow> m
               | None \<Rightarrow> t)"

subsection \<open>The report of role assignments\<close>

record RbacReport =
  filename :: string
  mimeType :: string
  content :: string

datatype RbacReportFormat = Csv | Json

definition csvCell :: "string \<Rightarrow> string" where
  "csvCell value =
     (let safeValue = (if value \<noteq> [] \<and> hd value \<in> set ''=+-@'' then CHR 0x27 # value else value)
      in [CHR 0x22] @ concat (map (\<lambda>c. if c = CHR 0x22 then [CHR 0x22, CHR 0x22] else [c]) safeValue) @ [CHR 0x22])"

fun joinWith :: "string \<Rightarrow> string list \<Rightarrow> string" where
  "joinWith sep [] = []"
| "joinWith sep [x] = x"
| "joinWith sep (x # xs) = x @ sep @ joinWith sep xs"

definition csvRow :: "string list \<Rightarrow> string" where
  "csvRow row = joinWith '','' (map csvCell row)"

definition rbacRows :: "('v \<Rightarrow> string) \<Rightarrow> string \<Rightarrow> (string \<times> bool) list \<Rightarrow> 'v list \<Rightarrow> string list list" where
  "rbacRows stringify address roles auditHistory =
     [''kind'', ''address'', ''role'', ''granted'', ''event''] #
     map (\<lambda>(role, granted). [''role'', address, role, if granted then ''true'' else ''false'', '''']) roles @
     map (\<lambda>event. [''audit'', '''', '''', '''', stringify event]) auditHistory"

text \<open>
  \<open>stringify\<close> and \<open>stringifyDocument\<close> are \<^verbatim>\<open>JSON.stringify\<close> with the replacer of bigints, of one event and of
  the whole report with an indentation of two.
\<close>

definition exportRbacReport ::
    "('v \<Rightarrow> string) \<Rightarrow> (string \<Rightarrow> string \<Rightarrow> (string \<times> bool) list \<Rightarrow> 'v list \<Rightarrow> string) \<Rightarrow>
     string \<Rightarrow> (string \<times> bool) list \<Rightarrow> 'v list \<Rightarrow> RbacReportFormat \<Rightarrow> string \<Rightarrow> RbacReport" where
  "exportRbacReport stringify stringifyDocument address roles auditHistory format exportedAt =
     (let timestamp = map (\<lambda>c. if c = CHR '':'' \<or> c = CHR ''.'' then CHR ''-'' else c) exportedAt in
      case format of
        Json \<Rightarrow> \<lparr>filename = ''rbac-report-'' @ timestamp @ ''.json'', mimeType = ''application/json'',
          content = stringifyDocument exportedAt address roles auditHistory\<rparr>
      | Csv \<Rightarrow> \<lparr>filename = ''rbac-report-'' @ timestamp @ ''.csv'', mimeType = ''text/csv'',
          content = joinWith [CHR 0x0D, CHR 0x0A] (map csvRow (rbacRows stringify address roles auditHistory))\<rparr>)"

subsection \<open>Rendering and reading amounts\<close>

lemma trimZeros_pad: "trimZeros s @ replicate (length s - length (trimZeros s)) (CHR ''0'') = s"
proof -
  have "rev s = takeWhile (\<lambda>c. c = CHR ''0'') (rev s) @ dropWhile (\<lambda>c. c = CHR ''0'') (rev s)" by simp
  moreover have "takeWhile (\<lambda>c. c = CHR ''0'') (rev s) =
      replicate (length (takeWhile (\<lambda>c. c = CHR ''0'') (rev s))) (CHR ''0'')"
    by (metis (full_types) replicate_eqI set_takeWhileD)
  ultimately have "s = trimZeros s @ replicate (length (takeWhile (\<lambda>c. c = CHR ''0'') (rev s))) (CHR ''0'')"
    unfolding trimZeros_def by (metis rev_append rev_replicate rev_rev_ident)
  then show ?thesis by (metis add_diff_cancel_left' length_append length_replicate)
qed

text \<open>Reading a decimal string in units of \<open>10\<^sup>-\<^sup>d\<close>: the missing digits of the fraction are zeros.\<close>

definition readTokenAmount :: "nat \<Rightarrow> string \<Rightarrow> int option" where
  "readTokenAmount d s =
     (let whole = takeWhile (\<lambda>c. c \<noteq> CHR ''.'') s; fraction = drop 1 (dropWhile (\<lambda>c. c \<noteq> CHR ''.'') s)
      in BigInt (whole @ fraction @ replicate (d - length fraction) (CHR ''0'')))"

lemma readTokenAmount_point:
  assumes "CHR ''.'' \<notin> set w"
  shows "readTokenAmount d (w @ ''.'' @ f) = BigInt (w @ f @ replicate (d - length f) (CHR ''0''))"
    and "readTokenAmount d w = BigInt (w @ replicate d (CHR ''0''))"
proof -
  have *: "\<And>c. c \<in> set w \<Longrightarrow> c \<noteq> CHR ''.''" using assms by auto
  show "readTokenAmount d (w @ ''.'' @ f) = BigInt (w @ f @ replicate (d - length f) (CHR ''0''))"
    using * by (simp add: readTokenAmount_def takeWhile_append2 dropWhile_append2 Let_def)
  have t: "takeWhile (\<lambda>c. c \<noteq> CHR ''.'') w = w" and d: "dropWhile (\<lambda>c. c \<noteq> CHR ''.'') w = []"
    using * by (simp_all add: takeWhile_eq_all_conv dropWhile_eq_Nil_conv)
  show "readTokenAmount d w = BigInt (w @ replicate d (CHR ''0''))"
    unfolding readTokenAmount_def t d by simp
qed

text \<open>
  What \<^verbatim>\<open>formatTokenAmount\<close> displays is exact: with a positive number of decimals, trimmed or not, reading the text
  back gives the amount, negative ones included; without decimals it is the integer itself.
\<close>

lemma formatTokenAmount_shape:
  assumes "0 < d"
  shows "\<exists>w f. formatTokenAmount (Some a) (Some d) trim placeholder =
       ((if a < 0 then ''-'' else '''') @ w) @
         (if \<not> trim then ''.'' @ f else if trimZeros f \<noteq> [] then ''.'' @ trimZeros f else []) \<and>
     length f = nat d \<and> w @ f = padStart (show_nat (nat \<bar>a\<bar>)) (nat (d + 1)) (CHR ''0'')"
proof -
  let ?p = "padStart (show_nat (nat \<bar>a\<bar>)) (nat (d + 1)) (CHR ''0'')"
  let ?k = "length ?p - nat d"
  have "formatTokenAmount (Some a) (Some d) trim placeholder =
      ((if a < 0 then ''-'' else '''') @ take ?k ?p) @
         (if \<not> trim then ''.'' @ drop ?k ?p else if trimZeros (drop ?k ?p) \<noteq> [] then ''.'' @ trimZeros (drop ?k ?p) else [])"
    using assms by (simp add: formatTokenAmount_def Let_def show_int_nonneg abs_if del: length_padStart)
  moreover have "length (drop ?k ?p) = nat d" using assms by simp
  ultimately show ?thesis using append_take_drop_id [of ?k ?p] by blast
qed

lemma formatTokenAmount_roundtrip:
  assumes "0 < d"
  shows "readTokenAmount (nat d) (formatTokenAmount (Some a) (Some d) trim placeholder) = Some a"
proof -
  obtain w f where form: "formatTokenAmount (Some a) (Some d) trim placeholder =
       ((if a < 0 then ''-'' else '''') @ w) @
         (if \<not> trim then ''.'' @ f else if trimZeros f \<noteq> [] then ''.'' @ trimZeros f else [])"
    and len: "length f = nat d" and wf: "w @ f = padStart (show_nat (nat \<bar>a\<bar>)) (nat (d + 1)) (CHR ''0'')"
    using formatTokenAmount_shape [OF assms] by blast
  let ?s = "if a < 0 then ''-'' else ''''"
  have dig: "set (w @ f) \<subseteq> set ''0123456789''" unfolding wf by (rule padStart_digits)
  have ne: "w @ f \<noteq> []" using len assms by auto
  have nodot: "CHR ''.'' \<notin> set (?s @ w)" using dig by auto
  have B: "BigInt ((?s @ w) @ f) = Some a"
    using BigInt_digits [OF dig ne, unfolded wf, OF parse_padStart, folded wf] by (cases "a < 0") simp_all
  have pad: "trimZeros f @ replicate (nat d - length (trimZeros f)) (CHR ''0'') = f"
    using trimZeros_pad [of f] len by simp
  note read = readTokenAmount_point [OF nodot, of "nat d"]
  consider "\<not> trim" | "trim" "trimZeros f = []" | "trim" "trimZeros f \<noteq> []" by blast
  then show ?thesis
  proof cases
    case 1
    then show ?thesis unfolding form using read(1) [of f] B len by simp
  next
    case 2
    with pad have "replicate (nat d) (CHR ''0'') = f" by simp
    with 2 show ?thesis unfolding form using read(2) B by simp
  next
    case 3
    with pad show ?thesis unfolding form using read(1) [of "trimZeros f"] B by simp
  qed
qed

lemma formatTokenAmount_integer: "d \<le> 0 \<Longrightarrow> BigInt (formatTokenAmount (Some a) (Some d) trim placeholder) = Some a"
  by (simp add: formatTokenAmount_def)

subsection \<open>Vesting\<close>

lemma vested_between:
  assumes "0 \<le> tot" and "start \<le> cliff" and "start < stop" and "cliff \<le> current" "current < stop"
  shows "calculateVestedAmount tot start cliff stop current = tot * (current - start) div (stop - start)"
  using assms by (simp add: calculateVestedAmount_def Let_def bigint_div_nonneg)

lemma vested_bounds:
  assumes "0 \<le> tot" and "start \<le> cliff"
  shows "0 \<le> calculateVestedAmount tot start cliff stop current \<and> calculateVestedAmount tot start cliff stop current \<le> tot"
proof (cases "current < cliff \<or> current \<ge> stop \<or> stop \<le> start")
  case True
  with assms show ?thesis by (auto simp: calculateVestedAmount_def)
next
  case False
  then have "tot * (current - start) \<le> tot * (stop - start)"
    using assms by (intro mult_left_mono) auto
  then have "tot * (current - start) div (stop - start) \<le> tot"
    using False zdiv_mono1 [of "tot * (current - start)" "tot * (stop - start)" "stop - start"] by simp
  with False assms show ?thesis by (simp add: vested_between div_int_pos_iff)
qed

lemma vested_mono:
  assumes "0 \<le> tot" and "start \<le> cliff" and "c \<le> c'"
  shows "calculateVestedAmount tot start cliff stop c \<le> calculateVestedAmount tot start cliff stop c'"
proof (cases "cliff \<le> c \<and> c' < stop \<and> start < stop")
  case True
  then have "tot * (c - start) \<le> tot * (c' - start)" using assms by (intro mult_left_mono) auto
  with True assms show ?thesis by (simp add: vested_between zdiv_mono1)
next
  case False
  consider "c < cliff" | "cliff \<le> c" "stop \<le> start" | "cliff \<le> c" "stop \<le> c'" using False by linarith
  then show ?thesis
  proof cases
    case 1
    then show ?thesis using vested_bounds [OF assms(1,2), of stop c'] by (simp add: calculateVestedAmount_def)
  next
    case 2
    then show ?thesis using assms by (simp add: calculateVestedAmount_def)
  next
    case 3
    then show ?thesis using vested_bounds [OF assms(1,2), of stop c] assms by (simp add: calculateVestedAmount_def)
  qed
qed

subsection \<open>Decoding errors\<close>

lemma token_messages: "map_option fst (SOROBAN_TOKEN_ERROR_MESSAGES n) = map_option (\<lambda>k. code (newTokenError k raw)) (TOKEN_ERROR_MAP n)"
  by (simp add: SOROBAN_TOKEN_ERROR_MESSAGES_def TOKEN_ERROR_MAP_def contractError_def Let_def)

lemma admin_messages: "map_option fst (SOROBAN_ADMIN_ERROR_MESSAGES n) = map_option (\<lambda>k. code (newAdminError k raw)) (ADMIN_ERROR_MAP n)"
  by (simp add: SOROBAN_ADMIN_ERROR_MESSAGES_def ADMIN_ERROR_MAP_def contractError_def Let_def)

lemma errorEntry_code:
  "map_option fst (errorEntry admin n) = map_option code (errorForCode text admin n)"
  using token_messages [of n "Some text"] admin_messages [of n "Some text"]
  unfolding errorEntry_def errorForCode_def
  by (cases "TOKEN_ERROR_MAP n"; cases "ADMIN_ERROR_MAP n") auto

lemma isAdminMethod_eq: "isAdminMethod = isMethodAdmin"
  by (auto simp: fun_eq_iff isAdminMethod_def isMethodAdmin_def js_includes_def split: option.split)

lemma contractMatch_eq:
  "parseContractError msg method = Option.bind (contractMatch msg) (errorForCode msg (isMethodAdmin method))"
proof (cases msg)
  case Nil
  then show ?thesis by (simp add: parseContractError_def contractMatch_def matchErrorContract_def
      matchContractError_def eatLiteral_def)
next
  case (Cons c s)
  then show ?thesis by (simp add: parseContractError_def contractMatch_def split: option.split)
qed

lemma lang_rxAny: "lang (rxAny rs) = (\<Union>r \<in> set rs. lang r)"
  by (induction rs rule: rxAny.induct) auto

lemma rxTest_literal: "t \<in> set ts \<Longrightarrow> rxTest (rxAny (map rxLit ts)) (u @ t @ v)"
  unfolding rxTest_iff lang_rxAny by (auto simp: lang_rxLit)

lemma token_codes:
  assumes "SOROBAN_TOKEN_ERROR_MESSAGES n = Some e" shows "take 6 (fst e) = ''TOKEN_''"
  using map_of_SomeD [OF assms [unfolded SOROBAN_TOKEN_ERROR_MESSAGES_def]] by auto

lemma admin_codes:
  assumes "SOROBAN_ADMIN_ERROR_MESSAGES n = Some e" shows "take 6 (fst e) = ''ADMIN_''"
  using map_of_SomeD [OF assms [unfolded SOROBAN_ADMIN_ERROR_MESSAGES_def]] by auto

lemma errorEntry_codes: "errorEntry admin n = Some e \<Longrightarrow> take 6 (fst e) = ''TOKEN_'' \<or> take 6 (fst e) = ''ADMIN_''"
  unfolding errorEntry_def by (auto split: if_split_asm option.split_asm dest: token_codes admin_codes)

lemma friendly_terminal:
  assumes "errorEntry admin n = Some e"
  shows "isTerminalTransactionError (ThrownError (friendly e raw))"
proof -
  obtain r where "fst e = ''TOKEN_'' @ r \<or> fst e = ''ADMIN_'' @ r"
    using errorEntry_codes [OF assms] append_take_drop_id [of 6 "fst e"] by metis
  then have "friendly e raw = OtherError ([] @ ''[TOKEN_'' @ r @ ''] '' @ snd e @ '' ('' @ raw @ '')'') \<or>
      friendly e raw = OtherError ([] @ ''[ADMIN_'' @ r @ ''] '' @ snd e @ '' ('' @ raw @ '')'')"
    unfolding friendly_def by auto
  then show ?thesis
    unfolding isTerminalTransactionError_def Let_def asError.simps
    by (elim disjE) (simp only: errorMessage.simps,
        (rule disjI1, rule rxTest_literal, simp))+
qed

lemma cancelled_terminal: "isTerminalTransactionError (ThrownError (OtherError (''Transaction cancelled by user ('' @ raw @ '')'')))"
proof -
  have "''cancelled by user'' \<in> lang (Alt (rxLit ''cancelled by user'') rxUser)"
    by (simp only: lang.simps lang_rxLit Un_iff simp_thms)
  moreover have "''Transaction cancelled by user ('' @ raw @ '')'' = ''Transaction '' @ ''cancelled by user'' @ '' ('' @ raw @ '')''" by simp
  ultimately have "rxTest (Alt (rxLit ''cancelled by user'') rxUser) (''Transaction cancelled by user ('' @ raw @ '')'')"
    unfolding rxTest_iff by blast
  then show ?thesis unfolding isTerminalTransactionError_def Let_def asError.simps errorMessage.simps by blast
qed

text \<open>
  C24. Decoding an error of a transaction agrees with the SDK: unless the text is decoded already, a text in which the SDK
  finds a contract error becomes a message with the code of that error, for admin methods the
  admin error of the number; every other text stays as it is or is recognised as a rejection by the user. An error that decoding
  rewrites is final: the submission is not tried again.
\<close>

theorem decode_agrees_with_sdk:
  "(\<not> alreadyDecoded (rawMsg err) \<longrightarrow>
     (case parseContractError (rawMsg err) method of
        Some ce \<Rightarrow> \<exists>text. decodeTransactionError err method = friendly (code ce, text) (rawMsg err)
      | None \<Rightarrow> decodeTransactionError err method =
          (if userRejected (rawMsg err) then OtherError (''Transaction cancelled by user ('' @ rawMsg err @ '')'') else asError err))) \<and>
   (decodeTransactionError err method \<noteq> asError err \<longrightarrow>
      isTerminalTransactionError (ThrownError (decodeTransactionError err method)))"
proof -
  let ?raw = "rawMsg err"
  let ?entry = "Option.bind (contractMatch ?raw) (errorEntry (isAdminMethod method))"
  have code: "map_option fst ?entry = map_option code (parseContractError ?raw method)"
    unfolding contractMatch_eq isAdminMethod_eq by (cases "contractMatch ?raw") (simp_all add: errorEntry_code [of _ _ ?raw])
  have dec: "decodeTransactionError err method =
      (if alreadyDecoded ?raw then asError err
       else case ?entry of Some e \<Rightarrow> friendly e ?raw
         | None \<Rightarrow> if userRejected ?raw then OtherError (''Transaction cancelled by user ('' @ ?raw @ '')'') else asError err)"
    by (simp add: decodeTransactionError_def Let_def)
  have final: "isTerminalTransactionError (ThrownError (friendly e ?raw))" if "?entry = Some e" for e
    using that friendly_terminal by (cases "contractMatch ?raw") auto
  show ?thesis
  proof (cases ?entry)
    case None
    with code have "parseContractError ?raw method = None" by simp
    with None cancelled_terminal [of ?raw] show ?thesis unfolding dec by auto
  next
    case (Some e)
    with code obtain ce where ce: "parseContractError ?raw method = Some ce" "fst e = code ce" by (cases "parseContractError ?raw method") auto
    have "friendly e ?raw = friendly (code ce, snd e) ?raw" using ce(2) by (simp add: friendly_def)
    with Some ce(1) final [OF Some] show ?thesis unfolding dec by auto
  qed
qed

theorem decode_agrees_with_sdk_witness:
  "\<not> alreadyDecoded (rawMsg (ThrownValue ''HostError: Error(Contract, #4)'')) \<and>
   (\<exists>ce text. parseContractError (rawMsg (ThrownValue ''HostError: Error(Contract, #4)'')) (Some ''mint'') = Some ce \<and>
      decodeTransactionError (ThrownValue ''HostError: Error(Contract, #4)'') (Some ''mint'') =
        friendly (code ce, text) (rawMsg (ThrownValue ''HostError: Error(Contract, #4)'')))"
proof -
  let ?err = "ThrownValue ''HostError: Error(Contract, #4)''"
  have a: "\<not> alreadyDecoded (rawMsg ?err)" by code_simp
  obtain ce where ce: "parseContractError (rawMsg ?err) (Some ''mint'') = Some ce"
  proof -
    have "parseContractError (rawMsg ?err) (Some ''mint'') \<noteq> None" by code_simp
    then show thesis using that by blast
  qed
  from decode_agrees_with_sdk [of ?err "Some ''mint''"] a ce show ?thesis by auto
qed

end
