(* ===== verification/ReactReads.thy ===== *)
theory ReactReads
  imports ReactUtils
begin

text \<open>
  The read hooks of \<^verbatim>\<open>src/react/src/hooks.ts\<close> that number their requests: \<^verbatim>\<open>useHasRole\<close>,
  \<^verbatim>\<open>useTokenAllowance\<close>, \<^verbatim>\<open>useAccountBalance\<close> and \<^verbatim>\<open>useBalance\<close>. A hook is what it makes of its arguments (its
  props: the client, the resolved addresses, \<^verbatim>\<open>enabled\<close>), the conditions under which it does not ask the
  contract, the query it sends and what it does with the answer. A client is a number; its answers come
  from the SDK and are any value or rejection.

  Each of them is an instance of \<open>guarded_hook\<close>: the answer that is shown is one to the last
  request, which is that of the present props, whenever these ask, or one that a refetch function kept from an
  earlier render made; a mounted hook with nothing in flight is not loading, and nothing
  changes after the component is removed. What the locale cannot give, because the code does not: a hook
  whose new props refuse to ask still shows the answer to the old ones when it arrives late
  (\<open>useHasRole_shows_late_answer\<close>). \<^verbatim>\<open>useBalance\<close> alone invalidates its requests then
  (\<open>useBalance_drops_late_answer\<close>).
\<close>

subsection \<open>The common shape\<close>

text \<open>An update of what is shown, which leaves the refs alone and does not start to load.\<close>

definition calm :: "(('p, 'd) hook \<Rightarrow> ('p, 'd) hook) \<Rightarrow> bool" where
  "calm f \<longleftrightarrow> (\<forall>s. sameRefs s (f s) \<and> requestIdRef (f s) = requestIdRef s \<and> (loading (f s) \<longrightarrow> loading s))"

definition showsAnswer :: "(('p, 'd) hook \<Rightarrow> ('p, 'd) hook) \<Rightarrow> bool" where
  "showsAnswer f \<longleftrightarrow> (\<forall>s. sameRefs s (f s) \<and> requestIdRef (f s) = requestIdRef s \<and> \<not> loading (f s))"

text \<open>
  \<^verbatim>\<open>const currentRequestId = ++requestIdRef.current; if (mountedRef.current) { setLoading(true); setError(null);
  setAlertMessage(null); }\<close> and the call of the client.
\<close>

definition issue :: "'q \<Rightarrow> (nat \<Rightarrow> 'a \<Rightarrow> ('q, 'a, ('p, 'd) hook, 'r) prog) \<Rightarrow> ('q, 'a, ('p, 'd) hook, 'r) prog" where
  "issue q k s =
     await q (k (Suc (requestIdRef s)))
       (whenMounted (\<lambda>s. s\<lparr>loading := True, hookError := None, alertMessage := None\<rparr>) (s\<lparr>requestIdRef := Suc (requestIdRef s)\<rparr>))"

text \<open>Showing an answer, when it is the one to the last request, and returning \<open>r\<close>.\<close>

definition settled :: "nat \<Rightarrow> (('p, 'd) hook \<Rightarrow> ('p, 'd) hook) \<Rightarrow> 'r \<Rightarrow> ('q, 'a, ('p, 'd) hook, 'r) prog" where
  "settled n f r s = finish r (whenCurrent n f s)"

text \<open>Returning without a query.\<close>

definition refuse :: "(('p, 'd) hook \<Rightarrow> ('p, 'd) hook) \<Rightarrow> 'r \<Rightarrow> ('q, 'a, ('p, 'd) hook, 'r) prog" where
  "refuse f r s = finish r (whenMounted f s)"

lemma launch_issue:
  "launch (issue q k) s =
     (whenMounted (\<lambda>s. s\<lparr>loading := True, hookError := None, alertMessage := None\<rparr>) (s\<lparr>requestIdRef := Suc (requestIdRef s)\<rparr>),
      [(q, k (Suc (requestIdRef s)))])"
  by (simp add: launch_def issue_def)

lemma launch_settled: "launch (settled n f r) s = (whenCurrent n f s, [])"
  by (simp add: launch_def settled_def)

lemma launch_refuse: "launch (refuse f r) s = (whenMounted f s, [])"
  by (simp add: launch_def refuse_def)

definition isRefusal :: "('q, 'a, ('p, 'd) hook, 'r) prog \<Rightarrow> bool" where
  "isRefusal p \<longleftrightarrow> (\<exists>f r. calm f \<and> p = refuse f r)"

definition isSettling :: "nat \<Rightarrow> ('q, 'a, ('p, 'd) hook, 'r) prog \<Rightarrow> bool" where
  "isSettling n p \<longleftrightarrow> (\<exists>f r. showsAnswer f \<and> p = settled n f r)"

text \<open>An effect that invalidates the requests in flight and clears what is shown.\<close>

definition isReset :: "('q, 'a, ('p, 'd) hook, 'r) prog \<Rightarrow> bool" where
  "isReset p \<longleftrightarrow> (\<exists>f r. calm f \<and> (\<forall>s. \<not> loading (f s)) \<and>
     p = modify (\<lambda>s. f (s\<lparr>requestIdRef := Suc (requestIdRef s)\<rparr>)) (finish r))"

lemma isRefusal_refuse [simp]: "calm f \<Longrightarrow> isRefusal (refuse f r)"
  by (auto simp: isRefusal_def)

lemma isSettling_settled [simp]: "showsAnswer f \<Longrightarrow> isSettling n (settled n f r)"
  by (auto simp: isSettling_def)

lemma isReset_launch:
  assumes "isReset p" and "launch p s = (s', new)"
  shows "new = [] \<and> sameRefs s s' \<and> requestIdRef s' = Suc (requestIdRef s) \<and> \<not> loading s'"
proof -
  obtain f r where f: "calm f" "\<And>s. \<not> loading (f s)" "p = modify (\<lambda>s. f (s\<lparr>requestIdRef := Suc (requestIdRef s)\<rparr>)) (finish r)"
    using assms(1) by (auto simp: isReset_def)
  then have "s' = f (s\<lparr>requestIdRef := Suc (requestIdRef s)\<rparr>)" "new = []" using assms(2) by (simp_all add: launch_def)
  moreover have "sameRefs (s\<lparr>requestIdRef := Suc (requestIdRef s)\<rparr>) (f (s\<lparr>requestIdRef := Suc (requestIdRef s)\<rparr>))"
    "requestIdRef (f (s\<lparr>requestIdRef := Suc (requestIdRef s)\<rparr>)) = Suc (requestIdRef s)"
    using f(1) by (simp_all add: calm_def)
  ultimately show ?thesis using f(2) by (simp add: sameRefs_def)
qed

text \<open>How a hook of this shape becomes an instance of the contract.\<close>

lemma guarded_hookI:
  assumes fetch: "\<And>p. fetchable p \<Longrightarrow> fetch p = issue (query p) (settle p)"
    and refuses: "\<And>p. \<not> fetchable p \<Longrightarrow> isRefusal (fetch p)"
    and effect: "\<And>p. fetchable p \<Longrightarrow> effect p = fetch p"
    and effect_off: "\<And>p. \<not> fetchable p \<Longrightarrow> isRefusal (effect p) \<or> isReset (effect p)"
    and settle: "\<And>p n a. isSettling n (settle p n a)"
  shows "guarded_hook fetch effect fetchable query settle"
proof unfold_locales
  fix p s s' t
  assume "fetchable p" "fetch p s = (s', t)"
  then show "sameRefs s s' \<and> requestIdRef s' = Suc (requestIdRef s) \<and> t = Await (query p) (settle p (Suc (requestIdRef s)))"
    using fetch by (auto simp: issue_def whenMounted_def sameRefs_def split: if_splits)
next
  fix p s s' new
  assume "\<not> fetchable p" and l: "launch (fetch p) s = (s', new)"
  then obtain f r where "calm f" "fetch p = refuse f r" using refuses [of p] by (auto simp: isRefusal_def)
  with l show "new = [] \<and> sameRefs s s' \<and> requestIdRef s' = requestIdRef s \<and> (loading s' \<longrightarrow> loading s)"
    by (auto simp: launch_refuse whenMounted_def calm_def sameRefs_def split: if_splits)
next
  fix p s
  assume "fetchable p"
  then show "effect p s = fetch p s" using effect by simp
next
  fix p s s' new
  assume "\<not> fetchable p" "mountedRef s" and l: "launch (effect p) s = (s', new)"
  from effect_off [OF \<open>\<not> fetchable p\<close>]
  show "new = [] \<and> sameRefs s s' \<and> requestIdRef s \<le> requestIdRef s' \<and>
        (requestIdRef s' = requestIdRef s \<or> \<not> loading s') \<and> (loading s' \<longrightarrow> loading s)"
  proof
    assume "isRefusal (effect p)"
    then obtain f r where "calm f" "effect p = refuse f r" by (auto simp: isRefusal_def)
    with l show ?thesis by (auto simp: launch_refuse whenMounted_def calm_def sameRefs_def split: if_splits)
  next
    assume "isReset (effect p)"
    from isReset_launch [OF this l] show ?thesis by simp
  qed
next
  fix p s s' new
  assume m: "\<not> mountedRef s" and l: "launch (fetch p) s = (s', new)"
  show "s' = s\<lparr>requestIdRef := requestIdRef s'\<rparr>"
  proof (cases "fetchable p")
    case True
    with l m fetch show ?thesis by (auto simp: launch_issue whenMounted_def)
  next
    case False
    with refuses [of p] obtain f r where "fetch p = refuse f r" by (auto simp: isRefusal_def)
    with l m show ?thesis by (auto simp: launch_refuse whenMounted_def)
  qed
next
  fix p n a s s' new
  assume l: "launch (settle p n a) s = (s', new)"
  obtain f r where f: "showsAnswer f" "settle p n a = settled n f r" using settle [of n p a] by (auto simp: isSettling_def)
  show "new = [] \<and> sameRefs s s' \<and> requestIdRef s' = requestIdRef s \<and> \<not> loading s'" if "mountedRef s \<and> n = requestIdRef s"
    using that l f by (auto simp: launch_settled whenCurrent_def showsAnswer_def)
  show "new = [] \<and> s' = s" if "\<not> (mountedRef s \<and> n = requestIdRef s)"
    using that l f by (auto simp: launch_settled whenCurrent_def)
qed

subsection \<open>Whether an address holds a role\<close>

definition VALID_ROLES :: "string list" where
  "VALID_ROLES = [''Admin'', ''SuperAdmin'', ''Minter'', ''Pauser'']"

text \<open>An argument that is a string, an options object, or missing.\<close>

datatype 'o hook_arg = ArgString string | ArgOptions 'o | ArgMissing

record HookOptions =
  optInterval :: "int option"
  optIntervalMs :: "int option"
  optEnabled :: "bool option"
  optClient :: "nat option option"

fun argString :: "'o hook_arg \<Rightarrow> string option" where
  "argString (ArgString t) = Some t"
| "argString _ = None"

text \<open>Both orders of role and address.\<close>

definition resolveRoleArgs :: "string option \<Rightarrow> HookOptions hook_arg \<Rightarrow> string option \<times> string option" where
  "resolveRoleArgs roleOrAddress addressOrRole =
     (case (roleOrAddress, addressOrRole) of
        (Some t, a) \<Rightarrow>
          if t \<in> set VALID_ROLES then (Some t, argString a)
          else (case a of
                  ArgString u \<Rightarrow> if u \<in> set VALID_ROLES then (Some u, Some t) else (Some t, Some u)
                | _ \<Rightarrow> (Some t, None))
      | (None, ArgString u) \<Rightarrow> if u \<in> set VALID_ROLES then (Some u, None) else (None, Some u)
      | (None, _) \<Rightarrow> (None, None))"

record role_props =
  roleEnabled :: bool
  roleClient :: "nat option"
  resolvedRole :: "string option"
  targetAddress :: string

text \<open>\<^verbatim>\<open>options.client !== undefined ? options.client : contextClient\<close>.\<close>

definition chooseClient :: "HookOptions \<Rightarrow> nat option \<Rightarrow> nat option" where
  "chooseClient o' c = (case optClient o' of Some x \<Rightarrow> x | None \<Rightarrow> c)"

definition isEnabled :: "HookOptions \<Rightarrow> bool" where
  "isEnabled o' = (optEnabled o' \<noteq> Some False)"

definition intervalMs :: "HookOptions \<Rightarrow> int \<Rightarrow> int" where
  "intervalMs o' d = (case optIntervalMs o' of Some i \<Rightarrow> i | None \<Rightarrow> case optInterval o' of Some i \<Rightarrow> i | None \<Rightarrow> d)"

text \<open>\<^verbatim>\<open>(address ?? wallet.publicKey ?? "").trim()\<close>.\<close>

definition resolveAddress :: "string option \<Rightarrow> string option \<Rightarrow> string" where
  "resolveAddress a k = js_trim (case a of Some t \<Rightarrow> t | None \<Rightarrow> case k of Some t \<Rightarrow> t | None \<Rightarrow> [])"

definition useHasRole_props ::
    "string option \<Rightarrow> HookOptions hook_arg \<Rightarrow> HookOptions \<Rightarrow> nat option \<Rightarrow> string option \<Rightarrow> role_props" where
  "useHasRole_props roleOrAddress addressOrRole options contextClient walletKey =
     (let opts = (case addressOrRole of ArgOptions o' \<Rightarrow> o' | _ \<Rightarrow> options);
          (role, address) = resolveRoleArgs roleOrAddress addressOrRole
      in \<lparr>roleEnabled = isEnabled opts, roleClient = chooseClient opts contextClient, resolvedRole = role,
          targetAddress = resolveAddress address walletKey\<rparr>)"

datatype read_query =
    HasRoleQ nat string string
  | AllowanceQ nat string string
  | AccountBalanceQ nat string "int option"
  | BalanceQ nat string bool bool int

type_synonym 'v answer = "thrown + 'v"

definition withError :: "string \<Rightarrow> string \<Rightarrow> ('p, 'd) hook \<Rightarrow> ('p, 'd) hook" where
  "withError err alert s = s\<lparr>hookError := Some (OtherError err), alertMessage := Some alert, loading := False\<rparr>"

definition withAlert :: "string \<Rightarrow> ('p, 'd) hook \<Rightarrow> ('p, 'd) hook" where
  "withAlert alert s = s\<lparr>hookError := None, alertMessage := Some alert, loading := False\<rparr>"

definition invalidAddress :: "string \<Rightarrow> string" where
  "invalidAddress a = ''Invalid Stellar address format: \"'' @ a @ ''\".''"

definition validRole :: "string option \<Rightarrow> bool" where
  "validRole r = (case r of Some t \<Rightarrow> t \<noteq> [] \<and> t \<in> set VALID_ROLES | None \<Rightarrow> False)"

definition hasRole_fetchable :: "role_props \<Rightarrow> bool" where
  "hasRole_fetchable p \<longleftrightarrow> roleEnabled p \<and> roleClient p \<noteq> None \<and> validRole (resolvedRole p) \<and>
     targetAddress p \<noteq> [] \<and> isValidStellarAddress (targetAddress p)"

definition hasRole_settle :: "role_props \<Rightarrow> nat \<Rightarrow> bool answer \<Rightarrow> (read_query, bool answer, (role_props, bool option) hook, bool) prog" where
  "hasRole_settle p n a = (case a of
     Inr granted \<Rightarrow> settled n (\<lambda>s. s\<lparr>hdata := Some granted, hookError := None, alertMessage := None, loading := False\<rparr>) granted
   | Inl err \<Rightarrow>
       (let normalized = normalizeHookError err (Some ''has_role'')
        in settled n (\<lambda>s. s\<lparr>hdata := Some False, hookError := Some normalized, loading := False,
             alertMessage := Some (''Failed to verify role \"'' @ (case resolvedRole p of Some r \<Rightarrow> r | None \<Rightarrow> []) @ ''\": '' @
               errorMessage normalized)\<rparr>) False))"

definition hasRole_query :: "role_props \<Rightarrow> read_query" where
  "hasRole_query p = HasRoleQ (case roleClient p of Some c \<Rightarrow> c | None \<Rightarrow> 0)
     (case resolvedRole p of Some r \<Rightarrow> r | None \<Rightarrow> []) (targetAddress p)"

definition checkRole :: "role_props \<Rightarrow> (read_query, bool answer, (role_props, bool option) hook, bool) prog" where
  "checkRole p =
     (if \<not> roleEnabled p then refuse id False
      else if roleClient p = None
      then refuse (\<lambda>s. withError ''BcForgeProvider client is not configured.''
             ''Unable to verify role: SDK client is not configured.'' (s\<lparr>hdata := None\<rparr>)) False
      else if \<not> validRole (resolvedRole p)
      then (let msg = ''Invalid role specified: \"'' @ (case resolvedRole p of Some r \<Rightarrow> r | None \<Rightarrow> []) @ ''\".''
            in refuse (\<lambda>s. withError msg msg (s\<lparr>hdata := None\<rparr>)) False)
      else if targetAddress p = []
      then refuse (\<lambda>s. withAlert ''Connect a wallet or provide an address to verify role permissions.'' (s\<lparr>hdata := None\<rparr>)) False
      else if \<not> isValidStellarAddress (targetAddress p)
      then refuse (\<lambda>s. withError (invalidAddress (targetAddress p)) (invalidAddress (targetAddress p)) (s\<lparr>hdata := None\<rparr>)) False
      else issue (hasRole_query p) (hasRole_settle p))"

definition useHasRole_effect :: "role_props \<Rightarrow> (read_query, bool answer, (role_props, bool option) hook, bool) prog" where
  "useHasRole_effect p = (if \<not> roleEnabled p then refuse (\<lambda>s. s\<lparr>loading := False\<rparr>) False else checkRole p)"

text \<open>Whether the timer runs.\<close>

definition useHasRole_polls :: "HookOptions \<Rightarrow> role_props \<Rightarrow> bool" where
  "useHasRole_polls opts p \<longleftrightarrow> hasRole_fetchable p \<and> 0 < intervalMs opts 0"

definition useHasRole_hasRole :: "(role_props, bool option) hook \<Rightarrow> bool" where
  "useHasRole_hasRole s = (hdata s = Some True)"

lemma calm_simps [simp]:
  "calm id" "calm (\<lambda>s. withError e a (s\<lparr>hdata := d\<rparr>))" "calm (withError e a)" "calm (\<lambda>s. s\<lparr>loading := False\<rparr>)"
  "calm (\<lambda>s. withAlert a' (s\<lparr>hdata := d\<rparr>))"
  by (simp_all add: calm_def withError_def withAlert_def sameRefs_def)


subsection \<open>The allowance of a spender\<close>

record allowance_props =
  alEnabled :: bool
  alClient :: "nat option"
  alOwner :: string
  alSpender :: string
  alWalletStatus :: string

definition useTokenAllowance_props ::
    "string option \<Rightarrow> string option \<Rightarrow> HookOptions \<Rightarrow> nat option \<Rightarrow> string option \<Rightarrow> string \<Rightarrow> allowance_props" where
  "useTokenAllowance_props owner spender options contextClient walletKey walletStatus =
     \<lparr>alEnabled = isEnabled options, alClient = chooseClient options contextClient,
      alOwner = resolveAddress owner walletKey, alSpender = resolveAddress spender None, alWalletStatus = walletStatus\<rparr>"

definition allowance_fetchable :: "allowance_props \<Rightarrow> bool" where
  "allowance_fetchable p \<longleftrightarrow> alEnabled p \<and> alClient p \<noteq> None \<and> alOwner p \<noteq> [] \<and> alSpender p \<noteq> [] \<and>
     isValidStellarAddress (alOwner p) \<and> isValidStellarAddress (alSpender p)"

definition invalidParty :: "string \<Rightarrow> string \<Rightarrow> string" where
  "invalidParty who a = ''Invalid '' @ who @ '' Stellar address format: \"'' @ a @ ''\".''"

definition allowance_query :: "allowance_props \<Rightarrow> read_query" where
  "allowance_query p = AllowanceQ (case alClient p of Some c \<Rightarrow> c | None \<Rightarrow> 0) (alOwner p) (alSpender p)"

type_synonym allowance_prog = "(read_query, int answer, (allowance_props, int option) hook, int option) prog"

definition allowance_settle :: "allowance_props \<Rightarrow> nat \<Rightarrow> int answer \<Rightarrow> allowance_prog" where
  "allowance_settle p n a = (case a of
     Inr v \<Rightarrow> settled n (\<lambda>s. s\<lparr>hdata := Some v, hookError := None, alertMessage := None, loading := False\<rparr>) (Some v)
   | Inl err \<Rightarrow>
       (let normalized = normalizeHookError err (Some ''allowance'')
        in settled n (\<lambda>s. s\<lparr>hookError := Some normalized, loading := False,
             alertMessage := Some (''Failed to load token allowance: '' @ errorMessage normalized)\<rparr>) None))"

definition fetchAllowance :: "allowance_props \<Rightarrow> allowance_prog" where
  "fetchAllowance p =
     (if \<not> alEnabled p then refuse id None
      else if alClient p = None
      then refuse (withError ''BcForgeProvider client is not configured.''
             ''Unable to fetch token allowance: SDK client is not configured.'') None
      else if alOwner p = [] \<or> alSpender p = []
      then refuse (\<lambda>s. withAlert (if alOwner p = [] then ''Connect a wallet or provide an owner address to check allowance.''
             else ''Provide a spender address to check allowance.'') (s\<lparr>hdata := None\<rparr>)) None
      else if \<not> isValidStellarAddress (alOwner p)
      then refuse (\<lambda>s. withError (invalidParty ''owner'' (alOwner p)) (invalidParty ''owner'' (alOwner p)) (s\<lparr>hdata := None\<rparr>)) None
      else if \<not> isValidStellarAddress (alSpender p)
      then refuse (\<lambda>s. withError (invalidParty ''spender'' (alSpender p)) (invalidParty ''spender'' (alSpender p)) (s\<lparr>hdata := None\<rparr>)) None
      else issue (allowance_query p) (allowance_settle p))"

definition useTokenAllowance_effect :: "allowance_props \<Rightarrow> allowance_prog" where
  "useTokenAllowance_effect p = (if \<not> alEnabled p then refuse id None else fetchAllowance p)"

definition useTokenAllowance_polls :: "HookOptions \<Rightarrow> allowance_props \<Rightarrow> bool" where
  "useTokenAllowance_polls opts p \<longleftrightarrow> allowance_fetchable p \<and> 0 < intervalMs opts 0"

text \<open>Whether an \<^verbatim>\<open>approve-confirmed\<close> event, with the parties it names, makes the hook fetch again.\<close>

definition handleApproveConfirmed :: "allowance_props \<Rightarrow> (string option \<times> string option) option \<Rightarrow> bool" where
  "handleApproveConfirmed p detail \<longleftrightarrow> allowance_fetchable p \<and>
     (case detail of
        None \<Rightarrow> True
      | Some (owner, spender) \<Rightarrow> (truthy owner \<longrightarrow> owner = Some (alOwner p)) \<and> (truthy spender \<longrightarrow> spender = Some (alSpender p)))"

interpretation allowance: guarded_hook fetchAllowance useTokenAllowance_effect allowance_fetchable allowance_query allowance_settle
proof (rule guarded_hookI)
  show "isRefusal (fetchAllowance p)" if "\<not> allowance_fetchable p" for p
    using that by (auto simp: fetchAllowance_def allowance_fetchable_def)
  then show "isRefusal (useTokenAllowance_effect p) \<or> isReset (useTokenAllowance_effect p)" if "\<not> allowance_fetchable p" for p
    using that by (simp add: useTokenAllowance_effect_def)
  show "isSettling n (allowance_settle p n a)" for n p a
    by (simp add: allowance_settle_def showsAnswer_def sameRefs_def Let_def split: sum.splits)
qed (auto simp: allowance_fetchable_def fetchAllowance_def useTokenAllowance_effect_def)

subsection \<open>The balance of an account\<close>

definition DEFAULT_POLLING_INTERVAL_MS :: int where
  "DEFAULT_POLLING_INTERVAL_MS = 10000"

definition DEFAULT_TOKEN_DECIMALS :: int where
  "DEFAULT_TOKEN_DECIMALS = 7"

record account_props =
  acEnabled :: bool
  acClient :: "nat option"
  acAddress :: string
  acDecimals :: "int option"

definition useAccountBalance_props ::
    "string option \<Rightarrow> HookOptions \<Rightarrow> int option \<Rightarrow> nat option \<Rightarrow> string option \<Rightarrow> account_props" where
  "useAccountBalance_props address options decimals contextClient walletKey =
     \<lparr>acEnabled = isEnabled options, acClient = chooseClient options contextClient,
      acAddress = resolveAddress address walletKey, acDecimals = decimals\<rparr>"

definition account_fetchable :: "account_props \<Rightarrow> bool" where
  "account_fetchable p \<longleftrightarrow> acEnabled p \<and> acClient p \<noteq> None \<and> acAddress p \<noteq> [] \<and> isValidStellarAddress (acAddress p)"

definition account_query :: "account_props \<Rightarrow> read_query" where
  "account_query p = AccountBalanceQ (case acClient p of Some c \<Rightarrow> c | None \<Rightarrow> 0) (acAddress p) (acDecimals p)"

text \<open>
  The answer to \<^verbatim>\<open>getBalance\<close> and that to \<^verbatim>\<open>getDecimals\<close>, which is asked unless the decimals are given and
  falls back to seven; \<open>None\<close> when the client has no such method.
\<close>

type_synonym account_answer = "(int \<times> int answer option) answer"

type_synonym account_prog = "(read_query, account_answer, (account_props, int option \<times> int) hook, int option) prog"

definition nextDecimals :: "account_props \<Rightarrow> int answer option \<Rightarrow> int" where
  "nextDecimals p d = (case acDecimals p of Some n \<Rightarrow> n | None \<Rightarrow>
     case d of Some (Inr n) \<Rightarrow> n | _ \<Rightarrow> DEFAULT_TOKEN_DECIMALS)"

definition account_settle :: "account_props \<Rightarrow> nat \<Rightarrow> account_answer \<Rightarrow> account_prog" where
  "account_settle p n a = (case a of
     Inr (v, d) \<Rightarrow> settled n (\<lambda>s. s\<lparr>hdata := (Some v, nextDecimals p d), hookError := None, alertMessage := None, loading := False\<rparr>) (Some v)
   | Inl err \<Rightarrow>
       (let normalized = normalizeHookError err (Some ''balance'')
        in settled n (\<lambda>s. s\<lparr>hookError := Some normalized, loading := False,
             alertMessage := Some (''Failed to load account balance: '' @ errorMessage normalized)\<rparr>) None))"

definition forgetBalance :: "(account_props, int option \<times> int) hook \<Rightarrow> (account_props, int option \<times> int) hook" where
  "forgetBalance s = s\<lparr>hdata := (None, snd (hdata s))\<rparr>"

definition fetchAccountBalance :: "account_props \<Rightarrow> account_prog" where
  "fetchAccountBalance p =
     (if \<not> acEnabled p then refuse id None
      else if acClient p = None
      then refuse (withError ''BcForgeProvider client is not configured.''
             ''Unable to fetch balance: SDK client is not configured.'') None
      else if acAddress p = []
      then refuse (\<lambda>s. withAlert ''Connect a wallet or provide an address to view balance.'' (forgetBalance s)) None
      else if \<not> isValidStellarAddress (acAddress p)
      then refuse (\<lambda>s. withError (invalidAddress (acAddress p)) (invalidAddress (acAddress p)) (forgetBalance s)) None
      else issue (account_query p) (account_settle p))"

definition useAccountBalance_effect :: "account_props \<Rightarrow> account_prog" where
  "useAccountBalance_effect p = (if \<not> acEnabled p then refuse id None else fetchAccountBalance p)"

definition useAccountBalance_polls :: "HookOptions \<Rightarrow> account_props \<Rightarrow> bool" where
  "useAccountBalance_polls opts p \<longleftrightarrow> account_fetchable p \<and> 0 < intervalMs opts DEFAULT_POLLING_INTERVAL_MS"

text \<open>What is returned besides the state: the balance as a number and as a decimal string.\<close>

definition accountBalance_view :: "account_props \<Rightarrow> bool \<Rightarrow> (account_props, int option \<times> int) hook \<Rightarrow> int \<times> string \<times> int" where
  "accountBalance_view p trimFormatted s =
     (let raw = fst (hdata s); decimals = (case acDecimals p of Some n \<Rightarrow> n | None \<Rightarrow> snd (hdata s))
      in (case raw of Some v \<Rightarrow> v | None \<Rightarrow> 0,
          case raw of None \<Rightarrow> ''0'' | Some v \<Rightarrow> formatTokenAmount (Some v) (Some decimals) trimFormatted ''0'',
          decimals))"

lemma calm_forget [simp]:
  "calm (\<lambda>s. withError e a (forgetBalance s))" "calm (\<lambda>s. withAlert a' (forgetBalance s))"
  by (simp_all add: calm_def withError_def withAlert_def forgetBalance_def sameRefs_def)

interpretation account: guarded_hook fetchAccountBalance useAccountBalance_effect account_fetchable account_query account_settle
proof (rule guarded_hookI)
  show "isRefusal (fetchAccountBalance p)" if "\<not> account_fetchable p" for p
    using that by (auto simp: fetchAccountBalance_def account_fetchable_def)
  then show "isRefusal (useAccountBalance_effect p) \<or> isReset (useAccountBalance_effect p)" if "\<not> account_fetchable p" for p
    using that by (simp add: useAccountBalance_effect_def)
  show "isSettling n (account_settle p n a)" for n p a
    by (simp add: account_settle_def showsAnswer_def sameRefs_def Let_def split: sum.splits prod.splits)
qed (auto simp: account_fetchable_def fetchAccountBalance_def useAccountBalance_effect_def)

subsection \<open>Token and native balances\<close>

definition DEFAULT_BALANCE_TIMEOUT_MS :: int where
  "DEFAULT_BALANCE_TIMEOUT_MS = 10000"

definition DEFAULT_BALANCE_POLL_INTERVAL_MS :: int where
  "DEFAULT_BALANCE_POLL_INTERVAL_MS = 15000"

text \<open>
  A promise that settles at a time, or never. The guard races it against a timer, unless the limit is not
  positive.
\<close>

definition withRpcTimeout :: "(int \<times> 'v answer) option \<Rightarrow> int \<Rightarrow> string \<Rightarrow> (int \<times> 'v answer) option" where
  "withRpcTimeout promise timeoutMs timeoutMessage =
     (if timeoutMs \<le> 0 then promise
      else case promise of
             Some (t, r) \<Rightarrow> if t \<le> timeoutMs then Some (t, r) else Some (timeoutMs, Inl (ThrownError (OtherError timeoutMessage)))
           | None \<Rightarrow> Some (timeoutMs, Inl (ThrownError (OtherError timeoutMessage))))"

text \<open>\<^verbatim>\<open>promise.catch((err) => { if (custom) throw err; return null; })\<close>.\<close>

definition orNull :: "bool \<Rightarrow> 'v option answer \<Rightarrow> 'v option answer" where
  "orNull custom r = (case r of Inl e \<Rightarrow> if custom then Inl e else Inr None | Inr v \<Rightarrow> Inr v)"

text \<open>What a client offers for the native balance, with what it answers.\<close>

record native_source =
  customFetcher :: "int answer option"
  getNativeBalance :: "string answer option"
  getXlmBalance :: "string answer option"
  getAccount :: "(string option \<times> (string \<times> string option) list option) option answer option"

definition bigintAnswer :: "string answer \<Rightarrow> int option answer" where
  "bigintAnswer r = (case r of
     Inl e \<Rightarrow> Inl e
   | Inr t \<Rightarrow> (case BigInt t of Some v \<Rightarrow> Inr (Some v) | None \<Rightarrow> Inl (ThrownError (OtherError (''Cannot convert '' @ t @ '' to a BigInt'')))))"

text \<open>\<^verbatim>\<open>text.replace(".", "")\<close> takes out the first point.\<close>

fun dropFirstPoint :: "string \<Rightarrow> string" where
  "dropFirstPoint [] = []"
| "dropFirstPoint (c # s) = (if c = CHR ''.'' then s else c # dropFirstPoint s)"

text \<open>The account object of a custom server: \<^verbatim>\<open>balance\<close>, else the native entry of \<^verbatim>\<open>balances\<close>; any failure counts as zero.\<close>

definition accountNative :: "(string option \<times> (string \<times> string option) list option) option answer \<Rightarrow> int" where
  "accountNative r = (case r of
     Inr (Some (Some b, _)) \<Rightarrow> (case BigInt b of Some v \<Rightarrow> v | None \<Rightarrow> 0)
   | Inr (Some (None, Some bs)) \<Rightarrow>
       (case List.find (\<lambda>e. fst e = ''native'') bs of
          Some (_, Some b) \<Rightarrow> (case BigInt (dropFirstPoint b) of Some v \<Rightarrow> v | None \<Rightarrow> 0)
        | _ \<Rightarrow> 0)
   | _ \<Rightarrow> 0)"

definition queryNativeXlmBalance :: "native_source \<Rightarrow> int option answer" where
  "queryNativeXlmBalance src =
     (case customFetcher src of
        Some r \<Rightarrow> map_sum id Some r
      | None \<Rightarrow>
          (case getNativeBalance src of
             Some r \<Rightarrow> bigintAnswer r
           | None \<Rightarrow>
               (case getXlmBalance src of
                  Some r \<Rightarrow> bigintAnswer r
                | None \<Rightarrow>
                    (case getAccount src of
                       Some r \<Rightarrow> Inr (Some (accountNative r))
                     | None \<Rightarrow> Inr (Some 0)))))"

definition queryRoleHierarchy :: "'r option answer option \<Rightarrow> 'r answer option \<Rightarrow> 'r option answer" where
  "queryRoleHierarchy custom own =
     (case custom of
        Some r \<Rightarrow> r
      | None \<Rightarrow> (case own of Some (Inr v) \<Rightarrow> Inr (Some v) | _ \<Rightarrow> Inr None))"

record 'r balances =
  tokenBalance :: "int option"
  nativeBalance :: "int option"
  balanceRoles :: "'r option"
  lastUpdatedAt :: "int option"

definition noBalances :: "'r balances" where
  "noBalances = \<lparr>tokenBalance = None, nativeBalance = None, balanceRoles = None, lastUpdatedAt = None\<rparr>"

record balance_props =
  baEnabled :: bool
  baClient :: "nat option"
  baAddress :: "string option"
  baTimeout :: int
  baNative :: bool
  baRoles :: bool

text \<open>The address: an explicit one, trimmed and not empty, or the key of a connected wallet.\<close>

definition balanceAddress :: "string option \<Rightarrow> bool \<Rightarrow> string option \<Rightarrow> string option" where
  "balanceAddress address walletConnected walletKey =
     (case address of
        Some a \<Rightarrow> if js_trim a = [] then None else Some (js_trim a)
      | None \<Rightarrow> if walletConnected \<and> truthy walletKey then Some (js_trim (the walletKey)) else None)"

text \<open>\<^verbatim>\<open>/^[GC][A-Z0-9_]+$/i\<close>.\<close>

definition balanceAddressShape :: "string \<Rightarrow> bool" where
  "balanceAddressShape a = (case a of
     [] \<Rightarrow> False
   | c # r \<Rightarrow> lower c \<in> {CHR ''g'', CHR ''c''} \<and> r \<noteq> [] \<and>
       list_all (\<lambda>x. lower x \<in> set ''abcdefghijklmnopqrstuvwxyz0123456789_'') r)"

definition balance_askable :: "balance_props \<Rightarrow> bool" where
  "balance_askable p \<longleftrightarrow> baEnabled p \<and> baClient p \<noteq> None \<and> truthy (baAddress p)"

definition balance_malformed :: "string \<Rightarrow> bool" where
  "balance_malformed a \<longleftrightarrow> length a = 56 \<and> \<not> isValidStellarAddress a \<or> \<not> balanceAddressShape a"

definition balance_fetchable :: "balance_props \<Rightarrow> bool" where
  "balance_fetchable p \<longleftrightarrow> balance_askable p \<and> \<not> balance_malformed (the (baAddress p))"

definition balance_query :: "balance_props \<Rightarrow> read_query" where
  "balance_query p = BalanceQ (case baClient p of Some c \<Rightarrow> c | None \<Rightarrow> 0) (case baAddress p of Some a \<Rightarrow> a | None \<Rightarrow> [])
     (baNative p) (baRoles p) (baTimeout p)"

text \<open>
  The answer of \<^verbatim>\<open>Promise.all\<close>: the token balance (as a bigint or as text to convert), the native balance and
  the roles, with the time; or the first rejection.
\<close>

type_synonym 'r balance_answer = "((int + string) \<times> int option \<times> 'r option \<times> int) answer"

type_synonym 'r balance_prog = "(read_query, 'r balance_answer, (balance_props, 'r balances) hook, 'r balances option) prog"

definition tokenBalanceOf :: "int + string \<Rightarrow> int answer" where
  "tokenBalanceOf b = (case b of
     Inl v \<Rightarrow> Inr v
   | Inr t \<Rightarrow> (case BigInt t of Some v \<Rightarrow> Inr v | None \<Rightarrow> Inl (ThrownError (OtherError (''Cannot convert '' @ t @ '' to a BigInt'')))))"

definition balance_failed :: "nat \<Rightarrow> thrown \<Rightarrow> 'r balance_prog" where
  "balance_failed n err = settled n (\<lambda>s. s\<lparr>hookError := Some (normalizeMetadataError err), loading := False\<rparr>) None"

definition balance_settle :: "balance_props \<Rightarrow> nat \<Rightarrow> 'r balance_answer \<Rightarrow> 'r balance_prog" where
  "balance_settle p n a = (case a of
     Inl err \<Rightarrow> balance_failed n err
   | Inr (raw, nat_bal, rls, updatedAt) \<Rightarrow>
       (case tokenBalanceOf raw of
          Inl err \<Rightarrow> balance_failed n err
        | Inr token \<Rightarrow>
            (let snapshot = \<lparr>tokenBalance = Some token, nativeBalance = nat_bal, balanceRoles = rls, lastUpdatedAt = Some updatedAt\<rparr>
             in settled n (\<lambda>s. s\<lparr>hdata := snapshot, hookError := None, loading := False\<rparr>) (Some snapshot))))"

definition fetchBalance :: "balance_props \<Rightarrow> 'r balance_prog" where
  "fetchBalance p =
     (if \<not> balance_askable p then refuse id None
      else if balance_malformed (the (baAddress p))
      then refuse (\<lambda>s. s\<lparr>hookError := Some (OtherError (invalidAddress (the (baAddress p)))), loading := False\<rparr>) None
      else issue (balance_query p) (balance_settle p))"

definition useBalance_effect :: "balance_props \<Rightarrow> 'r balance_prog" where
  "useBalance_effect p =
     (if \<not> balance_askable p
      then modify (\<lambda>s. (\<lambda>s. s\<lparr>hdata := noBalances, loading := False, hookError := None\<rparr>) (s\<lparr>requestIdRef := Suc (requestIdRef s)\<rparr>)) (finish None)
      else fetchBalance p)"

text \<open>The error that is shown: the hook's, else that of a wallet in trouble when no address is given.\<close>

definition effectiveError :: "bool \<Rightarrow> sdk_error option \<Rightarrow> ('p, 'd) hook \<Rightarrow> sdk_error option" where
  "effectiveError explicit walletError s =
     (case hookError s of Some e \<Rightarrow> Some e | None \<Rightarrow> if explicit then None else walletError)"

definition balanceAlert :: "bool \<Rightarrow> sdk_error option \<Rightarrow> ('p, 'd) hook \<Rightarrow> string option" where
  "balanceAlert explicit walletError s =
     map_option (\<lambda>e. parseWalletError (Some (ThrownError e))) (effectiveError explicit walletError s)"

definition useWalletBalancePolling_defaults :: "int option \<Rightarrow> bool option \<Rightarrow> bool option \<Rightarrow> int \<times> bool \<times> bool" where
  "useWalletBalancePolling_defaults poll native roles =
     (case poll of Some t \<Rightarrow> t | None \<Rightarrow> DEFAULT_BALANCE_POLL_INTERVAL_MS, native \<noteq> Some False, roles \<noteq> Some False)"

lemma isReset_balance: "\<not> balance_askable p \<Longrightarrow> isReset (useBalance_effect p :: 'r balance_prog)"
  unfolding isReset_def useBalance_effect_def
  by (intro exI [of _ "\<lambda>s. s\<lparr>hdata := noBalances, loading := False, hookError := None\<rparr>"] exI [of _ None])
    (simp add: calm_def sameRefs_def)

interpretation balance: guarded_hook "fetchBalance :: balance_props \<Rightarrow> 'r balance_prog" useBalance_effect balance_fetchable balance_query balance_settle
proof (rule guarded_hookI)
  show r: "isRefusal (fetchBalance p :: 'r balance_prog)" if "\<not> balance_fetchable p" for p
    using that by (auto simp: fetchBalance_def balance_fetchable_def calm_def sameRefs_def)
  show "isRefusal (useBalance_effect p :: 'r balance_prog) \<or> isReset (useBalance_effect p :: 'r balance_prog)"
    if "\<not> balance_fetchable p" for p
    using isReset_balance r [OF that] by (cases "balance_askable p") (auto simp: useBalance_effect_def)
  show "isSettling n (balance_settle p n a :: 'r balance_prog)" for n p a
    by (auto simp: balance_settle_def balance_failed_def showsAnswer_def sameRefs_def Let_def split: sum.splits)
qed (auto simp: balance_fetchable_def fetchBalance_def useBalance_effect_def)

subsection \<open>What the hooks show\<close>


theorem useBalance_current:
  assumes "mount (useBalance_effect :: balance_props \<Rightarrow> 'r balance_prog) noBalances p = (s0, ts0)"
    and "instance_steps (hookEntry old fetchBalance useBalance_effect) (s0, ts0) (s, ts)"
    and "(q, k) \<in> set ts" and "launch (k a) s = (s', new)" and "s' \<noteq> s" and "balance_fetchable (props s)"
  shows "\<exists>p'. q = balance_query p' \<and> k = balance_settle p' (requestIdRef s) \<and> (p' = props s \<or> old p')"
  by (rule balance.answer_is_current [OF assms])

text \<open>
  A balance hook whose wallet is gone shows nothing, and no answer that arrives afterwards brings a balance back
  before the hook asks again.
\<close>

lemma balance_calls_numbered:
  assumes "mount (useBalance_effect :: balance_props \<Rightarrow> 'r balance_prog) noBalances p = (s0, ts0)"
    and "instance_steps (hookEntry old fetchBalance useBalance_effect) (s0, ts0) (s, ts)" and "(q, k) \<in> set ts"
  obtains p' n where "k = balance_settle p' n" "n \<le> requestIdRef s"
  using balance.calls_okD [OF balance.reachable_calls_ok [OF assms(1,2)] assms(3)] by blast

theorem useBalance_drops_late_answer:
  assumes "mount (useBalance_effect :: balance_props \<Rightarrow> 'r balance_prog) noBalances p = (s0, ts0)"
    and "instance_steps (hookEntry old fetchBalance useBalance_effect) (s0, ts0) (s, ts)"
    and "\<not> balance_askable p'" and "launch (useBalance_effect p') (s\<lparr>props := p'\<rparr>) = (s1, new)"
  shows "hdata s1 = noBalances \<and> \<not> loading s1 \<and> hookError s1 = None \<and>
    (\<forall>q k a s2 new2. (q, k) \<in> set ts \<longrightarrow> launch (k a) s1 = (s2, new2) \<longrightarrow> s2 = s1)"
proof -
  have s1: "s1 = s\<lparr>props := p', requestIdRef := Suc (requestIdRef s), hdata := noBalances, loading := False, hookError := None\<rparr>"
    using assms(3,4) by (auto simp: useBalance_effect_def launch_def)
  have "s2 = s1" if call: "(q, k) \<in> set ts" "launch (k a) s1 = (s2, new2)" for q k a s2 new2
  proof -
    obtain p'' n where k: "k = balance_settle p'' n" "n \<le> requestIdRef s"
      by (rule balance_calls_numbered [OF assms(1,2) call(1)])
    have "n \<noteq> requestIdRef s1" using k(2) s1 by simp
    then show ?thesis using balance.settle_other [of p'' n a s1 s2 new2] call(2) k(1) by blast
  qed
  then show ?thesis using s1 by simp
qed

text \<open>
  The other three do not. When the wallet of a role gate disconnects while the answer about it is on its way, the
  answer is still shown: the gate opens with no wallet connected.
\<close>

definition gateProps :: "string \<Rightarrow> role_props" where
  "gateProps a = \<lparr>roleEnabled = True, roleClient = Some 0, resolvedRole = Some ''Admin'', targetAddress = a\<rparr>"

definition demoAddress :: string where
  "demoAddress = CHR ''G'' # replicate 54 (CHR ''A'') @ ''B''"

lemma demoAddress_valid: "isValidStellarAddress demoAddress"
  by code_simp

lemma demoAddress_nonempty: "demoAddress \<noteq> []"
  by (simp add: demoAddress_def)

lemma gate_fetchable: "hasRole_fetchable (gateProps demoAddress)"
  by (simp add: hasRole_fetchable_def gateProps_def validRole_def VALID_ROLES_def demoAddress_valid demoAddress_nonempty)

lemma gate_mount:
  "mount useHasRole_effect None (gateProps demoAddress) =
     (\<lparr>props = gateProps demoAddress, hdata = None, loading = True, hookError = None, alertMessage = None, mountedRef = True, requestIdRef = 1\<rparr>,
      [(hasRole_query (gateProps demoAddress), hasRole_settle (gateProps demoAddress) 1)])"
proof -
  have "useHasRole_effect (gateProps demoAddress) = issue (hasRole_query (gateProps demoAddress)) (hasRole_settle (gateProps demoAddress))"
    using gate_fetchable by (auto simp: useHasRole_effect_def checkRole_def hasRole_fetchable_def)
  then show ?thesis by (simp add: mount_def launch_issue whenMounted_def)
qed

theorem useHasRole_shows_late_answer:
  "\<exists>s0 ts0 s ts. mount useHasRole_effect None (gateProps demoAddress) = (s0, ts0) \<and>
     instance_steps (hookEntry old checkRole useHasRole_effect) (s0, ts0) (s, ts) \<and>
     targetAddress (props s) = [] \<and> mountedRef s \<and> useHasRole_hasRole s"
proof -
  let ?E = "hookEntry old checkRole useHasRole_effect"
  let ?c = "(hasRole_query (gateProps demoAddress), hasRole_settle (gateProps demoAddress) 1)"
  obtain s0 where m: "mount useHasRole_effect None (gateProps demoAddress) = (s0, [?c])"
    and s0: "mountedRef s0" "requestIdRef s0 = 1" "props s0 = gateProps demoAddress" "hdata s0 = None"
    using gate_mount by simp
  define s1 where "s1 = withAlert ''Connect a wallet or provide an address to verify role permissions.'' (s0\<lparr>props := gateProps [], hdata := None\<rparr>)"
  define s2 where "s2 = s1\<lparr>hdata := Some True, hookError := None, alertMessage := None, loading := False\<rparr>"
  have ne: "gateProps [] \<noteq> props s0" using s0(3) demoAddress_nonempty by (simp add: gateProps_def)
  have "checkRole (gateProps []) = refuse (\<lambda>s. withAlert ''Connect a wallet or provide an address to verify role permissions.'' (s\<lparr>hdata := None\<rparr>)) False"
    by (simp add: checkRole_def gateProps_def validRole_def VALID_ROLES_def)
  then have e: "launch (useHasRole_effect (gateProps [])) (s0\<lparr>props := gateProps []\<rparr>) = (s1, [])"
    using s0(1) by (simp add: useHasRole_effect_def gateProps_def launch_refuse whenMounted_def s1_def)
  have "instance_step ?E (s0, [?c]) (s1, [?c] @ [])"
    by (rule instance_step.call, rule hookEntry.render [where p = "gateProps []"]) (simp add: s0(1) ne e)
  moreover have "launch (hasRole_settle (gateProps demoAddress) 1 (Inr True)) s1 = (s2, [])"
    using s0 by (simp add: hasRole_settle_def launch_settled whenCurrent_def s1_def s2_def withAlert_def)
  then have "instance_step ?E (s1, [?c]) (s2, take 0 [?c] @ drop (Suc 0) [?c] @ [])"
    by (intro instance_step.answer [of 0 "[?c]"]) simp_all
  ultimately have "instance_steps ?E (s0, [?c]) (s2, [])" by (simp add: converse_rtranclp_into_rtranclp r_into_rtranclp)
  moreover have "targetAddress (props s2) = []" "mountedRef s2" "useHasRole_hasRole s2"
    using s0(1) by (simp_all add: s1_def s2_def withAlert_def gateProps_def useHasRole_hasRole_def)
  ultimately show ?thesis using m by blast
qed

text \<open>
  A gate keeps the previous verdict while it asks about another address: it stays open for the new address until
  the answer about that one arrives.
\<close>

theorem checkRole_keeps_old_verdict:
  assumes "hasRole_fetchable p" and "checkRole p s = (s', t)"
  shows "hdata s' = hdata s \<and> useHasRole_hasRole s' = useHasRole_hasRole s \<and> (mountedRef s \<longrightarrow> loading s')"
proof -
  have "checkRole p = issue (hasRole_query p) (hasRole_settle p)"
    using assms(1) by (auto simp: checkRole_def hasRole_fetchable_def)
  with assms(2) show ?thesis by (auto simp: issue_def whenMounted_def useHasRole_hasRole_def split: if_splits)
qed

text \<open>A native balance that cannot be found out is reported as zero.\<close>

theorem native_unavailable_is_zero:
  assumes "customFetcher src = None" and "getNativeBalance src = None" and "getXlmBalance src = None"
    and "getAccount src = None \<or> (\<exists>e. getAccount src = Some (Inl e))"
  shows "queryNativeXlmBalance src = Inr (Some 0)"
  using assms by (auto simp: queryNativeXlmBalance_def accountNative_def)

text \<open>With a positive limit a balance query always settles, within the limit.\<close>

lemma withRpcTimeout_settles:
  assumes "0 < limit"
  shows "\<exists>t r. withRpcTimeout promise limit m = Some (t, r) \<and> t \<le> limit \<and>
    (promise = Some (t, r) \<or> t = limit \<and> r = Inl (ThrownError (OtherError m)))"
  using assms by (auto simp: withRpcTimeout_def split: option.splits)

text \<open>Both orders of the arguments of the role gate mean the same.\<close>

lemma resolveRoleArgs_orders:
  assumes "role \<in> set VALID_ROLES" and "address \<notin> set VALID_ROLES"
  shows "resolveRoleArgs (Some role) (ArgString address) = resolveRoleArgs (Some address) (ArgString role)"
  using assms by (simp add: resolveRoleArgs_def)

text \<open>
  The balance is shown as a decimal that reads back as the balance, in the decimals that are shown.
\<close>

lemma accountBalance_view_reads_back:
  assumes "fst (hdata s) = Some v" and "accountBalance_view p b s = (v', txt, d)" and "0 < d"
  shows "v' = v \<and> readTokenAmount (nat d) txt = Some v"
proof -
  from assms have "v' = v" "txt = formatTokenAmount (Some v) (Some d) b ''0''"
    by (auto simp: accountBalance_view_def Let_def)
  then show ?thesis using formatTokenAmount_roundtrip [of d v b "''0''"] assms(3) by simp
qed


end
