(* ===== verification/WalletAdapters.thy ===== *)
theory WalletAdapters
  imports ReactAsync JsNumber
begin

text \<open>
  The wallet adapters of the SDK (\<^verbatim>\<open>src/sdk/src/adapters\<close>): Freighter, Albedo, Lobstr, xBull, a private
  key, and the WalletConnect stub. A browser wallet injects an API object, code that is not part of
  the repository: what it answers to a call is an argument (an answer is a rejection or any native
  value), and which of its members can be called is part of \<open>wallet_api\<close>. An adapter is its public fields;
  a method is a program (\<open>ReactAsync\<close>) that waits for the wallet's answers.

  The locale \<open>wallet_adapter\<close> is the contract of the \<^verbatim>\<open>WalletAdapter\<close> interface that the provider and the
  clients rely on; every adapter of the package is an instance of it.
\<close>

subsection \<open>Native values\<close>

text \<open>\<^verbatim>\<open>v?.name\<close>, and \<^verbatim>\<open>a ?? b\<close>.\<close>

fun property :: "Native \<Rightarrow> string \<Rightarrow> Native" where
  "property (NObj fs) f = (case map_of fs f of Some v \<Rightarrow> v | None \<Rightarrow> NUndef)"
| "property _ f = NUndef"

definition orElse :: "Native \<Rightarrow> Native \<Rightarrow> Native" where
  "orElse a b = (if a = NUndef \<or> a = NNull then b else a)"

fun isObject :: "Native \<Rightarrow> bool" where
  "isObject (NObj fs) = True"
| "isObject (NList vs) = True"
| "isObject _ = False"

fun isString :: "Native \<Rightarrow> bool" where
  "isString (NStr t) = True"
| "isString _ = False"

subsection \<open>Adapters and wallets\<close>

record Adapter =
  adapterName :: string
  connected :: bool
  publicKey :: Native
  networkPassphrase :: Native

datatype wallet_member = Absent | Callable | NotCallable

text \<open>The API object of a wallet: its members. \<open>None\<close> when the global is missing.\<close>

type_synonym wallet_api = "(string \<Rightarrow> wallet_member) option"

datatype wallet_call = WalletCall string "Native list"

type_synonym 'r wallet_prog = "(wallet_call, thrown + Native, Adapter, thrown + 'r) prog"

definition fails :: "string \<Rightarrow> 'r wallet_prog" where
  "fails m = finish (Inl (ThrownError (OtherError m)))"

text \<open>\<^verbatim>\<open>await api.m(args)\<close>: a rejection ends the function.\<close>

definition callWallet :: "string \<Rightarrow> Native list \<Rightarrow> (Native \<Rightarrow> 'r wallet_prog) \<Rightarrow> 'r wallet_prog" where
  "callWallet m args k = await (WalletCall m args) (\<lambda>a. case a of Inl e \<Rightarrow> finish (Inl e) | Inr v \<Rightarrow> k v)"

text \<open>\<^verbatim>\<open>await api.m?.(args)\<close>.\<close>

definition optionalCall :: "(string \<Rightarrow> wallet_member) \<Rightarrow> string \<Rightarrow> Native list \<Rightarrow> (Native \<Rightarrow> 'r wallet_prog) \<Rightarrow> 'r wallet_prog" where
  "optionalCall api m args k =
     (case api m of
        Absent \<Rightarrow> k NUndef
      | Callable \<Rightarrow> callWallet m args k
      | NotCallable \<Rightarrow> fails (''api.'' @ m @ '' is not a function''))"

text \<open>\<^verbatim>\<open>await api.m(args)\<close> on a member that may be missing.\<close>

definition requiredCall :: "(string \<Rightarrow> wallet_member) \<Rightarrow> string \<Rightarrow> Native list \<Rightarrow> (Native \<Rightarrow> 'r wallet_prog) \<Rightarrow> 'r wallet_prog" where
  "requiredCall api m args k =
     (if api m = Callable then callWallet m args k else fails (''api.'' @ m @ '' is not a function''))"

definition newAdapter :: "string \<Rightarrow> Adapter" where
  "newAdapter n = \<lparr>adapterName = n, connected = False, publicKey = NUndef, networkPassphrase = NUndef\<rparr>"

text \<open>\<^verbatim>\<open>this.publicKey = ..; this.networkPassphrase = ..; this.connected = false\<close>.\<close>

definition clearAdapter :: "unit wallet_prog" where
  "clearAdapter = modify (\<lambda>a. a\<lparr>publicKey := NUndef, networkPassphrase := NUndef, connected := False\<rparr>) (finish (Inr ()))"

text \<open>The passphrase of a network named by the wallet; a value that is not a string has no \<^verbatim>\<open>toLowerCase\<close>.\<close>

definition knownNetwork :: "string \<Rightarrow> string option" where
  "knownNetwork n =
     (if map lower n = ''public'' \<or> map lower n = ''mainnet'' then Some ''Public Global Stellar Network ; September 2015''
      else if map lower n = ''testnet'' then Some ''Test SDF Network ; September 2015''
      else None)"

definition optionalString :: "string option \<Rightarrow> Native" where
  "optionalString t = (case t of None \<Rightarrow> NUndef | Some u \<Rightarrow> NStr u)"

definition networkOption :: "string \<Rightarrow> string option \<Rightarrow> Native" where
  "networkOption f p = (case p of None \<Rightarrow> NObj [(f, NUndef)] | Some t \<Rightarrow> NObj [(f, NStr t)])"

subsection \<open>Freighter\<close>

definition freighterNetwork :: "Native \<Rightarrow> (Native \<Rightarrow> 'r wallet_prog) \<Rightarrow> 'r wallet_prog" where
  "freighterNetwork network k = (case network of
     NStr n \<Rightarrow> k (optionalString (knownNetwork n))
   | v \<Rightarrow> if v = NUndef \<or> v = NNull then k NUndef else fails ''network?.toLowerCase is not a function'')"

definition freighterReadNetworkPassphrase :: "(string \<Rightarrow> wallet_member) \<Rightarrow> (Native \<Rightarrow> 'r wallet_prog) \<Rightarrow> 'r wallet_prog" where
  "freighterReadNetworkPassphrase api k =
     (let getDetails = (if api ''getNetworkDetails'' = Absent then ''getNetwork'' else ''getNetworkDetails'')
      in if api getDetails \<noteq> Callable then k NUndef
         else callWallet getDetails [] (\<lambda>response.
           let details = orElse (property response ''networkDetails'') response
           in if nativeTruthy (property details ''error'')
              then fails (''Freighter could not report its network: '' @ nativeString (property details ''error''))
              else if property details ''networkPassphrase'' \<noteq> NUndef \<and> property details ''networkPassphrase'' \<noteq> NNull
              then k (property details ''networkPassphrase'')
              else freighterNetwork (property details ''network'') k))"

definition freighterConnect :: "wallet_api \<Rightarrow> unit wallet_prog" where
  "freighterConnect glob = (case glob of
     None \<Rightarrow> fails ''Freighter API not available in this environment''
   | Some api \<Rightarrow>
       optionalCall api ''getPublicKey'' [] (\<lambda>pk.
         if \<not> nativeTruthy pk then fails ''Freighter did not return a public key''
         else modify (\<lambda>a. a\<lparr>publicKey := pk\<rparr>)
           (freighterReadNetworkPassphrase api (\<lambda>np.
              modify (\<lambda>a. a\<lparr>networkPassphrase := np, connected := True\<rparr>) (finish (Inr ()))))))"

definition freighterSignTransaction :: "wallet_api \<Rightarrow> string \<Rightarrow> string option \<Rightarrow> Native wallet_prog" where
  "freighterSignTransaction glob xdr passphrase = (case glob of
     None \<Rightarrow> fails ''Freighter API not available in this environment''
   | Some api \<Rightarrow>
       requiredCall api ''signTransaction'' [NStr xdr, networkOption ''networkPassphrase'' passphrase] (\<lambda>response.
         if \<not> nativeTruthy response then fails ''Freighter failed to sign transaction''
         else if nativeTruthy (property response ''error'')
         then fails (''Freighter failed to sign transaction: '' @ nativeString (property response ''error''))
         else if isString response then finish (Inr response)
         else let signedXdr = orElse (property response ''signedTxXdr'') (orElse (property response ''signedXdr'') (property response ''xdr''))
              in if nativeTruthy signedXdr then finish (Inr signedXdr)
                 else fails ''Freighter did not return a signed transaction''))"

subsection \<open>Albedo\<close>

definition albedoNetwork :: "Native \<Rightarrow> (Native \<Rightarrow> 'r wallet_prog) \<Rightarrow> 'r wallet_prog" where
  "albedoNetwork network k = (case network of
     NStr n \<Rightarrow> k (case knownNetwork n of
         Some p \<Rightarrow> NStr p
       | None \<Rightarrow> if js_includes n '';'' then NStr n else NUndef)
   | v \<Rightarrow> if v = NUndef \<or> v = NNull then k NUndef else fails ''network?.toLowerCase is not a function'')"

definition albedoConnected :: "Native \<Rightarrow> Native \<Rightarrow> unit wallet_prog" where
  "albedoConnected pk np = modify (\<lambda>a. a\<lparr>publicKey := pk, networkPassphrase := np, connected := True\<rparr>) (finish (Inr ()))"

definition albedoConnect :: "wallet_api \<Rightarrow> unit wallet_prog" where
  "albedoConnect glob = (case glob of
     None \<Rightarrow> fails ''Albedo not available in this environment''
   | Some api \<Rightarrow>
       requiredCall api ''publicKey'' [] (\<lambda>response.
         let pk = (if isString response then response else orElse (property response ''pubkey'') (property response ''publicKey''))
         in if \<not> nativeTruthy pk then fails ''Albedo did not return a public key''
            else if isString response then albedoConnected pk NUndef
            else modify (\<lambda>a. a\<lparr>publicKey := pk\<rparr>)
              (if property response ''networkPassphrase'' \<noteq> NUndef \<and> property response ''networkPassphrase'' \<noteq> NNull
               then albedoConnected pk (property response ''networkPassphrase'')
               else albedoNetwork (property response ''network'') (albedoConnected pk))))"

text \<open>What signing does with an answer of the wallet.\<close>

definition albedoConclude :: "Native \<Rightarrow> Native wallet_prog" where
  "albedoConclude response =
     (if \<not> nativeTruthy response then fails ''Albedo failed to sign transaction''
      else if nativeTruthy (property response ''error'')
      then fails (''Albedo failed to sign transaction: '' @ nativeString (property response ''error''))
      else if isString response then finish (Inr response)
      else let signedXdr = orElse (property response ''signed_envelope_xdr'') (orElse (property response ''signedTxXdr'')
                 (orElse (property response ''signedXdr'') (property response ''xdr'')))
           in if nativeTruthy signedXdr then finish (Inr signedXdr)
              else fails ''Albedo did not return a signed transaction'')"

text \<open>The three signing methods are tried in turn until one answers something.\<close>

definition albedoSignTransaction :: "wallet_api \<Rightarrow> string \<Rightarrow> string option \<Rightarrow> Native wallet_prog" where
  "albedoSignTransaction glob xdr passphrase a =
     (case glob of
        None \<Rightarrow> fails ''Albedo not available in this environment'' a
      | Some api \<Rightarrow>
          (let network = orElse (optionalString passphrase) (networkPassphrase a);
               options = (if nativeTruthy network then [(''network'', network)] else []);
               signingOptions = (if nativeTruthy network then NObj options else NUndef)
           in optionalCall api ''signTransaction'' [NStr xdr, signingOptions] (\<lambda>r1.
                if nativeTruthy r1 then albedoConclude r1
                else optionalCall api ''signTx'' [NStr xdr, signingOptions] (\<lambda>r2.
                  if nativeTruthy r2 then albedoConclude r2
                  else optionalCall api ''tx'' [NObj ((''xdr'', NStr xdr) # options)] albedoConclude)) a))"

subsection \<open>Lobstr and xBull\<close>

definition publicKeyFromResponse :: "Native \<Rightarrow> Native" where
  "publicKeyFromResponse response =
     (if isString response then (if nativeTruthy response then response else NUndef)
      else if \<not> isObject response then NUndef
      else let key = orElse (property response ''publicKey'') (orElse (property response ''pubkey'') (property response ''public_key''))
           in if isString key \<and> nativeTruthy key then key else NUndef)"

definition signedXdrFromResponse :: "string \<Rightarrow> string list \<Rightarrow> Native \<Rightarrow> Native wallet_prog" where
  "signedXdrFromResponse wallet names response =
     (if \<not> nativeTruthy response then fails (wallet @ '' failed to sign transaction'')
      else if isString response then finish (Inr response)
      else if \<not> isObject response then fails (wallet @ '' did not return a signed transaction'')
      else if isString (property response ''error'') \<and> nativeTruthy (property response ''error'')
      then fails (wallet @ '' failed to sign transaction: '' @ nativeString (property response ''error''))
      else let signedXdr = foldr (\<lambda>f v. orElse (property response f) v) names NUndef
           in if isString signedXdr \<and> nativeTruthy signedXdr then finish (Inr signedXdr)
              else fails (wallet @ '' did not return a signed transaction''))"

text \<open>The three globals under which Lobstr may be found, the two of xBull.\<close>

definition firstApi :: "wallet_api list \<Rightarrow> wallet_api" where
  "firstApi gs = (case filter (\<lambda>g. g \<noteq> None) gs of [] \<Rightarrow> None | g # _ \<Rightarrow> g)"

definition lobstrConnect :: "wallet_api list \<Rightarrow> unit wallet_prog" where
  "lobstrConnect gs = (case firstApi gs of
     None \<Rightarrow> fails ''Lobstr API not available in this environment''
   | Some api \<Rightarrow>
       (let rest = optionalCall api ''getPublicKey'' [] (\<lambda>response.
              let pk = publicKeyFromResponse response
              in if \<not> nativeTruthy pk then fails ''Lobstr did not return a public key''
                 else modify (\<lambda>a. a\<lparr>publicKey := pk, connected := True\<rparr>) (finish (Inr ())))
        in if api ''isConnected'' = Callable
           then callWallet ''isConnected'' [] (\<lambda>status.
             if (case status of NBool b \<Rightarrow> status | _ \<Rightarrow> property status ''isConnected'') = NBool False
             then fails ''Lobstr is not connected'' else rest)
           else rest))"

definition lobstrSignTransaction :: "wallet_api list \<Rightarrow> string \<Rightarrow> string option \<Rightarrow> Native wallet_prog" where
  "lobstrSignTransaction gs xdr passphrase a = (case firstApi gs of
     None \<Rightarrow> fails ''Lobstr API not available in this environment'' a
   | Some api \<Rightarrow>
       if api ''signTransaction'' = Absent then fails ''Lobstr API not available in this environment'' a
       else (let np = orElse (optionalString passphrase) (networkPassphrase a)
             in requiredCall api ''signTransaction''
                  [NStr xdr, if nativeTruthy np then NObj [(''networkPassphrase'', np)] else NUndef]
                  (signedXdrFromResponse ''Lobstr'' [''signedTxXdr'', ''signedXdr'', ''signedXDR'', ''xdr'']) a))"

definition networkPassphraseFromResponse :: "Native \<Rightarrow> Native" where
  "networkPassphraseFromResponse response =
     (if isString (property response ''networkPassphrase'') then property response ''networkPassphrase'' else NUndef)"

definition xbullConnect :: "wallet_api list \<Rightarrow> unit wallet_prog" where
  "xbullConnect gs = (case firstApi gs of
     None \<Rightarrow> fails ''xBull API not available in this environment''
   | Some api \<Rightarrow>
       (let rest = optionalCall api ''getPublicKey'' [] (\<lambda>response.
              let pk = publicKeyFromResponse response
              in if \<not> nativeTruthy pk then fails ''xBull did not return a public key''
                 else modify (\<lambda>a. a\<lparr>publicKey := pk, networkPassphrase := networkPassphraseFromResponse response,
                        connected := True\<rparr>) (finish (Inr ())))
        in if api ''connect'' = Callable
           then callWallet ''connect'' [NObj [(''canRequestPublicKey'', NBool True), (''canRequestSign'', NBool True)]] (\<lambda>_. rest)
           else rest))"

definition xbullSignTransaction :: "wallet_api list \<Rightarrow> string \<Rightarrow> string option \<Rightarrow> Native wallet_prog" where
  "xbullSignTransaction gs xdr passphrase a = (case firstApi gs of
     None \<Rightarrow> fails ''xBull API not available in this environment'' a
   | Some api \<Rightarrow>
       (let sign = (if api ''signXDR'' = Absent then ''signTransaction'' else ''signXDR'');
            network = orElse (optionalString passphrase) (networkPassphrase a)
        in if api sign \<noteq> Callable then fails ''xBull cannot sign transactions'' a
           else callWallet sign
                  [NStr xdr, if nativeTruthy network
                     then NObj [(''network'', network), (''networkPassphrase'', network), (''publicKey'', publicKey a)] else NUndef]
                  (signedXdrFromResponse ''xBull'' [''signedXDR'', ''signedTxXdr'', ''signedXdr'', ''xdr'']) a))"

subsection \<open>A private key\<close>

record PrivateKeyAdapterOptions =
  secretKey :: "string option"
  envVar :: "string option"
  optionPassphrase :: "string option"

definition secretFromCaller :: "(string \<rightharpoonup> string) \<Rightarrow> PrivateKeyAdapterOptions \<Rightarrow> string + string" where
  "secretFromCaller env options =
     (if truthy (secretKey options) then Inr (the (secretKey options))
      else if truthy (envVar options)
      then (case env (the (envVar options)) of
              Some v \<Rightarrow> if v \<noteq> [] then Inr v
                        else Inl (''PrivateKeyAdapter: environment variable \"'' @ the (envVar options) @ ''\" is not set'')
            | None \<Rightarrow> Inl (''PrivateKeyAdapter: environment variable \"'' @ the (envVar options) @ ''\" is not set''))
      else Inl ''PrivateKeyAdapter requires secretKey or envVar supplied by the caller'')"

text \<open>
  Key pairs are the Stellar SDK's: \<open>fromSecret\<close> gives the public key of a secret or the message of its
  error, \<open>signXdr\<close> the signed envelope.
\<close>

definition newPrivateKeyAdapter ::
    "(string \<Rightarrow> string + string) \<Rightarrow> (string \<rightharpoonup> string) \<Rightarrow> PrivateKeyAdapterOptions \<Rightarrow> string + string \<times> Adapter" where
  "newPrivateKeyAdapter fromSecret env options =
     (case secretFromCaller env options of
        Inl m \<Rightarrow> Inl m
      | Inr secret \<Rightarrow>
          (case fromSecret secret of
             Inl m \<Rightarrow> Inl m
           | Inr pk \<Rightarrow> Inr (pk, (newAdapter ''private-key'')\<lparr>networkPassphrase := optionalString (optionPassphrase options)\<rparr>)))"

definition privateKeyConnect :: "string \<Rightarrow> unit wallet_prog" where
  "privateKeyConnect pk = modify (\<lambda>a. a\<lparr>publicKey := NStr pk, connected := True\<rparr>) (finish (Inr ()))"

definition privateKeyDisconnect :: "unit wallet_prog" where
  "privateKeyDisconnect = modify (\<lambda>a. a\<lparr>publicKey := NUndef, connected := False\<rparr>) (finish (Inr ()))"

definition privateKeySignTransaction ::
    "(string \<Rightarrow> Native \<Rightarrow> string + string) \<Rightarrow> string \<Rightarrow> string option \<Rightarrow> Native wallet_prog" where
  "privateKeySignTransaction signXdr xdr passphrase a =
     (let np = orElse (optionalString passphrase) (networkPassphrase a)
      in if \<not> nativeTruthy np then fails ''PrivateKeyAdapter requires a network passphrase to sign'' a
         else case signXdr xdr np of Inl m \<Rightarrow> fails m a | Inr t \<Rightarrow> finish (Inr (NStr t)) a)"

subsection \<open>WalletConnect\<close>

definition walletConnectConnect :: "unit wallet_prog" where
  "walletConnectConnect = fails ''WalletConnectAdapter.connect() not implemented''"

definition walletConnectDisconnect :: "unit wallet_prog" where
  "walletConnectDisconnect = modify (\<lambda>a. a\<lparr>connected := False, publicKey := NUndef\<rparr>) (finish (Inr ()))"

definition walletConnectSignTransaction :: "string \<Rightarrow> Native wallet_prog" where
  "walletConnectSignTransaction xdr = fails ''WalletConnectAdapter.signTransaction() not implemented''"

subsection \<open>The contract\<close>

text \<open>A function run to its end, with the answers of a wallet.\<close>

primrec runTask :: "('q \<Rightarrow> 'a) \<Rightarrow> ('q, 'a, 's, 'r) task \<Rightarrow> 's \<Rightarrow> 's \<times> 'r" where
  "runTask env (Return r) = (\<lambda>s. (s, r))"
| "runTask env (Await q k) = (\<lambda>s. case map_prod id (runTask env) (k (env q) s) of (s', f) \<Rightarrow> f s')"

definition runProg :: "('q \<Rightarrow> 'a) \<Rightarrow> ('q, 'a, 's, 'r) prog \<Rightarrow> 's \<Rightarrow> 's \<times> 'r" where
  "runProg env p s = (case p s of (s', t) \<Rightarrow> runTask env t s')"

lemma runProg_finish [simp]: "runProg env (finish r) s = (s, r)"
  by (simp add: runProg_def)

lemma runProg_modify [simp]: "runProg env (modify f p) s = runProg env p (f s)"
  by (simp add: runProg_def)

lemma runProg_await [simp]: "runProg env (await q k) s = runProg env (k (env q)) s"
  by (cases "k (env q) s") (simp add: runProg_def)

lemma runProg_fails [simp]: "runProg env (fails m) s = (s, Inl (ThrownError (OtherError m)))"
  by (simp add: fails_def)

lemma runProg_callWallet [simp]:
  "runProg env (callWallet m args k) s = (case env (WalletCall m args) of Inl e \<Rightarrow> (s, Inl e) | Inr v \<Rightarrow> runProg env (k v) s)"
  by (simp add: callWallet_def split: sum.splits)

lemma runProg_optionalCall [simp]:
  "runProg env (optionalCall api m args k) s = (case api m of
     Absent \<Rightarrow> runProg env (k NUndef) s
   | Callable \<Rightarrow> runProg env (callWallet m args k) s
   | NotCallable \<Rightarrow> runProg env (fails (''api.'' @ m @ '' is not a function'')) s)"
  by (simp add: optionalCall_def del: runProg_fails runProg_callWallet split: wallet_member.splits)

lemma runProg_requiredCall [simp]:
  "runProg env (requiredCall api m args k) s =
     (if api m = Callable then runProg env (callWallet m args k) s
      else runProg env (fails (''api.'' @ m @ '' is not a function'')) s)"
  by (simp add: requiredCall_def del: runProg_fails runProg_callWallet)

locale wallet_adapter =
  fixes connectA :: "unit wallet_prog"
    and disconnectA :: "unit wallet_prog"
    and signA :: "string \<Rightarrow> string option \<Rightarrow> Native wallet_prog"
  assumes connect_ok: "runProg env connectA a = (a', Inr ()) \<Longrightarrow> connected a' \<and> nativeTruthy (publicKey a')"
    and connect_fails: "runProg env connectA a = (a', Inl e) \<Longrightarrow>
        connected a' = connected a \<and> (nativeTruthy (publicKey a) \<longrightarrow> nativeTruthy (publicKey a'))"
    and disconnect_clears: "runProg env disconnectA a = (a', r) \<Longrightarrow>
        r = Inr () \<and> \<not> connected a' \<and> \<not> nativeTruthy (publicKey a')"
    and sign_keeps: "runProg env (signA xdr p) a = (a', r') \<Longrightarrow> a' = a"
    and sign_result: "runProg env (signA xdr p) a = (a', Inr v) \<Longrightarrow> nativeTruthy v"
begin

inductive session :: "Adapter \<Rightarrow> Adapter \<Rightarrow> bool" where
  start: "session a a"
| connecting: "session a b \<Longrightarrow> runProg env connectA b = (c, r) \<Longrightarrow> session a c"
| disconnecting: "session a b \<Longrightarrow> runProg env disconnectA b = (c, r) \<Longrightarrow> session a c"
| signing: "session a b \<Longrightarrow> runProg env (signA xdr p) b = (c, r') \<Longrightarrow> session a c"

lemma connected_has_key:
  "session a b \<Longrightarrow> (connected a \<longrightarrow> nativeTruthy (publicKey a)) \<Longrightarrow> connected b \<longrightarrow> nativeTruthy (publicKey b)"
proof (induction rule: session.induct)
  case (connecting a b env c r)
  show ?case
  proof (cases r)
    case (Inl e)
    with connecting show ?thesis using connect_fails [of env b c e] by simp
  next
    case (Inr u)
    with connecting show ?thesis using connect_ok [of env b c] by simp
  qed
next
  case (disconnecting a b env c r)
  then show ?case using disconnect_clears by blast
next
  case (signing a b env xdr p c r')
  then show ?case using sign_keeps by blast
qed simp

end

subsection \<open>Every adapter keeps the contract\<close>

lemmas adapter_splits = option.splits wallet_member.splits sum.splits if_splits Native.splits

lemma freighterRead_run:
  "runProg env (freighterReadNetworkPassphrase api k) a = (a', r) \<Longrightarrow>
     (\<exists>np. runProg env (k np) a = (a', r)) \<or> (a' = a \<and> (\<exists>e. r = Inl e))"
  by (auto simp: freighterReadNetworkPassphrase_def freighterNetwork_def Let_def split: adapter_splits)

lemma freighterConnect_run:
  assumes "runProg env (freighterConnect glob) a = (a', r)"
  shows "r = Inr () \<and> connected a' \<and> nativeTruthy (publicKey a') \<or>
    (\<exists>e. r = Inl e) \<and> connected a' = connected a \<and> (publicKey a' = publicKey a \<or> nativeTruthy (publicKey a'))"
proof (cases "\<exists>api pk. glob = Some api \<and> api ''getPublicKey'' = Callable \<and> env (WalletCall ''getPublicKey'' []) = Inr pk \<and> nativeTruthy pk")
  case True
  then obtain api pk where g: "glob = Some api" "api ''getPublicKey'' = Callable" "env (WalletCall ''getPublicKey'' []) = Inr pk"
    "nativeTruthy pk" by blast
  have "runProg env (freighterReadNetworkPassphrase api (\<lambda>np. modify (\<lambda>a. a\<lparr>networkPassphrase := np, connected := True\<rparr>)
      (finish (Inr ())))) (a\<lparr>publicKey := pk\<rparr>) = (a', r)"
    using assms g by (simp add: freighterConnect_def)
  from freighterRead_run [OF this] g(4) show ?thesis by auto
next
  case False
  with assms show ?thesis by (auto simp: freighterConnect_def split: adapter_splits)
qed

lemma albedoConnect_run:
  assumes "runProg env (albedoConnect glob) a = (a', r)"
  shows "r = Inr () \<and> connected a' \<and> nativeTruthy (publicKey a') \<or>
    (\<exists>e. r = Inl e) \<and> connected a' = connected a \<and> (publicKey a' = publicKey a \<or> nativeTruthy (publicKey a'))"
  using assms
  by (auto simp: albedoConnect_def albedoConnected_def albedoNetwork_def Let_def split: adapter_splits)

lemma lobstrConnect_run:
  assumes "runProg env (lobstrConnect gs) a = (a', r)"
  shows "r = Inr () \<and> connected a' \<and> nativeTruthy (publicKey a') \<or> (\<exists>e. r = Inl e) \<and> a' = a"
  using assms by (auto simp: lobstrConnect_def Let_def split: adapter_splits)

lemma xbullConnect_run:
  assumes "runProg env (xbullConnect gs) a = (a', r)"
  shows "r = Inr () \<and> connected a' \<and> nativeTruthy (publicKey a') \<or> (\<exists>e. r = Inl e) \<and> a' = a"
  using assms by (auto simp: xbullConnect_def Let_def split: adapter_splits)

lemma freighterSign_run:
  "runProg env (freighterSignTransaction glob xdr p) a = (a', r) \<Longrightarrow> a' = a \<and> (\<forall>v. r = Inr v \<longrightarrow> nativeTruthy v)"
  by (auto simp: freighterSignTransaction_def Let_def split: adapter_splits)

lemma signedXdrFromResponse_run:
  "runProg env (signedXdrFromResponse w fs v) a = (a', r) \<Longrightarrow> a' = a \<and> (\<forall>x. r = Inr x \<longrightarrow> nativeTruthy x)"
  by (auto simp: signedXdrFromResponse_def Let_def split: if_splits)

lemma optionalCall_run:
  assumes "runProg env (optionalCall api m args k) a = (a', r)"
  obtains v where "runProg env (k v) a = (a', r)" | e where "a' = a" "r = Inl e"
  using assms by (auto split: wallet_member.splits sum.splits)

lemma albedoConclude_run:
  "runProg env (albedoConclude v) a = (a', r) \<Longrightarrow> a' = a \<and> (\<forall>x. r = Inr x \<longrightarrow> nativeTruthy x)"
  by (auto simp: albedoConclude_def Let_def split: if_splits)

lemma albedoSign_run:
  assumes "runProg env (albedoSignTransaction glob xdr p) a = (a', r)"
  shows "a' = a \<and> (\<forall>v. r = Inr v \<longrightarrow> nativeTruthy v)"
proof (cases glob)
  case None
  with assms have "runProg env (fails ''Albedo not available in this environment'') a = (a', r)"
    by (simp add: albedoSignTransaction_def runProg_def)
  then show ?thesis by auto
next
  case (Some api)
  define network where "network = orElse (optionalString p) (networkPassphrase a)"
  define opts where "opts = (if nativeTruthy network then [(''network'', network)] else [])"
  define so where "so = (if nativeTruthy network then NObj opts else NUndef)"
  let ?third = "optionalCall api ''tx'' [NObj ((''xdr'', NStr xdr) # opts)] albedoConclude"
  let ?second = "optionalCall api ''signTx'' [NStr xdr, so] (\<lambda>r2. if nativeTruthy r2 then albedoConclude r2 else ?third)"
  let ?first = "optionalCall api ''signTransaction'' [NStr xdr, so] (\<lambda>r1. if nativeTruthy r1 then albedoConclude r1 else ?second)"
  have eq: "albedoSignTransaction glob xdr p a = ?first a"
    by (simp only: albedoSignTransaction_def Some option.case Let_def so_def opts_def network_def)
  have "runProg env ?first a = (a', r)" using assms by (simp only: runProg_def eq)
  then show ?thesis
  proof (cases rule: optionalCall_run)
    case (1 v)
    show ?thesis
    proof (cases "nativeTruthy v")
      case True
      with 1 show ?thesis using albedoConclude_run by simp
    next
      case False
      with 1 have "runProg env ?second a = (a', r)" by simp
      then show ?thesis
      proof (cases rule: optionalCall_run)
        case (1 v)
        show ?thesis
        proof (cases "nativeTruthy v")
          case True
          with 1 show ?thesis using albedoConclude_run by simp
        next
          case False
          with 1 have "runProg env ?third a = (a', r)" by simp
          then show ?thesis by (cases rule: optionalCall_run) (use albedoConclude_run in auto)
        qed
      qed simp
    qed
  qed simp
qed

lemma lobstrSign_run:
  "runProg env (lobstrSignTransaction gs xdr p) a = (a', r) \<Longrightarrow> a' = a \<and> (\<forall>v. r = Inr v \<longrightarrow> nativeTruthy v)"
proof (cases "firstApi gs")
  case (Some api)
  let ?np = "orElse (optionalString p) (networkPassphrase a)"
  let ?call = "requiredCall api ''signTransaction'' [NStr xdr, if nativeTruthy ?np then NObj [(''networkPassphrase'', ?np)] else NUndef]
      (signedXdrFromResponse ''Lobstr'' [''signedTxXdr'', ''signedXdr'', ''signedXDR'', ''xdr''])"
  have "lobstrSignTransaction gs xdr p a = (if api ''signTransaction'' = Absent
      then fails ''Lobstr API not available in this environment'' a else ?call a)"
    by (simp only: lobstrSignTransaction_def Some option.case Let_def)
  then have eq: "runProg env (lobstrSignTransaction gs xdr p) a = (if api ''signTransaction'' = Absent
      then runProg env (fails ''Lobstr API not available in this environment'') a else runProg env ?call a)"
    by (simp add: runProg_def del: runProg_fails)
  assume "runProg env (lobstrSignTransaction gs xdr p) a = (a', r)"
  then show ?thesis unfolding eq using signedXdrFromResponse_run
    by (auto split: if_splits sum.splits)
qed (auto simp: lobstrSignTransaction_def runProg_def fails_def)

lemma xbullSign_run:
  "runProg env (xbullSignTransaction gs xdr p) a = (a', r) \<Longrightarrow> a' = a \<and> (\<forall>v. r = Inr v \<longrightarrow> nativeTruthy v)"
proof (cases "firstApi gs")
  case (Some api)
  let ?np = "orElse (optionalString p) (networkPassphrase a)"
  let ?sign = "if api ''signXDR'' = Absent then ''signTransaction'' else ''signXDR''"
  let ?call = "callWallet ?sign [NStr xdr, if nativeTruthy ?np
      then NObj [(''network'', ?np), (''networkPassphrase'', ?np), (''publicKey'', publicKey a)] else NUndef]
      (signedXdrFromResponse ''xBull'' [''signedXDR'', ''signedTxXdr'', ''signedXdr'', ''xdr''])"
  have "xbullSignTransaction gs xdr p a = (if api ?sign \<noteq> Callable then fails ''xBull cannot sign transactions'' a else ?call a)"
    by (simp only: xbullSignTransaction_def Some option.case Let_def)
  then have eq: "runProg env (xbullSignTransaction gs xdr p) a = (if api ?sign \<noteq> Callable
      then runProg env (fails ''xBull cannot sign transactions'') a else runProg env ?call a)"
    by (simp only: runProg_def if_distrib [of "\<lambda>x. case x of (s', t) \<Rightarrow> runTask env t s'"])
  assume "runProg env (xbullSignTransaction gs xdr p) a = (a', r)"
  then show ?thesis unfolding eq using signedXdrFromResponse_run
    by (auto split: if_splits sum.splits)
qed (auto simp: xbullSignTransaction_def runProg_def fails_def)

lemma clearAdapter_run:
  "runProg env clearAdapter a = (a', r) \<Longrightarrow> r = Inr () \<and> \<not> connected a' \<and> \<not> nativeTruthy (publicKey a')"
  by (auto simp: clearAdapter_def)

interpretation freighter: wallet_adapter "freighterConnect glob" clearAdapter "freighterSignTransaction glob"
  by unfold_locales (use freighterConnect_run freighterSign_run clearAdapter_run in \<open>fastforce+\<close>)

interpretation albedo: wallet_adapter "albedoConnect glob" clearAdapter "albedoSignTransaction glob"
  by unfold_locales (use albedoConnect_run albedoSign_run clearAdapter_run in \<open>fastforce+\<close>)

interpretation lobstr: wallet_adapter "lobstrConnect gs" clearAdapter "lobstrSignTransaction gs"
  by unfold_locales (use lobstrConnect_run lobstrSign_run clearAdapter_run in \<open>fastforce+\<close>)

interpretation xbull: wallet_adapter "xbullConnect gs" clearAdapter "xbullSignTransaction gs"
  by unfold_locales (use xbullConnect_run xbullSign_run clearAdapter_run in \<open>fastforce+\<close>)

lemma privateKeySign_run:
  "runProg env (privateKeySignTransaction sx xdr p) a = (a', r) \<Longrightarrow>
     (\<And>y np t. sx y np = Inr t \<Longrightarrow> t \<noteq> []) \<Longrightarrow> a' = a \<and> (\<forall>v. r = Inr v \<longrightarrow> nativeTruthy v)"
  by (auto simp: privateKeySignTransaction_def Let_def runProg_def fails_def split: if_splits sum.splits)

text \<open>A key pair has a public key, and a signed envelope is not empty.\<close>

interpretation privateKey: wallet_adapter "privateKeyConnect (c # pk)" privateKeyDisconnect
    "privateKeySignTransaction (\<lambda>xdr np. map_sum id (\<lambda>t. d # t) (sx xdr np))"
proof unfold_locales
  fix env xdr p a a' r
  assume run: "runProg env (privateKeySignTransaction (\<lambda>xdr np. map_sum id (\<lambda>t. d # t) (sx xdr np)) xdr p) a = (a', r)"
  have ne: "map_sum id (\<lambda>t. d # t) (sx y np) = Inr t \<Longrightarrow> t \<noteq> []" for y np t
    by (cases "sx y np") auto
  show "a' = a" using privateKeySign_run [OF run ne] by simp
next
  fix env xdr p a a' v
  assume run: "runProg env (privateKeySignTransaction (\<lambda>xdr np. map_sum id (\<lambda>t. d # t) (sx xdr np)) xdr p) a = (a', Inr v)"
  have ne: "map_sum id (\<lambda>t. d # t) (sx y np) = Inr t \<Longrightarrow> t \<noteq> []" for y np t
    by (cases "sx y np") auto
  show "nativeTruthy v" using privateKeySign_run [OF run ne] by simp
qed (auto simp: privateKeyConnect_def privateKeyDisconnect_def)

interpretation walletConnect: wallet_adapter walletConnectConnect walletConnectDisconnect "\<lambda>xdr p. walletConnectSignTransaction xdr"
  by unfold_locales (auto simp: walletConnectConnect_def walletConnectDisconnect_def walletConnectSignTransaction_def)

text \<open>
  A browser wallet's adapter that has been used one call at a time and says that it is connected has a public
  key, and signing never returns an empty result.
\<close>

theorem adapters_connected_have_key:
  "freighter.session glob (newAdapter ''freighter'') a \<or> albedo.session glob (newAdapter ''albedo'') a \<or>
   lobstr.session gs (newAdapter ''lobstr'') a \<or> xbull.session gs (newAdapter ''xbull'') a \<Longrightarrow>
   connected a \<Longrightarrow> nativeTruthy (publicKey a)"
  using freighter.connected_has_key [of glob "newAdapter ''freighter''" a]
    albedo.connected_has_key [of glob "newAdapter ''albedo''" a]
    lobstr.connected_has_key [of gs "newAdapter ''lobstr''" a]
    xbull.connected_has_key [of gs "newAdapter ''xbull''" a]
  by (auto simp: newAdapter_def)

text \<open>
  One call at a time matters: when \<^verbatim>\<open>disconnect\<close> runs while \<^verbatim>\<open>connect\<close> waits for the network details, the
  Freighter adapter ends up connected and without a key.
\<close>

definition demoFreighter :: "string \<Rightarrow> wallet_member" where
  "demoFreighter m = (if m = ''getPublicKey'' \<or> m = ''getNetworkDetails'' then Callable else Absent)"

theorem freighter_disconnect_during_connect:
  "\<exists>a1 k1 a2 k2 a3 a4.
     freighterConnect (Some demoFreighter) (newAdapter ''freighter'') = (a1, Await (WalletCall ''getPublicKey'' []) k1) \<and>
     k1 (Inr (NStr ''GA'')) a1 = (a2, Await (WalletCall ''getNetworkDetails'' []) k2) \<and>
     clearAdapter a2 = (a3, Return (Inr ())) \<and>
     k2 (Inr NUndef) a3 = (a4, Return (Inr ())) \<and> connected a4 \<and> publicKey a4 = NUndef"
  by (simp add: freighterConnect_def optionalCall_def callWallet_def demoFreighter_def freighterReadNetworkPassphrase_def
      freighterNetwork_def orElse_def clearAdapter_def)

end
