(* ===== verification/ReactStatus.thy ===== *)
theory ReactStatus
  imports ReactReads WalletAdapters
begin

text \<open>
  The status hooks of \<^verbatim>\<open>src/react/src/hooks.ts\<close>: roles and role admins, vesting schedules, the flash-loan
  guard, split invoices, contract events, account sequences, contract TTL, rate limits, the latest ledger,
  supply, token data, allowance and vault shares. What they make of an answer (a native value of the
  SDK client) is a function; the hooks themselves have one shape, \<open>plainRead\<close>: they do not number their
  requests, so that the last answer to arrive is shown, whichever it answers
  (\<open>plainRead_shows_any_answer\<close>).
\<close>

subsection \<open>Values\<close>

definition typeError :: "string \<Rightarrow> thrown" where
  "typeError m = ThrownError (OtherError m)"

text \<open>\<^verbatim>\<open>BigInt(v)\<close>.\<close>

fun bigintOf :: "Native \<Rightarrow> thrown + int" where
  "bigintOf (NBig i) = Inr i"
| "bigintOf (NNum i) = Inr i"
| "bigintOf (NBool b) = Inr (if b then 1 else 0)"
| "bigintOf (NStr t) = (case BigInt t of Some i \<Rightarrow> Inr i | None \<Rightarrow> Inl (typeError (''Cannot convert '' @ t @ '' to a BigInt'')))"
| "bigintOf v = Inl (typeError (''Cannot convert '' @ nativeString v @ '' to a BigInt''))"

text \<open>\<^verbatim>\<open>BigInt(Number(v))\<close>, which needs an integer.\<close>

definition ledgerOf :: "Native \<Rightarrow> thrown + int" where
  "ledgerOf v = (case integerOf (Number_native v) of
     Some i \<Rightarrow> Inr i
   | None \<Rightarrow> Inl (typeError ''The number cannot be converted to a BigInt because it is not an integer''))"

fun firstOf :: "Native list \<Rightarrow> Native" where
  "firstOf [] = NUndef"
| "firstOf (v # vs) = orElse v (firstOf vs)"

text \<open>\<^verbatim>\<open>a || b\<close>.\<close>

definition orNative :: "Native \<Rightarrow> Native \<Rightarrow> Native" where
  "orNative a b = (if nativeTruthy a then a else b)"

definition bindSum :: "'e + 'a \<Rightarrow> ('a \<Rightarrow> 'e + 'b) \<Rightarrow> 'e + 'b" where
  "bindSum r f = (case r of Inl e \<Rightarrow> Inl e | Inr v \<Rightarrow> f v)"

lemma bindSum_Inr [simp]: "bindSum (Inr v) f = f v"
  by (simp add: bindSum_def)

lemma bindSum_eq_Inr: "bindSum r f = Inr y \<longleftrightarrow> (\<exists>x. r = Inr x \<and> f x = Inr y)"
  by (auto simp: bindSum_def split: sum.splits)

fun mapSum :: "('a \<Rightarrow> 'e + 'b) \<Rightarrow> 'a list \<Rightarrow> 'e + 'b list" where
  "mapSum f [] = Inr []"
| "mapSum f (x # xs) = bindSum (f x) (\<lambda>y. bindSum (mapSum f xs) (\<lambda>ys. Inr (y # ys)))"

lemma mapSum_Inr: "mapSum f xs = Inr ys \<Longrightarrow> length ys = length xs \<and> (\<forall>i < length xs. f (xs ! i) = Inr (ys ! i))"
proof (induction xs arbitrary: ys)
  case (Cons x xs)
  from Cons.prems obtain z zs where z: "f x = Inr z" "mapSum f xs = Inr zs" "ys = z # zs"
    by (auto simp: bindSum_eq_Inr)
  from Cons.IH [OF z(2)] z show ?case by (auto simp: nth_Cons')
qed simp

subsection \<open>The common shape\<close>

text \<open>
  \<open>guarded\<close> says whether the hook looks at \<^verbatim>\<open>mountedRef\<close>; \<open>resets\<close> whether it forgets the previous error when it
  starts, \<open>clears\<close> whether it does so when it succeeds. The answer is decoded; a rejection and a failure to decode
  are shown as errors.
\<close>

definition showState :: "bool \<Rightarrow> (('p, 'd) hook \<Rightarrow> ('p, 'd) hook) \<Rightarrow> ('p, 'd) hook \<Rightarrow> ('p, 'd) hook" where
  "showState guarded f s = (if guarded then whenMounted f s else f s)"

record read_style =
  guarded :: bool
  resets :: bool
  clears :: bool

definition plainSettle ::
    "read_style \<Rightarrow> (thrown \<Rightarrow> sdk_error) \<Rightarrow> ('v \<Rightarrow> thrown + 'd) \<Rightarrow> 'v answer \<Rightarrow> ('q, 'v answer, ('p, 'd) hook, 'd option) prog" where
  "plainSettle y toErr decode a = (case bindSum a decode of
     Inr d \<Rightarrow> (\<lambda>s. finish (Some d) (showState (guarded y)
        (\<lambda>s. s\<lparr>hdata := d, loading := False, hookError := (if clears y then None else hookError s)\<rparr>) s))
   | Inl e \<Rightarrow> (\<lambda>s. finish None (showState (guarded y) (\<lambda>s. s\<lparr>hookError := Some (toErr e), loading := False\<rparr>) s)))"

definition plainRead ::
    "read_style \<Rightarrow> (thrown \<Rightarrow> sdk_error) \<Rightarrow> ('v \<Rightarrow> thrown + 'd) \<Rightarrow> 'q \<Rightarrow> ('q, 'v answer, ('p, 'd) hook, 'd option) prog" where
  "plainRead y toErr decode q =
     modify (showState (guarded y) (\<lambda>s. s\<lparr>loading := True, hookError := (if resets y then None else hookError s)\<rparr>))
       (await q (plainSettle y toErr decode))"

text \<open>Whatever arrives is shown while the component is there: nothing ties an answer to the props.\<close>

theorem plainRead_shows_any_answer:
  assumes "mountedRef s" and "decode v = Inr d"
  shows "\<exists>s'. launch (plainSettle y toErr decode (Inr v)) s = (s', []) \<and> hdata s' = d \<and> \<not> loading s' \<and> props s' = props s"
  using assms by (simp add: plainSettle_def launch_def showState_def whenMounted_def)

subsection \<open>Roles of an address\<close>

record rbac_props =
  rbEnabled :: bool
  rbClient :: "nat option"
  rbAddress :: string

datatype status_query =
    RolesQ nat string
  | AdminsQ nat "string list" "string list"
  | VestingQ "nat option" string
  | GuardQ nat string
  | SplitQ nat int
  | EventsQ nat "int option"
  | SequenceQ nat string
  | TtlQ nat string
  | RateQ nat string string
  | LedgerQ nat
  | SupplyQ nat
  | TokenQ nat
  | PlainAllowanceQ nat string string
  | ShareQ nat string

definition getDefaultRbacRoles :: "(string \<times> bool) list" where
  "getDefaultRbacRoles = map (\<lambda>r. (r, False)) VALID_ROLES"

type_synonym roles_data = "(string \<times> bool) list \<times> (string \<times> bool) list option"

text \<open>The four answers, in the order of the roles.\<close>

definition rolesResult :: "Native \<times> Native \<times> Native \<times> Native \<Rightarrow> (string \<times> bool) list" where
  "rolesResult a = (case a of (isAdmin, isSuperAdmin, isMinter, isPauser) \<Rightarrow>
     zip VALID_ROLES (map nativeTruthy [isAdmin, isSuperAdmin, isMinter, isPauser]))"

definition fetchRoles :: "rbac_props \<Rightarrow>
    (status_query, (Native \<times> Native \<times> Native \<times> Native) answer, (rbac_props, roles_data) hook, roles_data option) prog" where
  "fetchRoles p =
     (case rbClient p of
        None \<Rightarrow> refuse (\<lambda>s. s\<lparr>loading := False\<rparr>) None
      | Some c \<Rightarrow>
          if js_trim (rbAddress p) = []
          then refuse (\<lambda>s. s\<lparr>hdata := (getDefaultRbacRoles, None), hookError := None, loading := False\<rparr>) None
          else plainRead \<lparr>guarded = True, resets = True, clears = True\<rparr> asError (\<lambda>a. Inr (rolesResult a, Some (rolesResult a))) (RolesQ c (js_trim (rbAddress p))))"

definition useRbacRoles_effect :: "rbac_props \<Rightarrow>
    (status_query, (Native \<times> Native \<times> Native \<times> Native) answer, (rbac_props, roles_data) hook, roles_data option) prog" where
  "useRbacRoles_effect p =
     (if \<not> rbEnabled p \<or> js_trim (rbAddress p) = [] \<or> rbClient p = None
      then modify (\<lambda>s. s\<lparr>loading := False\<rparr>) (finish None)
      else fetchRoles p)"

text \<open>
  The effect clears only \<^verbatim>\<open>loading\<close> when the address goes away, so the roles of the previous address stay; the
  branch of \<open>fetchRoles\<close> that resets them is not reached from it.
\<close>

theorem useRbacRoles_keeps_roles:
  assumes "js_trim (rbAddress p) = []"
  shows "launch (useRbacRoles_effect p) s = (s\<lparr>loading := False\<rparr>, [])"
  using assms by (simp add: useRbacRoles_effect_def launch_def)

subsection \<open>Role admins\<close>

text \<open>
  The answers in the order in which they arrive: the contract's admin, the admin of each role asked for
  (\<open>None\<close> when the client has no such method), and which candidates are super admins.
\<close>

definition insertEnd :: "'a \<Rightarrow> 'a list \<Rightarrow> 'a list" where
  "insertEnd x xs = (if x \<in> set xs then xs else xs @ [x])"

record admin_lists =
  activeAdmins :: "string list"
  roleAdminMap :: "string \<rightharpoonup> string"
  superAdmins :: "string list"
  lastAdminError :: "thrown option"

definition noteContractAdmin :: "string option answer \<Rightarrow> admin_lists" where
  "noteContractAdmin a = (case a of
     Inr (Some c) \<Rightarrow> if c = [] then \<lparr>activeAdmins = [], roleAdminMap = Map.empty, superAdmins = [], lastAdminError = None\<rparr>
       else \<lparr>activeAdmins = [c], roleAdminMap = Map.empty, superAdmins = [c], lastAdminError = None\<rparr>
   | Inr None \<Rightarrow> \<lparr>activeAdmins = [], roleAdminMap = Map.empty, superAdmins = [], lastAdminError = None\<rparr>
   | Inl e \<Rightarrow> \<lparr>activeAdmins = [], roleAdminMap = Map.empty, superAdmins = [], lastAdminError = Some e\<rparr>)"

definition contractAdminOf :: "string option answer \<Rightarrow> string option" where
  "contractAdminOf a = (case a of Inr (Some c) \<Rightarrow> if c = [] then None else Some c | _ \<Rightarrow> None)"

definition noteRoleAdmin :: "string option \<Rightarrow> string \<times> string option answer option \<Rightarrow> admin_lists \<Rightarrow> admin_lists" where
  "noteRoleAdmin contractAdmin ra l =
     (let (r, a) = ra;
          found = (\<lambda>adr. l\<lparr>roleAdminMap := (roleAdminMap l)(r \<mapsto> adr), activeAdmins := insertEnd adr (activeAdmins l)\<rparr>)
      in case a of
           None \<Rightarrow> (case contractAdmin of Some c \<Rightarrow> found c | None \<Rightarrow> l)
         | Some (Inr (Some adr)) \<Rightarrow> if adr = [] then l else found adr
         | Some (Inr None) \<Rightarrow> l
         | Some (Inl e) \<Rightarrow>
             (case contractAdmin of
                Some c \<Rightarrow> l\<lparr>lastAdminError := Some e, roleAdminMap := (roleAdminMap l)(r \<mapsto> c)\<rparr>
              | None \<Rightarrow> l\<lparr>lastAdminError := Some e\<rparr>))"

definition noteCandidate :: "string \<times> bool answer \<Rightarrow> admin_lists \<Rightarrow> admin_lists" where
  "noteCandidate ca l = (case ca of
     (c, Inr True) \<Rightarrow> l\<lparr>activeAdmins := insertEnd c (activeAdmins l), superAdmins := insertEnd c (superAdmins l)\<rparr>
   | _ \<Rightarrow> l)"

definition collectAdmins ::
    "string option answer \<Rightarrow> (string \<times> string option answer option) list \<Rightarrow> (string \<times> bool answer) list \<Rightarrow> thrown + admin_lists" where
  "collectAdmins contractAnswer roleAnswers candidateAnswers =
     (let l = fold (noteRoleAdmin (contractAdminOf contractAnswer)) roleAnswers (noteContractAdmin contractAnswer)
      in case (activeAdmins l, lastAdminError l) of
           ([], Some e) \<Rightarrow> Inl e
         | _ \<Rightarrow> Inr (fold noteCandidate candidateAnswers l))"

text \<open>The roles that are asked for: one, or all four.\<close>

definition targetRoles :: "string option \<Rightarrow> string list" where
  "targetRoles r = (if truthy r then [the r] else VALID_ROLES)"

record admins_props =
  adEnabled :: bool
  adClient :: "nat option"
  adRole :: "string option"
  adCandidates :: "string list"

definition fetchAdmins :: "admins_props \<Rightarrow>
    (status_query, (string option answer \<times> (string \<times> string option answer option) list \<times> (string \<times> bool answer) list) answer,
     (admins_props, admin_lists) hook, admin_lists option) prog" where
  "fetchAdmins p = (case adClient p of
     None \<Rightarrow> refuse (\<lambda>s. s\<lparr>loading := False\<rparr>) None
   | Some c \<Rightarrow> plainRead \<lparr>guarded = True, resets = True, clears = True\<rparr> asError (\<lambda>(ca, ras, cas). collectAdmins ca ras cas)
       (AdminsQ c (targetRoles (adRole p)) (adCandidates p)))"

definition useRoleAdmins_effect where
  "useRoleAdmins_effect p = (if \<not> adEnabled p \<or> adClient p = None then modify (\<lambda>s. s\<lparr>loading := False\<rparr>) (finish None) else fetchAdmins p)"

lemma insertEnd_set [simp]: "set (insertEnd x xs) = insert x (set xs)"
  by (auto simp: insertEnd_def)

lemma insertEnd_distinct [simp]: "distinct (insertEnd x xs) \<longleftrightarrow> distinct xs"
  by (simp add: insertEnd_def)

lemma noteRoleAdmin_keeps:
  "set (activeAdmins l) \<subseteq> set (activeAdmins (noteRoleAdmin c ra l))"
  "distinct (activeAdmins l) \<Longrightarrow> distinct (activeAdmins (noteRoleAdmin c ra l))"
  "superAdmins (noteRoleAdmin c ra l) = superAdmins l"
  by (auto simp: noteRoleAdmin_def Let_def split: prod.splits option.splits sum.splits if_splits)

lemma noteCandidate_keeps:
  "set (activeAdmins l) \<subseteq> set (activeAdmins (noteCandidate ca l))"
  "distinct (activeAdmins l) \<Longrightarrow> distinct (activeAdmins (noteCandidate ca l))"
  "set (superAdmins l) \<subseteq> set (activeAdmins l) \<Longrightarrow> set (superAdmins (noteCandidate ca l)) \<subseteq> set (activeAdmins (noteCandidate ca l))"
  by (auto simp: noteCandidate_def split: prod.splits sum.splits bool.splits)

lemma fold_noteRoleAdmin:
  "distinct (activeAdmins l) \<Longrightarrow>
     distinct (activeAdmins (fold (noteRoleAdmin c) ras l)) \<and>
     set (activeAdmins l) \<subseteq> set (activeAdmins (fold (noteRoleAdmin c) ras l)) \<and>
     superAdmins (fold (noteRoleAdmin c) ras l) = superAdmins l"
proof (induction ras arbitrary: l)
  case (Cons ra ras)
  from Cons.IH [of "noteRoleAdmin c ra l"] noteRoleAdmin_keeps [where l = l and c = c and ra = ra] Cons.prems show ?case by auto
qed simp

lemma fold_noteCandidate:
  "distinct (activeAdmins l) \<Longrightarrow> set (superAdmins l) \<subseteq> set (activeAdmins l) \<Longrightarrow>
     distinct (activeAdmins (fold noteCandidate cas l)) \<and>
     set (activeAdmins l) \<subseteq> set (activeAdmins (fold noteCandidate cas l)) \<and>
     set (superAdmins (fold noteCandidate cas l)) \<subseteq> set (activeAdmins (fold noteCandidate cas l))"
proof (induction cas arbitrary: l)
  case (Cons ca cas)
  from Cons.IH [of "noteCandidate ca l"] noteCandidate_keeps [where l = l and ca = ca] Cons.prems show ?case by auto
qed simp

text \<open>
  In whatever order the answers arrive: no admin is listed twice, every super admin is listed as an admin, and
  so is the contract's own admin.
\<close>

theorem collectAdmins_lists:
  assumes "collectAdmins c ras cas = Inr l"
  shows "distinct (activeAdmins l) \<and> set (superAdmins l) \<subseteq> set (activeAdmins l) \<and>
    (\<forall>a. contractAdminOf c = Some a \<longrightarrow> a \<in> set (activeAdmins l))"
proof -
  let ?l = "fold (noteRoleAdmin (contractAdminOf c)) ras (noteContractAdmin c)"
  have l: "l = fold noteCandidate cas ?l"
    using assms by (auto simp: collectAdmins_def Let_def split: list.splits option.splits)
  have init: "distinct (activeAdmins (noteContractAdmin c))" "superAdmins (noteContractAdmin c) = activeAdmins (noteContractAdmin c)"
    "contractAdminOf c = Some a \<Longrightarrow> a \<in> set (activeAdmins (noteContractAdmin c))" for a
    by (auto simp: noteContractAdmin_def contractAdminOf_def split: sum.splits option.splits if_splits)
  have "distinct (activeAdmins ?l)" "set (superAdmins ?l) \<subseteq> set (activeAdmins ?l)"
    "set (activeAdmins (noteContractAdmin c)) \<subseteq> set (activeAdmins ?l)"
    using fold_noteRoleAdmin [OF init(1), of "contractAdminOf c" ras] init(2) by auto
  with fold_noteCandidate [of ?l cas] l init(3) show ?thesis by blast
qed

subsection \<open>Vesting schedules\<close>

record VestingScheduleData =
  scheduleId :: Native
  beneficiary :: string
  totalLocked :: int
  startLedger :: int
  cliffLedger :: int
  endLedger :: int
  cliffTimestamp :: Native
  vestEndTimestamp :: Native
  releasedAmount :: int
  vestedAmount :: int
  claimableAmount :: int
  revocable :: Native
  revoked :: Native

definition parseSchedule :: "string \<Rightarrow> int \<Rightarrow> nat \<Rightarrow> Native \<Rightarrow> thrown + VestingScheduleData" where
  "parseSchedule owner activeLedger idx item =
     (if item = NUndef \<or> item = NNull then Inl (typeError ''Cannot read properties of null (reading schedule)'')
      else let schedule = orNative (property item ''schedule'') item in
      bindSum (bigintOf (firstOf [property schedule ''total_amount'', property schedule ''totalAmount'',
          property schedule ''totalLocked'', NBig 0])) (\<lambda>tot.
      bindSum (ledgerOf (firstOf [property item ''start_ledger'', property item ''startLedger'', property schedule ''start_ledger'',
          property schedule ''startLedger'', NNum 0])) (\<lambda>start.
      bindSum (ledgerOf (firstOf [property schedule ''cliff_ledger'', property schedule ''cliffLedger'', NNum 0])) (\<lambda>cliff.
      bindSum (ledgerOf (firstOf [property schedule ''end_ledger'', property schedule ''endLedger'', NNum (start + 100)])) (\<lambda>lastLedger.
      bindSum (bigintOf (firstOf [property schedule ''released_amount'', property schedule ''releasedAmount'', NBig 0])) (\<lambda>released.
      let vested = calculateVestedAmount tot start cliff lastLedger activeLedger in
      bindSum (if property item ''claimable_amount'' \<noteq> NUndef then bigintOf (property item ''claimable_amount'')
               else Inr (if vested > released then vested - released else 0)) (\<lambda>claimable.
      Inr \<lparr>scheduleId = firstOf [property item ''schedule_id'', property item ''scheduleId'', NBig (int idx)],
           beneficiary = (if property schedule ''beneficiary'' = NUndef \<or> property schedule ''beneficiary'' = NNull then owner
                          else nativeString (property schedule ''beneficiary'')),
           totalLocked = tot, startLedger = start, cliffLedger = cliff, endLedger = lastLedger,
           cliffTimestamp = orElse (property item ''cliffTimestamp'') (NNum (cliff * 5000)),
           vestEndTimestamp = orElse (property item ''vestEndTimestamp'') (NNum (lastLedger * 5000)),
           releasedAmount = released, vestedAmount = vested, claimableAmount = claimable,
           revocable = orElse (property schedule ''revocable'') (NBool False),
           revoked = orElse (property item ''revoked'') (NBool False)\<rparr>)))))))"

text \<open>The raw answer: an array, a single object, or nothing.\<close>

definition rawSchedules :: "Native \<Rightarrow> thrown + Native list" where
  "rawSchedules v = (case v of
     NList vs \<Rightarrow> Inr vs
   | NObj fs \<Rightarrow> Inr [NObj fs]
   | _ \<Rightarrow> if nativeTruthy v then Inl (typeError ''(rawSchedules || []).map is not a function'') else Inr [])"

definition parseSchedules :: "string \<Rightarrow> int \<Rightarrow> Native \<Rightarrow> thrown + VestingScheduleData list" where
  "parseSchedules owner activeLedger v =
     bindSum (rawSchedules v) (\<lambda>vs. mapSum (\<lambda>(i, item). parseSchedule owner activeLedger i item) (enumerate 0 vs))"

text \<open>
  The ledger that counts as now: given, asked for (\<open>latest\<close>), or estimated at one ledger per five seconds from a
  time in seconds or milliseconds.
\<close>

definition activeLedger :: "int option \<Rightarrow> int option \<Rightarrow> int option \<Rightarrow> int \<Rightarrow> int" where
  "activeLedger explicit latest currentTimestamp now =
     (case explicit of Some l \<Rightarrow> l | None \<Rightarrow>
        case latest of Some l \<Rightarrow> l | None \<Rightarrow>
          case currentTimestamp of
            Some t \<Rightarrow> if t > 100000000000 then t div 5000 else t div 5
          | None \<Rightarrow> now div 5000)"

record vesting_props =
  vsEnabled :: bool
  vsClient :: "nat option"
  vsBeneficiary :: string
  vsLedger :: "int option"
  vsTimestamp :: "int option"

text \<open>The answer: the latest ledger when it was asked for, the time, and the raw schedules.\<close>

definition fetchSchedules :: "vesting_props \<Rightarrow>
    (status_query, (int option \<times> int \<times> Native) answer, (vesting_props, VestingScheduleData list) hook, VestingScheduleData list option) prog" where
  "fetchSchedules p =
     (if \<not> vsEnabled p \<or> vsBeneficiary p = [] then refuse (\<lambda>s. s\<lparr>hdata := [], loading := False\<rparr>) None
      else plainRead \<lparr>guarded = True, resets = True, clears = True\<rparr> normalizeMetadataError
             (\<lambda>(latest, now, v). parseSchedules (vsBeneficiary p) (activeLedger (vsLedger p) latest (vsTimestamp p) now) v)
             (VestingQ (vsClient p) (vsBeneficiary p)))"

text \<open>
  A schedule that says nothing about what can be claimed: what is shown as vested and not yet released.
\<close>

theorem parseSchedule_claimable:
  assumes "parseSchedule owner now idx item = Inr d" and "property item ''claimable_amount'' = NUndef"
  shows "claimableAmount d = max 0 (vestedAmount d - releasedAmount d) \<and>
    vestedAmount d = calculateVestedAmount (totalLocked d) (startLedger d) (cliffLedger d) (endLedger d) now"
  using assms by (auto simp: parseSchedule_def Let_def bindSum_eq_Inr max_def split: if_splits)

subsection \<open>The flash-loan guard\<close>

record guard_status =
  isLocked :: Native
  depositBlock :: Native
  guardLedger :: Native
  warning :: "string option"

definition noGuard :: guard_status where
  "noGuard = \<lparr>isLocked = NBool False, depositBlock = NNull, guardLedger = NNull, warning = None\<rparr>"

definition guardStatus :: "Native \<Rightarrow> thrown + guard_status" where
  "guardStatus res =
     (if res = NUndef \<or> res = NNull then Inl (typeError ''Cannot read properties of null (reading isLocked)'')
      else Inr \<lparr>isLocked = property res ''isLocked'', depositBlock = property res ''depositBlock'', guardLedger = property res ''currentLedger'',
        warning = (if nativeTruthy (property res ''isLocked'')
          then Some ''Flash loan guard active: withdrawals are prohibited in the same ledger block as deposit.'' else None)\<rparr>)"

record guard_props =
  gdEnabled :: bool
  gdClient :: "nat option"      \<comment> \<open>a client that can answer\<close>
  gdAddress :: string

definition checkStatus :: "guard_props \<Rightarrow> (status_query, Native answer, (guard_props, guard_status) hook, guard_status option) prog" where
  "checkStatus p =
     (if \<not> gdEnabled p \<or> gdAddress p = [] then refuse (\<lambda>s. s\<lparr>hdata := noGuard, loading := False, hookError := None\<rparr>) None
      else case gdClient p of
             None \<Rightarrow> refuse (\<lambda>s. s\<lparr>hdata := noGuard, loading := False, hookError := None\<rparr>) None
           | Some c \<Rightarrow>
               modify (whenMounted (\<lambda>s. s\<lparr>loading := True, hookError := None\<rparr>))
                 (await (GuardQ c (gdAddress p)) (\<lambda>a. case bindSum a guardStatus of
                    Inr d \<Rightarrow> refuse (\<lambda>s. s\<lparr>hdata := d, loading := False\<rparr>) (Some d)
                  | Inl e \<Rightarrow> refuse (\<lambda>s. s\<lparr>hookError := Some (asError e), loading := False,
                      hdata := (hdata s)\<lparr>warning := Some ''Failed to verify flash loan guard status.''\<rparr>\<rparr>) None)))"

text \<open>
  A check that fails leaves the lock as it was: a lock that was not seen before is still shown as open, with a
  warning.
\<close>

theorem failed_check_keeps_lock:
  assumes "checkStatus p s0 = (s1, Await q k)" and "launch (k (Inl e)) s = (s', new)"
  shows "isLocked (hdata s') = isLocked (hdata s) \<and> (mountedRef s \<longrightarrow> warning (hdata s') \<noteq> None \<and> hookError s' = Some (asError e))"
  using assms
  by (auto simp: checkStatus_def refuse_def bindSum_def launch_def whenMounted_def split: if_splits option.splits)

subsection \<open>Split invoices\<close>

record SplitRecipientShare =
  shareAddress :: Native
  shareAmount :: int
  sharePercentage :: js_number
  shareClaimable :: int

record split_data =
  recipients :: "SplitRecipientShare list"
  splitTotal :: "int option"
  splitReleased :: "int option"
  splitStatus :: "string option"
  splitCreatedAt :: "js_number option"

definition noSplit :: split_data where
  "noSplit = \<lparr>recipients = [], splitTotal = None, splitReleased = None, splitStatus = None, splitCreatedAt = None\<rparr>"

text \<open>\<^verbatim>\<open>Number(n) / 100\<close>.\<close>

definition hundredth :: "int \<Rightarrow> js_number" where
  "hundredth n = (case roundDouble (of_int n) of Fin q \<Rightarrow> roundDouble (q / 100) | x \<Rightarrow> x)"

definition isPending :: "Native \<Rightarrow> bool" where
  "isPending v \<longleftrightarrow> v = NStr ''Pending'' \<or> v = NNum 0 \<or> v = NStr ''pending''"

definition isFullyReleased :: "Native \<Rightarrow> bool" where
  "isFullyReleased v \<longleftrightarrow> v = NStr ''FullyReleased'' \<or> v = NNum 2 \<or> v = NStr ''fully_released''"

definition parseRecipient :: "int \<Rightarrow> Native \<Rightarrow> Native \<Rightarrow> thrown + SplitRecipientShare" where
  "parseRecipient tot st r =
     (if r = NUndef \<or> r = NNull then Inl (typeError ''Cannot read properties of null (reading to)'')
      else bindSum (bigintOf (orElse (property r ''amount'') (NNum 0))) (\<lambda>amt.
        Inr \<lparr>shareAddress = firstOf [property r ''to'', property r ''address'', NStr []], shareAmount = amt,
             sharePercentage = (if tot > 0 then hundredth (bigint_div (amt * 10000) tot) else Fin 0),
             shareClaimable = (if isFullyReleased st then 0 else if isPending st then amt else 0)\<rparr>))"

definition parseRecipients :: "int \<Rightarrow> Native \<Rightarrow> Native \<Rightarrow> thrown + SplitRecipientShare list" where
  "parseRecipients tot st v = (case v of
     NList rs \<Rightarrow> mapSum (parseRecipient tot st) rs
   | _ \<Rightarrow> Inl (typeError ''rawRecipients.map is not a function''))"

definition statusText :: "Native \<Rightarrow> string" where
  "statusText v = (case v of
     NStr t \<Rightarrow> t
   | NNum i \<Rightarrow> if 0 \<le> i \<and> i < 4 then [''Pending'', ''PartiallyReleased'', ''FullyReleased'', ''Failed''] ! nat i else ''Unknown''
   | _ \<Rightarrow> ''Unknown'')"

definition parseInvoice :: "Native \<Rightarrow> thrown + split_data" where
  "parseInvoice invoice =
     (if \<not> nativeTruthy invoice then Inr noSplit
      else
        bindSum (bigintOf (firstOf [property invoice ''total_amount'', property invoice ''totalAmount'', NNum 0])) (\<lambda>tot.
        bindSum (bigintOf (firstOf [property invoice ''released_amount'', property invoice ''releasedAmount'', NNum 0])) (\<lambda>released.
        bindSum (parseRecipients tot (property invoice ''status'') (orElse (property invoice ''recipients'') (NList []))) (\<lambda>rs.
        Inr \<lparr>recipients = rs, splitTotal = Some tot, splitReleased = Some released,
             splitStatus = Some (statusText (property invoice ''status'')),
             splitCreatedAt = Some (Number_native (firstOf [property invoice ''created_at'', property invoice ''createdAt'', NNum 0]))\<rparr>))))"

record split_props =
  spEnabled :: bool
  spClient :: "nat option"
  spInvoice :: "int option"

definition fetchShares :: "split_props \<Rightarrow> (status_query, Native answer, (split_props, split_data) hook, split_data option) prog" where
  "fetchShares p =
     (case (spEnabled p, spInvoice p, spClient p) of
        (True, Some i, Some c) \<Rightarrow> plainRead \<lparr>guarded = True, resets = True, clears = False\<rparr> asError parseInvoice (SplitQ c i)
      | _ \<Rightarrow> refuse (\<lambda>s. s\<lparr>hdata := noSplit, loading := False, hookError := None\<rparr>) None)"

text \<open>Nobody is shown a claim that exceeds the share, and a released invoice leaves nothing to claim.\<close>

theorem parseInvoice_claims:
  assumes "parseInvoice invoice = Inr d" and "r \<in> set (recipients d)"
  shows "(shareClaimable r = 0 \<or> shareClaimable r = shareAmount r) \<and>
    (isFullyReleased (property invoice ''status'') \<longrightarrow> shareClaimable r = 0) \<and>
    (isPending (property invoice ''status'') \<longrightarrow> shareClaimable r = shareAmount r)"
proof (cases "nativeTruthy invoice")
  case True
  then obtain tot v ys where v: "parseRecipients tot (property invoice ''status'') v = Inr ys" "recipients d = ys"
    using assms(1) by (auto simp: parseInvoice_def bindSum_eq_Inr)
  then obtain rs where rs: "mapSum (parseRecipient tot (property invoice ''status'')) rs = Inr ys"
    by (auto simp: parseRecipients_def split: Native.splits)
  then obtain i where i: "i < length rs" "parseRecipient tot (property invoice ''status'') (rs ! i) = Inr r"
    using mapSum_Inr [OF rs] assms(2) v(2) by (metis in_set_conv_nth)
  from i(2) show ?thesis
    by (auto simp: parseRecipient_def bindSum_eq_Inr isPending_def isFullyReleased_def split: if_splits)
next
  case False
  then show ?thesis using assms by (auto simp: parseInvoice_def noSplit_def)
qed

subsection \<open>Contract events\<close>

definition normalizeEventTopic :: "string \<Rightarrow> string" where
  "normalizeEventTopic t = (let l = map lower t in if l = ''xfer'' \<or> l = ''xfer_frm'' then ''transfer'' else l)"

record ContractEventItem =
  evId :: string
  evType :: string
  evTopic :: string
  evTopics :: "string list"
  evLedger :: js_number
  evClosedAt :: "string option"
  evContract :: string
  evData :: Native
  evTxHash :: "string option"
  evRaw :: Native

definition eventTopics :: "Native \<Rightarrow> string list" where
  "eventTopics item = (case property item ''topics'' of
     NList ts \<Rightarrow> map nativeString ts
   | _ \<Rightarrow> (case property item ''topic'' of
       NList ts \<Rightarrow> map nativeString ts
     | NStr t \<Rightarrow> [t]
     | _ \<Rightarrow> if nativeTruthy (property item ''type'') then [nativeString (property item ''type'')] else []))"

definition eventType :: "Native \<Rightarrow> string" where
  "eventType item =
     (if eventTopics item \<noteq> [] \<and> \<not> nativeTruthy (property item ''type'') then hd (eventTopics item)
      else nativeString (orNative (property item ''type'') (orNative (property item ''topic'') (NStr ''unknown''))))"

definition eventMatches :: "string list option \<Rightarrow> Native \<Rightarrow> bool" where
  "eventMatches topics item = (case topics of
     Some (t # ts) \<Rightarrow>
       (let wanted = map normalizeEventTopic (t # ts)
        in list_ex (\<lambda>u. normalizeEventTopic u \<in> set wanted) (eventTopics item) \<or> normalizeEventTopic (eventType item) \<in> set wanted)
   | _ \<Rightarrow> True)"

definition optionalText :: "Native \<Rightarrow> string option" where
  "optionalText v = (if nativeTruthy v then Some (nativeString v) else None)"

definition eventItem :: "string \<Rightarrow> nat \<Rightarrow> Native \<Rightarrow> ContractEventItem" where
  "eventItem target i item =
     \<lparr>evId = nativeString (orNative (property item ''id'') (orNative (property item ''txHash'')
         (NStr (''evt-'' @ nativeString (orNative (property item ''ledger'') (NNum 0)) @ ''-'' @ show_nat i)))),
      evType = eventType item,
      evTopic = (case eventTopics item of t # _ \<Rightarrow> if t = [] then eventType item else t | [] \<Rightarrow> eventType item),
      evTopics = eventTopics item,
      evLedger = Number_native (orNative (property item ''ledger'') (NNum 0)),
      evClosedAt = optionalText (property item ''ledgerClosedAt''),
      evContract = nativeString (orNative (property item ''contractId'') (NStr target)),
      evData = (if property item ''data'' \<noteq> NUndef then property item ''data'' else property item ''value''),
      evTxHash = optionalText (property item ''txHash''), evRaw = item\<rparr>"

text \<open>The loop, with what has been collected; it stops after the entry that reaches the limit.\<close>

fun parseEvents :: "string \<Rightarrow> string list option \<Rightarrow> int \<Rightarrow> nat \<Rightarrow> Native list \<Rightarrow> ContractEventItem list \<Rightarrow> ContractEventItem list" where
  "parseEvents target topics limit i [] acc = acc"
| "parseEvents target topics limit i (item # items) acc =
     (if \<not> nativeTruthy item \<or> \<not> eventMatches topics item then parseEvents target topics limit (Suc i) items acc
      else if int (length (acc @ [eventItem target i item])) \<ge> limit then acc @ [eventItem target i item]
      else parseEvents target topics limit (Suc i) items (acc @ [eventItem target i item]))"

record events_props =
  evEnabled :: bool
  evClient :: "nat option"
  evTarget :: string
  evFilter :: "string list option"
  evStart :: "int option"
  evLimit :: int

definition fetchEvents :: "events_props \<Rightarrow>
    (status_query, Native list answer, (events_props, ContractEventItem list) hook, ContractEventItem list option) prog" where
  "fetchEvents p =
     (case (evEnabled p, evClient p) of
        (True, Some c) \<Rightarrow> plainRead \<lparr>guarded = False, resets = True, clears = False\<rparr> asError
          (\<lambda>items. Inr (parseEvents (evTarget p) (evFilter p) (evLimit p) 0 items [])) (EventsQ c (evStart p))
      | _ \<Rightarrow> finish None)"

lemma parseEvents_length:
  "int (length acc) \<le> max 1 limit - 1 \<Longrightarrow> int (length (parseEvents target topics limit i items acc)) \<le> max 1 limit"
proof (induction target topics limit i items acc rule: parseEvents.induct)
  case (2 target topics limit i item items acc)
  then show ?case by auto
qed auto

lemma parseEvents_entry:
  "e \<in> set (parseEvents target topics limit i items acc) \<Longrightarrow>
     e \<in> set acc \<or> (\<exists>j item. (j, item) \<in> set (enumerate i items) \<and> nativeTruthy item \<and> eventMatches topics item \<and> e = eventItem target j item)"
proof (induction target topics limit i items acc rule: parseEvents.induct)
  case (2 target topics limit i item items acc)
  then show ?case by (fastforce split: if_splits)
qed simp

text \<open>
  The feed holds only events that pass the filter, each as it was decoded from its entry, and no more of them than
  the limit; a limit of zero still lets one through.
\<close>

theorem parseEvents_feed:
  "int (length (parseEvents target topics limit 0 items [])) \<le> max 1 limit \<and>
   (\<forall>e \<in> set (parseEvents target topics limit 0 items []). \<exists>j item. (j, item) \<in> set (enumerate 0 items) \<and>
      eventMatches topics item \<and> e = eventItem target j item)"
  using parseEvents_length [of "[]" limit target topics 0 items] parseEvents_entry [of _ target topics limit 0 items "[]"] by fastforce

lemma zero_limit_lets_one_through:
  "nativeTruthy item \<Longrightarrow> eventMatches topics item \<Longrightarrow> parseEvents target topics 0 0 (item # items) [] = [eventItem target 0 item]"
  by simp

subsection \<open>Account sequences\<close>

text \<open>
  A read whose client may lack the method: then a fixed value stands for the answer, at once. \<^verbatim>\<open>sequenceRef\<close> is set
  wherever \<^verbatim>\<open>sequence\<close> is, so one value models both.
\<close>

definition plainReadOr ::
    "read_style \<Rightarrow> (thrown \<Rightarrow> sdk_error) \<Rightarrow> ('v \<Rightarrow> thrown + 'd) \<Rightarrow> 'v \<Rightarrow> 'q option \<Rightarrow> ('q, 'v answer, ('p, 'd) hook, 'd option) prog" where
  "plainReadOr y toErr decode dflt q = (case q of
     Some q' \<Rightarrow> plainRead y toErr decode q'
   | None \<Rightarrow> modify (showState (guarded y) (\<lambda>s. s\<lparr>loading := True, hookError := (if resets y then None else hookError s)\<rparr>))
       (plainSettle y toErr decode (Inr dflt)))"

abbreviation unguardedRead :: read_style where
  "unguardedRead \<equiv> \<lparr>guarded = False, resets = True, clears = False\<rparr>"

record sequence_props =
  sqEnabled :: bool
  sqClient :: "nat option"
  sqAsks :: bool               \<comment> \<open>the client or its server can be asked\<close>
  sqAddress :: string

type_synonym sequence_hook = "(sequence_props, int option) hook"

definition fetchSequence :: "sequence_props \<Rightarrow> (status_query, Native answer, sequence_hook, int option option) prog" where
  "fetchSequence p = (case sqClient p of
     Some c \<Rightarrow>
       if sqAddress p = [] \<or> \<not> sqEnabled p then modify (\<lambda>s. s\<lparr>hdata := None\<rparr>) (finish None)
       else plainReadOr unguardedRead asError (\<lambda>v. bindSum (bigintOf v) (\<lambda>i. Inr (Some i))) (NStr ''1'')
              (if sqAsks p then Some (SequenceQ c (sqAddress p)) else None)
   | None \<Rightarrow> modify (\<lambda>s. s\<lparr>hdata := None\<rparr>) (finish None))"

definition incrementSequence :: "sequence_hook \<Rightarrow> sequence_hook \<times> int option" where
  "incrementSequence s = (case hdata s of
     None \<Rightarrow> (s, None)
   | Some n \<Rightarrow> (s\<lparr>hdata := Some (n + 1)\<rparr>, Some (n + 1)))"

definition handleSequenceMismatch :: "sequence_props \<Rightarrow> (status_query, Native answer, sequence_hook, int option option) prog" where
  "handleSequenceMismatch = fetchSequence"

definition nextSequence :: "sequence_hook \<Rightarrow> int option" where
  "nextSequence s = map_option (\<lambda>n. n + 1) (hdata s)"

text \<open>The numbers handed out by \<open>n\<close> increments in a row.\<close>

fun takeSequences :: "nat \<Rightarrow> sequence_hook \<Rightarrow> sequence_hook \<times> int list" where
  "takeSequences 0 s = (s, [])"
| "takeSequences (Suc n) s = (case incrementSequence s of
     (s', None) \<Rightarrow> (s', [])
   | (s', Some i) \<Rightarrow> (case takeSequences n s' of (s'', is) \<Rightarrow> (s'', i # is)))"

lemma takeSequences_run: "hdata s = Some i \<Longrightarrow>
    fst (takeSequences n s) = s\<lparr>hdata := Some (i + int n)\<rparr> \<and> snd (takeSequences n s) = map (\<lambda>j. i + int j) [1..<Suc n]"
proof (induction n arbitrary: s i)
  case 0
  then show ?case by (cases s) simp
next
  case (Suc n)
  let ?s = "s\<lparr>hdata := Some (i + 1)\<rparr>"
  have inc: "incrementSequence s = (?s, Some (i + 1))" using Suc.prems by (simp add: incrementSequence_def)
  have "map (\<lambda>j. i + int j) [1..<Suc (Suc n)] = (i + 1) # map (\<lambda>j. i + 1 + int j) [1..<Suc n]"
    by (simp add: upt_conv_Cons map_Suc_upt [symmetric] comp_def del: upt_Suc)
  with Suc.IH [of ?s "i + 1"] inc show ?case
    by (cases "takeSequences n ?s") (simp add: add.assoc del: upt_Suc)
qed

text \<open>
  The numbers handed out in a row are consecutive and all different, so a chain of transactions does not collide
  with itself.
\<close>

theorem takeSequences_consecutive:
  assumes "hdata s = Some i" and "takeSequences n s = (s', ns)"
  shows "ns = map (\<lambda>j. i + int j) [1..<Suc n] \<and> distinct ns \<and> hdata s' = Some (i + int n)"
  using takeSequences_run [OF assms(1), of n] assms(2) by (auto simp: distinct_map inj_on_def simp del: upt_Suc)

text \<open>
  But the answer to a query that was under way when they were handed out sets the counter back, and the next
  one handed out is the first of them again.
\<close>

theorem late_answer_repeats_sequence:
  assumes "fetchSequence p s0 = (s1, Await q k)" and "hdata s1 = Some i"
    and "takeSequences (Suc n) s1 = (s2, ns)" and "launch (k (Inr (NBig i))) s2 = (s3, new)"
  shows "snd (incrementSequence s3) = Some (hd ns)"
proof -
  have ns: "hd ns = i + 1"
    using takeSequences_run [OF assms(2), of "Suc n"] assms(3) by (simp add: upt_conv_Cons del: upt_Suc takeSequences.simps)
  have "hdata s3 = Some i"
    using assms(1,4) by (auto simp: fetchSequence_def plainReadOr_def plainRead_def plainSettle_def launch_def showState_def
        split: option.splits if_splits sum.splits)
  with ns show ?thesis by (simp add: incrementSequence_def)
qed

subsection \<open>Contract TTL\<close>

record ttl_info =
  infoLedger :: int
  infoLiveUntil :: int
  infoRemaining :: int

record ContractTtlData =
  ttlContract :: string
  ttlLedger :: int
  ttlLiveUntil :: int
  ledgersRemaining :: int
  isLowTtl :: bool
  ttlThreshold :: int

record ttl_props =
  ttEnabled :: bool
  ttClient :: "nat option"
  ttAsks :: bool               \<comment> \<open>the client has \<^verbatim>\<open>getContractTtl\<close>\<close>
  ttTarget :: string
  ttThreshold :: int

definition ttlData :: "string \<Rightarrow> int \<Rightarrow> ttl_info \<Rightarrow> ContractTtlData" where
  "ttlData target threshold i =
     (let remaining = max 0 (infoRemaining i)
      in \<lparr>ttlContract = target, ttlLedger = infoLedger i, ttlLiveUntil = infoLiveUntil i, ledgersRemaining = remaining,
          isLowTtl = (remaining \<le> threshold), ttlThreshold = threshold\<rparr>)"

definition mockTtl :: ttl_info where
  "mockTtl = \<lparr>infoLedger = 1000, infoLiveUntil = 1500, infoRemaining = 500\<rparr>"

definition fetchTtl :: "ttl_props \<Rightarrow> (status_query, ttl_info answer, (ttl_props, ContractTtlData option) hook, ContractTtlData option option) prog" where
  "fetchTtl p = (case (ttClient p, ttEnabled p) of
     (Some c, True) \<Rightarrow> plainReadOr unguardedRead asError (\<lambda>i. Inr (Some (ttlData (ttTarget p) (ttThreshold p) i))) mockTtl
        (if ttAsks p then Some (TtlQ c (ttTarget p)) else None)
   | _ \<Rightarrow> modify (\<lambda>s. s\<lparr>hdata := None\<rparr>) (finish None))"

definition shownLowTtl :: "(ttl_props, ContractTtlData option) hook \<Rightarrow> bool" where
  "shownLowTtl s = (case hdata s of Some d \<Rightarrow> isLowTtl d | None \<Rightarrow> False)"

text \<open>
  What is shown is never negative and the warning is on exactly when the entry is at or under the threshold, so
  an expired contract is flagged for every threshold that is not negative.
\<close>

theorem ttlData_warns:
  "let d = ttlData target threshold i in
     0 \<le> ledgersRemaining d \<and> (isLowTtl d \<longleftrightarrow> ledgersRemaining d \<le> threshold) \<and>
     (infoRemaining i \<le> 0 \<longrightarrow> 0 \<le> threshold \<longrightarrow> isLowTtl d)"
  by (simp add: ttlData_def Let_def)

subsection \<open>Rate limits\<close>

record rate_info =
  rateLimit :: int
  rateWindow :: int
  rateUsage :: int
  rateQuota :: int
  rateCooldown :: int
  rateThrottled :: bool

record RateLimitStatusData = rate_info +
  rateAddress :: string
  rateOperation :: string

record rate_props =
  rtEnabled :: bool
  rtClient :: "nat option"
  rtAsks :: bool               \<comment> \<open>the client has \<^verbatim>\<open>getRateLimitStatus\<close>\<close>
  rtExplicit :: string
  rtWallet :: string
  rtOperation :: string

definition rateTarget :: "rate_props \<Rightarrow> string" where
  "rateTarget p = (if rtExplicit p \<noteq> [] then rtExplicit p else rtWallet p)"

definition rateData :: "string \<Rightarrow> string \<Rightarrow> rate_info \<Rightarrow> RateLimitStatusData" where
  "rateData address operation i =
     \<lparr>rateLimit = rateLimit i, rateWindow = rateWindow i, rateUsage = rateUsage i,
      rateQuota = (if rateUsage i \<ge> rateLimit i then 0 else rateLimit i - rateUsage i),
      rateCooldown = rateCooldown i,
      rateThrottled = (rateThrottled i \<or> rateUsage i \<ge> rateLimit i \<or> rateCooldown i > 0),
      rateAddress = address, rateOperation = operation\<rparr>"

definition mockRate :: rate_info where
  "mockRate = \<lparr>rateLimit = 1000, rateWindow = 3600, rateUsage = 0, rateQuota = 1000, rateCooldown = 0, rateThrottled = False\<rparr>"

definition fetchRate :: "rate_props \<Rightarrow>
    (status_query, rate_info answer, (rate_props, RateLimitStatusData option) hook, RateLimitStatusData option option) prog" where
  "fetchRate p = (case rtClient p of
     Some c \<Rightarrow>
       if rateTarget p = [] \<or> \<not> rtEnabled p then modify (\<lambda>s. s\<lparr>hdata := None\<rparr>) (finish None)
       else plainReadOr unguardedRead asError (\<lambda>i. Inr (Some (rateData (rateTarget p) (rtOperation p) i))) mockRate
              (if rtAsks p then Some (RateQ c (rateTarget p) (rtOperation p)) else None)
   | None \<Rightarrow> modify (\<lambda>s. s\<lparr>hdata := None\<rparr>) (finish None))"

text \<open>
  The quota that is shown is what is left of the limit, and an address shown as free has some left and no
  cooldown.
\<close>

theorem rateData_quota:
  "let d = rateData address operation i in
     rateQuota d = max 0 (rateLimit i - rateUsage i) \<and>
     (\<not> rateThrottled d \<longrightarrow> 0 < rateQuota d \<and> rateCooldown d \<le> 0 \<and> \<not> rateThrottled i)"
  by (simp add: rateData_def Let_def max_def)

subsection \<open>The latest ledger\<close>

text \<open>The answer comes with the time at which it arrives.\<close>

record ledger_view =
  ledgerSequence :: "int option"
  observedAt :: "int option"

definition ledgerSettle :: "(int \<times> int) answer \<Rightarrow> (status_query, (int \<times> int) answer, (nat, ledger_view) hook, unit) prog" where
  "ledgerSettle a = (case a of
     Inr (n, now) \<Rightarrow> modify (whenMounted (\<lambda>s. s\<lparr>hookError := None,
         hdata := (if ledgerSequence (hdata s) \<noteq> Some n then \<lparr>ledgerSequence = Some n, observedAt = Some now\<rparr> else hdata s)\<rparr>)) (finish ())
   | Inl e \<Rightarrow> modify (whenMounted (\<lambda>s. s\<lparr>hookError := Some (asError e)\<rparr>)) (finish ()))"

definition fetchLedger :: "nat \<Rightarrow> (status_query, (int \<times> int) answer, (nat, ledger_view) hook, unit) prog" where
  "fetchLedger c = await (LedgerQ c) ledgerSettle"

text \<open>
  A failure keeps the last known ledger; an answer that repeats it keeps the time at which it was first seen;
  and any other answer is shown, also an older one that arrives late.
\<close>

theorem ledgerSettle_view:
  assumes "mountedRef s" and "launch (ledgerSettle a) s = (s', new)"
  shows "(case a of
       Inl e \<Rightarrow> hdata s' = hdata s \<and> hookError s' = Some (asError e)
     | Inr (n, now) \<Rightarrow> ledgerSequence (hdata s') = Some n \<and> hookError s' = None \<and>
         (if ledgerSequence (hdata s) = Some n then hdata s' = hdata s else observedAt (hdata s') = Some now))"
  using assms by (auto simp: ledgerSettle_def launch_def whenMounted_def split: sum.splits prod.splits)

subsection \<open>Supply, token data, allowance and vault shares\<close>

abbreviation stickyRead :: read_style where
  "stickyRead \<equiv> \<lparr>guarded = False, resets = False, clears = False\<rparr>"

definition fetchTotalSupply :: "nat \<Rightarrow> (status_query, int answer, (nat, int option) hook, int option option) prog" where
  "fetchTotalSupply c = plainRead stickyRead asError (\<lambda>v. Inr (Some v)) (SupplyQ c)"

definition useBcForgeToken_effect ::
    "nat \<Rightarrow> (status_query, (string \<times> string \<times> int) answer, (nat, (string \<times> string \<times> int) option) hook,
       (string \<times> string \<times> int) option option) prog" where
  "useBcForgeToken_effect c = plainRead stickyRead asError (\<lambda>v. Inr (Some v)) (TokenQ c)"

definition fetchPlainAllowance :: "nat \<times> string \<times> string \<Rightarrow>
    (status_query, int answer, (nat \<times> string \<times> string, int option) hook, int option option) prog" where
  "fetchPlainAllowance p = (case p of (c, owner, spender) \<Rightarrow>
     if owner = [] \<or> spender = [] then finish None
     else plainRead unguardedRead asError (\<lambda>v. Inr (Some v)) (PlainAllowanceQ c owner spender))"

definition fetchShareBalance :: "nat option \<times> string \<times> bool \<Rightarrow>
    (status_query, int answer, (nat option \<times> string \<times> bool, int option) hook, int option option) prog" where
  "fetchShareBalance p = (case p of
     (Some c, address, True) \<Rightarrow>
       if address = [] then finish None else plainRead unguardedRead asError (\<lambda>v. Inr (Some v)) (ShareQ c address)
   | _ \<Rightarrow> finish None)"

text \<open>\<^verbatim>\<open>useTotalSupply\<close> and \<^verbatim>\<open>useBcForgeToken\<close> never take an error back, however often they succeed afterwards.\<close>

lemma stickyRead_preserves: "preserves (\<lambda>s. hookError s \<noteq> None) (plainRead stickyRead asError decode q)"
  unfolding plainRead_def plainSettle_def
  by (auto simp: showState_def preserves_def split: sum.splits intro!: preservesTask.returns preservesTask.awaits)

theorem totalSupply_error_sticks: "preserves (\<lambda>s. hookError s \<noteq> None) (fetchTotalSupply c)"
  unfolding fetchTotalSupply_def by (rule stickyRead_preserves)

theorem tokenData_error_sticks: "preserves (\<lambda>s. hookError s \<noteq> None) (useBcForgeToken_effect c)"
  unfolding useBcForgeToken_effect_def by (rule stickyRead_preserves)

text \<open>The shares of a depositor stay shown after the wallet is gone: nothing is read, and nothing is cleared.\<close>

theorem shareBalance_stays: "launch (fetchShareBalance (c, [], e)) s = (s, [])"
  by (cases c; cases e) (simp_all add: fetchShareBalance_def launch_def)

end
