(* ===== verification/JsJson.thy ===== *)
theory JsJson
  imports JsNumber
begin

text \<open>
  \<^verbatim>\<open>JSON.parse\<close> and the part of \<^verbatim>\<open>JSON.stringify\<close> that the wallet session uses (objects whose
  fields are strings). The parser follows the JSON grammar: white space, the literals, numbers,
  strings with their escapes, arrays and objects; of several fields with one name the last one
  counts. A string is a list of the model's characters, so an escape for a code unit above
  \<^verbatim>\<open>U+00FF\<close> has no counterpart and makes the parse fail.

  The parser is total: it checks that what is left after a value is shorter than what it was
  given, which \<open>parseValue_shorter\<close> shows to be always so.
\<close>

datatype json_value =
    JsonNull
  | JsonBool bool
  | JsonNumber js_number
  | JsonString string
  | JsonArray "json_value list"
  | JsonObject "(string \<times> json_value) list"

subsection \<open>Tokens\<close>

definition jsonSpace :: "char \<Rightarrow> bool" where
  "jsonSpace c \<longleftrightarrow> c \<in> set [CHR '' '', CHR 0x09, CHR 0x0A, CHR 0x0D]"

definition skipSpace :: "string \<Rightarrow> string" where
  "skipSpace s = dropWhile jsonSpace s"

definition backslash :: char where
  "backslash = CHR 0x5C"

definition dquote :: char where
  "dquote = CHR 0x22"

fun shortEscape :: "char \<Rightarrow> char option" where
  "shortEscape c = map_of [(dquote, dquote), (backslash, backslash), (CHR ''/'', CHR ''/''), (CHR ''b'', CHR 0x08),
     (CHR ''f'', CHR 0x0C), (CHR ''n'', CHR 0x0A), (CHR ''r'', CHR 0x0D), (CHR ''t'', CHR 0x09)] c"

definition codeUnit :: "string \<Rightarrow> char option" where
  "codeUnit h = (case parse_radix 16 h of Some n \<Rightarrow> if n < 256 then Some (char_of n) else None | None \<Rightarrow> None)"

text \<open>The characters of a string after the opening quote, and what follows the closing one.\<close>

fun jsonChars :: "string \<Rightarrow> (string \<times> string) option" where
  "jsonChars [] = None"
| "jsonChars (c # s) =
     (if c = dquote then Some ([], s)
      else if c = backslash then
        (case s of
           [] \<Rightarrow> None
         | e # t \<Rightarrow>
             if e = CHR ''u'' then
               (case t of
                  h1 # h2 # h3 # h4 # r \<Rightarrow>
                    (case codeUnit [h1, h2, h3, h4] of
                       Some d \<Rightarrow> map_option (map_prod ((#) d) id) (jsonChars r)
                     | None \<Rightarrow> None)
                | _ \<Rightarrow> None)
             else (case shortEscape e of
                     Some d \<Rightarrow> map_option (map_prod ((#) d) id) (jsonChars t)
                   | None \<Rightarrow> None))
      else if (of_char c :: nat) < 32 then None
      else map_option (map_prod ((#) c) id) (jsonChars s))"

text \<open>The longest prefix that is a number; \<open>None\<close> when the text does not start with one.\<close>

definition jsonDigits :: "string \<Rightarrow> (string \<times> string) option" where
  "jsonDigits s = (if takeWhile isDigit s = [] then None else Some (takeWhile isDigit s, dropWhile isDigit s))"

definition jsonInt :: "string \<Rightarrow> (string \<times> string) option" where
  "jsonInt s = (case s of
     [] \<Rightarrow> None
   | c # t \<Rightarrow> if c = CHR ''0'' then Some ([c], t) else jsonDigits s)"

definition jsonFraction :: "string \<Rightarrow> (string \<times> string) option" where
  "jsonFraction s = (case s of
     c # t \<Rightarrow> if c = CHR ''.'' then map_option (map_prod ((#) c) id) (jsonDigits t) else Some ([], s)
   | [] \<Rightarrow> Some ([], []))"

definition jsonExponent :: "string \<Rightarrow> (string \<times> string) option" where
  "jsonExponent s = (case s of
     c # t \<Rightarrow>
       if c = CHR ''e'' \<or> c = CHR ''E'' then
         (case t of
            d # u \<Rightarrow> if d = CHR ''+'' \<or> d = CHR ''-'' then map_option (map_prod (\<lambda>x. c # d # x) id) (jsonDigits u)
                      else map_option (map_prod ((#) c) id) (jsonDigits t)
          | [] \<Rightarrow> None)
       else Some ([], s)
   | [] \<Rightarrow> Some ([], []))"

definition jsonNumber :: "string \<Rightarrow> (json_value \<times> string) option" where
  "jsonNumber s0 =
     (let (sign, s) = (case s0 of c # t \<Rightarrow> if c = CHR ''-'' then ([c], t) else ([], s0) | [] \<Rightarrow> ([], s0))
      in case jsonInt s of
           None \<Rightarrow> None
         | Some (i, r) \<Rightarrow>
             (case jsonFraction r of
                None \<Rightarrow> None
              | Some (f, r') \<Rightarrow>
                  (case jsonExponent r' of
                     None \<Rightarrow> None
                   | Some (e, r'') \<Rightarrow> Some (JsonNumber (Number_string (sign @ i @ f @ e)), r''))))"

definition jsonLiteral :: "string \<Rightarrow> (json_value \<times> string) option" where
  "jsonLiteral s =
     (if take 4 s = ''null'' then Some (JsonNull, drop 4 s)
      else if take 4 s = ''true'' then Some (JsonBool True, drop 4 s)
      else if take 5 s = ''false'' then Some (JsonBool False, drop 5 s)
      else jsonNumber s)"

subsection \<open>Values\<close>

lemma skipSpace_le: "length (skipSpace s) \<le> length s"
  by (simp add: skipSpace_def length_dropWhile_le)

lemma skipSpace_Cons_less: "skipSpace s = c # t \<Longrightarrow> length t < length s"
  using skipSpace_le [of s] by simp

text \<open>
  \<open>parseElements\<close> and \<open>parseMembers\<close> start at an element and go on to the closing bracket; the
  brackets of an empty array or object are read by \<open>parseValue\<close>.
\<close>

function (sequential) parseValue :: "string \<Rightarrow> (json_value \<times> string) option"
  and parseElements :: "string \<Rightarrow> (json_value list \<times> string) option"
  and parseMembers :: "string \<Rightarrow> ((string \<times> json_value) list \<times> string) option" where
  "parseValue s =
     (case skipSpace s of
        [] \<Rightarrow> None
      | c # t \<Rightarrow>
          if c = dquote then map_option (map_prod JsonString id) (jsonChars t)
          else if c = CHR ''['' then
            (case skipSpace t of
               [] \<Rightarrow> None
             | d # u \<Rightarrow> if d = CHR '']'' then Some (JsonArray [], u)
                        else map_option (map_prod JsonArray id) (parseElements t))
          else if c = CHR ''{'' then
            (case skipSpace t of
               [] \<Rightarrow> None
             | d # u \<Rightarrow> if d = CHR ''}'' then Some (JsonObject [], u)
                        else map_option (map_prod JsonObject id) (parseMembers t))
          else jsonLiteral (c # t))"
| "parseElements s =
     (case parseValue s of
        None \<Rightarrow> None
      | Some (v, r) \<Rightarrow>
          (case skipSpace r of
             [] \<Rightarrow> None
           | c # u \<Rightarrow>
               if c = CHR '']'' then Some ([v], u)
               else if c = CHR '','' \<and> length u < length s then map_option (map_prod ((#) v) id) (parseElements u)
               else None))"
| "parseMembers s =
     (case skipSpace s of
        [] \<Rightarrow> None
      | q # t \<Rightarrow>
          if q \<noteq> dquote then None
          else (case jsonChars t of
            None \<Rightarrow> None
          | Some (name, r) \<Rightarrow>
              (case skipSpace r of
                 [] \<Rightarrow> None
               | c # w \<Rightarrow>
                   if c \<noteq> CHR '':'' \<or> \<not> length w < length s then None
                   else (case parseValue w of
                     None \<Rightarrow> None
                   | Some (v, r') \<Rightarrow>
                       (case skipSpace r' of
                          [] \<Rightarrow> None
                        | d # u \<Rightarrow>
                            if d = CHR ''}'' then Some ([(name, v)], u)
                            else if d = CHR '','' \<and> length u < length s
                            then map_option (map_prod ((#) (name, v)) id) (parseMembers u)
                            else None)))))"
  by pat_completeness auto

termination
proof (relation "measure (\<lambda>x. case x of Inl s \<Rightarrow> 2 * length s | Inr (Inl s) \<Rightarrow> 2 * length s + 1
    | Inr (Inr s) \<Rightarrow> 2 * length s + 1)")
qed (auto dest!: skipSpace_Cons_less)

declare parseValue.simps [simp del] parseElements.simps [simp del] parseMembers.simps [simp del]

text \<open>\<^verbatim>\<open>JSON.parse(text)\<close>; \<open>None\<close> is a \<^verbatim>\<open>SyntaxError\<close>.\<close>

definition JSON_parse :: "string \<Rightarrow> json_value option" where
  "JSON_parse s = (case parseValue s of Some (v, r) \<Rightarrow> if skipSpace r = [] then Some v else None | None \<Rightarrow> None)"

text \<open>A property of a parsed object; an array and a primitive have none of those that are read.\<close>

definition jsonField :: "json_value \<Rightarrow> string \<Rightarrow> json_value option" where
  "jsonField v name = (case v of JsonObject fs \<Rightarrow> map_of (rev fs) name | _ \<Rightarrow> None)"

subsection \<open>Writing\<close>

definition hexDigit :: "nat \<Rightarrow> char" where
  "hexDigit n = ''0123456789abcdef'' ! n"

text \<open>One character of a string as \<^verbatim>\<open>JSON.stringify\<close> writes it.\<close>

definition quoteChar :: "char \<Rightarrow> string" where
  "quoteChar c =
     (case map_of [(dquote, dquote), (backslash, backslash), (CHR 0x08, CHR ''b''), (CHR 0x0C, CHR ''f''),
        (CHR 0x0A, CHR ''n''), (CHR 0x0D, CHR ''r''), (CHR 0x09, CHR ''t'')] c of
        Some e \<Rightarrow> [backslash, e]
      | None \<Rightarrow>
          if (of_char c :: nat) < 32
          then [backslash, CHR ''u'', CHR ''0'', CHR ''0'', hexDigit (of_char c div 16), hexDigit (of_char c mod 16)]
          else [c])"

definition jsonQuote :: "string \<Rightarrow> string" where
  "jsonQuote s = dquote # concat (map quoteChar s) @ [dquote]"

fun jsonMembers :: "(string \<times> string) list \<Rightarrow> string" where
  "jsonMembers [] = ''}''"
| "jsonMembers [(k, v)] = jsonQuote k @ '':'' @ jsonQuote v @ ''}''"
| "jsonMembers ((k, v) # fs) = jsonQuote k @ '':'' @ jsonQuote v @ '','' @ jsonMembers fs"

text \<open>\<^verbatim>\<open>JSON.stringify\<close> of an object with these string fields.\<close>

definition JSON_stringify :: "(string \<times> string) list \<Rightarrow> string" where
  "JSON_stringify fs = CHR ''{'' # jsonMembers fs"

subsection \<open>Reading what was written\<close>

lemma codeUnit_control: "\<forall>n \<in> set [0..<32]. codeUnit [CHR ''0'', CHR ''0'', hexDigit (n div 16), hexDigit (n mod 16)] = Some (char_of n)"
  by code_simp

lemma jsonChars_plain:
  assumes "c \<noteq> dquote" and "c \<noteq> backslash" and "\<not> (of_char c :: nat) < 32"
  shows "jsonChars (c # t) = map_option (map_prod ((#) c) id) (jsonChars t)"
  using assms by simp

lemma jsonChars_short:
  assumes "shortEscape e = Some d" and "e \<noteq> CHR ''u''"
  shows "jsonChars (backslash # e # t) = map_option (map_prod ((#) d) id) (jsonChars t)"
  using assms by (simp add: backslash_def dquote_def)

lemma jsonChars_unit:
  assumes "codeUnit [h1, h2, h3, h4] = Some d"
  shows "jsonChars (backslash # CHR ''u'' # h1 # h2 # h3 # h4 # t) = map_option (map_prod ((#) d) id) (jsonChars t)"
  using assms by (simp add: backslash_def dquote_def)

lemma jsonChars_quoteChar: "jsonChars (quoteChar c @ t) = map_option (map_prod ((#) c) id) (jsonChars t)"
proof (cases "c \<in> {dquote, backslash, CHR 0x08, CHR 0x0C, CHR 0x0A, CHR 0x0D, CHR 0x09}")
  case True
  then show ?thesis
    by (auto simp: quoteChar_def dquote_def backslash_def)
next
  case False
  then have none: "quoteChar c = (if (of_char c :: nat) < 32
      then [backslash, CHR ''u'', CHR ''0'', CHR ''0'', hexDigit (of_char c div 16), hexDigit (of_char c mod 16)]
      else [c])"
    by (auto simp: quoteChar_def)
  show ?thesis
  proof (cases "(of_char c :: nat) < 32")
    case True
    then have "codeUnit [CHR ''0'', CHR ''0'', hexDigit (of_char c div 16), hexDigit (of_char c mod 16)] = Some c"
      using codeUnit_control by simp
    from jsonChars_unit [OF this] show ?thesis using none True by simp
  next
    case f: False
    with False jsonChars_plain [of c t] show ?thesis using none by simp
  qed
qed

lemma jsonChars_quoted: "jsonChars (concat (map quoteChar s) @ dquote # r) = Some (s, r)"
proof (induction s)
  case Nil
  show ?case by simp
next
  case (Cons c s)
  then show ?case by (simp del: jsonChars.simps add: jsonChars_quoteChar)
qed

lemma skipSpace_quote: "skipSpace (dquote # t) = dquote # t"
  by (simp add: skipSpace_def jsonSpace_def dquote_def)

lemma parseValue_quoted: "parseValue (jsonQuote v @ r) = Some (JsonString v, r)"
  by (simp add: parseValue.simps jsonQuote_def skipSpace_quote jsonChars_quoted del: jsonChars.simps)

lemma parseMembers_unfold:
  "parseMembers (jsonQuote k @ CHR '':'' # jsonQuote v @ d # u) =
     (case skipSpace (d # u) of
        [] \<Rightarrow> None
      | d' # u' \<Rightarrow>
          if d' = CHR ''}'' then Some ([(k, JsonString v)], u')
          else if d' = CHR '',''  \<and> length u' < length (jsonQuote k @ CHR '':'' # jsonQuote v @ d # u)
          then map_option (map_prod ((#) (k, JsonString v)) id) (parseMembers u')
          else None)"
proof -
  have s: "skipSpace (CHR '':'' # w) = CHR '':'' # w" for w by (simp add: skipSpace_def jsonSpace_def)
  have q: "jsonQuote k @ w = dquote # concat (map quoteChar k) @ dquote # w" for w by (simp add: jsonQuote_def)
  show ?thesis
    by (subst parseMembers.simps)
      (simp only: q skipSpace_quote jsonChars_quoted s parseValue_quoted list.case option.case prod.case,
        simp del: jsonChars.simps split del: if_split)
qed

lemma parseMembers_last:
  "parseMembers (jsonQuote k @ CHR '':'' # jsonQuote v @ CHR ''}'' # u) = Some ([(k, JsonString v)], u)"
  by (simp only: parseMembers_unfold) (simp add: skipSpace_def jsonSpace_def)

lemma parseMembers_more:
  "parseMembers (jsonQuote k @ CHR '':'' # jsonQuote v @ CHR '','' # u) =
     map_option (map_prod ((#) (k, JsonString v)) id) (parseMembers u)"
  by (simp only: parseMembers_unfold) (simp add: skipSpace_def jsonSpace_def)

lemma parseMembers_written:
  "fs \<noteq> [] \<Longrightarrow> parseMembers (jsonMembers fs) = Some (map (map_prod id JsonString) fs, [])"
proof (induction fs rule: jsonMembers.induct)
  case 1
  then show ?case by simp
next
  case (2 k v)
  show ?case using parseMembers_last [of k v "[]"] by simp
next
  case (3 k v f fs)
  then show ?case using parseMembers_more [of k v "jsonMembers (f # fs)"] by simp
qed

lemma jsonMembers_quote: "fs \<noteq> [] \<Longrightarrow> \<exists>t. jsonMembers fs = dquote # t"
  by (cases fs rule: jsonMembers.cases) (auto simp: jsonQuote_def)

lemma JSON_parse_stringify:
  assumes "fs \<noteq> []"
  shows "JSON_parse (JSON_stringify fs) = Some (JsonObject (map (map_prod id JsonString) fs))"
proof -
  obtain t where t: "jsonMembers fs = dquote # t" using jsonMembers_quote [OF assms] by blast
  have "parseValue (JSON_stringify fs) = map_option (map_prod JsonObject id) (parseMembers (jsonMembers fs))"
    unfolding JSON_stringify_def
    by (subst parseValue.simps) (simp add: t skipSpace_def jsonSpace_def dquote_def)
  then show ?thesis using parseMembers_written [OF assms] by (simp add: JSON_parse_def skipSpace_def)
qed

text \<open>The length tests of the parser never fail.\<close>

lemma jsonChars_shorter: "jsonChars s = Some (v, r) \<Longrightarrow> length r < length s"
proof (induction s arbitrary: v rule: jsonChars.induct)
  case (2 c s)
  then show ?case by (fastforce split: if_splits list.splits option.splits simp del: shortEscape.simps)
qed simp

lemma jsonDigits_shorter: "jsonDigits s = Some (d, r) \<Longrightarrow> length r < length s"
  by (cases s) (auto simp: jsonDigits_def length_dropWhile_le le_imp_less_Suc split: if_splits)

lemma jsonInt_shorter: "jsonInt s = Some (d, r) \<Longrightarrow> length r < length s"
  by (auto simp: jsonInt_def dest: jsonDigits_shorter split: list.splits if_splits)

lemma jsonFraction_le: "jsonFraction s = Some (d, r) \<Longrightarrow> length r \<le> length s"
  by (auto simp: jsonFraction_def dest: jsonDigits_shorter split: list.splits if_splits)

lemma jsonExponent_le: "jsonExponent s = Some (d, r) \<Longrightarrow> length r \<le> length s"
  by (auto simp: jsonExponent_def dest: jsonDigits_shorter split: list.splits if_splits)

lemma jsonNumber_shorter: "jsonNumber s = Some (v, r) \<Longrightarrow> length r < length s"
  by (fastforce simp: jsonNumber_def Let_def dest!: jsonInt_shorter jsonFraction_le jsonExponent_le
      split: list.splits if_splits option.splits)

lemma jsonLiteral_shorter: "jsonLiteral (c # t) = Some (v, r) \<Longrightarrow> length r < length (c # t)"
  by (auto simp: jsonLiteral_def dest: jsonNumber_shorter split: if_splits)

lemma parseValue_shorter:
  "parseValue s = Some (v, r) \<Longrightarrow> length r < length s"
  "parseElements s = Some (vs, r) \<Longrightarrow> length r < length s"
  "parseMembers s = Some (ms, r) \<Longrightarrow> length r < length s"
proof (induction s and s and s arbitrary: v r and vs r and ms r rule: parseValue_parseElements_parseMembers.induct)
  case (1 s)
  obtain c t where ct: "skipSpace s = c # t" and lt: "length t < length s"
    using "1.prems" by (cases "skipSpace s") (auto simp: parseValue.simps dest: skipSpace_Cons_less)
  show ?case
    using 1 ct lt skipSpace_le [of t]
    by (auto simp: parseValue.simps split: if_splits list.splits dest!: jsonChars_shorter jsonLiteral_shorter) fastforce+
next
  case (2 s)
  obtain v' r' where v: "parseValue s = Some (v', r')" and lt: "length r' < length s"
    using 2 by (cases "parseValue s") (auto simp: parseElements.simps [of s])
  show ?case
    using 2 v lt skipSpace_le [of r']
    by (fastforce simp: parseElements.simps [of s] split: if_splits list.splits)
next
  case (3 s)
  obtain q t where qt: "skipSpace s = q # t" "q = dquote" and lt: "length t < length s"
    using "3.prems" by (cases "skipSpace s") (auto simp: parseMembers.simps [of s] split: if_splits dest: skipSpace_Cons_less)
  obtain nm r0 where n: "jsonChars t = Some (nm, r0)" and ln: "length r0 < length t"
    using "3.prems" qt by (cases "jsonChars t") (auto simp: parseMembers.simps [of s] dest: jsonChars_shorter simp del: jsonChars.simps)
  obtain w where w: "skipSpace r0 = CHR '':'' # w" "length w < length s"
    using "3.prems" qt n by (cases "skipSpace r0") (auto simp: parseMembers.simps [of s] simp del: jsonChars.simps split: if_splits)
  obtain v' r' where v: "parseValue w = Some (v', r')"
    using "3.prems" qt n w by (cases "parseValue w") (auto simp: parseMembers.simps [of s] simp del: jsonChars.simps)
  have lr: "length r' < length w"
    using "3.IH"(1) [OF qt(1) _ n _ w(1)] qt(2) w(2) v by simp
  obtain d u where d: "skipSpace r' = d # u"
    using "3.prems" qt n w v by (cases "skipSpace r'") (auto simp: parseMembers.simps [of s] simp del: jsonChars.simps)
  have lu: "length u < length r'" using skipSpace_Cons_less [OF d] .
  show ?case
  proof (cases "d = CHR ''}''")
    case True
    then show ?thesis using "3.prems" qt n w v d lu lr by (auto simp: parseMembers.simps [of s] simp del: jsonChars.simps)
  next
    case False
    with "3.prems" qt n w v d lu lr obtain ms' where m: "d = CHR '',''" "parseMembers u = Some (ms', r)"
      by (auto simp: parseMembers.simps [of s] simp del: jsonChars.simps split: if_splits)
    have "length r < length u"
      using "3.IH"(2) [OF qt(1) _ n _ w(1) _ v _ d False _ m(2)] qt(2) w(2) m(1) lu lr by simp
    with lu lr w show ?thesis by linarith
  qed
qed

end
