(* ===== verification/WalletStore.thy ===== *)
theory WalletStore
  imports JsJson
begin

text \<open>
  Persistence of the wallet session and detection of the browser wallets:
  \<^verbatim>\<open>src/react/src/wallets/storage.ts\<close> and \<^verbatim>\<open>src/react/src/wallets/detection.ts\<close>.

  A page (\<open>page\<close>) holds the browser's \<^verbatim>\<open>localStorage\<close>, the module's \<^verbatim>\<open>memoryStore\<close> and
  \<^verbatim>\<open>cachedStorage\<close>, its subscribers and the handlers of \<^verbatim>\<open>storage\<close> events, the globals of the two
  wallets and the script tags of the document. Every access to \<^verbatim>\<open>localStorage\<close> may throw; which
  do is an argument (\<open>StorageFaults\<close>) of the operations, so that it can change from one call
  to the next. A subscriber is a number; what a write calls is recorded in \<open>notified\<close>.

  The loops that wait for a wallet (\<open>whenFreighterReady\<close>, \<open>loadAlbedoScript\<close>) are given what each
  probe sees; the first is a partial function, because an interval that is not positive lets it run
  for ever.
\<close>

type_synonym WalletName = string

definition WALLET_NAMES :: "WalletName list" where
  "WALLET_NAMES = [''freighter'', ''albedo'']"

definition WALLET_LABELS :: "WalletName \<Rightarrow> string" where
  "WALLET_LABELS n = (if n = ''freighter'' then ''Freighter'' else ''Albedo'')"

definition FREIGHTER_INSTALL_URL :: string where
  "FREIGHTER_INSTALL_URL = ''https://www.freighter.app/''"

definition ALBEDO_INSTALL_URL :: string where
  "ALBEDO_INSTALL_URL = ''https://albedo.link/''"

definition ALBEDO_SCRIPT_URL :: string where
  "ALBEDO_SCRIPT_URL = ''https://albedo.link/intent''"

definition ALBEDO_SCRIPT_TIMEOUT_MS :: int where
  "ALBEDO_SCRIPT_TIMEOUT_MS = 10000"

definition ALBEDO_INTENT_TIMEOUT_MS :: int where
  "ALBEDO_INTENT_TIMEOUT_MS = 10000"

definition ALBEDO_POLL_INTERVAL_MS :: int where
  "ALBEDO_POLL_INTERVAL_MS = 50"

definition FREIGHTER_READY_TIMEOUT_MS :: int where
  "FREIGHTER_READY_TIMEOUT_MS = 1000"

definition ALBEDO_SCRIPT_ID :: string where
  "ALBEDO_SCRIPT_ID = ''bc-forge-albedo-intent''"

definition STORAGE_PROBE_KEY :: string where
  "STORAGE_PROBE_KEY = ''bc-forge:storage-probe''"

definition FREIGHTER_PROBE_METHODS :: "string list" where
  "FREIGHTER_PROBE_METHODS = [''getPublicKey'', ''signTransaction'', ''getNetwork'', ''getNetworkDetails'', ''enable'']"

definition ALBEDO_PROBE_METHODS :: "string list" where
  "ALBEDO_PROBE_METHODS = [''publicKey'', ''signTransaction'', ''signTx'', ''tx'']"

subsection \<open>The page\<close>

text \<open>A global: absent, a primitive, a function, or an object with these callable members.\<close>

datatype page_global = GlobalAbsent | GlobalPrimitive | GlobalFunction | GlobalObject "string list"

record ScriptTag =
  tagSrc :: "string option"
  tagBcForge :: "string option"         \<comment> \<open>\<^verbatim>\<open>data-bc-forge\<close>\<close>
  tagFailed :: "string option"          \<comment> \<open>\<^verbatim>\<open>data-bc-forge-failed\<close>\<close>
  tagIntent :: "string option"          \<comment> \<open>\<^verbatim>\<open>data-albedo-intent\<close>\<close>

record EventHandler =
  handlerId :: nat
  handlerListener :: nat
  watchedKeys :: "string list"

record page =
  browser :: bool
  localStorage :: "string \<rightharpoonup> string"
  memoryStore :: "string \<rightharpoonup> string"
  cachedStorage :: bool
  storageSubscribers :: "nat list"
  eventHandlers :: "EventHandler list"
  nextHandler :: nat
  notified :: "nat list"
  freighterGlobal :: page_global
  albedoGlobal :: page_global
  scripts :: "ScriptTag list"

record StorageFaults =
  accessThrows :: bool
  getThrows :: "string \<Rightarrow> bool"
  setThrows :: "string \<Rightarrow> string \<Rightarrow> bool"
  removeThrows :: "string \<Rightarrow> bool"

definition isBrowser :: "page \<Rightarrow> bool" where
  "isBrowser s = browser s"

subsection \<open>Storage primitives\<close>

definition getLocalStorage :: "StorageFaults \<Rightarrow> page \<Rightarrow> bool \<times> page" where
  "getLocalStorage f s =
     (if cachedStorage s then (True, s)
      else if \<not> isBrowser s then (False, s)
      else if accessThrows f \<or> setThrows f STORAGE_PROBE_KEY ''1'' then (False, s\<lparr>cachedStorage := False\<rparr>)
      else if removeThrows f STORAGE_PROBE_KEY
      then (False, s\<lparr>localStorage := (localStorage s)(STORAGE_PROBE_KEY \<mapsto> ''1''), cachedStorage := False\<rparr>)
      else (True, s\<lparr>localStorage := (localStorage s)(STORAGE_PROBE_KEY := None), cachedStorage := True\<rparr>))"

definition notifyStoredValueChanged :: "page \<Rightarrow> page" where
  "notifyStoredValueChanged s = (if isBrowser s then s\<lparr>notified := notified s @ storageSubscribers s\<rparr> else s)"

definition readStoredValue :: "StorageFaults \<Rightarrow> string \<Rightarrow> page \<Rightarrow> string option \<times> page" where
  "readStoredValue f key s =
     (let (storage, s') = getLocalStorage f s
      in if storage \<and> \<not> getThrows f key then (localStorage s' key, s') else (memoryStore s' key, s'))"

definition writeStoredValue :: "StorageFaults \<Rightarrow> string \<Rightarrow> string \<Rightarrow> page \<Rightarrow> bool \<times> page" where
  "writeStoredValue f key v s =
     (let s1 = s\<lparr>memoryStore := (memoryStore s)(key \<mapsto> v)\<rparr>;
          (storage, s2) = getLocalStorage f s1;
          persisted = (storage \<and> \<not> setThrows f key v);
          s3 = (if persisted then s2\<lparr>localStorage := (localStorage s2)(key \<mapsto> v)\<rparr> else s2)
      in (persisted, notifyStoredValueChanged s3))"

definition removeStoredValue :: "StorageFaults \<Rightarrow> string \<Rightarrow> page \<Rightarrow> page" where
  "removeStoredValue f key s =
     (let s1 = s\<lparr>memoryStore := (memoryStore s)(key := None)\<rparr>;
          (storage, s2) = getLocalStorage f s1;
          s3 = (if storage \<and> \<not> removeThrows f key then s2\<lparr>localStorage := (localStorage s2)(key := None)\<rparr> else s2)
      in notifyStoredValueChanged s3)"

text \<open>
  A subscription: the listener joins the set of subscribers and a handler of its own listens for
  \<^verbatim>\<open>storage\<close> events; the number of the handler stands for the returned function.
\<close>

definition subscribeToStoredKeys :: "string list \<Rightarrow> nat \<Rightarrow> page \<Rightarrow> nat \<times> page" where
  "subscribeToStoredKeys keys listener s =
     (let s2 = s\<lparr>storageSubscribers := (if listener \<in> set (storageSubscribers s) then storageSubscribers s
                   else storageSubscribers s @ [listener])\<rparr>
      in (nextHandler s,
          (if isBrowser s
           then s2\<lparr>eventHandlers := eventHandlers s2 @
                  [\<lparr>handlerId = nextHandler s, handlerListener = listener, watchedKeys = keys\<rparr>]\<rparr>
           else s2)\<lparr>nextHandler := Suc (nextHandler s)\<rparr>))"

definition unsubscribe :: "nat \<Rightarrow> nat \<Rightarrow> page \<Rightarrow> page" where
  "unsubscribe listener h s =
     (let s1 = s\<lparr>storageSubscribers := removeAll listener (storageSubscribers s)\<rparr>
      in if isBrowser s then s1\<lparr>eventHandlers := filter (\<lambda>e. handlerId e \<noteq> h) (eventHandlers s1)\<rparr> else s1)"

text \<open>A \<^verbatim>\<open>storage\<close> event of another document; \<open>None\<close> is the key of \<^verbatim>\<open>localStorage.clear()\<close>.\<close>

definition storageEvent :: "string option \<Rightarrow> page \<Rightarrow> page" where
  "storageEvent key s = s\<lparr>notified := notified s @
     map handlerListener (filter (\<lambda>e. case key of None \<Rightarrow> True | Some k \<Rightarrow> k \<in> set (watchedKeys e)) (eventHandlers s))\<rparr>"

subsection \<open>The wallet session\<close>

definition WALLET_SESSION_KEY :: string where
  "WALLET_SESSION_KEY = ''bc-forge:wallet-session''"

definition WALLET_PREFERENCE_KEY :: string where
  "WALLET_PREFERENCE_KEY = ''bc-forge:wallet-preference''"

definition WALLET_STORAGE_KEYS :: "string list" where
  "WALLET_STORAGE_KEYS = [WALLET_SESSION_KEY, WALLET_PREFERENCE_KEY]"

record WalletSession =
  sessionWallet :: WalletName
  sessionPassphrase :: "string option"

definition isWalletName :: "json_value option \<Rightarrow> bool" where
  "isWalletName v = (case v of Some (JsonString t) \<Rightarrow> t \<in> set WALLET_NAMES | _ \<Rightarrow> False)"

definition parseSession :: "string \<Rightarrow> WalletSession option" where
  "parseSession raw =
     (if isWalletName (Some (JsonString raw)) then Some \<lparr>sessionWallet = raw, sessionPassphrase = None\<rparr>
      else case JSON_parse raw of
             None \<Rightarrow> None
           | Some parsed \<Rightarrow>
               (case parsed of
                  JsonString t \<Rightarrow>
                    if isWalletName (Some (JsonString t)) then Some \<lparr>sessionWallet = t, sessionPassphrase = None\<rparr> else None
                | _ \<Rightarrow>
                    (case jsonField parsed ''wallet'' of
                       Some (JsonString w) \<Rightarrow>
                         if isWalletName (Some (JsonString w))
                         then Some \<lparr>sessionWallet = w,
                                sessionPassphrase = (case jsonField parsed ''networkPassphrase'' of
                                    Some (JsonString p) \<Rightarrow> Some p | _ \<Rightarrow> None)\<rparr>
                         else None
                     | _ \<Rightarrow> None)))"

definition loadWalletSession :: "StorageFaults \<Rightarrow> page \<Rightarrow> WalletSession option \<times> page" where
  "loadWalletSession f s =
     (if \<not> isBrowser s then (None, s)
      else case readStoredValue f WALLET_SESSION_KEY s of
             (None, s') \<Rightarrow> (None, s')
           | (Some raw, s') \<Rightarrow> (parseSession raw, s'))"

definition loadWalletPreference :: "StorageFaults \<Rightarrow> page \<Rightarrow> WalletName option \<times> page" where
  "loadWalletPreference f s = map_prod (map_option sessionWallet) id (loadWalletSession f s)"

definition saveWalletSession :: "StorageFaults \<Rightarrow> WalletName \<Rightarrow> string option \<Rightarrow> page \<Rightarrow> bool \<times> page" where
  "saveWalletSession f wallet networkPassphrase s =
     (if \<not> isWalletName (Some (JsonString wallet)) \<or> \<not> isBrowser s then (False, s)
      else writeStoredValue f WALLET_SESSION_KEY
             (JSON_stringify ((''wallet'', wallet) #
                (case networkPassphrase of None \<Rightarrow> [] | Some p \<Rightarrow> [(''networkPassphrase'', p)]))) s)"

definition clearWalletSession :: "StorageFaults \<Rightarrow> page \<Rightarrow> page" where
  "clearWalletSession f s = (if \<not> isBrowser s then s else removeStoredValue f WALLET_SESSION_KEY s)"

definition saveWalletPreference :: "StorageFaults \<Rightarrow> WalletName \<Rightarrow> page \<Rightarrow> bool \<times> page" where
  "saveWalletPreference f wallet s =
     (if \<not> isWalletName (Some (JsonString wallet)) \<or> \<not> isBrowser s then (False, s)
      else writeStoredValue f WALLET_PREFERENCE_KEY (JSON_stringify [(''wallet'', wallet)]) s)"

definition loadStoredWalletPreference :: "StorageFaults \<Rightarrow> page \<Rightarrow> WalletName option \<times> page" where
  "loadStoredWalletPreference f s =
     (if \<not> isBrowser s then (None, s)
      else case readStoredValue f WALLET_PREFERENCE_KEY s of
             (Some raw, s') \<Rightarrow>
               (case parseSession raw of
                  Some p \<Rightarrow> (Some (sessionWallet p), s')
                | None \<Rightarrow> loadWalletPreference f s')
           | (None, s') \<Rightarrow> loadWalletPreference f s')"

definition onWalletSessionChange :: "nat \<Rightarrow> page \<Rightarrow> nat option \<times> page" where
  "onWalletSessionChange listener s =
     (if \<not> isBrowser s then (None, s) else map_prod Some id (subscribeToStoredKeys WALLET_STORAGE_KEYS listener s))"

subsection \<open>What is read back\<close>

text \<open>A page load starts with an empty memory store and nothing cached.\<close>

definition reload :: "page \<Rightarrow> page" where
  "reload s = s\<lparr>memoryStore := Map.empty, cachedStorage := False, storageSubscribers := [], eventHandlers := []\<rparr>"

lemmas session_keys = WALLET_SESSION_KEY_def WALLET_PREFERENCE_KEY_def STORAGE_PROBE_KEY_def

lemma getLocalStorage_keeps:
  assumes "getLocalStorage f s = (r, s')"
  shows "memoryStore s' = memoryStore s" "browser s' = browser s"
    and "key \<noteq> STORAGE_PROBE_KEY \<Longrightarrow> localStorage s' key = localStorage s key" "r = cachedStorage s'"
  using assms by (auto simp: getLocalStorage_def split: if_splits)

lemma notify_keeps [simp]:
  "memoryStore (notifyStoredValueChanged s) = memoryStore s"
  "localStorage (notifyStoredValueChanged s) = localStorage s"
  "cachedStorage (notifyStoredValueChanged s) = cachedStorage s"
  "browser (notifyStoredValueChanged s) = browser s"
  by (simp_all add: notifyStoredValueChanged_def)

lemma getLocalStorage_cached [simp]: "cachedStorage s \<Longrightarrow> getLocalStorage f s = (True, s)"
  by (simp add: getLocalStorage_def)

text \<open>What reading a key gives: the durable value when the store answers, the memory copy otherwise.\<close>

lemma readStoredValue_value:
  "key \<noteq> STORAGE_PROBE_KEY \<Longrightarrow> fst (readStoredValue f key s) =
     (if fst (getLocalStorage f s) \<and> \<not> getThrows f key then localStorage s key else memoryStore s key)"
  by (cases "getLocalStorage f s") (auto simp: readStoredValue_def getLocalStorage_keeps)

lemma writeStoredValue_state:
  assumes "writeStoredValue f key v s = (ok, s')" and "key \<noteq> STORAGE_PROBE_KEY"
  shows "memoryStore s' key = Some v" "browser s' = browser s"
    and "ok \<Longrightarrow> localStorage s' key = Some v" "\<not> ok \<Longrightarrow> localStorage s' key = localStorage s key"
    and "ok = (cachedStorage s' \<and> \<not> setThrows f key v)"
proof -
  obtain r s2 where g: "getLocalStorage f (s\<lparr>memoryStore := (memoryStore s)(key \<mapsto> v)\<rparr>) = (r, s2)"
    by (cases "getLocalStorage f (s\<lparr>memoryStore := (memoryStore s)(key \<mapsto> v)\<rparr>)")
  note k = getLocalStorage_keeps [OF g]
  have s': "ok = (r \<and> \<not> setThrows f key v)"
    "s' = notifyStoredValueChanged (if ok then s2\<lparr>localStorage := (localStorage s2)(key \<mapsto> v)\<rparr> else s2)"
    using assms(1) by (auto simp: writeStoredValue_def g Let_def)
  show "memoryStore s' key = Some v" "browser s' = browser s" using s' k by simp_all
  show "localStorage s' key = Some v" if ok using s' that by simp
  show "localStorage s' key = localStorage s key" if "\<not> ok" using s' that k(3) [OF assms(2)] by simp
  show "ok = (cachedStorage s' \<and> \<not> setThrows f key v)" using s' k(4) by simp
qed

lemma removeStoredValue_state:
  assumes "key \<noteq> STORAGE_PROBE_KEY"
  shows "memoryStore (removeStoredValue f key s) key = None" "browser (removeStoredValue f key s) = browser s"
    and "localStorage (removeStoredValue f key s) key =
      (if cachedStorage (removeStoredValue f key s) \<and> \<not> removeThrows f key then None else localStorage s key)"
proof -
  obtain r s2 where g: "getLocalStorage f (s\<lparr>memoryStore := (memoryStore s)(key := None)\<rparr>) = (r, s2)"
    by (cases "getLocalStorage f (s\<lparr>memoryStore := (memoryStore s)(key := None)\<rparr>)")
  note k = getLocalStorage_keeps [OF g]
  have s': "removeStoredValue f key s = notifyStoredValueChanged
      (if r \<and> \<not> removeThrows f key then s2\<lparr>localStorage := (localStorage s2)(key := None)\<rparr> else s2)"
    by (simp add: removeStoredValue_def g Let_def)
  show "memoryStore (removeStoredValue f key s) key = None" "browser (removeStoredValue f key s) = browser s"
    using s' k by simp_all
  show "localStorage (removeStoredValue f key s) key =
      (if cachedStorage (removeStoredValue f key s) \<and> \<not> removeThrows f key then None else localStorage s key)"
    using s' k(3) [OF assms] k(4) by simp
qed

text \<open>The text of a session is read back as the session.\<close>

definition sessionText :: "WalletName \<Rightarrow> string option \<Rightarrow> string" where
  "sessionText w p = JSON_stringify ((''wallet'', w) #
     (case p of None \<Rightarrow> [] | Some p \<Rightarrow> [(''networkPassphrase'', p)]))"

lemma parseSession_text:
  assumes "isWalletName (Some (JsonString w))"
  shows "parseSession (sessionText w p) = Some \<lparr>sessionWallet = w, sessionPassphrase = p\<rparr>"
proof -
  have bare: "\<not> isWalletName (Some (JsonString (sessionText w p)))"
    by (simp add: isWalletName_def WALLET_NAMES_def sessionText_def JSON_stringify_def)
  show ?thesis
    using assms bare JSON_parse_stringify
    by (cases p) (simp_all add: parseSession_def sessionText_def jsonField_def)
qed

lemma saveWalletSession_write:
  "isWalletName (Some (JsonString w)) \<Longrightarrow> browser s \<Longrightarrow>
     saveWalletSession f w p s = writeStoredValue f WALLET_SESSION_KEY (sessionText w p) s"
  by (simp add: saveWalletSession_def sessionText_def isBrowser_def)

lemma loadWalletSession_value:
  "fst (loadWalletSession f s) =
     (if browser s then Option.bind (fst (readStoredValue f WALLET_SESSION_KEY s)) parseSession else None)"
  by (auto simp: loadWalletSession_def isBrowser_def split: prod.splits option.splits)

lemma session_key_not_probe [simp]: "WALLET_SESSION_KEY \<noteq> STORAGE_PROBE_KEY" "WALLET_PREFERENCE_KEY \<noteq> STORAGE_PROBE_KEY"
  by (simp_all add: session_keys)

text \<open>
  C37. A saved session is the one that is loaded: in the same page when the value reached the durable store
  or the store does not answer (the copy in memory is then read, where the comment of
  \<^verbatim>\<open>loadWalletSession\<close> promises \<^verbatim>\<open>null\<close>), and after a page load when it reached the store.
\<close>

theorem session_save_load:
  assumes "browser s" and "isWalletName (Some (JsonString w))" and "saveWalletSession f w p s = (ok, s')"
  shows "(ok \<or> \<not> fst (getLocalStorage g s') \<or> getThrows g WALLET_SESSION_KEY \<longrightarrow>
            fst (loadWalletSession g s') = Some \<lparr>sessionWallet = w, sessionPassphrase = p\<rparr>) \<and>
         (ok \<and> fst (getLocalStorage g (reload s')) \<and> \<not> getThrows g WALLET_SESSION_KEY \<longrightarrow>
            fst (loadWalletSession g (reload s')) = Some \<lparr>sessionWallet = w, sessionPassphrase = p\<rparr>)"
proof -
  have w: "writeStoredValue f WALLET_SESSION_KEY (sessionText w p) s = (ok, s')"
    using assms by (simp add: saveWalletSession_write)
  note st = writeStoredValue_state [OF w session_key_not_probe(1)]
  have r: "browser (reload s') = browser s'" "localStorage (reload s') = localStorage s'" by (simp_all add: reload_def)
  show ?thesis
    using st assms(1) parseSession_text [OF assms(2), of p]
    by (auto simp: loadWalletSession_value readStoredValue_value r)
qed

text \<open>A cleared session is gone in this page and after a page load, provided that the durable value was removed.\<close>

theorem session_clear_load:
  assumes "cachedStorage (clearWalletSession f s) \<and> \<not> removeThrows f WALLET_SESSION_KEY"
  shows "fst (loadWalletSession g (clearWalletSession f s)) = None"
    and "fst (loadWalletSession g (reload (clearWalletSession f s))) = None"
  using assms removeStoredValue_state [of WALLET_SESSION_KEY f s]
  by (auto simp: loadWalletSession_value readStoredValue_value clearWalletSession_def isBrowser_def reload_def)

text \<open>
  A write or a removal that the store refuses is invisible: the value read afterwards is the durable one
  from before, although the memory copy holds the new value.
\<close>

theorem failed_save_is_invisible:
  assumes "cachedStorage s" and "\<And>v. setThrows f WALLET_SESSION_KEY v" and "\<not> getThrows g WALLET_SESSION_KEY"
  shows "fst (loadWalletSession g (snd (saveWalletSession f w p s))) = fst (loadWalletSession g s)"
  using assms
  by (auto simp: saveWalletSession_def writeStoredValue_def Let_def loadWalletSession_value readStoredValue_value)

theorem failed_clear_is_invisible:
  assumes "cachedStorage s" and "removeThrows f WALLET_SESSION_KEY" and "\<not> getThrows g WALLET_SESSION_KEY"
  shows "fst (loadWalletSession g (clearWalletSession f s)) = fst (loadWalletSession g s)"
  using assms
  by (auto simp: clearWalletSession_def removeStoredValue_def Let_def loadWalletSession_value readStoredValue_value)

text \<open>Every write and every removal in a browser calls each subscriber once, in the order they subscribed.\<close>

lemma getLocalStorage_listeners:
  "getLocalStorage f s = (r, s') \<Longrightarrow> notified s' = notified s \<and> storageSubscribers s' = storageSubscribers s"
  by (auto simp: getLocalStorage_def split: if_splits)

lemma write_notifies:
  assumes "browser s"
  shows "notified (snd (writeStoredValue f key v s)) = notified s @ storageSubscribers s"
proof (cases "getLocalStorage f (s\<lparr>memoryStore := (memoryStore s)(key \<mapsto> v)\<rparr>)")
  case (Pair r s2)
  with getLocalStorage_listeners [OF Pair] getLocalStorage_keeps(2) [OF Pair] assms show ?thesis
    by (simp add: Let_def writeStoredValue_def notifyStoredValueChanged_def isBrowser_def)
qed

lemma removal_notifies:
  assumes "browser s"
  shows "notified (removeStoredValue f key s) = notified s @ storageSubscribers s"
proof (cases "getLocalStorage f (s\<lparr>memoryStore := (memoryStore s)(key := None)\<rparr>)")
  case (Pair r s2)
  with getLocalStorage_listeners [OF Pair] getLocalStorage_keeps(2) [OF Pair] assms show ?thesis
    by (simp add: Let_def removeStoredValue_def notifyStoredValueChanged_def isBrowser_def)
qed

subsection \<open>Probes\<close>

definition isUsableFreighter :: "page_global \<Rightarrow> bool" where
  "isUsableFreighter v = (case v of
     GlobalFunction \<Rightarrow> True
   | GlobalObject ms \<Rightarrow> list_ex (\<lambda>m. m \<in> set ms) FREIGHTER_PROBE_METHODS
   | _ \<Rightarrow> False)"

definition isUsableAlbedo :: "page_global \<Rightarrow> bool" where
  "isUsableAlbedo v = (case v of GlobalObject ms \<Rightarrow> list_ex (\<lambda>m. m \<in> set ms) ALBEDO_PROBE_METHODS | _ \<Rightarrow> False)"

definition getFreighterGlobal :: "page \<Rightarrow> page_global" where
  "getFreighterGlobal s = (if isBrowser s then freighterGlobal s else GlobalAbsent)"

definition getAlbedoGlobal :: "page \<Rightarrow> page_global" where
  "getAlbedoGlobal s = (if isBrowser s then albedoGlobal s else GlobalAbsent)"

definition isFreighterInstalled :: "page \<Rightarrow> bool" where
  "isFreighterInstalled s = isUsableFreighter (getFreighterGlobal s)"

definition isAlbedoAvailable :: "page \<Rightarrow> bool" where
  "isAlbedoAvailable s = isUsableAlbedo (getAlbedoGlobal s)"

definition isAlbedoTag :: "ScriptTag \<Rightarrow> bool" where
  "isAlbedoTag t \<longleftrightarrow> tagBcForge t = Some ALBEDO_SCRIPT_ID \<or> tagSrc t = Some ALBEDO_SCRIPT_URL"

definition getAlbedoScriptTags :: "page \<Rightarrow> ScriptTag list" where
  "getAlbedoScriptTags s = (if isBrowser s then filter isAlbedoTag (scripts s) else [])"

definition hasFailed :: "ScriptTag \<Rightarrow> bool" where
  "hasFailed t \<longleftrightarrow> tagFailed t = Some ''true''"

definition getFailedAlbedoScriptIds :: "page \<Rightarrow> string list" where
  "getFailedAlbedoScriptIds s =
     map (\<lambda>t. case tagBcForge t of Some i \<Rightarrow> i | None \<Rightarrow> ALBEDO_SCRIPT_ID) (filter hasFailed (getAlbedoScriptTags s))"

record WalletAvailability =
  walletName :: WalletName
  walletLabel :: string
  installed :: bool
  requiresExtension :: bool
  installUrl :: "string option"
  loadFailed :: bool

record WalletDetection =
  wallets :: "WalletAvailability list"
  failedAlbedoScriptIds :: "string list"

definition WALLET_FACTS :: "WalletName \<Rightarrow> bool \<times> string" where
  "WALLET_FACTS n = (if n = ''freighter'' then (True, FREIGHTER_INSTALL_URL) else (False, ALBEDO_INSTALL_URL))"

definition buildAvailability :: "WalletName \<Rightarrow> bool \<Rightarrow> bool \<Rightarrow> WalletAvailability" where
  "buildAvailability n inst failed = \<lparr>walletName = n, walletLabel = WALLET_LABELS n, installed = inst,
     requiresExtension = fst (WALLET_FACTS n), installUrl = (if inst then None else Some (snd (WALLET_FACTS n))),
     loadFailed = failed\<rparr>"

definition detectWallets :: "page \<Rightarrow> WalletDetection" where
  "detectWallets s =
     (let ids = getFailedAlbedoScriptIds s; albedoFailed = (ids \<noteq> [])
      in \<lparr>wallets = map (\<lambda>n. buildAvailability n
                     (if n = ''freighter'' then isFreighterInstalled s else isAlbedoAvailable s)
                     (n = ''albedo'' \<and> albedoFailed)) WALLET_NAMES,
          failedAlbedoScriptIds = ids\<rparr>)"

definition EMPTY_DETECTION :: WalletDetection where
  "EMPTY_DETECTION = \<lparr>wallets = map (\<lambda>n. buildAvailability n False False) WALLET_NAMES, failedAlbedoScriptIds = []\<rparr>"

text \<open>The server rendering and the first browser rendering agree on a page with no wallet.\<close>

lemma detectWallets_server: "\<not> browser s \<Longrightarrow> detectWallets s = EMPTY_DETECTION"
  by (simp add: detectWallets_def EMPTY_DETECTION_def getFailedAlbedoScriptIds_def getAlbedoScriptTags_def
      isFreighterInstalled_def isAlbedoAvailable_def getFreighterGlobal_def getAlbedoGlobal_def isUsableFreighter_def
      isUsableAlbedo_def isBrowser_def WALLET_NAMES_def)

text \<open>A row offers an install link exactly when the wallet's adapter will not find its global.\<close>

lemma detectWallets_links:
  "w \<in> set (wallets (detectWallets s)) \<Longrightarrow>
     walletName w \<in> set WALLET_NAMES \<and> (installUrl w = None \<longleftrightarrow> installed w) \<and>
     (installed w \<longleftrightarrow> (if walletName w = ''freighter'' then isFreighterInstalled s else isAlbedoAvailable s))"
  by (auto simp: detectWallets_def Let_def buildAvailability_def WALLET_NAMES_def split: if_splits)

subsection \<open>Waiting for Freighter\<close>

text \<open>
  \<open>probe i\<close> is what the \<open>i\<close>-th poll sees: \<open>None\<close> when the signal has been aborted by then, and
  otherwise whether the extension is there. The result carries the time spent in timers. A poll
  that never settles has no result.
\<close>

partial_function (option) freighterPoll :: "(nat \<Rightarrow> bool option) \<Rightarrow> int \<Rightarrow> nat \<Rightarrow> int \<Rightarrow> int \<Rightarrow> (bool \<times> int) option" where
  "freighterPoll probe intervalMs i remaining waited =
     (case probe i of
        None \<Rightarrow> Some (False, waited)
      | Some ready \<Rightarrow>
          if ready then Some (True, waited)
          else if remaining \<le> 0 then Some (False, waited)
          else freighterPoll probe intervalMs (Suc i) (remaining - min intervalMs remaining)
                 (waited + max 0 (min intervalMs remaining)))"

definition whenFreighterReady ::
    "page \<Rightarrow> bool \<Rightarrow> (nat \<Rightarrow> bool option) \<Rightarrow> int option \<Rightarrow> int option \<Rightarrow> (bool \<times> int) option" where
  "whenFreighterReady s aborted probe timeoutMs intervalMs =
     (if \<not> isBrowser s \<or> aborted then Some (False, 0)
      else freighterPoll probe (case intervalMs of None \<Rightarrow> FREIGHTER_READY_TIMEOUT_MS | Some n \<Rightarrow> n) 0
             (max 0 (case timeoutMs of None \<Rightarrow> FREIGHTER_READY_TIMEOUT_MS | Some n \<Rightarrow> n)) 0)"

lemma freighterPoll_ends:
  assumes "0 < iv" and "0 \<le> remaining"
  shows "\<exists>r w. freighterPoll probe iv i remaining waited = Some (r, w) \<and> waited \<le> w \<and> w \<le> waited + remaining"
  using assms(2)
proof (induction "nat remaining" arbitrary: i remaining waited rule: less_induct)
  case less
  show ?case
  proof (cases "probe i = Some False \<and> 0 < remaining")
    case True
    let ?r = "remaining - min iv remaining" and ?w = "waited + max 0 (min iv remaining)"
    have "nat ?r < nat remaining" "0 \<le> ?r" using True assms(1) by (auto simp: min_def)
    from less.hyps [OF this, of "Suc i" ?w] obtain r w
      where rw: "freighterPoll probe iv (Suc i) ?r ?w = Some (r, w)" "?w \<le> w" "w \<le> ?w + ?r" by blast
    have "freighterPoll probe iv i remaining waited = Some (r, w)"
      using True rw(1) by (subst freighterPoll.simps) simp
    moreover have "waited \<le> w" "w \<le> waited + remaining" using rw(2,3) True assms(1) by (auto simp: min_def max_def split: if_splits)
    ultimately show ?thesis by blast
  next
    case False
    then show ?thesis
      by (subst freighterPoll.simps) (use less.prems in \<open>auto split: option.splits\<close>)
  qed
qed

text \<open>With a positive interval the wait ends within the budget.\<close>

theorem whenFreighterReady_ends:
  assumes "0 < iv"
  shows "\<exists>r w. whenFreighterReady s aborted probe t (Some iv) = Some (r, w) \<and> 0 \<le> w \<and>
    w \<le> max 0 (case t of None \<Rightarrow> FREIGHTER_READY_TIMEOUT_MS | Some n \<Rightarrow> n)"
  using freighterPoll_ends [OF assms, of "max 0 (case t of None \<Rightarrow> FREIGHTER_READY_TIMEOUT_MS | Some n \<Rightarrow> n)" probe 0 0]
  by (auto simp: whenFreighterReady_def)

text \<open>\<open>True\<close> is answered only after a poll saw the extension.\<close>

lemma freighterPoll_result:
  "freighterPoll probe iv i remaining waited = Some rw \<Longrightarrow>
     (fst rw \<longrightarrow> (\<exists>j \<ge> i. probe j = Some True)) \<and>
     (iv \<le> 0 \<and> 0 < remaining \<longrightarrow> (\<exists>j \<ge> i. probe j \<noteq> Some False))"
proof (rule freighterPoll.raw_induct [of "\<lambda>probe iv i remaining waited rw.
      (fst rw \<longrightarrow> (\<exists>j \<ge> i. probe j = Some True)) \<and>
      (iv \<le> 0 \<and> 0 < remaining \<longrightarrow> (\<exists>j \<ge> i. probe j \<noteq> Some False))"])
  fix f probe iv i remaining waited and rw :: "bool \<times> int"
  assume IH: "\<And>probe iv i remaining waited rw. f probe iv i remaining waited = Some rw \<Longrightarrow>
      (fst rw \<longrightarrow> (\<exists>j \<ge> i. probe j = Some True)) \<and> (iv \<le> 0 \<and> 0 < remaining \<longrightarrow> (\<exists>j \<ge> i. probe j \<noteq> Some False))"
    and body: "(case probe i of None \<Rightarrow> Some (False, waited)
      | Some ready \<Rightarrow> if ready then Some (True, waited) else if remaining \<le> 0 then Some (False, waited)
          else f probe iv (Suc i) (remaining - min iv remaining) (waited + max 0 (min iv remaining))) = Some rw"
  show "(fst rw \<longrightarrow> (\<exists>j \<ge> i. probe j = Some True)) \<and> (iv \<le> 0 \<and> 0 < remaining \<longrightarrow> (\<exists>j \<ge> i. probe j \<noteq> Some False))"
  proof (cases "probe i = Some False \<and> 0 < remaining")
    case True
    with body have "f probe iv (Suc i) (remaining - min iv remaining) (waited + max 0 (min iv remaining)) = Some rw"
      by simp
    from IH [OF this] True show ?thesis
      by (auto simp: min_def intro: Suc_leD)
  next
    case False
    with body show ?thesis by (auto split: option.splits if_splits)
  qed
qed

text \<open>An interval of zero, or a negative one, keeps it polling for ever when the extension never comes.\<close>

theorem whenFreighterReady_stuck:
  assumes "browser s" and "iv \<le> 0" and "0 < t" and "\<And>i. probe i = Some False"
  shows "whenFreighterReady s False probe (Some t) (Some iv) = None"
  using freighterPoll_result [of probe iv 0 t 0] assms
  by (cases "freighterPoll probe iv 0 t 0") (auto simp: whenFreighterReady_def isBrowser_def)

subsection \<open>Loading Albedo\<close>

record AlbedoLoadResult =
  available :: bool
  reason :: "string option"

text \<open>
  The promise in flight: the script it watches (its place in the document), what is left of the
  budget, the times at which a poll is due, and the result once it has settled. Settling clears the
  last timer only; an earlier one that is still due finds \<^verbatim>\<open>settled\<close> set.
\<close>

record albedo_load =
  scriptIndex :: nat
  timeout :: int
  budget :: int
  dueTimes :: "int list"
  outcome :: "AlbedoLoadResult option"

definition couldNotLoad :: string where
  "couldNotLoad = ''Could not load the Albedo wallet from '' @ ALBEDO_SCRIPT_URL @ ''.''"

definition createAlbedoScript :: "int \<Rightarrow> ScriptTag" where
  "createAlbedoScript timeoutMs = \<lparr>tagSrc = Some ALBEDO_SCRIPT_URL, tagBcForge = Some ALBEDO_SCRIPT_ID, tagFailed = None,
     tagIntent = Some (''timeoutMs='' @ show_int (timeoutMs + ALBEDO_INTENT_TIMEOUT_MS))\<rparr>"

definition albedoSettle :: "bool \<Rightarrow> string option \<Rightarrow> page \<times> albedo_load \<Rightarrow> page \<times> albedo_load" where
  "albedoSettle ok r = (\<lambda>(s, l).
     if outcome l \<noteq> None then (s, l)
     else (if ok then s else s\<lparr>scripts := (scripts s)[scriptIndex l := (scripts s ! scriptIndex l)\<lparr>tagFailed := Some ''true''\<rparr>]\<rparr>,
           l\<lparr>outcome := Some \<lparr>available = ok, reason = r\<rparr>, dueTimes := butlast (dueTimes l)\<rparr>))"

definition albedoPoll :: "int \<Rightarrow> page \<times> albedo_load \<Rightarrow> page \<times> albedo_load" where
  "albedoPoll now = (\<lambda>(s, l).
     if outcome l \<noteq> None then (s, l)
     else if isAlbedoAvailable s then albedoSettle True None (s, l)
     else if budget l \<le> 0
     then albedoSettle False (Some (''Albedo did not become available within '' @ show_int (timeout l) @ ''ms.'')) (s, l)
     else (s, l\<lparr>budget := budget l - min ALBEDO_POLL_INTERVAL_MS (budget l),
                dueTimes := dueTimes l @ [now + min ALBEDO_POLL_INTERVAL_MS (budget l)]\<rparr>))"

text \<open>What happens to the promise: a timer is due, the script's \<^verbatim>\<open>load\<close> event, its \<^verbatim>\<open>error\<close> event.\<close>

datatype albedo_event = TimerDue int | ScriptLoaded int | ScriptFailed

fun albedoEvent :: "albedo_event \<Rightarrow> page \<times> albedo_load \<Rightarrow> page \<times> albedo_load" where
  "albedoEvent (TimerDue t) (s, l) =
     (if t \<in> set (dueTimes l) then albedoPoll t (s, l\<lparr>dueTimes := remove1 t (dueTimes l)\<rparr>) else (s, l))"
| "albedoEvent (ScriptLoaded t) (s, l) = albedoPoll t (s, l)"
| "albedoEvent ScriptFailed (s, l) = albedoSettle False (Some couldNotLoad) (s, l)"

fun findIndex :: "('a \<Rightarrow> bool) \<Rightarrow> 'a list \<Rightarrow> nat option" where
  "findIndex P [] = None"
| "findIndex P (x # xs) = (if P x then Some 0 else map_option Suc (findIndex P xs))"

text \<open>
  \<open>loadAlbedoScript\<close> at time \<open>now\<close>; \<open>inflight\<close> is the module's \<^verbatim>\<open>albedoLoad\<close>. \<open>Inl\<close> is a promise
  that is already resolved, \<open>Inr\<close> the one in flight.
\<close>

definition loadAlbedoScript ::
    "int option \<Rightarrow> int \<Rightarrow> page \<Rightarrow> albedo_load option \<Rightarrow> (AlbedoLoadResult + albedo_load) \<times> page" where
  "loadAlbedoScript timeoutOption now s inflight =
     (case inflight of
        Some l \<Rightarrow> (Inr l, s)
      | None \<Rightarrow>
          if \<not> isBrowser s then (Inl \<lparr>available = False, reason = Some ''Albedo is only available in a browser.''\<rparr>, s)
          else if isAlbedoAvailable s then (Inl \<lparr>available = True, reason = None\<rparr>, s)
          else if getFailedAlbedoScriptIds s \<noteq> [] then (Inl \<lparr>available = False, reason = Some couldNotLoad\<rparr>, s)
          else
            let timeoutMs = (case timeoutOption of None \<Rightarrow> ALBEDO_SCRIPT_TIMEOUT_MS | Some t \<Rightarrow> t);
                existing = findIndex (\<lambda>t. isAlbedoTag t \<and> \<not> hasFailed t) (scripts s);
                s' = (if existing = None then s\<lparr>scripts := scripts s @ [createAlbedoScript timeoutMs]\<rparr> else s);
                l = \<lparr>scriptIndex = (case existing of Some i \<Rightarrow> i | None \<Rightarrow> length (scripts s)), timeout = timeoutMs,
                      budget = max 0 timeoutMs, dueTimes = [], outcome = None\<rparr>;
                (s'', l') = albedoPoll now (s', l)
            in (case outcome l' of Some r \<Rightarrow> Inl r | None \<Rightarrow> Inr l', s''))"

text \<open>The polls run until the promise settles: the earliest due timer fires next.\<close>

definition nextDue :: "int list \<Rightarrow> int" where
  "nextDue ds = fold min (tl ds) (hd ds)"

fun runTimers :: "nat \<Rightarrow> page \<times> albedo_load \<Rightarrow> int \<Rightarrow> (AlbedoLoadResult \<times> int) option" where
  "runTimers n (s, l) now =
     (case outcome l of
        Some r \<Rightarrow> Some (r, now)
      | None \<Rightarrow>
          (case n of
             0 \<Rightarrow> None
           | Suc m \<Rightarrow>
               if dueTimes l = [] then None
               else runTimers m (albedoEvent (TimerDue (nextDue (dueTimes l))) (s, l)) (nextDue (dueTimes l))))"

lemma albedoSettle_final: "outcome (snd (albedoSettle ok r sl)) \<noteq> None"
  by (cases sl) (auto simp: albedoSettle_def)

lemma albedoPoll_settled: "outcome l = Some r \<Longrightarrow> albedoPoll now (s, l) = (s, l)"
  by (simp add: albedoPoll_def)

text \<open>A promise settles once: no event changes its result or the document afterwards.\<close>

lemma albedo_outcome_stable:
  assumes "outcome l = Some r"
  shows "outcome (snd (albedoEvent e (s, l))) = Some r" and "fst (albedoEvent e (s, l)) = s"
  using assms by (cases e; auto simp: albedoPoll_settled albedoSettle_def)+

text \<open>
  A failed load is remembered in the document: as long as the global is missing, every later call answers
  the failure at once.
\<close>

theorem albedo_failure_sticks:
  assumes "browser s" and "\<not> isAlbedoAvailable s" and "outcome l = None"
    and "scriptIndex l < length (scripts s)" and "isAlbedoTag (scripts s ! scriptIndex l)"
    and "albedoSettle False r (s, l) = (s', l')"
  shows "loadAlbedoScript t now s' None = (Inl \<lparr>available = False, reason = Some couldNotLoad\<rparr>, s')"
proof -
  let ?tag = "(scripts s ! scriptIndex l)\<lparr>tagFailed := Some ''true''\<rparr>"
  have s': "s' = s\<lparr>scripts := (scripts s)[scriptIndex l := ?tag]\<rparr>" using assms(3,6) by (simp add: albedoSettle_def)
  have tag: "?tag \<in> set (scripts s')" "isAlbedoTag ?tag" "hasFailed ?tag"
    using assms(4,5) s' by (auto simp: set_update_memI isAlbedoTag_def hasFailed_def)
  then have "filter hasFailed (getAlbedoScriptTags s') \<noteq> []"
    using assms(1) s' by (auto simp: getAlbedoScriptTags_def isBrowser_def filter_empty_conv)
  then have "getFailedAlbedoScriptIds s' \<noteq> []" by (simp add: getFailedAlbedoScriptIds_def)
  moreover have "\<not> isAlbedoAvailable s'" "isBrowser s'"
    using assms(1,2) s' by (simp_all add: isAlbedoAvailable_def getAlbedoGlobal_def isBrowser_def)
  ultimately show ?thesis by (simp add: loadAlbedoScript_def)
qed

text \<open>
  When only timers fire, the promise settles exactly when the budget is spent: the next poll is due after
  the part of the budget that has been used.
\<close>

lemma runTimers_spends_budget:
  assumes "\<not> isAlbedoAvailable s" and "outcome l = None" and "0 \<le> budget l" and "dueTimes l = [d]" and "nat (budget l) < n"
  shows "\<exists>r. runTimers n (s, l) now = Some (r, d + budget l) \<and> \<not> available r"
  using assms
proof (induction n arbitrary: l d now)
  case (Suc n)
  let ?b = "min ALBEDO_POLL_INTERVAL_MS (budget l)"
  show ?case
  proof (cases "budget l \<le> 0")
    case True
    then show ?thesis using Suc.prems by (cases n) (auto simp: albedoPoll_def albedoSettle_def nextDue_def)
  next
    case False
    let ?l = "l\<lparr>budget := budget l - ?b, dueTimes := [d + ?b]\<rparr>"
    have "\<exists>r. runTimers n (s, ?l) d = Some (r, d + ?b + budget ?l) \<and> \<not> available r"
      by (rule Suc.IH) (use Suc.prems False in \<open>auto simp: ALBEDO_POLL_INTERVAL_MS_def min_def\<close>)
    then show ?thesis using Suc.prems False by (simp add: albedoPoll_def nextDue_def)
  qed
qed simp

text \<open>
  The \<^verbatim>\<open>load\<close> event starts a second chain of polls on the same budget: the promise then gives up in about
  half of the time that it was given, and its message names the full time.
\<close>

definition blankPage :: page where
  "blankPage = \<lparr>browser = True, localStorage = Map.empty, memoryStore = Map.empty, cachedStorage = False,
     storageSubscribers = [], eventHandlers = [], nextHandler = 0, notified = [], freighterGlobal = GlobalAbsent,
     albedoGlobal = GlobalAbsent, scripts = []\<rparr>"

definition loadingPage :: "int \<Rightarrow> page \<times> albedo_load" where
  "loadingPage t = (case loadAlbedoScript (Some t) 0 blankPage None of
     (Inr l, s) \<Rightarrow> (s, l)
   | (Inl r, s) \<Rightarrow> (s, \<lparr>scriptIndex = 0, timeout = t, budget = 0, dueTimes = [], outcome = Some r\<rparr>))"

definition albedoPage :: page where
  "albedoPage = blankPage\<lparr>scripts := [createAlbedoScript 200]\<rparr>"

definition waitingFor :: "int \<Rightarrow> int list \<Rightarrow> albedo_load" where
  "waitingFor b ds = \<lparr>scriptIndex = 0, timeout = 200, budget = b, dueTimes = ds, outcome = None\<rparr>"

lemma albedoPage_absent: "\<not> isAlbedoAvailable albedoPage" "\<not> isAlbedoAvailable blankPage"
  by (simp_all add: albedoPage_def blankPage_def isAlbedoAvailable_def getAlbedoGlobal_def isUsableAlbedo_def isBrowser_def)

lemma loadingPage_200: "loadingPage 200 = (albedoPage, waitingFor 150 [50])"
proof -
  have "isBrowser blankPage" "getFailedAlbedoScriptIds blankPage = []" "scripts blankPage = []"
    by (simp_all add: blankPage_def isBrowser_def getFailedAlbedoScriptIds_def getAlbedoScriptTags_def)
  with albedoPage_absent show ?thesis
    unfolding loadingPage_def loadAlbedoScript_def Let_def
    by (simp add: albedoPoll_def waitingFor_def ALBEDO_POLL_INTERVAL_MS_def flip: albedoPage_def)
qed

lemma poll_waitingFor:
  "albedoPoll t (albedoPage, waitingFor b ds) =
     (if b \<le> 0 then albedoSettle False (Some (''Albedo did not become available within '' @ show_int 200 @ ''ms.''))
        (albedoPage, waitingFor b ds)
      else (albedoPage, waitingFor (b - min 50 b) (ds @ [t + min 50 b])))"
  using albedoPage_absent by (simp add: albedoPoll_def waitingFor_def ALBEDO_POLL_INTERVAL_MS_def)

lemma nextDue_mem: "ds \<noteq> [] \<Longrightarrow> nextDue ds \<in> set ds"
proof -
  have "fold min xs x \<in> insert x (set xs)" for xs :: "int list" and x
  proof (induction xs arbitrary: x)
    case (Cons a xs)
    show ?case using Cons.IH [of "min a x"] by (auto simp: min_def split: if_splits)
  qed simp
  then show "ds \<noteq> [] \<Longrightarrow> nextDue ds \<in> set ds" by (cases ds) (auto simp: nextDue_def)
qed

lemma runTimers_waitingFor:
  "runTimers (Suc n) (albedoPage, waitingFor b ds) now =
     (if ds = [] then None
      else if b \<le> 0 then Some (\<lparr>available = False, reason = Some (''Albedo did not become available within '' @ show_int 200 @ ''ms.'')\<rparr>, nextDue ds)
      else runTimers n (albedoPage, waitingFor (b - min 50 b) (remove1 (nextDue ds) ds @ [nextDue ds + min 50 b])) (nextDue ds))"
proof -
  have w: "outcome (waitingFor b ds) = None" "dueTimes (waitingFor b ds) = ds"
    "(waitingFor b ds)\<lparr>dueTimes := es\<rparr> = waitingFor b es" for es
    by (simp_all add: waitingFor_def)
  show ?thesis
  proof (cases "b \<le> 0 \<and> ds \<noteq> []")
    case True
    then have "runTimers (Suc n) (albedoPage, waitingFor b ds) now =
        runTimers n (albedoSettle False (Some (''Albedo did not become available within '' @ show_int 200 @ ''ms.''))
          (albedoPage, waitingFor b (remove1 (nextDue ds) ds))) (nextDue ds)"
      by (simp add: w nextDue_mem poll_waitingFor)
    then show ?thesis using True by (cases n) (simp_all add: albedoSettle_def waitingFor_def)
  next
    case False
    then show ?thesis by (auto simp: w nextDue_mem poll_waitingFor)
  qed
qed

theorem albedo_load_event_halves_the_wait:
  "map_option (map_prod available id) (runTimers 10 (loadingPage 200) 0) = Some (False, 200)"
  "map_option (map_prod available id) (runTimers 10 (albedoEvent (ScriptLoaded 10) (loadingPage 200)) 10) = Some (False, 100)"
  by (simp_all add: eval_nat_numeral loadingPage_200 runTimers_waitingFor poll_waitingFor nextDue_def del: runTimers.simps)

subsection \<open>The detection hook\<close>

text \<open>
  \<open>useWalletDetection\<close>: the snapshot, \<^verbatim>\<open>detecting\<close> and the \<^verbatim>\<open>mounted\<close> ref. \<open>refresh\<close> runs in two pieces
  around its \<^verbatim>\<open>await\<close>; the second sees the page as it is then.
\<close>

record detection_hook =
  detection :: WalletDetection
  detecting :: bool
  mounted :: bool

definition useWalletDetection :: "page \<Rightarrow> detection_hook" where
  "useWalletDetection s =
     \<lparr>detection = (if isBrowser s then detectWallets s else EMPTY_DETECTION), detecting = False, mounted = True\<rparr>"

definition refreshStart :: "detection_hook \<Rightarrow> detection_hook" where
  "refreshStart h = h\<lparr>detecting := True\<rparr>"

definition refreshEnd :: "page \<Rightarrow> detection_hook \<Rightarrow> detection_hook" where
  "refreshEnd s h = (if mounted h then h\<lparr>detection := detectWallets s, detecting := False\<rparr> else h)"

text \<open>A refresh shows the wallets that are there when it ends, whatever it started from, and stops detecting.\<close>

lemma refresh_shows_page:
  "mounted h \<Longrightarrow> detection (refreshEnd s (refreshStart h)) = detectWallets s \<and> \<not> detecting (refreshEnd s (refreshStart h))"
  by (simp add: refreshEnd_def refreshStart_def)

definition soundStorage :: StorageFaults where
  "soundStorage = \<lparr>accessThrows = False, getThrows = (\<lambda>_. False), setThrows = (\<lambda>_ _. False), removeThrows = (\<lambda>_. False)\<rparr>"

theorem session_save_load_witness:
  "\<exists>ok s'. browser blankPage \<and> isWalletName (Some (JsonString ''freighter'')) \<and>
     saveWalletSession soundStorage ''freighter'' (Some ''net'') blankPage = (ok, s') \<and> ok \<and>
     fst (loadWalletSession soundStorage s') = Some \<lparr>sessionWallet = ''freighter'', sessionPassphrase = Some ''net''\<rparr>"
proof -
  obtain ok s' where s: "saveWalletSession soundStorage ''freighter'' (Some ''net'') blankPage = (ok, s')"
    by (cases "saveWalletSession soundStorage ''freighter'' (Some ''net'') blankPage")
  have h: "browser blankPage" "isWalletName (Some (JsonString ''freighter''))"
    by (simp_all add: blankPage_def isWalletName_def WALLET_NAMES_def)
  have "ok" using s h
    by (auto simp: saveWalletSession_write writeStoredValue_def getLocalStorage_def soundStorage_def blankPage_def isBrowser_def Let_def
        split: if_splits)
  with session_save_load [OF h s, of soundStorage] h s show ?thesis by blast
qed

end
