(* ===== verification/WalletMachine.thy ===== *)
theory WalletMachine
  imports ReactUtils WalletStore
begin

text \<open>
  The providers of \<^verbatim>\<open>src/react/src/context.tsx\<close>: the choice of the network (\<^verbatim>\<open>BcForgeProvider\<close>) and the
  wallet connection (\<^verbatim>\<open>WalletMachine\<close>, \<^verbatim>\<open>useWallet\<close>, \<^verbatim>\<open>signWithHardwareTimeout\<close>).

  The wallet machine is a state of the provider and the calls of \<^verbatim>\<open>connect\<close>, \<^verbatim>\<open>disconnect\<close>, \<^verbatim>\<open>connectWallet\<close>
  and of the effects that wait (\<open>ReactAsync\<close>); they are answered in any order. An adapter is a number; its
  fields are in the state, and the wallet may change them at any time. Which adapter a factory returns is an
  argument, so that it may be a new one or one that is shared. A dispatched state is seen through
  \<^verbatim>\<open>stateRef\<close> only after the next render. A change of network builds new clients, which are numbered; a
  call keeps the clients it was created with.
\<close>

subsection \<open>Networks\<close>

type_synonym NetworkId = string

record NetworkDescriptor =
  netId :: NetworkId
  netLabel :: string
  netPassphrase :: string
  defaultRpcUrl :: string

definition STELLAR_NETWORKS :: "NetworkDescriptor list" where
  "STELLAR_NETWORKS =
     [\<lparr>netId = ''testnet'', netLabel = ''Testnet'', netPassphrase = ''Test SDF Network ; September 2015'',
       defaultRpcUrl = ''https://soroban-testnet.stellar.org''\<rparr>,
      \<lparr>netId = ''futurenet'', netLabel = ''Futurenet'', netPassphrase = ''Test SDF Future Network ; October 2022'',
       defaultRpcUrl = ''https://soroban-futurenet.stellar.org''\<rparr>,
      \<lparr>netId = ''local'', netLabel = ''Local standalone'', netPassphrase = ''Local Sandbox Stellar Network ; September 2022'',
       defaultRpcUrl = ''http://localhost:8000''\<rparr>]"

definition findNetworkByPassphrase :: "string option \<Rightarrow> NetworkDescriptor list \<Rightarrow> NetworkDescriptor option" where
  "findNetworkByPassphrase p ns = (case p of None \<Rightarrow> None | Some t \<Rightarrow> List.find (\<lambda>n. netPassphrase n = t) ns)"

record ClientConfig =
  cfgRpcUrl :: string
  cfgPassphrase :: string
  cfgContractId :: string

record ProviderProps =
  pConfig :: ClientConfig
  pVaultConfig :: "ClientConfig option"
  defaultNetwork :: "NetworkId option"
  extraNetworks :: "NetworkDescriptor list option"
  rpcUrls :: "NetworkId \<rightharpoonup> string"
  contractIds :: "(NetworkId \<rightharpoonup> string) option"

record ProviderState =
  selectedNetworkId :: "NetworkId option"
  switchingId :: "NetworkId option"
  switchError :: "string option"

definition providerNetworks :: "ProviderProps \<Rightarrow> NetworkDescriptor list" where
  "providerNetworks p = (case extraNetworks p of
     Some (n # ns) \<Rightarrow> STELLAR_NETWORKS @ n # ns
   | _ \<Rightarrow> STELLAR_NETWORKS)"

text \<open>A \<^verbatim>\<open>Map\<close> built from entries: of two entries with one key the last one counts.\<close>

definition networkIndex :: "ProviderProps \<Rightarrow> NetworkId \<rightharpoonup> NetworkDescriptor" where
  "networkIndex p = map_of (rev (map (\<lambda>n. (netId n, n)) (providerNetworks p)))"

definition selectedNetwork :: "ProviderProps \<Rightarrow> ProviderState \<Rightarrow> NetworkDescriptor option" where
  "selectedNetwork p s = Option.bind (selectedNetworkId s) (networkIndex p)"

definition effectiveRpcUrl :: "ProviderProps \<Rightarrow> ProviderState \<Rightarrow> string" where
  "effectiveRpcUrl p s = (case selectedNetwork p s of
     None \<Rightarrow> cfgRpcUrl (pConfig p)
   | Some n \<Rightarrow> (case rpcUrls p (netId n) of Some u \<Rightarrow> u | None \<Rightarrow> defaultRpcUrl n))"

definition effectivePassphrase :: "ProviderProps \<Rightarrow> ProviderState \<Rightarrow> string" where
  "effectivePassphrase p s = (case selectedNetwork p s of None \<Rightarrow> cfgPassphrase (pConfig p) | Some n \<Rightarrow> netPassphrase n)"

definition effectiveContractId :: "ProviderProps \<Rightarrow> ProviderState \<Rightarrow> string" where
  "effectiveContractId p s = (case (selectedNetwork p s, contractIds p) of
     (Some n, Some ids) \<Rightarrow> (case ids (netId n) of Some c \<Rightarrow> c | None \<Rightarrow> cfgContractId (pConfig p))
   | _ \<Rightarrow> cfgContractId (pConfig p))"

definition effectiveConfig :: "ProviderProps \<Rightarrow> ProviderState \<Rightarrow> ClientConfig" where
  "effectiveConfig p s = (if selectedNetwork p s = None then pConfig p
     else (pConfig p)\<lparr>cfgRpcUrl := effectiveRpcUrl p s, cfgPassphrase := effectivePassphrase p s,
            cfgContractId := effectiveContractId p s\<rparr>)"

definition effectiveVaultConfig :: "ProviderProps \<Rightarrow> ProviderState \<Rightarrow> ClientConfig option" where
  "effectiveVaultConfig p s = map_option (\<lambda>v. if selectedNetwork p s = None then v
     else v\<lparr>cfgRpcUrl := effectiveRpcUrl p s, cfgPassphrase := effectivePassphrase p s\<rparr>) (pVaultConfig p)"

text \<open>\<^verbatim>\<open>useNetwork().network\<close>.\<close>

definition activeNetwork :: "ProviderProps \<Rightarrow> ProviderState \<Rightarrow> NetworkDescriptor option" where
  "activeNetwork p s = (case selectedNetwork p s of
     Some n \<Rightarrow> Some n
   | None \<Rightarrow> findNetworkByPassphrase (Some (effectivePassphrase p s)) (providerNetworks p))"

definition initialProvider :: "ProviderProps \<Rightarrow> ProviderState" where
  "initialProvider p = \<lparr>selectedNetworkId = defaultNetwork p, switchingId = None, switchError = None\<rparr>"

definition setNetwork :: "ProviderProps \<Rightarrow> NetworkId \<Rightarrow> (unit, unit, ProviderState, unit) prog" where
  "setNetwork p i = (case networkIndex p i of
     None \<Rightarrow> modify (\<lambda>s. s\<lparr>switchError := Some (''Unknown network \"'' @ i @
         ''\". Add it to BcForgeProvider's \"networks\" prop to make it selectable.'')\<rparr>) (finish ())
   | Some _ \<Rightarrow> modify (\<lambda>s. s\<lparr>switchError := None, switchingId := Some i\<rparr>)
       (await () (\<lambda>_. modify (\<lambda>s. s\<lparr>selectedNetworkId := Some i, switchingId := None\<rparr>) (finish ()))))"

lemma networkIndex_id: "networkIndex p i = Some n \<Longrightarrow> netId n = i"
  by (auto simp: networkIndex_def dest!: map_of_SomeD)

text \<open>
  A finished switch to a known network gives the token client and the vault client the endpoint and the
  passphrase of that network.
\<close>

theorem setNetwork_applies:
  assumes "networkIndex p i = Some n" and "setNetwork p i s = (s1, Await () k)" and "k () s2 = (s3, t)"
  shows "t = Return () \<and> switchingId s1 = Some i \<and> switchingId s3 = None \<and> activeNetwork p s3 = Some n \<and>
    cfgPassphrase (effectiveConfig p s3) = netPassphrase n \<and>
    (\<forall>v. effectiveVaultConfig p s3 = Some v \<longrightarrow>
       cfgPassphrase v = netPassphrase n \<and> cfgRpcUrl v = cfgRpcUrl (effectiveConfig p s3))"
proof -
  have k: "k = (\<lambda>_. modify (\<lambda>s. s\<lparr>selectedNetworkId := Some i, switchingId := None\<rparr>) (finish ()))" "switchingId s1 = Some i"
    using assms(1,2) by (auto simp: setNetwork_def)
  with assms(3) have s3: "s3 = s2\<lparr>selectedNetworkId := Some i, switchingId := None\<rparr>" "t = Return ()" by auto
  have sel: "selectedNetwork p s3 = Some n" using assms(1) s3 by (simp add: selectedNetwork_def)
  show ?thesis
    using s3 sel k(2)
    by (auto simp: activeNetwork_def effectiveConfig_def effectiveVaultConfig_def effectivePassphrase_def effectiveRpcUrl_def)
qed

text \<open>An unknown network changes nothing but the error.\<close>

lemma setNetwork_unknown:
  "networkIndex p i = None \<Longrightarrow> \<exists>m. setNetwork p i s = (s\<lparr>switchError := Some m\<rparr>, Return ())"
  by (auto simp: setNetwork_def)

text \<open>The contract id of the vault client is never overridden, whatever \<^verbatim>\<open>contractIds\<close> says.\<close>

theorem vault_contract_not_overridden:
  "map_option cfgContractId (effectiveVaultConfig p s) = map_option cfgContractId (pVaultConfig p)"
  by (cases "pVaultConfig p") (simp_all add: effectiveVaultConfig_def)

subsection \<open>The state of the wallet machine\<close>

datatype machine_state =
    Disconnected
  | Connecting WalletName
  | Connected WalletName nat "string option" bool
  | WrongNetwork WalletName nat string string
  | Failed "WalletName option" "nat option" sdk_error

datatype machine_action =
    DoConnecting WalletName
  | DoConnected WalletName nat "string option" bool
  | DoWrongNetwork WalletName nat string string
  | DoError "WalletName option" "nat option" sdk_error
  | DoDisconnected

fun walletReducer :: "machine_state \<Rightarrow> machine_action \<Rightarrow> machine_state" where
  "walletReducer _ (DoConnecting w) = Connecting w"
| "walletReducer _ (DoConnected w i pk hw) = Connected w i pk hw"
| "walletReducer _ (DoWrongNetwork w i e a) = WrongNetwork w i e a"
| "walletReducer _ (DoError w i err) = Failed w i err"
| "walletReducer _ DoDisconnected = Disconnected"

text \<open>The adapter of a state.\<close>

fun stateAdapter :: "machine_state \<Rightarrow> nat option" where
  "stateAdapter (Connected w i pk hw) = Some i"
| "stateAdapter (WrongNetwork w i e a) = Some i"
| "stateAdapter (Failed w i err) = i"
| "stateAdapter _ = None"

text \<open>What an adapter says about hardware wallets: a boolean, a method, or nothing.\<close>

datatype hardware_member = HardwareFlag bool | HardwareMethod | HardwareUnknown

record AdapterObject =
  objName :: string
  objConnected :: bool
  objPublicKey :: "string option"
  objPassphrase :: "string option"
  objHardware :: hardware_member

record machine =
  mstate :: machine_state
  stateRef :: machine_state
  connectAttempt :: nat
  activeAdapter :: "nat option"
  generation :: nat
  passphrase :: string
  clientAdapters :: "nat \<Rightarrow> nat option"     \<comment> \<open>of the token client with this number\<close>
  vaultAdapters :: "nat \<Rightarrow> nat option"      \<comment> \<open>of the vault client with this number\<close>
  clientSigner :: "nat \<Rightarrow> bool"
  vaultSigner :: "nat \<Rightarrow> bool"
  adapterObjects :: "nat \<Rightarrow> AdapterObject"
  mpage :: page
  faults :: StorageFaults
  availableWallets :: "WalletAvailability list"
  restoring :: bool
  effectId :: nat

text \<open>
  The configuration: whether there is a vault client, the adapters that the configurations of the two clients
  carry (\<^verbatim>\<open>config.walletAdapter\<close>, \<^verbatim>\<open>vaultConfig.walletAdapter\<close>), the factories, and whether sessions are restored.
\<close>

record MachineConfig =
  hasVault :: bool
  configAdapter :: "nat option"
  vaultConfigAdapter :: "nat option"
  factories :: "(WalletName \<Rightarrow> bool) option"
  restoreSession :: bool

definition hasFactory :: "MachineConfig \<Rightarrow> WalletName \<Rightarrow> bool" where
  "hasFactory cfg w = (case factories cfg of None \<Rightarrow> False | Some f \<Rightarrow> f w)"

datatype wallet_query =
    AdapterConnect nat
  | AdapterDisconnect nat
  | HardwareCheck nat
  | FreighterCheck string
  | AlbedoScript
  | Tick

text \<open>An answer: a rejection, or a value of which only the truth is used.\<close>

datatype wallet_answer = Rejected thrown | Resolved bool

type_synonym machine_prog = "(wallet_query, wallet_answer, machine, unit) prog"

subsection \<open>Steps\<close>

definition dispatch :: "machine_action \<Rightarrow> machine \<Rightarrow> machine" where
  "dispatch a s = s\<lparr>mstate := walletReducer (mstate s) a\<rparr>"

definition setAdapters :: "MachineConfig \<Rightarrow> nat \<Rightarrow> nat option \<Rightarrow> machine \<Rightarrow> machine" where
  "setAdapters cfg g a s = s\<lparr>clientAdapters := (clientAdapters s)(g := a),
     vaultAdapters := (if hasVault cfg then (vaultAdapters s)(g := a) else vaultAdapters s)\<rparr>"

definition ADAPTER_BACKED_WALLETS :: "WalletAvailability list" where
  "ADAPTER_BACKED_WALLETS = map (\<lambda>n. \<lparr>walletName = n, walletLabel = WALLET_LABELS n, installed = True,
     requiresExtension = (n = ''freighter''), installUrl = None, loadFailed = False\<rparr>) WALLET_NAMES"

definition probeWalletsNow :: "MachineConfig \<Rightarrow> page \<Rightarrow> WalletAvailability list" where
  "probeWalletsNow cfg pg = (if factories cfg \<noteq> None then ADAPTER_BACKED_WALLETS else wallets (detectWallets pg))"

definition redetectWallets :: "MachineConfig \<Rightarrow> machine \<Rightarrow> machine" where
  "redetectWallets cfg s = s\<lparr>availableWallets := probeWalletsNow cfg (mpage s)\<rparr>"

text \<open>
  The stores of \<open>WalletStore\<close>. A write calls the subscriber, which is \<open>redetectWallets\<close> while the
  machine restores sessions.
\<close>

definition afterWrite :: "MachineConfig \<Rightarrow> page \<Rightarrow> machine \<Rightarrow> machine" where
  "afterWrite cfg pg s = (if restoreSession cfg then redetectWallets cfg (s\<lparr>mpage := pg\<rparr>) else s\<lparr>mpage := pg\<rparr>)"

definition storeSession :: "MachineConfig \<Rightarrow> WalletName \<Rightarrow> string \<Rightarrow> machine \<Rightarrow> machine" where
  "storeSession cfg w np s = afterWrite cfg (snd (saveWalletSession (faults s) w (Some np) (mpage s))) s"

definition dropSession :: "MachineConfig \<Rightarrow> machine \<Rightarrow> machine" where
  "dropSession cfg s = afterWrite cfg (clearWalletSession (faults s) (mpage s)) s"

definition storePreference :: "MachineConfig \<Rightarrow> WalletName \<Rightarrow> machine \<Rightarrow> machine" where
  "storePreference cfg w s = afterWrite cfg (snd (saveWalletPreference (faults s) w (mpage s))) s"

text \<open>\<^verbatim>\<open>activeAdapter.current ?? stateRef.current.adapter ?? client.getWalletAdapter() ?? vaultClient?.getWalletAdapter()\<close>.\<close>

definition currentAdapter :: "MachineConfig \<Rightarrow> nat \<Rightarrow> machine \<Rightarrow> nat option" where
  "currentAdapter cfg g s =
     (case activeAdapter s of Some i \<Rightarrow> Some i | None \<Rightarrow>
        case stateAdapter (stateRef s) of Some i \<Rightarrow> Some i | None \<Rightarrow>
          case clientAdapters s g of Some i \<Rightarrow> Some i | None \<Rightarrow>
            if hasVault cfg then vaultAdapters s g else None)"

definition connectFailed :: "MachineConfig \<Rightarrow> nat \<Rightarrow> WalletName \<Rightarrow> nat \<Rightarrow> nat option \<Rightarrow> thrown \<Rightarrow> machine_prog" where
  "connectFailed cfg g wallet attempt a e s =
     (if attempt \<noteq> connectAttempt s then finish () s
      else finish () (dispatch (DoError (Some wallet) a (asError e))
             (dropSession cfg ((setAdapters cfg g None s)\<lparr>activeAdapter := a\<rparr>))))"

definition connectFinish :: "MachineConfig \<Rightarrow> nat \<Rightarrow> string \<Rightarrow> WalletName \<Rightarrow> nat \<Rightarrow> bool \<Rightarrow> machine_prog" where
  "connectFinish cfg g np wallet i hw s =
     finish () (dispatch (DoConnected wallet i (objPublicKey (adapterObjects s i)) hw)
       (storeSession cfg wallet np (setAdapters cfg g (Some i) s)))"

fun answerTruth :: "wallet_answer \<Rightarrow> bool" where
  "answerTruth (Resolved b) = b"
| "answerTruth (Rejected e) = False"

text \<open>The hardware check; a failed check counts as no hardware wallet.\<close>

definition hasMethod :: "page \<Rightarrow> string \<Rightarrow> bool" where
  "hasMethod pg m = (case freighterGlobal pg of GlobalObject ms \<Rightarrow> m \<in> set ms | _ \<Rightarrow> False)"

definition hardwareCheck :: "WalletName \<Rightarrow> nat \<Rightarrow> (bool \<Rightarrow> machine_prog) \<Rightarrow> machine_prog" where
  "hardwareCheck wallet i k s =
     (case objHardware (adapterObjects s i) of
        HardwareFlag b \<Rightarrow> k b s
      | HardwareMethod \<Rightarrow> await (HardwareCheck i) (\<lambda>r. k (answerTruth r)) s
      | HardwareUnknown \<Rightarrow>
          if wallet = ''freighter'' \<and> hasMethod (mpage s) ''isHardwareWallet''
          then await (FreighterCheck ''isHardwareWallet'') (\<lambda>r. k (answerTruth r)) s
          else if wallet = ''freighter'' \<and> hasMethod (mpage s) ''getUserInfo''
          then await (FreighterCheck ''getUserInfo'') (\<lambda>r. k (answerTruth r)) s
          else k False s)"

definition connectContinue :: "MachineConfig \<Rightarrow> nat \<Rightarrow> string \<Rightarrow> WalletName \<Rightarrow> nat \<Rightarrow> nat \<Rightarrow> wallet_answer \<Rightarrow> machine_prog" where
  "connectContinue cfg g np wallet attempt i r s =
     (case r of
        Rejected e \<Rightarrow> connectFailed cfg g wallet attempt (Some i) e s
      | Resolved _ \<Rightarrow>
          if attempt \<noteq> connectAttempt s
          then await (AdapterDisconnect i) (\<lambda>r'. case r' of
              Rejected e \<Rightarrow> connectFailed cfg g wallet attempt (Some i) e
            | Resolved _ \<Rightarrow> finish ()) s
          else if \<not> objConnected (adapterObjects s i) \<or> \<not> truthy (objPublicKey (adapterObjects s i))
          then connectFailed cfg g wallet attempt (Some i)
                 (ThrownError (OtherError (wallet @ '' did not return a connected account and public key''))) s
          else (case objPassphrase (adapterObjects s i) of
              Some actual \<Rightarrow>
                if actual \<noteq> [] \<and> actual \<noteq> np
                then finish () (dispatch (DoWrongNetwork wallet i np actual)
                       (storeSession cfg wallet np (setAdapters cfg g None s)))
                else hardwareCheck wallet i (connectFinish cfg g np wallet i) s
            | None \<Rightarrow> hardwareCheck wallet i (connectFinish cfg g np wallet i) s))"

text \<open>The state in which a handshake starts.\<close>

definition connectStart :: "MachineConfig \<Rightarrow> nat \<Rightarrow> WalletName \<Rightarrow> machine \<Rightarrow> machine" where
  "connectStart cfg g wallet s =
     (let s1 = s\<lparr>connectAttempt := Suc (connectAttempt s)\<rparr>;
          s2 = (if currentAdapter cfg g s1 \<noteq> None then setAdapters cfg g None s1 else s1)
      in dispatch (DoConnecting wallet) (s2\<lparr>activeAdapter := None\<rparr>))"

text \<open>\<open>alloc\<close> is what the adapter's factory or constructor gives: an adapter, or what it throws.\<close>

definition connect :: "MachineConfig \<Rightarrow> nat \<Rightarrow> string \<Rightarrow> WalletName \<Rightarrow> thrown + nat \<Rightarrow> machine_prog" where
  "connect cfg g np wallet alloc s =
     (case alloc of
        Inl e \<Rightarrow> connectFailed cfg g wallet (Suc (connectAttempt s)) None e (connectStart cfg g wallet s)
      | Inr i \<Rightarrow> await (AdapterConnect i) (connectContinue cfg g np wallet (Suc (connectAttempt s)) i)
          ((connectStart cfg g wallet s)\<lparr>activeAdapter := Some i\<rparr>))"

definition isConnecting :: "machine_state \<Rightarrow> bool" where
  "isConnecting m = (case m of Connecting w \<Rightarrow> True | _ \<Rightarrow> False)"

definition connectWallet :: "MachineConfig \<Rightarrow> nat \<Rightarrow> string \<Rightarrow> WalletName \<Rightarrow> thrown + nat \<Rightarrow> machine_prog" where
  "connectWallet cfg g np wallet alloc s =
     (let go = asyncThen (connect cfg g np wallet alloc) (\<lambda>_. modify (redetectWallets cfg) (finish ()))
      in if isConnecting (stateRef s) then finish () s
         else (let s1 = storePreference cfg wallet s
               in if wallet = ''albedo'' \<and> \<not> hasFactory cfg ''albedo'' \<and> \<not> isAlbedoAvailable (mpage s1)
                  then await AlbedoScript (\<lambda>_. go) s1
                  else go s1))"

definition disconnect :: "MachineConfig \<Rightarrow> nat \<Rightarrow> machine_prog" where
  "disconnect cfg g s =
     (let s0 = s\<lparr>connectAttempt := Suc (connectAttempt s)\<rparr>;
          a = currentAdapter cfg g s0;
          s1 = (setAdapters cfg g None (s0\<lparr>activeAdapter := None\<rparr>))
                 \<lparr>clientSigner := (clientSigner s)(g := False), vaultSigner := (vaultSigner s)(g := False)\<rparr>;
          s2 = (case a of None \<Rightarrow> s1 | Some i \<Rightarrow> s1\<lparr>adapterObjects := (adapterObjects s1)(i := (adapterObjects s1 i)\<lparr>objPublicKey := None\<rparr>)\<rparr>);
          s3 = dropSession cfg (dispatch DoDisconnected s2)
      in case a of None \<Rightarrow> finish () s3 | Some i \<Rightarrow> await (AdapterDisconnect i) (\<lambda>_. finish ()) s3)"

subsection \<open>Restoring a session\<close>

text \<open>
  Whether the wallet of a session can be used. For Albedo without its script the loading of the script
  starts as a call of its own, \<open>albedoFallback\<close>.
\<close>

definition isSessionWalletUsable :: "MachineConfig \<Rightarrow> machine \<Rightarrow> WalletName \<Rightarrow> bool" where
  "isSessionWalletUsable cfg s w = (hasFactory cfg w \<or> w \<noteq> ''freighter'' \<or> isFreighterInstalled (mpage s))"

definition albedoFallback :: "MachineConfig \<Rightarrow> machine_prog" where
  "albedoFallback cfg = await AlbedoScript (\<lambda>r s.
     if answerTruth r then finish () s
     else if stateRef s = Disconnected then finish () (dropSession cfg s)
     else finish () s)"

definition restoreEnd :: "nat \<Rightarrow> machine_prog" where
  "restoreEnd n s = finish () (if n = effectId s then s\<lparr>restoring := False\<rparr> else s)"

definition restoreContinue :: "MachineConfig \<Rightarrow> nat \<Rightarrow> string \<Rightarrow> nat \<Rightarrow> thrown + nat \<Rightarrow> WalletName \<Rightarrow> machine_prog" where
  "restoreContinue cfg g np n alloc wallet s =
     (if n \<noteq> effectId s then finish () s
      else if \<not> isSessionWalletUsable cfg s wallet then finish () ((dropSession cfg s)\<lparr>restoring := False\<rparr>)
      else asyncThen (connect cfg g np wallet alloc) (\<lambda>_. restoreEnd n) s)"

definition restoreRun :: "MachineConfig \<Rightarrow> nat \<Rightarrow> string \<Rightarrow> nat \<Rightarrow> thrown + nat \<Rightarrow> machine_prog" where
  "restoreRun cfg g np n alloc s =
     (case loadWalletSession (faults s) (mpage s) of
        (None, pg) \<Rightarrow> finish () (s\<lparr>mpage := pg, restoring := False\<rparr>)
      | (Some session, pg) \<Rightarrow> await Tick (\<lambda>_. restoreContinue cfg g np n alloc (sessionWallet session)) (s\<lparr>mpage := pg\<rparr>))"

text \<open>The effect: the previous one is cancelled, a new one starts when sessions are restored.\<close>

definition restoreEffect :: "MachineConfig \<Rightarrow> thrown + nat \<Rightarrow> machine_prog" where
  "restoreEffect cfg alloc s =
     (let s1 = s\<lparr>effectId := Suc (effectId s)\<rparr>
      in if restoreSession cfg then restoreRun cfg (generation s) (passphrase s) (effectId s1) alloc s1 else finish () s1)"

text \<open>
  What happens to a mounted machine. \<open>switch\<close> says whether the network may change; the new clients have the
  adapter of their configuration, if any, and the effect that depends on \<^verbatim>\<open>connect\<close> runs again.
\<close>

inductive walletEntry :: "MachineConfig \<Rightarrow> bool \<Rightarrow> (machine \<Rightarrow> (wallet_query, wallet_answer, machine, unit) instance_state) \<Rightarrow> bool"
  for cfg switch where
  connects: "walletEntry cfg switch (\<lambda>s. launch (connect cfg (generation s) (passphrase s) w alloc) s)"
| connectsWallet: "walletEntry cfg switch (\<lambda>s. launch (connectWallet cfg (generation s) (passphrase s) w alloc) s)"
| disconnects: "walletEntry cfg switch (\<lambda>s. launch (disconnect cfg (generation s)) s)"
| fallback: "walletEntry cfg switch (\<lambda>s. launch (albedoFallback cfg) s)"
| renders: "walletEntry cfg switch (\<lambda>s. (s\<lparr>stateRef := mstate s\<rparr>, []))"
| adapterChanges: "walletEntry cfg switch (\<lambda>s. (s\<lparr>adapterObjects := ao\<rparr>, []))"
| pageChanges: "walletEntry cfg switch (\<lambda>s. (s\<lparr>mpage := pg, faults := f\<rparr>, []))"
| switches: "switch \<Longrightarrow> walletEntry cfg switch (\<lambda>s. launch (restoreEffect cfg alloc)
     (s\<lparr>generation := Suc (generation s), passphrase := np\<rparr>))"

text \<open>Every client is built from its configuration, so it starts with the adapter given there.\<close>

definition initialMachine :: "MachineConfig \<Rightarrow> page \<Rightarrow> StorageFaults \<Rightarrow> string \<Rightarrow> (nat \<Rightarrow> AdapterObject) \<Rightarrow> machine" where
  "initialMachine cfg pg f np ao = \<lparr>mstate = Disconnected, stateRef = Disconnected, connectAttempt = 0, activeAdapter = None,
     generation = 0, passphrase = np, clientAdapters = (\<lambda>_. configAdapter cfg), vaultAdapters = (\<lambda>_. vaultConfigAdapter cfg), clientSigner = (\<lambda>_. False),
     vaultSigner = (\<lambda>_. False), adapterObjects = ao, mpage = pg, faults = f, availableWallets = probeWalletsNow cfg pg,
     restoring = restoreSession cfg, effectId = 0\<rparr>"

text \<open>The first render and its effect.\<close>

definition mountMachine :: "MachineConfig \<Rightarrow> page \<Rightarrow> StorageFaults \<Rightarrow> string \<Rightarrow> (nat \<Rightarrow> AdapterObject) \<Rightarrow> thrown + nat \<Rightarrow>
    (wallet_query, wallet_answer, machine, unit) instance_state" where
  "mountMachine cfg pg f np ao alloc = launch (restoreEffect cfg alloc) (initialMachine cfg pg f np ao)"

subsection \<open>What the hook shows\<close>

datatype wallet_view =
    ViewDisconnected
  | ViewConnecting WalletName
  | ViewConnected string string            \<comment> \<open>public key and name\<close>
  | ViewWrongNetwork string string string sdk_error
  | ViewError "WalletName option" sdk_error

definition wrongNetworkError :: "string \<Rightarrow> string \<Rightarrow> sdk_error" where
  "wrongNetworkError expected actual = OtherError (''Wallet is connected to a different Stellar network. Expected \"'' @ expected @
     ''\" but received \"'' @ actual @ ''\".'')"

text \<open>
  \<open>useWallet\<close> of a rendered state; \<open>a\<close> is the adapter of the machine, or, when it is disconnected, one that
  was registered on a client directly.
\<close>

definition viewAdapter :: "MachineConfig \<Rightarrow> machine \<Rightarrow> nat option" where
  "viewAdapter cfg s =
     (case stateAdapter (stateRef s) of
        Some i \<Rightarrow> Some i
      | None \<Rightarrow>
          if stateRef s = Disconnected
          then (case clientAdapters s (generation s) of Some i \<Rightarrow> Some i
                | None \<Rightarrow> if hasVault cfg then vaultAdapters s (generation s) else None)
          else None)"

definition adapterView :: "string \<Rightarrow> AdapterObject \<Rightarrow> wallet_view option" where
  "adapterView np a =
     (if objConnected a \<and> truthy (objPublicKey a)
      then (if truthy (objPassphrase a) \<and> np \<noteq> [] \<and> the (objPassphrase a) \<noteq> np
            then Some (ViewWrongNetwork (objName a) np (the (objPassphrase a)) (wrongNetworkError np (the (objPassphrase a))))
            else Some (ViewConnected (the (objPublicKey a)) (objName a)))
      else None)"

definition useWallet :: "MachineConfig \<Rightarrow> machine \<Rightarrow> wallet_view" where
  "useWallet cfg s =
     (case stateRef s of
        Connecting w \<Rightarrow> ViewConnecting w
      | Failed w i e \<Rightarrow> ViewError w e
      | WrongNetwork w i e a \<Rightarrow> ViewWrongNetwork (objName (adapterObjects s i)) e a (wrongNetworkError e a)
      | _ \<Rightarrow> (case Option.bind (viewAdapter cfg s) (\<lambda>i. adapterView (passphrase s) (adapterObjects s i)) of
                Some v \<Rightarrow> v
              | None \<Rightarrow> ViewDisconnected))"

definition useWalletHardware :: "MachineConfig \<Rightarrow> machine \<Rightarrow> bool" where
  "useWalletHardware cfg s \<longleftrightarrow>
     (case stateRef s of Connected w i pk hw \<Rightarrow> hw | _ \<Rightarrow> False) \<or>
     (case viewAdapter cfg s of Some i \<Rightarrow> objHardware (adapterObjects s i) \<in> {HardwareFlag True, HardwareMethod} | None \<Rightarrow> False)"

subsection \<open>Signing with a time limit\<close>

definition DEFAULT_SIGNATURE_TIMEOUT_MS :: int where
  "DEFAULT_SIGNATURE_TIMEOUT_MS = 30000"

definition HARDWARE_SIGNATURE_TIMEOUT_MS :: int where
  "HARDWARE_SIGNATURE_TIMEOUT_MS = 120000"

text \<open>
  \<open>signing\<close> is when and how the wallet answers (\<open>None\<close>: never). The race is decided by the earlier of the
  answer and the timer, an answer at the same time being the first to settle; the result carries the time.
\<close>

definition signWithHardwareTimeout ::
    "(int \<times> (thrown + 'r)) option \<Rightarrow> bool option \<Rightarrow> int option \<Rightarrow> string option \<Rightarrow> int \<times> (thrown + 'r)" where
  "signWithHardwareTimeout signing hw timeoutMs timeoutMessage =
     (let hardware = (hw = Some True);
          limit = (case timeoutMs of Some t \<Rightarrow> t | None \<Rightarrow> if hardware then HARDWARE_SIGNATURE_TIMEOUT_MS else DEFAULT_SIGNATURE_TIMEOUT_MS);
          msg = (case timeoutMessage of Some m \<Rightarrow> m | None \<Rightarrow>
            if hardware then ''Confirm on Ledger device timed out. Please ensure your device is connected, unlocked, and the Stellar app is open.''
            else ''Signature request timed out.'')
      in case signing of
           Some (t, r) \<Rightarrow> if t \<le> max 0 limit then (t, r) else (max 0 limit, Inl (ThrownError (OtherError msg)))
         | None \<Rightarrow> (max 0 limit, Inl (ThrownError (OtherError msg))))"

subsection \<open>The clients sign with the adapter that is shown as connected\<close>

fun connectedAdapter :: "machine_state \<Rightarrow> nat option" where
  "connectedAdapter (Connected w i pk hw) = Some i"
| "connectedAdapter _ = None"

definition signerMatches :: "MachineConfig \<Rightarrow> machine \<Rightarrow> bool" where
  "signerMatches cfg s \<longleftrightarrow> generation s = 0 \<and>
     (clientAdapters s 0 = connectedAdapter (mstate s) \<and>
        (hasVault cfg \<longrightarrow> vaultAdapters s 0 = connectedAdapter (mstate s)) \<or>
      connectAttempt s = 0 \<and> mstate s = Disconnected \<and> clientAdapters s 0 = configAdapter cfg \<and>
        (hasVault cfg \<longrightarrow> vaultAdapters s 0 = vaultConfigAdapter cfg))"

lemmas store_defs = storeSession_def dropSession_def storePreference_def afterWrite_def redetectWallets_def

lemma store_fields [simp]:
  "mstate (storeSession cfg w np s) = mstate s" "mstate (dropSession cfg s) = mstate s"
  "mstate (storePreference cfg w s) = mstate s" "mstate (redetectWallets cfg s) = mstate s"
  "clientAdapters (storeSession cfg w np s) = clientAdapters s" "clientAdapters (dropSession cfg s) = clientAdapters s"
  "clientAdapters (storePreference cfg w s) = clientAdapters s" "clientAdapters (redetectWallets cfg s) = clientAdapters s"
  "vaultAdapters (storeSession cfg w np s) = vaultAdapters s" "vaultAdapters (dropSession cfg s) = vaultAdapters s"
  "vaultAdapters (storePreference cfg w s) = vaultAdapters s" "vaultAdapters (redetectWallets cfg s) = vaultAdapters s"
  "generation (storeSession cfg w np s) = generation s" "generation (dropSession cfg s) = generation s"
  "generation (storePreference cfg w s) = generation s" "generation (redetectWallets cfg s) = generation s"
  "connectAttempt (storeSession cfg w np s) = connectAttempt s" "connectAttempt (dropSession cfg s) = connectAttempt s"
  "connectAttempt (storePreference cfg w s) = connectAttempt s" "connectAttempt (redetectWallets cfg s) = connectAttempt s"
  by (simp_all add: store_defs)

lemma setAdapters_fields [simp]:
  "mstate (setAdapters cfg g a s) = mstate s" "generation (setAdapters cfg g a s) = generation s"
  "connectAttempt (setAdapters cfg g a s) = connectAttempt s"
  "clientAdapters (setAdapters cfg g a s) = (clientAdapters s)(g := a)"
  "vaultAdapters (setAdapters cfg g a s) = (if hasVault cfg then (vaultAdapters s)(g := a) else vaultAdapters s)"
  by (simp_all add: setAdapters_def)

lemma dispatch_fields [simp]:
  "mstate (dispatch a s) = walletReducer (mstate s) a" "generation (dispatch a s) = generation s"
  "connectAttempt (dispatch a s) = connectAttempt s" "clientAdapters (dispatch a s) = clientAdapters s"
  "vaultAdapters (dispatch a s) = vaultAdapters s"
  by (simp_all add: dispatch_def)



text \<open>A program that is one of several, chosen by the state, keeps what each of them keeps.\<close>

lemma preserves_cases: "(\<And>s. J s \<Longrightarrow> \<exists>q. preserves J q \<and> p s = q s) \<Longrightarrow> preserves J p"
  unfolding preserves_def by metis

lemma hardwareCheck_cases:
  "\<exists>b. hardwareCheck w i k s = k b s \<or> (\<exists>q. hardwareCheck w i k s = await q (\<lambda>r. k (answerTruth r)) s)"
  by (auto simp: hardwareCheck_def split: hardware_member.splits)

lemma preserves_hardwareCheck:
  assumes "\<And>b. preserves J (k b)"
  shows "preserves J (hardwareCheck w i k)"
proof (rule preserves_cases)
  fix s
  show "\<exists>q. preserves J q \<and> hardwareCheck w i k s = q s"
    using hardwareCheck_cases [of w i k s] assms by (meson preserves_await)
qed

definition wrongNetwork :: "MachineConfig \<Rightarrow> nat \<Rightarrow> string \<Rightarrow> WalletName \<Rightarrow> nat \<Rightarrow> string \<Rightarrow> machine_prog" where
  "wrongNetwork cfg g np wallet i actual s = finish () (dispatch (DoWrongNetwork wallet i np actual)
     (storeSession cfg wallet np (setAdapters cfg g None s)))"

text \<open>The ways on from the end of a handshake.\<close>

lemma connectContinue_cases:
  obtains (failed) e where "connectContinue cfg g np w n i r s = connectFailed cfg g w n (Some i) e s"
  | (stale) "n \<noteq> connectAttempt s"
      "connectContinue cfg g np w n i r s = await (AdapterDisconnect i) (\<lambda>r'. case r' of
          Rejected e \<Rightarrow> connectFailed cfg g w n (Some i) e | Resolved _ \<Rightarrow> finish ()) s"
  | (network) actual where "n = connectAttempt s" "connectContinue cfg g np w n i r s = wrongNetwork cfg g np w i actual s"
  | (check) "n = connectAttempt s" "connectContinue cfg g np w n i r s = hardwareCheck w i (connectFinish cfg g np w i) s"
proof (cases r)
  case (Resolved b)
  then show ?thesis
    using that by (fastforce simp: connectContinue_def wrongNetwork_def split: option.splits if_splits)
qed (use failed in \<open>auto simp: connectContinue_def\<close>)

lemma preserves_staleDisconnect:
  assumes "\<And>e. preserves J (connectFailed cfg g w n (Some i) e)"
  shows "preserves J (await (AdapterDisconnect i) (\<lambda>r'. case r' of
    Rejected e \<Rightarrow> connectFailed cfg g w n (Some i) e | Resolved _ \<Rightarrow> finish ()))"
  by (rule preserves_await) (use assms in \<open>auto split: wallet_answer.splits\<close>)


lemma preserves_connectContinue:
  assumes "\<And>e. preserves J (connectFailed cfg g w n (Some i) e)"
    and "\<And>s. J s \<Longrightarrow> n = connectAttempt s \<Longrightarrow>
      (\<forall>actual. preserves J (wrongNetwork cfg g np w i actual)) \<and> (\<forall>hw. preserves J (connectFinish cfg g np w i hw))"
  shows "preserves J (connectContinue cfg g np w n i r)"
proof (rule preserves_cases)
  fix s
  assume J: "J s"
  show "\<exists>q. preserves J q \<and> connectContinue cfg g np w n i r s = q s"
  proof (cases rule: connectContinue_cases [of cfg g np w n i r s])
    case (failed e)
    then show ?thesis using assms(1) by (intro exI [of _ "connectFailed cfg g w n (Some i) e"]) simp
  next
    case stale
    then show ?thesis using preserves_staleDisconnect [of J cfg g w n i, OF assms(1)] by (intro exI conjI) assumption+
  next
    case (network actual)
    then show ?thesis using assms(2) [OF J] by (intro exI [of _ "wrongNetwork cfg g np w i actual"]) simp
  next
    case check
    then show ?thesis using preserves_hardwareCheck [of J "connectFinish cfg g np w i" w i] assms(2) [OF J]
      by (intro exI [of _ "hardwareCheck w i (connectFinish cfg g np w i)"]) simp
  qed
qed


lemma connectStart_fields [simp]:
  "mstate (connectStart cfg g w s) = Connecting w" "connectAttempt (connectStart cfg g w s) = Suc (connectAttempt s)"
  "generation (connectStart cfg g w s) = generation s"
  "clientAdapters (connectStart cfg g w s) g = None"
  "hasVault cfg \<Longrightarrow> vaultAdapters (connectStart cfg g w s) g = None"
  by (auto simp: connectStart_def Let_def currentAdapter_def split: option.splits if_splits)



lemma signer_store [simp]:
  "signerMatches cfg s \<Longrightarrow> signerMatches cfg (redetectWallets cfg s)"
  "signerMatches cfg s \<Longrightarrow> signerMatches cfg (storePreference cfg w s)"
  "signerMatches cfg s \<Longrightarrow> signerMatches cfg (dropSession cfg s)"
  by (simp_all add: signerMatches_def)


lemma preservesTask_lastAwait [simp]: "preservesTask J (Await q (\<lambda>_. finish r))"
  by (rule preservesTask.awaits) (simp add: preservesTask.returns)









subsection \<open>A disconnected wallet stays disconnected\<close>

text \<open>The queries of a handshake: the adapter's own connect and disconnect.\<close>

fun isHandshake :: "wallet_query \<Rightarrow> bool" where
  "isHandshake (AdapterConnect i) = True"
| "isHandshake (AdapterDisconnect i) = True"
| "isHandshake _ = False"

definition disconnectedAt :: "nat \<Rightarrow> nat \<Rightarrow> machine \<Rightarrow> bool" where
  "disconnectedAt g m s \<longleftrightarrow> connectAttempt s = m \<and> mstate s = Disconnected \<and> clientAdapters s g = None"

text \<open>
  A call that waits in a handshake begun by attempt \<open>n\<close> or an earlier one leaves a machine alone that was
  disconnected afterwards, and so do the calls that follow.
\<close>

definition staleCall :: "nat \<Rightarrow> nat \<Rightarrow> (wallet_query, wallet_answer, machine, unit) waiting_call \<Rightarrow> bool" where
  "staleCall g n c \<longleftrightarrow> isHandshake (fst c) \<longrightarrow> (\<forall>m > n. quietCall (disconnectedAt g m) c)"

inductive attemptTask :: "nat \<Rightarrow> nat \<Rightarrow> (wallet_query, wallet_answer, machine, unit) task \<Rightarrow> bool" for g where
  returns: "attemptTask g n (Return r)"
| awaits: "staleCall g n (q, k) \<Longrightarrow>
     (\<And>a s. n \<le> connectAttempt s \<Longrightarrow> connectAttempt s \<le> connectAttempt (fst (k a s)) \<and>
        attemptTask g (connectAttempt (fst (k a s))) (snd (k a s))) \<Longrightarrow>
     attemptTask g n (Await q k)"

inductive_cases attemptTask_AwaitE: "attemptTask g n (Await q k)"

definition attemptProg :: "nat \<Rightarrow> nat \<Rightarrow> machine_prog \<Rightarrow> bool" where
  "attemptProg g n p \<longleftrightarrow> (\<forall>s. n \<le> connectAttempt s \<longrightarrow> connectAttempt s \<le> connectAttempt (fst (p s)) \<and>
     attemptTask g (connectAttempt (fst (p s))) (snd (p s)))"

lemma attemptProgI:
  "(\<And>s. n \<le> connectAttempt s \<Longrightarrow> connectAttempt s \<le> connectAttempt (fst (p s)) \<and>
     attemptTask g (connectAttempt (fst (p s))) (snd (p s))) \<Longrightarrow> attemptProg g n p"
  by (simp add: attemptProg_def)

lemma attemptProgD:
  "attemptProg g n p \<Longrightarrow> n \<le> connectAttempt s \<Longrightarrow> connectAttempt s \<le> connectAttempt (fst (p s)) \<and>
     attemptTask g (connectAttempt (fst (p s))) (snd (p s))"
  by (simp add: attemptProg_def)

lemma staleCall_mono: "staleCall g n c \<Longrightarrow> n \<le> m \<Longrightarrow> staleCall g m c"
  by (auto simp: staleCall_def)

lemma attemptTask_await:
  "staleCall g n (q, k) \<Longrightarrow> (\<And>a. attemptProg g n (k a)) \<Longrightarrow> attemptTask g n (Await q k)"
  by (rule attemptTask.awaits) (auto simp: attemptProg_def)

lemma attemptTask_free: "\<not> isHandshake q \<Longrightarrow> (\<And>a. attemptProg g n (k a)) \<Longrightarrow> attemptTask g n (Await q k)"
  by (rule attemptTask_await) (simp_all add: staleCall_def)

lemma attemptTask_resume:
  assumes "attemptTask g n t" and "\<And>m. attemptProg g m (f ())" and "\<And>m. preserves (disconnectedAt g m) (f ())"
  shows "attemptProg g n (resume t f)"
  using assms(1)
proof induction
  case (returns n r)
  then show ?case using assms(2) by simp
next
  case (awaits n q k)
  have a: "attemptProg g n (asyncThen (k a) f)" for a
  proof (rule attemptProgI)
    fix s :: machine
    assume s: "n \<le> connectAttempt s"
    obtain s' t' where st: "k a s = (s', t')" by (cases "k a s")
    have "connectAttempt s \<le> connectAttempt s'" "attemptProg g (connectAttempt s') (resume t' f)"
      using awaits(2) [OF s, of a] st by simp_all
    then show "connectAttempt s \<le> connectAttempt (fst (asyncThen (k a) f s)) \<and>
        attemptTask g (connectAttempt (fst (asyncThen (k a) f s))) (snd (asyncThen (k a) f s))"
      using attemptProgD [of g "connectAttempt s'" "resume t' f" s'] by (simp add: asyncThen_def st)
  qed
  have "staleCall g n (q, \<lambda>a. asyncThen (k a) f)"
    using awaits(1) assms(3) by (auto simp: staleCall_def quietCall_def intro!: preserves_asyncThen)
  with a have "attemptTask g m (Await q (\<lambda>a. asyncThen (k a) f))" if "n \<le> m" for m
    using attemptTask_await [of g m q] staleCall_mono that by (auto simp: attemptProg_def)
  then show ?case by (auto simp: attemptProg_def)
qed

lemma attemptProg_asyncThen:
  assumes "attemptProg g n p" and "\<And>m. attemptProg g m (f ())" and "\<And>m. preserves (disconnectedAt g m) (f ())"
  shows "attemptProg g n (asyncThen p f)"
proof (rule attemptProgI)
  fix s :: machine
  assume s: "n \<le> connectAttempt s"
  obtain s' t where st: "p s = (s', t)" by (cases "p s")
  have "connectAttempt s \<le> connectAttempt s'" "attemptTask g (connectAttempt s') t"
    using attemptProgD [OF assms(1) s] st by simp_all
  moreover from this(2) have "attemptProg g (connectAttempt s') (resume t f)"
    by (rule attemptTask_resume) (use assms(2,3) in auto)
  ultimately show "connectAttempt s \<le> connectAttempt (fst (asyncThen p f s)) \<and>
      attemptTask g (connectAttempt (fst (asyncThen p f s))) (snd (asyncThen p f s))"
    using attemptProgD [of g "connectAttempt s'" "resume t f" s'] by (simp add: asyncThen_def st)
qed

lemma attemptProg_then:
  "attemptProg g n p \<Longrightarrow> (\<And>m. attemptProg g m q) \<Longrightarrow> (\<And>m. preserves (disconnectedAt g m) q) \<Longrightarrow>
     attemptProg g n (asyncThen p (\<lambda>_. q))"
  by (rule attemptProg_asyncThen)

lemma attemptProg_simple: "(\<And>s. \<exists>s' r. p s = (s', Return r) \<and> connectAttempt s \<le> connectAttempt s') \<Longrightarrow> attemptProg g n p"
  by (rule attemptProgI) (metis attemptTask.returns fst_conv snd_conv)

lemma attempt_connectFailed: "attemptProg g n (connectFailed cfg g' w m a e)"
  by (rule attemptProg_simple) (simp add: connectFailed_def)

lemma attempt_connectFinish: "attemptProg g n (connectFinish cfg g' np w i hw)"
  by (rule attemptProg_simple) (simp add: connectFinish_def)

lemma disconnected_connectFailed: "n < m \<Longrightarrow> preserves (disconnectedAt g m) (connectFailed cfg g' w n a e)"
  by (rule preservesI) (auto simp: connectFailed_def disconnectedAt_def preservesTask.returns)

lemma disconnected_connectContinue: "n < m \<Longrightarrow> preserves (disconnectedAt g m) (connectContinue cfg g' np w n i r)"
  by (rule preserves_connectContinue) (auto simp: disconnected_connectFailed disconnectedAt_def)

lemma attempt_hardwareCheck:
  assumes "\<And>m b. attemptProg g m (k b)"
  shows "attemptProg g n (hardwareCheck w i k)"
proof (rule attemptProgI)
  fix s :: machine
  assume s: "n \<le> connectAttempt s"
  have free: "attemptTask g m (Await q (\<lambda>r. k (answerTruth r)))" if "\<not> isHandshake q" for q m
    by (rule attemptTask_free [OF that]) (rule assms)
  show "connectAttempt s \<le> connectAttempt (fst (hardwareCheck w i k s)) \<and>
      attemptTask g (connectAttempt (fst (hardwareCheck w i k s))) (snd (hardwareCheck w i k s))"
    using attemptProgD [OF assms s] free by (auto simp: hardwareCheck_def split: hardware_member.splits)
qed

lemma attempt_staleDisconnect:
  "n \<le> m \<Longrightarrow> attemptTask g m (Await (AdapterDisconnect i) (\<lambda>r'. case r' of
     Rejected e \<Rightarrow> connectFailed cfg g' w n (Some i) e | Resolved _ \<Rightarrow> finish ()))"
proof (rule attemptTask_await)
  show "staleCall g m (AdapterDisconnect i, \<lambda>r'. case r' of
      Rejected e \<Rightarrow> connectFailed cfg g' w n (Some i) e | Resolved _ \<Rightarrow> finish ())" if "n \<le> m"
    using that disconnected_connectFailed [of n _ g cfg g' w "Some i"]
    by (auto simp: staleCall_def quietCall_def split: wallet_answer.splits)
  show "attemptProg g m (case r' of Rejected e \<Rightarrow> connectFailed cfg g' w n (Some i) e | Resolved _ \<Rightarrow> finish ())" for r'
    by (cases r') (auto simp: attempt_connectFailed intro: attemptProg_simple)
qed

lemma attempt_connectContinue: "n \<le> m \<Longrightarrow> attemptProg g m (connectContinue cfg g' np w n i r)"
proof (rule attemptProgI)
  fix s :: machine
  assume nm: "n \<le> m" and s: "m \<le> connectAttempt s"
  show "connectAttempt s \<le> connectAttempt (fst (connectContinue cfg g' np w n i r s)) \<and>
      attemptTask g (connectAttempt (fst (connectContinue cfg g' np w n i r s))) (snd (connectContinue cfg g' np w n i r s))"
  proof (cases rule: connectContinue_cases [of cfg g' np w n i r s])
    case (failed e)
    then show ?thesis using attemptProgD [OF attempt_connectFailed s] by simp
  next
    case stale
    then show ?thesis using attempt_staleDisconnect [of n "connectAttempt s"] nm s by simp
  next
    case (network actual)
    then show ?thesis by (simp add: wrongNetwork_def attemptTask.returns)
  next
    case check
    then show ?thesis using attemptProgD [OF attempt_hardwareCheck [OF attempt_connectFinish] s] by simp
  qed
qed

lemma attempt_connect: "attemptProg g n (connect cfg g' np w alloc)"
proof (rule attemptProgI)
  fix s :: machine
  assume s: "n \<le> connectAttempt s"
  let ?m = "Suc (connectAttempt s)"
  have stale: "staleCall g ?m (AdapterConnect i, connectContinue cfg g' np w ?m i)" for i
    by (auto simp: staleCall_def quietCall_def intro: disconnected_connectContinue)
  show "connectAttempt s \<le> connectAttempt (fst (connect cfg g' np w alloc s)) \<and>
      attemptTask g (connectAttempt (fst (connect cfg g' np w alloc s))) (snd (connect cfg g' np w alloc s))"
  proof (cases alloc)
    case (Inl e)
    then show ?thesis
      using attemptProgD [OF attempt_connectFailed [of g 0 cfg g' w ?m None e], of "connectStart cfg g' w s"]
      by (simp add: connect_def)
  next
    case (Inr i)
    then show ?thesis using attemptTask_await [OF stale attempt_connectContinue [OF order_refl]] by (simp add: connect_def)
  qed
qed

lemma attempt_tail:
  "attemptProg g n (modify (redetectWallets cfg) (finish ()))" "attemptProg g n (restoreEnd m)"
  "preserves (disconnectedAt g m) (modify (redetectWallets cfg) (finish ()))" "preserves (disconnectedAt g m) (restoreEnd m')"
  by (auto intro!: attemptProg_simple preservesI simp: restoreEnd_def disconnectedAt_def preservesTask.returns)

lemma attempt_connectWallet: "attemptProg g n (connectWallet cfg g' np w alloc)"
proof (rule attemptProgI)
  fix s :: machine
  assume s: "n \<le> connectAttempt s"
  have go: "attemptProg g m (asyncThen (connect cfg g' np w alloc) (\<lambda>_. modify (redetectWallets cfg) (finish ())))" for m
    by (rule attemptProg_then [OF attempt_connect attempt_tail(1,3)])
  show "connectAttempt s \<le> connectAttempt (fst (connectWallet cfg g' np w alloc s)) \<and>
      attemptTask g (connectAttempt (fst (connectWallet cfg g' np w alloc s))) (snd (connectWallet cfg g' np w alloc s))"
    using attemptProgD [OF go, of n "storePreference cfg w s"] attemptTask_free [of AlbedoScript, OF _ go] s
    by (auto simp: connectWallet_def Let_def attemptTask.returns)
qed

lemma attempt_disconnect: "attemptProg g n (disconnect cfg g')"
proof (rule attemptProgI)
  fix s :: machine
  have "attemptTask g m (Await (AdapterDisconnect i) (\<lambda>_. finish ()))" for m i
    by (rule attemptTask_await) (auto simp: staleCall_def quietCall_def intro: attemptProg_simple)
  then show "connectAttempt s \<le> connectAttempt (fst (disconnect cfg g' s)) \<and>
      attemptTask g (connectAttempt (fst (disconnect cfg g' s))) (snd (disconnect cfg g' s))"
    by (auto simp: disconnect_def Let_def attemptTask.returns split: option.splits)
qed

lemma attempt_fallback: "attemptProg g n (albedoFallback cfg)"
proof -
  have "attemptProg g m (\<lambda>s. if answerTruth r then finish () s else if stateRef s = Disconnected then finish () (dropSession cfg s) else finish () s)" for m r
    by (rule attemptProg_simple) simp
  from attemptTask_free [of AlbedoScript, OF _ this] show ?thesis
    by (auto simp: albedoFallback_def intro!: attemptProgI)
qed

lemma attempt_restoreContinue: "attemptProg g n (restoreContinue cfg g' np m alloc w)"
proof (rule attemptProgI)
  fix s :: machine
  assume "n \<le> connectAttempt s"
  with attemptProgD [OF attemptProg_then [OF attempt_connect attempt_tail(2,4)], of n s cfg g' np w alloc m]
  show "connectAttempt s \<le> connectAttempt (fst (restoreContinue cfg g' np m alloc w s)) \<and>
      attemptTask g (connectAttempt (fst (restoreContinue cfg g' np m alloc w s))) (snd (restoreContinue cfg g' np m alloc w s))"
    by (auto simp: restoreContinue_def attemptTask.returns)
qed

lemma attempt_restoreEffect: "attemptProg g n (restoreEffect cfg alloc)"
proof (rule attemptProgI)
  fix s :: machine
  show "connectAttempt s \<le> connectAttempt (fst (restoreEffect cfg alloc s)) \<and>
      attemptTask g (connectAttempt (fst (restoreEffect cfg alloc s))) (snd (restoreEffect cfg alloc s))"
    using attemptTask_free [of Tick, OF _ attempt_restoreContinue]
    by (auto simp: restoreEffect_def restoreRun_def Let_def attemptTask.returns split: prod.splits option.splits)
qed

text \<open>Steps in which nobody asks for a wallet.\<close>

inductive idleEntry :: "(machine \<Rightarrow> (wallet_query, wallet_answer, machine, unit) instance_state) \<Rightarrow> bool" where
  renders: "idleEntry (\<lambda>s. (s\<lparr>stateRef := mstate s\<rparr>, []))"
| adapterChanges: "idleEntry (\<lambda>s. (s\<lparr>adapterObjects := ao\<rparr>, []))"
| pageChanges: "idleEntry (\<lambda>s. (s\<lparr>mpage := pg, faults := f\<rparr>, []))"

definition attemptsOk :: "nat \<Rightarrow> machine \<Rightarrow> (wallet_query, wallet_answer, machine, unit) waiting_call list \<Rightarrow> bool" where
  "attemptsOk g s ts \<longleftrightarrow> (\<forall>q k. (q, k) \<in> set ts \<longrightarrow> attemptTask g (connectAttempt s) (Await q k))"

lemma attemptTask_mono: "attemptTask g n t \<Longrightarrow> n \<le> m \<Longrightarrow> attemptTask g m t"
proof (induction rule: attemptTask.induct)
  case (awaits n q k)
  then show ?case
    by (intro attemptTask.awaits) (auto intro: staleCall_mono dest: order_trans)
qed (rule attemptTask.returns)

lemma attemptsOk_launch:
  assumes "attemptProg g 0 p" and "attemptsOk g s ts" and "launch p s = (s', new)"
  shows "attemptsOk g s' (ts @ new)"
proof -
  obtain t where t: "p s = (s', t)" "new = waiting t" using assms(3) by (auto simp: launch_def split: prod.splits)
  have le: "connectAttempt s \<le> connectAttempt s'" and ok: "attemptTask g (connectAttempt s') t"
    using attemptProgD [OF assms(1), of s] t by simp_all
  show ?thesis
    using assms(2) le ok t(2) by (cases t) (auto simp: attemptsOk_def dest: attemptTask_mono)
qed

lemma attemptsOk_answer:
  assumes "attemptsOk g s (us @ (q, k) # vs)" and "launch (k a) s = (s', new)"
  shows "attemptsOk g s' (us @ vs @ new)"
proof -
  obtain t where t: "k a s = (s', t)" "new = waiting t" using assms(2) by (auto simp: launch_def split: prod.splits)
  have "attemptTask g (connectAttempt s) (Await q k)" using assms(1) by (simp add: attemptsOk_def)
  then have "connectAttempt s \<le> connectAttempt (fst (k a s)) \<and> attemptTask g (connectAttempt (fst (k a s))) (snd (k a s))"
    by (rule attemptTask_AwaitE) simp
  then have le: "connectAttempt s \<le> connectAttempt s'" and ok: "attemptTask g (connectAttempt s') t" using t by simp_all
  show ?thesis
    using assms(1) le ok t(2) by (cases t) (auto simp: attemptsOk_def dest: attemptTask_mono)
qed

lemma attemptsOk_same: "attemptsOk g s ts \<Longrightarrow> connectAttempt s' = connectAttempt s \<Longrightarrow> attemptsOk g s' ts"
  by (simp add: attemptsOk_def)

lemma reachable_attemptsOk:
  assumes "mountMachine cfg pg f np ao alloc = (s0, ts0)"
    and "instance_steps (walletEntry cfg sw) (s0, ts0) (s, ts)"
  shows "attemptsOk g s ts"
  using assms(2)
proof (rule instance_invariant [where I = "attemptsOk g"])
  show "attemptsOk g s0 ts0"
    using attemptsOk_launch [OF attempt_restoreEffect _ assms(1) [unfolded mountMachine_def], of g "[]"]
    by (simp add: attemptsOk_def)
next
  fix e s ts s' new
  assume e: "walletEntry cfg sw e" and I: "attemptsOk g s ts" and step: "e s = (s', new)"
  from e show "attemptsOk g s' (ts @ new)"
  proof cases
    case (connects w alloc)
    then show ?thesis using attemptsOk_launch [OF attempt_connect I] step by blast
  next
    case (connectsWallet w alloc)
    then show ?thesis using attemptsOk_launch [OF attempt_connectWallet I] step by blast
  next
    case disconnects
    then show ?thesis using attemptsOk_launch [OF attempt_disconnect I] step by blast
  next
    case fallback
    then show ?thesis using attemptsOk_launch [OF attempt_fallback I] step by blast
  next
    case (switches alloc np)
    have "attemptsOk g (s\<lparr>generation := Suc (generation s), passphrase := np\<rparr>) ts" using I by (rule attemptsOk_same) simp
    then show ?thesis using attemptsOk_launch [OF attempt_restoreEffect] switches step by blast
  qed (use I step in \<open>auto intro: attemptsOk_same\<close>)
qed (rule attemptsOk_answer)

text \<open>
  C5. Disconnecting is final: when no call waits except for handshakes of the adapters, then after
  \<^verbatim>\<open>disconnect\<close> the machine stays disconnected and the client keeps no adapter, in whatever order the
  handshakes end, as long as nobody asks for a wallet again.
\<close>

theorem disconnect_is_final:
  assumes "mountMachine cfg pg f np ao alloc = (s0, ts0)"
    and "instance_steps (walletEntry cfg sw) (s0, ts0) (s, ts)"
    and "\<forall>(q, k) \<in> set ts. isHandshake q"
    and "launch (disconnect cfg (generation s)) s = (s1, new)"
    and "instance_steps idleEntry (s1, ts @ new) (s2, ts2)"
  shows "mstate s2 = Disconnected \<and> clientAdapters s2 (generation s) = None"
proof -
  let ?J = "disconnectedAt (generation s) (connectAttempt s1)"
  have s1: "?J s1" "connectAttempt s1 = Suc (connectAttempt s)" "\<And>c. c \<in> set new \<Longrightarrow> quietCall ?J c"
    using assms(4) by (auto simp: launch_def disconnect_def Let_def disconnectedAt_def quietCall_def split: option.splits)
  have old: "quietCall ?J c" if "c \<in> set ts" for c
  proof -
    obtain q k where c: "c = (q, k)" by (cases c)
    have "attemptTask (generation s) (connectAttempt s) (Await q k)"
      using reachable_attemptsOk [OF assms(1,2), of "generation s"] that c by (auto simp: attemptsOk_def)
    then have "staleCall (generation s) (connectAttempt s) (q, k)" by (auto elim: attemptTask_AwaitE)
    then show ?thesis using that c assms(3) s1(2) by (auto simp: staleCall_def)
  qed
  have "?J s2 \<and> (\<forall>c \<in> set ts2. quietCall ?J c)"
    using assms(5)
  proof (rule instance_preserves [where J = ?J])
    show "?J s1" using s1(1) .
    show "quietCall ?J c" if "c \<in> set (ts @ new)" for c using that old s1(3) by (metis Un_iff set_append)
    fix e t t' new'
    assume e: "idleEntry e" and J: "?J t" and step: "e t = (t', new')"
    from e show "?J t' \<and> (\<forall>c \<in> set new'. quietCall ?J c)"
      by cases (use J step in \<open>auto simp: disconnectedAt_def\<close>)
  qed
  then show ?thesis by (simp add: disconnectedAt_def)
qed

subsection \<open>A hardware check undoes a disconnect\<close>

text \<open>
  The attempt is not looked at again after the hardware check. A user who disconnects while the check is
  pending is connected again when it ends: the client signs with the adapter, the session is stored again
  and the state has no public key.
\<close>

definition demoConfig :: MachineConfig where
  "demoConfig = \<lparr>hasVault = False, configAdapter = None, vaultConfigAdapter = None, factories = None, restoreSession = False\<rparr>"

definition demoFaults :: StorageFaults where
  "demoFaults = \<lparr>accessThrows = False, getThrows = (\<lambda>_. False), setThrows = (\<lambda>_ _. False), removeThrows = (\<lambda>_. False)\<rparr>"

definition ledgerObject :: "nat \<Rightarrow> AdapterObject" where
  "ledgerObject i = \<lparr>objName = ''freighter'', objConnected = True, objPublicKey = Some ''GA'', objPassphrase = None,
     objHardware = HardwareMethod\<rparr>"

lemma store_objects [simp]:
  "adapterObjects (storeSession cfg w np s) = adapterObjects s" "adapterObjects (dropSession cfg s) = adapterObjects s"
  "activeAdapter (storeSession cfg w np s) = activeAdapter s" "activeAdapter (dropSession cfg s) = activeAdapter s"
  "adapterObjects (dispatch a s) = adapterObjects s" "activeAdapter (dispatch a s) = activeAdapter s"
  "adapterObjects (setAdapters cfg g b s) = adapterObjects s" "activeAdapter (setAdapters cfg g b s) = activeAdapter s"
  "adapterObjects (connectStart cfg g w s) = adapterObjects s"
  by (simp_all add: store_defs dispatch_def setAdapters_def connectStart_def Let_def)

lemma call_step: "entry e \<Longrightarrow> e s = (s', new) \<Longrightarrow> instance_step entry (s, ts) (s', ts @ new)"
  by (rule instance_step.call)

lemma first_answer: "launch (k a) s = (s', new) \<Longrightarrow> instance_step entry (s, (q, k) # ts) (s', ts @ new)"
  using instance_step.answer [of 0 "(q, k) # ts" q k a s s' new entry] by simp

definition demoMounted :: machine where
  "demoMounted = (initialMachine demoConfig blankPage demoFaults ''net'' ledgerObject)\<lparr>effectId := 1\<rparr>"

definition demoConnecting :: machine where
  "demoConnecting = (connectStart demoConfig 0 ''freighter'' demoMounted)\<lparr>activeAdapter := Some 0\<rparr>"

definition demoHandshake :: "(wallet_query, wallet_answer, machine, unit) waiting_call" where
  "demoHandshake = (AdapterConnect 0, connectContinue demoConfig 0 ''net'' ''freighter'' 1 0)"

definition demoCheck :: "(wallet_query, wallet_answer, machine, unit) waiting_call" where
  "demoCheck = (HardwareCheck 0, \<lambda>r. connectFinish demoConfig 0 ''net'' ''freighter'' 0 (answerTruth r))"

lemma demo_fields:
  "generation demoMounted = 0" "passphrase demoMounted = ''net''" "connectAttempt demoMounted = 0"
  "adapterObjects demoMounted = ledgerObject" "generation demoConnecting = 0" "connectAttempt demoConnecting = 1"
  "adapterObjects demoConnecting = ledgerObject" "activeAdapter demoConnecting = Some 0"
  by (simp_all add: demoConnecting_def demoMounted_def initialMachine_def)

lemma demo_mount: "mountMachine demoConfig blankPage demoFaults ''net'' ledgerObject (Inr 0) = (demoMounted, [])"
  by (simp add: mountMachine_def launch_def restoreEffect_def demoConfig_def demoMounted_def initialMachine_def)

lemma demo_connecting: "instance_steps (walletEntry demoConfig False) (demoMounted, []) (demoConnecting, [demoHandshake])"
proof -
  have "launch (connect demoConfig (generation demoMounted) (passphrase demoMounted) ''freighter'' (Inr 0)) demoMounted =
      (demoConnecting, [demoHandshake])"
    by (simp add: launch_def connect_def demo_fields demoConnecting_def demoHandshake_def)
  then have "instance_step (walletEntry demoConfig False) (demoMounted, []) (demoConnecting, [] @ [demoHandshake])"
    by (rule call_step [rotated]) (rule walletEntry.connects)
  then show ?thesis by (simp add: r_into_rtranclp)
qed

lemma demo_checking: "instance_steps (walletEntry demoConfig False) (demoMounted, []) (demoConnecting, [demoCheck])"
proof -
  have "launch (connectContinue demoConfig 0 ''net'' ''freighter'' 1 0 (Resolved True)) demoConnecting = (demoConnecting, [demoCheck])"
    by (simp add: launch_def connectContinue_def demo_fields ledgerObject_def hardwareCheck_def truthy_def demoCheck_def)
  then have "instance_step (walletEntry demoConfig False) (demoConnecting, [demoHandshake]) (demoConnecting, [] @ [demoCheck])"
    unfolding demoHandshake_def by (rule first_answer)
  with demo_connecting show ?thesis by (simp add: rtranclp.rtrancl_into_rtrancl)
qed

lemma demo_connected:
  obtains s where "instance_step entry (s', demoCheck # ts) (s, ts)" "mstate s = Connected ''freighter'' 0 (objPublicKey (adapterObjects s' 0)) False"
    "clientAdapters s 0 = Some 0"
proof -
  obtain s where f: "launch (snd demoCheck (Resolved False)) s' = (s, [])"
    by (simp add: launch_def connectFinish_def demoCheck_def)
  then have "instance_step entry (s', (HardwareCheck 0, snd demoCheck) # ts) (s, ts @ [])" by (rule first_answer)
  moreover have "mstate s = Connected ''freighter'' 0 (objPublicKey (adapterObjects s' 0)) False" "clientAdapters s 0 = Some 0"
    using f by (auto simp: launch_def connectFinish_def demoCheck_def)
  ultimately show thesis using that by (simp add: demoCheck_def)
qed

theorem hardware_check_undoes_disconnect:
  "\<exists>s0 s ts s' ts'.
     mountMachine demoConfig blankPage demoFaults ''net'' ledgerObject (Inr 0) = (s0, []) \<and>
     instance_steps (walletEntry demoConfig False) (s0, []) (s, ts) \<and> mstate s = Disconnected \<and> clientAdapters s 0 = None \<and>
     instance_steps idleEntry (s, ts) (s', ts') \<and>
     mstate s' = Connected ''freighter'' 0 None False \<and> clientAdapters s' 0 = Some 0"
proof -
  obtain s2 new where d: "launch (disconnect demoConfig 0) demoConnecting = (s2, new)"
    by (cases "launch (disconnect demoConfig 0) demoConnecting")
  have s2: "mstate s2 = Disconnected" "clientAdapters s2 0 = None" "objPublicKey (adapterObjects s2 0) = None"
    using d demo_fields by (auto simp: launch_def disconnect_def Let_def currentAdapter_def split: option.splits)
  have "instance_step (walletEntry demoConfig False) (demoConnecting, [demoCheck]) (s2, [demoCheck] @ new)"
    by (rule call_step, rule walletEntry.disconnects, simp add: demo_fields d)
  with demo_checking have "instance_steps (walletEntry demoConfig False) (demoMounted, []) (s2, demoCheck # new)"
    by (simp add: rtranclp.rtrancl_into_rtrancl)
  moreover obtain s3 where "instance_step idleEntry (s2, demoCheck # new) (s3, new)"
      "mstate s3 = Connected ''freighter'' 0 (objPublicKey (adapterObjects s2 0)) False" "clientAdapters s3 0 = Some 0"
    by (rule demo_connected)
  ultimately show ?thesis using demo_mount s2 by (metis r_into_rtranclp)
qed


theorem disconnect_is_final_witness:
  "\<exists>s1 new s2 ts2.
     mountMachine demoConfig blankPage demoFaults ''net'' ledgerObject (Inr 0) = (demoMounted, []) \<and>
     instance_steps (walletEntry demoConfig False) (demoMounted, []) (demoConnecting, [demoHandshake]) \<and>
     (\<forall>(q, k) \<in> set [demoHandshake]. isHandshake q) \<and>
     launch (disconnect demoConfig (generation demoConnecting)) demoConnecting = (s1, new) \<and>
     instance_steps idleEntry (s1, [demoHandshake] @ new) (s2, ts2) \<and>
     mstate s2 = Disconnected \<and> clientAdapters s2 (generation demoConnecting) = None"
proof -
  obtain s1 new where d: "launch (disconnect demoConfig (generation demoConnecting)) demoConnecting = (s1, new)"
    by (cases "launch (disconnect demoConfig (generation demoConnecting)) demoConnecting")
  obtain s2 new2 where a: "launch (snd demoHandshake (Resolved True)) s1 = (s2, new2)"
    by (cases "launch (snd demoHandshake (Resolved True)) s1")
  from a have "instance_step idleEntry (s1, (AdapterConnect 0, snd demoHandshake) # new) (s2, new @ new2)" by (rule first_answer)
  then have idle: "instance_steps idleEntry (s1, [demoHandshake] @ new) (s2, new @ new2)"
    by (simp add: demoHandshake_def r_into_rtranclp)
  have h: "\<forall>(q, k) \<in> set [demoHandshake]. isHandshake q" by (simp add: demoHandshake_def)
  from disconnect_is_final [OF demo_mount demo_connecting h d idle] show ?thesis
    using demo_mount demo_connecting h d idle by blast
qed

subsection \<open>What the application sees\<close>

text \<open>
  \<^verbatim>\<open>useWallet\<close> reports a connection only for an adapter that is connected, has this public key, and is on the
  network of the provider or does not say on which it is.
\<close>

theorem useWallet_connected:
  assumes "useWallet cfg s = ViewConnected pk n" and "passphrase s \<noteq> []"
  shows "\<exists>i. viewAdapter cfg s = Some i \<and> objConnected (adapterObjects s i) \<and> objPublicKey (adapterObjects s i) = Some pk \<and>
    pk \<noteq> [] \<and> (truthy (objPassphrase (adapterObjects s i)) \<longrightarrow> objPassphrase (adapterObjects s i) = Some (passphrase s))"
  using assms
  by (auto simp: useWallet_def adapterView_def truthy_def bind_eq_Some_conv split: machine_state.splits option.splits if_splits)

text \<open>A failed handshake of the current attempt leaves no adapter on the clients and no session to restore.\<close>

theorem failed_connect_forgets_session:
  assumes "connectFailed cfg g w n a e s = (s', t)" and "n = connectAttempt s"
    and "cachedStorage (mpage s) \<and> \<not> removeThrows (faults s) WALLET_SESSION_KEY"
  shows "t = Return () \<and> mstate s' = Failed (Some w) a (asError e) \<and> clientAdapters s' g = None \<and>
    fst (loadWalletSession g' (mpage s')) = None"
proof -
  let ?s = "(setAdapters cfg g None s)\<lparr>activeAdapter := a\<rparr>"
  have m: "mpage ?s = mpage s" "faults ?s = faults s" by (simp_all add: setAdapters_def)
  have s': "s' = dispatch (DoError (Some w) a (asError e)) (dropSession cfg ?s)" "t = Return ()"
    using assms(1,2) by (auto simp: connectFailed_def)
  have mp: "mpage s' = clearWalletSession (faults s) (mpage s)"
    using s' m by (simp add: dispatch_def dropSession_def afterWrite_def redetectWallets_def)
  have "cachedStorage (clearWalletSession (faults s) (mpage s))"
    using assms(3) by (simp add: clearWalletSession_def removeStoredValue_def Let_def)
  with session_clear_load(1) [of "faults s" "mpage s" g'] assms(3) mp s' show ?thesis by simp
qed

text \<open>
  When sessions are not restored, a change of the network leaves the machine connected while the new client,
  whose configuration carries no adapter, has none to sign with.
\<close>

theorem network_switch_loses_signer:
  assumes "\<not> restoreSession cfg" and "mstate s = Connected w i pk hw" and "clientAdapters s (Suc (generation s)) = None"
    and "launch (restoreEffect cfg alloc) (s\<lparr>generation := Suc (generation s), passphrase := np\<rparr>) = (s', new)"
  shows "new = [] \<and> mstate s' = Connected w i pk hw \<and> clientAdapters s' (generation s') = None"
  using assms by (auto simp: launch_def restoreEffect_def)

text \<open>
  An adapter that answers the hardware check with a method is always reported as a hardware wallet, also when
  the method said that it is none.
\<close>

theorem hardware_method_always_reported:
  assumes "stateRef s = Connected w i pk False" and "objHardware (adapterObjects s i) = HardwareMethod"
  shows "useWalletHardware cfg s"
  using assms by (simp add: useWalletHardware_def viewAdapter_def)

text \<open>Signing ends within the time limit; an answer in time is the result.\<close>

theorem signWithHardwareTimeout_bounded:
  assumes "limit = (case t of Some n \<Rightarrow> n | None \<Rightarrow>
      if hw = Some True then HARDWARE_SIGNATURE_TIMEOUT_MS else DEFAULT_SIGNATURE_TIMEOUT_MS)"
  shows "fst (signWithHardwareTimeout signing hw t m) \<le> max 0 limit"
    and "\<forall>d r. signing = Some (d, r) \<and> d \<le> max 0 limit \<longrightarrow> signWithHardwareTimeout signing hw t m = (d, r)"
    and "(\<forall>d r. signing = Some (d, r) \<longrightarrow> max 0 limit < d) \<longrightarrow>
      (\<exists>e. signWithHardwareTimeout signing hw t m = (max 0 limit, Inl e))"
  using assms by (auto simp: signWithHardwareTimeout_def Let_def split: option.splits)

end
