(* ===== verification/ReactWrites.thy ===== *)
theory ReactWrites
  imports ReactReads WalletMachine
begin

text \<open>
  The hooks of \<^verbatim>\<open>src/react/src/hooks.ts\<close> that submit a transaction or simulate one: \<^verbatim>\<open>useMint\<close>, \<^verbatim>\<open>useTransfer\<close>,
  \<^verbatim>\<open>useApprove\<close>, \<^verbatim>\<open>useBurn\<close>, \<^verbatim>\<open>useVaultDeposit\<close>, \<^verbatim>\<open>useProposalVote\<close>, \<^verbatim>\<open>useProposalVoting\<close>,
  \<^verbatim>\<open>approveAndRefetch\<close> of \<^verbatim>\<open>useTokenAllowance\<close>, \<^verbatim>\<open>useExtendContractTtl\<close>, \<^verbatim>\<open>useSimulateTransaction\<close> and
  \<^verbatim>\<open>useEstimateFee\<close>. The value of a hook state is here the list of the events dispatched on \<^verbatim>\<open>window\<close>,
  to which the read hooks listen. A write goes to the client only when the wallet was shown as connected
  at the last render (\<open>write_needs_connected\<close>).
\<close>

subsection \<open>The common shape\<close>

fun viewStatus :: "wallet_view \<Rightarrow> string" where
  "viewStatus ViewDisconnected = ''disconnected''"
| "viewStatus (ViewConnecting w) = ''connecting''"
| "viewStatus (ViewConnected pk n) = ''connected''"
| "viewStatus (ViewWrongNetwork n e a er) = ''wrong-network''"
| "viewStatus (ViewError w e) = ''error''"

definition walletStatusError :: "string \<Rightarrow> sdk_error" where
  "walletStatusError status = OtherError (''Cannot submit a transaction while wallet status is \"'' @ status @ ''\".'')"

definition requireConnectedWallet :: "string \<Rightarrow> sdk_error + unit" where
  "requireConnectedWallet status = (if status \<noteq> ''connected'' then Inl (walletStatusError status) else Inr ())"

datatype confirmed_event =
    ApproveConfirmed string string int
  | BalanceUpdated "string option" "string option" int

datatype write_call =
    MintCall string int "nat option"
  | TransferCall string string int "nat option"
  | ApproveCall string string int "nat option"
  | BurnCall string int "nat option"
  | DepositCall string int "int option"
  | ApproveProposalCall string int "nat option"
  | ExecuteProposalCall string int "nat option"

record write_props =
  wrClient :: nat
  wrStatus :: string           \<comment> \<open>\<^verbatim>\<open>useWallet().status\<close> at the last render\<close>
  wrWindow :: bool             \<comment> \<open>events can be dispatched\<close>

type_synonym write_hook = "(write_props, confirmed_event list) hook"

type_synonym write_prog = "(nat \<times> write_call, TransactionResult option answer, write_hook, sdk_error + TransactionResult option) prog"

definition notifyTransactionConfirmed :: "bool \<Rightarrow> confirmed_event \<Rightarrow> ('p, confirmed_event list) hook \<Rightarrow> ('p, confirmed_event list) hook" where
  "notifyTransactionConfirmed window e s = (if window then s\<lparr>hdata := hdata s @ [e]\<rparr> else s)"

text \<open>\<^verbatim>\<open>result?.success\<close>.\<close>

definition succeeded :: "TransactionResult option \<Rightarrow> bool" where
  "succeeded r \<longleftrightarrow> (case r of Some t \<Rightarrow> success t | None \<Rightarrow> False)"

text \<open>The \<^verbatim>\<open>catch\<close> and \<^verbatim>\<open>finally\<close> of every write.\<close>

definition writeFailed :: "thrown \<Rightarrow> ('q, 'a, ('p, 'd) hook, sdk_error + 'r) prog" where
  "writeFailed e = modify (\<lambda>s. s\<lparr>hookError := Some (asError e), loading := False\<rparr>) (finish (Inl (asError e)))"

definition writeSettle :: "bool \<Rightarrow> confirmed_event option \<Rightarrow> TransactionResult option answer \<Rightarrow> write_prog" where
  "writeSettle window event a = (case a of
     Inl e \<Rightarrow> writeFailed e
   | Inr r \<Rightarrow> modify (\<lambda>s. (case event of
         Some ev \<Rightarrow> if succeeded r then notifyTransactionConfirmed window ev s else s
       | None \<Rightarrow> s)\<lparr>loading := False\<rparr>) (finish (Inr r)))"

definition writeCall :: "write_props \<Rightarrow> write_call \<Rightarrow> confirmed_event option \<Rightarrow> write_prog" where
  "writeCall p call event =
     modify (\<lambda>s. s\<lparr>loading := True, hookError := None\<rparr>)
       (case requireConnectedWallet (wrStatus p) of
          Inl e \<Rightarrow> writeFailed (ThrownError e)
        | Inr _ \<Rightarrow> await (wrClient p, call) (writeSettle (wrWindow p) event))"

subsection \<open>The writes\<close>

definition mint :: "write_props \<Rightarrow> string \<Rightarrow> int \<Rightarrow> nat option \<Rightarrow> write_prog" where
  "mint p receiver amt source = writeCall p (MintCall receiver amt source) (Some (BalanceUpdated None (Some receiver) amt))"

definition transfer :: "write_props \<Rightarrow> string \<Rightarrow> string \<Rightarrow> int \<Rightarrow> nat option \<Rightarrow> write_prog" where
  "transfer p sender receiver amt source =
     writeCall p (TransferCall sender receiver amt source) (Some (BalanceUpdated (Some sender) (Some receiver) amt))"

definition approve :: "write_props \<Rightarrow> string \<Rightarrow> string \<Rightarrow> int \<Rightarrow> nat \<Rightarrow> write_prog" where
  "approve p owner spender amt source = writeCall p (ApproveCall owner spender amt (Some source)) (Some (ApproveConfirmed owner spender amt))"

definition burn :: "write_props \<Rightarrow> string \<Rightarrow> int \<Rightarrow> nat option \<Rightarrow> write_prog" where
  "burn p owner amt source = writeCall p (BurnCall owner amt source) (Some (BalanceUpdated (Some owner) None amt))"

definition deposit :: "write_props \<Rightarrow> string \<Rightarrow> int \<Rightarrow> int option \<Rightarrow> write_prog" where
  "deposit p caller amt minSharesOut = writeCall p (DepositCall caller amt minSharesOut) None"

definition vote :: "write_props \<Rightarrow> string \<Rightarrow> int \<Rightarrow> write_prog" where
  "vote p admin proposalId = writeCall p (ApproveProposalCall admin proposalId None) None"

lemmas write_defs = mint_def transfer_def approve_def burn_def deposit_def vote_def

text \<open>Everything that the write hooks let a component do.\<close>

inductive writeEntry :: "(write_hook \<Rightarrow> (nat \<times> write_call, TransactionResult option answer, write_hook, sdk_error + TransactionResult option) instance_state) \<Rightarrow> bool" where
  rerender: "writeEntry (\<lambda>s. (s\<lparr>props := p\<rparr>, []))"
| writes: "writeEntry (\<lambda>s. launch (writeCall (props s) call event) s)"

text \<open>A write reaches the client only while the wallet is shown as connected, and it is the call that was asked for.\<close>

theorem write_needs_connected:
  assumes "launch (writeCall p call event) s = (s', new)" and "(q, k) \<in> set new"
  shows "wrStatus p = ''connected'' \<and> q = (wrClient p, call) \<and> hdata s' = hdata s"
  using assms by (auto simp: writeCall_def launch_def requireConnectedWallet_def writeFailed_def split: if_splits)

text \<open>
  What a finished write leaves: \<^verbatim>\<open>loading\<close> is off; the event is dispatched exactly when the client reports success;
  a rejection is shown and thrown on.
\<close>

theorem writeSettle_outcome:
  assumes "writeSettle window (Some ev) a s = (s', t)"
  shows "\<not> loading s' \<and>
    (case a of
       Inl e \<Rightarrow> t = Return (Inl (asError e)) \<and> hookError s' = Some (asError e) \<and> hdata s' = hdata s
     | Inr r \<Rightarrow> t = Return (Inr r) \<and> hookError s' = hookError s \<and>
         hdata s' = hdata s @ (if succeeded r \<and> window then [ev] else []))"
  using assms
  by (auto simp: writeSettle_def writeFailed_def notifyTransactionConfirmed_def split: sum.splits if_splits)

text \<open>
  A refused transaction that the client reports with \<^verbatim>\<open>success: false\<close> leaves no error on the screen: the hook
  looks at \<^verbatim>\<open>success\<close> only for the event.
\<close>

theorem unsuccessful_write_shows_no_error:
  assumes "writeCall p call event s0 = (s1, Await q k)" and "hookError s = None"
    and "launch (k (Inr (Some \<lparr>success = False, tx_hash = h, returnValue = v\<rparr>))) s = (s', new)"
  shows "hookError s' = None \<and> \<not> loading s'"
  using assms by (auto simp: writeCall_def requireConnectedWallet_def writeFailed_def writeSettle_def launch_def succeeded_def
      split: if_splits option.splits)

subsection \<open>Proposal voting\<close>

text \<open>The value is \<^verbatim>\<open>pendingId\<close>; the wallet is not asked.\<close>

type_synonym voting_prog =
  "(nat \<times> write_call, TransactionResult answer, (nat option, string option) hook, sdk_error + TransactionResult) prog"

definition runProposal :: "string \<Rightarrow> nat \<times> write_call \<Rightarrow> voting_prog" where
  "runProposal i q =
     modify (\<lambda>s. s\<lparr>hdata := Some i, hookError := None\<rparr>)
       (await q (\<lambda>a. case a of
          Inr r \<Rightarrow> modify (\<lambda>s. s\<lparr>hdata := None\<rparr>) (finish (Inr r))
        | Inl e \<Rightarrow> modify (\<lambda>s. s\<lparr>hookError := Some (asError e), hdata := None\<rparr>) (finish (Inl (asError e)))))"

definition noVotingClient :: sdk_error where
  "noVotingClient = OtherError ''useProposalVoting requires a BcForgeProvider client''"

definition approveProposal :: "nat option \<Rightarrow> string \<Rightarrow> int \<Rightarrow> nat option \<Rightarrow> voting_prog" where
  "approveProposal client admin proposalId source = (case client of
     None \<Rightarrow> finish (Inl noVotingClient)
   | Some c \<Rightarrow> runProposal (show_int proposalId) (c, ApproveProposalCall admin proposalId source))"

definition executeProposal :: "nat option \<Rightarrow> string \<Rightarrow> int \<Rightarrow> nat option \<Rightarrow> voting_prog" where
  "executeProposal client admin proposalId source = (case client of
     None \<Rightarrow> finish (Inl noVotingClient)
   | Some c \<Rightarrow> runProposal (show_int proposalId) (c, ExecuteProposalCall admin proposalId source))"

text \<open>
  One \<^verbatim>\<open>pendingId\<close> serves all proposals: when a vote ends, a second one that is still under way is no
  longer shown as pending.
\<close>

theorem second_vote_not_shown:
  assumes "approveProposal (Some c) admin i src s = (s1, Await q1 k1)"
    and "approveProposal (Some c) admin j src s1 = (s2, Await q2 k2)"
    and "launch (k1 a) s2 = (s3, new)"
  shows "hdata s2 = Some (show_int j) \<and> hdata s3 = None"
  using assms by (auto simp: approveProposal_def runProposal_def launch_def split: sum.splits)

subsection \<open>Approving and reading the allowance again\<close>

text \<open>A program as part of one with more queries; \<open>g\<close> picks its answers.\<close>

primrec embedTask :: "('q \<Rightarrow> 'p) \<Rightarrow> ('b \<Rightarrow> 'a) \<Rightarrow> ('q, 'a, 's, 'r) task \<Rightarrow> ('p, 'b, 's, 'r) task" where
  "embedTask f g (Return r) = Return r"
| "embedTask f g (Await q k) = Await (f q) (\<lambda>b s. map_prod id (embedTask f g) (k (g b) s))"

definition embed :: "('q \<Rightarrow> 'p) \<Rightarrow> ('b \<Rightarrow> 'a) \<Rightarrow> ('q, 'a, 's, 'r) prog \<Rightarrow> ('p, 'b, 's, 'r) prog" where
  "embed f g p s = map_prod id (embedTask f g) (p s)"

lemma embed_simps [simp]:
  "embed f g (finish r) = finish r"
  "embed f g (await q k) = await (f q) (\<lambda>b. embed f g (k (g b)))"
  "embed f g (modify h p) = modify h (embed f g p)"
  by (simp_all add: embed_def fun_eq_iff)

lemma embed_settled [simp]: "embed f g (settled n u r) = settled n u r"
  by (simp add: embed_def settled_def fun_eq_iff)

datatype allowance_call = ReadCall read_query | SendCall "nat \<times> write_call"

type_synonym approve_prog =
  "(allowance_call, int answer \<times> TransactionResult answer, (allowance_props, int option) hook, sdk_error + TransactionResult) prog"

definition refuseApprove :: "sdk_error \<Rightarrow> string \<Rightarrow> approve_prog" where
  "refuseApprove e alert = refuse (\<lambda>s. s\<lparr>hookError := Some e, alertMessage := Some alert\<rparr>) (Inl e)"

definition approveFailure :: "string \<Rightarrow> sdk_error" where
  "approveFailure h = OtherError (if h \<noteq> [] then ''Approve transaction failed with hash: '' @ h else ''Approve transaction failed'')"

text \<open>
  The event reaches the listener of the same hook before the code goes on: that read is numbered, and the read
  of the next line supersedes it before it can be answered, so that only its start is visible.
\<close>

definition listenerStarts :: "allowance_props \<Rightarrow> bool \<Rightarrow> (allowance_props, int option) hook \<Rightarrow> (allowance_props, int option) hook" where
  "listenerStarts p window s =
     (if window \<and> handleApproveConfirmed p (Some (Some (alOwner p), Some (alSpender p))) then fst (fetchAllowance p s) else s)"

definition approveSettle :: "allowance_props \<Rightarrow> bool \<Rightarrow> TransactionResult answer \<Rightarrow> approve_prog" where
  "approveSettle p window a = (case a of
     Inl e \<Rightarrow>
       (let normalized = normalizeHookError e (Some ''approve'')
        in refuse (\<lambda>s. s\<lparr>hookError := Some normalized, loading := False,
             alertMessage := Some (''Failed to approve token allowance: '' @ errorMessage normalized)\<rparr>) (Inl normalized))
   | Inr r \<Rightarrow>
       if success r
       then modify (listenerStarts p window)
              (asyncThen (embed ReadCall fst (fetchAllowance p)) (\<lambda>_. refuse (\<lambda>s. s\<lparr>loading := False\<rparr>) (Inr r)))
       else refuse (\<lambda>s. s\<lparr>hookError := Some (approveFailure (tx_hash r)), loading := False,
             alertMessage := Some (errorMessage (approveFailure (tx_hash r)))\<rparr>) (Inr r))"

definition approveAndRefetch :: "allowance_props \<Rightarrow> bool \<Rightarrow> int \<Rightarrow> nat option \<Rightarrow> approve_prog" where
  "approveAndRefetch p window amt source = (case alClient p of
     None \<Rightarrow> refuseApprove (OtherError ''BcForgeProvider client is not configured.'') ''Unable to approve allowance: SDK client is not configured.''
   | Some c \<Rightarrow>
       if alWalletStatus p \<noteq> ''connected'' \<and> source = None
       then refuseApprove (walletStatusError (alWalletStatus p)) (errorMessage (walletStatusError (alWalletStatus p)))
       else if alOwner p = [] \<or> \<not> isValidStellarAddress (alOwner p)
       then refuseApprove (OtherError (invalidParty ''owner'' (alOwner p))) (invalidParty ''owner'' (alOwner p))
       else if alSpender p = [] \<or> \<not> isValidStellarAddress (alSpender p)
       then refuseApprove (OtherError (invalidParty ''spender'' (alSpender p))) (invalidParty ''spender'' (alSpender p))
       else modify (whenMounted (\<lambda>s. s\<lparr>loading := True, hookError := None, alertMessage := None\<rparr>))
              (await (SendCall (c, ApproveCall (alOwner p) (alSpender p) amt source)) (\<lambda>a. approveSettle p window (snd a))))"

text \<open>
  An approval that the client confirms is followed by a read of the same pair, and with no other request in between
  its answer is what the hook shows.
\<close>

lemma listenerStarts_fields:
  "mountedRef (listenerStarts p window s) = mountedRef s" "props (listenerStarts p window s) = props s"
  by (auto simp: listenerStarts_def handleApproveConfirmed_def allowance_fetchable_def fetchAllowance_def issue_def whenMounted_def)

lemma embed_issue: "embed f g (issue q k) s = (fst (issue q k s), Await (f q) (\<lambda>b. embed f g (k (Suc (requestIdRef s)) (g b))))"
  by (simp add: embed_def issue_def fun_eq_iff)

theorem approve_then_shows_allowance:
  assumes "alEnabled p" and "approveAndRefetch p window amt source s0 = (s1, Await (SendCall (c, call)) k1)"
    and "k1 (x, Inr r) s2 = (s3, t3)" and "success r" and "mountedRef s2"
  shows "alClient p = Some c \<and> call = ApproveCall (alOwner p) (alSpender p) amt source \<and>
    (\<exists>k2. t3 = Await (ReadCall (allowance_query p)) k2 \<and>
       (\<forall>v y. \<exists>s4. k2 (Inr v, y) s3 = (s4, Return (Inr r)) \<and> hdata s4 = Some v \<and> hookError s4 = None \<and> \<not> loading s4))"
proof -
  have ok: "alClient p = Some c" "call = ApproveCall (alOwner p) (alSpender p) amt source" "k1 = (\<lambda>a. approveSettle p window (snd a))"
    "allowance_fetchable p"
    using assms(1,2)
    by (auto simp: approveAndRefetch_def refuseApprove_def refuse_def allowance_fetchable_def split: option.splits if_splits)
  have f: "fetchAllowance p = issue (allowance_query p) (allowance_settle p)"
    using ok(4) by (auto simp: fetchAllowance_def allowance_fetchable_def)
  let ?s = "listenerStarts p window s2"
  have m: "mountedRef ?s" using assms(5) by (simp add: listenerStarts_fields)
  have s3: "s3 = fst (issue (allowance_query p) (allowance_settle p) ?s)"
    "t3 = Await (ReadCall (allowance_query p)) (\<lambda>b. asyncThen (embed ReadCall fst (allowance_settle p (Suc (requestIdRef ?s)) (fst b)))
        (\<lambda>_. refuse (\<lambda>s. s\<lparr>loading := False\<rparr>) (Inr r)))"
    using assms(3,4) ok(3) by (simp_all add: approveSettle_def f asyncThen_def embed_issue)
  have cur: "mountedRef s3" "requestIdRef s3 = Suc (requestIdRef ?s)"
    using m s3(1) by (simp_all add: issue_def whenMounted_def)
  show ?thesis
    using ok s3(2) cur
    by (simp add: allowance_settle_def asyncThen_def settled_def refuse_def whenCurrent_def whenMounted_def)
qed

subsection \<open>Extending the TTL\<close>

datatype ttl_method = ExtendTtl | ExtendContractTtl | InvokeContract

record ttl_client =
  ttlClientId :: nat
  ttlMethod :: "ttl_method option"    \<comment> \<open>the first of the three methods that it has\<close>

record ttl_params =
  thresholdLedgers :: "int option"
  extendToLedgers :: "int option"
  paramContractId :: "string option"
  ttlSource :: "nat option"

record ttl_options =
  optContractId :: "string option"
  defaultThresholdLedgers :: "int option"
  defaultExtendToLedgers :: "int option"

datatype ttl_call = TtlCall nat ttl_method int int "nat option"

definition orDefault :: "'a option \<Rightarrow> 'a option \<Rightarrow> 'a \<Rightarrow> 'a" where
  "orDefault a b c = (case a of Some x \<Rightarrow> x | None \<Rightarrow> (case b of Some y \<Rightarrow> y | None \<Rightarrow> c))"

type_synonym ttl_prog =
  "(ttl_call, TransactionResult answer, (string, TransactionResult option) hook, sdk_error + TransactionResult) prog"

definition extendSettle :: "TransactionResult answer \<Rightarrow> ttl_prog" where
  "extendSettle a = (case a of
     Inr r \<Rightarrow> modify (\<lambda>s. s\<lparr>hdata := Some r, loading := False\<rparr>) (finish (Inr r))
   | Inl e \<Rightarrow> modify (\<lambda>s. s\<lparr>hookError := Some (normalizeMetadataError e), loading := False\<rparr>) (finish (Inl (normalizeMetadataError e))))"

definition extendTtl :: "ttl_client option \<Rightarrow> string \<Rightarrow> ttl_options \<Rightarrow> ttl_params \<Rightarrow> ttl_prog" where
  "extendTtl client status options params = (case client of
     None \<Rightarrow>
       (let e = OtherError ''useExtendContractTtl requires a BcForgeProvider client''
        in modify (\<lambda>s. s\<lparr>hookError := Some e\<rparr>) (finish (Inl e)))
   | Some c \<Rightarrow>
       (let threshold = orDefault (thresholdLedgers params) (defaultThresholdLedgers options) 20;
            extendTo = orDefault (extendToLedgers params) (defaultExtendToLedgers options) 100
        in modify (\<lambda>s. s\<lparr>loading := True, hookError := None\<rparr>)
             (case (if ttlSource params = None then requireConnectedWallet status else Inr ()) of
                Inl e \<Rightarrow> extendSettle (Inl (ThrownError e))
              | Inr _ \<Rightarrow>
                  (case ttlMethod c of
                     Some m \<Rightarrow> await (TtlCall (ttlClientId c) m threshold extendTo (ttlSource params)) extendSettle
                   | None \<Rightarrow> extendSettle (Inr \<lparr>success = True, tx_hash = ''mock-ttl-bump-hash'', returnValue = NUndef\<rparr>)))))"

definition resetTtl :: "(string, TransactionResult option) hook \<Rightarrow> (string, TransactionResult option) hook" where
  "resetTtl s = s\<lparr>hookError := None, hdata := None\<rparr>"

text \<open>A client without any of the methods is reported as a confirmed extension, with a hash of no transaction.\<close>

theorem extendTtl_reports_mock_success:
  assumes "ttlMethod c = None" and "status = ''connected'' \<or> ttlSource params \<noteq> None"
  shows "\<exists>s'. extendTtl (Some c) status options params s =
    (s', Return (Inr \<lparr>success = True, tx_hash = ''mock-ttl-bump-hash'', returnValue = NUndef\<rparr>)) \<and> \<not> loading s'"
  using assms by (auto simp: extendTtl_def Let_def requireConnectedWallet_def extendSettle_def)

text \<open>The contract that is asked for plays no part: the client's own contract is extended.\<close>

theorem extendTtl_ignores_contract:
  "extendTtl client status options params =
     extendTtl client status (options\<lparr>optContractId := o'\<rparr>) (params\<lparr>paramContractId := c'\<rparr>)"
proof -
  have "ttlSource (params\<lparr>paramContractId := c'\<rparr>) = ttlSource params"
    "thresholdLedgers (params\<lparr>paramContractId := c'\<rparr>) = thresholdLedgers params"
    "extendToLedgers (params\<lparr>paramContractId := c'\<rparr>) = extendToLedgers params"
    "defaultThresholdLedgers (options\<lparr>optContractId := o'\<rparr>) = defaultThresholdLedgers options"
    "defaultExtendToLedgers (options\<lparr>optContractId := o'\<rparr>) = defaultExtendToLedgers options" by simp_all
  then show ?thesis by (simp only: extendTtl_def)
qed

subsection \<open>Simulating a mint and estimating a fee\<close>

definition extractSimulatedFee :: "Native \<Rightarrow> string" where
  "extractSimulatedFee simulated = (case simulated of
     NObj fs \<Rightarrow> (case map_of fs ''minResourceFee'' of Some (NStr fee) \<Rightarrow> fee | _ \<Rightarrow> ''0'')
   | _ \<Rightarrow> ''0'')"

datatype simulate_call = SimulateMintCall nat string int string | EstimateCall nat string string int

definition simulateMint :: "nat \<Rightarrow> string \<Rightarrow> int \<Rightarrow> string \<Rightarrow>
    (simulate_call, Native answer, (nat, unit) hook, sdk_error + string) prog" where
  "simulateMint c receiver amt source =
     modify (\<lambda>s. s\<lparr>loading := True, hookError := None\<rparr>)
       (await (SimulateMintCall c receiver amt source) (\<lambda>a. case a of
          Inr v \<Rightarrow> modify (\<lambda>s. s\<lparr>loading := False\<rparr>) (finish (Inr (extractSimulatedFee v)))
        | Inl e \<Rightarrow> writeFailed e))"

record FeeEstimate =
  feeStroops :: int
  feeXlm :: string
  recipientExists :: bool

type_synonym fee_prog = "(simulate_call, (string \<times> bool) answer, (nat, FeeEstimate option) hook, sdk_error + FeeEstimate) prog"

definition estimateFailed :: "sdk_error \<Rightarrow> fee_prog" where
  "estimateFailed e = modify (\<lambda>s. s\<lparr>hdata := None, hookError := Some e, loading := False\<rparr>) (finish (Inl e))"

definition estimateSettle :: "(string \<times> bool) answer \<Rightarrow> fee_prog" where
  "estimateSettle a = (case a of
     Inl e \<Rightarrow> estimateFailed (asError e)
   | Inr (fee, exists) \<Rightarrow>
       (case BigInt fee of
          None \<Rightarrow> estimateFailed (OtherError (''Cannot convert '' @ fee @ '' to a BigInt''))
        | Some i \<Rightarrow>
            (let result = \<lparr>feeStroops = i, feeXlm = stroopsToXlm i, recipientExists = exists\<rparr>
             in modify (\<lambda>s. s\<lparr>hdata := Some result, loading := False\<rparr>) (finish (Inr result)))))"

definition estimate :: "nat \<Rightarrow> string \<Rightarrow> string \<Rightarrow> int \<Rightarrow> fee_prog" where
  "estimate c sender receiver amt =
     modify (\<lambda>s. s\<lparr>loading := True, hookError := None\<rparr>) (await (EstimateCall c sender receiver amt) estimateSettle)"

definition resetEstimate :: "(nat, FeeEstimate option) hook \<Rightarrow> (nat, FeeEstimate option) hook" where
  "resetEstimate s = s\<lparr>hdata := None, hookError := None\<rparr>"

text \<open>
  An estimate is shown with the fee that the simulation reported, and a failed one leaves none on the screen; a
  simulation whose response has no fee is indistinguishable from a free one.
\<close>

theorem estimateSettle_shows:
  assumes "estimateSettle a s = (s', t)"
  shows "\<not> loading s' \<and> (case a of
      Inr (fee, exists) \<Rightarrow> (\<forall>i. BigInt fee = Some i \<longrightarrow>
        hdata s' = Some \<lparr>feeStroops = i, feeXlm = stroopsToXlm i, recipientExists = exists\<rparr> \<and> hookError s' = hookError s)
    | Inl e \<Rightarrow> hdata s' = None \<and> hookError s' = Some (asError e))"
  using assms by (auto simp: estimateSettle_def estimateFailed_def Let_def split: sum.splits prod.splits option.splits)

end
