(* ===== verification/ReactSubmission.thy ===== *)
theory ReactSubmission
  imports ReactReads
begin

text \<open>
  \<^verbatim>\<open>useTransactionSubmission\<close> of \<^verbatim>\<open>src/react/src/hooks.ts\<close>: the life of a transaction from simulation over
  signing and sending to its confirmation, with automatic retries and polling of the ledger. Every call of
  \<^verbatim>\<open>submit\<close>, \<^verbatim>\<open>refetch\<close> and \<^verbatim>\<open>reset\<close> starts a new run, and what an older run still has under way must not
  be seen. The steps of an action, the polls and the timers are queries of one program; \<^verbatim>\<open>onStatusChange\<close>,
  \<^verbatim>\<open>onSuccess\<close>, \<^verbatim>\<open>onError\<close> and \<^verbatim>\<open>clearCache\<close> are recorded in a log. A timer that was cleared is one that is never
  answered; wherever the code clears timers it also starts a new run. \<^verbatim>\<open>statusRef\<close> and \<^verbatim>\<open>txHashRef\<close> are set
  together with the state they mirror.
\<close>

subsection \<open>State\<close>

datatype submission_status = TxIdle | TxSimulating | TxSigning | TxSubmitting | TxConfirmed | TxFailed

datatype submission_note = StatusChanged submission_status | Succeeded TransactionResult | Errored sdk_error | CacheCleared

record tx_stages =
  stagesId :: nat
  stMethod :: "string option"
  hasSimulate :: bool
  hasSign :: bool
  hasPoll :: bool

datatype tx_action = CallbackAction nat | StagedAction tx_stages

record submission =
  txStatus :: submission_status
  txHash :: "string option"
  txData :: "TransactionResult option"
  txError :: "sdk_error option"
  retryCount :: nat
  txMounted :: bool
  activeRun :: nat
  lastAction :: "tx_action option"
  phaseAdvanced :: "(nat \<times> nat) set"        \<comment> \<open>the variable of this name, per run and attempt\<close>
  txLog :: "submission_note list"

record submission_options =
  requireWallet :: bool
  maxRetries :: int
  retryDelayMs :: int
  txPollIntervalMs :: int
  maxPollAttempts :: int
  throwOnError :: bool
  txWalletStatus :: string
  txWalletError :: "sdk_error option"
  rpcPolls :: bool                  \<comment> \<open>the client has a \<^verbatim>\<open>getTransaction\<close>\<close>
  clearsCache :: bool
  onSuccessThrows :: "thrown option"

datatype send_output = SentHash string | SentObject string "bool option" Native

record poll_result =
  pollStatus :: string
  pollValue :: Native
  pollError :: "string option"

datatype submission_query =
    RunAction nat nat nat           \<comment> \<open>the action, the run and the attempt\<close>
  | SimulateStage nat
  | SignStage nat "string option"
  | SendStage nat "string option" "string option"
  | CustomPoll nat string
  | RpcPoll string
  | Delay int

text \<open>What comes back; each query reads its own field.\<close>

record submission_answer =
  actionAnswer :: "TransactionResult answer"
  stageAnswer :: "string answer"
  sendAnswer :: "send_output answer"
  pollAnswer :: "poll_result answer"

type_synonym 'r submission_prog = "(submission_query, submission_answer, submission, 'r) prog"

type_synonym tx_outcome = "sdk_error + TransactionResult option"

subsection \<open>Steps\<close>

definition current :: "nat \<Rightarrow> submission \<Rightarrow> bool" where
  "current n s \<longleftrightarrow> txMounted s \<and> n = activeRun s"

definition noteStatus :: "submission_status \<Rightarrow> submission \<Rightarrow> submission" where
  "noteStatus st s = s\<lparr>txStatus := st, txLog := (if txStatus s \<noteq> st then txLog s @ [StatusChanged st] else txLog s)\<rparr>"

definition updateStatus :: "submission_status \<Rightarrow> nat option \<Rightarrow> submission \<Rightarrow> submission" where
  "updateStatus st run s =
     (if \<not> txMounted s then s
      else if run \<noteq> None \<and> run \<noteq> Some (activeRun s) then s
      else noteStatus st s)"

definition withHash :: "string \<Rightarrow> submission \<Rightarrow> submission" where
  "withHash h s = (if h \<noteq> [] then s\<lparr>txHash := Some h\<rparr> else s)"

text \<open>\<^verbatim>\<open>if (!mountedRef.current || runId !== activeRunIdRef.current) return null\<close>, with what is returned then.\<close>

definition guardRun :: "nat \<Rightarrow> 'r \<Rightarrow> 'r submission_prog \<Rightarrow> 'r submission_prog" where
  "guardRun n r p s = (if current n s then p s else finish r s)"

definition waitDelay :: "int \<Rightarrow> nat \<Rightarrow> 'r \<Rightarrow> 'r submission_prog \<Rightarrow> 'r submission_prog" where
  "waitDelay ms n r p = guardRun n r (await (Delay ms) (\<lambda>_. guardRun n r p))"

text \<open>The callbacks that a function action is given.\<close>

definition markPhase :: "submission_status \<Rightarrow> string option \<Rightarrow> nat \<Rightarrow> nat \<Rightarrow> submission \<Rightarrow> submission" where
  "markPhase st h n i s =
     (let s1 = s\<lparr>phaseAdvanced := insert (n, i) (phaseAdvanced s)\<rparr>;
          s2 = (if h \<noteq> None \<and> current n s1 then withHash (the h) s1 else s1)
      in updateStatus st (Some n) s2)"

definition markSimulating where "markSimulating = markPhase TxSimulating None"
definition markSigning where "markSigning = markPhase TxSigning None"
definition markSubmitting where "markSubmitting h = markPhase TxSubmitting h"

subsection \<open>Polling the ledger\<close>

definition pollCancelled :: thrown where
  "pollCancelled = ThrownError (OtherError ''Transaction polling cancelled'')"

definition pollTimeout :: "int \<Rightarrow> string \<Rightarrow> thrown" where
  "pollTimeout n h = ThrownError (OtherError (''Transaction confirmation timed out after '' @ show_int n @ '' polling attempts (hash: '' @ h @ '')''))"

definition ledgerFailure :: "bool \<Rightarrow> string option \<Rightarrow> string \<Rightarrow> sdk_error" where
  "ledgerFailure custom msg h = OtherError
     (if custom then (if truthy msg then the msg else ''Transaction failed on ledger (hash: '' @ h @ '')'')
      else ''Transaction execution failed on ledger (hash: '' @ h @ '')'')"

text \<open>What one poll decides: a result, an error, or nothing yet.\<close>

definition pollVerdict :: "bool \<Rightarrow> string option \<Rightarrow> string \<Rightarrow> poll_result answer \<Rightarrow> (thrown + TransactionResult) option" where
  "pollVerdict custom method h a = (case a of
     Inl e \<Rightarrow> Some (Inl e)
   | Inr r \<Rightarrow>
       if pollStatus r \<in> {''SUCCESS'', ''confirmed''} then Some (Inr \<lparr>success = True, tx_hash = h, returnValue = pollValue r\<rparr>)
       else if pollStatus r \<in> {''FAILED'', ''failed''}
       then Some (Inl (ThrownError (decodeTransactionError (ThrownError (ledgerFailure custom (pollError r) h)) method)))
       else None)"

definition maxAttempts :: "submission_options \<Rightarrow> int" where
  "maxAttempts o' = max 1 (maxPollAttempts o')"

text \<open>The loop, by the number of attempts that are left; \<open>pid\<close> is the action whose \<^verbatim>\<open>pollStatus\<close> is used.\<close>

primrec pollLoop :: "submission_options \<Rightarrow> string \<Rightarrow> nat \<Rightarrow> nat option \<Rightarrow> string option \<Rightarrow> nat \<Rightarrow> (thrown + TransactionResult) submission_prog" where
  "pollLoop o' h n pid method 0 = finish (Inl (pollTimeout (maxAttempts o') h))"
| "pollLoop o' h n pid method (Suc m) = guardRun n (Inl pollCancelled)
     (if pid = None \<and> \<not> rpcPolls o' then finish (Inr \<lparr>success = True, tx_hash = h, returnValue = NUndef\<rparr>)
      else await (case pid of Some i \<Rightarrow> CustomPoll i h | None \<Rightarrow> RpcPoll h) (\<lambda>a.
        case pollVerdict (pid \<noteq> None) method h (pollAnswer a) of
          Some r \<Rightarrow> finish r
        | None \<Rightarrow> if m = 0 then finish (Inl (pollTimeout (maxAttempts o') h))
                  else waitDelay (txPollIntervalMs o') n (Inl pollCancelled) (pollLoop o' h n pid method m)))"

definition pollLedgerStatus :: "submission_options \<Rightarrow> string \<Rightarrow> nat \<Rightarrow> nat option \<Rightarrow> string option \<Rightarrow> (thrown + TransactionResult) submission_prog" where
  "pollLedgerStatus o' h n pid method = pollLoop o' h n pid method (nat (maxAttempts o'))"

subsection \<open>One attempt\<close>

text \<open>The result: \<open>None\<close> when the run is over, otherwise what was thrown or the final result.\<close>

type_synonym attempt_prog = "(thrown + TransactionResult) option submission_prog"

definition actionAttempt :: "nat \<Rightarrow> nat \<Rightarrow> nat \<Rightarrow> attempt_prog" where
  "actionAttempt aid n i =
     modify (updateStatus TxSimulating (Some n)) (await (RunAction aid n i) (\<lambda>a. case actionAnswer a of
       Inl e \<Rightarrow> finish (Some (Inl e))
     | Inr r \<Rightarrow> guardRun n None
         (modify (\<lambda>s. if (n, i) \<in> phaseAdvanced s then s else updateStatus TxSubmitting (Some n) (updateStatus TxSigning (Some n) s))
            (finish (Some (Inr r))))))"

definition customPollOf :: "tx_stages \<Rightarrow> nat option" where
  "customPollOf st = (if hasPoll st then Some (stagesId st) else None)"

definition polled :: "(thrown + TransactionResult) submission_prog \<Rightarrow> attempt_prog" where
  "polled p = asyncThen p (\<lambda>r. finish (Some r))"

definition afterSend :: "submission_options \<Rightarrow> tx_stages \<Rightarrow> nat \<Rightarrow> send_output \<Rightarrow> attempt_prog" where
  "afterSend o' st n out = (case out of
     SentHash h \<Rightarrow> modify (\<lambda>s. s\<lparr>txHash := Some h\<rparr>) (polled (pollLedgerStatus o' h n (customPollOf st) (stMethod st)))
   | SentObject h ok v \<Rightarrow> modify (withHash h)
       (if hasPoll st \<and> h \<noteq> [] \<and> ok = None then polled (pollLedgerStatus o' h n (customPollOf st) (stMethod st))
        else finish (Some (Inr \<lparr>success = (case ok of Some b \<Rightarrow> b | None \<Rightarrow> True), tx_hash = h, returnValue = v\<rparr>))))"

definition sendStep :: "submission_options \<Rightarrow> tx_stages \<Rightarrow> nat \<Rightarrow> string option \<Rightarrow> string option \<Rightarrow> attempt_prog" where
  "sendStep o' st n signed simulated =
     modify (updateStatus TxSubmitting (Some n)) (await (SendStage (stagesId st) signed simulated) (\<lambda>a. case sendAnswer a of
       Inl e \<Rightarrow> finish (Some (Inl e))
     | Inr out \<Rightarrow> guardRun n None (afterSend o' st n out)))"

definition signStep :: "submission_options \<Rightarrow> tx_stages \<Rightarrow> nat \<Rightarrow> string option \<Rightarrow> attempt_prog" where
  "signStep o' st n simulated =
     modify (updateStatus TxSigning (Some n))
       (if hasSign st then await (SignStage (stagesId st) simulated) (\<lambda>a. case stageAnswer a of
            Inl e \<Rightarrow> finish (Some (Inl e))
          | Inr v \<Rightarrow> guardRun n None (sendStep o' st n (Some v) simulated))
        else guardRun n None (sendStep o' st n simulated simulated))"

definition stagedAttempt :: "submission_options \<Rightarrow> tx_stages \<Rightarrow> nat \<Rightarrow> attempt_prog" where
  "stagedAttempt o' st n =
     modify (updateStatus TxSimulating (Some n))
       (if hasSimulate st then await (SimulateStage (stagesId st)) (\<lambda>a. case stageAnswer a of
            Inl e \<Rightarrow> finish (Some (Inl e))
          | Inr v \<Rightarrow> guardRun n None (signStep o' st n (Some v)))
        else guardRun n None (signStep o' st n None))"

definition attemptOnce :: "submission_options \<Rightarrow> tx_action \<Rightarrow> nat \<Rightarrow> nat \<Rightarrow> attempt_prog" where
  "attemptOnce o' act n i = (case act of
     CallbackAction aid \<Rightarrow> actionAttempt aid n i
   | StagedAction st \<Rightarrow> stagedAttempt o' st n)"

subsection \<open>The outcome of an attempt\<close>

definition executionFailure :: "string \<Rightarrow> thrown" where
  "executionFailure h = ThrownError (OtherError (if h \<noteq> [] then ''Transaction failed with hash: '' @ h else ''Transaction execution failed.''))"

definition failedWith :: "submission_options \<Rightarrow> nat \<Rightarrow> sdk_error \<Rightarrow> tx_outcome submission_prog" where
  "failedWith o' n e =
     modify (\<lambda>s. (updateStatus TxFailed (Some n) (s\<lparr>txError := Some e\<rparr>)))
       (modify (\<lambda>s. s\<lparr>txLog := txLog s @ [Errored e]\<rparr>) (finish (if throwOnError o' then Inl e else Inr None)))"

text \<open>The \<^verbatim>\<open>catch\<close> block; \<open>again\<close> is the next attempt, when there is one.\<close>

definition catchAttempt :: "submission_options \<Rightarrow> string option \<Rightarrow> nat \<Rightarrow> tx_outcome submission_prog option \<Rightarrow> thrown \<Rightarrow> tx_outcome submission_prog" where
  "catchAttempt o' method n again e = guardRun n (Inr None)
     (let decoded = decodeTransactionError e method
      in if isTerminalTransactionError (ThrownError decoded) \<or> isTerminalTransactionError e then failedWith o' n decoded
         else case again of
             Some p \<Rightarrow> waitDelay (retryDelayMs o') n (Inr None) p
           | None \<Rightarrow> failedWith o' n decoded)"

definition confirmWith :: "submission_options \<Rightarrow> nat \<Rightarrow> TransactionResult \<Rightarrow> submission \<Rightarrow> submission" where
  "confirmWith o' n r s =
     (let s1 = (if clearsCache o' then s\<lparr>txLog := txLog s @ [CacheCleared]\<rparr> else s);
          s2 = updateStatus TxConfirmed (Some n) (s1\<lparr>txData := Some r, txError := None\<rparr>)
      in s2\<lparr>txLog := txLog s2 @ [Succeeded r]\<rparr>)"

definition concludeAttempt :: "submission_options \<Rightarrow> string option \<Rightarrow> nat \<Rightarrow> tx_outcome submission_prog option \<Rightarrow>
    (thrown + TransactionResult) option \<Rightarrow> tx_outcome submission_prog" where
  "concludeAttempt o' method n again r = (case r of
     None \<Rightarrow> finish (Inr None)
   | Some (Inl e) \<Rightarrow> catchAttempt o' method n again e
   | Some (Inr res) \<Rightarrow> guardRun n (Inr None) (modify (withHash (tx_hash res))
       (if \<not> success res then catchAttempt o' method n again (executionFailure (tx_hash res))
        else modify (confirmWith o' n res)
          (case onSuccessThrows o' of
             None \<Rightarrow> finish (Inr (Some res))
           | Some e \<Rightarrow> catchAttempt o' method n again e))))"

fun actionMethod :: "tx_action \<Rightarrow> string option" where
  "actionMethod (CallbackAction i) = None"
| "actionMethod (StagedAction st) = stMethod st"

text \<open>The retry loop: \<open>i\<close> attempts were made, the last argument says how many are left.\<close>

primrec attempts :: "submission_options \<Rightarrow> tx_action \<Rightarrow> nat \<Rightarrow> nat \<Rightarrow> nat \<Rightarrow> tx_outcome submission_prog" where
  "attempts o' act n i 0 = finish (Inr None)"
| "attempts o' act n i (Suc m) =
     modify (\<lambda>s. if 0 < i \<and> current n s then s\<lparr>retryCount := i\<rparr> else s)
       (asyncThen (attemptOnce o' act n i)
          (concludeAttempt o' (actionMethod act) n (if m = 0 then None else Some (attempts o' act n (Suc i) m))))"

definition allowedAttempts :: "submission_options \<Rightarrow> nat" where
  "allowedAttempts o' = nat (max 1 (1 + maxRetries o'))"

subsection \<open>The returned functions\<close>

definition submissionWalletError :: "submission_options \<Rightarrow> sdk_error" where
  "submissionWalletError o' =
     (if txWalletStatus o' = ''wrong-network'' \<and> txWalletError o' \<noteq> None then the (txWalletError o')
      else OtherError (''Cannot submit a transaction while wallet status is \"'' @ txWalletStatus o' @ ''\".''))"

definition startRun :: "tx_action \<Rightarrow> submission \<Rightarrow> submission" where
  "startRun act s =
     (let s1 = s\<lparr>activeRun := Suc (activeRun s), lastAction := Some act\<rparr>
      in if txMounted s1 then s1\<lparr>txError := None, txData := None, txHash := None, retryCount := 0\<rparr> else s1)"

definition submit :: "submission_options \<Rightarrow> tx_action \<Rightarrow> tx_outcome submission_prog" where
  "submit o' act s =
     (let n = Suc (activeRun s); s1 = startRun act s
      in if requireWallet o' \<and> txWalletStatus o' \<noteq> ''connected''
         then (if current n s1 then failedWith o' n (submissionWalletError o') s1
               else finish (if throwOnError o' then Inl (submissionWalletError o') else Inr None) s1)
         else attempts o' act n 0 (allowedAttempts o') s1)"

definition noActionError :: sdk_error where
  "noActionError = OtherError ''No previous transaction available to retry.''"

definition retry :: "submission_options \<Rightarrow> tx_outcome submission_prog" where
  "retry o' s = (case lastAction s of
     Some act \<Rightarrow> submit o' act s
   | None \<Rightarrow>
       (let s1 = (if txMounted s then updateStatus TxFailed None (s\<lparr>txError := Some noActionError\<rparr>) else s);
            s2 = (if txMounted s then s1\<lparr>txLog := txLog s1 @ [Errored noActionError]\<rparr> else s1)
        in finish (if throwOnError o' then Inl noActionError else Inr None) s2))"

fun actionPoll :: "tx_action option \<Rightarrow> nat option" where
  "actionPoll (Some (StagedAction st)) = customPollOf st"
| "actionPoll _ = None"

definition concludeRefetch :: "submission_options \<Rightarrow> string option \<Rightarrow> nat \<Rightarrow> thrown + TransactionResult \<Rightarrow> tx_outcome submission_prog" where
  "concludeRefetch o' method n r = guardRun n (Inr None) (case r of
     Inl e \<Rightarrow> failedWith o' n (decodeTransactionError e method)
   | Inr res \<Rightarrow> modify (\<lambda>s. confirmWith (o'\<lparr>clearsCache := False\<rparr>) n res (s\<lparr>txHash := Some (tx_hash res)\<rparr>))
       (case onSuccessThrows o' of
          None \<Rightarrow> finish (Inr (Some res))
        | Some e \<Rightarrow> failedWith o' n (decodeTransactionError e method)))"

definition refetch :: "submission_options \<Rightarrow> string option \<Rightarrow> tx_outcome submission_prog" where
  "refetch o' overrideHash s =
     (case (case overrideHash of Some h \<Rightarrow> Some h | None \<Rightarrow> txHash s) of
        None \<Rightarrow> finish (Inr (txData s)) s
      | Some h \<Rightarrow>
          if h = [] then finish (Inr (txData s)) s
          else (let n = Suc (activeRun s); method = Option.bind (lastAction s) actionMethod
                in modify (updateStatus TxSubmitting (Some n))
                     (asyncThen (pollLedgerStatus o' h n (actionPoll (lastAction s)) method) (concludeRefetch o' method n))
                     (s\<lparr>activeRun := n\<rparr>)))"

definition reset :: "submission \<Rightarrow> submission" where
  "reset s =
     (let s1 = s\<lparr>activeRun := Suc (activeRun s), txHash := None\<rparr>
      in if txMounted s1 then noteStatus TxIdle (s1\<lparr>txData := None, txError := None, retryCount := 0\<rparr>) else s1)"

definition unmount :: "submission \<Rightarrow> submission" where
  "unmount s = s\<lparr>txMounted := False, activeRun := Suc (activeRun s)\<rparr>"

definition initialSubmission :: submission where
  "initialSubmission = \<lparr>txStatus = TxIdle, txHash = None, txData = None, txError = None, retryCount = 0, txMounted = True,
     activeRun = 0, lastAction = None, phaseAdvanced = {}, txLog = []\<rparr>"

text \<open>What can happen to a mounted hook; the callbacks of an action may come at any time, also after its run.\<close>

inductive submissionEntry :: "(submission \<Rightarrow> (submission_query, submission_answer, submission, tx_outcome) instance_state) \<Rightarrow> bool" where
  submits: "submissionEntry (launch (submit o' act))"
| retries: "submissionEntry (launch (retry o'))"
| refetches: "submissionEntry (launch (refetch o' h))"
| marks: "st \<in> {TxSimulating, TxSigning, TxSubmitting} \<Longrightarrow> submissionEntry (\<lambda>s. (if n \<le> activeRun s then markPhase st h n i s else s, []))"
| resets: "submissionEntry (\<lambda>s. (reset s, []))"
| unmounts: "submissionEntry (\<lambda>s. (unmount s, []))"

subsection \<open>Runs\<close>

text \<open>A piece of run \<open>n\<close> keeps the refs, and changes nothing when the run is not the current one.\<close>

definition sameRun :: "submission \<Rightarrow> submission \<Rightarrow> bool" where
  "sameRun s s' \<longleftrightarrow> activeRun s' = activeRun s \<and> txMounted s' = txMounted s"

definition ownStep :: "nat \<Rightarrow> submission \<Rightarrow> submission \<Rightarrow> bool" where
  "ownStep n s s' \<longleftrightarrow> sameRun s s' \<and> (\<not> current n s \<longrightarrow> s' = s)"

inductive ownedTask :: "nat \<Rightarrow> (submission_query, submission_answer, submission, 'r) task \<Rightarrow> bool" for n where
  returns: "ownedTask n (Return r)"
| awaits: "(\<And>a s. ownStep n s (fst (k a s)) \<and> ownedTask n (snd (k a s))) \<Longrightarrow> ownedTask n (Await q k)"

inductive_simps ownedTask_Await [simp]: "ownedTask n (Await q k)"

lemma ownedTask_Return [simp]: "ownedTask n (Return r)"
  by (rule ownedTask.returns)

definition owned :: "nat \<Rightarrow> 'r submission_prog \<Rightarrow> bool" where
  "owned n p \<longleftrightarrow> (\<forall>s. ownStep n s (fst (p s)) \<and> ownedTask n (snd (p s)))"

text \<open>The same for code that is only reached by the current run.\<close>

definition inner :: "nat \<Rightarrow> 'r submission_prog \<Rightarrow> bool" where
  "inner n p \<longleftrightarrow> (\<forall>s. current n s \<longrightarrow> sameRun s (fst (p s)) \<and> ownedTask n (snd (p s)))"

named_theorems run_intros

lemma sameRun_refl [simp]: "sameRun s s"
  by (simp add: sameRun_def)

lemma ownStep_refl [simp]: "ownStep n s s"
  by (simp add: ownStep_def)

lemma ownStep_trans: "ownStep n s t \<Longrightarrow> ownStep n t u \<Longrightarrow> ownStep n s u"
  by (auto simp: ownStep_def sameRun_def current_def)

lemma sameRun_current: "sameRun s t \<Longrightarrow> current n t = current n s"
  by (auto simp: sameRun_def current_def)

lemma owned_inner [run_intros]: "owned n p \<Longrightarrow> inner n p"
  by (simp add: owned_def inner_def ownStep_def)

lemma owned_finish [run_intros]: "owned n (finish r)"
  by (simp add: owned_def)

lemma owned_await [run_intros]: "(\<And>a. owned n (k a)) \<Longrightarrow> owned n (await q k)"
  by (simp add: owned_def)

lemma owned_modify: "(\<And>s. ownStep n s (f s)) \<Longrightarrow> owned n p \<Longrightarrow> owned n (modify f p)"
  using ownStep_trans by (fastforce simp: owned_def)

lemma owned_guardRun [run_intros]: "inner n p \<Longrightarrow> owned n (guardRun n r p)"
  by (simp add: owned_def inner_def guardRun_def ownStep_def)

lemma owned_waitDelay [run_intros]: "inner n p \<Longrightarrow> owned n (waitDelay ms n r p)"
  unfolding waitDelay_def by (rule owned_guardRun, rule owned_inner, rule owned_await, rule owned_guardRun)

lemma inner_modify: "(\<And>s. sameRun s (f s)) \<Longrightarrow> inner n p \<Longrightarrow> inner n (modify f p)"
proof -
  assume f: "\<And>s. sameRun s (f s)" and p: "inner n p"
  have "sameRun s (fst (p (f s))) \<and> ownedTask n (snd (p (f s)))" if "current n s" for s
  proof -
    have "current n (f s)" using that sameRun_current [OF f] by blast
    then have "sameRun (f s) (fst (p (f s)))" "ownedTask n (snd (p (f s)))" using p by (auto simp: inner_def)
    with f [of s] show ?thesis by (simp add: sameRun_def)
  qed
  then show ?thesis by (simp add: inner_def)
qed

lemma ownedTask_resume:
  assumes "ownedTask n t" and "\<And>r. owned n (f r)"
  shows "owned n (resume t f)"
  using assms(1)
proof induction
  case (returns r)
  then show ?case using assms(2) by simp
next
  case (awaits k q)
  have "ownStep n s (fst (asyncThen (k a) f s)) \<and> ownedTask n (snd (asyncThen (k a) f s))" for a s
  proof -
    obtain s' t' where st: "k a s = (s', t')" by (cases "k a s")
    have "ownStep n s s'" "owned n (resume t' f)" using awaits [of s a] st by simp_all
    then show ?thesis using ownStep_trans by (auto simp: asyncThen_def st owned_def)
  qed
  then show ?case by (simp add: owned_def)
qed

lemma owned_asyncThen [run_intros]:
  assumes "owned n p" and "\<And>r. owned n (f r)"
  shows "owned n (asyncThen p f)"
  unfolding owned_def
proof
  fix s
  obtain s' t where st: "p s = (s', t)" by (cases "p s")
  have "ownStep n s s'" "ownedTask n t" using assms(1) st by (metis owned_def fst_conv snd_conv)+
  then show "ownStep n s (fst (asyncThen p f s)) \<and> ownedTask n (snd (asyncThen p f s))"
    using ownedTask_resume [OF _ assms(2), of t] ownStep_trans by (auto simp: asyncThen_def st owned_def)
qed

lemma updateStatus_own [simp]: "ownStep n s (updateStatus st (Some n) s)"
  by (simp add: updateStatus_def noteStatus_def ownStep_def sameRun_def current_def)

lemma sameRun_updates [simp]:
  "sameRun s (updateStatus st run s)" "sameRun s (withHash h s)" "sameRun s (s\<lparr>txHash := x\<rparr>)" "sameRun s (confirmWith o' n r s)"
  "sameRun s (updateStatus st run (s\<lparr>txError := er\<rparr>))" "sameRun s (s\<lparr>txLog := ns\<rparr>)"
  by (simp_all add: updateStatus_def noteStatus_def sameRun_def withHash_def confirmWith_def Let_def)

lemma inner_failedWith [run_intros]: "inner n (failedWith o' n e)"
  unfolding failedWith_def by (intro inner_modify owned_inner owned_finish) simp_all

lemma owned_pollLoop [run_intros]: "owned n (pollLoop o' h n pid method m)"
proof (induction m)
  case (Suc m)
  have "owned n (case pollVerdict c method h x of Some r \<Rightarrow> finish r
      | None \<Rightarrow> if m = 0 then finish y else waitDelay d n z (pollLoop o' h n pid method m))" for c x y d z
    using Suc by (auto split: option.splits intro!: run_intros)
  then have "inner n (await q (\<lambda>a. case pollVerdict (pid \<noteq> None) method h (pollAnswer a) of Some r \<Rightarrow> finish r
      | None \<Rightarrow> if m = 0 then finish y else waitDelay d n z (pollLoop o' h n pid method m)))" for q y d z
    by (intro owned_inner owned_await)
  then show ?case unfolding pollLoop.simps by (intro owned_guardRun) (simp add: owned_finish owned_inner)
qed (simp only: pollLoop.simps owned_finish)

lemma inner_afterSend [run_intros]: "inner n (afterSend o' st n out)"
proof -
  have "inner n (polled (pollLedgerStatus o' h n pid mt))" for h pid mt
    unfolding polled_def pollLedgerStatus_def by (rule owned_inner, rule owned_asyncThen, rule owned_pollLoop, rule owned_finish)
  then show ?thesis unfolding afterSend_def
    by (auto split: send_output.splits intro!: inner_modify owned_inner [OF owned_finish])
qed

lemma owned_sendStep [run_intros]: "owned n (sendStep o' st n signed simulated)"
proof -
  have "owned n (case x of Inl e \<Rightarrow> finish (Some (Inl e)) | Inr out \<Rightarrow> guardRun n None (afterSend o' st n out))" for x
    by (auto split: sum.splits intro!: run_intros)
  then show ?thesis unfolding sendStep_def by (intro owned_modify owned_await) simp_all
qed

lemma owned_stage:
  assumes "\<And>v. owned n (g v)"
  shows "owned n (case x of Inl e \<Rightarrow> finish (Some (Inl e)) | Inr v \<Rightarrow> guardRun n None (g v))"
  using assms by (auto split: sum.splits intro!: run_intros)

lemma owned_signStep [run_intros]: "owned n (signStep o' st n simulated)"
  unfolding signStep_def by (auto intro!: owned_modify owned_await owned_stage owned_sendStep owned_guardRun owned_inner)

lemma owned_stagedAttempt [run_intros]: "owned n (stagedAttempt o' st n)"
  unfolding stagedAttempt_def by (auto intro!: owned_modify owned_await owned_stage owned_signStep owned_guardRun owned_inner)

lemma owned_actionAttempt [run_intros]: "owned n (actionAttempt aid n i)"
proof -
  have "sameRun s (if b then s else updateStatus st1 (Some n) (updateStatus st2 (Some n) s))" for b s st1 st2
    by (simp add: sameRun_def updateStatus_def noteStatus_def)
  then have "owned n (case x of Inl e \<Rightarrow> finish (Some (Inl e)) | Inr r \<Rightarrow> guardRun n None
         (modify (\<lambda>s. if (n, i) \<in> phaseAdvanced s then s else updateStatus TxSubmitting (Some n) (updateStatus TxSigning (Some n) s))
            (finish (Some (Inr r)))))" for x
    by (auto split: sum.splits intro!: owned_finish owned_guardRun inner_modify owned_inner [OF owned_finish])
  then show ?thesis unfolding actionAttempt_def by (intro owned_modify owned_await) simp_all
qed

lemma owned_catchAttempt [run_intros]: "(\<And>p. again = Some p \<Longrightarrow> owned n p) \<Longrightarrow> owned n (catchAttempt o' method n again e)"
  unfolding catchAttempt_def Let_def
  by (auto split: option.splits intro!: owned_guardRun inner_failedWith intro: owned_inner owned_waitDelay)

lemma owned_concludeAttempt [run_intros]:
  assumes "\<And>p. again = Some p \<Longrightarrow> owned n p"
  shows "owned n (concludeAttempt o' method n again r)"
proof -
  have c: "owned n (catchAttempt o' method n again e)" for e using assms by (rule owned_catchAttempt)
  show ?thesis unfolding concludeAttempt_def
    by (auto split: option.splits sum.splits intro!: c owned_finish owned_guardRun inner_modify owned_inner [OF c] owned_inner [OF owned_finish])
qed

lemma owned_attempts [run_intros]: "owned n (attempts o' act n i m)"
proof (induction m arbitrary: i)
  case (Suc m)
  have "owned n (attemptOnce o' act n i)"
    by (auto simp: attemptOnce_def split: tx_action.splits intro!: run_intros)
  moreover have "owned n (concludeAttempt o' mt n (if m = 0 then None else Some (attempts o' act n (Suc i) m)) r)" for mt r
    using Suc by (auto intro!: owned_concludeAttempt split: if_splits)
  ultimately show ?case unfolding attempts.simps
    by (intro owned_modify owned_asyncThen) (simp_all add: ownStep_def sameRun_def)
qed (simp only: attempts.simps owned_finish)

lemma owned_concludeRefetch [run_intros]: "owned n (concludeRefetch o' method n r)"
proof -
  have "sameRun s (confirmWith o'' n res (s\<lparr>txHash := x\<rparr>))" for s o'' res x
    by (simp add: sameRun_def confirmWith_def updateStatus_def noteStatus_def Let_def)
  then show ?thesis unfolding concludeRefetch_def
    by (auto split: sum.splits option.splits intro!: owned_guardRun inner_modify inner_failedWith owned_inner [OF owned_finish])
qed

lemma owned_launch:
  assumes "owned n p" and "launch p s = (s', new)"
  shows "ownStep n s s' \<and> (\<forall>c \<in> set new. \<forall>a. owned n (snd c a))"
proof -
  obtain t where t: "p s = (s', t)" "new = waiting t" using assms(2) by (auto simp: launch_def split: prod.splits)
  have "ownStep n s s'" "ownedTask n t" using assms(1) t(1) by (metis owned_def fst_conv snd_conv)+
  with t(2) show ?thesis by (cases t) (auto simp: owned_def)
qed

text \<open>Every waiting call belongs to a run that was started.\<close>

definition runsOk :: "submission \<Rightarrow> (submission_query, submission_answer, submission, 'r) waiting_call list \<Rightarrow> bool" where
  "runsOk s ts \<longleftrightarrow> (\<forall>c \<in> set ts. \<exists>n \<le> activeRun s. \<forall>a. owned n (snd c a))"

lemma launch_failedWith: "launch (failedWith o' n e) s = (fst (failedWith o' n e s), [])"
  by (simp add: launch_def failedWith_def)

lemma startRun_run [simp]: "activeRun (startRun act s) = Suc (activeRun s)"
  by (simp add: startRun_def Let_def)

lemma submit_run:
  assumes "launch (submit o' act) s = (s', new)"
  shows "activeRun s' = Suc (activeRun s) \<and> (\<forall>c \<in> set new. \<forall>a. owned (Suc (activeRun s)) (snd c a))"
proof (cases "requireWallet o' \<and> txWalletStatus o' \<noteq> ''connected''")
  case True
  have "activeRun (fst (failedWith o' n e t)) = activeRun t" for n e t
    by (simp add: failedWith_def updateStatus_def noteStatus_def)
  moreover have "s' = (if current (Suc (activeRun s)) (startRun act s)
        then fst (failedWith o' (Suc (activeRun s)) (submissionWalletError o') (startRun act s)) else startRun act s)" "new = []"
    using assms True by (auto simp: launch_def submit_def Let_def failedWith_def split: if_splits)
  ultimately show ?thesis by simp
next
  case False
  then have "launch (attempts o' act (Suc (activeRun s)) 0 (allowedAttempts o')) (startRun act s) = (s', new)"
    using assms by (simp only: launch_def submit_def Let_def if_False)
  from owned_launch [OF owned_attempts this] show ?thesis by (simp add: ownStep_def sameRun_def)
qed

lemma refetch_run:
  assumes "launch (refetch o' h) s = (s', new)"
  shows "activeRun s \<le> activeRun s' \<and> (\<forall>c \<in> set new. \<forall>a. owned (activeRun s') (snd c a))"
proof -
  let ?n = "Suc (activeRun s)" and ?m = "Option.bind (lastAction s) actionMethod"
  let ?p = "\<lambda>h'. modify (updateStatus TxSubmitting (Some ?n))
      (asyncThen (pollLedgerStatus o' h' ?n (actionPoll (lastAction s)) ?m) (concludeRefetch o' ?m ?n))"
  have own: "owned ?n (?p h')" for h'
    unfolding pollLedgerStatus_def
    by (rule owned_modify, rule updateStatus_own, rule owned_asyncThen, rule owned_pollLoop, rule owned_concludeRefetch)
  have "(s', new) = (s, []) \<or> (\<exists>h'. launch (?p h') (s\<lparr>activeRun := ?n\<rparr>) = (s', new))"
    using assms unfolding launch_def refetch_def Let_def by (auto split: option.splits if_splits)
  then show ?thesis
  proof
    assume "(s', new) = (s, [])"
    then show ?thesis by simp
  next
    assume "\<exists>h'. launch (?p h') (s\<lparr>activeRun := ?n\<rparr>) = (s', new)"
    then obtain h' where "launch (?p h') (s\<lparr>activeRun := ?n\<rparr>) = (s', new)" by blast
    from owned_launch [OF own this] show ?thesis by (simp add: ownStep_def sameRun_def)
  qed
qed

lemma retry_run:
  assumes "launch (retry o') s = (s', new)"
  shows "activeRun s \<le> activeRun s' \<and> (\<forall>c \<in> set new. \<forall>a. owned (activeRun s') (snd c a))"
proof (cases "lastAction s")
  case None
  then show ?thesis using assms by (auto simp: launch_def retry_def Let_def updateStatus_def noteStatus_def split: if_splits)
next
  case (Some act)
  then have "launch (submit o' act) s = (s', new)" using assms by (simp add: launch_def retry_def)
  from submit_run [OF this] show ?thesis by simp
qed

lemma markPhase_run [simp]: "activeRun (markPhase st h n i s) = activeRun s" "txMounted (markPhase st h n i s) = txMounted s"
  by (simp_all add: markPhase_def Let_def updateStatus_def noteStatus_def withHash_def)

lemma reset_run [simp]: "activeRun (reset s) = Suc (activeRun s)" "txMounted (reset s) = txMounted s"
  by (simp_all add: reset_def Let_def noteStatus_def)

lemma runsOk_add:
  "runsOk s ts \<Longrightarrow> activeRun s \<le> activeRun s' \<Longrightarrow> (\<forall>c \<in> set new. \<forall>a. owned (activeRun s') (snd c a)) \<Longrightarrow> runsOk s' (ts @ new)"
  unfolding runsOk_def set_append using le_trans by blast

lemma runsOk_answer:
  assumes "runsOk s (us @ (q, k) # vs)" and "launch (k a) s = (s', new)"
  shows "runsOk s' (us @ vs @ new) \<and> sameRun s s'"
proof -
  obtain n where n: "n \<le> activeRun s" "\<forall>a. owned n (k a)" using assms(1) by (auto simp: runsOk_def)
  from owned_launch [OF n(2)[rule_format] assms(2)] have s': "sameRun s s'" "\<forall>c \<in> set new. \<forall>a. owned n (snd c a)"
    by (auto simp: ownStep_def)
  then show ?thesis using n(1) assms(1) by (auto simp: runsOk_def sameRun_def)
qed

lemma reachable_runsOk:
  assumes "instance_steps submissionEntry (initialSubmission, []) (s, ts)"
  shows "runsOk s ts"
  using assms
proof (rule instance_invariant)
  show "runsOk initialSubmission []" by (simp add: runsOk_def)
next
  fix e s s' and ts new :: "(submission_query, submission_answer, submission, tx_outcome) waiting_call list"
  assume "submissionEntry e" and ok: "runsOk s ts" and step: "e s = (s', new)"
  then have "activeRun s \<le> activeRun s' \<and> (\<forall>c \<in> set new. \<forall>a. owned (activeRun s') (snd c a))"
  proof cases
    case (submits o' act)
    then show ?thesis using submit_run step by fastforce
  next
    case (retries o')
    then show ?thesis using retry_run step by simp
  next
    case (refetches o' h)
    then show ?thesis using refetch_run step by simp
  next
    case (marks st n h i)
    then show ?thesis using step by auto
  qed (use step in \<open>auto simp: unmount_def\<close>)
  then show "runsOk s' (ts @ new)" using runsOk_add [OF ok] by blast
qed (use runsOk_answer in blast)

text \<open>The callbacks of actions of runs before \<open>m\<close>.\<close>

inductive oldMarkEntry :: "nat \<Rightarrow> (submission \<Rightarrow> (submission_query, submission_answer, submission, tx_outcome) instance_state) \<Rightarrow> bool" for m where
  marks: "n \<le> m \<Longrightarrow> oldMarkEntry m (\<lambda>s. (markPhase st h n i s, []))"

lemma old_markPhase: "n < activeRun s \<or> \<not> txMounted s \<Longrightarrow> markPhase st h n i s = s\<lparr>phaseAdvanced := insert (n, i) (phaseAdvanced s)\<rparr>"
  by (auto simp: markPhase_def Let_def updateStatus_def current_def)

text \<open>
  C31. Once the hook is reset or removed, nothing that was under way is seen any more: whatever the wallet, the node,
  the timers and the callbacks of the action still do, in whatever order, the state stays as it is.
\<close>

theorem superseded_runs_are_silent:
  assumes "instance_steps submissionEntry (initialSubmission, []) (s, ts)"
    and "s1 = reset s \<or> s1 = unmount s"
    and "instance_steps (oldMarkEntry (activeRun s)) (s1, ts) (s2, ts2)"
  shows "s2 = s1\<lparr>phaseAdvanced := phaseAdvanced s2\<rparr>"
proof -
  let ?I = "\<lambda>u us. u = s1\<lparr>phaseAdvanced := phaseAdvanced u\<rparr> \<and> (\<forall>c \<in> set us. \<exists>n \<le> activeRun s. \<forall>a. owned n (snd c a))"
  have run: "activeRun s1 = Suc (activeRun s)" using assms(2) by (auto simp: unmount_def)
  have later: "activeRun u = Suc (activeRun s)" if "u = s1\<lparr>phaseAdvanced := phaseAdvanced u\<rparr>" for u
    using run that by (metis submission.select_convs(7) submission.surjective submission.update_convs(9))
  have "?I s2 ts2"
    using assms(3)
  proof (rule instance_invariant [where I = ?I])
    show "?I s1 ts" using reachable_runsOk [OF assms(1)] by (simp add: runsOk_def)
  next
    fix e u u' and us new :: "(submission_query, submission_answer, submission, tx_outcome) waiting_call list"
    assume e: "oldMarkEntry (activeRun s) e" and I: "?I u us" and step: "e u = (u', new)"
    from e show "?I u' (us @ new)"
    proof cases
      case (marks n st h i)
      have "n < activeRun u" using marks later [of u] I by simp
      with marks step I show ?thesis
        by (simp add: old_markPhase) (metis (no_types, lifting) submission.surjective submission.update_convs(9))
    qed
  next
    fix q k a u u' and us vs new :: "(submission_query, submission_answer, submission, tx_outcome) waiting_call list"
    assume I: "?I u (us @ (q, k) # vs)" and l: "launch (k a) u = (u', new)"
    then obtain n where n: "n \<le> activeRun s" "\<forall>a. owned n (k a)" by auto
    have "\<not> current n u" using later [of u] I n(1) by (simp add: current_def)
    with owned_launch [OF n(2)[rule_format] l] have "u' = u" "\<forall>c \<in> set new. \<forall>a. owned n (snd c a)" by (auto simp: ownStep_def)
    then show "?I u' (us @ vs @ new)" using I n(1) by auto
  qed
  then show ?thesis by blast
qed

subsection \<open>How often a transaction is sent\<close>

fun sends :: "submission_query \<Rightarrow> bool" where
  "sends (RunAction aid n i) = True"
| "sends (SendStage i signed simulated) = True"
| "sends _ = False"

text \<open>
  The queries of a program that is answered with the given values, where the rest of the component may change
  the state before each answer.
\<close>

fun queriesAsked :: "('a \<times> ('s \<Rightarrow> 's)) list \<Rightarrow> 's \<times> ('q, 'a, 's, 'r) task \<Rightarrow> 'q list" where
  "queriesAsked as (s, Return r) = []"
| "queriesAsked [] (s, Await q k) = [q]"
| "queriesAsked ((a, f) # as) (s, Await q k) = q # queriesAsked as (k a (f s))"

inductive sendsAtMost :: "nat \<Rightarrow> (submission_query, submission_answer, submission, 'r) task \<Rightarrow> bool" where
  returns: "sendsAtMost b (Return r)"
| sending: "sends q \<Longrightarrow> (\<And>a s. sendsAtMost b (snd (k a s))) \<Longrightarrow> sendsAtMost (Suc b) (Await q k)"
| asking: "\<not> sends q \<Longrightarrow> (\<And>a s. sendsAtMost b (snd (k a s))) \<Longrightarrow> sendsAtMost b (Await q k)"

lemma sendsAtMost_mono: "sendsAtMost b t \<Longrightarrow> b \<le> c \<Longrightarrow> sendsAtMost c t"
proof (induction arbitrary: c rule: sendsAtMost.induct)
  case (sending q b k)
  from sending.prems obtain d where "c = Suc d" "b \<le> d" by (cases c) auto
  with sending show ?case by (auto intro: sendsAtMost.sending)
qed (auto intro: sendsAtMost.intros)

definition sendBound :: "nat \<Rightarrow> 'r submission_prog \<Rightarrow> bool" where
  "sendBound b p \<longleftrightarrow> (\<forall>s. sendsAtMost b (snd (p s)))"

named_theorems send_intros

lemma sendBound_finish [send_intros]: "sendBound b (finish r)"
  by (simp add: sendBound_def sendsAtMost.returns)

lemma sendBound_modify [send_intros]: "sendBound b p \<Longrightarrow> sendBound b (modify f p)"
  by (simp add: sendBound_def)

lemma sendBound_guardRun [send_intros]: "sendBound b p \<Longrightarrow> sendBound b (guardRun n r p)"
  by (simp add: sendBound_def guardRun_def sendsAtMost.returns)

lemma sendBound_ask [send_intros]: "\<not> sends q \<Longrightarrow> (\<And>a. sendBound b (k a)) \<Longrightarrow> sendBound b (await q k)"
  by (simp add: sendBound_def sendsAtMost.asking)

lemma sendBound_send: "sends q \<Longrightarrow> (\<And>a. sendBound b (k a)) \<Longrightarrow> sendBound (Suc b) (await q k)"
  by (simp add: sendBound_def sendsAtMost.sending)

lemma sendBound_waitDelay [send_intros]: "sendBound b p \<Longrightarrow> sendBound b (waitDelay ms n r p)"
  unfolding waitDelay_def by (rule sendBound_guardRun, rule sendBound_ask) (simp_all add: sendBound_guardRun)

lemma sendsAtMost_resume:
  assumes "sendsAtMost b t" and "\<And>r. sendBound c (f r)"
  shows "sendBound (b + c) (resume t f)"
  using assms(1)
proof induction
  case (returns b r)
  have "c \<le> b + c" by simp
  with assms(2) show ?case using sendsAtMost_mono unfolding sendBound_def resume.simps by blast
next
  case (sending q b k)
  have "sendsAtMost (b + c) (snd (asyncThen (k a) f s))" for a s
    using sending.IH [of a s] by (cases "k a s") (simp add: asyncThen_def sendBound_def)
  then show ?case using sending.hyps by (simp add: sendBound_def sendsAtMost.sending)
next
  case (asking q b k)
  have "sendsAtMost (b + c) (snd (asyncThen (k a) f s))" for a s
    using asking.IH [of a s] by (cases "k a s") (simp add: asyncThen_def sendBound_def)
  then show ?case using asking.hyps by (simp add: sendBound_def sendsAtMost.asking)
qed

lemma sendBound_asyncThen:
  assumes "sendBound b p" and "\<And>r. sendBound c (f r)"
  shows "sendBound (b + c) (asyncThen p f)"
  unfolding sendBound_def
proof
  fix s
  obtain s' t where st: "p s = (s', t)" by (cases "p s")
  then have "sendsAtMost b t" using assms(1) by (metis sendBound_def snd_conv)
  from sendsAtMost_resume [OF this assms(2)] st show "sendsAtMost (b + c) (snd (asyncThen p f s))"
    by (simp add: asyncThen_def sendBound_def)
qed

lemma sendBound_pollLoop [send_intros]: "sendBound b (pollLoop o' h n pid method m)"
proof (induction m)
  case (Suc m)
  have "sendBound b (case v of Some r \<Rightarrow> finish r
      | None \<Rightarrow> if m = 0 then finish y else waitDelay d n z (pollLoop o' h n pid method m))" for v y d z
    using Suc by (cases v) (auto intro: sendBound_finish sendBound_waitDelay)
  then have "sendBound b (await (case pid of Some i \<Rightarrow> CustomPoll i h | None \<Rightarrow> RpcPoll h)
      (\<lambda>a. case pollVerdict c method h (pollAnswer a) of Some r \<Rightarrow> finish r
      | None \<Rightarrow> if m = 0 then finish y else waitDelay d n z (pollLoop o' h n pid method m)))" for c y d z
    by (intro sendBound_ask) (simp_all split: option.splits)
  then show ?case unfolding pollLoop.simps by (intro sendBound_guardRun) (simp add: sendBound_finish)
qed (simp only: pollLoop.simps sendBound_finish)

lemma sendBound_stage:
  assumes "\<And>v. sendBound b (g v)"
  shows "sendBound b (case x of Inl e \<Rightarrow> finish (Some (Inl e)) | Inr v \<Rightarrow> guardRun n None (g v))"
  using assms by (cases x) (auto intro: send_intros)

lemma sendBound_afterSend: "sendBound 0 (afterSend o' st n out)"
proof -
  have "sendBound (0 + 0) (polled (pollLedgerStatus o' h n pid mt))" for h pid mt
    unfolding polled_def pollLedgerStatus_def by (rule sendBound_asyncThen, rule sendBound_pollLoop, rule sendBound_finish)
  then have p: "sendBound 0 (polled (pollLedgerStatus o' h n pid mt))" for h pid mt by simp
  show ?thesis unfolding afterSend_def by (cases out) (auto intro!: p sendBound_modify sendBound_finish)
qed

lemma sendBound_sendStep: "sendBound (Suc 0) (sendStep o' st n signed simulated)"
  unfolding sendStep_def
  by (rule sendBound_modify, rule sendBound_send) (auto intro!: sendBound_stage sendBound_afterSend)

lemma sendBound_signStep: "sendBound (Suc 0) (signStep o' st n simulated)"
  unfolding signStep_def by (auto intro!: sendBound_modify sendBound_ask sendBound_stage sendBound_sendStep sendBound_guardRun)

lemma sendBound_stagedAttempt: "sendBound (Suc 0) (stagedAttempt o' st n)"
  unfolding stagedAttempt_def by (auto intro!: sendBound_modify sendBound_ask sendBound_stage sendBound_signStep sendBound_guardRun)

lemma sendBound_actionAttempt: "sendBound (Suc 0) (actionAttempt aid n i)"
  unfolding actionAttempt_def
  by (rule sendBound_modify, rule sendBound_send) (auto intro!: sendBound_stage sendBound_modify sendBound_finish)

lemma sendBound_catchAttempt:
  assumes "\<And>p. again = Some p \<Longrightarrow> sendBound b p"
  shows "sendBound b (catchAttempt o' method n again e)"
proof -
  have f: "sendBound b (failedWith o' n er)" for er
    unfolding failedWith_def by (intro sendBound_modify sendBound_finish)
  show ?thesis unfolding catchAttempt_def Let_def using assms
    by (cases again) (auto intro!: sendBound_guardRun f sendBound_waitDelay)
qed

lemma sendBound_concludeAttempt:
  assumes "\<And>p. again = Some p \<Longrightarrow> sendBound b p"
  shows "sendBound b (concludeAttempt o' method n again r)"
proof -
  have c: "sendBound b (catchAttempt o' method n again e)" for e using assms by (rule sendBound_catchAttempt)
  show ?thesis unfolding concludeAttempt_def
    by (auto split: option.splits sum.splits intro!: c sendBound_finish sendBound_guardRun sendBound_modify)
qed

lemma sendBound_attempts: "sendBound m (attempts o' act n i m)"
proof (induction m arbitrary: i)
  case (Suc m)
  have "sendBound (Suc 0) (attemptOnce o' act n i)"
    by (cases act) (simp_all add: attemptOnce_def sendBound_stagedAttempt sendBound_actionAttempt)
  moreover have "sendBound m (concludeAttempt o' mt n (if m = 0 then None else Some (attempts o' act n (Suc i) m)) r)" for mt r
    by (rule sendBound_concludeAttempt) (use Suc in \<open>auto split: if_splits\<close>)
  ultimately have "sendBound (Suc 0 + m) (asyncThen (attemptOnce o' act n i)
      (concludeAttempt o' mt n (if m = 0 then None else Some (attempts o' act n (Suc i) m))))" for mt
    by (rule sendBound_asyncThen)
  then show ?case unfolding attempts.simps by (intro sendBound_modify) simp
qed (simp only: attempts.simps sendBound_finish)

lemma queriesAsked_bound: "sendsAtMost b t \<Longrightarrow> length (filter sends (queriesAsked as (s, t))) \<le> b"
proof (induction arbitrary: as s rule: sendsAtMost.induct)
  case (sending q b k)
  show ?case
  proof (cases as)
    case (Cons af as')
    obtain a f where "af = (a, f)" by (cases af)
    then show ?thesis using sending Cons by (cases "k a (f s)") (metis (no_types, lifting) filter.simps(2) length_Cons not_less_eq_eq queriesAsked.simps(3) snd_conv)
  qed (simp add: sending)
next
  case (asking q b k)
  show ?case
  proof (cases as)
    case (Cons af as')
    obtain a f where "af = (a, f)" by (cases af)
    then show ?thesis using asking Cons by (cases "k a (f s)") (metis (no_types, lifting) filter.simps(2) queriesAsked.simps(3) snd_conv)
  qed (simp add: asking)
qed simp

text \<open>
  C28. However the steps are answered, a submission hands the transaction out at most \<^verbatim>\<open>1 + maxRetries\<close> times, and
  once when \<^verbatim>\<open>maxRetries\<close> is not positive.
\<close>

theorem submit_sends_bounded:
  "length (filter sends (queriesAsked as (submit o' act s))) \<le> nat (max 1 (1 + maxRetries o'))"
proof -
  have f: "sendBound b (failedWith o' n er)" for b n er
    unfolding failedWith_def by (intro sendBound_modify sendBound_finish)
  have "sendsAtMost (allowedAttempts o') (snd (submit o' act s))"
    using sendBound_attempts f unfolding submit_def Let_def
    by (auto simp: sendBound_def intro: sendsAtMost.returns)
  then show ?thesis using queriesAsked_bound [of "allowedAttempts o'" "snd (submit o' act s)" as "fst (submit o' act s)"]
    by (simp add: allowedAttempts_def)
qed

subsection \<open>What is shown as confirmed has succeeded\<close>

definition confirmedOk :: "submission \<Rightarrow> bool" where
  "confirmedOk s \<longleftrightarrow> (txStatus s = TxConfirmed \<longrightarrow> (\<exists>r. txData s = Some r \<and> success r))"

inductive yieldsTask :: "('r \<Rightarrow> bool) \<Rightarrow> ('q, 'a, 's, 'r) task \<Rightarrow> bool" for P where
  returns: "P r \<Longrightarrow> yieldsTask P (Return r)"
| awaits: "(\<And>a s. yieldsTask P (snd (k a s))) \<Longrightarrow> yieldsTask P (Await q k)"

definition yields :: "('r \<Rightarrow> bool) \<Rightarrow> ('q, 'a, 's, 'r) prog \<Rightarrow> bool" where
  "yields P p \<longleftrightarrow> (\<forall>s. yieldsTask P (snd (p s)))"

lemma yields_finish: "P r \<Longrightarrow> yields P (finish r)"
  by (simp add: yields_def yieldsTask.returns)

lemma yields_await: "(\<And>a. yields P (k a)) \<Longrightarrow> yields P (await q k)"
  by (simp add: yields_def yieldsTask.awaits)

lemma yields_guardRun: "P r \<Longrightarrow> yields P p \<Longrightarrow> yields P (guardRun n r p)"
  by (simp add: yields_def guardRun_def yieldsTask.returns)

lemma preservesTask_resume_yields:
  assumes "yieldsTask P t" and "preservesTask J t" and "\<And>r. P r \<Longrightarrow> preserves J (f r)"
  shows "preserves J (resume t f)"
  using assms(1,2)
proof induction
  case (returns r)
  then show ?case using assms(3) by simp
next
  case (awaits k q)
  have "preserves J (asyncThen (k a) f)" for a
  proof (rule preservesI)
    fix s
    assume J: "J s"
    obtain s' t' where st: "k a s = (s', t')" by (cases "k a s")
    have k: "J (fst (k a s)) \<and> preservesTask J (snd (k a s))" using awaits.prems J by (blast elim: preservesTask_AwaitE)
    then have "preserves J (resume t' f)" using awaits.IH [of a s] st by simp
    then show "J (fst (asyncThen (k a) f s)) \<and> preservesTask J (snd (asyncThen (k a) f s))"
      using k st preservesD [of J "resume t' f" s'] by (simp add: asyncThen_def)
  qed
  then show ?case by (auto simp: preserves_def intro!: preservesTask.awaits)
qed

lemma preserves_asyncThen_yields:
  assumes "preserves J p" and "yields P p" and "\<And>r. P r \<Longrightarrow> preserves J (f r)"
  shows "preserves J (asyncThen p f)"
proof (rule preservesI)
  fix s
  assume "J s"
  obtain s' t where st: "p s = (s', t)" by (cases "p s")
  have "J s'" "preservesTask J t" "yieldsTask P t"
    using preservesD [OF assms(1) \<open>J s\<close>] assms(2) st by (auto simp: yields_def dest: spec [of _ s])
  then have "preserves J (resume t f)" using assms(3) by (intro preservesTask_resume_yields)
  then show "J (fst (asyncThen p f s)) \<and> preservesTask J (snd (asyncThen p f s))"
    using preservesD \<open>J s'\<close> by (fastforce simp: asyncThen_def st)
qed

lemma yields_pollLoop: "yields (\<lambda>r. \<forall>res. r = Inr res \<longrightarrow> success res) (pollLoop o' h n pid method m)"
proof (induction m)
  case 0
  show ?case unfolding pollLoop.simps by (rule yields_finish) simp
next
  case (Suc m)
  let ?P = "\<lambda>r :: thrown + TransactionResult. \<forall>res. r = Inr res \<longrightarrow> success res"
  have v: "?P r" if "pollVerdict c method h x = Some r" for c x r
    using that by (auto simp: pollVerdict_def split: sum.splits if_splits)
  have "yields ?P (case pollVerdict c method h x of Some r \<Rightarrow> finish r
      | None \<Rightarrow> if m = 0 then finish (Inl y) else waitDelay d n (Inl z) (pollLoop o' h n pid method m))" for c x y d z
    using Suc v [of c x] unfolding waitDelay_def
    by (cases "pollVerdict c method h x") (auto intro!: yields_finish yields_guardRun yields_await)
  then have "yields ?P (await q (\<lambda>a. case pollVerdict c method h (pollAnswer a) of Some r \<Rightarrow> finish r
      | None \<Rightarrow> if m = 0 then finish (Inl y) else waitDelay d n (Inl z) (pollLoop o' h n pid method m)))" for q c y d z
    by (intro yields_await)
  moreover have "yields ?P (finish (Inr \<lparr>success = True, tx_hash = h, returnValue = NUndef\<rparr>) :: (thrown + TransactionResult) submission_prog)" by (rule yields_finish) simp
  ultimately show ?case unfolding pollLoop.simps by (intro yields_guardRun) (simp_all only: if_split simp_thms sum.distinct)
qed

lemma preserves_guardRun [intro]: "preserves J p \<Longrightarrow> preserves J (guardRun n r p)"
  by (simp add: preserves_def guardRun_def preservesTask.returns)

lemma preserves_waitDelay [intro]: "preserves J p \<Longrightarrow> preserves J (waitDelay ms n r p)"
  unfolding waitDelay_def by (intro preserves_guardRun preserves_await)

lemma confirmedOk_updates [simp]:
  "st \<noteq> TxConfirmed \<Longrightarrow> confirmedOk s \<Longrightarrow> confirmedOk (updateStatus st run s)"
  "confirmedOk s \<Longrightarrow> confirmedOk (withHash h s)"
  "confirmedOk (s\<lparr>txHash := x\<rparr>) = confirmedOk s" "confirmedOk (s\<lparr>txError := er\<rparr>) = confirmedOk s"
  "confirmedOk (s\<lparr>txLog := l\<rparr>) = confirmedOk s" "confirmedOk (s\<lparr>retryCount := i\<rparr>) = confirmedOk s"
  "success r \<Longrightarrow> confirmedOk (confirmWith o' n r s)"
  by (auto simp: confirmedOk_def updateStatus_def noteStatus_def withHash_def confirmWith_def Let_def)

lemma ok_pollLoop: "preserves confirmedOk (pollLoop o' h n pid method m)"
proof (induction m)
  case (Suc m)
  have "preserves confirmedOk (case v of Some r \<Rightarrow> finish r
      | None \<Rightarrow> if m = 0 then finish y else waitDelay d n z (pollLoop o' h n pid method m))" for v y d z
    using Suc by (cases v) auto
  then have "preserves confirmedOk (await q (\<lambda>a. case pollVerdict c method h (pollAnswer a) of Some r \<Rightarrow> finish r
      | None \<Rightarrow> if m = 0 then finish y else waitDelay d n z (pollLoop o' h n pid method m)))" for q c y d z
    by (intro preserves_await)
  then show ?case unfolding pollLoop.simps by (intro preserves_guardRun) (simp only: preserves_finish if_split simp_thms)
qed (simp only: pollLoop.simps preserves_finish)

lemma ok_failedWith: "preserves confirmedOk (failedWith o' n e)"
  unfolding failedWith_def by (intro preserves_modify preserves_finish) simp_all

lemma ok_stage:
  assumes "\<And>v. preserves J (g v)"
  shows "preserves J (case x of Inl e \<Rightarrow> finish (Some (Inl e)) | Inr v \<Rightarrow> guardRun n None (g v))"
  using assms by (cases x) auto

lemma ok_afterSend: "preserves confirmedOk (afterSend o' st n out)"
proof -
  have p: "preserves confirmedOk (polled (pollLedgerStatus o' h n pid mt))" for h pid mt
    unfolding polled_def pollLedgerStatus_def by (rule preserves_asyncThen, rule ok_pollLoop, rule preserves_finish)
  show ?thesis unfolding afterSend_def by (cases out) (auto intro!: p preserves_modify)
qed

lemma ok_sendStep: "preserves confirmedOk (sendStep o' st n signed simulated)"
  unfolding sendStep_def by (intro preserves_modify preserves_await ok_stage ok_afterSend) simp

lemma ok_signStep: "preserves confirmedOk (signStep o' st n simulated)"
  unfolding signStep_def by (auto intro!: preserves_modify preserves_await ok_stage ok_sendStep preserves_guardRun)

lemma ok_attemptOnce: "preserves confirmedOk (attemptOnce o' act n i)"
proof (cases act)
  case (CallbackAction aid)
  show ?thesis unfolding attemptOnce_def actionAttempt_def CallbackAction
    by (simp, intro preserves_modify preserves_await ok_stage preserves_finish) (simp_all split: if_splits)
next
  case (StagedAction st)
  then show ?thesis unfolding attemptOnce_def stagedAttempt_def
    by (auto intro!: preserves_modify preserves_await ok_stage ok_signStep preserves_guardRun)
qed

lemma ok_catchAttempt:
  assumes "\<And>p. again = Some p \<Longrightarrow> preserves confirmedOk p"
  shows "preserves confirmedOk (catchAttempt o' method n again e)"
  unfolding catchAttempt_def Let_def using assms by (cases again) (auto intro!: preserves_guardRun ok_failedWith preserves_waitDelay)

lemma ok_concludeAttempt:
  assumes "\<And>p. again = Some p \<Longrightarrow> preserves confirmedOk p"
  shows "preserves confirmedOk (concludeAttempt o' method n again r)"
proof -
  have c: "preserves confirmedOk (catchAttempt o' method n again e)" for e using assms by (rule ok_catchAttempt)
  show ?thesis unfolding concludeAttempt_def
    by (auto split: option.splits sum.splits intro!: c preserves_finish preserves_guardRun preserves_modify)
qed

lemma ok_attempts: "preserves confirmedOk (attempts o' act n i m)"
proof (induction m arbitrary: i)
  case (Suc m)
  have "preserves confirmedOk (concludeAttempt o' mt n (if m = 0 then None else Some (attempts o' act n (Suc i) m)) r)" for mt r
    by (rule ok_concludeAttempt) (use Suc in \<open>auto split: if_splits\<close>)
  then show ?case unfolding attempts.simps by (intro preserves_modify preserves_asyncThen ok_attemptOnce) simp_all
qed (simp only: attempts.simps preserves_finish)

lemma ok_concludeRefetch: "(\<And>res. r = Inr res \<Longrightarrow> success res) \<Longrightarrow> preserves confirmedOk (concludeRefetch o' method n r)"
  unfolding concludeRefetch_def
  by (auto split: sum.splits option.splits intro!: preserves_guardRun preserves_modify ok_failedWith)

text \<open>The first piece of a submission leaves \<^verbatim>\<open>confirmed\<close>, so that the cleared result is not seen.\<close>

lemma updateStatus_idem [simp]: "updateStatus st run (updateStatus st run s) = updateStatus st run s"
  by (simp add: updateStatus_def noteStatus_def)

lemma attempts_first: "attempts o' act n 0 (Suc m) s = attempts o' act n 0 (Suc m) (updateStatus TxSimulating (Some n) s)"
  by (cases act) (simp_all add: attemptOnce_def actionAttempt_def stagedAttempt_def)

lemma ok_startRun: "confirmedOk s \<Longrightarrow> confirmedOk (updateStatus TxSimulating (Some (Suc (activeRun s))) (startRun act s))"
  "confirmedOk s \<Longrightarrow> \<not> txMounted s \<Longrightarrow> confirmedOk (startRun act s)"
  by (auto simp: confirmedOk_def startRun_def updateStatus_def noteStatus_def Let_def)

lemma ok_submit:
  assumes J: "confirmedOk s" and l: "launch (submit o' act) s = (s', new)"
  shows "confirmedOk s' \<and> (\<forall>c \<in> set new. quietCall confirmedOk c)"
proof (cases "requireWallet o' \<and> txWalletStatus o' \<noteq> ''connected''")
  case True
  have "confirmedOk (fst (failedWith o' (Suc (activeRun s)) e (startRun act s)))" if "txMounted s" for e
    using that by (simp add: failedWith_def confirmedOk_def updateStatus_def noteStatus_def startRun_def Let_def)
  moreover have "txMounted s" if "current (Suc (activeRun s)) (startRun act s)"
    using that by (simp add: current_def startRun_def Let_def split: if_splits)
  moreover have "\<not> txMounted s" if "\<not> current (Suc (activeRun s)) (startRun act s)"
    using that by (auto simp: current_def startRun_def Let_def split: if_splits)
  ultimately show ?thesis using l True ok_startRun(2) [OF J]
    by (auto simp: launch_def submit_def Let_def failedWith_def split: if_splits)
next
  case False
  obtain m where m: "allowedAttempts o' = Suc m" by (cases "allowedAttempts o'") (auto simp: allowedAttempts_def)
  have "launch (attempts o' act (Suc (activeRun s)) 0 (Suc m)) (updateStatus TxSimulating (Some (Suc (activeRun s))) (startRun act s)) = (s', new)"
    using l False unfolding launch_def submit_def Let_def m by (simp only: if_False attempts_first [symmetric])
  from preserves_launch [OF ok_attempts ok_startRun(1) [OF J] this] show ?thesis .
qed

lemma ok_refetch:
  assumes J: "confirmedOk s" and l: "launch (refetch o' h) s = (s', new)"
  shows "confirmedOk s' \<and> (\<forall>c \<in> set new. quietCall confirmedOk c)"
proof -
  let ?n = "Suc (activeRun s)" and ?m = "Option.bind (lastAction s) actionMethod"
  let ?p = "\<lambda>h'. modify (updateStatus TxSubmitting (Some ?n))
      (asyncThen (pollLedgerStatus o' h' ?n (actionPoll (lastAction s)) ?m) (concludeRefetch o' ?m ?n))"
  have p: "preserves confirmedOk (?p h')" for h'
    unfolding pollLedgerStatus_def
    by (rule preserves_modify, simp, rule preserves_asyncThen_yields, rule ok_pollLoop, rule yields_pollLoop, rule ok_concludeRefetch) simp
  have s: "confirmedOk (s\<lparr>activeRun := ?n\<rparr>)" using J by (simp add: confirmedOk_def)
  have "(s', new) = (s, []) \<or> (\<exists>h'. launch (?p h') (s\<lparr>activeRun := ?n\<rparr>) = (s', new))"
    using l unfolding launch_def refetch_def Let_def by (auto split: option.splits if_splits)
  then show ?thesis using J preserves_launch [OF p s] by auto
qed

lemma ok_mark: "st \<in> {TxSimulating, TxSigning, TxSubmitting} \<Longrightarrow> confirmedOk s \<Longrightarrow> confirmedOk (markPhase st h n i s)"
  by (auto simp: markPhase_def Let_def confirmedOk_def updateStatus_def noteStatus_def withHash_def)

text \<open>
  C12. In every state that the hook reaches: \<^verbatim>\<open>confirmed\<close> is shown only with a result, and the result says success.
\<close>

theorem confirmed_has_succeeded:
  assumes "instance_steps submissionEntry (initialSubmission, []) (s, ts)" and "txStatus s = TxConfirmed"
  shows "\<exists>r. txData s = Some r \<and> success r"
proof -
  have "confirmedOk s \<and> (\<forall>c \<in> set ts. quietCall confirmedOk c)"
    using assms(1)
  proof (rule instance_preserves)
    show "confirmedOk initialSubmission" by (simp add: confirmedOk_def initialSubmission_def)
  next
    fix e s s' and new :: "(submission_query, submission_answer, submission, tx_outcome) waiting_call list"
    assume "submissionEntry e" and J: "confirmedOk s" and step: "e s = (s', new)"
    then show "confirmedOk s' \<and> (\<forall>c \<in> set new. quietCall confirmedOk c)"
    proof cases
      case (submits o' act)
      then show ?thesis using ok_submit J step by simp
    next
      case (retries o')
      show ?thesis
      proof (cases "lastAction s")
        case None
        then show ?thesis using retries step J
          by (auto simp: launch_def retry_def Let_def)
      next
        case (Some act)
        then have "launch (submit o' act) s = (s', new)" using retries step by (simp add: launch_def retry_def)
        then show ?thesis using ok_submit J by blast
      qed
    next
      case (refetches o' h)
      then show ?thesis using ok_refetch J step by simp
    next
      case (marks st n h i)
      then show ?thesis using step J ok_mark by auto
    qed (use step J in \<open>auto simp: unmount_def reset_def Let_def noteStatus_def confirmedOk_def\<close>)
  qed simp
  then show ?thesis using assms(2) by (simp add: confirmedOk_def)
qed

text \<open>A terminal error (a revert, a rejected signature, a wrong network) is final: nothing is asked again.\<close>

theorem terminal_error_is_final:
  assumes "current n s" and "isTerminalTransactionError e \<or> isTerminalTransactionError (ThrownError (decodeTransactionError e method))"
    and "catchAttempt o' method n again e s = (s', t)"
  shows "txStatus s' = TxFailed \<and> txError s' = Some (decodeTransactionError e method) \<and>
    t = Return (if throwOnError o' then Inl (decodeTransactionError e method) else Inr None)"
  using assms by (auto simp: catchAttempt_def guardRun_def Let_def failedWith_def updateStatus_def noteStatus_def current_def)

text \<open>
  With neither a \<^verbatim>\<open>pollStatus\<close> of the action nor a client that can look transactions up, \<^verbatim>\<open>refetch\<close> confirms any
  hash, also that of a transaction that was shown as failed.
\<close>

theorem refetch_confirms_unchecked:
  assumes "txMounted s" and "actionPoll (lastAction s) = None" and "\<not> rpcPolls o'" and "h \<noteq> []" and "onSuccessThrows o' = None"
  shows "\<exists>s'. refetch o' (Some h) s = (s', Return (Inr (Some \<lparr>success = True, tx_hash = h, returnValue = NUndef\<rparr>))) \<and>
    txStatus s' = TxConfirmed \<and> txHash s' = Some h"
proof -
  obtain m where m: "nat (maxAttempts o') = Suc m" by (cases "nat (maxAttempts o')") (auto simp: maxAttempts_def)
  show ?thesis using assms
    by (simp add: refetch_def Let_def pollLedgerStatus_def m asyncThen_def guardRun_def current_def updateStatus_def noteStatus_def
        concludeRefetch_def confirmWith_def)
qed

subsection \<open>Runs that send twice\<close>

definition demoOptions :: submission_options where
  "demoOptions = \<lparr>requireWallet = True, maxRetries = 1, retryDelayMs = 500, txPollIntervalMs = 1000, maxPollAttempts = 1,
     throwOnError = False, txWalletStatus = ''connected'', txWalletError = None, rpcPolls = False, clearsCache = True,
     onSuccessThrows = None\<rparr>"

definition demoStages :: tx_stages where
  "demoStages = \<lparr>stagesId = 0, stMethod = Some ''mint'', hasSimulate = False, hasSign = False, hasPoll = True\<rparr>"

definition pendingAnswer :: submission_answer where
  "pendingAnswer = \<lparr>actionAnswer = Inl (ThrownValue []), stageAnswer = Inl (ThrownValue []), sendAnswer = Inr (SentHash ''ab''),
     pollAnswer = Inr \<lparr>pollStatus = ''PENDING'', pollValue = NUndef, pollError = None\<rparr>\<rparr>"

lemma timeout_text: "pollTimeout 1 ''ab'' = ThrownError (OtherError ''Transaction confirmation timed out after 1 polling attempts (hash: ab)'')"
  by code_simp

lemma timeout_decoded: "decodeTransactionError (pollTimeout 1 ''ab'') (Some ''mint'') = OtherError ''Transaction confirmation timed out after 1 polling attempts (hash: ab)''"
  by code_simp

lemma timeout_not_terminal: "\<not> isTerminalTransactionError (pollTimeout 1 ''ab'')"
  by code_simp

lemma boom_decoded: "decodeTransactionError (ThrownError (OtherError ''boom'')) (Some ''mint'') = OtherError ''boom''"
  by code_simp

lemma boom_not_terminal: "\<not> isTerminalTransactionError (ThrownError (OtherError ''boom''))"
  by code_simp

lemmas demo_run_defs = demoOptions_def demoStages_def pendingAnswer_def initialSubmission_def submit_def startRun_def allowedAttempts_def
  attemptOnce_def stagedAttempt_def signStep_def sendStep_def afterSend_def polled_def pollLedgerStatus_def maxAttempts_def
  pollVerdict_def customPollOf_def guardRun_def waitDelay_def current_def updateStatus_def noteStatus_def withHash_def
  concludeAttempt_def catchAttempt_def confirmWith_def asyncThen_def Let_def eval_nat_numeral

text \<open>
  A transaction that was sent and is still pending when the polls run out is sent again: the time-out of the
  confirmation counts as a transient error, although the first transaction may still be included.
\<close>

theorem timeout_sends_again:
  "queriesAsked (replicate 4 (pendingAnswer, id)) (submit demoOptions (StagedAction demoStages) initialSubmission) =
     [SendStage 0 None None, CustomPoll 0 ''ab'', Delay 500, SendStage 0 None None, CustomPoll 0 ''ab'']"
  by (simp add: demo_run_defs timeout_decoded timeout_not_terminal timeout_text [symmetric])

text \<open>So is one that was confirmed, when the \<^verbatim>\<open>onSuccess\<close> callback of the application throws.\<close>

theorem throwing_callback_sends_again:
  "queriesAsked [(pendingAnswer\<lparr>sendAnswer := Inr (SentObject ''ab'' (Some True) NUndef)\<rparr>, id), (pendingAnswer, id)]
     (submit (demoOptions\<lparr>onSuccessThrows := Some (ThrownError (OtherError ''boom''))\<rparr>) (StagedAction demoStages) initialSubmission) =
     [SendStage 0 None None, Delay 500, SendStage 0 None None]"
  by (simp add: demo_run_defs boom_decoded boom_not_terminal)

lemma demo_submit:
  "launch (submit demoOptions (StagedAction demoStages)) initialSubmission =
     (fst (submit demoOptions (StagedAction demoStages) initialSubmission),
      waiting (snd (submit demoOptions (StagedAction demoStages) initialSubmission)))"
  by (simp add: launch_def split: prod.splits)

lemma demo_waiting: "\<exists>k. snd (submit demoOptions (StagedAction demoStages) initialSubmission) = Await (SendStage 0 None None) k"
  by (simp add: demo_run_defs)

lemma demo_sending:
  obtains s k where "instance_steps submissionEntry (initialSubmission, []) (s, [(SendStage 0 None None, k)])"
    "submit demoOptions (StagedAction demoStages) initialSubmission = (s, Await (SendStage 0 None None) k)"
proof -
  obtain s t where st: "submit demoOptions (StagedAction demoStages) initialSubmission = (s, t)"
    by (cases "submit demoOptions (StagedAction demoStages) initialSubmission")
  obtain k where k: "t = Await (SendStage 0 None None) k" using demo_waiting st by auto
  have "instance_step submissionEntry (initialSubmission, []) (s, [] @ [(SendStage 0 None None, k)])"
    by (rule instance_step.call, rule submissionEntry.submits [of demoOptions "StagedAction demoStages"]) (simp add: launch_def st k)
  then have "instance_steps submissionEntry (initialSubmission, []) (s, [(SendStage 0 None None, k)])" by simp
  then show thesis using that st unfolding k by blast
qed

theorem superseded_runs_are_silent_witness:
  "\<exists>s k s2 ts2. instance_steps submissionEntry (initialSubmission, []) (s, [(SendStage 0 None None, k)]) \<and>
     instance_step (oldMarkEntry (activeRun s)) (reset s, [(SendStage 0 None None, k)]) (s2, ts2) \<and>
     s2 = (reset s)\<lparr>phaseAdvanced := phaseAdvanced s2\<rparr>"
proof -
  obtain s k where s: "instance_steps submissionEntry (initialSubmission, []) (s, [(SendStage 0 None None, k)])"
    by (rule demo_sending)
  obtain s2 ts2 where "launch (k pendingAnswer) (reset s) = (s2, ts2)" by (cases "launch (k pendingAnswer) (reset s)")
  then have st: "instance_step (oldMarkEntry (activeRun s)) (reset s, [(SendStage 0 None None, k)]) (s2, ts2)"
    using instance_step.answer [of 0 "[(SendStage 0 None None, k)]" "SendStage 0 None None" k pendingAnswer "reset s" s2 ts2] by simp
  then have sts: "instance_steps (oldMarkEntry (activeRun s)) (reset s, [(SendStage 0 None None, k)]) (s2, ts2)" by simp
  from superseded_runs_are_silent [OF s disjI1 [OF refl] sts] s st show ?thesis by blast
qed

theorem confirmed_has_succeeded_witness:
  "\<exists>s ts r. instance_steps submissionEntry (initialSubmission, []) (s, ts) \<and> txStatus s = TxConfirmed \<and> txData s = Some r \<and> success r"
proof -
  let ?a = "pendingAnswer\<lparr>sendAnswer := Inr (SentObject ''ab'' (Some True) NUndef)\<rparr>"
  obtain s k where s: "instance_steps submissionEntry (initialSubmission, []) (s, [(SendStage 0 None None, k)])"
    and sub: "submit demoOptions (StagedAction demoStages) initialSubmission = (s, Await (SendStage 0 None None) k)"
    by (rule demo_sending)
  obtain s2 ts2 where l: "launch (k ?a) s = (s2, ts2)" by (cases "launch (k ?a) s")
  then have "instance_step submissionEntry (s, [(SendStage 0 None None, k)]) (s2, ts2)"
    using instance_step.answer [of 0 "[(SendStage 0 None None, k)]" "SendStage 0 None None" k ?a s s2 ts2] by simp
  with s have st: "instance_steps submissionEntry (initialSubmission, []) (s2, ts2)" by (rule rtranclp.rtrancl_into_rtrancl)
  have "txStatus s2 = TxConfirmed"
    using l sub by (auto simp: launch_def demo_run_defs)
  from confirmed_has_succeeded [OF st this] st this show ?thesis by blast
qed

end
