(* ===== verification/ReactCaches.thy ===== *)
theory ReactCaches
  imports ReactUtils
begin

text \<open>
  The hooks of \<^verbatim>\<open>src/react/src/hooks.ts\<close> that share module-level caches: \<^verbatim>\<open>useTokenMetadata\<close> and
  \<^verbatim>\<open>useBatchContractReads\<close>. Their caches and their maps of requests in flight outlive the components, and any
  number of components uses them, so the state here is a whole page: the caches, the promises
  that were created, the calls that wait for them, and the hook of every component.

  A promise is settled by an answer of the node; its reactions (the clean-up of the in-flight map, and
  the functions that await it) run later, each on its own, in any order. The steps of a page are
  these pieces, so every interleaving of components, answers and reactions is covered.

  Shown: without contract overrides a cached entry is what a client of that contract answered, and a
  token is asked for once at a time; the cached values of batched reads are answers to their keys. What the code does not
  give: a contract override only relabels the metadata of the client's own contract, a forced
  refresh can be undone by the answer to an earlier request, and the keys of batched reads leave out the
  client, so that components of two contracts read each other's values.
\<close>

subsection \<open>Token metadata\<close>

record TokenMetadata =
  tmName :: string
  tmSymbol :: string
  tmDecimals :: int
  tmContractId :: string

text \<open>
  A client object: its identity, what \<^verbatim>\<open>getContractId()\<close> returns (\<open>None\<close>: no such method, or not a string) and
  its field \<^verbatim>\<open>contractId\<close>.
\<close>

record meta_client =
  mcIdentity :: nat
  mcGetContractId :: "string option"
  mcContractId :: "string option"

definition resolveClientContractId :: "meta_client \<Rightarrow> string option \<Rightarrow> string" where
  "resolveClientContractId client overrideContractId = (case overrideContractId of
     Some o' \<Rightarrow> js_trim o'
   | None \<Rightarrow>
       (let field = (case mcContractId client of Some c \<Rightarrow> js_trim c | None \<Rightarrow> [])
        in case mcGetContractId client of
             Some i \<Rightarrow> if js_trim i \<noteq> [] then js_trim i else field
           | None \<Rightarrow> field))"

record metadata_props =
  mdClient :: "meta_client option"
  mdContractId :: "string option"
  mdEnabled :: bool
  mdPollInterval :: "int option"
  mdSkipCache :: bool

text \<open>A request in flight: the client, the key it is stored under, the override and, once settled, its outcome.\<close>

record flight =
  flClient :: meta_client
  flKey :: string
  flOverride :: "string option"
  flOutcome :: "(thrown + TokenMetadata) option"
  flCleaned :: bool

record metadata_page =
  valueCache :: "string \<rightharpoonup> TokenMetadata"
  clientCache :: "meta_client \<rightharpoonup> TokenMetadata"
  inFlightByKey :: "string \<rightharpoonup> nat"
  inFlightByClient :: "meta_client \<rightharpoonup> nat"
  flights :: "flight list"
  waiters :: "(nat \<times> nat) list"
  metaHooks :: "nat \<rightharpoonup> (metadata_props, TokenMetadata option) hook"

definition emptyMetadataPage :: metadata_page where
  "emptyMetadataPage = \<lparr>valueCache = Map.empty, clientCache = Map.empty, inFlightByKey = Map.empty,
     inFlightByClient = Map.empty, flights = [], waiters = [], metaHooks = Map.empty\<rparr>"

definition clearTokenMetadataCache :: "string option \<Rightarrow> metadata_page \<Rightarrow> metadata_page" where
  "clearTokenMetadataCache contractId w = (case contractId of
     Some c \<Rightarrow> w\<lparr>valueCache := (valueCache w)(c := None), inFlightByKey := (inFlightByKey w)(c := None)\<rparr>
   | None \<Rightarrow> w\<lparr>valueCache := Map.empty, inFlightByKey := Map.empty, clientCache := Map.empty, inFlightByClient := Map.empty\<rparr>)"

definition getCachedTokenMetadata :: "metadata_page \<Rightarrow> meta_client \<Rightarrow> string \<Rightarrow> TokenMetadata option" where
  "getCachedTokenMetadata w client contractId =
     (case (if contractId \<noteq> [] then valueCache w contractId else None) of
        Some byId \<Rightarrow> Some byId
      | None \<Rightarrow> clientCache w client)"

definition setCachedTokenMetadata :: "meta_client \<Rightarrow> string \<Rightarrow> TokenMetadata \<Rightarrow> metadata_page \<Rightarrow> metadata_page" where
  "setCachedTokenMetadata client contractId m w =
     (let w1 = (if contractId \<noteq> [] then w\<lparr>valueCache := (valueCache w)(contractId \<mapsto> m)\<rparr> else w)
      in w1\<lparr>clientCache := (clientCache w1)(client \<mapsto> m)\<rparr>)"

definition evictCachedTokenMetadata :: "meta_client \<Rightarrow> string \<Rightarrow> metadata_page \<Rightarrow> metadata_page" where
  "evictCachedTokenMetadata client contractId w =
     (let w1 = (if contractId \<noteq> []
                then w\<lparr>valueCache := (valueCache w)(contractId := None), inFlightByKey := (inFlightByKey w)(contractId := None)\<rparr>
                else w)
      in w1\<lparr>clientCache := (clientCache w1)(client := None), inFlightByClient := (inFlightByClient w1)(client := None)\<rparr>)"

subsection \<open>Fetching\<close>

text \<open>A state update of component \<open>i\<close> behind \<^verbatim>\<open>if (mountedRef.current)\<close>.\<close>

definition onHook :: "nat \<Rightarrow> ((metadata_props, TokenMetadata option) hook \<Rightarrow> (metadata_props, TokenMetadata option) hook) \<Rightarrow>
    metadata_page \<Rightarrow> metadata_page" where
  "onHook i f w = w\<lparr>metaHooks := (metaHooks w)(i := map_option (whenMounted f) (metaHooks w i))\<rparr>"

definition invalidContractId :: sdk_error where
  "invalidContractId = OtherError ''Invalid contract ID: contractId cannot be empty.''"

text \<open>The promise of the three reads, entered into its in-flight map.\<close>

definition startFlight :: "meta_client \<Rightarrow> string option \<Rightarrow> string \<Rightarrow> metadata_page \<Rightarrow> metadata_page" where
  "startFlight client ov key w =
     (let n = length (flights w);
          w1 = w\<lparr>flights := flights w @ [\<lparr>flClient = client, flKey = key, flOverride = ov, flOutcome = None, flCleaned = False\<rparr>]\<rparr>
      in if key \<noteq> [] then w1\<lparr>inFlightByKey := (inFlightByKey w1)(key \<mapsto> n)\<rparr>
         else w1\<lparr>inFlightByClient := (inFlightByClient w1)(client \<mapsto> n)\<rparr>)"

definition joinFlight :: "nat \<Rightarrow> meta_client \<Rightarrow> string option \<Rightarrow> string \<Rightarrow> metadata_page \<Rightarrow> metadata_page" where
  "joinFlight i client ov key w =
     (let w1 = onHook i (\<lambda>h. h\<lparr>loading := True, hookError := None\<rparr>) w
      in case (if key \<noteq> [] then inFlightByKey w1 key else inFlightByClient w1 client) of
           Some n \<Rightarrow> w1\<lparr>waiters := waiters w1 @ [(i, n)]\<rparr>
         | None \<Rightarrow> (let w2 = startFlight client ov key w1 in w2\<lparr>waiters := waiters w2 @ [(i, length (flights w1))]\<rparr>))"

definition fetchMetadata :: "nat \<Rightarrow> metadata_props \<Rightarrow> bool \<Rightarrow> metadata_page \<Rightarrow> metadata_page" where
  "fetchMetadata i p force w = (case mdClient p of
     None \<Rightarrow> w
   | Some client \<Rightarrow>
       (let key = resolveClientContractId client (mdContractId p) in
        if mdContractId p \<noteq> None \<and> key = [] then
          onHook i (\<lambda>h. h\<lparr>hookError := Some invalidContractId, loading := False\<rparr>) w
        else if force then joinFlight i client (mdContractId p) key (evictCachedTokenMetadata client key w)
        else case getCachedTokenMetadata w client key of
               Some cached \<Rightarrow> onHook i (\<lambda>h. h\<lparr>hdata := Some cached, hookError := None, loading := False\<rparr>) w
             | None \<Rightarrow> joinFlight i client (mdContractId p) key w))"

text \<open>The callback of \<^verbatim>\<open>Promise.all\<close>, which settles the promise; a rejection passes through.\<close>

definition settleFlight :: "nat \<Rightarrow> thrown + string \<times> string \<times> int \<Rightarrow> metadata_page \<Rightarrow> metadata_page" where
  "settleFlight n r w =
     (let fl = flights w ! n in
      case r of
        Inl e \<Rightarrow> w\<lparr>flights := (flights w)[n := fl\<lparr>flOutcome := Some (Inl e)\<rparr>]\<rparr>
      | Inr (nm, sy, d) \<Rightarrow>
          (let m = \<lparr>tmName = nm, tmSymbol = sy, tmDecimals = d, tmContractId = resolveClientContractId (flClient fl) (flOverride fl)\<rparr>
           in setCachedTokenMetadata (flClient fl) (tmContractId m) m
                (w\<lparr>flights := (flights w)[n := fl\<lparr>flOutcome := Some (Inr m)\<rparr>]\<rparr>)))"

definition cleanupFlight :: "nat \<Rightarrow> metadata_page \<Rightarrow> metadata_page" where
  "cleanupFlight n w =
     (let fl = flights w ! n;
          w1 = w\<lparr>flights := (flights w)[n := fl\<lparr>flCleaned := True\<rparr>]\<rparr>
      in if flKey fl \<noteq> [] then w1\<lparr>inFlightByKey := (inFlightByKey w1)(flKey fl := None)\<rparr>
         else w1\<lparr>inFlightByClient := (inFlightByClient w1)(flClient fl := None)\<rparr>)"

text \<open>The rest of \<^verbatim>\<open>fetchMetadata\<close> in component \<open>i\<close>, after its promise is settled.\<close>

definition metadataSettle :: "nat \<Rightarrow> thrown + TokenMetadata \<Rightarrow> metadata_page \<Rightarrow> metadata_page" where
  "metadataSettle i r = onHook i (\<lambda>h. (case r of
     Inr m \<Rightarrow> h\<lparr>hdata := Some m, hookError := None\<rparr>
   | Inl e \<Rightarrow> h\<lparr>hookError := Some (normalizeMetadataError e)\<rparr>)\<lparr>loading := False\<rparr>)"

definition useTokenMetadata_effect :: "nat \<Rightarrow> metadata_props \<Rightarrow> metadata_page \<Rightarrow> metadata_page" where
  "useTokenMetadata_effect i p w =
     (if \<not> mdEnabled p \<or> mdClient p = None then w else fetchMetadata i p (mdSkipCache p) w)"

definition useTokenMetadata_polls :: "metadata_props \<Rightarrow> bool" where
  "useTokenMetadata_polls p \<longleftrightarrow>
     mdEnabled p \<and> mdClient p \<noteq> None \<and> (case mdPollInterval p of Some ms \<Rightarrow> 0 < ms | None \<Rightarrow> False)"

text \<open>The state of the first render, which reads the cache.\<close>

definition initialMetadata :: "metadata_page \<Rightarrow> metadata_props \<Rightarrow> (metadata_props, TokenMetadata option) hook" where
  "initialMetadata w p =
     (let blank = (mdContractId p \<noteq> None \<and> (case mdClient p of Some c \<Rightarrow> resolveClientContractId c (mdContractId p) | None \<Rightarrow> []) = []);
          cached = (case mdClient p of Some c \<Rightarrow> getCachedTokenMetadata w c (resolveClientContractId c (mdContractId p)) | None \<Rightarrow> None);
          off = (\<not> mdEnabled p \<or> mdClient p = None \<or> blank)
      in \<lparr>props = p, hdata = (if off \<or> mdSkipCache p then None else cached),
          loading = (\<not> off \<and> (mdSkipCache p \<or> cached = None)),
          hookError = None, alertMessage = None, mountedRef = True, requestIdRef = 0\<rparr>)"

definition mountMetadata :: "nat \<Rightarrow> metadata_props \<Rightarrow> metadata_page \<Rightarrow> metadata_page" where
  "mountMetadata i p w = useTokenMetadata_effect i p (w\<lparr>metaHooks := (metaHooks w)(i \<mapsto> initialMetadata w p)\<rparr>)"

subsection \<open>The steps of a page\<close>

text \<open>
  \<open>allowed\<close> are the props that components have, \<open>forcing\<close> is whether refreshes and clearing take place, and \<open>served c a\<close>
  says that client \<open>c\<close> answers with the name, symbol and decimals \<open>a\<close>.
\<close>

inductive page_step :: "(metadata_props \<Rightarrow> bool) \<Rightarrow> bool \<Rightarrow> (meta_client \<Rightarrow> string \<times> string \<times> int \<Rightarrow> bool) \<Rightarrow>
    metadata_page \<Rightarrow> metadata_page \<Rightarrow> bool"
  for allowed forcing served where
  mounts: "allowed p \<Longrightarrow> forcing \<or> \<not> mdSkipCache p \<Longrightarrow> metaHooks w i = None \<Longrightarrow>
     page_step allowed forcing served w (mountMetadata i p w)"
| renders: "allowed p \<Longrightarrow> forcing \<or> \<not> mdSkipCache p \<Longrightarrow> metaHooks w i = Some h \<Longrightarrow> mountedRef h \<Longrightarrow>
     page_step allowed forcing served w (useTokenMetadata_effect i p (w\<lparr>metaHooks := (metaHooks w)(i \<mapsto> h\<lparr>props := p\<rparr>)\<rparr>))"
| refetches: "metaHooks w i = Some h \<Longrightarrow> allowed (props h) \<Longrightarrow> forcing \<or> \<not> force \<Longrightarrow>
     page_step allowed forcing served w (fetchMetadata i (props h) force w)"
| polls: "metaHooks w i = Some h \<Longrightarrow> allowed (props h) \<Longrightarrow> useTokenMetadata_polls (props h) \<Longrightarrow> forcing \<Longrightarrow>
     page_step allowed forcing served w (fetchMetadata i (props h) True w)"
| unmounts: "metaHooks w i = Some h \<Longrightarrow>
     page_step allowed forcing served w (w\<lparr>metaHooks := (metaHooks w)(i \<mapsto> h\<lparr>mountedRef := False\<rparr>)\<rparr>)"
| clears: "forcing \<Longrightarrow> page_step allowed forcing served w (clearTokenMetadataCache c w)"
| resolves: "n < length (flights w) \<Longrightarrow> flOutcome (flights w ! n) = None \<Longrightarrow> served (flClient (flights w ! n)) a \<Longrightarrow>
     page_step allowed forcing served w (settleFlight n (Inr a) w)"
| rejects: "n < length (flights w) \<Longrightarrow> flOutcome (flights w ! n) = None \<Longrightarrow>
     page_step allowed forcing served w (settleFlight n (Inl e) w)"
| cleans: "n < length (flights w) \<Longrightarrow> flOutcome (flights w ! n) \<noteq> None \<Longrightarrow> \<not> flCleaned (flights w ! n) \<Longrightarrow>
     page_step allowed forcing served w (cleanupFlight n w)"
| resumes: "j < length (waiters w) \<Longrightarrow> waiters w ! j = (i, n) \<Longrightarrow> flOutcome (flights w ! n) = Some r \<Longrightarrow>
     page_step allowed forcing served w (metadataSettle i r (w\<lparr>waiters := take j (waiters w) @ drop (Suc j) (waiters w)\<rparr>))"

abbreviation page_steps where
  "page_steps allowed forcing served \<equiv> (page_step allowed forcing served)\<^sup>*\<^sup>*"

subsection \<open>What is cached and shown\<close>

definition genuine :: "(meta_client \<Rightarrow> string \<times> string \<times> int \<Rightarrow> bool) \<Rightarrow> TokenMetadata \<Rightarrow> bool" where
  "genuine served m \<longleftrightarrow>
     (\<exists>c. tmContractId m = resolveClientContractId c None \<and> served c (tmName m, tmSymbol m, tmDecimals m))"

definition cacheSound :: "(meta_client \<Rightarrow> string \<times> string \<times> int \<Rightarrow> bool) \<Rightarrow> metadata_page \<Rightarrow> bool" where
  "cacheSound served w \<longleftrightarrow>
     (\<forall>k m. valueCache w k = Some m \<longrightarrow> tmContractId m = k \<and> genuine served m) \<and>
     (\<forall>c m. clientCache w c = Some m \<longrightarrow> tmContractId m = resolveClientContractId c None \<and> genuine served m)"

definition flightsSound :: "(meta_client \<Rightarrow> string \<times> string \<times> int \<Rightarrow> bool) \<Rightarrow> metadata_page \<Rightarrow> bool" where
  "flightsSound served w \<longleftrightarrow>
     (\<forall>fl \<in> set (flights w). flOverride fl = None \<and> (\<forall>m. flOutcome fl = Some (Inr m) \<longrightarrow> genuine served m)) \<and>
     (\<forall>k n. inFlightByKey w k = Some n \<longrightarrow> n < length (flights w)) \<and>
     (\<forall>c n. inFlightByClient w c = Some n \<longrightarrow> n < length (flights w)) \<and>
     (\<forall>(i, n) \<in> set (waiters w). n < length (flights w))"

definition hooksSound :: "(meta_client \<Rightarrow> string \<times> string \<times> int \<Rightarrow> bool) \<Rightarrow> metadata_page \<Rightarrow> bool" where
  "hooksSound served w \<longleftrightarrow> (\<forall>i h m. metaHooks w i = Some h \<longrightarrow> hdata h = Some m \<longrightarrow> genuine served m)"

definition pageSound :: "(meta_client \<Rightarrow> string \<times> string \<times> int \<Rightarrow> bool) \<Rightarrow> metadata_page \<Rightarrow> bool" where
  "pageSound served w \<longleftrightarrow> cacheSound served w \<and> flightsSound served w \<and> hooksSound served w"

lemmas sound_defs = pageSound_def cacheSound_def flightsSound_def hooksSound_def

lemma getCached_sound:
  assumes "cacheSound served w" and "getCachedTokenMetadata w c (resolveClientContractId c None) = Some m"
  shows "tmContractId m = resolveClientContractId c None \<and> genuine served m"
  using assms by (auto simp: getCachedTokenMetadata_def cacheSound_def split: option.splits if_splits)

lemma sound_onHook:
  assumes "pageSound served w" and "\<And>h m. hdata (f h) = Some m \<Longrightarrow> hdata h = Some m \<or> genuine served m"
  shows "pageSound served (onHook i f w)"
  using assms(1,2) by (fastforce simp: sound_defs onHook_def whenMounted_def split: if_splits)

lemma sound_evict: "pageSound served w \<Longrightarrow> pageSound served (evictCachedTokenMetadata c k w)"
  by (auto simp: sound_defs evictCachedTokenMetadata_def Let_def)

lemma sound_clear: "pageSound served w \<Longrightarrow> pageSound served (clearTokenMetadataCache c w)"
  by (auto simp: sound_defs clearTokenMetadataCache_def split: option.splits)

lemma sound_startFlight: "pageSound served w \<Longrightarrow> pageSound served (startFlight c None k w)"
  by (fastforce simp: sound_defs startFlight_def Let_def less_Suc_eq)

lemma length_startFlight: "length (flights (startFlight c ov k w)) = Suc (length (flights w))"
  by (simp add: startFlight_def Let_def)

lemma sound_wait: "pageSound served w \<Longrightarrow> n < length (flights w) \<Longrightarrow> pageSound served (w\<lparr>waiters := waiters w @ [(i, n)]\<rparr>)"
  by (auto simp: sound_defs)

lemma sound_joinFlight:
  assumes "pageSound served w"
  shows "pageSound served (joinFlight i c None k w)"
proof -
  let ?w1 = "onHook i (\<lambda>h. h\<lparr>loading := True, hookError := None\<rparr>) w"
  let ?f = "if k \<noteq> [] then inFlightByKey ?w1 k else inFlightByClient ?w1 c"
  have w1: "pageSound served ?w1" using assms by (rule sound_onHook) simp
  show ?thesis
  proof (cases ?f)
    case None
    then show ?thesis
      using sound_wait [OF sound_startFlight [OF w1]] by (simp add: joinFlight_def Let_def length_startFlight)
  next
    case (Some n)
    then have "n < length (flights ?w1)"
      using w1 by (auto simp: pageSound_def flightsSound_def split: if_splits)
    from sound_wait [OF w1 this] show ?thesis by (simp add: joinFlight_def Let_def Some)
  qed
qed

lemma sound_fetchMetadata:
  assumes "pageSound served w" and "mdContractId p = None"
  shows "pageSound served (fetchMetadata i p force w)"
proof (cases "mdClient p")
  case (Some c)
  have "pageSound served (onHook i (\<lambda>h. h\<lparr>hdata := Some m, hookError := None, loading := False\<rparr>) w)"
    if "getCachedTokenMetadata w c (resolveClientContractId c None) = Some m" for m
    using assms(1) by (rule sound_onHook) (use getCached_sound [OF _ that] assms(1) in \<open>auto simp: pageSound_def\<close>)
  then show ?thesis
    using assms Some by (auto simp: fetchMetadata_def Let_def sound_joinFlight sound_evict split: option.splits)
qed (use assms in \<open>simp add: fetchMetadata_def\<close>)

lemma sound_effect:
  "pageSound served w \<Longrightarrow> mdContractId p = None \<Longrightarrow> pageSound served (useTokenMetadata_effect i p w)"
  by (simp add: useTokenMetadata_effect_def sound_fetchMetadata)

lemma sound_setHook:
  "pageSound served w \<Longrightarrow> (\<And>m. hdata h = Some m \<Longrightarrow> genuine served m) \<Longrightarrow>
   pageSound served (w\<lparr>metaHooks := (metaHooks w)(i \<mapsto> h)\<rparr>)"
  by (auto simp: sound_defs)

lemma sound_mount:
  assumes "pageSound served w" and "mdContractId p = None"
  shows "pageSound served (mountMetadata i p w)"
  unfolding mountMetadata_def
proof (intro sound_effect sound_setHook)
  show "genuine served m" if "hdata (initialMetadata w p) = Some m" for m
    using that assms getCached_sound
    by (fastforce simp: initialMetadata_def Let_def pageSound_def split: if_splits option.splits)
qed (use assms in simp_all)

lemma flights_update: "fl \<in> set (xs[n := y]) \<Longrightarrow> fl = y \<or> fl \<in> set xs"
  using set_update_subset_insert [of xs n y] by blast

lemma sound_settleFlight:
  assumes w: "pageSound served w" and n: "n < length (flights w)" and r: "\<And>a. r = Inr a \<Longrightarrow> served (flClient (flights w ! n)) a"
  shows "pageSound served (settleFlight n r w)"
proof -
  let ?fl = "flights w ! n"
  have ov: "flOverride ?fl = None" using w n by (simp add: pageSound_def flightsSound_def)
  have put: "pageSound served (w\<lparr>flights := (flights w)[n := ?fl\<lparr>flOutcome := Some x\<rparr>]\<rparr>)"
    if "\<And>m. x = Inr m \<Longrightarrow> genuine served m" for x
    using w that ov by (auto simp: sound_defs dest!: flights_update)
  show ?thesis
  proof (cases r)
    case (Inl e)
    then show ?thesis using put [of "Inl e"] by (simp add: settleFlight_def Let_def)
  next
    case (Inr a)
    obtain nm sy d where a: "a = (nm, sy, d)" by (cases a)
    define m where "m = \<lparr>tmName = nm, tmSymbol = sy, tmDecimals = d, tmContractId = resolveClientContractId (flClient ?fl) None\<rparr>"
    have g: "genuine served m" using r [OF Inr] a by (auto simp: genuine_def m_def)
    have "pageSound served (setCachedTokenMetadata (flClient ?fl) (tmContractId m) m u)" if "pageSound served u" for u
      using that g by (auto simp: sound_defs setCachedTokenMetadata_def Let_def m_def)
    with put [of "Inr m"] g show ?thesis by (simp add: settleFlight_def Let_def Inr a ov m_def)
  qed
qed

lemma flight_sound:
  "pageSound served w \<Longrightarrow> n < length (flights w) \<Longrightarrow> flOutcome (flights w ! n) = Some (Inr m) \<Longrightarrow> genuine served m"
  using nth_mem [of n "flights w"] unfolding pageSound_def flightsSound_def by blast

lemma sound_cleanupFlight:
  assumes "pageSound served w" and "n < length (flights w)"
  shows "pageSound served (cleanupFlight n w)"
  using assms flight_sound [OF assms] by (auto simp: sound_defs cleanupFlight_def Let_def dest!: flights_update)

lemma sound_metadataSettle:
  assumes "pageSound served w" and "\<And>m. r = Inr m \<Longrightarrow> genuine served m"
  shows "pageSound served (metadataSettle i r w)"
  unfolding metadataSettle_def using assms(1)
  by (rule sound_onHook) (use assms(2) in \<open>auto split: sum.splits\<close>)

lemma sound_empty: "pageSound served emptyMetadataPage"
  by (simp add: sound_defs emptyMetadataPage_def)

lemma hook_sound: "pageSound served w \<Longrightarrow> metaHooks w i = Some h \<Longrightarrow> hdata h = Some m \<Longrightarrow> genuine served m"
  by (simp add: pageSound_def hooksSound_def)

lemma sound_step:
  assumes "page_step (\<lambda>p. mdContractId p = None) forcing served w w'" and "pageSound served w"
  shows "pageSound served w'"
  using assms
proof cases
  case (resumes j i n r)
  have "n < length (flights w)"
    using resumes assms(2) by (force simp: pageSound_def flightsSound_def in_set_conv_nth)
  then have g: "genuine served m" if "r = Inr m" for m
    using resumes flight_sound [OF assms(2)] that by blast
  have "pageSound served (w\<lparr>waiters := take j (waiters w) @ drop (Suc j) (waiters w)\<rparr>)"
    using assms(2) by (auto simp: sound_defs dest!: in_set_takeD in_set_dropD)
  then show ?thesis unfolding resumes by (rule sound_metadataSettle) (rule g)
next
  case (renders p i h)
  have "pageSound served (w\<lparr>metaHooks := (metaHooks w)(i \<mapsto> h\<lparr>props := p\<rparr>)\<rparr>)"
    using assms(2) by (rule sound_setHook) (use hook_sound [OF assms(2)] renders in auto)
  then show ?thesis unfolding renders(1) using renders(2) by (rule sound_effect)
next
  case (unmounts i h)
  show ?thesis unfolding unmounts(1)
    using assms(2) by (rule sound_setHook) (use hook_sound [OF assms(2)] unmounts in auto)
qed (auto intro: sound_mount sound_fetchMetadata sound_clear sound_settleFlight sound_cleanupFlight)

text \<open>
  As long as no component overrides the contract id: what the cache returns for a client is labelled with the contract of that
  client and was answered by a client of that contract, and so was everything that is shown. This holds
  in every order of renders, refreshes, answers, rejections and reactions, also when the cache is cleared.
\<close>

theorem metadata_cache_sound:
  assumes "page_steps (\<lambda>p. mdContractId p = None) forcing served emptyMetadataPage w"
  shows "(getCachedTokenMetadata w c (resolveClientContractId c None) = Some m \<longrightarrow>
            tmContractId m = resolveClientContractId c None \<and> genuine served m) \<and>
         (metaHooks w i = Some h \<longrightarrow> hdata h = Some m \<longrightarrow> genuine served m)"
proof -
  have "pageSound served w"
    using assms by induction (simp_all add: sound_empty sound_step)
  then show ?thesis using getCached_sound by (auto simp: pageSound_def hooksSound_def)
qed

subsection \<open>One request at a time\<close>

text \<open>Every request that is not cleaned up is the one its in-flight map names.\<close>

definition flightEntered :: "metadata_page \<Rightarrow> flight \<Rightarrow> nat \<Rightarrow> bool" where
  "flightEntered w fl n \<longleftrightarrow>
     (if flKey fl \<noteq> [] then inFlightByKey w (flKey fl) = Some n else inFlightByClient w (flClient fl) = Some n)"

definition oneFlight :: "metadata_page \<Rightarrow> bool" where
  "oneFlight w \<longleftrightarrow>
     (\<forall>n < length (flights w). (flOutcome (flights w ! n) = None \<longrightarrow> \<not> flCleaned (flights w ! n)) \<and>
        (\<not> flCleaned (flights w ! n) \<longrightarrow> flightEntered w (flights w ! n) n))"

lemma oneFlight_cong:
  "oneFlight w \<Longrightarrow> flights w' = flights w \<Longrightarrow> inFlightByKey w' = inFlightByKey w \<Longrightarrow>
   inFlightByClient w' = inFlightByClient w \<Longrightarrow> oneFlight w'"
  by (simp add: oneFlight_def flightEntered_def)

lemma oneFlight_onHook: "oneFlight w \<Longrightarrow> oneFlight (onHook i f w)"
  by (erule oneFlight_cong) (simp_all add: onHook_def)

lemma oneFlight_start:
  assumes "oneFlight w" and "(if k \<noteq> [] then inFlightByKey w k else inFlightByClient w c) = None"
  shows "oneFlight (startFlight c ov k w)"
  using assms by (auto simp: oneFlight_def flightEntered_def startFlight_def Let_def nth_append less_Suc_eq split: if_splits)

lemma oneFlight_join:
  assumes "oneFlight w"
  shows "oneFlight (joinFlight i c ov k w)"
proof -
  let ?w1 = "onHook i (\<lambda>h. h\<lparr>loading := True, hookError := None\<rparr>) w"
  have w1: "oneFlight ?w1" using assms by (rule oneFlight_onHook)
  show ?thesis
  proof (cases "if k \<noteq> [] then inFlightByKey ?w1 k else inFlightByClient ?w1 c")
    case None
    from oneFlight_start [OF w1 None, of ov] show ?thesis
      unfolding joinFlight_def Let_def None option.case by (rule oneFlight_cong) simp_all
  next
    case (Some n)
    from w1 show ?thesis unfolding joinFlight_def Let_def Some option.case by (rule oneFlight_cong) simp_all
  qed
qed

lemma oneFlight_fetch: "oneFlight w \<Longrightarrow> oneFlight (fetchMetadata i p False w)"
  by (auto simp: fetchMetadata_def Let_def intro: oneFlight_onHook oneFlight_join split: option.splits)

lemma oneFlight_effect: "oneFlight w \<Longrightarrow> \<not> mdSkipCache p \<Longrightarrow> oneFlight (useTokenMetadata_effect i p w)"
  by (simp add: useTokenMetadata_effect_def oneFlight_fetch)

lemma oneFlight_setCached: "oneFlight w \<Longrightarrow> oneFlight (setCachedTokenMetadata c k m w)"
  by (erule oneFlight_cong) (simp_all add: setCachedTokenMetadata_def Let_def)

lemma oneFlight_settle:
  assumes "oneFlight w" and "n < length (flights w)"
  shows "oneFlight (settleFlight n r w)"
proof -
  have "oneFlight (w\<lparr>flights := (flights w)[n := (flights w ! n)\<lparr>flOutcome := Some x\<rparr>]\<rparr>)" for x
    using assms by (auto simp: oneFlight_def flightEntered_def nth_list_update)
  then show ?thesis
    by (cases r) (auto simp: settleFlight_def Let_def oneFlight_setCached)
qed

lemma entered_cleanup:
  assumes "flightEntered w fl m" and "flightEntered w (flights w ! n) n" and "m \<noteq> n"
  shows "flightEntered (cleanupFlight n w) fl m"
proof -
  have "flKey fl \<noteq> flKey (flights w ! n)" if "flKey fl \<noteq> []" using assms that by (auto simp: flightEntered_def)
  moreover have "flClient fl \<noteq> flClient (flights w ! n)" if "flKey fl = []" "flKey (flights w ! n) = []"
    using assms that by (auto simp: flightEntered_def)
  ultimately show ?thesis using assms(1) by (simp add: flightEntered_def cleanupFlight_def Let_def)
qed

lemma flights_cleanup: "flights (cleanupFlight n w) = (flights w)[n := (flights w ! n)\<lparr>flCleaned := True\<rparr>]"
  by (simp add: cleanupFlight_def Let_def)

lemma oneFlight_cleanup:
  assumes w: "oneFlight w" and n: "n < length (flights w)" "flOutcome (flights w ! n) \<noteq> None" "\<not> flCleaned (flights w ! n)"
  shows "oneFlight (cleanupFlight n w)"
proof -
  have "flightEntered w (flights w ! n) n" using w n by (simp add: oneFlight_def)
  then have "flightEntered (cleanupFlight n w) (flights w ! m) m" if "m < length (flights w)" "\<not> flCleaned (flights w ! m)" "m \<noteq> n" for m
    using that w by (intro entered_cleanup) (simp_all add: oneFlight_def)
  with w n show ?thesis by (simp add: oneFlight_def flights_cleanup nth_list_update)
qed

lemma oneFlight_step:
  assumes "page_step allowed False served w w'" and "oneFlight w"
  shows "oneFlight w'"
  using assms
proof cases
  case (mounts p i)
  then show ?thesis using oneFlight_cong [OF assms(2)] by (simp add: mountMetadata_def oneFlight_effect)
next
  case (renders p i h)
  then show ?thesis using oneFlight_cong [OF assms(2)] by (simp add: oneFlight_effect)
next
  case (unmounts i h)
  then show ?thesis using oneFlight_cong [OF assms(2)] by simp
next
  case (resumes j i n r)
  then show ?thesis using oneFlight_cong [OF assms(2)] by (simp add: metadataSettle_def oneFlight_onHook)
qed (use assms(2) in \<open>auto simp: oneFlight_fetch oneFlight_settle oneFlight_cleanup\<close>)

text \<open>
  Concurrent requests for a token are one: as long as nothing forces a refresh or clears the cache, no two requests
  for the same contract wait for the node, whatever components are mounted, rendered and refetched.
\<close>

theorem metadata_requested_once:
  assumes "page_steps allowed False served emptyMetadataPage w"
    and "m < length (flights w)" and "n < length (flights w)"
    and "flOutcome (flights w ! m) = None" and "flOutcome (flights w ! n) = None"
    and "flKey (flights w ! m) = flKey (flights w ! n)" and "flKey (flights w ! m) \<noteq> []"
  shows "m = n"
proof -
  have "oneFlight w" using assms(1)
  proof induction
    case base
    then show ?case by (simp add: oneFlight_def emptyMetadataPage_def)
  next
    case (step u v)
    then show ?case using oneFlight_step by blast
  qed
  then have "flightEntered w (flights w ! m) m" "flightEntered w (flights w ! n) n"
    using assms by (simp_all add: oneFlight_def)
  with assms(6,7) show ?thesis by (simp add: flightEntered_def)
qed

subsection \<open>Where the cache and the contracts part\<close>

definition demoClient :: meta_client where
  "demoClient = \<lparr>mcIdentity = 0, mcGetContractId = Some ''CTOKEN'', mcContractId = None\<rparr>"

definition demoProps :: "string option \<Rightarrow> metadata_props" where
  "demoProps ov = \<lparr>mdClient = Some demoClient, mdContractId = ov, mdEnabled = True, mdPollInterval = None, mdSkipCache = False\<rparr>"

definition demoMetadata :: "string \<Rightarrow> string \<Rightarrow> TokenMetadata" where
  "demoMetadata nm c = \<lparr>tmName = nm, tmSymbol = ''T'', tmDecimals = 7, tmContractId = c\<rparr>"

lemmas page_evals = mountMetadata_def useTokenMetadata_effect_def fetchMetadata_def joinFlight_def startFlight_def
  evictCachedTokenMetadata_def getCachedTokenMetadata_def setCachedTokenMetadata_def settleFlight_def metadataSettle_def
  onHook_def whenMounted_def initialMetadata_def resolveClientContractId_def emptyMetadataPage_def demoProps_def demoClient_def
  demoMetadata_def Let_def js_trim_def js_ws_def

text \<open>
  A contract override only names the entry: a component that asks for contract \<^verbatim>\<open>COTHER\<close> is shown the
  name of the client's own token under the other contract's id. A second component with the same client and
  any further override is shown that very entry from the cache of the client, with no request at all.
\<close>

theorem override_relabels_own_token:
  "\<exists>w1 w2 w3 h1 h2.
     w1 = mountMetadata 0 (demoProps (Some ''COTHER'')) emptyMetadataPage \<and>
     w2 = metadataSettle 0 (Inr (demoMetadata ''Own token'' ''COTHER'')) (settleFlight 0 (Inr (''Own token'', ''T'', 7)) w1) \<and>
     flOutcome (flights (settleFlight 0 (Inr (''Own token'', ''T'', 7)) w1) ! 0) = Some (Inr (demoMetadata ''Own token'' ''COTHER'')) \<and>
     w3 = mountMetadata 1 (demoProps (Some ''CTHIRD'')) w2 \<and>
     metaHooks w3 0 = Some h1 \<and> hdata h1 = Some (demoMetadata ''Own token'' ''COTHER'') \<and>
     metaHooks w3 1 = Some h2 \<and> hdata h2 = Some (demoMetadata ''Own token'' ''COTHER'') \<and>
     length (flights w3) = 1"
  by (simp add: page_evals)

text \<open>
  A forced refresh is undone by the answer to the request before it: the cache ends with the older answer.
\<close>

theorem late_answer_undoes_refresh:
  "\<exists>w1 w2 w3.
     w1 = mountMetadata 0 (demoProps None) emptyMetadataPage \<and>
     w2 = fetchMetadata 0 (demoProps None) True w1 \<and> length (flights w2) = 2 \<and>
     w3 = settleFlight 0 (Inr (''Old'', ''T'', 7)) (settleFlight 1 (Inr (''New'', ''T'', 7)) w2) \<and>
     getCachedTokenMetadata w3 demoClient ''CTOKEN'' = Some (demoMetadata ''Old'' ''CTOKEN'')"
  by (simp add: page_evals)

subsection \<open>Batched reads\<close>

text \<open>
  What a task runs: a read of a client, or a custom query by the identity of its function. Clients are numbered; the
  answers are any values.
\<close>

datatype batch_query =
    BatchBalance nat string
  | BatchSupply nat
  | BatchMetadata nat
  | BatchRole nat string string
  | BatchCustom nat

record batch_props =
  bpClient :: "nat option"
  bpQueries :: "(string \<times> nat) list option"
  bpBalance :: "string option"
  bpSupply :: bool
  bpMetadata :: bool
  bpRoles :: "(string \<times> string) list option"
  bpEnabled :: bool
  bpPollInterval :: "int option"
  bpSkipCache :: bool

text \<open>The assembled object: plain values, and the record of roles under \<^verbatim>\<open>roles\<close>.\<close>

datatype batch_value = Plain Native | Roles "string \<rightharpoonup> bool"

type_synonym batch_data = "string \<rightharpoonup> batch_value"

text \<open>One task of a batch: its value is there, it waits for a promise, or its promise was rejected.\<close>

datatype batch_slot = Ready Native | Pending nat | Failed

record batch_run =
  brHook :: nat
  brProps :: batch_props
  brSlots :: "(string \<times> batch_slot) list"
  brOver :: bool

record batch_page =
  batchCache :: "string \<rightharpoonup> Native"
  batchInFlight :: "string \<rightharpoonup> nat"
  batchPromises :: "(batch_query \<times> (thrown + Native) option) list"
  batchRuns :: "batch_run list"
  batchHooks :: "nat \<rightharpoonup> (batch_props, batch_data option) hook"

definition emptyBatchPage :: batch_page where
  "emptyBatchPage = \<lparr>batchCache = Map.empty, batchInFlight = Map.empty, batchPromises = [], batchRuns = [], batchHooks = Map.empty\<rparr>"

definition clearBatchReadsCache :: "string option \<Rightarrow> batch_page \<Rightarrow> batch_page" where
  "clearBatchReadsCache keyPrefix w = (case keyPrefix of
     Some (c # cs) \<Rightarrow> w\<lparr>batchCache := (\<lambda>k. if startsWith k (c # cs) then None else batchCache w k),
                       batchInFlight := (\<lambda>k. if startsWith k (c # cs) then None else batchInFlight w k)\<rparr>
   | _ \<Rightarrow> w\<lparr>batchCache := Map.empty, batchInFlight := Map.empty\<rparr>)"

definition roleTaskKey :: "string \<times> string \<Rightarrow> string" where
  "roleTaskKey ra = ''role:'' @ fst ra @ '':'' @ snd ra"

definition batchTasks :: "batch_props \<Rightarrow> (string \<times> batch_query) list" where
  "batchTasks p =
     (case bpClient p of
        None \<Rightarrow> []
      | Some c \<Rightarrow>
          (case bpBalance p of Some (x # xs) \<Rightarrow> [(''balance:'' @ x # xs, BatchBalance c (x # xs))] | _ \<Rightarrow> []) @
          (if bpSupply p then [(''totalSupply'', BatchSupply c)] else []) @
          (if bpMetadata p then [(''metadata'', BatchMetadata c)] else []) @
          (case bpRoles p of Some rs \<Rightarrow> map (\<lambda>ra. (roleTaskKey ra, BatchRole c (fst ra) (snd ra))) rs | None \<Rightarrow> [])) @
     (case bpQueries p of Some qs \<Rightarrow> map (\<lambda>(key, fn). (''custom:'' @ key, BatchCustom fn)) qs | None \<Rightarrow> [])"

definition asksNothing :: "batch_props \<Rightarrow> bool" where
  "asksNothing p \<longleftrightarrow> \<not> truthy (bpBalance p) \<and> \<not> bpSupply p \<and> \<not> bpMetadata p \<and>
     (case bpRoles p of Some rs \<Rightarrow> rs = [] | None \<Rightarrow> True) \<and> bpQueries p = None"

fun splitColons :: "string \<Rightarrow> string list" where
  "splitColons [] = [[]]"
| "splitColons (c # cs) =
     (if c = CHR '':'' then [] # splitColons cs
      else case splitColons cs of [] \<Rightarrow> [[c]] | p # ps \<Rightarrow> (c # p) # ps)"

definition roleResultKey :: "string \<Rightarrow> string" where
  "roleResultKey key = (let parts = splitColons key in parts ! 1 @ '':'' @ parts ! 2)"

definition assembleStep :: "batch_data \<times> (string \<rightharpoonup> bool) \<Rightarrow> string \<times> Native \<Rightarrow> batch_data \<times> (string \<rightharpoonup> bool)" where
  "assembleStep ar kv =
     (let (assembled, rolesMap) = ar; (key, val) = kv in
      if startsWith key ''balance:'' then (assembled(''balance'' \<mapsto> Plain val), rolesMap)
      else if key = ''totalSupply'' then (assembled(''totalSupply'' \<mapsto> Plain val), rolesMap)
      else if key = ''metadata'' then (assembled(''metadata'' \<mapsto> Plain val), rolesMap)
      else if startsWith key ''role:'' then (assembled, rolesMap(roleResultKey key \<mapsto> nativeTruthy val))
      else if startsWith key ''custom:'' then (assembled(drop 7 key \<mapsto> Plain val), rolesMap)
      else (assembled, rolesMap))"

definition assembleBatch :: "batch_props \<Rightarrow> (string \<times> Native) list \<Rightarrow> batch_data" where
  "assembleBatch p results =
     (let (assembled, rolesMap) = foldl assembleStep (Map.empty, Map.empty) results
      in case bpRoles p of Some (r # rs) \<Rightarrow> assembled(''roles'' \<mapsto> Roles rolesMap) | _ \<Rightarrow> assembled)"

subsection \<open>Running a batch\<close>

definition onBatchHook :: "nat \<Rightarrow> ((batch_props, batch_data option) hook \<Rightarrow> (batch_props, batch_data option) hook) \<Rightarrow>
    batch_page \<Rightarrow> batch_page" where
  "onBatchHook i f w = w\<lparr>batchHooks := (batchHooks w)(i := map_option (whenMounted f) (batchHooks w i))\<rparr>"

text \<open>A task up to its \<^verbatim>\<open>await\<close>: a cached value, the promise in flight for its key, or a new one.\<close>

definition startTask :: "bool \<Rightarrow> batch_page \<times> (string \<times> batch_slot) list \<Rightarrow> string \<times> batch_query \<Rightarrow>
    batch_page \<times> (string \<times> batch_slot) list" where
  "startTask fresh ws t =
     (let (w, slots) = ws; (key, q) = t in
      case (if fresh then None else batchCache w key) of
        Some v \<Rightarrow> (w, slots @ [(key, Ready v)])
      | None \<Rightarrow>
          (case batchInFlight w key of
             Some n \<Rightarrow> (w, slots @ [(key, Pending n)])
           | None \<Rightarrow>
               (w\<lparr>batchPromises := batchPromises w @ [(q, None)], batchInFlight := (batchInFlight w)(key \<mapsto> length (batchPromises w))\<rparr>,
                slots @ [(key, Pending (length (batchPromises w)))])))"

definition executeBatchReads :: "nat \<Rightarrow> batch_props \<Rightarrow> bool \<Rightarrow> batch_page \<Rightarrow> batch_page" where
  "executeBatchReads i p force w =
     (if \<not> bpEnabled p \<or> asksNothing p then onBatchHook i (\<lambda>h. h\<lparr>loading := False\<rparr>) w
      else let (w1, slots) = foldl (startTask (force \<or> bpSkipCache p))
                 (onBatchHook i (\<lambda>h. h\<lparr>loading := True, hookError := None\<rparr>) w, []) (batchTasks p)
           in w1\<lparr>batchRuns := batchRuns w1 @ [\<lparr>brHook = i, brProps = p, brSlots = slots, brOver = False\<rparr>]\<rparr>)"

text \<open>
  The rest of a task after its promise is settled; a rejection ends the batch, the other tasks go on.
\<close>

definition resumeTask :: "nat \<Rightarrow> nat \<Rightarrow> string \<Rightarrow> thrown + Native \<Rightarrow> batch_page \<Rightarrow> batch_page" where
  "resumeTask b j key r w =
     (let run = batchRuns w ! b;
          w1 = w\<lparr>batchInFlight := (batchInFlight w)(key := None)\<rparr>
      in case r of
           Inr v \<Rightarrow> w1\<lparr>batchCache := (batchCache w1)(key \<mapsto> v),
                       batchRuns := (batchRuns w1)[b := run\<lparr>brSlots := (brSlots run)[j := (key, Ready v)]\<rparr>]\<rparr>
         | Inl e \<Rightarrow>
             (let w2 = w1\<lparr>batchRuns := (batchRuns w1)[b := run\<lparr>brSlots := (brSlots run)[j := (key, Failed)], brOver := True\<rparr>]\<rparr>
              in if brOver run then w2
                 else onBatchHook (brHook run) (\<lambda>h. h\<lparr>hookError := Some (normalizeMetadataError e), loading := False\<rparr>) w2))"

fun slotValue :: "batch_slot \<Rightarrow> Native option" where
  "slotValue (Ready v) = Some v"
| "slotValue _ = None"

definition allReady :: "batch_run \<Rightarrow> bool" where
  "allReady run \<longleftrightarrow> (\<forall>(key, s) \<in> set (brSlots run). slotValue s \<noteq> None)"

definition readResults :: "batch_run \<Rightarrow> (string \<times> Native) list" where
  "readResults run = List.map_filter (\<lambda>(key, s). map_option (Pair key) (slotValue s)) (brSlots run)"

definition finishBatch :: "nat \<Rightarrow> batch_page \<Rightarrow> batch_page" where
  "finishBatch b w =
     (let run = batchRuns w ! b
      in onBatchHook (brHook run)
           (\<lambda>h. h\<lparr>hdata := Some (assembleBatch (brProps run) (readResults run)), hookError := None, loading := False\<rparr>)
           (w\<lparr>batchRuns := (batchRuns w)[b := run\<lparr>brOver := True\<rparr>]\<rparr>))"

definition initialBatch :: "batch_props \<Rightarrow> (batch_props, batch_data option) hook" where
  "initialBatch p = \<lparr>props = p, hdata = None, loading = (bpEnabled p \<and> \<not> asksNothing p),
     hookError = None, alertMessage = None, mountedRef = True, requestIdRef = 0\<rparr>"

definition useBatchContractReads_polls :: "batch_props \<Rightarrow> bool" where
  "useBatchContractReads_polls p \<longleftrightarrow> bpEnabled p \<and> (case bpPollInterval p of Some ms \<Rightarrow> 0 < ms | None \<Rightarrow> False)"

text \<open>The steps of a page; \<open>served q v\<close> says that the read \<open>q\<close> is answered with \<open>v\<close>.\<close>

inductive batch_step :: "(batch_query \<Rightarrow> Native \<Rightarrow> bool) \<Rightarrow> batch_page \<Rightarrow> batch_page \<Rightarrow> bool" for served where
  mounts: "batchHooks w i = None \<Longrightarrow>
     batch_step served w (executeBatchReads i p False (w\<lparr>batchHooks := (batchHooks w)(i \<mapsto> initialBatch p)\<rparr>))"
| renders: "batchHooks w i = Some h \<Longrightarrow> mountedRef h \<Longrightarrow>
     batch_step served w (executeBatchReads i p False (w\<lparr>batchHooks := (batchHooks w)(i \<mapsto> h\<lparr>props := p\<rparr>)\<rparr>))"
| refetches: "batchHooks w i = Some h \<Longrightarrow> batch_step served w (executeBatchReads i (props h) force w)"
| polls: "batchHooks w i = Some h \<Longrightarrow> useBatchContractReads_polls (props h) \<Longrightarrow>
     batch_step served w (executeBatchReads i (props h) True w)"
| unmounts: "batchHooks w i = Some h \<Longrightarrow>
     batch_step served w (w\<lparr>batchHooks := (batchHooks w)(i \<mapsto> h\<lparr>mountedRef := False\<rparr>)\<rparr>)"
| clears: "batch_step served w (clearBatchReadsCache pre w)"
| settles: "n < length (batchPromises w) \<Longrightarrow> batchPromises w ! n = (q, None) \<Longrightarrow> (\<And>v. r = Inr v \<Longrightarrow> served q v) \<Longrightarrow>
     batch_step served w (w\<lparr>batchPromises := (batchPromises w)[n := (q, Some r)]\<rparr>)"
| resumes: "b < length (batchRuns w) \<Longrightarrow> j < length (brSlots (batchRuns w ! b)) \<Longrightarrow> brSlots (batchRuns w ! b) ! j = (key, Pending n) \<Longrightarrow>
     snd (batchPromises w ! n) = Some r \<Longrightarrow> batch_step served w (resumeTask b j key r w)"
| finishes: "b < length (batchRuns w) \<Longrightarrow> \<not> brOver (batchRuns w ! b) \<Longrightarrow> allReady (batchRuns w ! b) \<Longrightarrow>
     batch_step served w (finishBatch b w)"

abbreviation batch_steps where
  "batch_steps served \<equiv> (batch_step served)\<^sup>*\<^sup>*"

subsection \<open>What a batch assembles\<close>

lemma splitColons_free: "CHR '':'' \<notin> set s \<Longrightarrow> splitColons s = [s]"
  by (induction s) auto

lemma splitColons_append: "CHR '':'' \<notin> set s \<Longrightarrow> splitColons (s @ CHR '':'' # t) = s # splitColons t"
  by (induction s) auto

lemma roleResultKey_task:
  assumes "CHR '':'' \<notin> set r" and "CHR '':'' \<notin> set a"
  shows "roleResultKey (roleTaskKey (r, a)) = r @ '':'' @ a"
proof -
  have "splitColons (''role'' @ CHR '':'' # (r @ CHR '':'' # a)) = [''role'', r, a]"
    using assms by (subst splitColons_append) (simp_all add: splitColons_append splitColons_free)
  then show ?thesis by (simp add: roleResultKey_def roleTaskKey_def)
qed

lemma colon_join_inj:
  "CHR '':'' \<notin> set r \<Longrightarrow> CHR '':'' \<notin> set r' \<Longrightarrow> r @ CHR '':'' # a = r' @ CHR '':'' # a' \<Longrightarrow> r = r' \<and> a = a'"
  by (induction r arbitrary: r') (auto simp: Cons_eq_append_conv)

lemma assemble_roles:
  "foldl assembleStep (A, R) (map (\<lambda>ra. (roleTaskKey ra, f ra)) rs) =
     (A, foldl (\<lambda>R ra. R(roleResultKey (roleTaskKey ra) \<mapsto> nativeTruthy (f ra))) R rs)"
  by (induction rs arbitrary: R) (simp_all add: assembleStep_def roleTaskKey_def startsWith_def)

lemma assemble_customs:
  "foldl assembleStep (A, R) (map (\<lambda>(key, fn). (''custom:'' @ key, g fn)) qs) =
     (foldl (\<lambda>A (key, fn). A(key \<mapsto> Plain (g fn))) A qs, R)"
  by (induction qs arbitrary: A) (auto simp: assembleStep_def startsWith_def)

lemma foldl_other_keys: "k \<notin> fst ` set qs \<Longrightarrow> foldl (\<lambda>A (key, fn). A(key \<mapsto> g fn)) A qs k = A k"
  by (induction qs arbitrary: A) auto

lemma foldl_roles_lookup:
  assumes "\<forall>(r, a) \<in> set rs. CHR '':'' \<notin> set r \<and> CHR '':'' \<notin> set a" and "(r, a) \<in> set rs"
  shows "foldl (\<lambda>R ra. R(roleResultKey (roleTaskKey ra) \<mapsto> g ra)) R rs (r @ '':'' @ a) = Some (g (r, a))"
  using assms
proof (induction rs rule: rev_induct)
  case (snoc x rs)
  obtain r' a' where x: "x = (r', a')" by (cases x)
  have free: "CHR '':'' \<notin> set r'" "CHR '':'' \<notin> set a'" "CHR '':'' \<notin> set r" using snoc.prems x by auto
  show ?case
  proof (cases "(r, a) = x")
    case True
    then show ?thesis using free x by (simp add: roleResultKey_task)
  next
    case False
    then have "r' @ CHR '':'' # a' \<noteq> r @ CHR '':'' # a" using colon_join_inj [OF free(1,3)] x by blast
    moreover have "(r, a) \<in> set rs" using False snoc.prems(2) by simp
    moreover have "foldl (\<lambda>R ra. R(roleResultKey (roleTaskKey ra) \<mapsto> g ra)) R rs (r @ '':'' @ a) = Some (g (r, a))"
      using snoc.prems(1) by (intro snoc.IH) (simp_all add: calculation(2))
    ultimately show ?thesis using x free by (simp add: roleResultKey_task fun_upd_other del: fun_upd_apply)
  qed
qed simp

definition clientTasks :: "batch_props \<Rightarrow> nat \<Rightarrow> (string \<times> batch_query) list" where
  "clientTasks p c =
     (case bpBalance p of Some (x # xs) \<Rightarrow> [(''balance:'' @ x # xs, BatchBalance c (x # xs))] | _ \<Rightarrow> []) @
     (if bpSupply p then [(''totalSupply'', BatchSupply c)] else []) @
     (if bpMetadata p then [(''metadata'', BatchMetadata c)] else [])"

lemma assemble_clientTasks:
  "\<exists>A. foldl assembleStep (Map.empty, Map.empty) (map (\<lambda>(key, q). (key, vals q)) (clientTasks p c)) = (A, Map.empty) \<and>
     (bpBalance p = Some (x # xs) \<longrightarrow> A ''balance'' = Some (Plain (vals (BatchBalance c (x # xs))))) \<and>
     (bpSupply p \<longrightarrow> A ''totalSupply'' = Some (Plain (vals (BatchSupply c))))"
  by (auto simp: clientTasks_def assembleStep_def startsWith_def split: option.splits list.splits)

text \<open>
  What a batch shows is what its reads answered: the balance, the supply and every role, unless a
  custom query takes the name, and for roles and addresses without a colon.
\<close>

theorem batch_assembles_answers:
  assumes "bpClient p = Some c" and "bpRoles p = Some rs" and "rs \<noteq> []"
    and "\<forall>(r, a) \<in> set rs. CHR '':'' \<notin> set r \<and> CHR '':'' \<notin> set a"
    and "\<forall>qs. bpQueries p = Some qs \<longrightarrow> ''balance'' \<notin> fst ` set qs \<and> ''totalSupply'' \<notin> fst ` set qs"
    and "d = assembleBatch p (map (\<lambda>(key, q). (key, vals q)) (batchTasks p))"
  shows "(bpBalance p = Some (x # xs) \<longrightarrow> d ''balance'' = Some (Plain (vals (BatchBalance c (x # xs))))) \<and>
         (bpSupply p \<longrightarrow> d ''totalSupply'' = Some (Plain (vals (BatchSupply c)))) \<and>
         (\<exists>f. d ''roles'' = Some (Roles f) \<and>
              (\<forall>(r, a) \<in> set rs. f (r @ '':'' @ a) = Some (nativeTruthy (vals (BatchRole c r a)))))"
proof -
  let ?qs = "case bpQueries p of Some qs \<Rightarrow> qs | None \<Rightarrow> []"
  let ?custom = "\<lambda>A. foldl (\<lambda>A (key, fn). A(key \<mapsto> Plain (vals (BatchCustom fn)))) A ?qs"
  obtain f where f: "f = foldl (\<lambda>R ra. R(roleResultKey (roleTaskKey ra) \<mapsto> nativeTruthy (vals (BatchRole c (fst ra) (snd ra))))) Map.empty rs"
    by blast
  obtain A where A: "foldl assembleStep (Map.empty, Map.empty) (map (\<lambda>(key, q). (key, vals q)) (clientTasks p c)) = (A, Map.empty)"
    "bpBalance p = Some (x # xs) \<longrightarrow> A ''balance'' = Some (Plain (vals (BatchBalance c (x # xs))))"
    "bpSupply p \<longrightarrow> A ''totalSupply'' = Some (Plain (vals (BatchSupply c)))"
    using assemble_clientTasks by blast
  have tasks: "map (\<lambda>(key, q). (key, vals q)) (batchTasks p) = map (\<lambda>(key, q). (key, vals q)) (clientTasks p c) @
      map (\<lambda>ra. (roleTaskKey ra, vals (BatchRole c (fst ra) (snd ra)))) rs @ map (\<lambda>(key, fn). (''custom:'' @ key, vals (BatchCustom fn))) ?qs"
    using assms(1,2) by (auto simp: batchTasks_def clientTasks_def split: option.splits)
  have d: "d = (?custom A)(''roles'' \<mapsto> Roles f)"
    using assms(2,3) unfolding assms(6) assembleBatch_def tasks foldl_append A(1) assemble_roles assemble_customs f [symmetric]
    by (cases rs) simp_all
  have keep: "?custom A k = A k" if "k \<in> {''balance'', ''totalSupply''}" for k
    using that assms(5) by (cases "bpQueries p") (auto simp: foldl_other_keys)
  have "f (r @ '':'' @ a) = Some (nativeTruthy (vals (BatchRole c r a)))" if "(r, a) \<in> set rs" for r a
    using foldl_roles_lookup [OF assms(4) that, of "\<lambda>ra. nativeTruthy (vals (BatchRole c (fst ra) (snd ra)))"] f by simp
  then show ?thesis using A(2,3) d keep by auto
qed

subsection \<open>What the shared cache holds\<close>

text \<open>The key of a read, which does not mention its client.\<close>

fun keyed :: "string \<Rightarrow> batch_query \<Rightarrow> bool" where
  "keyed key (BatchBalance c a) \<longleftrightarrow> key = ''balance:'' @ a"
| "keyed key (BatchSupply c) \<longleftrightarrow> key = ''totalSupply''"
| "keyed key (BatchMetadata c) \<longleftrightarrow> key = ''metadata''"
| "keyed key (BatchRole c r a) \<longleftrightarrow> key = ''role:'' @ r @ '':'' @ a"
| "keyed key (BatchCustom fn) \<longleftrightarrow> startsWith key ''custom:''"

lemma batchTasks_keyed: "(key, q) \<in> set (batchTasks p) \<Longrightarrow> keyed key q"
  by (auto simp: batchTasks_def roleTaskKey_def startsWith_def split: option.splits list.splits if_splits)

definition answersKey :: "(batch_query \<Rightarrow> Native \<Rightarrow> bool) \<Rightarrow> string \<Rightarrow> Native \<Rightarrow> bool" where
  "answersKey served key v \<longleftrightarrow> (\<exists>q. keyed key q \<and> served q v)"

definition slotOk :: "(batch_query \<Rightarrow> Native \<Rightarrow> bool) \<Rightarrow> (batch_query \<times> (thrown + Native) option) list \<Rightarrow> string \<times> batch_slot \<Rightarrow> bool" where
  "slotOk served ps ks = (case ks of
     (key, Ready v) \<Rightarrow> answersKey served key v
   | (key, Pending n) \<Rightarrow> n < length ps \<and> keyed key (fst (ps ! n))
   | (key, Failed) \<Rightarrow> True)"

definition batchSound :: "(batch_query \<Rightarrow> Native \<Rightarrow> bool) \<Rightarrow> batch_page \<Rightarrow> bool" where
  "batchSound served w \<longleftrightarrow>
     (\<forall>key v. batchCache w key = Some v \<longrightarrow> answersKey served key v) \<and>
     (\<forall>key n. batchInFlight w key = Some n \<longrightarrow> slotOk served (batchPromises w) (key, Pending n)) \<and>
     (\<forall>n < length (batchPromises w). \<forall>v. snd (batchPromises w ! n) = Some (Inr v) \<longrightarrow> served (fst (batchPromises w ! n)) v) \<and>
     (\<forall>run \<in> set (batchRuns w). \<forall>ks \<in> set (brSlots run). slotOk served (batchPromises w) ks)"

lemma slotOk_append: "slotOk served ps ks \<Longrightarrow> slotOk served (ps @ qs) ks"
  by (auto simp: slotOk_def nth_append split: prod.splits batch_slot.splits)

lemma batchSound_onHook [simp]: "batchSound served (onBatchHook i f w) = batchSound served w"
  by (simp add: batchSound_def onBatchHook_def)

lemma batchSound_hooks [simp]: "batchSound served (w\<lparr>batchHooks := H\<rparr>) = batchSound served w"
  by (simp add: batchSound_def)

lemma sound_startTask:
  assumes "batchSound served w" and "\<forall>ks \<in> set slots. slotOk served (batchPromises w) ks" and "keyed key q"
    and "startTask fresh (w, slots) (key, q) = (w', slots')"
  shows "batchSound served w' \<and> (\<forall>ks \<in> set slots'. slotOk served (batchPromises w') ks)"
proof (cases "if fresh then None else batchCache w key")
  case (Some v)
  then have "answersKey served key v" using assms(1) by (auto simp: batchSound_def split: if_splits)
  then show ?thesis using assms Some by (auto simp: startTask_def slotOk_def)
next
  case None
  let ?ps = "batchPromises w @ [(q, None)]"
  have new: "slotOk served ?ps (key, Pending (length (batchPromises w)))" using assms(3) by (simp add: slotOk_def)
  show ?thesis
  proof (cases "batchInFlight w key")
    case (Some n)
    then have "slotOk served (batchPromises w) (key, Pending n)" using assms(1) by (simp add: batchSound_def)
    then show ?thesis using assms None Some by (auto simp: startTask_def)
  next
    case inf: None
    have w': "w' = w\<lparr>batchPromises := ?ps, batchInFlight := (batchInFlight w)(key \<mapsto> length (batchPromises w))\<rparr>"
      "slots' = slots @ [(key, Pending (length (batchPromises w)))]"
      using assms(4) None inf by (simp_all add: startTask_def)
    show ?thesis
      using assms(1,2) new unfolding w' batchSound_def
      by (auto simp: nth_append less_Suc_eq intro: slotOk_append)
  qed
qed

lemma sound_startTasks:
  assumes "batchSound served w" and "\<forall>ks \<in> set slots. slotOk served (batchPromises w) ks" and "\<forall>(key, q) \<in> set ts. keyed key q"
    and "foldl (startTask fresh) (w, slots) ts = (w', slots')"
  shows "batchSound served w' \<and> (\<forall>ks \<in> set slots'. slotOk served (batchPromises w') ks)"
  using assms
proof (induction ts arbitrary: w slots)
  case (Cons t ts)
  obtain key q where t: "t = (key, q)" by (cases t)
  obtain w1 slots1 where s: "startTask fresh (w, slots) (key, q) = (w1, slots1)" by (cases "startTask fresh (w, slots) (key, q)")
  from sound_startTask [OF Cons.prems(1,2) _ s] Cons.prems(3) t
  have "batchSound served w1" "\<forall>ks \<in> set slots1. slotOk served (batchPromises w1) ks" by auto
  with Cons.IH [of w1 slots1] Cons.prems(3,4) t s show ?case by simp
qed simp

lemma sound_executeBatchReads:
  assumes "batchSound served w"
  shows "batchSound served (executeBatchReads i p force w)"
proof -
  let ?w = "onBatchHook i (\<lambda>h. h\<lparr>loading := True, hookError := None\<rparr>) w"
  obtain w1 slots where s: "foldl (startTask (force \<or> bpSkipCache p)) (?w, []) (batchTasks p) = (w1, slots)"
    by (cases "foldl (startTask (force \<or> bpSkipCache p)) (?w, []) (batchTasks p)")
  have "batchSound served w1 \<and> (\<forall>ks \<in> set slots. slotOk served (batchPromises w1) ks)"
    using assms batchTasks_keyed by (intro sound_startTasks [OF _ _ _ s]) auto
  then have "batchSound served (w1\<lparr>batchRuns := batchRuns w1 @ [\<lparr>brHook = i, brProps = p, brSlots = slots, brOver = False\<rparr>]\<rparr>)"
    by (auto simp: batchSound_def)
  with assms s show ?thesis by (simp add: executeBatchReads_def)
qed

lemma sound_settle:
  assumes "batchSound served w" and "n < length (batchPromises w)" and "batchPromises w ! n = (q, None)"
    and "\<And>v. r = Inr v \<Longrightarrow> served q v"
  shows "batchSound served (w\<lparr>batchPromises := (batchPromises w)[n := (q, Some r)]\<rparr>)"
proof -
  have "slotOk served ((batchPromises w)[n := (q, Some r)]) ks" if "slotOk served (batchPromises w) ks" for ks
    using that assms(2,3) by (auto simp: slotOk_def nth_list_update split: prod.splits batch_slot.splits)
  then show ?thesis using assms by (auto simp: batchSound_def nth_list_update)
qed

lemma sound_setRun:
  assumes "batchSound served w" and "\<forall>ks \<in> set (brSlots run). slotOk served (batchPromises w) ks"
  shows "batchSound served (w\<lparr>batchRuns := (batchRuns w)[b := run]\<rparr>)"
  using assms by (auto simp: batchSound_def dest!: subsetD [OF set_update_subset_insert])

lemma sound_slots:
  "batchSound served w \<Longrightarrow> b < length (batchRuns w) \<Longrightarrow> \<forall>ks \<in> set (brSlots (batchRuns w ! b)). slotOk served (batchPromises w) ks"
  using nth_mem [of b "batchRuns w"] unfolding batchSound_def by blast

lemma sound_resumeTask:
  assumes w: "batchSound served w" and b: "b < length (batchRuns w)" "j < length (brSlots (batchRuns w ! b))"
    and s: "brSlots (batchRuns w ! b) ! j = (key, Pending n)" and r: "snd (batchPromises w ! n) = Some r"
  shows "batchSound served (resumeTask b j key r w)"
proof -
  let ?run = "batchRuns w ! b"
  have "slotOk served (batchPromises w) (key, Pending n)"
    using w nth_mem [OF b(1)] nth_mem [OF b(2)] s unfolding batchSound_def by metis
  then have v: "answersKey served key v" if "r = Inr v" for v
    using w r that by (auto simp: slotOk_def batchSound_def answersKey_def)
  have put: "\<forall>ks \<in> set ((brSlots ?run)[j := (key, x)]). slotOk served (batchPromises w) ks"
    if "slotOk served (batchPromises w) (key, x)" for x
    using sound_slots [OF w b(1)] that by (auto dest!: subsetD [OF set_update_subset_insert])
  have w1: "batchSound served (w\<lparr>batchInFlight := (batchInFlight w)(key := None)\<rparr>)"
    using w by (auto simp: batchSound_def)
  show ?thesis
  proof (cases r)
    case (Inl e)
    from sound_setRun [OF w1, of "?run\<lparr>brSlots := (brSlots ?run)[j := (key, Failed)], brOver := True\<rparr>" b] put [of Failed]
    show ?thesis by (simp add: resumeTask_def Let_def Inl slotOk_def)
  next
    case (Inr v)
    have "batchSound served (w\<lparr>batchInFlight := (batchInFlight w)(key := None), batchCache := (batchCache w)(key \<mapsto> v)\<rparr>)"
      using w1 v [OF Inr] by (auto simp: batchSound_def)
    from sound_setRun [OF this, of "?run\<lparr>brSlots := (brSlots ?run)[j := (key, Ready v)]\<rparr>" b] put [of "Ready v"] v [OF Inr]
    show ?thesis by (simp add: resumeTask_def Let_def Inr slotOk_def)
  qed
qed

lemma sound_finishBatch:
  assumes "batchSound served w" and "b < length (batchRuns w)"
  shows "batchSound served (finishBatch b w)"
  using sound_setRun [OF assms(1), of "(batchRuns w ! b)\<lparr>brOver := True\<rparr>" b] sound_slots [OF assms]
  by (simp add: finishBatch_def Let_def)

lemma sound_clearBatch: "batchSound served w \<Longrightarrow> batchSound served (clearBatchReadsCache pre w)"
  by (auto simp: batchSound_def clearBatchReadsCache_def split: option.splits list.splits if_splits)

lemma batchSound_step:
  assumes "batch_step served w w'" and "batchSound served w"
  shows "batchSound served w'"
  using assms by cases (simp_all add: sound_executeBatchReads sound_clearBatch sound_settle sound_resumeTask sound_finishBatch)

text \<open>
  In every order of batches, answers, rejections and clearing: what the shared cache holds for a key is an answer to a
  read with that key, so never the balance of another address or another role. The client of the read is not part of
  the key.
\<close>

theorem batch_cache_answers_key:
  assumes "batch_steps served emptyBatchPage w" and "batchCache w key = Some v"
  shows "\<exists>q. keyed key q \<and> served q v"
proof -
  have "batchSound served w" using assms(1)
  proof induction
    case base
    then show ?case by (simp add: batchSound_def emptyBatchPage_def)
  next
    case (step u v)
    then show ?case using batchSound_step by blast
  qed
  then show ?thesis using assms(2) by (simp add: batchSound_def answersKey_def)
qed

definition supplyOf :: "nat \<Rightarrow> batch_props" where
  "supplyOf c = \<lparr>bpClient = Some c, bpQueries = None, bpBalance = None, bpSupply = True, bpMetadata = False, bpRoles = None,
     bpEnabled = True, bpPollInterval = None, bpSkipCache = False\<rparr>"

lemmas batch_evals = executeBatchReads_def startTask_def resumeTask_def finishBatch_def onBatchHook_def whenMounted_def initialBatch_def
  batchTasks_def asksNothing_def truthy_def supplyOf_def emptyBatchPage_def assembleBatch_def assembleStep_def readResults_def
  startsWith_def map_filter_simps Let_def

text \<open>
  Two components with clients of two contracts: the second shows the total supply of the first one's token, and its own
  contract is never asked.
\<close>

theorem batch_cache_mixes_contracts:
  "\<exists>w1 w2 w3 h.
     w1 = executeBatchReads 0 (supplyOf 1) False (emptyBatchPage\<lparr>batchHooks := [0 \<mapsto> initialBatch (supplyOf 1), 1 \<mapsto> initialBatch (supplyOf 2)]\<rparr>) \<and>
     batchPromises w1 = [(BatchSupply 1, None)] \<and>
     w2 = resumeTask 0 0 ''totalSupply'' (Inr (NBig 1000)) (w1\<lparr>batchPromises := [(BatchSupply 1, Some (Inr (NBig 1000)))]\<rparr>) \<and>
     w3 = finishBatch 1 (executeBatchReads 1 (supplyOf 2) False w2) \<and>
     batchHooks w3 1 = Some h \<and> hdata h = Some [''totalSupply'' \<mapsto> Plain (NBig 1000)] \<and>
     batchPromises w3 = [(BatchSupply 1, Some (Inr (NBig 1000)))]"
  by (simp add: batch_evals)

end
