(* ===== verification/Spec2Isabelle.thy ===== *)
theory Spec2Isabelle
  imports Indexer MockToken MockVault Api Multisig Migration TokenReads VaultClient WrapperClient
    Apy CliDeploy CliOps Orchestrator ReactStatus ReactWrites ReactSubmission ReactCaches
begin

text \<open>
  A verification development for bc-forge, a token platform on Soroban: an indexer that follows
  the ledger and serves what it found, an SDK that builds and submits contract calls and decodes
  events, command line tools for administration and migration, and React hooks with a wallet
  session. The development models the TypeScript parts; the contracts themselves are Rust and
  outside it.

  \<^bold>\<open>Parts of the program and how they interact.\<close>

  \<^item> The indexer (\<^verbatim>\<open>src/indexer\<close>) polls a Soroban RPC node for ledgers and events
    (\<^verbatim>\<open>indexer.ts\<close>), checks that the ledgers continue the ones it has (\<^verbatim>\<open>cursor.ts\<close>), stores every
    event as a row and keeps derived holder balances and a supply history in the same
    transaction (\<^verbatim>\<open>aggregates.ts\<close>, on the arithmetic of \<^verbatim>\<open>ledger.ts\<close>), publishes stored events to
    listeners and webhooks (\<^verbatim>\<open>events.ts\<close>) and answers queries over HTTP (\<^verbatim>\<open>api.ts\<close>).
  \<^item> The SDK (\<^verbatim>\<open>src/sdk\<close>) builds, signs, submits and retries transactions (\<^verbatim>\<open>utils.ts\<close>), turns
    failure texts into typed errors (\<^verbatim>\<open>errors.ts\<close>), decodes and polls events (\<^verbatim>\<open>events.ts\<close>) and has
    in-memory mocks of the token and the vault (\<^verbatim>\<open>mockClient.ts\<close>).
  \<^item> The SDK's clients (\<^verbatim>\<open>client.ts\<close>, \<^verbatim>\<open>vaultClient.ts\<close>, \<^verbatim>\<open>wrapperClient.ts\<close>) turn method calls into
    queries and submissions of the functions above, with a read cache and retries of their own;
    \<^verbatim>\<open>apy.ts\<close> projects yields from share prices.
  \<^item> The command line (\<^verbatim>\<open>src/cli\<close>) resolves networks, contract aliases and account names from files
    (\<^verbatim>\<open>network.ts\<close>, \<^verbatim>\<open>utils\<close>), runs the multisig ceremony, deploys, exports, upgrades and rolls back
    contracts and checks deployments (\<^verbatim>\<open>commands\<close>), and initialises and links contracts through the SDK
    (\<^verbatim>\<open>orchestrator\<close>); \<^verbatim>\<open>src/migrations\<close> moves legacy contracts to role based access.
  \<^item> The React package (\<^verbatim>\<open>src/react\<close>) connects browser wallets through the SDK's adapters
    (\<^verbatim>\<open>sdk/src/adapters\<close>), remembers the session (\<^verbatim>\<open>wallets\<close>), keeps the wallet state machine that gives
    the clients their signer (\<^verbatim>\<open>context.tsx\<close>), and reads and writes the contracts from hooks
    (\<^verbatim>\<open>hooks.ts\<close>).

  \<^bold>\<open>Conventions.\<close> A string is a list of characters below 256, a bigint an \<open>int\<close>, \<^verbatim>\<open>undefined\<close> and
  \<^verbatim>\<open>null\<close> are \<open>None\<close>, a plain object is a map (its keys are addresses or names, never property
  names of \<^verbatim>\<open>Object.prototype\<close>). An async function is an effect \<open>('e, 's, 'a) act\<close>: a function from
  a state to a result (\<open>Inl\<close> the error thrown, \<open>Inr\<close> the value) and the state it leaves behind,
  also when it throws. Where several calls of one component are in flight at once (the React
  package), an async function is instead a state-passing program that stops at every \<^verbatim>\<open>await\<close> with a
  query and a continuation (\<open>ReactAsync\<close>); a step relation starts entry points and answers waiting
  calls in any order. Code outside the repository (Prisma, the Stellar SDK and the RPC node, the
  URL parser, the file system) is a record of operations that the model takes as an argument;
  what the code relies on is a locale or a named hypothesis, and a concrete instance shows that
  it can hold. Logging, timers and console output are left out.

  \<^bold>\<open>Theories.\<close>

  \<^item> \<open>Forge_Prelude\<close>, \<open>Forge_Effects\<close>: strings, rendering and parsing of bigints (inverse to each
    other), truncating division, sums over maps; errors, native values, effects and their
    invariants (\<open>keeps\<close>).
  \<^item> \<open>Ledger\<close> (\<^verbatim>\<open>ledger.ts\<close>): deltas of events and the fold over a stream; closed form,
    conservation of the supply, independence of the order (C1, C2).
  \<^item> \<open>Indexer_Db\<close> (\<^verbatim>\<open>schema.prisma\<close>): the tables as a record, the client's operations, the locales
    \<open>aggregate_store\<close> and \<open>prisma_client\<close> with the laws the indexer needs, and the reference
    client that satisfies them.
  \<^item> \<open>Aggregates\<close> (\<^verbatim>\<open>aggregates.ts\<close>): the persisted aggregates refine the in-memory ledger (C4),
    the supply history.
  \<^item> \<open>Cursor\<close> (\<^verbatim>\<open>cursor.ts\<close>): the parent-chain check, what a reconciliation rewinds (C7) and
    what it leaves.
  \<^item> \<open>Indexer\<close> (\<^verbatim>\<open>indexer.ts\<close>): storing an event is all or nothing (C9) and happens once per
    transaction hash (C10), holders stay consistent with the rows (C11), a round of the loop commits
    its range of ledgers whole and in order (C17);
    after a reorganisation the loop does not progress (C13) and re-indexed events count
    twice. The endless loop is a recursion over the list of the node's answers.
  \<^item> \<open>Amounts\<close> (\<^verbatim>\<open>formatAtomicAmount\<close>): the exact layout of a rendered amount (C15). \<open>JsNumber\<close>: the
    \<^verbatim>\<open>Number\<close> conversion with rounding to doubles.
  \<^item> \<open>Sdk_Types\<close>: types of \<^verbatim>\<open>client.ts\<close>, and the locale \<open>fungible_ledger\<close> that both mocks
    interpret. \<open>MockToken\<close> and \<open>MockVault\<close> (\<^verbatim>\<open>mockClient.ts\<close>): supply and balances (C16),
    transfers, allowances (C18), roles; vault consistency (C20), share price (C21),
    no profit from rounding (C22). All statements quantify over arbitrary sequences of calls.
  \<^item> \<open>SdkErrors\<close> (\<^verbatim>\<open>errors.ts\<close>): the catalogue (C23) and the parser. \<open>SdkEvents\<close>
    (\<^verbatim>\<open>events.ts\<close>): event layouts (C25) and the listeners as state machines over timer, answer,
    failure and unsubscribe, under the locales \<open>listener\<close> and \<open>once_listener\<close>: at most
    one call per transaction and a start ledger that only grows (C26), none after unsubscribing,
    complete delivery.
  \<^item> \<open>SubmitTx\<close> (\<^verbatim>\<open>utils.ts\<close>): fees stay within the cap (C29), the work is bounded (C30), final
    answers are final. The retry loop recurses on the attempts left, the poll loop on the
    30 polls the code allows, so both are total.
  \<^item> \<open>Api\<close> (\<^verbatim>\<open>api.ts\<close>, \<^verbatim>\<open>rateLimit.ts\<close>, \<^verbatim>\<open>events.ts\<close> of the indexer): the rate limiter
    and the token check before every route (C32), page sizes, completeness of pagination under the
    documented laws of \<^verbatim>\<open>findMany\<close>, the locale \<open>prisma_table\<close> (C34), filters, webhook delivery.
    Following pages uses fuel; more than the number of rows is enough.
  \<^item> \<open>Multisig\<close> (\<^verbatim>\<open>multisig.ts\<close>): proposal ids, at most one submission per step.
    \<open>Migration\<close> (\<^verbatim>\<open>rbac-migration.ts\<close>): success is verified (C39), at most one transaction.
  \<^item> \<open>ClientBase\<close>: what the three contract clients share, the record \<open>ClientEnv\<close> of SDK and node
    operations, the retry loop, simulation and settlement of a response. \<open>TokenClient\<close> (\<^verbatim>\<open>client.ts\<close>):
    every method; writes need a signer (C8), batches over every order in which their tasks settle
    (C19), a write that resolves has succeeded (C35), a write that times out is sent again. \<open>TokenReads\<close>: cached reads are fresh over
    any life of the client, a step relation on its states (C6), role checks fail closed (C36), verified
    states match. \<open>VaultClient\<close> and \<open>WrapperClient\<close>: the methods of the vault and wrapper clients;
    a deposit the contract rejects is sent again.
  \<^item> \<open>Apy\<close> (\<^verbatim>\<open>apy.ts\<close>): compounding, snapshots and the time-weighted yield as a geometric link (C38).
  \<^item> \<open>CliNetwork\<close> (\<^verbatim>\<open>network.ts\<close>): presets, aliases, precedence of options. \<open>CliRegistry\<close>
    (\<^verbatim>\<open>deployments.ts\<close>, \<^verbatim>\<open>registry.ts\<close>): atomic writes as the trace of the file system after every
    system call, each of which may fail (C40), and the alias registry (C3). \<open>CliConfig\<close>
    (\<^verbatim>\<open>config-parser.ts\<close>, \<^verbatim>\<open>config.ts\<close>, \<^verbatim>\<open>address-book.ts\<close>): validation, precedence, the address book
    (C27).
  \<^item> \<open>CliDeploy\<close> (\<^verbatim>\<open>deploy.ts\<close>, \<^verbatim>\<open>export-deployments.ts\<close>): the deployment pipeline over an external
    program; its export drops the registry. \<open>CliUpgrade\<close> (\<^verbatim>\<open>upgrade.ts\<close>, \<^verbatim>\<open>upgrade-history.ts\<close>,
    \<^verbatim>\<open>soroban-tx.ts\<close>): upgrades and their history; polling stops at the deadline, as an option-valued
    loop. \<open>CliOps\<close>: doctor, status, hash verification, pause, batch mint, bindings, project
    initialisation, smoke test and the RPC wrapper.
  \<^item> \<open>Orchestrator\<close> (\<^verbatim>\<open>orchestrator/*.ts\<close>): initialising the super admin and linking contracts on the
    modelled token client; the report does not depend on the node.

  \<^item> \<open>ReactAsync\<close>: programs, waiting calls, instances of a hook and the invariant rules; the state every
    read hook has, and the locale \<open>guarded_hook\<close> of the hooks that number their requests. \<open>JsRegex\<close>: regular expressions as a datatype with a matcher that is proved
    equal to the language. \<open>JsJson\<close>: strings and objects of \<^verbatim>\<open>JSON.stringify\<close> and \<^verbatim>\<open>JSON.parse\<close>.
  \<^item> \<open>ReactUtils\<close> (\<^verbatim>\<open>utils.ts\<close> and the helpers of \<^verbatim>\<open>hooks.ts\<close>): amounts, wallet errors, the RBAC
    report, vesting; decoding of transaction errors agrees with the SDK's parser (C24).
  \<^item> \<open>WalletStore\<close> (\<^verbatim>\<open>storage.ts\<close>, \<^verbatim>\<open>detection.ts\<close>): the store of the page, where every access may be
    blocked or fail; a saved session is the one that is loaded (C37); detection and the Albedo
    script. \<open>WalletAdapters\<close> (\<^verbatim>\<open>sdk/src/adapters\<close>): the six adapters, all of
    which interpret the locale \<open>wallet_adapter\<close>.
  \<^item> \<open>WalletMachine\<close> (\<^verbatim>\<open>context.tsx\<close>): networks, the reducer and the effects of the wallet provider. In
    every interleaving without a switch of the network the clients sign with the adapter that is shown
    (C14), and a wallet that was disconnected stays so (C5) unless the hardware check is pending.
  \<^item> \<open>ReactReads\<close> and \<open>ReactStatus\<close> (\<^verbatim>\<open>hooks.ts\<close>): the hooks that read. Answers of the guarded ones
    belong to the last request, of the last render or of a kept refetch function (C33); for the others it is shown what they keep and what they mix up.
  \<^item> \<open>ReactCaches\<close> (\<^verbatim>\<open>hooks.ts\<close>): the two hooks with module-level caches, as steps of a page with any
    number of components; what the caches hold was answered for their keys, and a token is asked for
    once at a time; where keys and contracts part, closed runs show it.
  \<^item> \<open>ReactWrites\<close> (\<^verbatim>\<open>hooks.ts\<close>): the hooks that write; nothing is sent unless the wallet was shown as
    connected. \<open>ReactSubmission\<close> (\<^verbatim>\<open>useTransactionSubmission\<close>): simulation, signature, sending, polling
    and retries as one program; sends are bounded (C28), a superseded run is silent (C31), what is
    shown as confirmed has succeeded (C12). The polling loop recurses on the polls allowed and the
    attempt loop on the attempts left, so both are total.

  \<^bold>\<open>Not modelled.\<close> Rendering of the React components and screens, and the plumbing of contexts
  (no state beyond the hooks); generated bindings; the HTTP server
  shell, health probes, metrics and logging (I/O); how the rate limiter counts requests (a
  package, whose verdict is a parameter); the SSE stream (socket I/O); shell completions, prompts, option registration and console
  output of the command line; the contracts in Rust.
\<close>

end
